(* ===== verification/Prelude.thy ===== *)
theory Prelude
  imports Main "HOL-Library.List_Lexorder" "HOL-Library.Char_ord"
begin

text \<open>
  Shared vocabulary of the development: Python strings and their rendering, the readings a
  method takes from its environment (clock, random identifiers, hash), the exceptions of the
  store as values, SQLite tables as lists of rows with the statements the source issues on
  them, and transactions. The lemmas about tables are collected in \<open>table_simps\<close>; the
  locale \<open>keyed_table\<close> is the interface every table with a primary key is used through.
\<close>

named_theorems table_simps \<open>what SQL statements do to lookups, keys and sizes\<close>
named_theorems op_defs \<open>definitions of the store operations, unfolded together\<close>

section \<open>Strings\<close>

text \<open>\<open>str.isspace\<close> on the code points below 256.\<close>

definition py_isspace :: "char \<Rightarrow> bool" where
  "py_isspace c = (let n = (of_char c :: int) in
     (9 \<le> n \<and> n \<le> 13) \<or> (28 \<le> n \<and> n \<le> 32) \<or> n = 133 \<or> n = 160)"

definition py_strip :: "string \<Rightarrow> string" where
  "py_strip s = rev (dropWhile py_isspace (rev (dropWhile py_isspace s)))"

fun str_of_nat :: "nat \<Rightarrow> string" where
  "str_of_nat n = (if n < 10 then [char_of (48 + n)]
                   else str_of_nat (n div 10) @ [char_of (48 + n mod 10)])"

declare str_of_nat.simps [simp del]

definition str_of_int :: "int \<Rightarrow> string" where
  "str_of_int i = (if i < 0 then ''-'' @ str_of_nat (nat (- i)) else str_of_nat (nat i))"

text \<open>The digits of a number, evaluated on integers.\<close>

function int_digits :: "int \<Rightarrow> string" where
  "int_digits i = (if i < 10 then [char_of (48 + i)]
                   else int_digits (i div 10) @ [char_of (48 + i mod 10)])"
  by auto
termination by (relation "measure nat") auto

declare int_digits.simps [simp del]

lemma int_digits_nat: "int_digits (int n) = str_of_nat n"
proof (induction n rule: str_of_nat.induct)
  case (1 n)
  have c: "char_of (48 + int m) = char_of (48 + m)" for m
    using char_of_nat [where 'a = int and n = "48 + m"] by simp
  show ?case
  proof (cases "n < 10")
    case True
    then show ?thesis by (simp add: int_digits.simps str_of_nat.simps [of n] c)
  next
    case False
    then show ?thesis
      using 1 c [of "n mod 10"]
      by (simp add: int_digits.simps [of "int n"] str_of_nat.simps [of n] zdiv_int zmod_int)
  qed
qed

lemma str_of_nat_code [code]: "str_of_nat n = int_digits (int n)"
  by (simp add: int_digits_nat)

lemma str_of_int_code [code]: "str_of_int i = (if i < 0 then ''-'' @ int_digits (- i) else int_digits i)"
  by (simp add: str_of_int_def int_digits_nat [symmetric])

fun str_join :: "string \<Rightarrow> string list \<Rightarrow> string" where
  "str_join sep [] = ''''"
| "str_join sep [x] = x"
| "str_join sep (x # y # ys) = x @ sep @ str_join sep (y # ys)"

text \<open>\<open>repr\<close> of a tuple of strings that contain no quote, as f-strings print it.\<close>

definition py_repr_tuple :: "string list \<Rightarrow> string" where
  "py_repr_tuple xs =
     (let q = (\<lambda>x. [CHR 0x27] @ x @ [CHR 0x27]) in
      case xs of [] \<Rightarrow> ''()''
      | [x] \<Rightarrow> ''('' @ q x @ '',)''
      | _ \<Rightarrow> ''('' @ str_join '', '' (map q xs) @ '')'')"

lemma py_strip_Nil [simp]: "py_strip [] = []"
  by (simp add: py_strip_def)

lemma dropWhile_fixed: "(xs = [] \<or> \<not> p (hd xs)) \<Longrightarrow> dropWhile p xs = xs"
  by (cases xs) auto

lemma hd_dropWhile_rev:
  assumes "xs = [] \<or> \<not> p (hd xs)"
  shows "let ys = rev (dropWhile p (rev xs)) in ys = [] \<or> \<not> p (hd ys)"
proof (cases "dropWhile p (rev xs)")
  case Nil
  then show ?thesis by simp
next
  case (Cons y ys)
  obtain zs where zs: "rev xs = zs @ dropWhile p (rev xs)"
    by (metis takeWhile_dropWhile_id)
  then have "xs = rev (dropWhile p (rev xs)) @ rev zs"
    by (metis rev_append rev_rev_ident)
  with Cons have "hd xs = hd (rev (dropWhile p (rev xs)))" and "xs \<noteq> []"
    by (metis hd_append2 list.distinct(1) rev_is_Nil_conv, auto)
  with assms show ?thesis by (simp add: Let_def)
qed

text \<open>Stripping is idempotent.\<close>

lemma py_strip_strip [simp]: "py_strip (py_strip s) = py_strip s"
proof -
  let ?p = py_isspace
  let ?a = "dropWhile ?p s"
  let ?b = "rev (dropWhile ?p (rev ?a))"
  have "?a = [] \<or> \<not> ?p (hd ?a)"
    using hd_dropWhile [of ?p s] by blast
  then have "?b = [] \<or> \<not> ?p (hd ?b)"
    using hd_dropWhile_rev [of ?a ?p] by (simp add: Let_def)
  then have b: "dropWhile ?p ?b = ?b"
    by (rule dropWhile_fixed)
  have "dropWhile ?p (rev ?b) = rev ?b"
    by (simp add: dropWhile_idem)
  with b show ?thesis by (simp add: py_strip_def)
qed

section \<open>The environment of a call\<close>

text \<open>
  What a method reads from outside the database: \<open>utc e k\<close> is the text of its
  \<open>k\<close>-th call of \<open>_utc_now()\<close>, \<open>now_ms e k\<close> its \<open>k\<close>-th \<open>_utc_now_ms()\<close>, \<open>uuid e k\<close>
  its \<open>k\<close>-th random identifier; \<open>sha256\<close> is the hexadecimal digest of
  \<open>hashlib.sha256\<close>. Nothing is assumed about them: two readings may differ, a clock may
  go backwards and an identifier may repeat.
\<close>

record env =
  utc :: "int \<Rightarrow> string"
  now_ms :: "int \<Rightarrow> int"
  uuid :: "int \<Rightarrow> string"
  sha256 :: "string \<Rightarrow> string"

text \<open>The environment seen by a callee after its caller has taken \<open>k\<close> readings.\<close>

definition later :: "int \<Rightarrow> env \<Rightarrow> env" where
  "later k e = e\<lparr>utc := (\<lambda>n. utc e (n + k)), now_ms := (\<lambda>n. now_ms e (n + k)),
                uuid := (\<lambda>n. uuid e (n + k))\<rparr>"

section \<open>Exceptions as values\<close>

text \<open>
  \<open>DuplicateTaskError\<close> and \<open>InvalidTransitionError\<close> are subclasses of \<open>TaskStoreError\<close>;
  \<open>IntegrityError\<close> is SQLite's, raised by a violated key; \<open>PyError\<close> is any other Python
  exception, with the name of its class.
\<close>

datatype store_error =
    TaskStoreError string
  | DuplicateTaskError string
  | InvalidTransitionError string
  | IntegrityError string
  | PyError string string

type_synonym 'a outcome = "store_error + 'a"

text \<open>\<open>str(exc)\<close>.\<close>

fun error_text :: "store_error \<Rightarrow> string" where
  "error_text (TaskStoreError m) = m"
| "error_text (DuplicateTaskError m) = m"
| "error_text (InvalidTransitionError m) = m"
| "error_text (IntegrityError m) = m"
| "error_text (PyError _ m) = m"

text \<open>\<open>type(exc).__name__\<close>.\<close>

fun error_class :: "store_error \<Rightarrow> string" where
  "error_class (TaskStoreError _) = ''TaskStoreError''"
| "error_class (DuplicateTaskError _) = ''DuplicateTaskError''"
| "error_class (InvalidTransitionError _) = ''InvalidTransitionError''"
| "error_class (IntegrityError _) = ''IntegrityError''"
| "error_class (PyError c _) = c"

text \<open>What an \<open>except TaskStoreError\<close> clause catches.\<close>

fun is_store_error :: "store_error \<Rightarrow> bool" where
  "is_store_error (IntegrityError _) = False"
| "is_store_error (PyError _ _) = False"
| "is_store_error _ = True"

text \<open>
  \<open>BEGIN IMMEDIATE\<close> \<dots> \<open>COMMIT\<close>: a body that raises is rolled back to the database the
  transaction began with; an exception that is not a \<open>TaskStoreError\<close> is re-raised as one,
  with a text made from its own.
\<close>

definition transact :: "(string \<Rightarrow> string) \<Rightarrow> 's \<Rightarrow> 'a outcome \<times> 's \<Rightarrow> 'a outcome \<times> 's" where
  "transact wrap s0 r =
     (case r of
        (Inr x, s) \<Rightarrow> (Inr x, s)
      | (Inl e, s) \<Rightarrow>
          (Inl (if is_store_error e then e else TaskStoreError (wrap (error_text e))), s0))"

lemma transact_simps [simp]:
  "transact w s0 (Inr x, s) = (Inr x, s)"
  "transact w s0 (Inl e, s) =
     (Inl (if is_store_error e then e else TaskStoreError (w (error_text e))), s0)"
  by (simp_all add: transact_def)

text \<open>A failed transaction leaves no trace.\<close>

lemma transact_error: "transact w s0 r = (Inl e, s) \<Longrightarrow> s = s0"
  by (auto simp: transact_def split: prod.splits sum.splits)

lemma transact_ok: "transact w s0 r = (Inr x, s) \<longleftrightarrow> r = (Inr x, s)"
  by (auto simp: transact_def split: prod.splits sum.splits)

lemma transact_store_error: "transact w s0 r = (Inl e, s) \<Longrightarrow> is_store_error e"
  by (auto simp: transact_def split: prod.splits sum.splits if_splits)

text \<open>
  One statement after another outside a transaction: an exception stops the sequence and
  keeps what has been written so far.
\<close>

definition andthen :: "'a outcome \<times> 's \<Rightarrow> ('a \<Rightarrow> 's \<Rightarrow> 'b outcome \<times> 's) \<Rightarrow> 'b outcome \<times> 's" where
  "andthen r k = (case r of (Inl e, s) \<Rightarrow> (Inl e, s) | (Inr x, s) \<Rightarrow> k x s)"

text \<open>Unfolded in evaluations, so that a continuation waits for the result before it.\<close>

declare andthen_def [code_unfold]

lemma andthen_simps [simp]:
  "andthen (Inl e, s) k = (Inl e, s)"
  "andthen (Inr x, s) k = k x s"
  by (simp_all add: andthen_def)

lemma andthen_ok:
  "andthen r k = (Inr y, s') \<longleftrightarrow> (\<exists>x s. r = (Inr x, s) \<and> k x s = (Inr y, s'))"
  by (auto simp: andthen_def split: prod.splits sum.splits)

text \<open>A property of states that both parts of a sequence keep is kept by the sequence.\<close>

lemma andthen_state:
  assumes "P (snd r)" and "\<And>x s. r = (Inr x, s) \<Longrightarrow> P s \<Longrightarrow> P (snd (k x s))"
  shows "P (snd (andthen r k))"
  using assms by (cases r; cases "fst r") (auto simp: andthen_def)

section \<open>Tables\<close>

text \<open>
  A table is the list of its rows in insertion order, which for the tables with an
  \<open>AUTOINCREMENT\<close> column \<open>seq\<close> is the order of \<open>seq\<close>. \<open>fetchone()\<close> of a selection is
  \<open>find\<close>, \<open>UPDATE \<dots> WHERE\<close> is \<open>sql_update\<close>, its \<open>rowcount\<close> is \<open>sql_count\<close>, and an
  \<open>INSERT\<close> fails on a row that violates a key.
\<close>

definition sql_update :: "('r \<Rightarrow> bool) \<Rightarrow> ('r \<Rightarrow> 'r) \<Rightarrow> 'r list \<Rightarrow> 'r list" where
  "sql_update p f t = map (\<lambda>r. if p r then f r else r) t"

definition sql_count :: "('r \<Rightarrow> bool) \<Rightarrow> 'r list \<Rightarrow> nat" where
  "sql_count p t = length (filter p t)"

definition sql_sum :: "('r \<Rightarrow> int) \<Rightarrow> ('r \<Rightarrow> bool) \<Rightarrow> 'r list \<Rightarrow> int" where
  "sql_sum f p t = sum_list (map f (filter p t))"

definition sql_insert :: "('r \<Rightarrow> 'r \<Rightarrow> bool) \<Rightarrow> string \<Rightarrow> 'r \<Rightarrow> 'r list \<Rightarrow> 'r list outcome" where
  "sql_insert clash msg r t =
     (if list_ex (clash r) t then Inl (IntegrityError msg) else Inr (t @ [r]))"

text \<open>
  \<open>ORDER BY\<close>: ties keep insertion order. SQL leaves the order of ties open; no theorem
  depends on it.
\<close>

definition order_asc :: "('r \<Rightarrow> 'k::linorder) \<Rightarrow> 'r list \<Rightarrow> 'r list" where
  "order_asc k t = sort_key k t"

definition order_desc :: "('r \<Rightarrow> 'k::linorder) \<Rightarrow> 'r list \<Rightarrow> 'r list" where
  "order_desc k t = rev (sort_key k (rev t))"

text \<open>\<open>LIMIT lim OFFSET off\<close>: a negative limit is no limit.\<close>

definition sql_limit :: "int \<Rightarrow> int \<Rightarrow> 'r list \<Rightarrow> 'r list" where
  "sql_limit lim off t =
     (let u = drop (nat off) t in if lim < 0 then u else take (nat lim) u)"

text \<open>\<open>max(1, min(limit, n))\<close>, the clamp every listing applies to its limit.\<close>

definition clamp_limit :: "int \<Rightarrow> int \<Rightarrow> nat" where
  "clamp_limit n lim = nat (max 1 (min lim n))"

lemma set_order_asc [simp]: "set (order_asc k t) = set t"
  by (simp add: order_asc_def)

lemma set_order_desc [simp]: "set (order_desc k t) = set t"
  by (simp add: order_desc_def)

lemma order_desc_Nil [simp]: "order_desc k t = [] \<longleftrightarrow> t = []"
  by (metis set_order_desc set_empty)

lemma order_desc_hd: "order_desc k t = x # xs \<Longrightarrow> x \<in> set t"
  by (metis set_order_desc list.set_intros(1))

lemma clamp_limit_bounds: "1 \<le> n \<Longrightarrow> 1 \<le> clamp_limit n lim \<and> int (clamp_limit n lim) \<le> n"
  by (auto simp: clamp_limit_def)

lemma sql_update_simps [table_simps]:
  "sql_update p f [] = []"
  "sql_update p f (r # t) = (if p r then f r else r) # sql_update p f t"
  "sql_update p f (t @ u) = sql_update p f t @ sql_update p f u"
  by (simp_all add: sql_update_def)

lemma length_sql_update [simp]: "length (sql_update p f t) = length t"
  by (simp add: sql_update_def)

lemma set_sql_update: "set (sql_update p f t) = (\<lambda>r. if p r then f r else r) ` set t"
  by (simp add: sql_update_def)

lemma sql_update_none: "(\<And>r. r \<in> set t \<Longrightarrow> \<not> p r) \<Longrightarrow> sql_update p f t = t"
  by (induction t) (auto simp: sql_update_def)

text \<open>An update that keeps a column keeps that column's list of values.\<close>

lemma map_sql_update: "(\<And>r. p r \<Longrightarrow> g (f r) = g r) \<Longrightarrow> map g (sql_update p f t) = map g t"
  by (induction t) (auto simp: sql_update_def)

lemma find_sql_update:
  assumes "\<And>r. p r \<Longrightarrow> k (f r) = k r"
  shows "find (\<lambda>r. k r = x) (sql_update p f t) =
         map_option (\<lambda>r. if p r then f r else r) (find (\<lambda>r. k r = x) t)"
  using assms by (induction t) (auto simp: sql_update_def)

lemma find_append: "find p (t @ u) = (case find p t of None \<Rightarrow> find p u | Some r \<Rightarrow> Some r)"
  by (induction t) auto

lemma find_SomeD: "find p t = Some r \<Longrightarrow> r \<in> set t \<and> p r"
  by (metis find_Some_iff nth_mem)

lemma find_NoneD: "find p t = None \<Longrightarrow> r \<in> set t \<Longrightarrow> \<not> p r"
  by (simp add: find_None_iff)

lemma find_distinct_key:
  "distinct (map k t) \<Longrightarrow> r \<in> set t \<Longrightarrow> k r = x \<Longrightarrow> find (\<lambda>r. k r = x) t = Some r"
  by (induction t) (force simp: image_iff)+

lemma sql_count_pos: "(0 < sql_count p t) = (\<exists>r \<in> set t. p r)"
  by (induction t) (auto simp: sql_count_def)

lemma sql_count_zero: "(sql_count p t = 0) = (\<forall>r \<in> set t. \<not> p r)"
  by (induction t) (auto simp: sql_count_def)

lemma sql_insert_cases:
  "sql_insert c m r t = Inr u \<longleftrightarrow> \<not> list_ex (c r) t \<and> u = t @ [r]"
  by (auto simp: sql_insert_def)

lemma sql_sum_simps [table_simps]:
  "sql_sum f p [] = 0"
  "sql_sum f p (r # t) = (if p r then f r else 0) + sql_sum f p t"
  "sql_sum f p (t @ u) = sql_sum f p t + sql_sum f p u"
  by (simp_all add: sql_sum_def)

lemma sql_sum_cong:
  "(\<And>r. r \<in> set t \<Longrightarrow> p r = q r) \<Longrightarrow> (\<And>r. r \<in> set t \<Longrightarrow> p r \<Longrightarrow> f r = g r)
   \<Longrightarrow> sql_sum f p t = sql_sum g q t"
  by (induction t) (auto simp: table_simps)

section \<open>The interface of a table with a key\<close>

text \<open>
  The store's methods use a table through its rows, the update of the database record at
  that table, and a key column. The laws a method's proof needs of a lookup by key after an
  \<open>INSERT\<close> and after an \<open>UPDATE\<close> follow from one fact: updating the table of the database
  changes exactly that table.
\<close>

locale keyed_table =
  fixes rows :: "'s \<Rightarrow> 'r list"
    and upd :: "('r list \<Rightarrow> 'r list) \<Rightarrow> 's \<Rightarrow> 's"
    and key :: "'r \<Rightarrow> 'k"
  assumes rows_upd: "rows (upd f s) = f (rows s)"
begin

lemma lookup_insert:
  "find (\<lambda>r. key r = x) (rows (upd (\<lambda>t. t @ [r]) s)) =
   (case find (\<lambda>r. key r = x) (rows s) of
      None \<Rightarrow> if key r = x then Some r else None | Some q \<Rightarrow> Some q)"
  by (simp add: rows_upd find_append split: option.split)

lemma lookup_update:
  assumes "\<And>r. p r \<Longrightarrow> key (f r) = key r"
  shows "find (\<lambda>r. key r = x) (rows (upd (sql_update p f) s)) =
         map_option (\<lambda>r. if p r then f r else r) (find (\<lambda>r. key r = x) (rows s))"
  using assms by (simp add: rows_upd find_sql_update)

lemma keys_update:
  assumes "\<And>r. p r \<Longrightarrow> key (f r) = key r"
  shows "map key (rows (upd (sql_update p f) s)) = map key (rows s)"
  using assms by (simp add: rows_upd map_sql_update)

lemma keys_insert: "map key (rows (upd (\<lambda>t. t @ [r]) s)) = map key (rows s) @ [key r]"
  by (simp add: rows_upd)

end

end
