(* ===== verification/Json.thy ===== *)
theory Json
  imports Prelude
begin

text \<open>
  JSON values as the control plane uses them: Python's \<open>None\<close>, booleans, integers, strings,
  lists and string-keyed dictionaries (the code stores no floats). The canonical text that is
  hashed (\<open>canonical_json\<close>, \<open>json_dumps_stable\<close>), and the guard that keeps secret-shaped
  fields out of durable state (\<open>reject_sensitive_keys\<close> in control_store.py).
  A column that holds JSON text holds, in the model, the value the text denotes.
\<close>

datatype json =
    JNull
  | JBool bool
  | JInt int
  | JStr string
  | JArr "json list"
  | JObj "(string \<times> json) list"

section \<open>Canonical text\<close>

definition hex_digit :: "int \<Rightarrow> char" where
  "hex_digit n = (if n < 10 then char_of (48 + n) else char_of (87 + n))"

definition json_escape_char :: "char \<Rightarrow> string" where
  "json_escape_char c =
     (let n = (of_char c :: int) in
      if n = 34 then [CHR 0x5C, c]
      else if n = 92 then [c, c]
      else if n = 10 then [CHR 0x5C, CHR ''n'']
      else if n = 13 then [CHR 0x5C, CHR ''r'']
      else if n = 9 then [CHR 0x5C, CHR ''t'']
      else if n = 12 then [CHR 0x5C, CHR ''f'']
      else if n = 8 then [CHR 0x5C, CHR ''b'']
      else if n < 32 then [CHR 0x5C] @ ''u00'' @ [hex_digit (n div 16), hex_digit (n mod 16)]
      else [c])"

definition json_quote :: "string \<Rightarrow> string" where
  "json_quote s = [CHR 0x22] @ concat (map json_escape_char s) @ [CHR 0x22]"

text \<open>\<open>json.dumps(v, sort_keys=True, separators=(",", ":"), ensure_ascii=False)\<close>\<close>

fun json_dumps :: "json \<Rightarrow> string" where
  "json_dumps JNull = ''null''"
| "json_dumps (JBool b) = (if b then ''true'' else ''false'')"
| "json_dumps (JInt i) = str_of_int i"
| "json_dumps (JStr s) = json_quote s"
| "json_dumps (JArr vs) = ''['' @ str_join '','' (map json_dumps vs) @ '']''"
| "json_dumps (JObj kvs) =
     ''{'' @ str_join '','' (map (\<lambda>(k, t). json_quote k @ '':'' @ t)
                (sort_key fst (map (\<lambda>(k, v). (k, json_dumps v)) kvs))) @ ''}''"

definition sha256_json :: "env \<Rightarrow> json \<Rightarrow> string" where
  "sha256_json e v = sha256 e (json_dumps v)"

text \<open>\<open>json.loads\<close> of the canonical text: the same value with sorted keys.\<close>

fun json_canon :: "json \<Rightarrow> json" where
  "json_canon (JArr vs) = JArr (map json_canon vs)"
| "json_canon (JObj kvs) = JObj (sort_key fst (map (\<lambda>(k, v). (k, json_canon v)) kvs))"
| "json_canon v = v"

section \<open>Secret-shaped fields\<close>

definition py_lower_char :: "char \<Rightarrow> char" where
  "py_lower_char c =
     (let n = (of_char c :: int) in
      if (65 \<le> n \<and> n \<le> 90) \<or> (192 \<le> n \<and> n \<le> 222 \<and> n \<noteq> 215) then char_of (n + 32) else c)"

definition py_lower :: "string \<Rightarrow> string" where
  "py_lower s = map py_lower_char s"

definition py_replace_char :: "char \<Rightarrow> char \<Rightarrow> string \<Rightarrow> string" where
  "py_replace_char a b s = map (\<lambda>c. if c = a then b else c) s"

text \<open>\<open>p in s\<close> on strings.\<close>

fun py_in :: "string \<Rightarrow> string \<Rightarrow> bool" where
  "py_in p [] = (p = [])"
| "py_in p (c # s) = (take (length p) (c # s) = p \<or> py_in p s)"

definition SENSITIVE_KEY_PARTS :: "string list" where
  "SENSITIVE_KEY_PARTS =
     [''secret'', ''token'', ''password'', ''authorization'', ''api_key'', ''apikey'']"

definition SAFE_NUMERIC_CONTROL_FIELDS :: "string list" where
  "SAFE_NUMERIC_CONTROL_FIELDS =
     [''max_token_units'', ''max_cost_micro_units'', ''per_task_token_reservation'',
      ''per_task_cost_reservation'']"

definition normalized_key :: "string \<Rightarrow> string" where
  "normalized_key k = py_replace_char (CHR ''-'') (CHR ''_'') (py_lower k)"

definition safe_numeric_key :: "string \<Rightarrow> bool" where
  "safe_numeric_key k = (normalized_key k \<in> set SAFE_NUMERIC_CONTROL_FIELDS)"

definition sensitive_key :: "string \<Rightarrow> bool" where
  "sensitive_key k = list_ex (\<lambda>p. py_in p (normalized_key k)) SENSITIVE_KEY_PARTS"

fun is_nonneg_int :: "json \<Rightarrow> bool" where
  "is_nonneg_int (JInt i) = (0 \<le> i)"
| "is_nonneg_int _ = False"

text \<open>\<open>None\<close> when the walk raises nothing, else the first exception.\<close>

fun reject_sensitive_keys :: "string \<Rightarrow> json \<Rightarrow> store_error option"
  and reject_items :: "string \<Rightarrow> (string \<times> json) list \<Rightarrow> store_error option"
  and reject_elems :: "string \<Rightarrow> nat \<Rightarrow> json list \<Rightarrow> store_error option" where
  "reject_sensitive_keys path (JObj kvs) = reject_items path kvs"
| "reject_sensitive_keys path (JArr vs) = reject_elems path 0 vs"
| "reject_sensitive_keys path _ = None"
| "reject_items path [] = None"
| "reject_items path ((k, child) # rest) =
     (if safe_numeric_key k then
        (if is_nonneg_int child then reject_items path rest
         else Some (TaskStoreError (''invalid_numeric_control_field:'' @ path @ ''.'' @ k)))
      else if sensitive_key k then
        Some (TaskStoreError (''sensitive_control_field_rejected:'' @ path @ ''.'' @ k))
      else case reject_sensitive_keys (path @ ''.'' @ k) child of
             Some err \<Rightarrow> Some err | None \<Rightarrow> reject_items path rest)"
| "reject_elems path i [] = None"
| "reject_elems path i (v # vs) =
     (case reject_sensitive_keys (path @ ''['' @ str_of_nat i @ '']'') v of
        Some err \<Rightarrow> Some err | None \<Rightarrow> reject_elems path (Suc i) vs)"

text \<open>Every field of a value, at any depth, with its child.\<close>

fun json_fields :: "json \<Rightarrow> (string \<times> json) list" where
  "json_fields (JObj kvs) = concat (map (\<lambda>(k, v). (k, v) # json_fields v) kvs)"
| "json_fields (JArr vs) = concat (map json_fields vs)"
| "json_fields _ = []"

definition field_ok :: "string \<times> json \<Rightarrow> bool" where
  "field_ok kc = (if safe_numeric_key (fst kc) then is_nonneg_int (snd kc)
                  else \<not> sensitive_key (fst kc))"

lemma field_ok_pair [simp]:
  "field_ok (k, c) = (if safe_numeric_key k then is_nonneg_int c else \<not> sensitive_key k)"
  by (simp add: field_ok_def)

lemma nonneg_int_no_fields: "is_nonneg_int v \<Longrightarrow> json_fields v = []"
  by (cases v) auto

lemma reject_iff_aux:
  "(reject_sensitive_keys path v = None) = list_all field_ok (json_fields v)"
  "(reject_items path kvs = None) = list_all field_ok (json_fields (JObj kvs))"
  "(reject_elems path i vs = None) = list_all field_ok (json_fields (JArr vs))"
  by (induction path v and path kvs and path i vs
      rule: reject_sensitive_keys_reject_items_reject_elems.induct)
    (auto simp: nonneg_int_no_fields split: option.splits)

text \<open>Only \<open>TaskStoreError\<close> is ever raised by the guard.\<close>

lemma reject_store_error_aux:
  "reject_sensitive_keys path v = Some err \<Longrightarrow> \<exists>m. err = TaskStoreError m"
  "reject_items path kvs = Some err \<Longrightarrow> \<exists>m. err = TaskStoreError m"
  "reject_elems path i vs = Some err \<Longrightarrow> \<exists>m. err = TaskStoreError m"
  by (induction path v and path kvs and path i vs
      rule: reject_sensitive_keys_reject_items_reject_elems.induct)
    (auto split: option.splits if_splits)

end
