(* ===== verification/Store_Schema.thy ===== *)
theory Store_Schema
  imports Json
begin

text \<open>
  The SQLite schema shared by \<open>TaskStore\<close> (run_store.py) and \<open>PlatformControlStore\<close>
  (control_store.py): one record per table row, with the columns of the \<open>CREATE TABLE\<close>
  statement, and the database as the record of all tables. Foreign keys are declared in the
  schema but not enforced (the connection never sets \<open>PRAGMA foreign_keys\<close>), so no insert
  checks them here either.
\<close>

section \<open>Tables of the task store\<close>

record task_row =
  t_id :: string
  t_title :: string
  t_repository :: string
  t_status :: string
  t_executor_kind :: string
  t_execution_id :: string
  t_model_profile_ref :: string
  t_binding_ref :: string
  t_permission_profile :: string
  t_policy_ref :: string
  t_workspace :: string
  t_branch :: string
  t_orchestration_mode :: string
  t_created_at :: string
  t_updated_at :: string
  t_failure_classification :: string
  t_failure_detail :: string
  t_validation_command_id :: string
  t_validation_exit_code :: "int option"
  t_validation_output_digest :: string
  t_idempotency_key :: string

record key_row =
  ik_key :: string
  ik_task_id :: string
  ik_title :: string
  ik_repository :: string
  ik_executor_kind :: string
  ik_created_at :: string

record event_row =
  ev_id :: string
  ev_task_id :: string
  ev_type :: string
  ev_timestamp :: string
  ev_title :: string
  ev_description :: string
  ev_raw_log :: string
  ev_metadata :: json

record changed_file_row =
  cf_task_id :: string
  cf_path :: string
  cf_status :: string
  cf_additions :: int
  cf_deletions :: int
  cf_diff_digest :: string

record evidence_row =
  evd_id :: string
  evd_task_id :: string
  evd_category :: string
  evd_label :: string
  evd_value :: string
  evd_status :: string
  evd_detail :: string
  evd_raw_json_digest :: string

record usage_row =
  uo_id :: string
  uo_task_id :: string
  uo_window_id :: string
  uo_claim_epoch :: int
  uo_execution_id :: string
  uo_role :: string
  uo_model_id :: string
  uo_provider_id :: string
  uo_source_kind :: string
  uo_source_id :: string
  uo_status :: string
  uo_input_units :: "int option"
  uo_output_units :: "int option"
  uo_reasoning_units :: "int option"
  uo_cache_read_units :: "int option"
  uo_cache_write_units :: "int option"
  uo_cost_micro_units :: "int option"
  uo_payload_digest :: string
  uo_created_at :: string

record run_row =
  dr_run_id :: string
  dr_task_id :: string
  dr_execution_id :: string
  dr_execution_authority_sha :: string
  dr_planning_sha :: string
  dr_repository_base_sha :: string
  dr_worktree_path :: string
  dr_worktree_head_sha :: string
  dr_worktree_prepared_at :: string
  dr_current_role :: string
  dr_role_attempt :: int
  dr_accepted_checkpoint :: string
  dr_planner_handoff_digest :: string
  dr_coder_product_diff_digest :: string
  dr_reviewer_handoff_digest :: string
  dr_partial_coder_diff_digest :: string
  dr_validation_command_id :: string
  dr_validation_exit_code :: "int option"
  dr_validation_output_digest :: string
  dr_lease_owner :: string
  dr_lease_epoch :: int
  dr_heartbeat_at_ms :: int
  dr_lease_expiry_ms :: int
  dr_checkpoint_db_path :: string
  dr_recovery_classification :: string
  dr_interrupted_at :: string
  dr_created_at :: string
  dr_updated_at :: string

record checkpoint_row =
  cp_checkpoint_id :: string
  cp_run_id :: string
  cp_checkpoint_name :: string
  cp_artifact_digest :: string
  cp_role_attempt :: int
  cp_created_at :: string

record external_op_row =
  xo_operation_id :: string
  xo_run_id :: string
  xo_task_id :: string
  xo_operation_key :: string
  xo_idempotency_key :: string
  xo_request_digest :: string
  xo_state :: string
  xo_external_operation_id :: string
  xo_result_state :: string
  xo_created_at :: string
  xo_updated_at :: string

section \<open>Tables of the control store\<close>

record goal_row =
  g_id :: string
  g_title :: string
  g_objective :: string
  g_repository :: string
  g_status :: string
  g_revision :: int
  g_spec_markdown :: string
  g_plan_markdown :: string
  g_tasks :: "json list"
  g_acceptance :: "string list"
  g_artifact_digest :: string
  g_executor_kind :: string
  g_orchestration_mode :: string
  g_binding_ref :: string
  g_policy_ref :: string
  g_window_id :: string
  g_idempotency_key :: string
  g_created_at :: string
  g_updated_at :: string

record link_row =
  gl_goal_id :: string
  gl_goal_revision :: int
  gl_plan_task_id :: string
  gl_task_id :: string
  gl_dependencies :: "string list"
  gl_seq :: int

record window_row =
  w_id :: string
  w_policy_id :: string
  w_policy_revision :: int
  w_policy_digest :: string
  w_owner_identity :: string
  w_confirmation :: string
  w_starts_at :: string
  w_expires_at :: string
  w_status :: string
  w_repositories :: "string list"
  w_capabilities :: "string list"
  w_max_concurrent_tasks :: int
  w_max_tasks :: int
  w_max_retries :: int
  w_tasks_started :: int
  w_tasks_completed :: int
  w_retries_used :: int
  w_max_token_units :: int
  w_max_cost_micro_units :: int
  w_per_task_token_reservation :: int
  w_per_task_cost_reservation :: int
  w_provider_quota_state :: string
  w_enforcement_class :: string
  w_observed_token_units :: int
  w_observed_cost_micro_units :: int
  w_unknown_observation_count :: int
  w_stop_reason :: string
  w_created_at :: string
  w_updated_at :: string

record receipt_row =
  rc_id :: string
  rc_window_id :: string
  rc_operation_type :: string
  rc_capability :: string
  rc_repository :: string
  rc_subject_id :: string
  rc_decision :: string
  rc_reason :: string
  rc_input_digest :: string
  rc_external_id :: string
  rc_result :: string
  rc_remaining_tasks :: int
  rc_created_at :: string

record claim_row =
  cl_task_id :: string
  cl_window_id :: string
  cl_owner :: string
  cl_epoch :: int
  cl_expires_at_ms :: int
  cl_status :: string
  cl_created_at :: string
  cl_updated_at :: string

record reservation_row =
  br_task_id :: string
  br_claim_epoch :: int
  br_window_id :: string
  br_reserved_token_units :: int
  br_reserved_cost_micro_units :: int
  br_state :: string
  br_observed_token_units :: "int option"
  br_observed_cost_micro_units :: "int option"
  br_created_at :: string
  br_updated_at :: string
  br_reconciled_at :: string

record charge_row =
  uc_observation_id :: string
  uc_window_id :: string
  uc_task_id :: string
  uc_claim_epoch :: int
  uc_charged_at :: string

record publication_row =
  pb_id :: string
  pb_task_id :: string
  pb_repository :: string
  pb_base_branch :: string
  pb_branch :: string
  pb_status :: string
  pb_commit_sha :: string
  pb_pr_number :: int
  pb_pr_url :: string
  pb_request_digest :: string
  pb_failure_classification :: string
  pb_created_at :: string
  pb_updated_at :: string

record inbox_row =
  ib_id :: string
  ib_title :: string
  ib_objective :: string
  ib_repository :: string
  ib_status :: string
  ib_promoted_goal_id :: string
  ib_created_at :: string
  ib_updated_at :: string

record phase_row =
  ph_id :: string
  ph_title :: string
  ph_position :: int
  ph_description :: string
  ph_created_at :: string
  ph_updated_at :: string

record phase_goal_row =
  pg_phase_id :: string
  pg_goal_id :: string
  pg_attached_at :: string

section \<open>The database\<close>

text \<open>
  \<open>control_schema\<close> records whether \<open>PlatformControlStore\<close> has created its tables: the
  task store asks \<open>sqlite_master\<close> for them before it reads one, and all of them are
  created by one script.
\<close>

record db =
  tasks :: "task_row list"
  idempotency_keys :: "key_row list"
  task_events :: "event_row list"
  task_changed_files :: "changed_file_row list"
  task_evidence :: "evidence_row list"
  usage_observations :: "usage_row list"
  durable_runs :: "run_row list"
  checkpoint_history :: "checkpoint_row list"
  external_operations :: "external_op_row list"
  control_schema :: bool
  goals :: "goal_row list"
  goal_task_links :: "link_row list"
  windows :: "window_row list"
  receipts :: "receipt_row list"
  claims :: "claim_row list"
  reservations :: "reservation_row list"
  usage_charges :: "charge_row list"
  publications :: "publication_row list"
  inbox_items :: "inbox_row list"
  roadmap_phases :: "phase_row list"
  phase_goals :: "phase_goal_row list"

type_synonym 'a step = "'a outcome \<times> db"

text \<open>The database after \<open>TaskStore.__init__\<close> on a new file.\<close>

definition empty_db :: db where
  "empty_db =
     \<lparr>tasks = [], idempotency_keys = [], task_events = [], task_changed_files = [],
      task_evidence = [], usage_observations = [], durable_runs = [], checkpoint_history = [],
      external_operations = [], control_schema = False, goals = [], goal_task_links = [],
      windows = [], receipts = [], claims = [], reservations = [], usage_charges = [],
      publications = [], inbox_items = [], roadmap_phases = [], phase_goals = []\<rparr>"

text \<open>
  \<open>_migrate_durable_runs_unique\<close>: opening a database in which some task already has two
  durable runs fails closed; otherwise the unique index on \<open>durable_runs(task_id)\<close> exists
  from then on, and every later insert of a run obeys it.
\<close>

definition duplicate_run_task :: "run_row list \<Rightarrow> string option" where
  "duplicate_run_task rs =
     find (\<lambda>t. 1 < sql_count (\<lambda>r. dr_task_id r = t) rs) (map dr_task_id rs)"

definition migrate_durable_runs_unique :: "db \<Rightarrow> unit step" where
  "migrate_durable_runs_unique s =
     (case duplicate_run_task (durable_runs s) of
        Some tid \<Rightarrow>
          (Inl (TaskStoreError (''durable_run_task_uniqueness_violation:task_id='' @ tid
             @ '':run_count=''
             @ str_of_nat (sql_count (\<lambda>r. dr_task_id r = tid) (durable_runs s))
             @ '':historical_duplicate_runs_not_repaired_fail_closed'')), s)
      | None \<Rightarrow> (Inr (), s))"

text \<open>\<open>PlatformControlStore.__init__\<close> on that database.\<close>

definition init_control_schema :: "db \<Rightarrow> db" where
  "init_control_schema s = s\<lparr>control_schema := True\<rparr>"

section \<open>Every table is a keyed table\<close>

interpretation tasks_t: keyed_table tasks tasks_update t_id
  by unfold_locales simp

interpretation runs_t: keyed_table durable_runs durable_runs_update dr_run_id
  by unfold_locales simp

interpretation runs_by_task: keyed_table durable_runs durable_runs_update dr_task_id
  by unfold_locales simp

interpretation keys_t: keyed_table idempotency_keys idempotency_keys_update ik_key
  by unfold_locales simp

interpretation usage_t: keyed_table usage_observations usage_observations_update uo_id
  by unfold_locales simp

interpretation extops_t: keyed_table external_operations external_operations_update xo_operation_id
  by unfold_locales simp

interpretation goals_t: keyed_table goals goals_update g_id
  by unfold_locales simp

interpretation windows_t: keyed_table windows windows_update w_id
  by unfold_locales simp

interpretation claims_t: keyed_table claims claims_update cl_task_id
  by unfold_locales simp

interpretation reservations_t:
  keyed_table reservations reservations_update "\<lambda>r. (br_task_id r, br_claim_epoch r)"
  by unfold_locales simp

lemma sql_count_le_1:
  "distinct (map k t) \<Longrightarrow> sql_count (\<lambda>r. k r = x) t \<le> 1"
  by (induction t) (auto simp: sql_count_def filter_empty_conv image_iff)

lemma sql_count_dup:
  assumes "\<not> distinct (map k t)"
  shows "\<exists>x \<in> set (map k t). 1 < sql_count (\<lambda>r. k r = x) t"
  using assms
proof (induction t)
  case Nil
  then show ?case by simp
next
  case (Cons r t)
  show ?case
  proof (cases "k r \<in> set (map k t)")
    case True
    then have "0 < sql_count (\<lambda>q. k q = k r) t"
      by (auto simp: sql_count_pos)
    then show ?thesis by (auto simp: sql_count_def)
  next
    case False
    with Cons obtain x where "x \<in> set (map k t)" "1 < sql_count (\<lambda>r. k r = x) t"
      by auto
    then show ?thesis by (force simp: sql_count_def)
  qed
qed

text \<open>The migration check is exact: it succeeds iff no task has two runs.\<close>

lemma migrate_ok_iff:
  "fst (migrate_durable_runs_unique s) = Inr () \<longleftrightarrow> distinct (map dr_task_id (durable_runs s))"
proof
  assume ok: "fst (migrate_durable_runs_unique s) = Inr ()"
  show "distinct (map dr_task_id (durable_runs s))"
  proof (rule ccontr)
    assume "\<not> distinct (map dr_task_id (durable_runs s))"
    from sql_count_dup [OF this] ok show False
      by (auto simp: migrate_durable_runs_unique_def duplicate_run_task_def find_None_iff
          split: option.splits)
  qed
next
  assume "distinct (map dr_task_id (durable_runs s))"
  then have "\<not> 1 < sql_count (\<lambda>r. dr_task_id r = t) (durable_runs s)" for t
    using sql_count_le_1 [of dr_task_id "durable_runs s" t] by simp
  then have "duplicate_run_task (durable_runs s) = None"
    by (simp add: duplicate_run_task_def find_None_iff)
  then show "fst (migrate_durable_runs_unique s) = Inr ()"
    by (simp add: migrate_durable_runs_unique_def)
qed

end
