(* ===== verification/Task_Lifecycle.thy ===== *)
theory Task_Lifecycle
  imports Store_Schema
begin

text \<open>
  The task half of \<open>TaskStore\<close> (run_store.py): creating tasks under an idempotency key, the
  status machine, queue cancellation, failure classification, the append-only event log,
  changed files, evidence and validation results. Every method runs under the store's
  re-entrant lock and is one step on the database here.
\<close>

section \<open>Statuses and transition rules\<close>

definition TASK_STATUS_ORDER :: "string list" where
  "TASK_STATUS_ORDER =
     [''QUEUED'', ''PREPARING_WORKSPACE'', ''RUNNING'', ''RUNNING_FIXTURE'', ''VALIDATING'',
      ''READY_FOR_REVIEW'', ''READY_FOR_REVIEW_FIXTURE'', ''INTERRUPTED'', ''BLOCKED'',
      ''FAILED'', ''CANCELLED'']"

definition TERMINAL_STATUSES :: "string list" where
  "TERMINAL_STATUSES =
     [''READY_FOR_REVIEW'', ''READY_FOR_REVIEW_FIXTURE'', ''BLOCKED'', ''FAILED'', ''CANCELLED'']"

definition VALID_EVENT_TYPES :: "string list" where
  "VALID_EVENT_TYPES =
     [''DISCOVERED'', ''VALIDATED'', ''WORKSPACE_READY'', ''EXECUTOR_RUNNING'',
      ''EXECUTOR_FINISHED'', ''LOCAL_VALIDATED'', ''QUEUE_CANCELLED'']"

text \<open>\<open>TRANSITION_RULES.get(status, ())\<close>\<close>

definition transition_rules :: "string \<Rightarrow> string list" where
  "transition_rules st =
     (case map_of
        [(''QUEUED'', [''PREPARING_WORKSPACE'', ''BLOCKED'', ''FAILED'', ''CANCELLED'']),
         (''PREPARING_WORKSPACE'', [''RUNNING'', ''RUNNING_FIXTURE'', ''BLOCKED'', ''FAILED'',
            ''CANCELLED'', ''INTERRUPTED'']),
         (''RUNNING'', [''VALIDATING'', ''BLOCKED'', ''FAILED'', ''CANCELLED'', ''INTERRUPTED'']),
         (''RUNNING_FIXTURE'', [''VALIDATING'', ''BLOCKED'', ''FAILED'', ''CANCELLED'',
            ''INTERRUPTED'']),
         (''VALIDATING'', [''READY_FOR_REVIEW'', ''READY_FOR_REVIEW_FIXTURE'', ''BLOCKED'',
            ''FAILED'', ''CANCELLED'', ''INTERRUPTED'']),
         (''INTERRUPTED'', [''RUNNING'', ''RUNNING_FIXTURE'', ''BLOCKED'', ''FAILED'',
            ''CANCELLED''])] st of
        None \<Rightarrow> [] | Some l \<Rightarrow> l)"

section \<open>Reading a task\<close>

text \<open>The \<open>Task\<close> dataclass: the row, with the lists \<open>_row_to_task\<close> joins to it.\<close>

record task_view =
  tv_row :: task_row
  tv_changed_files :: "changed_file_row list"
  tv_evidence_refs :: "evidence_row list"
  tv_events :: "event_row list"
  tv_event_count :: int

definition task_events_of :: "string \<Rightarrow> db \<Rightarrow> event_row list" where
  "task_events_of tid s = filter (\<lambda>ev. ev_task_id ev = tid) (task_events s)"

text \<open>
  With an event limit \<open>n\<close> the query takes the last \<open>max(1, n)\<close> events and reverses them
  back; a limit of 0 reads none; the count is always exact.
\<close>

definition row_to_task :: "task_row \<Rightarrow> int option \<Rightarrow> db \<Rightarrow> task_view" where
  "row_to_task row limit s =
     (let all = task_events_of (t_id row) s;
          shown = (case limit of
                     None \<Rightarrow> all
                   | Some n \<Rightarrow> if n = 0 then []
                              else rev (take (nat (max 1 n)) (rev all)))
      in \<lparr>tv_row = (if t_orchestration_mode row = '''' then row\<lparr>t_orchestration_mode := ''single''\<rparr>
                    else row),
          tv_changed_files = filter (\<lambda>f. cf_task_id f = t_id row) (task_changed_files s),
          tv_evidence_refs = filter (\<lambda>x. evd_task_id x = t_id row) (task_evidence s),
          tv_events = shown,
          tv_event_count = int (length all)\<rparr>)"

definition task_row_of :: "string \<Rightarrow> db \<Rightarrow> task_row option" where
  "task_row_of tid s = find (\<lambda>r. t_id r = tid) (tasks s)"

definition get_task :: "string \<Rightarrow> int option \<Rightarrow> db \<Rightarrow> task_view outcome" where
  "get_task tid limit s =
     (case task_row_of tid s of
        None \<Rightarrow> Inl (TaskStoreError (''task_not_found:'' @ tid))
      | Some row \<Rightarrow> Inr (row_to_task row limit s))"

definition list_tasks :: "int \<Rightarrow> int \<Rightarrow> int option \<Rightarrow> db \<Rightarrow> task_view list" where
  "list_tasks limit offset event_limit s =
     map (\<lambda>row. row_to_task row event_limit s)
       (sql_limit limit offset (order_desc t_created_at (tasks s)))"

definition count_tasks :: "db \<Rightarrow> int" where
  "count_tasks s = int (length (tasks s))"

definition find_by_idempotency_key :: "string \<Rightarrow> db \<Rightarrow> task_view option outcome" where
  "find_by_idempotency_key key s =
     (if key = '''' then Inr None
      else case find (\<lambda>k. ik_key k = key) (idempotency_keys s) of
             None \<Rightarrow> Inr None
           | Some k \<Rightarrow> map_sum id Some (get_task (ik_task_id k) None s))"

section \<open>Writing task rows and events\<close>

text \<open>\<open>_update_task_fields\<close>: the given columns, and \<open>updated_at\<close>, of one task.\<close>

definition update_task_fields :: "env \<Rightarrow> string \<Rightarrow> (task_row \<Rightarrow> task_row) \<Rightarrow> db \<Rightarrow> db" where
  "update_task_fields e tid f s =
     s\<lparr>tasks := sql_update (\<lambda>r. t_id r = tid) (\<lambda>r. (f r)\<lparr>t_updated_at := utc e 0\<rparr>) (tasks s)\<rparr>"

definition append_event ::
    "env \<Rightarrow> string \<Rightarrow> string \<Rightarrow> string \<Rightarrow> string \<Rightarrow> string \<Rightarrow> json option \<Rightarrow> db \<Rightarrow> event_row step" where
  "append_event e tid etype title descr raw_log meta s =
     (if etype \<notin> set VALID_EVENT_TYPES
      then (Inl (TaskStoreError (''invalid_event_type:'' @ etype)), s)
      else
        let ev = \<lparr>ev_id = ''event-'' @ tid @ ''-'' @ uuid e 0, ev_task_id = tid, ev_type = etype,
                  ev_timestamp = utc e 0, ev_title = title, ev_description = descr,
                  ev_raw_log = raw_log,
                  ev_metadata = json_canon (case meta of None \<Rightarrow> JObj [] | Some m \<Rightarrow> m)\<rparr>
        in (Inr ev,
            update_task_fields (later 1 e) tid id (s\<lparr>task_events := task_events s @ [ev]\<rparr>)))"

definition add_event ::
    "env \<Rightarrow> string \<Rightarrow> string \<Rightarrow> string \<Rightarrow> string \<Rightarrow> string \<Rightarrow> json option \<Rightarrow> db \<Rightarrow> event_row step" where
  "add_event e tid etype title descr raw_log meta s =
     (case get_task tid None s of
        Inl err \<Rightarrow> (Inl err, s)
      | Inr _ \<Rightarrow> append_event e tid etype title descr raw_log meta s)"

definition get_events :: "string \<Rightarrow> db \<Rightarrow> event_row list" where
  "get_events tid s = task_events_of tid s"

text \<open>\<open>return self.get_task(task_id)\<close> at the end of a method.\<close>

definition return_task :: "string \<Rightarrow> int option \<Rightarrow> db \<Rightarrow> task_view step" where
  "return_task tid limit s = (get_task tid limit s, s)"

section \<open>Creating tasks\<close>

record task_request =
  q_title :: string
  q_repository :: string
  q_executor_kind :: string
  q_model_profile_ref :: string
  q_binding_ref :: string
  q_permission_profile :: string
  q_policy_ref :: string
  q_workspace :: string
  q_branch :: string
  q_idempotency_key :: string
  q_orchestration_mode :: string

text \<open>The join of \<open>idempotency_keys\<close> with \<open>tasks\<close> for one key.\<close>

definition existing_request :: "string \<Rightarrow> db \<Rightarrow> (key_row \<times> task_row) option" where
  "existing_request key s =
     (case find (\<lambda>k. ik_key k = key) (idempotency_keys s) of
        None \<Rightarrow> None
      | Some k \<Rightarrow> map_option (Pair k) (task_row_of (ik_task_id k) s))"

definition same_request :: "task_request \<Rightarrow> key_row \<Rightarrow> task_row \<Rightarrow> bool" where
  "same_request q k t \<longleftrightarrow>
     ik_title k = q_title q \<and> ik_repository k = q_repository q \<and>
     ik_executor_kind k = q_executor_kind q \<and> t_binding_ref t = q_binding_ref q \<and>
     t_orchestration_mode t = q_orchestration_mode q"

definition new_task_row :: "env \<Rightarrow> task_request \<Rightarrow> task_row" where
  "new_task_row e q =
     (let tid = ''task-'' @ str_of_int (now_ms e 0) @ ''-'' @ uuid e 0 in
      \<lparr>t_id = tid, t_title = q_title q, t_repository = q_repository q, t_status = ''QUEUED'',
       t_executor_kind = q_executor_kind q, t_execution_id = ''exec-'' @ tid,
       t_model_profile_ref = q_model_profile_ref q, t_binding_ref = q_binding_ref q,
       t_permission_profile = q_permission_profile q, t_policy_ref = q_policy_ref q,
       t_workspace = q_workspace q, t_branch = q_branch q,
       t_orchestration_mode = q_orchestration_mode q, t_created_at = utc e 0,
       t_updated_at = utc e 0, t_failure_classification = '''', t_failure_detail = '''',
       t_validation_command_id = '''', t_validation_exit_code = None,
       t_validation_output_digest = '''', t_idempotency_key = q_idempotency_key q\<rparr>)"

definition new_key_row :: "env \<Rightarrow> task_request \<Rightarrow> string \<Rightarrow> key_row" where
  "new_key_row e q tid =
     \<lparr>ik_key = q_idempotency_key q, ik_task_id = tid, ik_title = q_title q,
      ik_repository = q_repository q, ik_executor_kind = q_executor_kind q,
      ik_created_at = utc e 0\<rparr>"

text \<open>The inserts of \<open>_create_task_impl\<close>, each committed on its own.\<close>

definition insert_task_row :: "env \<Rightarrow> task_request \<Rightarrow> db \<Rightarrow> task_row step" where
  "insert_task_row e q s =
     (let row = new_task_row e q in
      case sql_insert (\<lambda>a b. t_id a = t_id b) ''UNIQUE constraint failed: tasks.id'' row (tasks s) of
        Inl err \<Rightarrow> (Inl err, s)
      | Inr ts \<Rightarrow> (Inr row, s\<lparr>tasks := ts\<rparr>))"

definition insert_key_row :: "env \<Rightarrow> task_request \<Rightarrow> string \<Rightarrow> db \<Rightarrow> unit step" where
  "insert_key_row e q tid s =
     (if q_idempotency_key q = '''' then (Inr (), s)
      else case sql_insert (\<lambda>a b. ik_key a = ik_key b)
                  ''UNIQUE constraint failed: idempotency_keys.key''
                  (new_key_row e q tid) (idempotency_keys s) of
             Inl err \<Rightarrow> (Inl err, s)
           | Inr ks \<Rightarrow> (Inr (), s\<lparr>idempotency_keys := ks\<rparr>))"

definition create_task_impl :: "env \<Rightarrow> task_request \<Rightarrow> db \<Rightarrow> task_view step" where
  "create_task_impl e q s =
     andthen (insert_task_row e q s) (\<lambda>row s1.
     andthen (insert_key_row e q (t_id row) s1) (\<lambda>_ s2.
     andthen (append_event (later 1 e) (t_id row) ''DISCOVERED'' ''Task queued''
                (''Task created for '' @ q_repository q) ''''
                (Some (JObj [(''executor_kind'', JStr (q_executor_kind q)),
                             (''status'', JStr ''QUEUED'')])) s2) (\<lambda>_ s3.
     return_task (t_id row) None s3)))"

definition create_task :: "env \<Rightarrow> task_request \<Rightarrow> db \<Rightarrow> task_view step" where
  "create_task e q s =
     (if q_orchestration_mode q \<notin> {''single'', ''sequential_team''} then
        (Inl (TaskStoreError (''unsupported_orchestration_mode:'' @ q_orchestration_mode q)), s)
      else if q_orchestration_mode q = ''sequential_team'' \<and> q_executor_kind q \<noteq> ''opencode'' then
        (Inl (TaskStoreError ''sequential_team_requires_opencode_executor''), s)
      else if q_binding_ref q \<noteq> '''' \<and> q_executor_kind q \<noteq> ''opencode'' then
        (Inl (TaskStoreError ''binding_ref_requires_opencode_executor''), s)
      else case (if q_idempotency_key q = '''' then None
                 else existing_request (q_idempotency_key q) s) of
             Some (k, t) \<Rightarrow>
               (if same_request q k t then return_task (ik_task_id k) None s
                else (Inl (DuplicateTaskError
                        (''idempotency_key_reused_with_different_request:''
                           @ q_idempotency_key q)), s))
           | None \<Rightarrow> create_task_impl e q s)"

section \<open>State transitions\<close>

definition set_status :: "string \<Rightarrow> task_row \<Rightarrow> task_row" where
  "set_status st r = r\<lparr>t_status := st\<rparr>"

text \<open>\<open>set_state\<close>: an unconditional write, used by no production caller.\<close>

definition set_state :: "env \<Rightarrow> string \<Rightarrow> string \<Rightarrow> db \<Rightarrow> task_view step" where
  "set_state e tid status s =
     (if status \<notin> set TASK_STATUS_ORDER
      then (Inl (TaskStoreError (''invalid_status:'' @ status)), s)
      else return_task tid None (update_task_fields e tid (set_status status) s))"

definition transition_to :: "env \<Rightarrow> string \<Rightarrow> string \<Rightarrow> db \<Rightarrow> task_view step" where
  "transition_to e tid status s =
     (if status \<notin> set TASK_STATUS_ORDER
      then (Inl (TaskStoreError (''invalid_status:'' @ status)), s)
      else case get_task tid None s of
        Inl err \<Rightarrow> (Inl err, s)
      | Inr current \<Rightarrow>
          let cur = t_status (tv_row current); allowed = transition_rules cur in
          if cur = status then (Inr current, s)
          else if status \<notin> set allowed then
            (Inl (InvalidTransitionError (''invalid_transition:'' @ cur @ ''->'' @ status
               @ '' allowed='' @ py_repr_tuple allowed)), s)
          else if cur \<in> set TERMINAL_STATUSES then
            (Inl (InvalidTransitionError (''terminal_status:'' @ cur)), s)
          else return_task tid None (update_task_fields e tid (set_status status) s))"

section \<open>Queue cancellation\<close>

text \<open>
  Execution history is any claim, durable run, budget reservation or publication of the
  task; the three control tables are consulted only when they exist.
\<close>

definition has_execution_history :: "string \<Rightarrow> db \<Rightarrow> bool" where
  "has_execution_history tid s \<longleftrightarrow>
     (control_schema s \<and> list_ex (\<lambda>c. cl_task_id c = tid) (claims s)) \<or>
     list_ex (\<lambda>r. dr_task_id r = tid) (durable_runs s) \<or>
     (control_schema s \<and> list_ex (\<lambda>r. br_task_id r = tid) (reservations s)) \<or>
     (control_schema s \<and> list_ex (\<lambda>p. pb_task_id p = tid) (publications s))"

definition queue_cancel_reason :: "string \<Rightarrow> string \<Rightarrow> db \<Rightarrow> string" where
  "queue_cancel_reason tid status s =
     (if status = ''CANCELLED'' then ''ALREADY_CANCELLED''
      else if status \<noteq> ''QUEUED'' then ''STATUS_NOT_CANCELLABLE''
      else if has_execution_history tid s then ''EXECUTION_HISTORY_PRESENT''
      else ''QUEUED_UNCLAIMED'')"

text \<open>The descriptor's two varying fields: availability and reason code.\<close>

definition queue_cancel_capability :: "string \<Rightarrow> db \<Rightarrow> (string \<times> string) outcome" where
  "queue_cancel_capability tid s =
     (case task_row_of tid s of
        None \<Rightarrow> Inl (TaskStoreError (''task_not_found:'' @ tid))
      | Some row \<Rightarrow>
          let reason = queue_cancel_reason tid (t_status row) s in
          Inr (if reason = ''QUEUED_UNCLAIMED'' then ''AVAILABLE''
               else if reason = ''ALREADY_CANCELLED'' then ''ALREADY_APPLIED''
               else ''UNAVAILABLE'', reason))"

record cancel_outcome =
  qc_status :: string
  qc_reason_code :: string
  qc_task :: task_view

definition queue_cancel_txn :: "env \<Rightarrow> string \<Rightarrow> db \<Rightarrow> (string \<times> string) step" where
  "queue_cancel_txn e tid s =
     (case task_row_of tid s of
        None \<Rightarrow> (Inl (TaskStoreError (''task_not_found:'' @ tid)), s)
      | Some row \<Rightarrow>
          let reason = queue_cancel_reason tid (t_status row) s in
          if reason = ''ALREADY_CANCELLED'' then (Inr (''ALREADY_APPLIED'', reason), s)
          else if reason \<noteq> ''QUEUED_UNCLAIMED'' then (Inr (''UNAVAILABLE'', reason), s)
          else
            let hit = (\<lambda>r. t_id r = tid \<and> t_status r = ''QUEUED'') in
            if sql_count hit (tasks s) \<noteq> 1 then
              (let latest = (case task_row_of tid s of None \<Rightarrow> '''' | Some r \<Rightarrow> t_status r) in
               if latest = ''CANCELLED'' then (Inr (''ALREADY_APPLIED'', ''ALREADY_CANCELLED''), s)
               else (Inr (''UNAVAILABLE'',
                          if latest \<noteq> '''' then ''STATUS_NOT_CANCELLABLE''
                          else ''EXECUTION_HISTORY_PRESENT''), s))
            else
              andthen (append_event (later 1 e) tid ''QUEUE_CANCELLED'' ''Queued task cancelled''
                         ''Queued task cancellation completed'' '''' (Some (JObj []))
                         (s\<lparr>tasks := sql_update hit
                             (\<lambda>r. r\<lparr>t_status := ''CANCELLED'', t_updated_at := utc e 0\<rparr>) (tasks s)\<rparr>))
                (\<lambda>_ s'. (Inr (''APPLIED'', ''QUEUED_UNCLAIMED''), s')))"

definition cancel_queued_task :: "env \<Rightarrow> string \<Rightarrow> db \<Rightarrow> cancel_outcome step" where
  "cancel_queued_task e tid s =
     andthen (transact (\<lambda>_. ''queue_cancel_failed'') s (queue_cancel_txn e tid s))
       (\<lambda>(status, reason) s'.
          (map_sum id (\<lambda>v. \<lparr>qc_status = status, qc_reason_code = reason, qc_task = v\<rparr>)
             (get_task tid (Some 0) s'), s'))"

section \<open>Failure classification\<close>

definition failure_target :: "string \<Rightarrow> string" where
  "failure_target classification = (if classification = ''blocked'' then ''BLOCKED'' else ''FAILED'')"

definition failure_metadata :: "string \<Rightarrow> string \<Rightarrow> json" where
  "failure_metadata classification detail =
     JObj [(''failure_classification'', JStr classification), (''detail'', JStr detail)]"

definition classify_failure :: "env \<Rightarrow> string \<Rightarrow> string \<Rightarrow> string \<Rightarrow> db \<Rightarrow> task_view step" where
  "classify_failure e tid classification detail s =
     (case get_task tid None s of
        Inl err \<Rightarrow> (Inl err, s)
      | Inr task \<Rightarrow>
          if t_status (tv_row task) \<in> set TERMINAL_STATUSES then
            (Inl (TaskStoreError (''terminal_status:'' @ t_status (tv_row task))), s)
          else
            let s1 = update_task_fields e tid
                       (\<lambda>r. r\<lparr>t_failure_classification := classification,
                              t_failure_detail := detail\<rparr>) s;
                target = failure_target classification;
                s2 = (if t_status (tv_row task) \<noteq> target
                      then update_task_fields (later 1 e) tid (set_status target) s1 else s1)
            in andthen (append_event (later 2 e) tid ''EXECUTOR_FINISHED'' ''Executor failed''
                          (''failure_classification='' @ classification) ''''
                          (Some (failure_metadata classification detail)) s2)
                 (\<lambda>_ s3. return_task tid None s3))"

section \<open>Changed files, evidence, validation\<close>

text \<open>A file mapping as the caller passes it; absent keys take the method's defaults. The store
  does not keep the content digest; the durable service hashes it.\<close>

record file_change =
  fc_path :: "string option"
  fc_status :: "string option"
  fc_additions :: "int option"
  fc_deletions :: "int option"
  fc_diff_digest :: "string option"
  fc_content_digest :: "string option"

definition changed_file_row_of :: "string \<Rightarrow> file_change \<Rightarrow> changed_file_row" where
  "changed_file_row_of tid f =
     \<lparr>cf_task_id = tid,
      cf_path = (case fc_path f of None \<Rightarrow> '''' | Some x \<Rightarrow> x),
      cf_status = (case fc_status f of None \<Rightarrow> ''modified'' | Some x \<Rightarrow> x),
      cf_additions = (case fc_additions f of None \<Rightarrow> 0 | Some x \<Rightarrow> x),
      cf_deletions = (case fc_deletions f of None \<Rightarrow> 0 | Some x \<Rightarrow> x),
      cf_diff_digest = (case fc_diff_digest f of None \<Rightarrow> '''' | Some x \<Rightarrow> x)\<rparr>"

definition replace_changed_files :: "string \<Rightarrow> file_change list \<Rightarrow> db \<Rightarrow> db" where
  "replace_changed_files tid files s =
     s\<lparr>task_changed_files :=
         filter (\<lambda>f. cf_task_id f \<noteq> tid) (task_changed_files s) @ map (changed_file_row_of tid) files\<rparr>"

definition set_changed_files :: "env \<Rightarrow> string \<Rightarrow> file_change list \<Rightarrow> db \<Rightarrow> task_view step" where
  "set_changed_files e tid files s =
     (case get_task tid None s of
        Inl err \<Rightarrow> (Inl err, s)
      | Inr _ \<Rightarrow>
          return_task tid None (update_task_fields e tid id (replace_changed_files tid files s)))"

record evidence_input =
  in_category :: string
  in_label :: string
  in_value :: string
  in_status :: string
  in_detail :: string
  in_raw_json_digest :: string

definition evidence_row_of :: "env \<Rightarrow> string \<Rightarrow> evidence_input \<Rightarrow> evidence_row" where
  "evidence_row_of e tid i =
     \<lparr>evd_id = ''ev-'' @ tid @ ''-'' @ uuid e 0, evd_task_id = tid, evd_category = in_category i,
      evd_label = in_label i, evd_value = in_value i, evd_status = in_status i,
      evd_detail = in_detail i, evd_raw_json_digest = in_raw_json_digest i\<rparr>"

definition add_evidence :: "env \<Rightarrow> string \<Rightarrow> evidence_input \<Rightarrow> db \<Rightarrow> task_view step" where
  "add_evidence e tid i s =
     (case get_task tid None s of
        Inl err \<Rightarrow> (Inl err, s)
      | Inr _ \<Rightarrow>
          return_task tid None (update_task_fields e tid id
            (s\<lparr>task_evidence := task_evidence s @ [evidence_row_of e tid i]\<rparr>)))"

definition set_validation_result ::
    "env \<Rightarrow> string \<Rightarrow> string \<Rightarrow> int \<Rightarrow> string \<Rightarrow> db \<Rightarrow> task_view step" where
  "set_validation_result e tid command_id exit_code output_digest s =
     (case get_task tid None s of
        Inl err \<Rightarrow> (Inl err, s)
      | Inr _ \<Rightarrow>
          return_task tid None (update_task_fields e tid
            (\<lambda>r. r\<lparr>t_validation_command_id := command_id,
                   t_validation_exit_code := Some exit_code,
                   t_validation_output_digest := output_digest\<rparr>) s))"

section \<open>Create and execute\<close>

text \<open>
  The executor is a parameter: a step on the database that returns a JSON value, or raises.
\<close>

fun result_success :: "json \<Rightarrow> bool" where
  "result_success (JObj kvs) =
     (case map_of kvs ''success'' of
        None \<Rightarrow> False | Some JNull \<Rightarrow> False | Some (JBool b) \<Rightarrow> b | Some (JInt i) \<Rightarrow> i \<noteq> 0
      | Some (JStr x) \<Rightarrow> x \<noteq> '''' | Some (JArr xs) \<Rightarrow> xs \<noteq> [] | Some (JObj xs) \<Rightarrow> xs \<noteq> [])"
| "result_success _ = False"

definition create_task_and_execute ::
    "env \<Rightarrow> task_request \<Rightarrow> (string \<Rightarrow> db \<Rightarrow> json step) \<Rightarrow> db \<Rightarrow> (task_view \<times> json) step" where
  "create_task_and_execute e q runner s =
     andthen (create_task e q s) (\<lambda>task s1.
     let tid = t_id (tv_row task) in
     andthen (transition_to (later 10 e) tid ''PREPARING_WORKSPACE'' s1) (\<lambda>_ s2.
     andthen (transition_to (later 20 e) tid ''RUNNING_FIXTURE'' s2) (\<lambda>_ s3.
     andthen (add_event (later 30 e) tid ''EXECUTOR_RUNNING'' ''Executor running''
                (''Executor '' @ t_executor_kind (tv_row task) @ '' started'') ''''
                (Some (JObj [(''executor_kind'', JStr (t_executor_kind (tv_row task)))])) s3) (\<lambda>_ s4.
     andthen (runner tid s4) (\<lambda>result s5.
     andthen (add_event (later 40 e) tid ''EXECUTOR_FINISHED'' ''Executor finished''
                ''Executor completed'' ''''
                (Some (JObj [(''success'', JBool (result_success result))])) s5) (\<lambda>_ s6.
     (Inr (task, result), s6)))))))"

end
