(* ===== verification/Durable_Runs.thy ===== *)
theory Durable_Runs
  imports Task_Lifecycle
begin

text \<open>
  Durable runs (run_store.py, from "Durable run management"): leases with an owner and an
  epoch, heartbeats, release and recovery, append-only checkpoints, the journal of external
  operations, and the reconciliation of expired leases. Each method opens one
  \<open>BEGIN IMMEDIATE\<close> transaction, so each is one atomic step, also between processes.
\<close>

section \<open>Checkpoints\<close>

definition CHECKPOINT_ORDER :: "string list" where
  "CHECKPOINT_ORDER =
     [''PRE_PLANNER'', ''POST_PLANNER'', ''POST_CODER'', ''POST_REVIEWER'', ''POST_VALIDATION'']"

text \<open>\<open>_CHECKPOINT_INDEX.get(value, -1)\<close>\<close>

definition checkpoint_rank :: "string \<Rightarrow> int" where
  "checkpoint_rank name =
     (case map_of [(''PRE_PLANNER'', 0), (''POST_PLANNER'', 1), (''POST_CODER'', 2),
                   (''POST_REVIEWER'', 3), (''POST_VALIDATION'', 4)] name of
        None \<Rightarrow> -1 | Some i \<Rightarrow> i)"

definition checkpoint_to_role :: "string \<Rightarrow> string" where
  "checkpoint_to_role name =
     (case map_of [(''PRE_PLANNER'', ''planner''), (''POST_PLANNER'', ''coder''),
                   (''POST_CODER'', ''reviewer''), (''POST_REVIEWER'', ''verifier''),
                   (''POST_VALIDATION'', ''complete'')] name of
        None \<Rightarrow> '''' | Some r \<Rightarrow> r)"

section \<open>Rows and handles\<close>

record lease_handle =
  lh_run_id :: string
  lh_task_id :: string
  lh_execution_id :: string
  lh_owner :: string
  lh_epoch :: int
  lh_expiry_ms :: int
  lh_worktree_path :: string
  lh_repository_base_sha :: string
  lh_checkpoint_db_path :: string

definition lease_handle_from_row :: "run_row \<Rightarrow> lease_handle" where
  "lease_handle_from_row r =
     \<lparr>lh_run_id = dr_run_id r, lh_task_id = dr_task_id r, lh_execution_id = dr_execution_id r,
      lh_owner = dr_lease_owner r, lh_epoch = dr_lease_epoch r,
      lh_expiry_ms = dr_lease_expiry_ms r, lh_worktree_path = dr_worktree_path r,
      lh_repository_base_sha = dr_repository_base_sha r,
      lh_checkpoint_db_path = dr_checkpoint_db_path r\<rparr>"

definition run_row_of :: "string \<Rightarrow> db \<Rightarrow> run_row option" where
  "run_row_of rid s = find (\<lambda>r. dr_run_id r = rid) (durable_runs s)"

definition run_not_found :: "string \<Rightarrow> store_error" where
  "run_not_found rid = TaskStoreError (''durable_run_not_found:'' @ rid)"

definition get_durable_run :: "string \<Rightarrow> db \<Rightarrow> run_row outcome" where
  "get_durable_run rid s =
     (case run_row_of rid s of None \<Rightarrow> Inl (run_not_found rid) | Some r \<Rightarrow> Inr r)"

text \<open>The run of a task whose status is not terminal, with that status.\<close>

definition find_active_durable_run :: "string \<Rightarrow> db \<Rightarrow> (run_row \<times> string) option" where
  "find_active_durable_run tid s =
     (case order_desc dr_created_at (filter (\<lambda>r. dr_task_id r = tid) (durable_runs s)) of
        [] \<Rightarrow> None
      | r # _ \<Rightarrow>
          (case task_row_of tid s of
             None \<Rightarrow> None
           | Some t \<Rightarrow> if t_status t \<in> set TERMINAL_STATUSES then None else Some (r, t_status t)))"

text \<open>The bounded projection for the read model: no owner, worktree or authority fields.\<close>

record run_observation =
  ro_run_id :: string
  ro_execution_id :: string
  ro_current_role :: string
  ro_role_attempt :: int
  ro_accepted_checkpoint :: string
  ro_heartbeat_at_ms :: int
  ro_lease_expiry_ms :: int
  ro_recovery_classification :: string
  ro_interrupted_at :: string
  ro_updated_at :: string

definition observe_run :: "run_row \<Rightarrow> run_observation" where
  "observe_run r =
     \<lparr>ro_run_id = dr_run_id r, ro_execution_id = dr_execution_id r,
      ro_current_role = dr_current_role r, ro_role_attempt = dr_role_attempt r,
      ro_accepted_checkpoint = dr_accepted_checkpoint r,
      ro_heartbeat_at_ms = dr_heartbeat_at_ms r, ro_lease_expiry_ms = dr_lease_expiry_ms r,
      ro_recovery_classification = dr_recovery_classification r,
      ro_interrupted_at = dr_interrupted_at r, ro_updated_at = dr_updated_at r\<rparr>"

definition latest_run_observation :: "string \<Rightarrow> db \<Rightarrow> run_observation option" where
  "latest_run_observation tid s =
     (case order_desc dr_created_at (filter (\<lambda>r. dr_task_id r = tid) (durable_runs s)) of
        [] \<Rightarrow> None | r # _ \<Rightarrow> Some (observe_run r))"

section \<open>Acquiring a lease\<close>

text \<open>
  The method's parameters \<open>repository_base_sha\<close>, \<open>worktree_path\<close> and \<open>checkpoint_db_path\<close>
  are not used by its body (the row starts with empty strings there), so they are not
  arguments here.
\<close>

record acquire_request =
  aq_task_id :: string
  aq_execution_id :: string
  aq_lease_owner :: string
  aq_expiry_ms :: int
  aq_execution_authority_sha :: string
  aq_planning_sha :: string
  aq_task_status :: "string option"

definition new_run_row :: "env \<Rightarrow> acquire_request \<Rightarrow> run_row" where
  "new_run_row e q =
     \<lparr>dr_run_id = ''run-'' @ aq_task_id q @ ''-'' @ uuid e 0, dr_task_id = aq_task_id q,
      dr_execution_id = aq_execution_id q,
      dr_execution_authority_sha = aq_execution_authority_sha q,
      dr_planning_sha = aq_planning_sha q, dr_repository_base_sha = '''', dr_worktree_path = '''',
      dr_worktree_head_sha = '''', dr_worktree_prepared_at = '''', dr_current_role = '''',
      dr_role_attempt = 1, dr_accepted_checkpoint = '''', dr_planner_handoff_digest = '''',
      dr_coder_product_diff_digest = '''', dr_reviewer_handoff_digest = '''',
      dr_partial_coder_diff_digest = '''', dr_validation_command_id = '''',
      dr_validation_exit_code = None, dr_validation_output_digest = '''',
      dr_lease_owner = aq_lease_owner q, dr_lease_epoch = 1, dr_heartbeat_at_ms = now_ms e 0,
      dr_lease_expiry_ms = now_ms e 0 + aq_expiry_ms q, dr_checkpoint_db_path = '''',
      dr_recovery_classification = ''normal'', dr_interrupted_at = '''',
      dr_created_at = utc e 0, dr_updated_at = utc e 0\<rparr>"

definition LIVE_STATUSES :: "string list" where
  "LIVE_STATUSES = [''PREPARING_WORKSPACE'', ''RUNNING'', ''RUNNING_FIXTURE'', ''VALIDATING'']"

text \<open>The status check: against the caller's expectation, or that the task is active.\<close>

definition status_guard :: "acquire_request \<Rightarrow> task_row \<Rightarrow> store_error option" where
  "status_guard q t =
     (case aq_task_status q of
        Some x \<Rightarrow>
          if t_status t \<noteq> x then
            Some (TaskStoreError (''durable_claim_wrong_task_status:'' @ aq_task_id q
              @ '':expected='' @ x @ '':actual='' @ t_status t))
          else None
      | None \<Rightarrow>
          if t_status t \<notin> set (''QUEUED'' # LIVE_STATUSES) then
            Some (TaskStoreError (''durable_claim_task_not_active:'' @ aq_task_id q
              @ '':status='' @ t_status t))
          else None)"

definition acquire_lease_txn :: "env \<Rightarrow> acquire_request \<Rightarrow> db \<Rightarrow> run_row step" where
  "acquire_lease_txn e q s =
     (let tid = aq_task_id q in
      case task_row_of tid s of
        None \<Rightarrow> (Inl (TaskStoreError (''task_not_found:'' @ tid)), s)
      | Some t \<Rightarrow>
          if t_executor_kind t \<notin> {''opencode'', ''deterministic_fixture''} then
            (Inl (TaskStoreError (''durable_claim_wrong_executor_kind:'' @ tid
               @ '':expected=opencode_or_deterministic_fixture:actual='' @ t_executor_kind t)), s)
          else if t_orchestration_mode t \<notin> {''sequential_team'', ''single''} then
            (Inl (TaskStoreError (''durable_claim_wrong_orchestration_mode:'' @ tid
               @ '':expected=sequential_team_or_single:actual='' @ t_orchestration_mode t)), s)
          else if status_guard q t \<noteq> None then
            (Inl (the (status_guard q t)), s)
          else if list_ex (\<lambda>r. dr_task_id r = tid) (durable_runs s) then
            (Inl (TaskStoreError (''durable_run_already_active:'' @ tid)), s)
          else
            let row = new_run_row e q in
            case sql_insert (\<lambda>a b. dr_run_id a = dr_run_id b \<or> dr_task_id a = dr_task_id b)
                   ''UNIQUE constraint failed: durable_runs.run_id'' row (durable_runs s) of
              Inl err \<Rightarrow> (Inl err, s)
            | Inr rs \<Rightarrow>
                (Inr row,
                 s\<lparr>durable_runs := rs,
                   tasks := sql_update (\<lambda>r. t_id r = tid)
                     (\<lambda>r. r\<lparr>t_status := ''PREPARING_WORKSPACE'', t_updated_at := utc e 0\<rparr>)
                     (tasks s)\<rparr>))"

definition acquire_durable_lease :: "env \<Rightarrow> acquire_request \<Rightarrow> db \<Rightarrow> lease_handle step" where
  "acquire_durable_lease e q s =
     andthen (transact (\<lambda>m. ''acquire_durable_lease_failed:'' @ m) s (acquire_lease_txn e q s))
       (\<lambda>row s'. (Inr (lease_handle_from_row row), s'))"

text \<open>
  \<open>DurableExecutionService._acquire_or_find_lease\<close>, the only caller: a queued task must
  still be queued inside the transaction; any other status goes through the live check.
\<close>

definition acquire_or_find_lease ::
    "env \<Rightarrow> string \<Rightarrow> string \<Rightarrow> int \<Rightarrow> string \<Rightarrow> string \<Rightarrow> db \<Rightarrow> lease_handle step" where
  "acquire_or_find_lease e tid owner expiry auth plan s =
     (case get_task tid None s of
        Inl err \<Rightarrow> (Inl err, s)
      | Inr task \<Rightarrow>
          acquire_durable_lease e
            \<lparr>aq_task_id = tid, aq_execution_id = t_execution_id (tv_row task),
             aq_lease_owner = owner, aq_expiry_ms = expiry, aq_execution_authority_sha = auth,
             aq_planning_sha = plan,
             aq_task_status = (if t_status (tv_row task) = ''QUEUED'' then Some ''QUEUED''
                               else None)\<rparr> s)"

section \<open>The fence\<close>

definition lease_text :: "string \<Rightarrow> string \<Rightarrow> string \<Rightarrow> int \<Rightarrow> string" where
  "lease_text prefix rid owner epoch =
     prefix @ '':'' @ rid @ '':owner='' @ owner @ '':epoch='' @ str_of_int epoch"

definition fenced_error :: "string \<Rightarrow> string \<Rightarrow> string \<Rightarrow> int \<Rightarrow> run_row \<Rightarrow> store_error" where
  "fenced_error prefix rid owner epoch r =
     TaskStoreError (lease_text prefix rid owner epoch @ '' current_owner=''
       @ dr_lease_owner r @ '':current_epoch='' @ str_of_int (dr_lease_epoch r))"

definition holds_lease :: "run_row \<Rightarrow> string \<Rightarrow> int \<Rightarrow> bool" where
  "holds_lease r owner epoch \<longleftrightarrow> dr_lease_epoch r = epoch \<and> dr_lease_owner r = owner"

text \<open>\<open>_fenced_validate_lease\<close>, and the same check in the other methods.\<close>

definition fenced_validate_lease :: "string \<Rightarrow> string \<Rightarrow> int \<Rightarrow> db \<Rightarrow> run_row outcome" where
  "fenced_validate_lease rid owner epoch s =
     (case run_row_of rid s of
        None \<Rightarrow> Inl (run_not_found rid)
      | Some r \<Rightarrow> if holds_lease r owner epoch then Inr r
                 else Inl (fenced_error ''lease_fenced'' rid owner epoch r))"

definition validate_durable_lease :: "string \<Rightarrow> string \<Rightarrow> int \<Rightarrow> db \<Rightarrow> unit outcome" where
  "validate_durable_lease rid owner epoch s =
     map_sum id (\<lambda>_. ()) (fenced_validate_lease rid owner epoch s)"

definition update_run :: "string \<Rightarrow> (run_row \<Rightarrow> run_row) \<Rightarrow> db \<Rightarrow> db" where
  "update_run rid f s = s\<lparr>durable_runs := sql_update (\<lambda>r. dr_run_id r = rid) f (durable_runs s)\<rparr>"

text \<open>
  \<open>_atomic_fenced_update\<close> with the SQL of its callers, an update of the run's own row; the
  result is the rowcount.
\<close>

definition atomic_fenced_update ::
    "string \<Rightarrow> string \<Rightarrow> int \<Rightarrow> (run_row \<Rightarrow> run_row) \<Rightarrow> bool \<Rightarrow> db \<Rightarrow> nat step" where
  "atomic_fenced_update rid owner epoch f allow_not_found s =
     (case run_row_of rid s of
        None \<Rightarrow> (if allow_not_found then Inr 0 else Inl (run_not_found rid), s)
      | Some r \<Rightarrow>
          if \<not> holds_lease r owner epoch then
            (Inl (fenced_error ''lease_fenced'' rid owner epoch r), s)
          else (Inr (sql_count (\<lambda>r. dr_run_id r = rid) (durable_runs s)), update_run rid f s))"

definition fenced_run_update ::
    "string \<Rightarrow> string \<Rightarrow> int \<Rightarrow> (run_row \<Rightarrow> run_row) \<Rightarrow> db \<Rightarrow> unit step" where
  "fenced_run_update rid owner epoch f s =
     andthen (atomic_fenced_update rid owner epoch f False s) (\<lambda>_ s'. (Inr (), s'))"

definition set_planner_handoff_digest where
  "set_planner_handoff_digest e rid digest owner epoch =
     fenced_run_update rid owner epoch
       (\<lambda>r. r\<lparr>dr_planner_handoff_digest := digest, dr_updated_at := utc e 0\<rparr>)"

definition set_coder_product_diff_digest where
  "set_coder_product_diff_digest e rid digest owner epoch =
     fenced_run_update rid owner epoch
       (\<lambda>r. r\<lparr>dr_coder_product_diff_digest := digest, dr_updated_at := utc e 0\<rparr>)"

definition set_reviewer_handoff_digest where
  "set_reviewer_handoff_digest e rid digest owner epoch =
     fenced_run_update rid owner epoch
       (\<lambda>r. r\<lparr>dr_reviewer_handoff_digest := digest, dr_updated_at := utc e 0\<rparr>)"

definition set_role_attempt where
  "set_role_attempt e rid role attempt owner epoch =
     fenced_run_update rid owner epoch
       (\<lambda>r. r\<lparr>dr_current_role := role, dr_role_attempt := attempt, dr_updated_at := utc e 0\<rparr>)"

definition set_recovery_classification where
  "set_recovery_classification e rid classification owner epoch =
     fenced_run_update rid owner epoch
       (\<lambda>r. r\<lparr>dr_recovery_classification := classification, dr_updated_at := utc e 0\<rparr>)"

definition set_run_validation_result where
  "set_run_validation_result e rid command_id exit_code output_digest owner epoch =
     fenced_run_update rid owner epoch
       (\<lambda>r. r\<lparr>dr_validation_command_id := command_id, dr_validation_exit_code := Some exit_code,
              dr_validation_output_digest := output_digest, dr_updated_at := utc e 0\<rparr>)"

definition set_worktree_identity where
  "set_worktree_identity e rid path head_sha owner epoch =
     fenced_run_update rid owner epoch
       (\<lambda>r. r\<lparr>dr_worktree_path := path, dr_worktree_head_sha := head_sha,
              dr_worktree_prepared_at := utc e 0, dr_updated_at := utc e 1\<rparr>)"

definition set_authority_identity where
  "set_authority_identity e rid authority_sha planning_sha owner epoch =
     fenced_run_update rid owner epoch
       (\<lambda>r. r\<lparr>dr_execution_authority_sha := authority_sha, dr_planning_sha := planning_sha,
              dr_updated_at := utc e 0\<rparr>)"

definition set_partial_coder_diff_digest where
  "set_partial_coder_diff_digest e rid digest owner epoch =
     fenced_run_update rid owner epoch
       (\<lambda>r. r\<lparr>dr_partial_coder_diff_digest := digest, dr_updated_at := utc e 0\<rparr>)"

definition set_checkpoint_db_path where
  "set_checkpoint_db_path e rid path owner epoch =
     fenced_run_update rid owner epoch
       (\<lambda>r. r\<lparr>dr_checkpoint_db_path := path, dr_updated_at := utc e 0\<rparr>)"

section \<open>Heartbeat, release, base revision\<close>

definition heartbeat_durable_lease ::
    "env \<Rightarrow> string \<Rightarrow> string \<Rightarrow> int \<Rightarrow> int \<Rightarrow> db \<Rightarrow> unit step" where
  "heartbeat_durable_lease e rid owner epoch expiry_ms s =
     (case fenced_validate_lease rid owner epoch s of
        Inl err \<Rightarrow> (Inl err, s)
      | Inr _ \<Rightarrow>
          (Inr (), update_run rid
             (\<lambda>r. r\<lparr>dr_heartbeat_at_ms := now_ms e 0, dr_lease_expiry_ms := now_ms e 0 + expiry_ms,
                    dr_updated_at := utc e 0\<rparr>) s))"

definition release_durable_lease :: "env \<Rightarrow> string \<Rightarrow> string \<Rightarrow> int \<Rightarrow> db \<Rightarrow> unit step" where
  "release_durable_lease e rid owner epoch s =
     (case run_row_of rid s of
        None \<Rightarrow> (Inl (run_not_found rid), s)
      | Some r \<Rightarrow>
          if \<not> holds_lease r owner epoch then
            (Inl (fenced_error ''lease_fenced_release'' rid owner epoch r), s)
          else
            let hit = (\<lambda>r. dr_run_id r = rid \<and> dr_lease_owner r = owner \<and> dr_lease_epoch r = epoch)
            in if sql_count hit (durable_runs s) = 0 then
                 (Inl (TaskStoreError (''lease_release_failed:'' @ rid
                    @ '':lease_changed_during_release'')), s)
               else
                 (Inr (), s\<lparr>durable_runs := sql_update hit
                    (\<lambda>r. r\<lparr>dr_lease_owner := '''', dr_lease_expiry_ms := 0, dr_updated_at := utc e 0\<rparr>)
                    (durable_runs s)\<rparr>))"

definition set_repository_base_sha ::
    "env \<Rightarrow> string \<Rightarrow> string \<Rightarrow> string \<Rightarrow> int \<Rightarrow> db \<Rightarrow> unit step" where
  "set_repository_base_sha e rid base_sha owner epoch s =
     (case run_row_of rid s of
        None \<Rightarrow> (Inl (run_not_found rid), s)
      | Some r \<Rightarrow>
          if \<not> holds_lease r owner epoch then
            (Inl (TaskStoreError (lease_text ''lease_fenced'' rid owner epoch)), s)
          else if dr_repository_base_sha r \<noteq> '''' then
            (Inl (TaskStoreError (''repository_base_immutable:'' @ rid @ '':already_set=''
               @ dr_repository_base_sha r)), s)
          else
            (Inr (), update_run rid
               (\<lambda>r. r\<lparr>dr_repository_base_sha := base_sha, dr_updated_at := utc e 0\<rparr>) s))"

section \<open>Accepting checkpoints\<close>

definition run_history :: "string \<Rightarrow> db \<Rightarrow> checkpoint_row list" where
  "run_history rid s = filter (\<lambda>c. cp_run_id c = rid) (checkpoint_history s)"

definition get_durable_checkpoints :: "string \<Rightarrow> db \<Rightarrow> checkpoint_row list" where
  "get_durable_checkpoints rid s = run_history rid s"

text \<open>\<open>ORDER BY seq DESC LIMIT 1\<close>: the last row of that name.\<close>

definition last_checkpoint :: "string \<Rightarrow> string \<Rightarrow> db \<Rightarrow> checkpoint_row option" where
  "last_checkpoint rid name s =
     find (\<lambda>c. cp_run_id c = rid \<and> cp_checkpoint_name c = name) (rev (checkpoint_history s))"

definition insert_checkpoint ::
    "env \<Rightarrow> string \<Rightarrow> string \<Rightarrow> string \<Rightarrow> int \<Rightarrow> db \<Rightarrow> checkpoint_row step" where
  "insert_checkpoint e rid name digest attempt s =
     (let cp = \<lparr>cp_checkpoint_id = ''cp-'' @ rid @ ''-'' @ uuid e 0, cp_run_id = rid,
                cp_checkpoint_name = name, cp_artifact_digest = digest,
                cp_role_attempt = attempt, cp_created_at = utc e 0\<rparr>
      in (Inr (cp\<lparr>cp_created_at := utc e 2\<rparr>),
          update_run rid
            (\<lambda>r. r\<lparr>dr_accepted_checkpoint := name, dr_current_role := checkpoint_to_role name,
                   dr_updated_at := utc e 1\<rparr>)
            (s\<lparr>checkpoint_history := checkpoint_history s @ [cp]\<rparr>)))"

definition accept_checkpoint ::
    "env \<Rightarrow> string \<Rightarrow> string \<Rightarrow> string \<Rightarrow> int \<Rightarrow> string \<Rightarrow> int \<Rightarrow> db \<Rightarrow> checkpoint_row step" where
  "accept_checkpoint e rid name digest attempt owner epoch s =
     (case fenced_validate_lease rid owner epoch s of
        Inl err \<Rightarrow> (Inl err, s)
      | Inr r \<Rightarrow>
          let cur = dr_accepted_checkpoint r; cur_rank = checkpoint_rank cur;
              new_rank = checkpoint_rank name in
          if new_rank < 0 then
            (Inl (TaskStoreError (''invalid_checkpoint_name:'' @ name)), s)
          else if cur = '''' \<and> name \<noteq> ''PRE_PLANNER'' then
            (Inl (TaskStoreError (''checkpoint_first_must_be_pre_planner:run='' @ rid
               @ '':first_attempted='' @ name)), s)
          else if new_rank < cur_rank then
            (Inl (TaskStoreError (''checkpoint_sequence_regression:'' @ cur @ ''->'' @ name)), s)
          else if cur_rank + 1 < new_rank \<and> 0 \<le> cur_rank then
            (Inl (TaskStoreError (''checkpoint_sequence_jump:'' @ cur @ ''->'' @ name)), s)
          else
            (case (if new_rank = cur_rank then last_checkpoint rid name s else None) of
               Some c \<Rightarrow>
                 (if cp_artifact_digest c \<noteq> digest \<or> cp_role_attempt c \<noteq> attempt then
                    (Inl (TaskStoreError (''conflicting_checkpoint_acceptance:run='' @ rid
                       @ '':checkpoint='' @ name @ '':stored_digest='' @ cp_artifact_digest c
                       @ '':attempted_digest='' @ digest @ '':stored_attempt=''
                       @ str_of_int (cp_role_attempt c) @ '':attempted_attempt=''
                       @ str_of_int attempt)), s)
                  else (Inr c, s))
             | None \<Rightarrow> insert_checkpoint e rid name digest attempt s))"

section \<open>Recovering a lease\<close>

definition RECOVERABLE :: "string list" where
  "RECOVERABLE = [''orphan_stale_lease'', ''interrupted'', ''recovering'']"

definition recover_lease_txn ::
    "env \<Rightarrow> string \<Rightarrow> string \<Rightarrow> int \<Rightarrow> bool \<Rightarrow> db \<Rightarrow> unit step" where
  "recover_lease_txn e rid owner expiry_ms require_interrupted s =
     (case (case run_row_of rid s of
              None \<Rightarrow> None
            | Some r \<Rightarrow> map_option (Pair r) (task_row_of (dr_task_id r) s)) of
        None \<Rightarrow> (Inl (run_not_found rid), s)
      | Some (r, t) \<Rightarrow>
          if require_interrupted \<and> t_status t \<noteq> ''INTERRUPTED'' then
            (Inl (TaskStoreError (''durable_recover_wrong_task_status:'' @ rid
               @ '':expected=INTERRUPTED:actual='' @ t_status t)), s)
          else if t_orchestration_mode t \<notin> {''sequential_team'', ''single''} then
            (Inl (TaskStoreError (''durable_recover_wrong_orchestration_mode:'' @ rid
               @ '':actual='' @ t_orchestration_mode t)), s)
          else if t_executor_kind t \<notin> {''opencode'', ''deterministic_fixture''} then
            (Inl (TaskStoreError (''durable_recover_wrong_executor_kind:'' @ rid
               @ '':actual='' @ t_executor_kind t)), s)
          else if dr_recovery_classification r
                    \<notin> set (if require_interrupted then RECOVERABLE else RECOVERABLE @ [''normal'']) then
            (Inl (TaskStoreError (''durable_recover_invalid_recovery_classification:'' @ rid
               @ '':actual='' @ dr_recovery_classification r)), s)
          else
            let old = dr_lease_epoch r;
                hit = (\<lambda>r. dr_run_id r = rid \<and> dr_lease_epoch r = old);
                s1 = s\<lparr>durable_runs := sql_update hit
                  (\<lambda>r. r\<lparr>dr_lease_owner := owner, dr_lease_epoch := old + 1,
                         dr_heartbeat_at_ms := now_ms e 0,
                         dr_lease_expiry_ms := now_ms e 0 + expiry_ms, dr_updated_at := utc e 0\<rparr>)
                  (durable_runs s)\<rparr>;
                waiting = (\<lambda>x. t_id x = dr_task_id r \<and> t_status x = ''INTERRUPTED'')
            in if sql_count hit (durable_runs s) = 0 then
                 (Inl (TaskStoreError (''durable_recover_lease_changed:'' @ rid @ '':epoch=''
                    @ str_of_int old)), s1)
               else if require_interrupted then
                 (if sql_count waiting (tasks s) = 0 then
                    (Inl (TaskStoreError (''durable_recover_task_not_interrupted:''
                       @ dr_task_id r)), s1)
                  else
                    (Inr (), s1\<lparr>tasks := sql_update waiting
                       (\<lambda>x. x\<lparr>t_status := ''RUNNING'', t_updated_at := utc e 0\<rparr>) (tasks s)\<rparr>))
               else (Inr (), s1))"

definition recover_durable_lease ::
    "env \<Rightarrow> string \<Rightarrow> string \<Rightarrow> int \<Rightarrow> bool \<Rightarrow> db \<Rightarrow> lease_handle step" where
  "recover_durable_lease e rid owner expiry_ms require_interrupted s =
     andthen (transact (\<lambda>m. ''recover_durable_lease_failed:'' @ m) s
                (recover_lease_txn e rid owner expiry_ms require_interrupted s))
       (\<lambda>_ s'. (map_sum id lease_handle_from_row (get_durable_run rid s'), s'))"

section \<open>The journal of external operations\<close>

definition newest_operation :: "string \<Rightarrow> string \<Rightarrow> db \<Rightarrow> external_op_row option" where
  "newest_operation key digest s =
     (case order_desc xo_created_at
             (filter (\<lambda>x. xo_idempotency_key x = key \<and> xo_request_digest x = digest)
                (external_operations s)) of
        [] \<Rightarrow> None | x # _ \<Rightarrow> Some x)"

text \<open>
  The lease check of the journal's methods: skipped for an empty run id, otherwise the run
  must exist and be held.
\<close>

definition journal_lease_ok :: "string \<Rightarrow> string \<Rightarrow> int \<Rightarrow> db \<Rightarrow> bool" where
  "journal_lease_ok rid owner epoch s \<longleftrightarrow>
     rid = '''' \<or> (case run_row_of rid s of None \<Rightarrow> False | Some r \<Rightarrow> holds_lease r owner epoch)"

definition journal_lease_error :: "string \<Rightarrow> string \<Rightarrow> string \<Rightarrow> int \<Rightarrow> db \<Rightarrow> store_error" where
  "journal_lease_error prefix rid owner epoch s =
     (case run_row_of rid s of
        None \<Rightarrow> run_not_found rid | Some r \<Rightarrow> fenced_error prefix rid owner epoch r)"

definition external_operation_prevents_dispatch ::
    "string \<Rightarrow> string \<Rightarrow> string \<Rightarrow> string \<Rightarrow> int \<Rightarrow> db \<Rightarrow> bool" where
  "external_operation_prevents_dispatch key digest rid owner epoch s =
     (if key = '''' then False
      else if \<not> journal_lease_ok rid owner epoch s then False
      else newest_operation key digest s \<noteq> None)"

definition record_external_operation_txn ::
    "env \<Rightarrow> string \<Rightarrow> string \<Rightarrow> string \<Rightarrow> string \<Rightarrow> string \<Rightarrow> string \<Rightarrow> int \<Rightarrow> db
     \<Rightarrow> external_op_row step" where
  "record_external_operation_txn e okey key digest rid tid owner epoch s =
     (if \<not> journal_lease_ok rid owner epoch s then
        (Inl (journal_lease_error ''lease_fenced_external_op'' rid owner epoch s), s)
      else case newest_operation key digest s of
             Some x \<Rightarrow> (Inr x, s)
           | None \<Rightarrow>
               let row = \<lparr>xo_operation_id = ''op-'' @ uuid e 0, xo_run_id = rid, xo_task_id = tid,
                          xo_operation_key = okey, xo_idempotency_key = key,
                          xo_request_digest = digest, xo_state = ''PENDING'',
                          xo_external_operation_id = '''', xo_result_state = '''',
                          xo_created_at = utc e 0, xo_updated_at = utc e 0\<rparr>
               in case sql_insert (\<lambda>a b. xo_operation_id a = xo_operation_id b)
                         ''UNIQUE constraint failed: durable_external_operations.operation_id''
                         row (external_operations s) of
                    Inl err \<Rightarrow> (Inl err, s)
                  | Inr xs \<Rightarrow> (Inr row, s\<lparr>external_operations := xs\<rparr>))"

definition record_external_operation where
  "record_external_operation e okey key digest rid tid owner epoch s =
     transact (\<lambda>m. ''record_external_operation_failed:'' @ m) s
       (record_external_operation_txn e okey key digest rid tid owner epoch s)"

definition reconcile_external_operation ::
    "env \<Rightarrow> string \<Rightarrow> string \<Rightarrow> string \<Rightarrow> string \<Rightarrow> string \<Rightarrow> int \<Rightarrow> db \<Rightarrow> external_op_row step" where
  "reconcile_external_operation e oid ext result rid owner epoch s =
     (if \<not> journal_lease_ok rid owner epoch s then
        (Inl (journal_lease_error ''lease_fenced_external_op_reconcile'' rid owner epoch s), s)
      else
        let hit = (\<lambda>x. xo_operation_id x = oid \<and> (rid = '''' \<or> xo_run_id x = rid));
            f = (\<lambda>x. x\<lparr>xo_external_operation_id := ext, xo_result_state := result,
                       xo_state := (if result = ''success'' then ''SUCCESS'' else ''RECONCILED''),
                       xo_updated_at := utc e 0\<rparr>)
        in case find hit (external_operations s) of
             None \<Rightarrow> (Inl (TaskStoreError (''external_operation_not_found:'' @ oid)), s)
           | Some x \<Rightarrow>
               (Inr (f x), s\<lparr>external_operations := sql_update hit f (external_operations s)\<rparr>))"

section \<open>Reconciling expired leases\<close>

record reconcile_record =
  rr_run_id :: string
  rr_task_id :: string
  rr_previous_status :: string
  rr_recovery_classification :: string

text \<open>The runs the first query returns, with the status each task has at that moment.\<close>

definition expired_candidates :: "int \<Rightarrow> db \<Rightarrow> (run_row \<times> string) list" where
  "expired_candidates now s =
     order_asc (\<lambda>(r, _). dr_created_at r)
       (concat (map (\<lambda>r.
          if 0 < dr_lease_expiry_ms r \<and> dr_lease_expiry_ms r < now then
            (case task_row_of (dr_task_id r) s of
               None \<Rightarrow> []
             | Some t \<Rightarrow> if t_status t \<in> set LIVE_STATUSES then [(r, t_status t)] else [])
          else []) (durable_runs s)))"

definition interrupted_event :: "env \<Rightarrow> string \<Rightarrow> string \<Rightarrow> string \<Rightarrow> event_row" where
  "interrupted_event e rid tid previous =
     \<lparr>ev_id = ''event-'' @ tid @ ''-'' @ uuid e 0, ev_task_id = tid,
      ev_type = ''EXECUTOR_FINISHED'', ev_timestamp = utc e 3,
      ev_title = ''Durable run interrupted'',
      ev_description = ''lease expired, reconciled to INTERRUPTED'', ev_raw_log = '''',
      ev_metadata = JObj [(''previous_status'', JStr previous),
                          (''recovery_classification'', JStr ''orphan_stale_lease''),
                          (''run_id'', JStr rid)]\<rparr>"

text \<open>
  The transaction for one candidate: it re-reads expiry and status, and every \<open>ROLLBACK;
  continue\<close> of the loop is the result \<open>None\<close> with the database unchanged.
\<close>

definition reconcile_one ::
    "env \<Rightarrow> int \<Rightarrow> run_row \<times> string \<Rightarrow> db \<Rightarrow> reconcile_record option \<times> db" where
  "reconcile_one e now c s =
     (let rid = dr_run_id (fst c); tid = dr_task_id (fst c) in
      case (case run_row_of rid s of
              None \<Rightarrow> None
            | Some r \<Rightarrow> map_option (Pair r) (task_row_of (dr_task_id r) s)) of
        None \<Rightarrow> (None, s)
      | Some (r, t) \<Rightarrow>
          let stale = (\<lambda>r. dr_run_id r = rid \<and> dr_lease_expiry_ms r < now
                 \<and> dr_recovery_classification r \<in> {''normal'', ''orphan_stale_lease''});
              live = (\<lambda>x. t_id x = tid \<and> t_status x \<in> set LIVE_STATUSES)
          in if now \<le> dr_lease_expiry_ms r then (None, s)
             else if t_status t \<notin> set LIVE_STATUSES then (None, s)
             else if sql_count stale (durable_runs s) = 0 then (None, s)
             else if sql_count live (tasks s) = 0 then (None, s)
             else
               (Some \<lparr>rr_run_id = rid, rr_task_id = tid, rr_previous_status = snd c,
                      rr_recovery_classification = ''orphan_stale_lease''\<rparr>,
                s\<lparr>durable_runs := sql_update stale
                    (\<lambda>r. r\<lparr>dr_recovery_classification := ''orphan_stale_lease'',
                           dr_lease_owner := '''', dr_interrupted_at := utc e 0,
                           dr_updated_at := utc e 1\<rparr>) (durable_runs s),
                  tasks := sql_update live
                    (\<lambda>x. x\<lparr>t_status := ''INTERRUPTED'', t_updated_at := utc e 2\<rparr>) (tasks s),
                  task_events := task_events s @ [interrupted_event e rid tid (snd c)]\<rparr>))"

fun reconcile_all ::
    "env \<Rightarrow> int \<Rightarrow> (run_row \<times> string) list \<Rightarrow> db \<Rightarrow> reconcile_record list \<times> db" where
  "reconcile_all e now [] s = ([], s)"
| "reconcile_all e now (c # cs) s =
     (let (r, s1) = reconcile_one e now c s;
          (rs, s2) = reconcile_all (later 4 e) now cs s1
      in ((case r of None \<Rightarrow> rs | Some x \<Rightarrow> x # rs), s2))"

definition reconcile_expired_runs :: "env \<Rightarrow> int \<Rightarrow> db \<Rightarrow> reconcile_record list \<times> db" where
  "reconcile_expired_runs e now s = reconcile_all e now (expired_candidates now s) s"

end
