(* ===== verification/Usage.thy ===== *)
theory Usage
  imports Task_Lifecycle
begin

text \<open>
  Sanitised model-usage observations (run_store.py): appending one numeric fact under a
  replay-safe identity, the per-task summary, and the budget snapshot read during a run from
  the active coordinator claim and its reservation.
\<close>

section \<open>Appending an observation\<close>

record usage_input =
  ui_observation_id :: string
  ui_execution_id :: string
  ui_role :: string
  ui_model_id :: string
  ui_provider_id :: string
  ui_source_kind :: string
  ui_source_id :: string
  ui_status :: string
  ui_input_units :: "int option"
  ui_output_units :: "int option"
  ui_reasoning_units :: "int option"
  ui_cache_read_units :: "int option"
  ui_cache_write_units :: "int option"
  ui_cost_micro_units :: "int option"

text \<open>The \<open>labels\<close> and \<open>metrics\<close> dictionaries, in the code's order.\<close>

definition usage_labels :: "usage_input \<Rightarrow> (string \<times> string) list" where
  "usage_labels i =
     [(''observation_id'', ui_observation_id i), (''execution_id'', ui_execution_id i),
      (''role'', ui_role i), (''model_id'', ui_model_id i), (''provider_id'', ui_provider_id i),
      (''source_kind'', ui_source_kind i), (''source_id'', ui_source_id i)]"

definition usage_metrics :: "usage_input \<Rightarrow> (string \<times> int option) list" where
  "usage_metrics i =
     [(''input_units'', ui_input_units i), (''output_units'', ui_output_units i),
      (''reasoning_units'', ui_reasoning_units i), (''cache_read_units'', ui_cache_read_units i),
      (''cache_write_units'', ui_cache_write_units i),
      (''cost_micro_units'', ui_cost_micro_units i)]"

text \<open>The character class \<open>[A-Za-z0-9._:/@-]\<close>.\<close>

definition safe_label_char :: "char \<Rightarrow> bool" where
  "safe_label_char c =
     (let n = (of_char c :: int) in
      (65 \<le> n \<and> n \<le> 90) \<or> (97 \<le> n \<and> n \<le> 122) \<or> (48 \<le> n \<and> n \<le> 57)
      \<or> c \<in> set ''._:/@-'')"

definition label_ok :: "string \<times> string \<Rightarrow> bool" where
  "label_ok nv =
     (length (snd nv) \<le> 256 \<and> (fst nv = ''provider_id'' \<or> snd nv \<noteq> '''')
      \<and> list_all safe_label_char (snd nv) \<and> \<not> py_in ''://'' (snd nv))"

definition metric_ok :: "string \<times> int option \<Rightarrow> bool" where
  "metric_ok nv = (case snd nv of None \<Rightarrow> False | Some v \<Rightarrow> 0 \<le> v)"

definition usage_validation :: "usage_input \<Rightarrow> store_error option" where
  "usage_validation i =
     (case find (\<lambda>nv. \<not> label_ok nv) (usage_labels i) of
        Some nv \<Rightarrow> Some (TaskStoreError (''invalid_usage_label:'' @ fst nv))
      | None \<Rightarrow>
          if ui_status i \<notin> {''OBSERVED'', ''UNKNOWN''} then
            Some (TaskStoreError ''invalid_usage_status'')
          else if ui_status i = ''OBSERVED'' then
            (case find (\<lambda>nv. \<not> metric_ok nv) (usage_metrics i) of
               Some nv \<Rightarrow> Some (TaskStoreError (''invalid_usage_metric:'' @ fst nv))
             | None \<Rightarrow> None)
          else if list_ex (\<lambda>nv. snd nv \<noteq> None) (usage_metrics i) then
            Some (TaskStoreError ''unknown_usage_must_not_carry_numeric_zero'')
          else None)"

definition json_of_int_option :: "int option \<Rightarrow> json" where
  "json_of_int_option v = (case v of None \<Rightarrow> JNull | Some i \<Rightarrow> JInt i)"

definition usage_payload :: "usage_input \<Rightarrow> json" where
  "usage_payload i =
     JObj (map (\<lambda>(n, v). (n, JStr v)) (usage_labels i) @ [(''status'', JStr (ui_status i))]
           @ map (\<lambda>(n, v). (n, json_of_int_option v)) (usage_metrics i))"

definition active_claim :: "string \<Rightarrow> db \<Rightarrow> claim_row option" where
  "active_claim tid s =
     (if control_schema s then find (\<lambda>c. cl_task_id c = tid \<and> cl_status c = ''ACTIVE'') (claims s)
      else None)"

definition new_usage_row :: "env \<Rightarrow> string \<Rightarrow> usage_input \<Rightarrow> db \<Rightarrow> usage_row" where
  "new_usage_row e tid i s =
     \<lparr>uo_id = ui_observation_id i, uo_task_id = tid,
      uo_window_id = (case active_claim tid s of None \<Rightarrow> '''' | Some c \<Rightarrow> cl_window_id c),
      uo_claim_epoch = (case active_claim tid s of None \<Rightarrow> 0 | Some c \<Rightarrow> cl_epoch c),
      uo_execution_id = ui_execution_id i, uo_role = ui_role i, uo_model_id = ui_model_id i,
      uo_provider_id = ui_provider_id i, uo_source_kind = ui_source_kind i,
      uo_source_id = ui_source_id i, uo_status = ui_status i,
      uo_input_units = ui_input_units i, uo_output_units = ui_output_units i,
      uo_reasoning_units = ui_reasoning_units i, uo_cache_read_units = ui_cache_read_units i,
      uo_cache_write_units = ui_cache_write_units i, uo_cost_micro_units = ui_cost_micro_units i,
      uo_payload_digest = sha256_json e (usage_payload i), uo_created_at = utc e 0\<rparr>"

definition append_usage_observation :: "env \<Rightarrow> string \<Rightarrow> usage_input \<Rightarrow> db \<Rightarrow> usage_row step" where
  "append_usage_observation e tid i s =
     (case usage_validation i of
        Some err \<Rightarrow> (Inl err, s)
      | None \<Rightarrow>
          if task_row_of tid s = None then
            (Inl (TaskStoreError (''task_not_found:'' @ tid)), s)
          else
            let row = new_usage_row e tid i s in
            case sql_insert (\<lambda>a b. uo_id a = uo_id b)
                   ''UNIQUE constraint failed: task_usage_observations.id'' row
                   (usage_observations s) of
              Inr us \<Rightarrow> (Inr row, s\<lparr>usage_observations := us\<rparr>)
            | Inl _ \<Rightarrow>
                (case find (\<lambda>u. uo_id u = ui_observation_id i) (usage_observations s) of
                   None \<Rightarrow> (Inl (TaskStoreError (''usage_observation_identity_collision:''
                              @ ui_observation_id i)), s)
                 | Some u \<Rightarrow>
                     if uo_payload_digest u \<noteq> uo_payload_digest row then
                       (Inl (TaskStoreError (''usage_observation_identity_collision:''
                          @ ui_observation_id i)), s)
                     else (Inr u, s)))"

section \<open>Listing and summarising\<close>

definition list_usage_observations :: "string \<Rightarrow> db \<Rightarrow> usage_row list outcome" where
  "list_usage_observations tid s =
     (if task_row_of tid s = None then Inl (TaskStoreError (''task_not_found:'' @ tid))
      else Inr (order_asc uo_created_at (order_asc uo_id
             (filter (\<lambda>u. uo_task_id u = tid) (usage_observations s)))))"

text \<open>\<open>int(value or 0)\<close>\<close>

definition units :: "int option \<Rightarrow> int" where
  "units v = (case v of None \<Rightarrow> 0 | Some i \<Rightarrow> i)"

definition token_units :: "usage_row \<Rightarrow> int" where
  "token_units u = units (uo_input_units u) + units (uo_output_units u)
     + units (uo_reasoning_units u) + units (uo_cache_read_units u)
     + units (uo_cache_write_units u)"

record totals =
  tot_input :: int
  tot_output :: int
  tot_reasoning :: int
  tot_cache_read :: int
  tot_cache_write :: int
  tot_cost :: int

record role_totals =
  rt_role :: string
  rt_totals :: totals
  rt_observation_count :: int
  rt_unknown_count :: int
  rt_provenance_ids :: "string list"

record usage_summary =
  us_status :: string
  us_totals :: totals
  us_total_token_units :: int
  us_observation_count :: int
  us_unknown_count :: int
  us_provenance_ids :: "string list"
  us_per_role :: "role_totals list"

definition zero_totals :: totals where
  "zero_totals = \<lparr>tot_input = 0, tot_output = 0, tot_reasoning = 0, tot_cache_read = 0,
                  tot_cache_write = 0, tot_cost = 0\<rparr>"

definition add_totals :: "usage_row \<Rightarrow> totals \<Rightarrow> totals" where
  "add_totals u t =
     \<lparr>tot_input = tot_input t + units (uo_input_units u),
      tot_output = tot_output t + units (uo_output_units u),
      tot_reasoning = tot_reasoning t + units (uo_reasoning_units u),
      tot_cache_read = tot_cache_read t + units (uo_cache_read_units u),
      tot_cache_write = tot_cache_write t + units (uo_cache_write_units u),
      tot_cost = tot_cost t + units (uo_cost_micro_units u)\<rparr>"

definition new_role_totals :: "string \<Rightarrow> role_totals" where
  "new_role_totals role =
     \<lparr>rt_role = role, rt_totals = zero_totals, rt_observation_count = 0, rt_unknown_count = 0,
      rt_provenance_ids = []\<rparr>"

text \<open>One pass of the loop body over a role's entry.\<close>

definition count_role :: "usage_row \<Rightarrow> role_totals \<Rightarrow> role_totals" where
  "count_role u r =
     (let r1 = r\<lparr>rt_observation_count := rt_observation_count r + 1,
                 rt_provenance_ids := rt_provenance_ids r @ [uo_id u]\<rparr>
      in if uo_status u = ''UNKNOWN'' then r1\<lparr>rt_unknown_count := rt_unknown_count r + 1\<rparr>
         else r1\<lparr>rt_totals := add_totals u (rt_totals r)\<rparr>)"

text \<open>\<open>roles.setdefault(role, \<dots>)\<close> followed by the update, on the roles in insertion order.\<close>

fun count_in_roles :: "usage_row \<Rightarrow> role_totals list \<Rightarrow> role_totals list" where
  "count_in_roles u [] = [count_role u (new_role_totals (uo_role u))]"
| "count_in_roles u (r # rs) =
     (if rt_role r = uo_role u then count_role u r # rs else r # count_in_roles u rs)"

fun usage_loop :: "usage_row list \<Rightarrow> totals \<times> role_totals list \<times> int \<Rightarrow> totals \<times> role_totals list \<times> int"
where
  "usage_loop [] acc = acc"
| "usage_loop (u # us) (tot, roles, unknown) =
     usage_loop us
       (if uo_status u = ''UNKNOWN'' then tot else add_totals u tot,
        count_in_roles u roles,
        if uo_status u = ''UNKNOWN'' then unknown + 1 else unknown)"

definition summarize_usage :: "usage_row list \<Rightarrow> usage_summary" where
  "summarize_usage obs =
     (case usage_loop obs (zero_totals, [], 0) of (tot, roles, unknown) \<Rightarrow>
        \<lparr>us_status = (if unknown \<noteq> 0 \<or> obs = [] then ''USAGE_UNKNOWN'' else ''OBSERVED''),
         us_totals = tot,
         us_total_token_units = tot_input tot + tot_output tot + tot_reasoning tot
           + tot_cache_read tot + tot_cache_write tot,
         us_observation_count = int (length obs),
         us_unknown_count = unknown,
         us_provenance_ids = map uo_id obs,
         us_per_role = sort_key rt_role roles\<rparr>)"

definition usage_summary_of :: "string \<Rightarrow> db \<Rightarrow> usage_summary outcome" where
  "usage_summary_of tid s = map_sum id summarize_usage (list_usage_observations tid s)"

section \<open>The budget snapshot of a running task\<close>

record budget_snapshot =
  bs_token_units :: int
  bs_cost_micro_units :: int
  bs_claim_epoch :: int
  bs_observed_token_units :: int
  bs_observed_cost_micro_units :: int
  bs_unknown_observation_count :: int
  bs_observation_count :: int

definition zero_snapshot :: budget_snapshot where
  "zero_snapshot = \<lparr>bs_token_units = 0, bs_cost_micro_units = 0, bs_claim_epoch = 0,
     bs_observed_token_units = 0, bs_observed_cost_micro_units = 0,
     bs_unknown_observation_count = 0, bs_observation_count = 0\<rparr>"

text \<open>The join of an active claim with the active reservation of its task, window and epoch.\<close>

definition active_reservation :: "string \<Rightarrow> db \<Rightarrow> (claim_row \<times> reservation_row) option" where
  "active_reservation tid s =
     (if \<not> control_schema s then None
      else case concat (map (\<lambda>c.
             if cl_task_id c = tid \<and> cl_status c = ''ACTIVE'' then
               map (Pair c) (filter (\<lambda>r. br_task_id r = cl_task_id c \<and> br_window_id r = cl_window_id c
                 \<and> br_claim_epoch r = cl_epoch c \<and> br_state r = ''ACTIVE'') (reservations s))
             else []) (claims s)) of
             [] \<Rightarrow> None | x # _ \<Rightarrow> Some x)"

definition active_usage_budget_snapshot :: "string \<Rightarrow> db \<Rightarrow> budget_snapshot" where
  "active_usage_budget_snapshot tid s =
     (case active_reservation tid s of
        None \<Rightarrow> zero_snapshot
      | Some (c, r) \<Rightarrow>
          let seen = (\<lambda>u. uo_task_id u = tid \<and> uo_window_id u = cl_window_id c);
              obs = (\<lambda>u. seen u \<and> uo_status u = ''OBSERVED'') in
          \<lparr>bs_token_units = br_reserved_token_units r,
           bs_cost_micro_units = br_reserved_cost_micro_units r,
           bs_claim_epoch = cl_epoch c,
           bs_observed_token_units = sql_sum token_units obs (usage_observations s),
           bs_observed_cost_micro_units =
             sql_sum (\<lambda>u. units (uo_cost_micro_units u)) obs (usage_observations s),
           bs_unknown_observation_count =
             int (sql_count (\<lambda>u. seen u \<and> uo_status u = ''UNKNOWN'') (usage_observations s)),
           bs_observation_count = int (sql_count seen (usage_observations s))\<rparr>)"

definition active_usage_reservation :: "string \<Rightarrow> db \<Rightarrow> int \<times> int \<times> int" where
  "active_usage_reservation tid s =
     (let b = active_usage_budget_snapshot tid s
      in (bs_token_units b, bs_cost_micro_units b, bs_claim_epoch b))"

end
