(* ===== verification/Fenced_Ops.thy ===== *)
theory Fenced_Ops
  imports Durable_Runs Usage
begin

text \<open>
  The fenced mutations of tasks (run_store.py, "Fenced durable-path Task/business mutations"):
  each validates owner and epoch of a run's lease and writes inside one transaction. A method
  that ends with \<open>get_task\<close> reads the task after the commit, so a missing task is reported
  after the write has become durable.
\<close>

definition fenced :: "string \<Rightarrow> string \<Rightarrow> int \<Rightarrow> string \<Rightarrow> (run_row \<Rightarrow> db \<Rightarrow> 'a step) \<Rightarrow> db \<Rightarrow> 'a step" where
  "fenced rid owner epoch prefix body s =
     transact (\<lambda>m. prefix @ m) s
       (case fenced_validate_lease rid owner epoch s of
          Inl err \<Rightarrow> (Inl err, s) | Inr r \<Rightarrow> body r s)"

section \<open>Status\<close>

definition write_status :: "env \<Rightarrow> string \<Rightarrow> string \<Rightarrow> db \<Rightarrow> db" where
  "write_status e tid status s =
     s\<lparr>tasks := sql_update (\<lambda>r. t_id r = tid)
         (\<lambda>r. r\<lparr>t_status := status, t_updated_at := utc e 0\<rparr>) (tasks s)\<rparr>"

definition fenced_transition_to ::
    "env \<Rightarrow> string \<Rightarrow> string \<Rightarrow> string \<Rightarrow> string \<Rightarrow> int \<Rightarrow> db \<Rightarrow> task_view step" where
  "fenced_transition_to e rid tid status owner epoch s =
     andthen (fenced rid owner epoch ''fenced_transition_to_failed:'' (\<lambda>_ s.
       if status \<notin> set TASK_STATUS_ORDER
       then (Inl (TaskStoreError (''invalid_status:'' @ status)), s)
       else case task_row_of tid s of
         None \<Rightarrow> (Inl (TaskStoreError (''task_not_found:'' @ tid)), s)
       | Some t \<Rightarrow>
           let cur = t_status t; allowed = transition_rules cur in
           if cur = status then (Inr (), s)
           else if status \<notin> set allowed then
             (Inl (InvalidTransitionError (''invalid_transition:'' @ cur @ ''->'' @ status
                @ '' allowed='' @ py_repr_tuple allowed)), s)
           else if cur \<in> set TERMINAL_STATUSES then
             (Inl (InvalidTransitionError (''terminal_status:'' @ cur)), s)
           else (Inr (), write_status e tid status s)) s)
     (\<lambda>_ s'. return_task tid None s')"

section \<open>Files, events, evidence\<close>

definition touch_task :: "env \<Rightarrow> int \<Rightarrow> string \<Rightarrow> db \<Rightarrow> db" where
  "touch_task e k tid s =
     s\<lparr>tasks := sql_update (\<lambda>r. t_id r = tid) (\<lambda>r. r\<lparr>t_updated_at := utc e k\<rparr>) (tasks s)\<rparr>"

definition fenced_set_changed_files ::
    "env \<Rightarrow> string \<Rightarrow> string \<Rightarrow> file_change list \<Rightarrow> string \<Rightarrow> int \<Rightarrow> db \<Rightarrow> task_view step" where
  "fenced_set_changed_files e rid tid files owner epoch s =
     andthen (fenced rid owner epoch ''fenced_set_changed_files_failed:''
       (\<lambda>_ s. (Inr (), touch_task e 0 tid (replace_changed_files tid files s))) s)
     (\<lambda>_ s'. return_task tid None s')"

text \<open>Unlike \<open>_append_event\<close>, the fenced insert does not check the event type.\<close>

definition fenced_add_event ::
    "env \<Rightarrow> string \<Rightarrow> string \<Rightarrow> string \<Rightarrow> string \<Rightarrow> string \<Rightarrow> string \<Rightarrow> json option \<Rightarrow> string \<Rightarrow> int
     \<Rightarrow> db \<Rightarrow> event_row step" where
  "fenced_add_event e rid tid etype title descr raw_log meta owner epoch s =
     fenced rid owner epoch ''fenced_add_event_failed:''
       (\<lambda>_ s.
          let ev = \<lparr>ev_id = ''event-'' @ tid @ ''-'' @ uuid e 0, ev_task_id = tid, ev_type = etype,
                    ev_timestamp = utc e 0, ev_title = title, ev_description = descr,
                    ev_raw_log = raw_log,
                    ev_metadata = json_canon (case meta of None \<Rightarrow> JObj [] | Some m \<Rightarrow> m)\<rparr>
          in (Inr ev, touch_task e 0 tid (s\<lparr>task_events := task_events s @ [ev]\<rparr>))) s"

definition fenced_add_evidence ::
    "env \<Rightarrow> string \<Rightarrow> string \<Rightarrow> evidence_input \<Rightarrow> string \<Rightarrow> int \<Rightarrow> db \<Rightarrow> task_view step" where
  "fenced_add_evidence e rid tid i owner epoch s =
     andthen (fenced rid owner epoch ''fenced_add_evidence_failed:''
       (\<lambda>_ s. (Inr (), touch_task e 0 tid
                 (s\<lparr>task_evidence := task_evidence s @ [evidence_row_of e tid i]\<rparr>))) s)
     (\<lambda>_ s'. return_task tid None s')"

section \<open>Usage\<close>

definition fenced_append_usage_observation ::
    "env \<Rightarrow> string \<Rightarrow> string \<Rightarrow> usage_input \<Rightarrow> string \<Rightarrow> int \<Rightarrow> db \<Rightarrow> usage_row step" where
  "fenced_append_usage_observation e rid tid i owner epoch s =
     fenced rid owner epoch ''fenced_append_usage_failed:''
       (\<lambda>r s. if dr_task_id r \<noteq> tid then (Inl (TaskStoreError ''fenced_usage_task_mismatch''), s)
              else append_usage_observation e tid i s) s"

definition fenced_active_usage_budget_snapshot ::
    "string \<Rightarrow> string \<Rightarrow> string \<Rightarrow> int \<Rightarrow> db \<Rightarrow> budget_snapshot step" where
  "fenced_active_usage_budget_snapshot rid tid owner epoch s =
     fenced rid owner epoch ''fenced_usage_snapshot_failed:''
       (\<lambda>r s. if dr_task_id r \<noteq> tid then (Inl (TaskStoreError ''fenced_usage_task_mismatch''), s)
              else (Inr (active_usage_budget_snapshot tid s), s)) s"

definition fenced_active_usage_reservation ::
    "string \<Rightarrow> string \<Rightarrow> string \<Rightarrow> int \<Rightarrow> db \<Rightarrow> (int \<times> int \<times> int) step" where
  "fenced_active_usage_reservation rid tid owner epoch s =
     fenced rid owner epoch ''fenced_usage_reservation_failed:''
       (\<lambda>r s. if dr_task_id r \<noteq> tid then (Inl (TaskStoreError ''fenced_usage_task_mismatch''), s)
              else (Inr (active_usage_reservation tid s), s)) s"

section \<open>Failure, validation, terminal publication\<close>

definition failure_event :: "env \<Rightarrow> string \<Rightarrow> string \<Rightarrow> string \<Rightarrow> event_row" where
  "failure_event e tid classification detail =
     \<lparr>ev_id = ''event-'' @ tid @ ''-'' @ uuid e 0, ev_task_id = tid,
      ev_type = ''EXECUTOR_FINISHED'', ev_timestamp = utc e 1, ev_title = ''Executor failed'',
      ev_description = ''failure_classification='' @ classification, ev_raw_log = '''',
      ev_metadata = json_canon (failure_metadata classification detail)\<rparr>"

definition fenced_classify_failure ::
    "env \<Rightarrow> string \<Rightarrow> string \<Rightarrow> string \<Rightarrow> string \<Rightarrow> string \<Rightarrow> int \<Rightarrow> db \<Rightarrow> task_view step" where
  "fenced_classify_failure e rid tid classification detail owner epoch s =
     andthen (fenced rid owner epoch ''fenced_classify_failure_failed:'' (\<lambda>_ s.
       case task_row_of tid s of
         None \<Rightarrow> (Inl (TaskStoreError (''task_not_found:'' @ tid)), s)
       | Some t \<Rightarrow>
           if t_status t \<in> set TERMINAL_STATUSES then
             (Inl (TaskStoreError (''terminal_status:'' @ t_status t)), s)
           else
             (Inr (),
              s\<lparr>tasks := sql_update (\<lambda>r. t_id r = tid)
                  (\<lambda>r. r\<lparr>t_failure_classification := classification, t_failure_detail := detail,
                         t_status := failure_target classification, t_updated_at := utc e 0\<rparr>)
                  (tasks s),
                task_events := task_events s @ [failure_event e tid classification detail]\<rparr>)) s)
     (\<lambda>_ s'. return_task tid None s')"

definition fenced_set_task_validation ::
    "env \<Rightarrow> string \<Rightarrow> string \<Rightarrow> string \<Rightarrow> int \<Rightarrow> string \<Rightarrow> string \<Rightarrow> int \<Rightarrow> db \<Rightarrow> task_view step" where
  "fenced_set_task_validation e rid tid command_id exit_code output_digest owner epoch s =
     andthen (fenced rid owner epoch ''fenced_set_task_validation_failed:''
       (\<lambda>_ s. (Inr (), s\<lparr>tasks := sql_update (\<lambda>r. t_id r = tid)
          (\<lambda>r. r\<lparr>t_validation_command_id := command_id, t_validation_exit_code := Some exit_code,
                 t_validation_output_digest := output_digest, t_updated_at := utc e 0\<rparr>)
          (tasks s)\<rparr>)) s)
     (\<lambda>_ s'. return_task tid None s')"

record terminal_input =
  tm_status :: string
  tm_command_id :: string
  tm_exit_code :: int
  tm_output_digest :: string
  tm_failure_classification :: string
  tm_failure_detail :: string

definition fenced_terminalize ::
    "env \<Rightarrow> string \<Rightarrow> string \<Rightarrow> terminal_input \<Rightarrow> string \<Rightarrow> int \<Rightarrow> db \<Rightarrow> task_view step" where
  "fenced_terminalize e rid tid i owner epoch s =
     andthen (fenced rid owner epoch ''fenced_terminalize_failed:'' (\<lambda>_ s.
       case task_row_of tid s of
         None \<Rightarrow> (Inl (TaskStoreError (''task_not_found:'' @ tid)), s)
       | Some t \<Rightarrow>
           if t_status t \<in> set TERMINAL_STATUSES then (Inr (), s)
           else if tm_status i \<notin> set TERMINAL_STATUSES then
             (Inl (TaskStoreError (''invalid_terminal_status:'' @ tm_status i)), s)
           else
             (Inr (), s\<lparr>tasks := sql_update (\<lambda>r. t_id r = tid)
                (\<lambda>r. r\<lparr>t_validation_command_id := tm_command_id i,
                       t_validation_exit_code := Some (tm_exit_code i),
                       t_validation_output_digest := tm_output_digest i,
                       t_failure_classification := tm_failure_classification i,
                       t_failure_detail := tm_failure_detail i, t_status := tm_status i,
                       t_updated_at := utc e 0\<rparr>) (tasks s)\<rparr>)) s)
     (\<lambda>_ s'. return_task tid None s')"

end
