(* ===== verification/Goals.thy ===== *)
theory Goals
  imports Task_Lifecycle
begin

text \<open>
  Goal records of \<open>PlatformControlStore\<close> (control_store.py): creation under an idempotency
  key, the revisioned plan, approval, amendment and launch states, the links from plan tasks
  to store tasks, which linked tasks may run, and the status derived from them.
\<close>

definition fresh_id :: "env \<Rightarrow> int \<Rightarrow> string \<Rightarrow> string" where
  "fresh_id e k prefix = prefix @ ''-'' @ str_of_int (now_ms e k) @ ''-'' @ uuid e k"

definition GOAL_STATES :: "string list" where
  "GOAL_STATES = [''DRAFT'', ''PLANNED'', ''APPROVED'', ''RUNNING'', ''COMPLETED'', ''BLOCKED'',
                  ''INVALIDATED'']"

definition READY_STATUSES :: "string list" where
  "READY_STATUSES = [''READY_FOR_REVIEW'', ''READY_FOR_REVIEW_FIXTURE'']"

definition goal_row_of :: "string \<Rightarrow> db \<Rightarrow> goal_row option" where
  "goal_row_of gid s = find (\<lambda>g. g_id g = gid) (goals s)"

definition get_goal :: "string \<Rightarrow> db \<Rightarrow> goal_row outcome" where
  "get_goal gid s =
     (case goal_row_of gid s of
        None \<Rightarrow> Inl (TaskStoreError (''goal_not_found:'' @ gid)) | Some g \<Rightarrow> Inr g)"

definition return_goal :: "string \<Rightarrow> db \<Rightarrow> goal_row step" where
  "return_goal gid s = (get_goal gid s, s)"

definition list_goals :: "int \<Rightarrow> db \<Rightarrow> goal_row list" where
  "list_goals limit s = take (clamp_limit 500 limit) (order_desc g_created_at (goals s))"

definition list_window_goals :: "string \<Rightarrow> db \<Rightarrow> goal_row list" where
  "list_window_goals wid s = order_asc g_created_at (filter (\<lambda>g. g_window_id g = wid) (goals s))"

section \<open>Creation\<close>

record goal_request =
  gq_title :: string
  gq_objective :: string
  gq_repository :: string
  gq_idempotency_key :: string
  gq_executor_kind :: string
  gq_orchestration_mode :: string
  gq_binding_ref :: string
  gq_policy_ref :: string
  gq_window_id :: string

definition new_goal_row :: "env \<Rightarrow> goal_request \<Rightarrow> goal_row" where
  "new_goal_row e q =
     \<lparr>g_id = fresh_id e 0 ''goal'', g_title = py_strip (gq_title q),
      g_objective = py_strip (gq_objective q), g_repository = py_strip (gq_repository q),
      g_status = ''DRAFT'', g_revision = 1, g_spec_markdown = '''', g_plan_markdown = '''',
      g_tasks = [], g_acceptance = [], g_artifact_digest = '''',
      g_executor_kind = gq_executor_kind q, g_orchestration_mode = gq_orchestration_mode q,
      g_binding_ref = gq_binding_ref q, g_policy_ref = gq_policy_ref q,
      g_window_id = gq_window_id q, g_idempotency_key = py_strip (gq_idempotency_key q),
      g_created_at = utc e 0, g_updated_at = utc e 0\<rparr>"

definition same_goal_request :: "goal_request \<Rightarrow> goal_row \<Rightarrow> bool" where
  "same_goal_request q g \<longleftrightarrow>
     g_title g = py_strip (gq_title q) \<and> g_objective g = py_strip (gq_objective q) \<and>
     g_repository g = py_strip (gq_repository q) \<and> g_executor_kind g = gq_executor_kind q \<and>
     g_orchestration_mode g = gq_orchestration_mode q \<and> g_binding_ref g = gq_binding_ref q"

definition create_goal :: "env \<Rightarrow> goal_request \<Rightarrow> db \<Rightarrow> goal_row step" where
  "create_goal e q s =
     (if py_strip (gq_title q) = '''' \<or> py_strip (gq_objective q) = ''''
         \<or> CHR ''/'' \<notin> set (py_strip (gq_repository q)) \<or> py_strip (gq_idempotency_key q) = '''' then
        (Inl (TaskStoreError ''invalid_goal_identity''), s)
      else if gq_executor_kind q \<notin> {''opencode'', ''deterministic_fixture''} then
        (Inl (TaskStoreError (''unsupported_executor_kind:'' @ gq_executor_kind q)), s)
      else if gq_orchestration_mode q \<notin> {''single'', ''sequential_team''} then
        (Inl (TaskStoreError (''unsupported_orchestration_mode:'' @ gq_orchestration_mode q)), s)
      else if gq_orchestration_mode q = ''sequential_team'' \<and> gq_executor_kind q \<noteq> ''opencode'' then
        (Inl (TaskStoreError ''sequential_team_requires_opencode_executor''), s)
      else case find (\<lambda>g. g_idempotency_key g = py_strip (gq_idempotency_key q)) (goals s) of
             Some g \<Rightarrow>
               (if same_goal_request q g then (Inr g, s)
                else (Inl (TaskStoreError ''goal_idempotency_key_reused_with_different_request''), s))
           | None \<Rightarrow>
               (case sql_insert (\<lambda>a b. g_id a = g_id b \<or> g_idempotency_key a = g_idempotency_key b)
                       ''UNIQUE constraint failed: platform_goals.id'' (new_goal_row e q) (goals s) of
                  Inl err \<Rightarrow> (Inl err, s)
                | Inr gs \<Rightarrow> return_goal (g_id (new_goal_row e q)) (s\<lparr>goals := gs\<rparr>)))"

section \<open>Guarded updates\<close>

text \<open>
  The pattern of every goal transition: one \<open>UPDATE \<dots> WHERE id = ? AND \<dots>\<close>, an exception
  unless exactly one row was changed, and the new record as the result.
\<close>

definition goal_update ::
    "string \<Rightarrow> (goal_row \<Rightarrow> bool) \<Rightarrow> (goal_row \<Rightarrow> goal_row) \<Rightarrow> string \<Rightarrow> db \<Rightarrow> goal_row step" where
  "goal_update gid guard f err s =
     (let hit = (\<lambda>g. g_id g = gid \<and> guard g);
          s' = s\<lparr>goals := sql_update hit f (goals s)\<rparr> in
      if sql_count hit (goals s) \<noteq> 1 then (Inl (TaskStoreError err), s')
      else return_goal gid s')"

definition plan_payload ::
    "string \<Rightarrow> int \<Rightarrow> string \<Rightarrow> string \<Rightarrow> json list \<Rightarrow> string list \<Rightarrow> json" where
  "plan_payload gid revn spec plan ts crit =
     JObj [(''goal_id'', JStr gid), (''revision'', JInt revn), (''spec_markdown'', JStr spec),
           (''plan_markdown'', JStr plan), (''tasks'', JArr ts),
           (''acceptance_criteria'', JArr (map JStr crit))]"

definition save_goal_plan ::
    "env \<Rightarrow> string \<Rightarrow> int \<Rightarrow> string \<Rightarrow> string \<Rightarrow> json list \<Rightarrow> string list \<Rightarrow> db \<Rightarrow> goal_row step" where
  "save_goal_plan e gid revn spec plan ts crit s =
     (let payload = plan_payload gid revn spec plan ts crit in
      case reject_sensitive_keys ''$'' payload of
        Some err \<Rightarrow> (Inl err, s)
      | None \<Rightarrow>
          goal_update gid (\<lambda>g. g_revision g = revn \<and> g_status g \<in> {''DRAFT'', ''PLANNED''})
            (\<lambda>g. g\<lparr>g_status := ''PLANNED'', g_spec_markdown := spec, g_plan_markdown := plan,
                   g_tasks := map json_canon ts, g_acceptance := crit,
                   g_artifact_digest := sha256_json e payload, g_updated_at := utc e 0\<rparr>)
            ''goal_revision_or_state_mismatch'' s)"

definition approve_goal :: "env \<Rightarrow> string \<Rightarrow> int \<Rightarrow> string \<Rightarrow> db \<Rightarrow> goal_row step" where
  "approve_goal e gid revn policy_ref s =
     goal_update gid
       (\<lambda>g. g_revision g = revn \<and> g_status g = ''PLANNED'' \<and> g_artifact_digest g \<noteq> '''')
       (\<lambda>g. g\<lparr>g_status := ''APPROVED'',
              g_policy_ref := (if policy_ref = '''' then g_policy_ref g else policy_ref),
              g_updated_at := utc e 0\<rparr>)
       ''goal_not_approvable'' s"

definition amend_goal :: "env \<Rightarrow> string \<Rightarrow> int \<Rightarrow> string \<Rightarrow> db \<Rightarrow> goal_row step" where
  "amend_goal e gid revn objective s =
     (if py_strip objective = '''' then (Inl (TaskStoreError ''goal_objective_required''), s)
      else goal_update gid (\<lambda>g. g_revision g = revn \<and> g_status g \<noteq> ''RUNNING'')
             (\<lambda>g. g\<lparr>g_objective := py_strip objective, g_status := ''DRAFT'',
                    g_revision := g_revision g + 1, g_spec_markdown := '''', g_plan_markdown := '''',
                    g_tasks := [], g_acceptance := [], g_artifact_digest := '''',
                    g_updated_at := utc e 0\<rparr>)
             ''goal_revision_mismatch'' s)"

definition mark_goal_running :: "env \<Rightarrow> string \<Rightarrow> int \<Rightarrow> string \<Rightarrow> db \<Rightarrow> goal_row step" where
  "mark_goal_running e gid revn wid s =
     goal_update gid (\<lambda>g. g_revision g = revn \<and> g_status g = ''APPROVED'')
       (\<lambda>g. g\<lparr>g_status := ''RUNNING'', g_window_id := wid, g_updated_at := utc e 0\<rparr>)
       ''goal_not_launchable'' s"

section \<open>Links to tasks\<close>

definition link_goal_task ::
    "string \<Rightarrow> int \<Rightarrow> string \<Rightarrow> string \<Rightarrow> string list \<Rightarrow> int \<Rightarrow> db \<Rightarrow> unit step" where
  "link_goal_task gid revn plan_id tid deps seq s =
     (let row = \<lparr>gl_goal_id = gid, gl_goal_revision = revn, gl_plan_task_id = plan_id,
                 gl_task_id = tid, gl_dependencies = deps, gl_seq = seq\<rparr> in
      case sql_insert (\<lambda>a b. gl_task_id a = gl_task_id b \<or>
               (gl_goal_id a = gl_goal_id b \<and> gl_goal_revision a = gl_goal_revision b
                \<and> gl_plan_task_id a = gl_plan_task_id b))
             ''UNIQUE constraint failed: platform_goal_task_links'' row (goal_task_links s) of
        Inl err \<Rightarrow> (Inl err, s)
      | Inr ls \<Rightarrow> (Inr (), s\<lparr>goal_task_links := ls\<rparr>))"

text \<open>The links of the goal's current revision, joined with their tasks.\<close>

definition list_goal_tasks :: "string \<Rightarrow> db \<Rightarrow> (link_row \<times> task_row) list" where
  "list_goal_tasks gid s =
     order_asc (\<lambda>(l, _). gl_seq l)
       (concat (map (\<lambda>l.
          if gl_goal_id l = gid then
            (case (goal_row_of gid s, task_row_of (gl_task_id l) s) of
               (Some g, Some t) \<Rightarrow> if g_revision g = gl_goal_revision l then [(l, t)] else []
             | _ \<Rightarrow> [])
          else []) (goal_task_links s)))"

definition goal_id_for_task :: "string \<Rightarrow> db \<Rightarrow> string outcome" where
  "goal_id_for_task tid s =
     (case find (\<lambda>l. gl_task_id l = tid) (goal_task_links s) of
        None \<Rightarrow> Inl (TaskStoreError (''goal_link_not_found:'' @ tid))
      | Some l \<Rightarrow> Inr (gl_goal_id l))"

section \<open>Runnable tasks\<close>

text \<open>The rows of the first query: links of running goals of the window to waiting tasks.\<close>

definition waiting_links :: "string \<Rightarrow> db \<Rightarrow> (goal_row \<times> link_row) list" where
  "waiting_links wid s =
     order_asc (\<lambda>(g, _). g_created_at g) (order_asc (\<lambda>(_, l). gl_seq l)
       (concat (map (\<lambda>l.
          case (goal_row_of (gl_goal_id l) s, task_row_of (gl_task_id l) s) of
            (Some g, Some t) \<Rightarrow>
              if g_revision g = gl_goal_revision l \<and> g_window_id g = wid \<and> g_status g = ''RUNNING''
                 \<and> t_status t \<in> {''QUEUED'', ''INTERRUPTED''} then [(g, l)] else []
          | _ \<Rightarrow> []) (goal_task_links s))))"

text \<open>The status of the task linked to one plan task of a goal revision.\<close>

definition plan_task_status :: "string \<Rightarrow> int \<Rightarrow> string \<Rightarrow> db \<Rightarrow> string option" where
  "plan_task_status gid revn dep s =
     (case find (\<lambda>l. gl_goal_id l = gid \<and> gl_goal_revision l = revn \<and> gl_plan_task_id l = dep)
             (goal_task_links s) of
        None \<Rightarrow> None
      | Some l \<Rightarrow> map_option t_status (task_row_of (gl_task_id l) s))"

definition dependency_ready :: "link_row \<Rightarrow> db \<Rightarrow> string \<Rightarrow> bool" where
  "dependency_ready l s dep =
     (case plan_task_status (gl_goal_id l) (gl_goal_revision l) dep s of
        None \<Rightarrow> False | Some st \<Rightarrow> st \<in> set READY_STATUSES)"

definition runnable_tasks :: "string \<Rightarrow> int \<Rightarrow> db \<Rightarrow> string list" where
  "runnable_tasks wid limit s =
     map (\<lambda>(_, l). gl_task_id l)
       (filter (\<lambda>(_, l). list_all (dependency_ready l s) (gl_dependencies l))
         (take (clamp_limit 500 limit) (waiting_links wid s)))"

section \<open>The derived status\<close>

definition derived_goal_status :: "string list \<Rightarrow> string" where
  "derived_goal_status sts =
     (if list_all (\<lambda>x. x \<in> set READY_STATUSES) sts then ''COMPLETED''
      else if list_ex (\<lambda>x. x \<in> {''FAILED'', ''BLOCKED'', ''CANCELLED''}) sts then ''BLOCKED''
      else ''RUNNING'')"

definition refresh_goal_status :: "env \<Rightarrow> string \<Rightarrow> db \<Rightarrow> goal_row step" where
  "refresh_goal_status e gid s =
     (let links = list_goal_tasks gid s in
      if links = [] then return_goal gid s
      else return_goal gid
        (s\<lparr>goals := sql_update (\<lambda>g. g_id g = gid)
            (\<lambda>g. g\<lparr>g_status := derived_goal_status (map (\<lambda>(_, t). t_status t) links),
                   g_updated_at := utc e 0\<rparr>) (goals s)\<rparr>))"

end
