(* ===== verification/Windows.thy ===== *)
theory Windows
  imports Usage Goals
begin

text \<open>
  Autonomous windows of \<open>PlatformControlStore\<close> (control_store.py): activation, expiry and
  stop; coordinator claims with their epochs; budget reservations and their exactly-once
  reconciliation against usage observations; operation receipts.
\<close>

section \<open>Activation, expiry, stop\<close>

text \<open>The normalised policy dictionary that \<open>AutonomyService\<close> passes.\<close>

record window_policy =
  wp_window_id :: string
  wp_policy_id :: string
  wp_policy_revision :: int
  wp_owner_identity :: string
  wp_starts_at :: string
  wp_expires_at :: string
  wp_repositories :: "string list"
  wp_capabilities :: "string list"
  wp_max_concurrent_tasks :: int
  wp_max_tasks :: int
  wp_max_retries :: int
  wp_max_token_units :: int
  wp_max_cost_micro_units :: int
  wp_per_task_token_reservation :: int
  wp_per_task_cost_reservation :: int
  wp_provider_quota_state :: string
  wp_enforcement_class :: string

definition policy_json :: "window_policy \<Rightarrow> json" where
  "policy_json p =
     JObj [(''window_id'', JStr (wp_window_id p)), (''policy_id'', JStr (wp_policy_id p)),
       (''policy_revision'', JInt (wp_policy_revision p)),
       (''owner_identity'', JStr (wp_owner_identity p)),
       (''starts_at'', JStr (wp_starts_at p)), (''expires_at'', JStr (wp_expires_at p)),
       (''repositories'', JArr (map JStr (wp_repositories p))),
       (''capabilities'', JArr (map JStr (wp_capabilities p))),
       (''max_concurrent_tasks'', JInt (wp_max_concurrent_tasks p)),
       (''max_tasks'', JInt (wp_max_tasks p)), (''max_retries'', JInt (wp_max_retries p)),
       (''max_token_units'', JInt (wp_max_token_units p)),
       (''max_cost_micro_units'', JInt (wp_max_cost_micro_units p)),
       (''per_task_token_reservation'', JInt (wp_per_task_token_reservation p)),
       (''per_task_cost_reservation'', JInt (wp_per_task_cost_reservation p)),
       (''provider_quota_state'', JStr (wp_provider_quota_state p)),
       (''enforcement_class'', JStr (wp_enforcement_class p))]"

definition new_window_row :: "env \<Rightarrow> window_policy \<Rightarrow> window_row" where
  "new_window_row e p =
     \<lparr>w_id = (if wp_window_id p = '''' then fresh_id e 0 ''window'' else wp_window_id p),
      w_policy_id = wp_policy_id p, w_policy_revision = wp_policy_revision p,
      w_policy_digest = sha256_json e (policy_json p), w_owner_identity = wp_owner_identity p,
      w_confirmation = ''ACTIVATE'', w_starts_at = wp_starts_at p, w_expires_at = wp_expires_at p,
      w_status = ''ACTIVE'', w_repositories = wp_repositories p,
      w_capabilities = wp_capabilities p, w_max_concurrent_tasks = wp_max_concurrent_tasks p,
      w_max_tasks = wp_max_tasks p, w_max_retries = wp_max_retries p, w_tasks_started = 0,
      w_tasks_completed = 0, w_retries_used = 0, w_max_token_units = wp_max_token_units p,
      w_max_cost_micro_units = wp_max_cost_micro_units p,
      w_per_task_token_reservation = wp_per_task_token_reservation p,
      w_per_task_cost_reservation = wp_per_task_cost_reservation p,
      w_provider_quota_state = wp_provider_quota_state p,
      w_enforcement_class = wp_enforcement_class p, w_observed_token_units = 0,
      w_observed_cost_micro_units = 0, w_unknown_observation_count = 0, w_stop_reason = '''',
      w_created_at = utc e 0, w_updated_at = utc e 0\<rparr>"

definition window_row_of :: "string \<Rightarrow> db \<Rightarrow> window_row option" where
  "window_row_of wid s = find (\<lambda>w. w_id w = wid) (windows s)"

definition get_window :: "string \<Rightarrow> db \<Rightarrow> window_row outcome" where
  "get_window wid s =
     (case window_row_of wid s of
        None \<Rightarrow> Inl (TaskStoreError (''window_not_found:'' @ wid)) | Some w \<Rightarrow> Inr w)"

definition list_windows :: "int \<Rightarrow> db \<Rightarrow> window_row list" where
  "list_windows limit s = take (clamp_limit 500 limit) (order_desc w_created_at (windows s))"

definition activate_window :: "env \<Rightarrow> window_policy \<Rightarrow> string \<Rightarrow> db \<Rightarrow> window_row step" where
  "activate_window e p confirmation s =
     (case reject_sensitive_keys ''$'' (policy_json p) of
        Some err \<Rightarrow> (Inl err, s)
      | None \<Rightarrow>
          if py_strip confirmation \<noteq> ''ACTIVATE'' then
            (Inl (TaskStoreError ''owner_activation_confirmation_required''), s)
          else
            let row = new_window_row e p in
            case sql_insert (\<lambda>a b. w_id a = w_id b \<or>
                     (w_policy_id a = w_policy_id b \<and> w_policy_revision a = w_policy_revision b))
                   ''UNIQUE constraint failed: platform_autonomous_windows'' row (windows s) of
              Inr ws \<Rightarrow> (get_window (w_id row) (s\<lparr>windows := ws\<rparr>), s\<lparr>windows := ws\<rparr>)
            | Inl err \<Rightarrow>
                (case find (\<lambda>w. w_policy_id w = wp_policy_id p
                              \<and> w_policy_revision w = wp_policy_revision p) (windows s) of
                   Some w \<Rightarrow>
                     if w_policy_digest w = w_policy_digest row then (Inr w, s)
                     else (Inl (TaskStoreError (''window_activation_failed:'' @ error_text err)), s)
                 | None \<Rightarrow>
                     (Inl (TaskStoreError (''window_activation_failed:'' @ error_text err)), s)))"

definition expire_window :: "env \<Rightarrow> int \<Rightarrow> window_row \<Rightarrow> window_row" where
  "expire_window e k w =
     w\<lparr>w_status := ''EXPIRED'', w_stop_reason := ''window_expired'', w_updated_at := utc e k\<rparr>"

definition active_window :: "env \<Rightarrow> string option \<Rightarrow> db \<Rightarrow> window_row option \<times> db" where
  "active_window e now s =
     (let current = (case now of Some x \<Rightarrow> if x = '''' then utc e 0 else x | None \<Rightarrow> utc e 0);
          s' = s\<lparr>windows := sql_update (\<lambda>w. w_status w = ''ACTIVE'' \<and> w_expires_at w \<le> current)
                 (expire_window e 1) (windows s)\<rparr>
      in (case order_desc w_created_at
                 (filter (\<lambda>w. w_status w = ''ACTIVE'' \<and> w_starts_at w \<le> current
                    \<and> current < w_expires_at w) (windows s')) of
            [] \<Rightarrow> None | w # _ \<Rightarrow> Some w, s'))"

definition stop_window :: "env \<Rightarrow> string \<Rightarrow> string \<Rightarrow> db \<Rightarrow> window_row step" where
  "stop_window e wid reason s =
     (let hit = (\<lambda>w. w_id w = wid \<and> w_status w = ''ACTIVE'');
          s' = s\<lparr>windows := sql_update hit
                 (\<lambda>w. w\<lparr>w_status := ''STOPPED'', w_stop_reason := take 200 reason,
                        w_updated_at := utc e 0\<rparr>) (windows s)\<rparr> in
      if sql_count hit (windows s) \<noteq> 1 then (Inl (TaskStoreError ''window_not_active''), s')
      else (get_window wid s', s'))"

section \<open>Claiming a task\<close>

definition claim_row_of :: "string \<Rightarrow> db \<Rightarrow> claim_row option" where
  "claim_row_of tid s = find (\<lambda>c. cl_task_id c = tid) (claims s)"

definition live_claim :: "string \<Rightarrow> int \<Rightarrow> claim_row \<Rightarrow> bool" where
  "live_claim wid now c \<longleftrightarrow>
     cl_window_id c = wid \<and> cl_status c = ''ACTIVE'' \<and> now < cl_expires_at_ms c"

definition reserved_in :: "(reservation_row \<Rightarrow> int) \<Rightarrow> string \<Rightarrow> db \<Rightarrow> int" where
  "reserved_in f wid s =
     sql_sum f (\<lambda>r. br_window_id r = wid \<and> br_state r = ''ACTIVE'') (reservations s)"

definition open_reservation :: "string \<Rightarrow> string \<Rightarrow> db \<Rightarrow> reservation_row option" where
  "open_reservation tid wid s =
     (case order_desc br_claim_epoch
             (filter (\<lambda>r. br_task_id r = tid \<and> br_window_id r = wid \<and> br_state r = ''ACTIVE'')
                (reservations s)) of
        [] \<Rightarrow> None | r # _ \<Rightarrow> Some r)"

text \<open>
  Admission against a window budget: a limit of 0 is no limit; otherwise what has been
  observed, what is reserved and the new reservation must fit.
\<close>

definition budget_refuses :: "int \<Rightarrow> int \<Rightarrow> int \<Rightarrow> int \<Rightarrow> bool" where
  "budget_refuses limit observed reserved new \<longleftrightarrow> 0 < limit \<and> limit < observed + reserved + new"

definition claim_budget_error :: "window_row \<Rightarrow> string \<Rightarrow> db \<Rightarrow> store_error option" where
  "claim_budget_error w tid s =
     (if open_reservation tid (w_id w) s \<noteq> None then None
      else if budget_refuses (w_max_token_units w) (w_observed_token_units w)
                (reserved_in br_reserved_token_units (w_id w) s) (w_per_task_token_reservation w)
      then Some (TaskStoreError ''window_token_budget_exhausted'')
      else if budget_refuses (w_max_cost_micro_units w) (w_observed_cost_micro_units w)
                (reserved_in br_reserved_cost_micro_units (w_id w) s)
                (w_per_task_cost_reservation w)
      then Some (TaskStoreError ''window_cost_budget_exhausted'')
      else None)"

definition next_epoch :: "string \<Rightarrow> db \<Rightarrow> int" where
  "next_epoch tid s = (case claim_row_of tid s of None \<Rightarrow> 1 | Some c \<Rightarrow> cl_epoch c + 1)"

text \<open>\<open>INSERT\<close> or \<open>UPDATE\<close> of the task's single claim row.\<close>

definition write_claim :: "env \<Rightarrow> string \<Rightarrow> string \<Rightarrow> string \<Rightarrow> int \<Rightarrow> int \<Rightarrow> db \<Rightarrow> unit step" where
  "write_claim e wid tid owner epoch expires s =
     (case claim_row_of tid s of
        None \<Rightarrow>
          (case sql_insert (\<lambda>a b. cl_task_id a = cl_task_id b)
                  ''UNIQUE constraint failed: platform_coordinator_claims.task_id''
                  \<lparr>cl_task_id = tid, cl_window_id = wid, cl_owner = owner, cl_epoch = epoch,
                   cl_expires_at_ms = expires, cl_status = ''ACTIVE'', cl_created_at = utc e 1,
                   cl_updated_at = utc e 2\<rparr> (claims s) of
             Inl err \<Rightarrow> (Inl err, s) | Inr cs \<Rightarrow> (Inr (), s\<lparr>claims := cs\<rparr>))
      | Some _ \<Rightarrow>
          (Inr (), s\<lparr>claims := sql_update (\<lambda>c. cl_task_id c = tid)
             (\<lambda>c. c\<lparr>cl_window_id := wid, cl_owner := owner, cl_epoch := epoch,
                    cl_expires_at_ms := expires, cl_status := ''ACTIVE'', cl_updated_at := utc e 1\<rparr>)
             (claims s)\<rparr>))"

text \<open>
  A new reservation, or the existing one of this task and window moved to the new epoch;
  both obey the primary key \<open>(task_id, claim_epoch)\<close>.
\<close>

definition write_reservation :: "env \<Rightarrow> window_row \<Rightarrow> string \<Rightarrow> int \<Rightarrow> db \<Rightarrow> unit step" where
  "write_reservation e w tid epoch s =
     (let clash = (\<lambda>a b. br_task_id a = br_task_id b \<and> br_claim_epoch a = br_claim_epoch b);
          msg = ''UNIQUE constraint failed: platform_budget_reservations.task_id, platform_budget_reservations.claim_epoch'' in
      case open_reservation tid (w_id w) s of
        None \<Rightarrow>
          (case sql_insert clash msg
                  \<lparr>br_task_id = tid, br_claim_epoch = epoch, br_window_id = w_id w,
                   br_reserved_token_units = w_per_task_token_reservation w,
                   br_reserved_cost_micro_units = w_per_task_cost_reservation w,
                   br_state = ''ACTIVE'', br_observed_token_units = None,
                   br_observed_cost_micro_units = None, br_created_at = utc e 3,
                   br_updated_at = utc e 4, br_reconciled_at = ''''\<rparr> (reservations s) of
             Inl err \<Rightarrow> (Inl err, s) | Inr rs \<Rightarrow> (Inr (), s\<lparr>reservations := rs\<rparr>))
      | Some r \<Rightarrow>
          if br_claim_epoch r = epoch then (Inr (), s)
          else
            let hit = (\<lambda>x. br_task_id x = tid \<and> br_claim_epoch x = br_claim_epoch r
                         \<and> br_state x = ''ACTIVE'') in
            if list_ex (\<lambda>x. br_task_id x = tid \<and> br_claim_epoch x = epoch) (reservations s)
            then (Inl (IntegrityError msg), s)
            else (Inr (), s\<lparr>reservations := sql_update hit
                    (\<lambda>x. x\<lparr>br_claim_epoch := epoch, br_updated_at := utc e 3\<rparr>) (reservations s)\<rparr>))"

definition charge_attempt :: "env \<Rightarrow> string \<Rightarrow> bool \<Rightarrow> db \<Rightarrow> db" where
  "charge_attempt e wid retry s =
     s\<lparr>windows := sql_update (\<lambda>w. w_id w = wid)
         (\<lambda>w. if retry then w\<lparr>w_retries_used := w_retries_used w + 1, w_updated_at := utc e 5\<rparr>
              else w\<lparr>w_tasks_started := w_tasks_started w + 1, w_updated_at := utc e 5\<rparr>)
         (windows s)\<rparr>"

text \<open>The body of \<open>_claim_task_locked\<close> between \<open>BEGIN IMMEDIATE\<close> and \<open>COMMIT\<close>.\<close>

definition claim_task_txn :: "env \<Rightarrow> string \<Rightarrow> string \<Rightarrow> string \<Rightarrow> int \<Rightarrow> db \<Rightarrow> int step" where
  "claim_task_txn e wid tid owner lease_ms s =
     (let now = now_ms e 0 in
      case window_row_of wid s of
        None \<Rightarrow> (Inl (TaskStoreError ''window_not_active''), s)
      | Some w \<Rightarrow>
          if w_status w \<noteq> ''ACTIVE'' then (Inl (TaskStoreError ''window_not_active''), s)
          else if w_expires_at w \<le> utc e 0 then
            (Inl (TaskStoreError ''window_expired''),
             s\<lparr>windows := sql_update (\<lambda>x. w_id x = wid) (expire_window e 1) (windows s)\<rparr>)
          else if w_max_concurrent_tasks w \<le> int (sql_count (live_claim wid now) (claims s)) then
            (Inl (TaskStoreError ''window_wip_limit_reached''), s)
          else case task_row_of tid s of
            None \<Rightarrow> (Inl (TaskStoreError ''task_not_claimable''), s)
          | Some t \<Rightarrow>
              if t_status t \<notin> {''QUEUED'', ''INTERRUPTED''} then
                (Inl (TaskStoreError ''task_not_claimable''), s)
              else if t_status t = ''INTERRUPTED'' \<and> w_max_retries w \<le> w_retries_used w then
                (Inl (TaskStoreError ''window_retry_budget_exhausted''), s)
              else if t_status t \<noteq> ''INTERRUPTED'' \<and> w_max_tasks w \<le> w_tasks_started w then
                (Inl (TaskStoreError ''window_task_budget_exhausted''), s)
              else if (case claim_row_of tid s of None \<Rightarrow> False
                       | Some c \<Rightarrow> cl_status c = ''ACTIVE'' \<and> now < cl_expires_at_ms c) then
                (Inl (TaskStoreError ''task_already_claimed''), s)
              else case claim_budget_error w tid s of
                Some err \<Rightarrow> (Inl err, s)
              | None \<Rightarrow>
                  let epoch = next_epoch tid s in
                  andthen (write_claim e wid tid owner epoch (now + lease_ms) s) (\<lambda>_ s1.
                  andthen (write_reservation e w tid epoch s1) (\<lambda>_ s2.
                  (Inr epoch, charge_attempt e wid (t_status t = ''INTERRUPTED'') s2))))"

definition claim_task ::
    "env \<Rightarrow> string \<Rightarrow> string \<Rightarrow> string \<Rightarrow> int \<Rightarrow> db \<Rightarrow> (int \<times> window_row) step" where
  "claim_task e wid tid owner lease_ms s =
     andthen (transact (\<lambda>m. ''coordinator_claim_failed:'' @ m) s
                (claim_task_txn e wid tid owner lease_ms s))
       (\<lambda>epoch s'. (map_sum id (Pair epoch) (get_window wid s'), s'))"

section \<open>Finalising a claim\<close>

text \<open>The observations of the task in the window that no charge refers to yet.\<close>

definition uncharged :: "string \<Rightarrow> string \<Rightarrow> db \<Rightarrow> usage_row list" where
  "uncharged tid wid s =
     order_asc uo_created_at (order_asc uo_id
       (filter (\<lambda>u. uo_task_id u = tid \<and> uo_window_id u = wid
            \<and> \<not> list_ex (\<lambda>c. uc_observation_id c = uo_id u) (usage_charges s))
          (usage_observations s)))"

fun insert_charges ::
    "env \<Rightarrow> string \<Rightarrow> string \<Rightarrow> int \<Rightarrow> usage_row list \<Rightarrow> charge_row list \<Rightarrow> charge_row list outcome"
where
  "insert_charges e wid tid epoch [] cs = Inr cs"
| "insert_charges e wid tid epoch (u # us) cs =
     (case sql_insert (\<lambda>a b. uc_observation_id a = uc_observation_id b)
             ''UNIQUE constraint failed: platform_usage_charges.observation_id''
             \<lparr>uc_observation_id = uo_id u, uc_window_id = wid, uc_task_id = tid,
              uc_claim_epoch = epoch, uc_charged_at = utc e 0\<rparr> cs of
        Inl err \<Rightarrow> Inl err
      | Inr cs' \<Rightarrow> insert_charges (later 1 e) wid tid epoch us cs')"

text \<open>
  What the observations amount to: whether usage is unknown, how many unknowns are counted,
  and the token and cost sums, which stay 0 when usage is unknown. A task of another kind than
  the fixture with no observation at all counts as one unknown.
\<close>

record usage_result =
  ur_unknown :: bool
  ur_unknown_count :: int
  ur_tokens :: int
  ur_cost :: int

definition settle_usage :: "string \<Rightarrow> usage_row list \<Rightarrow> usage_result" where
  "settle_usage executor_kind obs =
     (let n = int (sql_count (\<lambda>u. uo_status u = ''UNKNOWN'') obs);
          silent = (obs = [] \<and> executor_kind \<noteq> ''deterministic_fixture'');
          unknown = (n \<noteq> 0 \<or> silent)
      in \<lparr>ur_unknown = unknown, ur_unknown_count = (if silent then 1 else n),
          ur_tokens = (if unknown then 0 else sum_list (map token_units obs)),
          ur_cost = (if unknown then 0
                     else sum_list (map (\<lambda>u. units (uo_cost_micro_units u)) obs))\<rparr>)"

definition usage_overrun :: "window_row \<Rightarrow> reservation_row \<Rightarrow> usage_result \<Rightarrow> bool" where
  "usage_overrun w r u \<longleftrightarrow>
     \<not> ur_unknown u \<and>
     ((0 < w_max_token_units w \<and> br_reserved_token_units r < ur_tokens u) \<or>
      (0 < w_max_cost_micro_units w \<and> br_reserved_cost_micro_units r < ur_cost u))"

definition settle_window :: "env \<Rightarrow> bool \<Rightarrow> bool \<Rightarrow> usage_result \<Rightarrow> window_row \<Rightarrow> window_row" where
  "settle_window e count_completion overrun u w =
     (let w1 = w\<lparr>w_observed_token_units := w_observed_token_units w + ur_tokens u,
                 w_observed_cost_micro_units := w_observed_cost_micro_units w + ur_cost u,
                 w_unknown_observation_count := w_unknown_observation_count w + ur_unknown_count u,
                 w_updated_at := utc e 3,
                 w_tasks_completed := w_tasks_completed w + (if count_completion then 1 else 0)\<rparr>
      in if ur_unknown u then
           w1\<lparr>w_status := ''BLOCKED'', w_stop_reason := ''usage_unknown'',
              w_enforcement_class := ''USAGE_UNKNOWN''\<rparr>
         else if overrun then
           w1\<lparr>w_status := ''BLOCKED'', w_stop_reason := ''usage_reservation_overrun''\<rparr>
         else w1)"

definition finalize_claim_txn ::
    "env \<Rightarrow> string \<Rightarrow> string \<Rightarrow> string \<Rightarrow> int \<Rightarrow> string \<Rightarrow> bool \<Rightarrow> db \<Rightarrow> string step" where
  "finalize_claim_txn e wid tid owner epoch claim_status count_completion s =
     (let mine = (\<lambda>c. cl_task_id c = tid \<and> cl_window_id c = wid \<and> cl_owner c = owner
            \<and> cl_epoch c = epoch \<and> cl_status c = ''ACTIVE'');
          held = (\<lambda>r. br_task_id r = tid \<and> br_claim_epoch r = epoch \<and> br_state r = ''ACTIVE'') in
      if find mine (claims s) = None then
        (Inl (TaskStoreError ''coordinator_claim_fenced''), s)
      else case find (\<lambda>r. held r \<and> br_window_id r = wid) (reservations s) of
        None \<Rightarrow> (Inl (TaskStoreError ''budget_reservation_fenced''), s)
      | Some r \<Rightarrow>
          (case (window_row_of wid s, task_row_of tid s) of
             (Some w, Some t) \<Rightarrow>
               let obs = uncharged tid wid s;
                   u = settle_usage (t_executor_kind t) obs;
                   overrun = usage_overrun w r u;
                   state = (if ur_unknown u then ''UNKNOWN'' else if overrun then ''OVERRUN''
                            else ''RECONCILED'') in
               (case insert_charges (later 10 e) wid tid epoch obs (usage_charges s) of
                  Inl err \<Rightarrow> (Inl err, s)
                | Inr cs \<Rightarrow>
                    (Inr state,
                     s\<lparr>usage_charges := cs,
                       reservations := sql_update held
                         (\<lambda>r. r\<lparr>br_state := state,
                                br_observed_token_units :=
                                  (if ur_unknown u then None else Some (ur_tokens u)),
                                br_observed_cost_micro_units :=
                                  (if ur_unknown u then None else Some (ur_cost u)),
                                br_updated_at := utc e 0, br_reconciled_at := utc e 1\<rparr>)
                         (reservations s),
                       claims := sql_update mine
                         (\<lambda>c. c\<lparr>cl_status := claim_status, cl_updated_at := utc e 2\<rparr>) (claims s),
                       windows := sql_update (\<lambda>w. w_id w = wid)
                         (settle_window e count_completion overrun u) (windows s)\<rparr>))
           | _ \<Rightarrow> (Inl (TaskStoreError ''budget_reconciliation_subject_missing''), s)))"

definition finalize_task_claim ::
    "env \<Rightarrow> string \<Rightarrow> string \<Rightarrow> string \<Rightarrow> int \<Rightarrow> string \<Rightarrow> bool \<Rightarrow> db \<Rightarrow> string step" where
  "finalize_task_claim e wid tid owner epoch claim_status count_completion s =
     (if claim_status \<notin> {''COMPLETE'', ''FAILED''} then
        (Inl (TaskStoreError ''invalid_coordinator_claim_terminal''), s)
      else transact (\<lambda>m. ''budget_reconciliation_failed:'' @ m) s
             (finalize_claim_txn e wid tid owner epoch claim_status count_completion s))"

section \<open>Receipts\<close>

record receipt_input =
  ri_operation_type :: string
  ri_capability :: string
  ri_repository :: string
  ri_subject_id :: string
  ri_decision :: string
  ri_reason :: string
  ri_input_payload :: json
  ri_external_id :: string
  ri_result :: string

definition list_receipts :: "string \<Rightarrow> int \<Rightarrow> db \<Rightarrow> receipt_row list" where
  "list_receipts wid limit s =
     take (clamp_limit 1000 limit) (rev (filter (\<lambda>r. rc_window_id r = wid) (receipts s)))"

definition new_receipt :: "env \<Rightarrow> window_row \<Rightarrow> receipt_input \<Rightarrow> receipt_row" where
  "new_receipt e w i =
     \<lparr>rc_id = fresh_id e 0 ''receipt'', rc_window_id = w_id w,
      rc_operation_type = ri_operation_type i, rc_capability = ri_capability i,
      rc_repository = ri_repository i, rc_subject_id = ri_subject_id i,
      rc_decision = ri_decision i, rc_reason = take 300 (ri_reason i),
      rc_input_digest = sha256_json e (ri_input_payload i), rc_external_id = ri_external_id i,
      rc_result = take 300 (ri_result i),
      rc_remaining_tasks = max 0 (w_max_tasks w - w_tasks_started w), rc_created_at = utc e 0\<rparr>"

definition append_receipt :: "env \<Rightarrow> string \<Rightarrow> receipt_input \<Rightarrow> db \<Rightarrow> receipt_row step" where
  "append_receipt e wid i s =
     (case reject_sensitive_keys ''$'' (ri_input_payload i) of
        Some err \<Rightarrow> (Inl err, s)
      | None \<Rightarrow>
          (case get_window wid s of
             Inl err \<Rightarrow> (Inl err, s)
           | Inr w \<Rightarrow>
               (case sql_insert (\<lambda>a b. rc_id a = rc_id b)
                       ''UNIQUE constraint failed: platform_operation_receipts.id''
                       (new_receipt e w i) (receipts s) of
                  Inl err \<Rightarrow> (Inl err, s)
                | Inr rs \<Rightarrow>
                    (Inr (hd (list_receipts wid 1 (s\<lparr>receipts := rs\<rparr>))), s\<lparr>receipts := rs\<rparr>))))"

text \<open>
  \<open>abandon_task_claim\<close> and \<open>complete_task_claim\<close>: finalise, then record a receipt. The two
  differ in the claim's final status, in whether a completion is counted, and in the reason.
\<close>

definition close_claim ::
    "env \<Rightarrow> string \<Rightarrow> string \<Rightarrow> string \<Rightarrow> int \<Rightarrow> string \<Rightarrow> bool \<Rightarrow> string \<Rightarrow> string \<Rightarrow> db \<Rightarrow> unit step" where
  "close_claim e wid tid owner epoch claim_status count_completion reason text s =
     andthen (finalize_task_claim e wid tid owner epoch claim_status count_completion s) (\<lambda>budget s1.
       (case get_task tid None s1 of
          Inl err \<Rightarrow> (Inl err, s1)
        | Inr task \<Rightarrow>
            andthen (append_receipt (later 1000 e) wid
              \<lparr>ri_operation_type = ''task_execution'', ri_capability = ''execute_task'',
               ri_repository = t_repository (tv_row task), ri_subject_id = tid,
               ri_decision = ''allowed'', ri_reason = reason,
               ri_input_payload = JObj [(''task_id'', JStr tid), (''claim_epoch'', JInt epoch)],
               ri_external_id = '''', ri_result = take 220 text @ '':'' @ budget\<rparr> s1)
              (\<lambda>_ s2. (Inr (), s2))))"

definition abandon_task_claim where
  "abandon_task_claim e wid tid owner epoch reason s =
     close_claim e wid tid owner epoch ''FAILED'' False ''coordinator_execution_failed'' reason s"

definition complete_task_claim where
  "complete_task_claim e wid tid owner epoch result s =
     close_claim e wid tid owner epoch ''COMPLETE'' True ''coordinator_claim_completed'' result s"

section \<open>Reading budgets\<close>

definition expired_reservation_tasks :: "int \<Rightarrow> db \<Rightarrow> string list" where
  "expired_reservation_tasks now s =
     map (\<lambda>t. ''budget_reservation_retained:'' @ t) (sort
       (concat (map (\<lambda>r. if br_state r = ''ACTIVE'' then
            map (\<lambda>_. br_task_id r) (filter (\<lambda>c. cl_task_id c = br_task_id r
               \<and> cl_epoch c = br_claim_epoch r \<and> cl_status c = ''ACTIVE'' \<and> cl_expires_at_ms c \<le> now)
              (claims s)) else []) (reservations s))))"

record budget_summary =
  bu_max_tokens :: "int option"
  bu_max_cost :: "int option"
  bu_per_task_tokens :: "int option"
  bu_per_task_cost :: "int option"
  bu_reserved_tokens :: int
  bu_reserved_cost :: int
  bu_observed_tokens :: int
  bu_observed_cost :: int
  bu_remaining_tokens :: "int option"
  bu_remaining_cost :: "int option"
  bu_unknown_count :: int
  bu_active_reservations :: int
  bu_enforcement_class :: string
  bu_provider_quota_state :: string
  bu_stop_reason :: string

definition or_none :: "int \<Rightarrow> int option" where
  "or_none i = (if i = 0 then None else Some i)"

definition window_budget_summary :: "string \<Rightarrow> db \<Rightarrow> budget_summary outcome" where
  "window_budget_summary wid s =
     map_sum id (\<lambda>w.
       let rt = reserved_in br_reserved_token_units wid s;
           rc = reserved_in br_reserved_cost_micro_units wid s in
       \<lparr>bu_max_tokens = or_none (w_max_token_units w),
        bu_max_cost = or_none (w_max_cost_micro_units w),
        bu_per_task_tokens = or_none (w_per_task_token_reservation w),
        bu_per_task_cost = or_none (w_per_task_cost_reservation w),
        bu_reserved_tokens = rt, bu_reserved_cost = rc,
        bu_observed_tokens = w_observed_token_units w,
        bu_observed_cost = w_observed_cost_micro_units w,
        bu_remaining_tokens = (if w_max_token_units w = 0 then None
          else Some (max 0 (w_max_token_units w - w_observed_token_units w - rt))),
        bu_remaining_cost = (if w_max_cost_micro_units w = 0 then None
          else Some (max 0 (w_max_cost_micro_units w - w_observed_cost_micro_units w - rc))),
        bu_unknown_count = w_unknown_observation_count w,
        bu_active_reservations =
          int (sql_count (\<lambda>r. br_window_id r = wid \<and> br_state r = ''ACTIVE'') (reservations s)),
        bu_enforcement_class = w_enforcement_class w,
        bu_provider_quota_state = w_provider_quota_state w,
        bu_stop_reason = w_stop_reason w\<rparr>) (get_window wid s)"

end
