(* ===== verification/Control_Records.thy ===== *)
theory Control_Records
  imports Windows
begin

text \<open>
  The remaining records of \<open>PlatformControlStore\<close> (control_store.py): publications, inbox
  items and roadmap phases; and the services above the last two (inbox_service.py,
  roadmap_service.py), which turn inbox items into draft goals and derive phase statuses.
\<close>

section \<open>Publications\<close>

definition PUBLICATION_STATES :: "string list" where
  "PUBLICATION_STATES = [''PENDING'', ''COMMIT_CREATED'', ''PUSHED'', ''COMPLETE'', ''FAILED'']"

definition get_publication :: "string \<Rightarrow> db \<Rightarrow> publication_row option" where
  "get_publication tid s = find (\<lambda>p. pb_task_id p = tid) (publications s)"

record publication_input =
  pi_repository :: string
  pi_base_branch :: string
  pi_branch :: string
  pi_status :: string
  pi_request_digest :: string
  pi_commit_sha :: string
  pi_pr_number :: int
  pi_pr_url :: string
  pi_failure_classification :: string

definition new_publication_row :: "env \<Rightarrow> string \<Rightarrow> publication_input \<Rightarrow> publication_row" where
  "new_publication_row e tid i =
     \<lparr>pb_id = fresh_id e 0 ''publication'', pb_task_id = tid, pb_repository = pi_repository i,
      pb_base_branch = pi_base_branch i, pb_branch = pi_branch i, pb_status = pi_status i,
      pb_commit_sha = pi_commit_sha i, pb_pr_number = pi_pr_number i, pb_pr_url = pi_pr_url i,
      pb_request_digest = pi_request_digest i,
      pb_failure_classification = pi_failure_classification i, pb_created_at = utc e 0,
      pb_updated_at = utc e 0\<rparr>"

definition upsert_publication :: "env \<Rightarrow> string \<Rightarrow> publication_input \<Rightarrow> db \<Rightarrow> publication_row step" where
  "upsert_publication e tid i s =
     (if pi_status i \<notin> set PUBLICATION_STATES then
        (Inl (TaskStoreError (''invalid_publication_status:'' @ pi_status i)), s)
      else
        andthen
          (case get_publication tid s of
             None \<Rightarrow>
               (case sql_insert (\<lambda>a b. pb_id a = pb_id b \<or> pb_task_id a = pb_task_id b)
                       ''UNIQUE constraint failed: platform_publications.id''
                       (new_publication_row e tid i) (publications s) of
                  Inl err \<Rightarrow> (Inl err, s)
                | Inr ps \<Rightarrow> (Inr (), s\<lparr>publications := ps\<rparr>))
           | Some p \<Rightarrow>
               if pb_request_digest p \<noteq> pi_request_digest i then
                 (Inl (TaskStoreError ''publication_request_digest_mismatch''), s)
               else
                 (Inr (), s\<lparr>publications := sql_update (\<lambda>p. pb_task_id p = tid)
                    (\<lambda>p. p\<lparr>pb_status := pi_status i, pb_commit_sha := pi_commit_sha i,
                           pb_pr_number := pi_pr_number i, pb_pr_url := pi_pr_url i,
                           pb_failure_classification := pi_failure_classification i,
                           pb_updated_at := utc e 0\<rparr>) (publications s)\<rparr>))
          (\<lambda>_ s'. (case get_publication tid s' of
                     None \<Rightarrow> (Inl (IntegrityError ''AssertionError''), s')
                   | Some p \<Rightarrow> (Inr p, s'))))"

text \<open>The columns of the newest durable run of a task that publication reads.\<close>

record workspace_view =
  wv_run_id :: string
  wv_repository_base_sha :: string
  wv_worktree_path :: string
  wv_worktree_head_sha :: string
  wv_accepted_checkpoint :: string

definition durable_workspace :: "string \<Rightarrow> db \<Rightarrow> workspace_view outcome" where
  "durable_workspace tid s =
     (case order_desc dr_created_at (filter (\<lambda>r. dr_task_id r = tid) (durable_runs s)) of
        [] \<Rightarrow> Inl (TaskStoreError ''publication_requires_durable_run'')
      | r # _ \<Rightarrow>
          Inr \<lparr>wv_run_id = dr_run_id r, wv_repository_base_sha = dr_repository_base_sha r,
               wv_worktree_path = dr_worktree_path r, wv_worktree_head_sha = dr_worktree_head_sha r,
               wv_accepted_checkpoint = dr_accepted_checkpoint r\<rparr>)"

section \<open>Inbox\<close>

definition INBOX_STATES :: "string list" where
  "INBOX_STATES = [''CAPTURED'', ''PROMOTED'', ''DISMISSED'']"

definition DEFAULT_REPOSITORY :: string where
  "DEFAULT_REPOSITORY = ''dddd2024/reverse-agent''"

definition get_inbox_item :: "string \<Rightarrow> db \<Rightarrow> inbox_row outcome" where
  "get_inbox_item iid s =
     (case find (\<lambda>i. ib_id i = iid) (inbox_items s) of
        None \<Rightarrow> Inl (TaskStoreError (''inbox_item_not_found:'' @ iid)) | Some i \<Rightarrow> Inr i)"

definition or_default :: "string \<Rightarrow> string \<Rightarrow> string" where
  "or_default d x = (if x = '''' then d else x)"

definition capture_inbox_item ::
    "env \<Rightarrow> string \<Rightarrow> string \<Rightarrow> string \<Rightarrow> db \<Rightarrow> inbox_row step" where
  "capture_inbox_item e title0 objective0 repository0 s =
     (let title = py_strip title0; objective = py_strip objective0;
          repository = or_default DEFAULT_REPOSITORY (py_strip repository0) in
      if title = '''' \<or> objective = '''' then
        (Inl (TaskStoreError ''inbox_item_title_and_objective_required''), s)
      else case reject_sensitive_keys ''$''
                  (JObj [(''title'', JStr title), (''objective'', JStr objective)]) of
        Some err \<Rightarrow> (Inl err, s)
      | None \<Rightarrow>
          let row = \<lparr>ib_id = fresh_id e 0 ''inbox'', ib_title = title, ib_objective = objective,
                     ib_repository = repository, ib_status = ''CAPTURED'', ib_promoted_goal_id = '''',
                     ib_created_at = utc e 0, ib_updated_at = utc e 0\<rparr> in
          (case sql_insert (\<lambda>a b. ib_id a = ib_id b)
                  ''UNIQUE constraint failed: platform_inbox_items.id'' row (inbox_items s) of
             Inl err \<Rightarrow> (Inl err, s)
           | Inr itms \<Rightarrow> (get_inbox_item (ib_id row) (s\<lparr>inbox_items := itms\<rparr>), s\<lparr>inbox_items := itms\<rparr>)))"

definition list_inbox_items :: "string option \<Rightarrow> int \<Rightarrow> db \<Rightarrow> inbox_row list outcome" where
  "list_inbox_items status limit s =
     (let newest = (\<lambda>itms. take (clamp_limit 500 limit) (order_desc ib_created_at itms)) in
      case status of
        Some st \<Rightarrow>
          (if st \<notin> set INBOX_STATES then Inl (TaskStoreError (''invalid_inbox_status:'' @ st))
           else Inr (newest (filter (\<lambda>i. ib_status i = st) (inbox_items s))))
      | None \<Rightarrow> Inr (newest (inbox_items s)))"

definition mark_inbox_item_promoted :: "env \<Rightarrow> string \<Rightarrow> string \<Rightarrow> db \<Rightarrow> inbox_row step" where
  "mark_inbox_item_promoted e iid gid s =
     (let hit = (\<lambda>i. ib_id i = iid \<and> ib_status i = ''CAPTURED'');
          s' = s\<lparr>inbox_items := sql_update hit
                 (\<lambda>i. i\<lparr>ib_status := ''PROMOTED'', ib_promoted_goal_id := gid,
                        ib_updated_at := utc e 0\<rparr>) (inbox_items s)\<rparr> in
      if sql_count hit (inbox_items s) \<noteq> 1 then
        (case get_inbox_item iid s' of
           Inl err \<Rightarrow> (Inl err, s')
         | Inr i \<Rightarrow>
             if ib_status i = ''PROMOTED'' \<and> ib_promoted_goal_id i = gid then (Inr i, s')
             else (Inl (TaskStoreError (''inbox_item_not_promotable:'' @ iid @ '':''
                     @ ib_status i)), s'))
      else (get_inbox_item iid s', s'))"

definition dismiss_inbox_item :: "env \<Rightarrow> string \<Rightarrow> db \<Rightarrow> inbox_row step" where
  "dismiss_inbox_item e iid s =
     (let hit = (\<lambda>i. ib_id i = iid \<and> ib_status i = ''CAPTURED'');
          s' = s\<lparr>inbox_items := sql_update hit
                 (\<lambda>i. i\<lparr>ib_status := ''DISMISSED'', ib_updated_at := utc e 0\<rparr>) (inbox_items s)\<rparr> in
      if sql_count hit (inbox_items s) \<noteq> 1 then
        (case get_inbox_item iid s' of
           Inl err \<Rightarrow> (Inl err, s')
         | Inr i \<Rightarrow>
             if ib_status i = ''DISMISSED'' then (Inr i, s')
             else (Inl (TaskStoreError (''inbox_item_not_dismissable:'' @ iid @ '':''
                     @ ib_status i)), s'))
      else (get_inbox_item iid s', s'))"

text \<open>
  \<open>InboxService.promote\<close> (inbox_service.py) with \<open>GoalService.create\<close>: the idempotency key
  is the item id, so a retry after a crash between the two writes finds the goal of the first
  attempt. The result is the item and the goal.
\<close>

definition promotion_request :: "inbox_row \<Rightarrow> goal_request" where
  "promotion_request i =
     \<lparr>gq_title = ib_title i, gq_objective = ib_objective i, gq_repository = ib_repository i,
      gq_idempotency_key = ''inbox:'' @ ib_id i, gq_executor_kind = ''deterministic_fixture'',
      gq_orchestration_mode = ''single'', gq_binding_ref = '''', gq_policy_ref = '''',
      gq_window_id = ''''\<rparr>"

definition promote_inbox_item :: "env \<Rightarrow> string \<Rightarrow> db \<Rightarrow> (inbox_row \<times> goal_row) step" where
  "promote_inbox_item e iid s =
     (case get_inbox_item iid s of
        Inl err \<Rightarrow> (Inl err, s)
      | Inr i \<Rightarrow>
          if ib_status i = ''PROMOTED'' \<and> ib_promoted_goal_id i \<noteq> '''' then
            (map_sum id (Pair i) (get_goal (ib_promoted_goal_id i) s), s)
          else if ib_status i \<noteq> ''CAPTURED'' then
            (Inl (TaskStoreError (''inbox_item_not_promotable:'' @ iid @ '':'' @ ib_status i)), s)
          else
            andthen (create_goal e (promotion_request i) s) (\<lambda>g s1.
              if g_status g \<noteq> ''DRAFT'' then
                (Inl (TaskStoreError ''inbox_promotion_goal_not_draft''), s1)
              else
                andthen (mark_inbox_item_promoted (later 1 e) iid (g_id g) s1) (\<lambda>i' s2.
                  (map_sum id (Pair i') (get_goal (g_id g) s2), s2))))"

section \<open>Roadmap\<close>

definition get_roadmap_phase :: "string \<Rightarrow> db \<Rightarrow> phase_row outcome" where
  "get_roadmap_phase pid s =
     (case find (\<lambda>p. ph_id p = pid) (roadmap_phases s) of
        None \<Rightarrow> Inl (TaskStoreError (''roadmap_phase_not_found:'' @ pid)) | Some p \<Rightarrow> Inr p)"

definition create_roadmap_phase :: "env \<Rightarrow> string \<Rightarrow> int \<Rightarrow> string \<Rightarrow> db \<Rightarrow> phase_row step" where
  "create_roadmap_phase e title0 position description0 s =
     (let title = py_strip title0; description = py_strip description0 in
      if title = '''' then (Inl (TaskStoreError ''roadmap_phase_title_required''), s)
      else case reject_sensitive_keys ''$''
                  (JObj [(''title'', JStr title), (''description'', JStr description)]) of
        Some err \<Rightarrow> (Inl err, s)
      | None \<Rightarrow>
          let row = \<lparr>ph_id = fresh_id e 0 ''phase'', ph_title = title, ph_position = position,
                     ph_description = description, ph_created_at = utc e 0,
                     ph_updated_at = utc e 0\<rparr> in
          (case sql_insert (\<lambda>a b. ph_id a = ph_id b)
                  ''UNIQUE constraint failed: platform_roadmap_phases.id'' row (roadmap_phases s) of
             Inl err \<Rightarrow> (Inl err, s)
           | Inr ps \<Rightarrow>
               (get_roadmap_phase (ph_id row) (s\<lparr>roadmap_phases := ps\<rparr>), s\<lparr>roadmap_phases := ps\<rparr>)))"

definition list_roadmap_phases :: "int \<Rightarrow> db \<Rightarrow> phase_row list" where
  "list_roadmap_phases limit s =
     take (clamp_limit 500 limit)
       (order_asc ph_position (order_asc ph_created_at (roadmap_phases s)))"

text \<open>\<open>INSERT OR IGNORE\<close>: an existing attachment stays as it is.\<close>

definition attach_goal_to_phase :: "env \<Rightarrow> string \<Rightarrow> string \<Rightarrow> db \<Rightarrow> unit step" where
  "attach_goal_to_phase e pid gid s =
     (case get_roadmap_phase pid s of
        Inl err \<Rightarrow> (Inl err, s)
      | Inr _ \<Rightarrow>
          (case get_goal gid s of
             Inl err \<Rightarrow> (Inl err, s)
           | Inr _ \<Rightarrow>
               (Inr (),
                if list_ex (\<lambda>a. pg_phase_id a = pid \<and> pg_goal_id a = gid) (phase_goals s) then s
                else s\<lparr>phase_goals := phase_goals s
                       @ [\<lparr>pg_phase_id = pid, pg_goal_id = gid, pg_attached_at = utc e 0\<rparr>]\<rparr>)))"

definition detach_goal_from_phase :: "string \<Rightarrow> string \<Rightarrow> db \<Rightarrow> unit step" where
  "detach_goal_from_phase pid gid s =
     (let hit = (\<lambda>a. pg_phase_id a = pid \<and> pg_goal_id a = gid);
          s' = s\<lparr>phase_goals := filter (\<lambda>a. \<not> hit a) (phase_goals s)\<rparr> in
      if sql_count hit (phase_goals s) \<noteq> 1 then
        (Inl (TaskStoreError ''roadmap_phase_goal_not_attached''), s')
      else (Inr (), s'))"

definition list_phase_goal_ids :: "string \<Rightarrow> db \<Rightarrow> string list" where
  "list_phase_goal_ids pid s =
     map pg_goal_id (order_asc pg_attached_at (filter (\<lambda>a. pg_phase_id a = pid) (phase_goals s)))"

text \<open>\<open>derive_phase_status\<close> (roadmap_service.py)\<close>

definition derive_phase_status :: "string list \<Rightarrow> string" where
  "derive_phase_status sts =
     (let effective = filter (\<lambda>x. x \<noteq> ''INVALIDATED'') sts in
      if effective = [] then ''PLANNED''
      else if list_all (\<lambda>x. x = ''COMPLETED'') effective then ''COMPLETED''
      else if list_ex (\<lambda>x. x = ''BLOCKED'') effective then ''BLOCKED''
      else if list_ex (\<lambda>x. x = ''RUNNING'') effective then ''RUNNING''
      else ''PLANNED'')"

fun member_goals :: "string list \<Rightarrow> db \<Rightarrow> goal_row list outcome" where
  "member_goals [] s = Inr []"
| "member_goals (gid # gids) s =
     (case get_goal gid s of
        Inl err \<Rightarrow> Inl err
      | Inr g \<Rightarrow> map_sum id (Cons g) (member_goals gids s))"

text \<open>\<open>RoadmapService.get_phase\<close>: the phase, its derived status, its goals.\<close>

definition get_phase :: "string \<Rightarrow> db \<Rightarrow> (phase_row \<times> string \<times> goal_row list) outcome" where
  "get_phase pid s =
     (case get_roadmap_phase pid s of
        Inl err \<Rightarrow> Inl err
      | Inr p \<Rightarrow>
          map_sum id (\<lambda>gs. (p, derive_phase_status (map g_status gs), gs))
            (member_goals (list_phase_goal_ids pid s) s))"

end
