(* ===== verification/Evolution.thy ===== *)
theory Evolution
  imports Fenced_Ops Control_Records
begin

text \<open>
  What every operation may do to the database, as a relation between the states before and
  after it. A table evolves along an order on its rows: each existing row stays at its place
  and moves up in the order, new rows are appended. One locale proves the laws of such tables
  once; each table of the schema is an interpretation of it, and \<open>evolves\<close> is their
  conjunction. The orders are the contracts of the components: a terminal status is final, a
  lease epoch never decreases, an approved plan is frozen, an event is never removed.
\<close>

section \<open>Tables along an order on rows\<close>

definition table_evolves :: "('r \<Rightarrow> 'r \<Rightarrow> bool) \<Rightarrow> ('r \<Rightarrow> bool) \<Rightarrow> 'r list \<Rightarrow> 'r list \<Rightarrow> bool" where
  "table_evolves le ok old new \<longleftrightarrow>
     length old \<le> length new \<and> list_all2 le old (take (length old) new)
     \<and> list_all ok (drop (length old) new)"

lemma table_evolves_split:
  "table_evolves le ok old new \<longleftrightarrow>
     (\<exists>u v. new = u @ v \<and> list_all2 le old u \<and> list_all ok v)"
proof
  assume "table_evolves le ok old new"
  then show "\<exists>u v. new = u @ v \<and> list_all2 le old u \<and> list_all ok v"
    unfolding table_evolves_def by (metis append_take_drop_id)
next
  assume "\<exists>u v. new = u @ v \<and> list_all2 le old u \<and> list_all ok v"
  then obtain u v where uv: "new = u @ v" "list_all2 le old u" "list_all ok v"
    by blast
  then show "table_evolves le ok old new"
    by (simp add: table_evolves_def list_all2_lengthD [OF uv(2)])
qed

locale row_order =
  fixes le :: "'r \<Rightarrow> 'r \<Rightarrow> bool" and ok :: "'r \<Rightarrow> bool"
  assumes le_refl: "le a a"
    and le_trans: "le a b \<Longrightarrow> le b c \<Longrightarrow> le a c"
    and ok_closed: "ok a \<Longrightarrow> le a b \<Longrightarrow> ok b"
begin

lemma refl_table: "table_evolves le ok t t"
  by (simp add: table_evolves_def list_all2_refl le_refl)

lemma evolves_append: "ok r \<Longrightarrow> table_evolves le ok t (t @ [r])"
  by (simp add: table_evolves_def list_all2_refl le_refl)

lemma evolves_appends: "list_all ok rs \<Longrightarrow> table_evolves le ok t (t @ rs)"
  by (simp add: table_evolves_def list_all2_refl le_refl)

lemma evolves_update:
  assumes "\<And>r. r \<in> set t \<Longrightarrow> p r \<Longrightarrow> le r (f r)"
  shows "table_evolves le ok t (sql_update p f t)"
proof -
  have "list_all2 le t (sql_update p f t)"
    using assms by (induction t) (auto simp: table_simps le_refl)
  then show ?thesis by (simp add: table_evolves_def)
qed

lemma list_all_le: "list_all ok u \<Longrightarrow> list_all2 le u v \<Longrightarrow> list_all ok v"
  by (induction u v rule: list_induct2') (auto intro: ok_closed)

lemma trans_table:
  assumes "table_evolves le ok t u" and "table_evolves le ok u v"
  shows "table_evolves le ok t v"
proof -
  obtain u1 u2 where u: "u = u1 @ u2" "list_all2 le t u1" "list_all ok u2"
    using assms(1) by (auto simp: table_evolves_split)
  obtain v1 v2 where v: "v = v1 @ v2" "list_all2 le u v1" "list_all ok v2"
    using assms(2) by (auto simp: table_evolves_split)
  obtain w1 w2 where w: "v1 = w1 @ w2" "list_all2 le u1 w1" "list_all2 le u2 w2"
    using v(2) u(1) by (auto simp: list_all2_append1)
  have "list_all2 le t w1"
    by (rule list_all2_trans [OF _ u(2) w(2)]) (rule le_trans)
  moreover have "list_all ok (w2 @ v2)"
    using list_all_le [OF u(3) w(3)] v(3) by simp
  moreover have "v = w1 @ (w2 @ v2)"
    using v(1) w(1) by simp
  ultimately show ?thesis
    unfolding table_evolves_split by blast
qed

text \<open>A lookup by a key that the order keeps finds the same row again, moved up.\<close>

lemma lookup_evolves:
  assumes "table_evolves le ok t u" and key: "\<And>a b. le a b \<Longrightarrow> k b = k a"
    and "find (\<lambda>r. k r = x) t = Some a"
  shows "\<exists>b. find (\<lambda>r. k r = x) u = Some b \<and> le a b"
proof -
  obtain v w where v: "u = v @ w" "list_all2 le t v"
    using assms(1) by (auto simp: table_evolves_split)
  have "\<exists>b. find (\<lambda>r. k r = x) v = Some b \<and> le a b"
    using v(2) assms(3) by (induction rule: list_all2_induct) (auto simp: key split: if_splits)
  then show ?thesis by (auto simp: v(1) find_append)
qed

lemma nth_evolves:
  "table_evolves le ok t u \<Longrightarrow> n < length t \<Longrightarrow> n < length u \<and> le (t ! n) (u ! n)"
  by (auto simp: table_evolves_def list_all2_conv_all_nth)

lemma all_ok_evolves: "table_evolves le ok t u \<Longrightarrow> list_all ok t \<Longrightarrow> list_all ok u"
  by (auto simp: table_evolves_split intro: list_all_le)

end

text \<open>A table whose rows never change: the log grows at its end.\<close>

lemma append_only: "table_evolves (=) ok t u \<Longrightarrow> \<exists>v. u = t @ v"
  by (auto simp: table_evolves_split list.rel_eq)

definition any_row :: "'r \<Rightarrow> bool" where
  "any_row r = True"

interpretation log_o: row_order "(=)" any_row
  by unfold_locales (auto simp: any_row_def)

section \<open>The orders of the tables\<close>

text \<open>
  A task keeps its identity; its status is final once terminal, and otherwise moves to a
  known status other than \<open>QUEUED\<close>.
\<close>

definition task_le :: "task_row \<Rightarrow> task_row \<Rightarrow> bool" where
  "task_le a b \<longleftrightarrow>
     t_id b = t_id a \<and> t_title b = t_title a \<and> t_repository b = t_repository a
     \<and> t_executor_kind b = t_executor_kind a \<and> t_execution_id b = t_execution_id a
     \<and> t_binding_ref b = t_binding_ref a \<and> t_policy_ref b = t_policy_ref a
     \<and> t_permission_profile b = t_permission_profile a
     \<and> t_orchestration_mode b = t_orchestration_mode a \<and> t_created_at b = t_created_at a
     \<and> t_idempotency_key b = t_idempotency_key a
     \<and> (t_status b = t_status a
        \<or> (t_status a \<notin> set TERMINAL_STATUSES \<and> t_status b \<in> set TASK_STATUS_ORDER
           \<and> t_status b \<noteq> ''QUEUED''))"

definition known_status :: "task_row \<Rightarrow> bool" where
  "known_status t \<longleftrightarrow> t_status t \<in> set TASK_STATUS_ORDER"

interpretation tasks_o: row_order task_le known_status
  by unfold_locales (auto simp: task_le_def known_status_def)

text \<open>
  A run keeps its identity; its epoch never decreases; within an epoch the lease has one
  owner, or has been given up; the base revision is written once; the accepted checkpoint
  never moves back.
\<close>

definition run_le :: "run_row \<Rightarrow> run_row \<Rightarrow> bool" where
  "run_le a b \<longleftrightarrow>
     dr_run_id b = dr_run_id a \<and> dr_task_id b = dr_task_id a
     \<and> dr_execution_id b = dr_execution_id a \<and> dr_created_at b = dr_created_at a
     \<and> dr_lease_epoch a \<le> dr_lease_epoch b
     \<and> (dr_lease_epoch b = dr_lease_epoch a
        \<longrightarrow> dr_lease_owner b = dr_lease_owner a \<or> dr_lease_owner b = '''')
     \<and> (dr_repository_base_sha a \<noteq> '''' \<longrightarrow> dr_repository_base_sha b = dr_repository_base_sha a)
     \<and> checkpoint_rank (dr_accepted_checkpoint a) \<le> checkpoint_rank (dr_accepted_checkpoint b)"

definition run_ok :: "run_row \<Rightarrow> bool" where
  "run_ok r \<longleftrightarrow> 1 \<le> dr_lease_epoch r"

interpretation runs_o: row_order run_le run_ok
  by unfold_locales (auto simp: run_le_def run_ok_def)

definition extop_le :: "external_op_row \<Rightarrow> external_op_row \<Rightarrow> bool" where
  "extop_le a b \<longleftrightarrow>
     xo_operation_id b = xo_operation_id a \<and> xo_run_id b = xo_run_id a
     \<and> xo_task_id b = xo_task_id a \<and> xo_operation_key b = xo_operation_key a
     \<and> xo_idempotency_key b = xo_idempotency_key a \<and> xo_request_digest b = xo_request_digest a
     \<and> xo_created_at b = xo_created_at a"

interpretation extops_o: row_order extop_le any_row
  by unfold_locales (auto simp: extop_le_def any_row_def)

text \<open>
  A goal keeps its identity; its revision never decreases; within a revision the objective
  is fixed and, once the goal has left \<open>DRAFT\<close> and \<open>PLANNED\<close>, so is its plan.
\<close>

definition plan_frozen :: "goal_row \<Rightarrow> goal_row \<Rightarrow> bool" where
  "plan_frozen a b \<longleftrightarrow>
     g_status b \<notin> {''DRAFT'', ''PLANNED''} \<and> g_tasks b = g_tasks a
     \<and> g_acceptance b = g_acceptance a \<and> g_artifact_digest b = g_artifact_digest a
     \<and> g_spec_markdown b = g_spec_markdown a \<and> g_plan_markdown b = g_plan_markdown a"

definition goal_le :: "goal_row \<Rightarrow> goal_row \<Rightarrow> bool" where
  "goal_le a b \<longleftrightarrow>
     g_id b = g_id a \<and> g_title b = g_title a \<and> g_repository b = g_repository a
     \<and> g_executor_kind b = g_executor_kind a \<and> g_orchestration_mode b = g_orchestration_mode a
     \<and> g_binding_ref b = g_binding_ref a \<and> g_idempotency_key b = g_idempotency_key a
     \<and> g_created_at b = g_created_at a \<and> g_revision a \<le> g_revision b
     \<and> (g_revision b = g_revision a \<longrightarrow>
          g_objective b = g_objective a
          \<and> (g_status a \<notin> {''DRAFT'', ''PLANNED''} \<longrightarrow> plan_frozen a b))"

definition goal_ok :: "goal_row \<Rightarrow> bool" where
  "goal_ok g \<longleftrightarrow> 1 \<le> g_revision g \<and> g_id g \<noteq> ''''"

interpretation goals_o: row_order goal_le goal_ok
proof unfold_locales
  fix a b c
  show "goal_le a a" by (auto simp: goal_le_def plan_frozen_def)
  assume ab: "goal_le a b" and bc: "goal_le b c"
  show "goal_le a c"
  proof (cases "g_revision c = g_revision a")
    case True
    with ab bc have "g_revision b = g_revision a" "g_revision c = g_revision b"
      by (auto simp: goal_le_def)
    with ab bc show ?thesis
      by (auto simp: goal_le_def plan_frozen_def)
  next
    case False
    with ab bc show ?thesis by (auto simp: goal_le_def)
  qed
next
  fix a b
  assume "goal_ok a" "goal_le a b"
  then show "goal_ok b" by (auto simp: goal_le_def goal_ok_def)
qed

text \<open>
  A window keeps its policy and its limits; its counters only grow; once it is not \<open>ACTIVE\<close>
  it never is again.
\<close>

definition window_le :: "window_row \<Rightarrow> window_row \<Rightarrow> bool" where
  "window_le a b \<longleftrightarrow>
     w_id b = w_id a \<and> w_policy_id b = w_policy_id a \<and> w_policy_revision b = w_policy_revision a
     \<and> w_policy_digest b = w_policy_digest a \<and> w_owner_identity b = w_owner_identity a
     \<and> w_starts_at b = w_starts_at a \<and> w_expires_at b = w_expires_at a
     \<and> w_repositories b = w_repositories a \<and> w_capabilities b = w_capabilities a
     \<and> w_max_concurrent_tasks b = w_max_concurrent_tasks a \<and> w_max_tasks b = w_max_tasks a
     \<and> w_max_retries b = w_max_retries a \<and> w_max_token_units b = w_max_token_units a
     \<and> w_max_cost_micro_units b = w_max_cost_micro_units a
     \<and> w_per_task_token_reservation b = w_per_task_token_reservation a
     \<and> w_per_task_cost_reservation b = w_per_task_cost_reservation a
     \<and> w_tasks_started a \<le> w_tasks_started b \<and> w_tasks_completed a \<le> w_tasks_completed b
     \<and> w_retries_used a \<le> w_retries_used b
     \<and> w_unknown_observation_count a \<le> w_unknown_observation_count b
     \<and> (w_status b = ''ACTIVE'' \<longrightarrow> w_status a = ''ACTIVE'')"

interpretation windows_o: row_order window_le any_row
  by unfold_locales (auto simp: window_le_def any_row_def)

text \<open>
  A task has one claim row; its epoch never decreases; within an epoch owner and window are
  fixed and the claim can only be closed.
\<close>

definition claim_le :: "claim_row \<Rightarrow> claim_row \<Rightarrow> bool" where
  "claim_le a b \<longleftrightarrow>
     cl_task_id b = cl_task_id a \<and> cl_epoch a \<le> cl_epoch b
     \<and> (cl_epoch b = cl_epoch a \<longrightarrow>
          cl_owner b = cl_owner a \<and> cl_window_id b = cl_window_id a
          \<and> cl_expires_at_ms b = cl_expires_at_ms a
          \<and> (cl_status b = cl_status a
             \<or> (cl_status a = ''ACTIVE'' \<and> cl_status b \<in> {''COMPLETE'', ''FAILED''})))"

definition claim_ok :: "claim_row \<Rightarrow> bool" where
  "claim_ok c \<longleftrightarrow> 1 \<le> cl_epoch c"

interpretation claims_o: row_order claim_le claim_ok
  by unfold_locales (auto simp: claim_le_def claim_ok_def)

text \<open>A reservation keeps its amounts, and is settled once.\<close>

definition reservation_le :: "reservation_row \<Rightarrow> reservation_row \<Rightarrow> bool" where
  "reservation_le a b \<longleftrightarrow>
     br_task_id b = br_task_id a \<and> br_window_id b = br_window_id a
     \<and> br_reserved_token_units b = br_reserved_token_units a
     \<and> br_reserved_cost_micro_units b = br_reserved_cost_micro_units a
     \<and> br_created_at b = br_created_at a \<and> (br_state a \<noteq> ''ACTIVE'' \<longrightarrow> b = a)"

interpretation reservations_o: row_order reservation_le any_row
  by unfold_locales (auto simp: reservation_le_def any_row_def)

definition publication_le :: "publication_row \<Rightarrow> publication_row \<Rightarrow> bool" where
  "publication_le a b \<longleftrightarrow>
     pb_id b = pb_id a \<and> pb_task_id b = pb_task_id a \<and> pb_repository b = pb_repository a
     \<and> pb_base_branch b = pb_base_branch a \<and> pb_branch b = pb_branch a
     \<and> pb_request_digest b = pb_request_digest a \<and> pb_created_at b = pb_created_at a"

interpretation publications_o: row_order publication_le any_row
  by unfold_locales (auto simp: publication_le_def any_row_def)

definition inbox_le :: "inbox_row \<Rightarrow> inbox_row \<Rightarrow> bool" where
  "inbox_le a b \<longleftrightarrow>
     ib_id b = ib_id a \<and> ib_title b = ib_title a \<and> ib_objective b = ib_objective a
     \<and> ib_repository b = ib_repository a \<and> ib_created_at b = ib_created_at a
     \<and> (ib_status a \<noteq> ''CAPTURED'' \<longrightarrow> b = a)"

interpretation inbox_o: row_order inbox_le any_row
  by unfold_locales (auto simp: inbox_le_def any_row_def)

section \<open>The database\<close>

text \<open>The rows of \<open>task_changed_files\<close> and of the phase attachments may be replaced.\<close>

definition evolves :: "db \<Rightarrow> db \<Rightarrow> bool" where
  "evolves s s' \<longleftrightarrow>
     table_evolves task_le known_status (tasks s) (tasks s')
     \<and> table_evolves (=) any_row (idempotency_keys s) (idempotency_keys s')
     \<and> table_evolves (=) any_row (task_events s) (task_events s')
     \<and> table_evolves (=) any_row (task_evidence s) (task_evidence s')
     \<and> table_evolves (=) any_row (usage_observations s) (usage_observations s')
     \<and> table_evolves run_le run_ok (durable_runs s) (durable_runs s')
     \<and> table_evolves (=) any_row (checkpoint_history s) (checkpoint_history s')
     \<and> table_evolves extop_le any_row (external_operations s) (external_operations s')
     \<and> (control_schema s \<longrightarrow> control_schema s')
     \<and> table_evolves goal_le goal_ok (goals s) (goals s')
     \<and> table_evolves (=) any_row (goal_task_links s) (goal_task_links s')
     \<and> table_evolves window_le any_row (windows s) (windows s')
     \<and> table_evolves (=) any_row (receipts s) (receipts s')
     \<and> table_evolves claim_le claim_ok (claims s) (claims s')
     \<and> table_evolves reservation_le any_row (reservations s) (reservations s')
     \<and> table_evolves (=) any_row (usage_charges s) (usage_charges s')
     \<and> table_evolves publication_le any_row (publications s) (publications s')
     \<and> table_evolves inbox_le any_row (inbox_items s) (inbox_items s')
     \<and> table_evolves (=) any_row (roadmap_phases s) (roadmap_phases s')"

lemmas table_refl [simp] =
  log_o.refl_table tasks_o.refl_table runs_o.refl_table extops_o.refl_table
  goals_o.refl_table windows_o.refl_table claims_o.refl_table
  reservations_o.refl_table publications_o.refl_table inbox_o.refl_table

lemma evolves_refl [simp]: "evolves s s"
  by (simp add: evolves_def)

lemma evolves_trans: "evolves s t \<Longrightarrow> evolves t u \<Longrightarrow> evolves s u"
  unfolding evolves_def
  by (intro conjI; (elim conjE)?)
    (blast intro: log_o.trans_table tasks_o.trans_table runs_o.trans_table
      extops_o.trans_table goals_o.trans_table windows_o.trans_table
      claims_o.trans_table reservations_o.trans_table publications_o.trans_table
      inbox_o.trans_table)+

text \<open>The keys SQLite enforces.\<close>

definition keys_ok :: "db \<Rightarrow> bool" where
  "keys_ok s \<longleftrightarrow>
     distinct (map t_id (tasks s)) \<and> distinct (map ik_key (idempotency_keys s))
     \<and> distinct (map uo_id (usage_observations s))
     \<and> distinct (map dr_run_id (durable_runs s)) \<and> distinct (map dr_task_id (durable_runs s))
     \<and> distinct (map xo_operation_id (external_operations s))
     \<and> distinct (map g_id (goals s)) \<and> distinct (map g_idempotency_key (goals s))
     \<and> distinct (map gl_task_id (goal_task_links s))
     \<and> distinct (map (\<lambda>l. (gl_goal_id l, gl_goal_revision l, gl_plan_task_id l)) (goal_task_links s))
     \<and> distinct (map w_id (windows s))
     \<and> distinct (map (\<lambda>w. (w_policy_id w, w_policy_revision w)) (windows s))
     \<and> distinct (map rc_id (receipts s)) \<and> distinct (map cl_task_id (claims s))
     \<and> distinct (map (\<lambda>r. (br_task_id r, br_claim_epoch r)) (reservations s))
     \<and> distinct (map uc_observation_id (usage_charges s))
     \<and> distinct (map pb_id (publications s)) \<and> distinct (map pb_task_id (publications s))
     \<and> distinct (map ib_id (inbox_items s)) \<and> distinct (map ph_id (roadmap_phases s))"

lemma keys_ok_empty: "keys_ok empty_db"
  by (simp add: keys_ok_def empty_db_def)

text \<open>
  The contract of an operation: from a database that obeys its keys to one that does, along
  \<open>evolves\<close>. It composes.
\<close>

definition lawful :: "db \<Rightarrow> db \<Rightarrow> bool" where
  "lawful s s' \<longleftrightarrow> (keys_ok s \<longrightarrow> keys_ok s' \<and> evolves s s')"

lemma lawful_refl [simp]: "lawful s s"
  by (simp add: lawful_def)

lemma lawful_trans: "lawful s t \<Longrightarrow> lawful t u \<Longrightarrow> lawful s u"
  by (auto simp: lawful_def intro: evolves_trans)

lemma lawful_andthen:
  assumes "lawful s (snd r)" and "\<And>x s1. r = (Inr x, s1) \<Longrightarrow> lawful s1 (snd (k x s1))"
  shows "lawful s (snd (andthen r k))"
proof (rule andthen_state)
  show "lawful s (snd r)" by fact
  show "lawful s (snd (k x s1))" if "r = (Inr x, s1)" "lawful s s1" for x s1
    using lawful_trans [OF that(2) assms(2) [OF that(1)]] .
qed

lemma lawful_transact: "lawful s (snd r) \<Longrightarrow> lawful s (snd (transact w s r))"
  by (auto simp: transact_def split: prod.splits sum.splits)

end
