(* ===== verification/Evolution_Rules.thy ===== *)
theory Evolution_Rules
  imports Evolution
begin

text \<open>
  One rule per kind of statement: what an \<open>UPDATE\<close> or an \<open>INSERT\<close> on a table must satisfy for
  the operation that issues it to be lawful. The proofs about operations apply these rules to
  the writes of the operation, in order.
\<close>

named_theorems lawful_intros \<open>lawfulness of one write after a lawful prefix\<close>

lemma map_sql_update_on:
  "(\<And>r. r \<in> set t \<Longrightarrow> p r \<Longrightarrow> g (f r) = g r) \<Longrightarrow> map g (sql_update p f t) = map g t"
  by (induction t) (auto simp: sql_update_def)

lemma sql_update_row: "r \<in> set (sql_update p f t) \<Longrightarrow> \<exists>q \<in> set t. r = (if p q then f q else q)"
  by (auto simp: set_sql_update)

lemma lawfulI:
  "lawful s s1 \<Longrightarrow> (keys_ok s1 \<Longrightarrow> keys_ok s2 \<and> evolves s1 s2) \<Longrightarrow> lawful s s2"
  by (auto simp: lawful_def intro: evolves_trans)

section \<open>Updates\<close>

lemma lawful_tasks_update [lawful_intros]:
  assumes "lawful s s1" "T = tasks s1"
    and le: "\<And>r. keys_ok s1 \<Longrightarrow> r \<in> set T \<Longrightarrow> p r \<Longrightarrow> task_le r (f r)"
  shows "lawful s (s1\<lparr>tasks := sql_update p f T\<rparr>)"
proof (rule lawfulI [OF assms(1)])
  assume k: "keys_ok s1"
  from le [OF k] have "map t_id (sql_update p f T) = map t_id T"
    by (intro map_sql_update_on) (auto simp: task_le_def)
  with k le [OF k] show "keys_ok (s1\<lparr>tasks := sql_update p f T\<rparr>) \<and> evolves s1 (s1\<lparr>tasks := sql_update p f T\<rparr>)"
    by (simp add: keys_ok_def evolves_def assms(2) tasks_o.evolves_update)
qed

lemma lawful_runs_update [lawful_intros]:
  assumes "lawful s s1" "T = durable_runs s1"
    and le: "\<And>r. keys_ok s1 \<Longrightarrow> r \<in> set T \<Longrightarrow> p r \<Longrightarrow> run_le r (f r)"
  shows "lawful s (s1\<lparr>durable_runs := sql_update p f T\<rparr>)"
proof (rule lawfulI [OF assms(1)])
  assume k: "keys_ok s1"
  from le [OF k] have "map dr_run_id (sql_update p f T) = map dr_run_id T"
      "map dr_task_id (sql_update p f T) = map dr_task_id T"
    by (auto intro!: map_sql_update_on simp: run_le_def)
  with k le [OF k] show "keys_ok (s1\<lparr>durable_runs := sql_update p f T\<rparr>)
      \<and> evolves s1 (s1\<lparr>durable_runs := sql_update p f T\<rparr>)"
    by (simp add: keys_ok_def evolves_def assms(2) runs_o.evolves_update)
qed

lemma lawful_extops_update [lawful_intros]:
  assumes "lawful s s1" "T = external_operations s1"
    and le: "\<And>r. keys_ok s1 \<Longrightarrow> r \<in> set T \<Longrightarrow> p r \<Longrightarrow> extop_le r (f r)"
  shows "lawful s (s1\<lparr>external_operations := sql_update p f T\<rparr>)"
proof (rule lawfulI [OF assms(1)])
  assume k: "keys_ok s1"
  from le [OF k] have "map xo_operation_id (sql_update p f T) = map xo_operation_id T"
    by (intro map_sql_update_on) (auto simp: extop_le_def)
  with k le [OF k] show "keys_ok (s1\<lparr>external_operations := sql_update p f T\<rparr>)
      \<and> evolves s1 (s1\<lparr>external_operations := sql_update p f T\<rparr>)"
    by (simp add: keys_ok_def evolves_def assms(2) extops_o.evolves_update)
qed

lemma lawful_goals_update [lawful_intros]:
  assumes "lawful s s1" "T = goals s1"
    and le: "\<And>r. keys_ok s1 \<Longrightarrow> r \<in> set T \<Longrightarrow> p r \<Longrightarrow> goal_le r (f r)"
  shows "lawful s (s1\<lparr>goals := sql_update p f T\<rparr>)"
proof (rule lawfulI [OF assms(1)])
  assume k: "keys_ok s1"
  from le [OF k] have "map g_id (sql_update p f T) = map g_id T"
      "map g_idempotency_key (sql_update p f T) = map g_idempotency_key T"
    by (auto intro!: map_sql_update_on simp: goal_le_def)
  with k le [OF k] show "keys_ok (s1\<lparr>goals := sql_update p f T\<rparr>)
      \<and> evolves s1 (s1\<lparr>goals := sql_update p f T\<rparr>)"
    by (simp add: keys_ok_def evolves_def assms(2) goals_o.evolves_update)
qed

lemma lawful_windows_update [lawful_intros]:
  assumes "lawful s s1" "T = windows s1"
    and le: "\<And>r. keys_ok s1 \<Longrightarrow> r \<in> set T \<Longrightarrow> p r \<Longrightarrow> window_le r (f r)"
  shows "lawful s (s1\<lparr>windows := sql_update p f T\<rparr>)"
proof (rule lawfulI [OF assms(1)])
  assume k: "keys_ok s1"
  from le [OF k] have "map w_id (sql_update p f T) = map w_id T"
      "map (\<lambda>w. (w_policy_id w, w_policy_revision w)) (sql_update p f T)
         = map (\<lambda>w. (w_policy_id w, w_policy_revision w)) T"
    by (auto intro!: map_sql_update_on simp: window_le_def)
  with k le [OF k] show "keys_ok (s1\<lparr>windows := sql_update p f T\<rparr>)
      \<and> evolves s1 (s1\<lparr>windows := sql_update p f T\<rparr>)"
    by (simp add: keys_ok_def evolves_def assms(2) windows_o.evolves_update)
qed

lemma lawful_claims_update [lawful_intros]:
  assumes "lawful s s1" "T = claims s1"
    and le: "\<And>r. keys_ok s1 \<Longrightarrow> r \<in> set T \<Longrightarrow> p r \<Longrightarrow> claim_le r (f r)"
  shows "lawful s (s1\<lparr>claims := sql_update p f T\<rparr>)"
proof (rule lawfulI [OF assms(1)])
  assume k: "keys_ok s1"
  from le [OF k] have "map cl_task_id (sql_update p f T) = map cl_task_id T"
    by (intro map_sql_update_on) (auto simp: claim_le_def)
  with k le [OF k] show "keys_ok (s1\<lparr>claims := sql_update p f T\<rparr>)
      \<and> evolves s1 (s1\<lparr>claims := sql_update p f T\<rparr>)"
    by (simp add: keys_ok_def evolves_def assms(2) claims_o.evolves_update)
qed

text \<open>An update of reservations may move one to another epoch, so the key is a premise.\<close>

lemma lawful_reservations_update [lawful_intros]:
  assumes "lawful s s1" "T = reservations s1"
    and le: "\<And>r. keys_ok s1 \<Longrightarrow> r \<in> set T \<Longrightarrow> p r \<Longrightarrow> reservation_le r (f r)"
    and key: "keys_ok s1 \<Longrightarrow> distinct (map (\<lambda>r. (br_task_id r, br_claim_epoch r)) (sql_update p f T))"
  shows "lawful s (s1\<lparr>reservations := sql_update p f T\<rparr>)"
proof (rule lawfulI [OF assms(1)])
  assume k: "keys_ok s1"
  with le [OF k] key [OF k] show "keys_ok (s1\<lparr>reservations := sql_update p f T\<rparr>)
      \<and> evolves s1 (s1\<lparr>reservations := sql_update p f T\<rparr>)"
    by (simp add: keys_ok_def evolves_def assms(2) reservations_o.evolves_update)
qed

lemma lawful_publications_update [lawful_intros]:
  assumes "lawful s s1" "T = publications s1"
    and le: "\<And>r. keys_ok s1 \<Longrightarrow> r \<in> set T \<Longrightarrow> p r \<Longrightarrow> publication_le r (f r)"
  shows "lawful s (s1\<lparr>publications := sql_update p f T\<rparr>)"
proof (rule lawfulI [OF assms(1)])
  assume k: "keys_ok s1"
  from le [OF k] have "map pb_id (sql_update p f T) = map pb_id T"
      "map pb_task_id (sql_update p f T) = map pb_task_id T"
    by (auto intro!: map_sql_update_on simp: publication_le_def)
  with k le [OF k] show "keys_ok (s1\<lparr>publications := sql_update p f T\<rparr>)
      \<and> evolves s1 (s1\<lparr>publications := sql_update p f T\<rparr>)"
    by (simp add: keys_ok_def evolves_def assms(2) publications_o.evolves_update)
qed

lemma lawful_inbox_update [lawful_intros]:
  assumes "lawful s s1" "T = inbox_items s1"
    and le: "\<And>r. keys_ok s1 \<Longrightarrow> r \<in> set T \<Longrightarrow> p r \<Longrightarrow> inbox_le r (f r)"
  shows "lawful s (s1\<lparr>inbox_items := sql_update p f T\<rparr>)"
proof (rule lawfulI [OF assms(1)])
  assume k: "keys_ok s1"
  from le [OF k] have "map ib_id (sql_update p f T) = map ib_id T"
    by (intro map_sql_update_on) (auto simp: inbox_le_def)
  with k le [OF k] show "keys_ok (s1\<lparr>inbox_items := sql_update p f T\<rparr>)
      \<and> evolves s1 (s1\<lparr>inbox_items := sql_update p f T\<rparr>)"
    by (simp add: keys_ok_def evolves_def assms(2) inbox_o.evolves_update)
qed

section \<open>Inserts\<close>

lemma any_row [simp]: "any_row r" "list_all any_row rs"
  by (auto simp: any_row_def list_all_iff)

lemma lawful_inserts [lawful_intros]:
  "lawful s s1 \<Longrightarrow> T1 = tasks s1 \<Longrightarrow> known_status r1 \<Longrightarrow> t_id r1 \<notin> t_id ` set T1
   \<Longrightarrow> lawful s (s1\<lparr>tasks := T1 @ [r1]\<rparr>)"
  "lawful s s1 \<Longrightarrow> T2 = idempotency_keys s1 \<Longrightarrow> ik_key r2 \<notin> ik_key ` set T2
   \<Longrightarrow> lawful s (s1\<lparr>idempotency_keys := T2 @ [r2]\<rparr>)"
  "lawful s s1 \<Longrightarrow> T3 = task_events s1 \<Longrightarrow> lawful s (s1\<lparr>task_events := T3 @ [r3]\<rparr>)"
  "lawful s s1 \<Longrightarrow> T4 = task_evidence s1 \<Longrightarrow> lawful s (s1\<lparr>task_evidence := T4 @ [r4]\<rparr>)"
  "lawful s s1 \<Longrightarrow> T5 = usage_observations s1 \<Longrightarrow> uo_id r5 \<notin> uo_id ` set T5
   \<Longrightarrow> lawful s (s1\<lparr>usage_observations := T5 @ [r5]\<rparr>)"
  "lawful s s1 \<Longrightarrow> T6 = durable_runs s1 \<Longrightarrow> run_ok r6 \<Longrightarrow> dr_run_id r6 \<notin> dr_run_id ` set T6
   \<Longrightarrow> dr_task_id r6 \<notin> dr_task_id ` set T6 \<Longrightarrow> lawful s (s1\<lparr>durable_runs := T6 @ [r6]\<rparr>)"
  "lawful s s1 \<Longrightarrow> T7 = checkpoint_history s1
   \<Longrightarrow> lawful s (s1\<lparr>checkpoint_history := T7 @ [r7]\<rparr>)"
  "lawful s s1 \<Longrightarrow> T8 = external_operations s1 \<Longrightarrow> xo_operation_id r8 \<notin> xo_operation_id ` set T8
   \<Longrightarrow> lawful s (s1\<lparr>external_operations := T8 @ [r8]\<rparr>)"
  by (rule lawfulI, assumption,
      simp add: keys_ok_def evolves_def tasks_o.evolves_append log_o.evolves_append
        runs_o.evolves_append extops_o.evolves_append)+

lemma lawful_control_inserts [lawful_intros]:
  "lawful s s1 \<Longrightarrow> T1 = goals s1 \<Longrightarrow> goal_ok r1 \<Longrightarrow> g_id r1 \<notin> g_id ` set T1
   \<Longrightarrow> g_idempotency_key r1 \<notin> g_idempotency_key ` set T1
   \<Longrightarrow> lawful s (s1\<lparr>goals := T1 @ [r1]\<rparr>)"
  "lawful s s1 \<Longrightarrow> T2 = goal_task_links s1 \<Longrightarrow> gl_task_id r2 \<notin> gl_task_id ` set T2
   \<Longrightarrow> (gl_goal_id r2, gl_goal_revision r2, gl_plan_task_id r2)
         \<notin> (\<lambda>l. (gl_goal_id l, gl_goal_revision l, gl_plan_task_id l)) ` set T2
   \<Longrightarrow> lawful s (s1\<lparr>goal_task_links := T2 @ [r2]\<rparr>)"
  "lawful s s1 \<Longrightarrow> T3 = windows s1 \<Longrightarrow> w_id r3 \<notin> w_id ` set T3
   \<Longrightarrow> (w_policy_id r3, w_policy_revision r3) \<notin> (\<lambda>w. (w_policy_id w, w_policy_revision w)) ` set T3
   \<Longrightarrow> lawful s (s1\<lparr>windows := T3 @ [r3]\<rparr>)"
  "lawful s s1 \<Longrightarrow> T4 = receipts s1 \<Longrightarrow> rc_id r4 \<notin> rc_id ` set T4
   \<Longrightarrow> lawful s (s1\<lparr>receipts := T4 @ [r4]\<rparr>)"
  "lawful s s1 \<Longrightarrow> T5 = claims s1 \<Longrightarrow> claim_ok r5 \<Longrightarrow> cl_task_id r5 \<notin> cl_task_id ` set T5
   \<Longrightarrow> lawful s (s1\<lparr>claims := T5 @ [r5]\<rparr>)"
  "lawful s s1 \<Longrightarrow> T6 = reservations s1
   \<Longrightarrow> (br_task_id r6, br_claim_epoch r6) \<notin> (\<lambda>r. (br_task_id r, br_claim_epoch r)) ` set T6
   \<Longrightarrow> lawful s (s1\<lparr>reservations := T6 @ [r6]\<rparr>)"
  "lawful s s1 \<Longrightarrow> T7 = usage_charges s1
   \<Longrightarrow> (keys_ok s1 \<Longrightarrow> distinct (map uc_observation_id (T7 @ rs7)))
   \<Longrightarrow> lawful s (s1\<lparr>usage_charges := T7 @ rs7\<rparr>)"
  "lawful s s1 \<Longrightarrow> T8 = publications s1 \<Longrightarrow> pb_id r8 \<notin> pb_id ` set T8
   \<Longrightarrow> pb_task_id r8 \<notin> pb_task_id ` set T8 \<Longrightarrow> lawful s (s1\<lparr>publications := T8 @ [r8]\<rparr>)"
  "lawful s s1 \<Longrightarrow> T9 = inbox_items s1 \<Longrightarrow> ib_id r9 \<notin> ib_id ` set T9
   \<Longrightarrow> lawful s (s1\<lparr>inbox_items := T9 @ [r9]\<rparr>)"
  "lawful s s1 \<Longrightarrow> T10 = roadmap_phases s1 \<Longrightarrow> ph_id r10 \<notin> ph_id ` set T10
   \<Longrightarrow> lawful s (s1\<lparr>roadmap_phases := T10 @ [r10]\<rparr>)"
  by (rule lawfulI, assumption,
      simp add: keys_ok_def evolves_def log_o.evolves_append log_o.evolves_appends
        goals_o.evolves_append windows_o.evolves_append claims_o.evolves_append
        reservations_o.evolves_append publications_o.evolves_append inbox_o.evolves_append)+

lemma lawful_free_tables [lawful_intros]:
  "lawful s s1 \<Longrightarrow> lawful s (s1\<lparr>task_changed_files := fs\<rparr>)"
  "lawful s s1 \<Longrightarrow> lawful s (s1\<lparr>phase_goals := ps\<rparr>)"
  "lawful s s1 \<Longrightarrow> lawful s (s1\<lparr>control_schema := True\<rparr>)"
  by (rule lawfulI, assumption, simp add: keys_ok_def evolves_def)+

section \<open>A key names one row\<close>

lemma key_unique:
  "distinct (map k t) \<Longrightarrow> find (\<lambda>r. k r = x) t = Some a \<Longrightarrow> b \<in> set t \<Longrightarrow> k b = x \<Longrightarrow> b = a"
  using find_distinct_key [of k t b x] by simp

lemma task_unique:
  "keys_ok s \<Longrightarrow> task_row_of tid s = Some t \<Longrightarrow> r \<in> set (tasks s) \<Longrightarrow> t_id r = tid \<Longrightarrow> r = t"
  by (rule key_unique [of t_id "tasks s" tid]) (auto simp: keys_ok_def task_row_of_def)

lemma run_unique:
  "keys_ok s \<Longrightarrow> run_row_of rid s = Some a \<Longrightarrow> r \<in> set (durable_runs s) \<Longrightarrow> dr_run_id r = rid \<Longrightarrow> r = a"
  by (rule key_unique [of dr_run_id "durable_runs s" rid]) (auto simp: keys_ok_def run_row_of_def)

lemma goal_unique:
  "keys_ok s \<Longrightarrow> goal_row_of gid s = Some a \<Longrightarrow> r \<in> set (goals s) \<Longrightarrow> g_id r = gid \<Longrightarrow> r = a"
  by (rule key_unique [of g_id "goals s" gid]) (auto simp: keys_ok_def goal_row_of_def)

lemma window_unique:
  "keys_ok s \<Longrightarrow> window_row_of wid s = Some a \<Longrightarrow> r \<in> set (windows s) \<Longrightarrow> w_id r = wid \<Longrightarrow> r = a"
  by (rule key_unique [of w_id "windows s" wid]) (auto simp: keys_ok_def window_row_of_def)

lemma claim_unique:
  "keys_ok s \<Longrightarrow> claim_row_of tid s = Some a \<Longrightarrow> r \<in> set (claims s) \<Longrightarrow> cl_task_id r = tid \<Longrightarrow> r = a"
  by (rule key_unique [of cl_task_id "claims s" tid]) (auto simp: keys_ok_def claim_row_of_def)

lemma reservation_unique:
  "keys_ok s \<Longrightarrow> a \<in> set (reservations s) \<Longrightarrow> b \<in> set (reservations s)
   \<Longrightarrow> br_task_id a = br_task_id b \<Longrightarrow> br_claim_epoch a = br_claim_epoch b \<Longrightarrow> a = b"
  by (auto simp: keys_ok_def distinct_map inj_on_def)

section \<open>Rows found before a step are found after it\<close>

lemma task_evolves:
  "evolves s s' \<Longrightarrow> task_row_of tid s = Some t \<Longrightarrow> \<exists>t'. task_row_of tid s' = Some t' \<and> task_le t t'"
  unfolding task_row_of_def
  by (rule tasks_o.lookup_evolves [where t = "tasks s"]) (auto simp: evolves_def task_le_def)

lemma run_evolves:
  "evolves s s' \<Longrightarrow> run_row_of rid s = Some r \<Longrightarrow> \<exists>r'. run_row_of rid s' = Some r' \<and> run_le r r'"
  unfolding run_row_of_def
  by (rule runs_o.lookup_evolves [where t = "durable_runs s"]) (auto simp: evolves_def run_le_def)

lemma goal_evolves:
  "evolves s s' \<Longrightarrow> goal_row_of gid s = Some g \<Longrightarrow> \<exists>g'. goal_row_of gid s' = Some g' \<and> goal_le g g'"
  unfolding goal_row_of_def
  by (rule goals_o.lookup_evolves [where t = "goals s"]) (auto simp: evolves_def goal_le_def)

lemma window_evolves:
  "evolves s s' \<Longrightarrow> window_row_of wid s = Some w \<Longrightarrow>
   \<exists>w'. window_row_of wid s' = Some w' \<and> window_le w w'"
  unfolding window_row_of_def
  by (rule windows_o.lookup_evolves [where t = "windows s"]) (auto simp: evolves_def window_le_def)

lemma claim_evolves:
  "evolves s s' \<Longrightarrow> claim_row_of tid s = Some c \<Longrightarrow> \<exists>c'. claim_row_of tid s' = Some c' \<and> claim_le c c'"
  unfolding claim_row_of_def
  by (rule claims_o.lookup_evolves [where t = "claims s"]) (auto simp: evolves_def claim_le_def)

end
