(* ===== verification/Store_Laws.thy ===== *)
theory Store_Laws
  imports Evolution_Rules
begin

text \<open>
  Every operation of \<open>TaskStore\<close> is lawful: it keeps the keys of the database and moves every
  table along its order (Evolution). One lemma per operation, over every branch of it.
\<close>

lemma task_key: "keys_ok s \<Longrightarrow> distinct (map t_id (tasks s))"
  by (simp add: keys_ok_def)

lemma run_key: "keys_ok s \<Longrightarrow> distinct (map dr_run_id (durable_runs s))"
  by (simp add: keys_ok_def)

text \<open>The row a lookup by id returned is the only row an update by that id can hit.\<close>

lemma task_hit:
  "distinct (map t_id (tasks s)) \<Longrightarrow> task_row_of tid s = Some t \<Longrightarrow> r \<in> set (tasks s)
   \<Longrightarrow> t_id r = tid \<Longrightarrow> r = t"
  by (rule key_unique [of t_id "tasks s" tid]) (auto simp: task_row_of_def)

lemma run_hit:
  "distinct (map dr_run_id (durable_runs s)) \<Longrightarrow> run_row_of rid s = Some a
   \<Longrightarrow> r \<in> set (durable_runs s) \<Longrightarrow> dr_run_id r = rid \<Longrightarrow> r = a"
  by (rule key_unique [of dr_run_id "durable_runs s" rid]) (auto simp: run_row_of_def)

lemma get_task_row:
  "get_task tid l s = Inr v \<Longrightarrow>
   \<exists>t. task_row_of tid s = Some t \<and> t_status (tv_row v) = t_status t \<and> t_id (tv_row v) = t_id t"
  by (auto simp: get_task_def row_to_task_def Let_def split: option.splits)

lemma snd_return_task [simp]: "snd (return_task tid l s) = s"
  by (simp add: return_task_def)

lemma rules_known: "b \<in> set (transition_rules a) \<Longrightarrow> b \<in> set TASK_STATUS_ORDER \<and> b \<noteq> ''QUEUED''"
  by (auto simp: transition_rules_def TASK_STATUS_ORDER_def split: if_splits option.splits)

lemma rules_terminal: "b \<in> set (transition_rules a) \<Longrightarrow> a \<notin> set TERMINAL_STATUSES"
  by (auto simp: transition_rules_def TERMINAL_STATUSES_def split: if_splits option.splits)

section \<open>Tasks\<close>

text \<open>A write of the free columns, and of a status the rules allow.\<close>

lemma lawful_update_task_fields:
  assumes "lawful s s1"
    and "\<And>r. keys_ok s1 \<Longrightarrow> r \<in> set (tasks s1) \<Longrightarrow> t_id r = tid
           \<Longrightarrow> task_le r ((f r)\<lparr>t_updated_at := utc e 0\<rparr>)"
  shows "lawful s (update_task_fields e tid f s1)"
  unfolding update_task_fields_def by (rule lawful_tasks_update) (use assms in auto)

lemma lawful_touch: "lawful s s1 \<Longrightarrow> lawful s (update_task_fields e tid id s1)"
  by (rule lawful_update_task_fields) (auto simp: task_le_def)

lemma lawful_append_event [lawful_intros]:
  "lawful s s1 \<Longrightarrow> lawful s (snd (append_event e tid ty ti d l m s1))"
  by (auto simp: append_event_def Let_def intro!: lawful_touch lawful_intros)

lemma lawful_add_event: "lawful s (snd (add_event e tid ty ti d l m s))"
  by (auto simp: add_event_def intro: lawful_append_event split: sum.splits)

lemma lawful_insert_task: "lawful s (snd (insert_task_row e q s))"
  by (auto simp: insert_task_row_def Let_def sql_insert_def list_ex_iff known_status_def
      new_task_row_def TASK_STATUS_ORDER_def intro!: lawful_intros split: if_splits)

lemma lawful_insert_key: "lawful s (snd (insert_key_row e q tid s))"
  by (auto simp: insert_key_row_def sql_insert_def list_ex_iff intro!: lawful_intros)

lemma lawful_create_task: "lawful s (snd (create_task e q s))"
proof -
  have "lawful s (snd (create_task_impl e q s))"
    unfolding create_task_impl_def
    by (intro lawful_andthen lawful_insert_task lawful_insert_key lawful_append_event lawful_refl)
      simp
  then show ?thesis
    by (auto simp: create_task_def split: option.splits prod.splits)
qed

lemma status_move:
  assumes "t_status t \<notin> set TERMINAL_STATUSES" "st \<in> set TASK_STATUS_ORDER" "st \<noteq> ''QUEUED''"
  shows "task_le t ((set_status st t)\<lparr>t_updated_at := u\<rparr>)"
  using assms by (auto simp: task_le_def set_status_def)

lemma lawful_transition_to: "lawful s (snd (transition_to e tid st s))"
proof (cases "get_task tid None s")
  case (Inl err)
  then show ?thesis by (simp add: transition_to_def)
next
  case (Inr v)
  then obtain t where t: "task_row_of tid s = Some t" "t_status (tv_row v) = t_status t"
    using get_task_row by blast
  show ?thesis
    using Inr t rules_known [of st "t_status t"] rules_terminal [of st "t_status t"]
    by (auto simp: transition_to_def Let_def
        intro!: lawful_update_task_fields status_move dest!: task_key task_hit)
qed

lemma lawful_queue_cancel_txn: "lawful s (snd (queue_cancel_txn e tid s))"
proof (cases "task_row_of tid s")
  case None
  then show ?thesis by (simp add: queue_cancel_txn_def)
next
  case (Some t)
  have le: "task_le r (r\<lparr>t_status := ''CANCELLED'', t_updated_at := u\<rparr>)" if "t_status r = ''QUEUED''"
    for r u
    using that by (simp add: task_le_def TERMINAL_STATUSES_def TASK_STATUS_ORDER_def)
  show ?thesis
    using Some
    by (auto simp: queue_cancel_txn_def Let_def intro!: lawful_andthen lawful_append_event
        lawful_tasks_update le)
qed

lemma lawful_cancel_queued_task: "lawful s (snd (cancel_queued_task e tid s))"
  unfolding cancel_queued_task_def
  by (intro lawful_andthen lawful_transact lawful_queue_cancel_txn)
    (simp split: prod.splits)

lemma failure_target_known:
  "failure_target c \<in> set TASK_STATUS_ORDER" "failure_target c \<noteq> ''QUEUED''"
  by (simp_all add: failure_target_def TASK_STATUS_ORDER_def)

lemma lawful_classify_failure: "lawful s (snd (classify_failure e tid c d s))"
proof (cases "get_task tid None s")
  case (Inl err)
  then show ?thesis by (simp add: classify_failure_def)
next
  case (Inr v)
  then obtain t where t: "task_row_of tid s = Some t" "t_status (tv_row v) = t_status t"
    using get_task_row by blast
  let ?s1 = "update_task_fields e tid
     (\<lambda>r. r\<lparr>t_failure_classification := c, t_failure_detail := d\<rparr>) s"
  have s1: "lawful s ?s1"
    by (rule lawful_update_task_fields) (auto simp: task_le_def)
  have s2: "lawful s (update_task_fields (later 1 e) tid (set_status (failure_target c)) ?s1)"
    if "t_status t \<notin> set TERMINAL_STATUSES"
  proof (rule lawful_update_task_fields [OF s1])
    fix r assume k: "keys_ok ?s1" and r: "r \<in> set (tasks ?s1)" "t_id r = tid"
    from k have d: "distinct (map t_id (tasks s))"
      by (auto simp: keys_ok_def update_task_fields_def map_sql_update)
    have hit: "q = t" if "q \<in> set (tasks s)" "t_id q = tid" for q
      by (rule task_hit [OF d t(1) that])
    obtain q where q: "q \<in> set (tasks s)" "t_id r = t_id q" "t_status r = t_status q"
      using sql_update_row [OF r(1) [unfolded update_task_fields_def, simplified]]
      by (force split: if_splits)
    with hit [of q] r(2) have "t_status r = t_status t"
      by simp
    with that show "task_le r ((set_status (failure_target c) r)\<lparr>t_updated_at := utc (later 1 e) 0\<rparr>)"
      by (intro status_move failure_target_known) simp
  qed
  show ?thesis
  proof (cases "t_status t \<in> set TERMINAL_STATUSES")
    case True
    then show ?thesis using Inr t(2) by (simp add: classify_failure_def)
  next
    case False
    then show ?thesis
      using Inr t(2) s1 s2 [OF False]
      unfolding classify_failure_def Let_def sum.case
      by (simp) (intro conjI impI lawful_andthen lawful_append_event; simp)
  qed
qed

lemma lawful_set_changed_files: "lawful s (snd (set_changed_files e tid fs s))"
  by (auto simp: set_changed_files_def replace_changed_files_def
      intro!: lawful_touch lawful_intros split: sum.splits)

lemma lawful_add_evidence: "lawful s (snd (add_evidence e tid i s))"
  by (auto simp: add_evidence_def intro!: lawful_touch lawful_intros split: sum.splits)

lemma lawful_set_validation_result: "lawful s (snd (set_validation_result e tid c x d s))"
  by (auto simp: set_validation_result_def task_le_def
      intro!: lawful_update_task_fields split: sum.splits)

lemma lawful_append_usage: "lawful s (snd (append_usage_observation e tid i s))"
  by (auto simp: append_usage_observation_def Let_def sql_insert_def list_ex_iff
      intro!: lawful_intros split: option.splits if_splits sum.splits)

end
