(* ===== verification/Run_Laws.thy ===== *)
theory Run_Laws
  imports Store_Laws
begin

text \<open>
  The operations on durable runs and the fenced mutations are lawful. The lemmas on updates of
  a run, on the fence and on the event appended with a write carry the proofs.
\<close>

section \<open>Runs\<close>

lemma lawful_update_run:
  assumes "lawful s s1"
    and "\<And>r. keys_ok s1 \<Longrightarrow> r \<in> set (durable_runs s1) \<Longrightarrow> dr_run_id r = rid \<Longrightarrow> run_le r (f r)"
  shows "lawful s (update_run rid f s1)"
  unfolding update_run_def by (rule lawful_runs_update) (use assms in auto)

lemma lawful_atomic_fenced_update:
  assumes "\<And>r. run_le r (f r)"
  shows "lawful s (snd (atomic_fenced_update rid owner epoch f b s))"
  using assms by (auto simp: atomic_fenced_update_def intro!: lawful_update_run split: option.splits)

lemma lawful_fenced_run_update:
  assumes "\<And>r. run_le r (f r)"
  shows "lawful s (snd (fenced_run_update rid owner epoch f s))"
  unfolding fenced_run_update_def
  by (intro lawful_andthen lawful_atomic_fenced_update assms) simp

lemma lawful_run_setters:
  "lawful s (snd (set_planner_handoff_digest e rid d ow ep s))"
  "lawful s (snd (set_coder_product_diff_digest e rid d ow ep s))"
  "lawful s (snd (set_reviewer_handoff_digest e rid d ow ep s))"
  "lawful s (snd (set_role_attempt e rid role n ow ep s))"
  "lawful s (snd (set_recovery_classification e rid c ow ep s))"
  "lawful s (snd (set_run_validation_result e rid c x d ow ep s))"
  "lawful s (snd (set_worktree_identity e rid path h ow ep s))"
  "lawful s (snd (set_authority_identity e rid a pl ow ep s))"
  "lawful s (snd (set_partial_coder_diff_digest e rid d ow ep s))"
  "lawful s (snd (set_checkpoint_db_path e rid path ow ep s))"
  unfolding set_planner_handoff_digest_def set_coder_product_diff_digest_def
    set_reviewer_handoff_digest_def set_role_attempt_def set_recovery_classification_def
    set_run_validation_result_def set_worktree_identity_def set_authority_identity_def
    set_partial_coder_diff_digest_def set_checkpoint_db_path_def
  by (rule lawful_fenced_run_update, simp add: run_le_def)+

lemma lawful_heartbeat: "lawful s (snd (heartbeat_durable_lease e rid ow ep x s))"
  by (auto simp: heartbeat_durable_lease_def run_le_def intro!: lawful_update_run split: sum.splits)

lemma lawful_release: "lawful s (snd (release_durable_lease e rid ow ep s))"
  by (auto simp: release_durable_lease_def Let_def run_le_def
      intro!: lawful_runs_update split: option.splits)

lemma lawful_set_base_sha: "lawful s (snd (set_repository_base_sha e rid sha ow ep s))"
proof (cases "run_row_of rid s")
  case None
  then show ?thesis by (simp add: set_repository_base_sha_def)
next
  case (Some a)
  have "run_le r (r\<lparr>dr_repository_base_sha := sha, dr_updated_at := u\<rparr>)"
    if "dr_repository_base_sha r = ''''" for r u
    using that by (simp add: run_le_def)
  then show ?thesis
    using Some by (auto simp: set_repository_base_sha_def
        intro!: lawful_update_run dest!: run_key run_hit)
qed

lemma fenced_validate_row:
  "fenced_validate_lease rid ow ep s = Inr r \<Longrightarrow> run_row_of rid s = Some r \<and> holds_lease r ow ep"
  by (auto simp: fenced_validate_lease_def split: option.splits if_splits)

lemma lawful_insert_checkpoint:
  assumes "run_row_of rid s = Some a" "checkpoint_rank (dr_accepted_checkpoint a) \<le> checkpoint_rank name"
  shows "lawful s (snd (insert_checkpoint e rid name d n s))"
  unfolding insert_checkpoint_def Let_def snd_conv
proof (rule lawful_update_run)
  let ?cp = "\<lparr>cp_checkpoint_id = ''cp-'' @ rid @ ''-'' @ uuid e 0, cp_run_id = rid,
      cp_checkpoint_name = name, cp_artifact_digest = d, cp_role_attempt = n,
      cp_created_at = utc e 0\<rparr>"
  let ?s1 = "s\<lparr>checkpoint_history := checkpoint_history s @ [?cp]\<rparr>"
  show "lawful s ?s1" by (intro lawful_intros) simp_all
  fix r assume "keys_ok ?s1" "r \<in> set (durable_runs ?s1)" "dr_run_id r = rid"
  then have "r = a"
    using run_hit [OF _ assms(1)] by (simp add: keys_ok_def)
  with assms(2) show "run_le r (r\<lparr>dr_accepted_checkpoint := name,
      dr_current_role := checkpoint_to_role name, dr_updated_at := utc e 1\<rparr>)"
    by (simp add: run_le_def)
qed

lemma lawful_accept_checkpoint: "lawful s (snd (accept_checkpoint e rid name d n ow ep s))"
proof (cases "fenced_validate_lease rid ow ep s")
  case (Inl err)
  then show ?thesis by (simp add: accept_checkpoint_def)
next
  case (Inr r)
  then have "run_row_of rid s = Some r"
    by (simp add: fenced_validate_row)
  from lawful_insert_checkpoint [OF this] Inr show ?thesis
    by (auto simp: accept_checkpoint_def Let_def split: option.splits)
qed

lemma live_not_terminal: "st \<in> set LIVE_STATUSES \<Longrightarrow> st \<notin> set TERMINAL_STATUSES"
  by (auto simp: LIVE_STATUSES_def TERMINAL_STATUSES_def)

lemma lease_move:
  assumes "t_status t \<notin> set TERMINAL_STATUSES" "st \<in> {''PREPARING_WORKSPACE'', ''RUNNING'', ''INTERRUPTED''}"
  shows "task_le t (t\<lparr>t_status := st, t_updated_at := u\<rparr>)"
  using assms by (auto simp: task_le_def TASK_STATUS_ORDER_def)

text \<open>Acquisition through the service: the task is queued or live when the lease is written.\<close>

lemma lawful_acquire_durable_lease:
  assumes "\<And>t. task_row_of (aq_task_id q) s = Some t \<Longrightarrow> status_guard q t = None
             \<Longrightarrow> t_status t \<notin> set TERMINAL_STATUSES"
  shows "lawful s (snd (acquire_durable_lease e q s))"
proof -
  have "lawful s (snd (acquire_lease_txn e q s))"
  proof (cases "task_row_of (aq_task_id q) s")
    case None
    then show ?thesis by (simp add: acquire_lease_txn_def)
  next
    case (Some t)
    have le: "task_le r (r\<lparr>t_status := ''PREPARING_WORKSPACE'', t_updated_at := u\<rparr>)"
      if "status_guard q t = None" "keys_ok s" "r \<in> set (tasks s)" "t_id r = aq_task_id q" for r u
      using assms [OF Some that(1)] task_hit [OF task_key [OF that(2)] Some that(3,4)]
      by (simp add: lease_move)
    show ?thesis
      using Some le
      by (auto simp: acquire_lease_txn_def Let_def sql_insert_def list_ex_iff run_ok_def
          new_run_row_def keys_ok_def intro!: lawful_intros)
  qed
  then show ?thesis
    unfolding acquire_durable_lease_def by (intro lawful_andthen lawful_transact) auto
qed

lemma lawful_acquire: "lawful s (snd (acquire_or_find_lease e tid ow x au pl s))"
proof (cases "get_task tid None s")
  case (Inl err)
  then show ?thesis by (simp add: acquire_or_find_lease_def)
next
  case (Inr v)
  then show ?thesis
    by (auto simp: acquire_or_find_lease_def status_guard_def LIVE_STATUSES_def
        TERMINAL_STATUSES_def intro!: lawful_acquire_durable_lease split: if_splits)
qed

lemma acquire_error_keeps: "acquire_or_find_lease e tid ow x au pl s = (Inl err, s') \<Longrightarrow> s' = s"
  by (auto simp: acquire_or_find_lease_def acquire_durable_lease_def andthen_def
      transact_def split: sum.splits prod.splits)

section \<open>Recovery\<close>

lemma lawful_recover: "lawful s (snd (recover_durable_lease e rid ow x req s))"
proof -
  have "lawful s (snd (recover_lease_txn e rid ow x req s))"
  proof (cases "run_row_of rid s")
    case None
    then show ?thesis by (simp add: recover_lease_txn_def)
  next
    case (Some r)
    have run: "run_le q (q\<lparr>dr_lease_owner := ow, dr_lease_epoch := dr_lease_epoch r + 1,
        dr_heartbeat_at_ms := h, dr_lease_expiry_ms := y, dr_updated_at := u\<rparr>)"
      if "dr_lease_epoch q = dr_lease_epoch r" for q h y u
      using that by (simp add: run_le_def)
    have task: "task_le t (t\<lparr>t_status := ''RUNNING'', t_updated_at := u\<rparr>)"
      if "t_status t = ''INTERRUPTED''" for t u
      using that by (simp add: lease_move TERMINAL_STATUSES_def)
    show ?thesis
    proof (cases "task_row_of (dr_task_id r) s")
      case None
      with Some show ?thesis by (simp add: recover_lease_txn_def)
    next
      case (Some t)
      with \<open>run_row_of rid s = Some r\<close> show ?thesis
        unfolding recover_lease_txn_def Let_def
        by (auto intro!: lawful_intros run task)
    qed
  qed
  then show ?thesis
    unfolding recover_durable_lease_def by (intro lawful_andthen lawful_transact) auto
qed

section \<open>The journal and the reconciler\<close>

lemma lawful_record_extop: "lawful s (snd (record_external_operation e ok k d rid tid ow ep s))"
  unfolding record_external_operation_def
  by (rule lawful_transact) (auto simp: record_external_operation_txn_def Let_def sql_insert_def
      list_ex_iff intro!: lawful_intros split: option.splits)

lemma lawful_reconcile_extop: "lawful s (snd (reconcile_external_operation e oid x r rid ow ep s))"
  by (auto simp: reconcile_external_operation_def Let_def extop_le_def
      intro!: lawful_intros split: option.splits)

lemma lawful_reconcile_one: "lawful s (snd (reconcile_one e now c s))"
proof -
  have task: "task_le t (t\<lparr>t_status := ''INTERRUPTED'', t_updated_at := u\<rparr>)"
    if "t_status t \<in> set LIVE_STATUSES" for t u
    using live_not_terminal [OF that] by (simp add: lease_move)
  have run: "run_le r (r\<lparr>dr_recovery_classification := c, dr_lease_owner := '''',
      dr_interrupted_at := x, dr_updated_at := y\<rparr>)" for r c x y
    by (simp add: run_le_def)
  show ?thesis
    by (auto simp: reconcile_one_def Let_def intro!: lawful_intros task run
        split: option.splits)
qed

lemma lawful_reconcile_all: "lawful s (snd (reconcile_all e now cs s))"
proof (induction cs arbitrary: e s)
  case Nil
  then show ?case by simp
next
  case (Cons c cs)
  show ?case
    using lawful_trans [OF lawful_reconcile_one [of s e now c] Cons.IH]
    by (simp add: split_def Let_def)
qed

lemma lawful_reconcile: "lawful s (snd (reconcile_expired_runs e now s))"
  by (simp add: reconcile_expired_runs_def lawful_reconcile_all)

section \<open>Fenced mutations of tasks\<close>

lemma lawful_fenced:
  assumes "\<And>r. run_row_of rid s = Some r \<Longrightarrow> lawful s (snd (body r s))"
  shows "lawful s (snd (fenced rid ow ep p body s))"
  unfolding fenced_def
  by (rule lawful_transact) (use assms in \<open>auto split: sum.splits dest: fenced_validate_row\<close>)

lemma lawful_touch_task [lawful_intros]:
  "lawful s s1 \<Longrightarrow> lawful s (touch_task e k tid s1)"
  unfolding touch_task_def by (rule lawful_tasks_update) (auto simp: task_le_def)

lemma lawful_return: "lawful s (snd (return_task tid l s))"
  by simp

lemma lawful_write_status:
  assumes "task_row_of tid s = Some t" "st \<in> set (transition_rules (t_status t))"
  shows "lawful s (write_status e tid st s)"
  unfolding write_status_def
proof (rule lawful_tasks_update)
  fix r assume "keys_ok s" "r \<in> set (tasks s)" "t_id r = tid"
  then have "r = t" by (intro task_hit [OF task_key assms(1)])
  then show "task_le r (r\<lparr>t_status := st, t_updated_at := utc e 0\<rparr>)"
    using rules_known [OF assms(2)] rules_terminal [OF assms(2)] by (simp add: task_le_def)
qed simp_all

lemma lawful_fenced_transition: "lawful s (snd (fenced_transition_to e rid tid st ow ep s))"
  unfolding fenced_transition_to_def
  by (intro lawful_andthen lawful_fenced lawful_return)
    (auto simp: Let_def intro: lawful_write_status split: option.splits)

lemma lawful_fenced_tables:
  "lawful s (snd (fenced_set_changed_files e rid tid fs ow ep s))"
  "lawful s (snd (fenced_add_event e rid tid ty ti d l m ow ep s))"
  "lawful s (snd (fenced_add_evidence e rid tid i ow ep s))"
  "lawful s (snd (fenced_set_task_validation e rid tid c x dg ow ep s))"
  unfolding fenced_set_changed_files_def fenced_add_event_def fenced_add_evidence_def
    fenced_set_task_validation_def Let_def replace_changed_files_def
  by (intro lawful_andthen lawful_fenced lawful_return; unfold snd_conv;
      intro lawful_intros lawful_refl; simp add: task_le_def)+

lemma lawful_fenced_usage:
  "lawful s (snd (fenced_append_usage_observation e rid tid i ow ep s))"
  "lawful s (snd (fenced_active_usage_budget_snapshot rid tid ow ep s))"
  "lawful s (snd (fenced_active_usage_reservation rid tid ow ep s))"
  unfolding fenced_append_usage_observation_def fenced_active_usage_budget_snapshot_def
    fenced_active_usage_reservation_def
  by (rule lawful_fenced, simp add: lawful_append_usage)+

lemma failure_move:
  "t_status t \<notin> set TERMINAL_STATUSES \<Longrightarrow>
   task_le t (t\<lparr>t_failure_classification := c, t_failure_detail := d,
     t_status := failure_target k, t_updated_at := u\<rparr>)"
  using failure_target_known [of k] by (simp add: task_le_def)

lemma terminal_known: "set TERMINAL_STATUSES \<subseteq> set TASK_STATUS_ORDER - {''QUEUED''}"
  by (auto simp: TERMINAL_STATUSES_def TASK_STATUS_ORDER_def)

lemma lawful_fenced_classify: "lawful s (snd (fenced_classify_failure e rid tid c d ow ep s))"
  unfolding fenced_classify_failure_def
proof (intro lawful_andthen lawful_fenced lawful_return, split option.split, intro conjI impI allI)
  show "lawful s (snd (Inl (TaskStoreError (''task_not_found:'' @ tid)), s))" by simp
  fix t assume t: "task_row_of tid s = Some t"
  show "lawful s (snd (if t_status t \<in> set TERMINAL_STATUSES
      then (Inl (TaskStoreError (''terminal_status:'' @ t_status t)), s)
      else (Inr (), s\<lparr>tasks := sql_update (\<lambda>r. t_id r = tid)
              (\<lambda>r. r\<lparr>t_failure_classification := c, t_failure_detail := d,
                     t_status := failure_target c, t_updated_at := utc e 0\<rparr>) (tasks s),
              task_events := task_events s @ [failure_event e tid c d]\<rparr>)))"
    using t by (auto intro!: lawful_intros failure_move dest!: task_key task_hit)
qed

lemma terminal_move:
  "t_status t \<notin> set TERMINAL_STATUSES \<Longrightarrow> tm_status i \<in> set TERMINAL_STATUSES \<Longrightarrow>
   task_le t (t\<lparr>t_validation_command_id := tm_command_id i,
     t_validation_exit_code := Some (tm_exit_code i),
     t_validation_output_digest := tm_output_digest i,
     t_failure_classification := tm_failure_classification i,
     t_failure_detail := tm_failure_detail i, t_status := tm_status i, t_updated_at := u\<rparr>)"
  using terminal_known by (auto simp: task_le_def)

lemma lawful_fenced_terminalize: "lawful s (snd (fenced_terminalize e rid tid i ow ep s))"
  unfolding fenced_terminalize_def
  by (intro lawful_andthen lawful_fenced lawful_return)
    (auto split: option.split intro!: lawful_intros terminal_move dest!: task_key task_hit)

end
