(* ===== verification/Control_Laws.thy ===== *)
theory Control_Laws
  imports Store_Laws
begin

text \<open>
  Every operation of \<open>PlatformControlStore\<close>, and the inbox promotion above it, is lawful.
\<close>

section \<open>Goals\<close>

lemma snd_return_goal [simp]: "snd (return_goal gid s) = s"
  by (simp add: return_goal_def)

lemma lawful_create_goal: "lawful s (snd (create_goal e q s))"
  by (auto simp: create_goal_def sql_insert_def list_ex_iff goal_ok_def new_goal_row_def fresh_id_def
      intro!: lawful_intros split: option.splits if_splits)

lemma lawful_goal_update:
  assumes "\<And>g. guard g \<Longrightarrow> goal_le g (f g)"
  shows "lawful s (snd (goal_update gid guard f err s))"
  unfolding goal_update_def Let_def
  by (auto intro!: lawful_intros assms)

lemma lawful_save_goal_plan: "lawful s (snd (save_goal_plan e gid n sp pl ts cr s))"
  by (auto simp: save_goal_plan_def Let_def goal_le_def plan_frozen_def
      intro!: lawful_goal_update split: option.splits)

lemma lawful_approve_goal: "lawful s (snd (approve_goal e gid n p s))"
  by (auto simp: approve_goal_def goal_le_def plan_frozen_def intro!: lawful_goal_update)

lemma lawful_amend_goal: "lawful s (snd (amend_goal e gid n ob s))"
  by (auto simp: amend_goal_def goal_le_def intro!: lawful_goal_update)

lemma lawful_mark_goal_running: "lawful s (snd (mark_goal_running e gid n wid s))"
  by (auto simp: mark_goal_running_def goal_le_def plan_frozen_def intro!: lawful_goal_update)

lemma lawful_link_goal_task: "lawful s (snd (link_goal_task gid n p tid ds q s))"
  by (auto simp: link_goal_task_def Let_def sql_insert_def list_ex_iff
      intro!: lawful_intros split: if_splits)

lemma derived_not_draft: "derived_goal_status sts \<notin> {''DRAFT'', ''PLANNED''}"
  by (simp add: derived_goal_status_def)

lemma lawful_refresh_goal_status: "lawful s (snd (refresh_goal_status e gid s))"
proof -
  have "goal_le g (g\<lparr>g_status := derived_goal_status sts, g_updated_at := u\<rparr>)" for g sts u
    using derived_not_draft [of sts] by (auto simp: goal_le_def plan_frozen_def)
  then show ?thesis
    by (auto simp: refresh_goal_status_def Let_def intro!: lawful_intros)
qed

section \<open>Windows\<close>

lemma lawful_activate_window: "lawful s (snd (activate_window e p c s))"
proof -
  have "(w_policy_id (new_window_row e p), w_policy_revision (new_window_row e p))
      = (wp_policy_id p, wp_policy_revision p)"
    by (simp add: new_window_row_def)
  then show ?thesis
    by (auto simp: activate_window_def Let_def sql_insert_def list_ex_iff
        intro!: lawful_intros split: option.splits if_splits)
qed

lemma expire_le: "window_le w (expire_window e k w)"
  by (simp add: window_le_def expire_window_def)

lemma lawful_active_window: "lawful s (snd (active_window e now s))"
  by (auto simp: active_window_def Let_def intro!: lawful_intros expire_le)

lemma lawful_stop_window: "lawful s (snd (stop_window e wid r s))"
  by (auto simp: stop_window_def Let_def window_le_def intro!: lawful_intros)

section \<open>Claims\<close>

lemma claim_hit:
  "distinct (map cl_task_id (claims s)) \<Longrightarrow> claim_row_of tid s = Some a
   \<Longrightarrow> r \<in> set (claims s) \<Longrightarrow> cl_task_id r = tid \<Longrightarrow> r = a"
  by (rule key_unique [of cl_task_id "claims s" tid]) (auto simp: claim_row_of_def)

lemma lawful_write_claim:
  "lawful s (snd (write_claim e wid tid ow (next_epoch tid s) x s))"
proof (cases "claim_row_of tid s")
  case None
  then have "cl_task_id c \<noteq> tid" if "c \<in> set (claims s)" for c
    using that by (auto simp: claim_row_of_def find_None_iff)
  with None show ?thesis
    by (auto simp: write_claim_def next_epoch_def sql_insert_def list_ex_iff claim_ok_def
        intro!: lawful_intros)
next
  case (Some a)
  have "claim_le c (c\<lparr>cl_window_id := wid, cl_owner := ow, cl_epoch := next_epoch tid s,
      cl_expires_at_ms := x, cl_status := ''ACTIVE'', cl_updated_at := u\<rparr>)"
    if "keys_ok s" "c \<in> set (claims s)" "cl_task_id c = tid" for c u
    using claim_hit [of s tid a c] Some that by (simp add: keys_ok_def claim_le_def next_epoch_def)
  with Some show ?thesis
    by (auto simp: write_claim_def intro!: lawful_intros)
qed

lemma reservation_key:
  "keys_ok s \<Longrightarrow> distinct (map (\<lambda>r. (br_task_id r, br_claim_epoch r)) (reservations s))"
  by (simp add: keys_ok_def)

text \<open>Moving one reservation to an epoch its task does not use keeps the primary key.\<close>

lemma distinct_rekey:
  assumes "distinct (map k t)" and "\<And>r. r \<in> set t \<Longrightarrow> k r \<noteq> new"
    and "\<And>r. p r \<Longrightarrow> k r = old" and "\<And>r. p r \<Longrightarrow> k (f r) = new"
  shows "distinct (map k (sql_update p f t))"
  using assms(1,2)
proof (induction t)
  case Nil
  then show ?case by (simp add: table_simps)
next
  case (Cons r t)
  have tail: "distinct (map k (sql_update p f t))"
    using Cons by simp
  show ?case
  proof (cases "p r")
    case True
    then have "\<not> p q" if "q \<in> set t" for q
      using Cons.prems(1) assms(3) that by force
    then have "sql_update p f t = t"
      by (rule sql_update_none)
    with True Cons.prems show ?thesis
      by (auto simp: table_simps assms(4))
  next
    case False
    have "k r \<notin> k ` set (sql_update p f t)"
      using Cons.prems assms(4) by (auto simp: set_sql_update split: if_splits)
    with False tail show ?thesis by (simp add: table_simps)
  qed
qed

lemma lawful_write_reservation: "lawful s (snd (write_reservation e w tid ep s))"
proof -
  let ?hit = "\<lambda>r x. br_task_id x = tid \<and> br_claim_epoch x = br_claim_epoch r \<and> br_state x = ''ACTIVE''"
  let ?f = "\<lambda>x. x\<lparr>br_claim_epoch := ep, br_updated_at := utc e 3\<rparr>"
  have rekey: "distinct (map (\<lambda>r. (br_task_id r, br_claim_epoch r)) (sql_update (?hit r) ?f (reservations s)))"
    if "keys_ok s" "\<not> list_ex (\<lambda>x. br_task_id x = tid \<and> br_claim_epoch x = ep) (reservations s)" for r
    by (rule distinct_rekey [where new = "(tid, ep)" and old = "(tid, br_claim_epoch r)"])
      (use that in \<open>auto simp: reservation_key list_ex_iff\<close>)
  have moved: "lawful s (s\<lparr>reservations := sql_update (?hit r) ?f (reservations s)\<rparr>)"
    if "\<not> list_ex (\<lambda>x. br_task_id x = tid \<and> br_claim_epoch x = ep) (reservations s)" for r
    by (rule lawful_reservations_update) (use rekey that in \<open>auto simp: reservation_le_def\<close>)
  show ?thesis
  proof (cases "open_reservation tid (w_id w) s")
    case None
    then show ?thesis
      by (auto simp: write_reservation_def Let_def sql_insert_def list_ex_iff
          intro!: lawful_intros)
  next
    case (Some r)
    then show ?thesis
      using moved [of r] by (simp add: write_reservation_def Let_def)
  qed
qed

lemma charge_le:
  "window_le w (if b then w\<lparr>w_retries_used := w_retries_used w + 1, w_updated_at := u\<rparr>
                else w\<lparr>w_tasks_started := w_tasks_started w + 1, w_updated_at := u\<rparr>)"
  by (simp add: window_le_def)

lemma lawful_charge_attempt: "lawful s s1 \<Longrightarrow> lawful s (charge_attempt e wid b s1)"
  unfolding charge_attempt_def by (intro lawful_windows_update charge_le) simp_all

lemma lawful_claim_task: "lawful s (snd (claim_task e wid tid ow l s))"
proof -
  have "lawful s (snd (claim_task_txn e wid tid ow l s))"
  proof (cases "window_row_of wid s")
    case None
    then show ?thesis by (simp add: claim_task_txn_def Let_def)
  next
    case (Some w)
    have claimed: "lawful s (snd (andthen (write_claim e wid tid ow (next_epoch tid s) x s) (\<lambda>_ s1.
        andthen (write_reservation e w tid (next_epoch tid s) s1) (\<lambda>_ s2.
        (Inr (next_epoch tid s), charge_attempt e wid b s2)))))" for x b
      by (intro lawful_andthen lawful_write_claim lawful_write_reservation)
        (simp add: lawful_charge_attempt)
    have expired: "lawful s (s\<lparr>windows := sql_update (\<lambda>x. w_id x = wid) (expire_window e 1) (windows s)\<rparr>)"
      by (intro lawful_windows_update expire_le) simp_all
    show ?thesis
      using Some claimed expired unfolding claim_task_txn_def Let_def
      by (auto split: option.splits)
  qed
  then show ?thesis
    unfolding claim_task_def by (intro lawful_andthen lawful_transact) auto
qed

text \<open>Charging appends one row per observation, or fails on one that is charged already.\<close>

lemma insert_charges_rows:
  "insert_charges e wid tid ep us cs = Inr cs' \<Longrightarrow>
   \<exists>rs. cs' = cs @ rs \<and> map uc_observation_id rs = map uo_id us
     \<and> (\<forall>r \<in> set rs. uc_window_id r = wid \<and> uc_task_id r = tid \<and> uc_claim_epoch r = ep)
     \<and> (distinct (map uc_observation_id cs) \<longrightarrow> distinct (map uc_observation_id cs'))"
proof (induction us arbitrary: e cs)
  case Nil
  then show ?case by simp
next
  case (Cons u us)
  let ?r = "\<lparr>uc_observation_id = uo_id u, uc_window_id = wid, uc_task_id = tid,
             uc_claim_epoch = ep, uc_charged_at = utc e 0\<rparr>"
  from Cons.prems have new: "\<not> list_ex (\<lambda>c. uo_id u = uc_observation_id c) cs"
    and rest: "insert_charges (later 1 e) wid tid ep us (cs @ [?r]) = Inr cs'"
    by (auto simp: sql_insert_def split: if_splits)
  from Cons.IH [OF rest] obtain rs where
    rs: "cs' = (cs @ [?r]) @ rs" "map uc_observation_id rs = map uo_id us"
      "\<forall>r \<in> set rs. uc_window_id r = wid \<and> uc_task_id r = tid \<and> uc_claim_epoch r = ep"
      "distinct (map uc_observation_id (cs @ [?r])) \<longrightarrow> distinct (map uc_observation_id cs')"
    by blast
  have "distinct (map uc_observation_id cs) \<longrightarrow> distinct (map uc_observation_id (cs @ [?r]))"
    using new by (auto simp: list_ex_iff)
  with rs show ?case
    by (intro exI [of _ "?r # rs"]) auto
qed

lemma settle_le: "0 \<le> ur_unknown_count u \<Longrightarrow> window_le w (settle_window e b ov u w)"
  by (auto simp: settle_window_def Let_def window_le_def)

lemma unknown_count_nonneg: "0 \<le> ur_unknown_count (settle_usage k obs)"
  by (simp add: settle_usage_def Let_def)

lemma lawful_finalize:
  assumes "st \<in> {''COMPLETE'', ''FAILED''}"
  shows "lawful s (snd (finalize_claim_txn e wid tid ow ep st b s))"
proof (cases "insert_charges (later 10 e) wid tid ep (uncharged tid wid s) (usage_charges s)")
  case (Inl err)
  then show ?thesis
    by (auto simp: finalize_claim_txn_def Let_def split: option.splits)
next
  case (Inr cs)
  then obtain rs where rs: "cs = usage_charges s @ rs"
    and d: "distinct (map uc_observation_id (usage_charges s))
              \<longrightarrow> distinct (map uc_observation_id (usage_charges s @ rs))"
    using insert_charges_rows by metis
  have charges: "lawful s (s\<lparr>usage_charges := cs\<rparr>)"
    unfolding rs by (intro lawful_control_inserts(7)) (use d in \<open>auto simp: keys_ok_def\<close>)
  have claim: "claim_le c (c\<lparr>cl_status := st, cl_updated_at := u\<rparr>)"
    if "cl_status c = ''ACTIVE''" for c u
    using that assms by (auto simp: claim_le_def)
  have key: "distinct (map (\<lambda>r. (br_task_id r, br_claim_epoch r)) (sql_update p f (reservations s)))"
    if "keys_ok s1" "reservations s1 = reservations s"
      "\<And>r. br_task_id (f r) = br_task_id r \<and> br_claim_epoch (f r) = br_claim_epoch r" for p f s1
    using that reservation_key [of s1] by (simp add: map_sql_update)
  show ?thesis
    using Inr charges unfolding finalize_claim_txn_def Let_def
    by (auto split: option.splits
        intro!: lawful_windows_update lawful_claims_update lawful_reservations_update
          claim key settle_le unknown_count_nonneg simp: reservation_le_def)
qed

lemma lawful_finalize_task_claim: "lawful s (snd (finalize_task_claim e wid tid ow ep st b s))"
  by (auto simp: finalize_task_claim_def intro: lawful_transact lawful_finalize)

lemma lawful_append_receipt: "lawful s (snd (append_receipt e wid i s))"
  by (auto simp: append_receipt_def sql_insert_def list_ex_iff
      intro!: lawful_intros split: option.splits sum.splits if_splits)

lemma lawful_close_claim: "lawful s (snd (close_claim e wid tid ow ep st b r x s))"
  unfolding close_claim_def
  by (intro lawful_andthen lawful_finalize_task_claim)
    (auto split: sum.splits intro!: lawful_andthen lawful_append_receipt)

section \<open>Publications, inbox, roadmap\<close>

lemma lawful_upsert_publication: "lawful s (snd (upsert_publication e tid i s))"
proof -
  have row: "publication_le p (p\<lparr>pb_status := a, pb_commit_sha := b, pb_pr_number := c,
      pb_pr_url := d, pb_failure_classification := f, pb_updated_at := u\<rparr>)" for p a b c d f u
    by (simp add: publication_le_def)
  have new: "pb_task_id (new_publication_row e tid i) = tid"
    by (simp add: new_publication_row_def)
  show ?thesis
    using new unfolding upsert_publication_def
    by (auto simp: sql_insert_def list_ex_iff get_publication_def
        intro!: lawful_andthen lawful_intros row split: option.splits if_splits)
qed

lemma lawful_capture: "lawful s (snd (capture_inbox_item e t ob r s))"
  by (auto simp: capture_inbox_item_def Let_def sql_insert_def list_ex_iff
      intro!: lawful_intros split: option.splits if_splits)

lemma lawful_mark_promoted: "lawful s (snd (mark_inbox_item_promoted e iid gid s))"
  by (auto simp: mark_inbox_item_promoted_def Let_def inbox_le_def
      intro!: lawful_intros split: sum.splits)

lemma lawful_dismiss: "lawful s (snd (dismiss_inbox_item e iid s))"
  by (auto simp: dismiss_inbox_item_def Let_def inbox_le_def
      intro!: lawful_intros split: sum.splits)

lemma lawful_promote: "lawful s (snd (promote_inbox_item e iid s))"
proof -
  have "lawful s (snd (andthen (create_goal e q s) (\<lambda>g s1.
      if g_status g \<noteq> ''DRAFT'' then (Inl (TaskStoreError ''inbox_promotion_goal_not_draft''), s1)
      else andthen (mark_inbox_item_promoted (later 1 e) iid (g_id g) s1) (\<lambda>i' s2.
             (map_sum id (Pair i') (get_goal (g_id g) s2), s2)))))" for q
    by (intro lawful_andthen lawful_create_goal)
      (auto intro!: lawful_andthen lawful_mark_promoted)
  then show ?thesis
    by (auto simp: promote_inbox_item_def split: sum.splits)
qed

lemma lawful_create_phase: "lawful s (snd (create_roadmap_phase e t n d s))"
  by (auto simp: create_roadmap_phase_def Let_def sql_insert_def list_ex_iff
      intro!: lawful_intros split: option.splits if_splits)

lemma lawful_attach: "lawful s (snd (attach_goal_to_phase e pid gid s))"
  by (auto simp: attach_goal_to_phase_def intro!: lawful_intros split: sum.splits)

lemma lawful_detach: "lawful s (snd (detach_goal_from_phase pid gid s))"
  by (auto simp: detach_goal_from_phase_def Let_def intro!: lawful_intros)

end
