(* ===== verification/Operations.thy ===== *)
theory Operations
  imports Run_Laws Control_Laws
begin

text \<open>
  The two stores as one transition system. The calls a client can make are values, so an
  interleaving of clients is a list of calls; \<open>db_step\<close> relates the database before and after
  one call and \<open>reachable\<close> holds of the databases that a sequence of calls produces from a new
  file. \<open>TaskStore.set_state\<close>, which overwrites a status unconditionally and has no caller, is
  not a call here.
\<close>

section \<open>Calls\<close>

text \<open>A result with its value dropped: whether the call raised, and the new database.\<close>

definition unit_step :: "'a step \<Rightarrow> unit step" where
  "unit_step r = (map_sum id (\<lambda>_. ()) (fst r), snd r)"

lemma snd_unit_step [simp]: "snd (unit_step r) = snd r"
  by (simp add: unit_step_def)

text \<open>The calls that carry a run id, an owner and an epoch.\<close>

datatype fenced_call =
    FTransition string string
  | FChangedFiles string "file_change list"
  | FEvent string string string string string "json option"
  | FEvidence string evidence_input
  | FUsage string usage_input
  | FSnapshot string
  | FReservation string
  | FClassify string string string
  | FValidation string string int string
  | FTerminalize string terminal_input
  | FPlannerDigest string
  | FCoderDigest string
  | FReviewerDigest string
  | FRoleAttempt string int
  | FRecoveryClass string
  | FRunValidation string int string
  | FWorktree string string
  | FAuthority string string
  | FPartialDigest string
  | FCheckpointDb string
  | FHeartbeat int
  | FRelease
  | FBaseSha string
  | FCheckpoint string string int
  | FRecordOp string string string string
  | FReconcileOp string string string

fun run_fenced :: "env \<Rightarrow> string \<Rightarrow> string \<Rightarrow> int \<Rightarrow> fenced_call \<Rightarrow> db \<Rightarrow> unit step" where
  "run_fenced e rid ow ep (FTransition tid st) s = unit_step (fenced_transition_to e rid tid st ow ep s)"
| "run_fenced e rid ow ep (FChangedFiles tid fs) s =
     unit_step (fenced_set_changed_files e rid tid fs ow ep s)"
| "run_fenced e rid ow ep (FEvent tid ty ti d l m) s =
     unit_step (fenced_add_event e rid tid ty ti d l m ow ep s)"
| "run_fenced e rid ow ep (FEvidence tid i) s = unit_step (fenced_add_evidence e rid tid i ow ep s)"
| "run_fenced e rid ow ep (FUsage tid i) s =
     unit_step (fenced_append_usage_observation e rid tid i ow ep s)"
| "run_fenced e rid ow ep (FSnapshot tid) s =
     unit_step (fenced_active_usage_budget_snapshot rid tid ow ep s)"
| "run_fenced e rid ow ep (FReservation tid) s =
     unit_step (fenced_active_usage_reservation rid tid ow ep s)"
| "run_fenced e rid ow ep (FClassify tid c d) s =
     unit_step (fenced_classify_failure e rid tid c d ow ep s)"
| "run_fenced e rid ow ep (FValidation tid c x d) s =
     unit_step (fenced_set_task_validation e rid tid c x d ow ep s)"
| "run_fenced e rid ow ep (FTerminalize tid i) s = unit_step (fenced_terminalize e rid tid i ow ep s)"
| "run_fenced e rid ow ep (FPlannerDigest d) s = set_planner_handoff_digest e rid d ow ep s"
| "run_fenced e rid ow ep (FCoderDigest d) s = set_coder_product_diff_digest e rid d ow ep s"
| "run_fenced e rid ow ep (FReviewerDigest d) s = set_reviewer_handoff_digest e rid d ow ep s"
| "run_fenced e rid ow ep (FRoleAttempt r n) s = set_role_attempt e rid r n ow ep s"
| "run_fenced e rid ow ep (FRecoveryClass c) s = set_recovery_classification e rid c ow ep s"
| "run_fenced e rid ow ep (FRunValidation c x d) s = set_run_validation_result e rid c x d ow ep s"
| "run_fenced e rid ow ep (FWorktree p h) s = set_worktree_identity e rid p h ow ep s"
| "run_fenced e rid ow ep (FAuthority a p) s = set_authority_identity e rid a p ow ep s"
| "run_fenced e rid ow ep (FPartialDigest d) s = set_partial_coder_diff_digest e rid d ow ep s"
| "run_fenced e rid ow ep (FCheckpointDb p) s = set_checkpoint_db_path e rid p ow ep s"
| "run_fenced e rid ow ep (FHeartbeat x) s = heartbeat_durable_lease e rid ow ep x s"
| "run_fenced e rid ow ep FRelease s = release_durable_lease e rid ow ep s"
| "run_fenced e rid ow ep (FBaseSha h) s = set_repository_base_sha e rid h ow ep s"
| "run_fenced e rid ow ep (FCheckpoint n d a) s = unit_step (accept_checkpoint e rid n d a ow ep s)"
| "run_fenced e rid ow ep (FRecordOp ok k d tid) s =
     unit_step (record_external_operation e ok k d rid tid ow ep s)"
| "run_fenced e rid ow ep (FReconcileOp oid x r) s =
     unit_step (reconcile_external_operation e oid x r rid ow ep s)"

datatype store_call =
    CreateTask env task_request
  | TransitionTo env string string
  | AddEvent env string string string string string "json option"
  | SetChangedFiles env string "file_change list"
  | AddEvidence env string evidence_input
  | SetValidation env string string int string
  | ClassifyFailure env string string string
  | CancelQueued env string
  | AppendUsage env string usage_input
  | AcquireLease env string string int string string
  | RecoverLease env string string int bool
  | Fenced env string string int fenced_call
  | ReconcileOne env int "run_row \<times> string"
  | Reconcile env int

fun run_store :: "store_call \<Rightarrow> db \<Rightarrow> unit step" where
  "run_store (CreateTask e q) s = unit_step (create_task e q s)"
| "run_store (TransitionTo e tid st) s = unit_step (transition_to e tid st s)"
| "run_store (AddEvent e tid ty ti d l m) s = unit_step (add_event e tid ty ti d l m s)"
| "run_store (SetChangedFiles e tid fs) s = unit_step (set_changed_files e tid fs s)"
| "run_store (AddEvidence e tid i) s = unit_step (add_evidence e tid i s)"
| "run_store (SetValidation e tid c x d) s = unit_step (set_validation_result e tid c x d s)"
| "run_store (ClassifyFailure e tid c d) s = unit_step (classify_failure e tid c d s)"
| "run_store (CancelQueued e tid) s = unit_step (cancel_queued_task e tid s)"
| "run_store (AppendUsage e tid i) s = unit_step (append_usage_observation e tid i s)"
| "run_store (AcquireLease e tid ow x au pl) s = unit_step (acquire_or_find_lease e tid ow x au pl s)"
| "run_store (RecoverLease e rid ow x req) s = unit_step (recover_durable_lease e rid ow x req s)"
| "run_store (Fenced e rid ow ep c) s = run_fenced e rid ow ep c s"
| "run_store (ReconcileOne e now c) s = (Inr (), snd (reconcile_one e now c s))"
| "run_store (Reconcile e now) s = (Inr (), snd (reconcile_expired_runs e now s))"

datatype control_call =
    CreateGoal env goal_request
  | SaveGoalPlan env string int string string "json list" "string list"
  | ApproveGoal env string int string
  | AmendGoal env string int string
  | LinkGoalTask string int string string "string list" int
  | MarkGoalRunning env string int string
  | RefreshGoalStatus env string
  | ActivateWindow env window_policy string
  | ActiveWindow env "string option"
  | StopWindow env string string
  | ClaimTask env string string string int
  | AbandonClaim env string string string int string
  | CompleteClaim env string string string int string
  | AppendReceipt env string receipt_input
  | UpsertPublication env string publication_input
  | CaptureInbox env string string string
  | PromoteInbox env string
  | DismissInbox env string
  | CreatePhase env string int string
  | AttachGoal env string string
  | DetachGoal string string

fun run_control :: "control_call \<Rightarrow> db \<Rightarrow> unit step" where
  "run_control (CreateGoal e q) s = unit_step (create_goal e q s)"
| "run_control (SaveGoalPlan e g n sp pl ts cr) s = unit_step (save_goal_plan e g n sp pl ts cr s)"
| "run_control (ApproveGoal e g n p) s = unit_step (approve_goal e g n p s)"
| "run_control (AmendGoal e g n x) s = unit_step (amend_goal e g n x s)"
| "run_control (LinkGoalTask g n p tid ds q) s = link_goal_task g n p tid ds q s"
| "run_control (MarkGoalRunning e g n w) s = unit_step (mark_goal_running e g n w s)"
| "run_control (RefreshGoalStatus e g) s = unit_step (refresh_goal_status e g s)"
| "run_control (ActivateWindow e p c) s = unit_step (activate_window e p c s)"
| "run_control (ActiveWindow e now) s = (Inr (), snd (active_window e now s))"
| "run_control (StopWindow e w r) s = unit_step (stop_window e w r s)"
| "run_control (ClaimTask e w tid ow l) s = unit_step (claim_task e w tid ow l s)"
| "run_control (AbandonClaim e w tid ow ep r) s = abandon_task_claim e w tid ow ep r s"
| "run_control (CompleteClaim e w tid ow ep r) s = complete_task_claim e w tid ow ep r s"
| "run_control (AppendReceipt e w i) s = unit_step (append_receipt e w i s)"
| "run_control (UpsertPublication e tid i) s = unit_step (upsert_publication e tid i s)"
| "run_control (CaptureInbox e t x r) s = unit_step (capture_inbox_item e t x r s)"
| "run_control (PromoteInbox e i) s = unit_step (promote_inbox_item e i s)"
| "run_control (DismissInbox e i) s = unit_step (dismiss_inbox_item e i s)"
| "run_control (CreatePhase e t n d) s = unit_step (create_roadmap_phase e t n d s)"
| "run_control (AttachGoal e p g) s = attach_goal_to_phase e p g s"
| "run_control (DetachGoal p g) s = detach_goal_from_phase p g s"

section \<open>Steps and reachable databases\<close>

inductive db_step :: "db \<Rightarrow> db \<Rightarrow> bool" where
  store_call: "db_step s (snd (run_store c s))"
| open_control: "db_step s (init_control_schema s)"
| control_call: "control_schema s \<Longrightarrow> db_step s (snd (run_control c s))"

inductive reachable :: "db \<Rightarrow> bool" where
  new_file: "reachable empty_db"
| step: "reachable s \<Longrightarrow> db_step s s' \<Longrightarrow> reachable s'"

text \<open>Steps taken from reachable databases, the relation the contracts speak about.\<close>

inductive live_step :: "db \<Rightarrow> db \<Rightarrow> bool" where
  "reachable s \<Longrightarrow> db_step s s' \<Longrightarrow> live_step s s'"

inductive_simps live_step_iff: "live_step s s'"
inductive_cases db_stepE: "db_step s s'"

lemma lawful_run_fenced: "lawful s (snd (run_fenced e rid ow ep c s))"
  by (cases c)
    (simp_all add: lawful_fenced_transition lawful_fenced_tables lawful_fenced_usage
      lawful_fenced_classify lawful_fenced_terminalize lawful_run_setters lawful_heartbeat
      lawful_release lawful_set_base_sha lawful_accept_checkpoint lawful_record_extop
      lawful_reconcile_extop)

lemma lawful_run_store: "lawful s (snd (run_store c s))"
  by (cases c)
    (simp_all add: lawful_create_task lawful_transition_to lawful_add_event
      lawful_set_changed_files lawful_add_evidence lawful_set_validation_result
      lawful_classify_failure lawful_cancel_queued_task lawful_append_usage lawful_acquire
      lawful_recover lawful_run_fenced lawful_reconcile_one lawful_reconcile)

lemma lawful_run_control: "lawful s (snd (run_control c s))"
  by (cases c)
    (simp_all add: lawful_create_goal lawful_save_goal_plan lawful_approve_goal
      lawful_amend_goal lawful_link_goal_task lawful_mark_goal_running
      lawful_refresh_goal_status lawful_activate_window lawful_active_window
      lawful_stop_window lawful_claim_task abandon_task_claim_def complete_task_claim_def
      lawful_close_claim lawful_append_receipt lawful_upsert_publication lawful_capture
      lawful_promote lawful_dismiss lawful_create_phase lawful_attach lawful_detach)

lemma db_step_lawful: "db_step s s' \<Longrightarrow> lawful s s'"
  by (erule db_stepE)
    (auto simp: lawful_run_store lawful_run_control init_control_schema_def
      intro: lawful_free_tables)

lemma reachable_keys: "reachable s \<Longrightarrow> keys_ok s"
  by (induction rule: reachable.induct)
    (auto simp: keys_ok_empty lawful_def dest: db_step_lawful)

text \<open>The conditions on single rows hold of every row of a reachable database.\<close>

lemma reachable_rows:
  "reachable s \<Longrightarrow> list_all known_status (tasks s) \<and> list_all run_ok (durable_runs s)
     \<and> list_all goal_ok (goals s) \<and> list_all claim_ok (claims s)"
proof (induction rule: reachable.induct)
  case new_file
  then show ?case by (simp add: empty_db_def)
next
  case (step s s')
  have "evolves s s'"
    using db_step_lawful [OF step(2)] reachable_keys [OF step(1)] by (simp add: lawful_def)
  with step(3) show ?case
    unfolding evolves_def
    by (metis tasks_o.all_ok_evolves runs_o.all_ok_evolves goals_o.all_ok_evolves claims_o.all_ok_evolves)
qed

lemma live_step_evolves: "live_step s s' \<Longrightarrow> evolves s s'"
  using db_step_lawful [of s s'] reachable_keys [of s] by (simp add: live_step_iff lawful_def)

lemma reachable_steps: "live_step\<^sup>*\<^sup>* s s' \<Longrightarrow> reachable s \<Longrightarrow> reachable s'"
  by (induction rule: rtranclp_induct) (auto simp: live_step_iff intro: reachable.step)

lemma steps_evolve: "live_step\<^sup>*\<^sup>* s s' \<Longrightarrow> evolves s s'"
  by (induction rule: rtranclp_induct) (auto intro: evolves_trans live_step_evolves)

text \<open>Sequences of calls, for the concrete runs of the witnesses.\<close>

datatype call = StoreCall store_call | OpenControl | ControlCall control_call

fun run_call :: "call \<Rightarrow> db \<Rightarrow> db" where
  "run_call (StoreCall c) s = snd (run_store c s)"
| "run_call OpenControl s = init_control_schema s"
| "run_call (ControlCall c) s = (if control_schema s then snd (run_control c s) else s)"

definition run_calls :: "call list \<Rightarrow> db \<Rightarrow> db" where
  "run_calls cs s = fold run_call cs s"

lemma reachable_call: "reachable s \<Longrightarrow> reachable (run_call c s)"
  by (cases c) (auto intro: reachable.step db_step.intros)

lemma reachable_run: "reachable s \<Longrightarrow> reachable (run_calls cs s)"
  by (induction cs arbitrary: s) (auto simp: run_calls_def reachable_call)

lemma steps_run: "reachable s \<Longrightarrow> live_step\<^sup>*\<^sup>* s (run_calls cs s)"
proof (induction cs arbitrary: s)
  case Nil
  then show ?case by (simp add: run_calls_def)
next
  case (Cons c cs)
  have "run_call c s = s \<or> live_step s (run_call c s)"
    by (cases c) (auto simp: live_step_iff Cons.prems intro: db_step.intros)
  then have "live_step\<^sup>*\<^sup>* s (run_call c s)"
    by auto
  with Cons.IH [OF reachable_call [OF Cons.prems, of c]] show ?case
    by (simp add: run_calls_def)
qed

end
