(* ===== verification/Lease_Fencing.thy ===== *)
theory Lease_Fencing
  imports Operations
begin

text \<open>
  Fencing, for the two leases of the system: the lease of a durable run (run_store.py) and the
  coordinator's claim on a task (control_store.py). The locale states the contract once: a call
  that does not present the current owner and epoch raises and changes nothing, and steps only
  move a lease forward. Both models satisfy it.
\<close>

section \<open>The contract\<close>

text \<open>A lease moves to a later epoch, or within its epoch keeps its owner or is given up.\<close>

definition lease_forward :: "string \<times> int \<Rightarrow> string \<times> int \<Rightarrow> bool" where
  "lease_forward a b \<longleftrightarrow> snd a < snd b \<or> (snd b = snd a \<and> (fst b = fst a \<or> fst b = ''''))"

lemma lease_forward_trans: "lease_forward a b \<Longrightarrow> lease_forward b c \<Longrightarrow> lease_forward a c"
  by (auto simp: lease_forward_def)

text \<open>A holder is superseded when the epoch has passed it, or its lease was given up.\<close>

definition superseded :: "string \<Rightarrow> int \<Rightarrow> string \<times> int \<Rightarrow> bool" where
  "superseded ow ep l \<longleftrightarrow> ep < snd l \<or> (ep = snd l \<and> ow \<noteq> '''' \<and> fst l \<noteq> ow)"

locale fenced_store =
  fixes lease :: "'s \<Rightarrow> 'k \<Rightarrow> (string \<times> int) option"
    and call :: "'k \<Rightarrow> string \<Rightarrow> int \<Rightarrow> 'c \<Rightarrow> 's \<Rightarrow> 'a outcome \<times> 's"
    and next_state :: "'s \<Rightarrow> 's \<Rightarrow> bool"
    and good :: "'s \<Rightarrow> bool"
  assumes keeps: "next_state s s' \<Longrightarrow> good s'"
    and fence: "good s \<Longrightarrow> lease s k \<noteq> Some (ow, ep) \<Longrightarrow> lease s k \<noteq> None \<Longrightarrow> \<exists>err. call k ow ep c s = (Inl err, s)"
    and forward: "next_state s s' \<Longrightarrow> lease s k = Some l \<Longrightarrow> \<exists>l'. lease s' k = Some l' \<and> lease_forward l l'"
begin

lemma forward_star:
  "next_state\<^sup>*\<^sup>* s s' \<Longrightarrow> lease s k = Some l \<Longrightarrow> \<exists>l'. lease s' k = Some l' \<and> lease_forward l l'"
proof (induction rule: rtranclp_induct)
  case base
  then show ?case by (simp add: lease_forward_def)
next
  case (step t u)
  then obtain l' where "lease t k = Some l'" "lease_forward l l'"
    by blast
  with forward [OF step(2)] show ?case
    by (blast intro: lease_forward_trans)
qed

lemma superseded_forward: "superseded ow ep l \<Longrightarrow> lease_forward l l' \<Longrightarrow> superseded ow ep l'"
  by (auto simp: superseded_def lease_forward_def)

lemma good_star: "next_state\<^sup>*\<^sup>* s s' \<Longrightarrow> good s \<Longrightarrow> good s'"
  by (induction rule: rtranclp_induct) (auto intro: keeps)

lemma superseded_fenced:
  assumes "good s" "lease s k = Some l" "superseded ow ep l"
  shows "\<exists>err. call k ow ep c s = (Inl err, s)"
proof -
  have "lease s k \<noteq> Some (ow, ep)" "lease s k \<noteq> None"
    using assms by (auto simp: superseded_def)
  then show ?thesis by (rule fence [OF assms(1)])
qed

text \<open>Once superseded, a holder is refused in every later state.\<close>

lemma fenced_forever:
  assumes "good s" "lease s k = Some l" "superseded ow ep l" "next_state\<^sup>*\<^sup>* s s'"
  shows "\<exists>err. call k ow ep c s' = (Inl err, s')"
  using forward_star [OF assms(4,2)] superseded_forward [OF assms(3)]
    superseded_fenced [OF good_star [OF assms(4,1)]] by blast

text \<open>An epoch has at most one owner.\<close>

lemma one_owner_per_epoch:
  assumes "lease s k = Some (a, n)" "next_state\<^sup>*\<^sup>* s s'" "lease s' k = Some (b, n)" "b \<noteq> ''''"
  shows "a = b"
  using forward_star [OF assms(2,1)] assms(3,4) by (auto simp: lease_forward_def)

end

section \<open>The lease of a durable run\<close>

definition run_lease :: "db \<Rightarrow> string \<Rightarrow> (string \<times> int) option" where
  "run_lease s rid =
     (if rid = '''' then None
      else map_option (\<lambda>r. (dr_lease_owner r, dr_lease_epoch r)) (run_row_of rid s))"

lemma run_lease_row:
  "run_lease s rid = Some (ow, ep) \<longleftrightarrow>
     rid \<noteq> '''' \<and> (\<exists>r. run_row_of rid s = Some r \<and> dr_lease_owner r = ow \<and> dr_lease_epoch r = ep)"
  by (auto simp: run_lease_def)

lemma fenced_not_held:
  assumes "fenced_validate_lease rid ow ep s = Inl err"
  shows "fenced rid ow ep p body s = (Inl err, s)"
proof -
  have "is_store_error err"
    using assms by (auto simp: fenced_validate_lease_def run_not_found_def fenced_error_def
        split: option.splits if_splits)
  with assms show ?thesis by (simp add: fenced_def)
qed

lemma validate_not_held:
  "run_lease s rid \<noteq> Some (ow, ep) \<Longrightarrow> rid \<noteq> '''' \<Longrightarrow>
   \<exists>err. fenced_validate_lease rid ow ep s = Inl err"
  by (auto simp: run_lease_def fenced_validate_lease_def holds_lease_def split: option.splits)

lemma row_not_held:
  "run_lease s rid \<noteq> Some (ow, ep) \<Longrightarrow> rid \<noteq> '''' \<Longrightarrow> run_row_of rid s = Some r \<Longrightarrow>
   \<not> holds_lease r ow ep"
  by (auto simp: run_lease_def holds_lease_def)

lemma unit_step_Inl: "unit_step (Inl err, s) = (Inl err, s)"
  by (simp add: unit_step_def)

text \<open>Every fenced call of the store refuses a caller that does not hold the lease.\<close>

lemma run_call_fenced:
  assumes "run_lease s rid \<noteq> Some (ow, ep)" "rid \<noteq> ''''"
  shows "\<exists>err. run_fenced e rid ow ep c s = (Inl err, s)"
proof -
  obtain err where v: "fenced_validate_lease rid ow ep s = Inl err"
    using validate_not_held [OF assms] by blast
  note f = fenced_not_held [OF v]
  have upd: "\<exists>err. fenced_run_update rid ow ep g s = (Inl err, s)" for g
    using row_not_held [OF assms]
    by (cases "run_row_of rid s") (auto simp: fenced_run_update_def atomic_fenced_update_def)
  have journal: "\<not> journal_lease_ok rid ow ep s"
    using row_not_held [OF assms] assms(2) by (auto simp: journal_lease_ok_def split: option.splits)
  show ?thesis
    using v upd journal row_not_held [OF assms]
    by (cases c)
      (auto simp: f fenced_transition_to_def fenced_set_changed_files_def fenced_add_event_def
        fenced_add_evidence_def fenced_append_usage_observation_def
        fenced_active_usage_budget_snapshot_def fenced_active_usage_reservation_def
        fenced_classify_failure_def fenced_set_task_validation_def fenced_terminalize_def
        set_planner_handoff_digest_def set_coder_product_diff_digest_def
        set_reviewer_handoff_digest_def set_role_attempt_def set_recovery_classification_def
        set_run_validation_result_def set_worktree_identity_def set_authority_identity_def
        set_partial_coder_diff_digest_def set_checkpoint_db_path_def heartbeat_durable_lease_def
        release_durable_lease_def set_repository_base_sha_def accept_checkpoint_def
        record_external_operation_def record_external_operation_txn_def
        reconcile_external_operation_def unit_step_Inl split: option.splits)
qed

lemma run_forward:
  assumes "live_step s s'" "run_lease s rid = Some l"
  shows "\<exists>l'. run_lease s' rid = Some l' \<and> lease_forward l l'"
proof -
  obtain ow ep where l: "l = (ow, ep)" by (cases l)
  then obtain r where r: "run_row_of rid s = Some r" "dr_lease_owner r = ow" "dr_lease_epoch r = ep"
    and rid: "rid \<noteq> ''''"
    using assms(2) by (auto simp: run_lease_row)
  obtain r' where "run_row_of rid s' = Some r'" "run_le r r'"
    using run_evolves [OF live_step_evolves [OF assms(1)] r(1)] by blast
  with r rid l show ?thesis
    by (auto simp: run_lease_def run_le_def lease_forward_def)
qed

interpretation run_fence: fenced_store run_lease
  "\<lambda>rid ow ep (e, c) s. run_fenced e rid ow ep c s" live_step reachable
proof unfold_locales
  fix s k ow ep and c :: "env \<times> fenced_call"
  assume "run_lease s k \<noteq> Some (ow, ep)" "run_lease s k \<noteq> None"
  moreover from this have "k \<noteq> ''''"
    by (auto simp: run_lease_def)
  ultimately show "\<exists>err. (case c of (e, c) \<Rightarrow> \<lambda>s. run_fenced e k ow ep c s) s = (Inl err, s)"
    by (cases c) (simp add: run_call_fenced)
next
  show "reachable s'" if "live_step s s'" for s s'
    using that by (auto simp: live_step_iff intro: reachable.step)
qed (rule run_forward)

section \<open>The coordinator's claim\<close>

text \<open>A closed claim counts as given up.\<close>

definition claim_lease :: "db \<Rightarrow> string \<Rightarrow> (string \<times> int) option" where
  "claim_lease s tid =
     map_option (\<lambda>c. (if cl_status c = ''ACTIVE'' then cl_owner c else '''', cl_epoch c))
       (claim_row_of tid s)"

definition finalize_call ::
    "string \<Rightarrow> string \<Rightarrow> int \<Rightarrow> env \<times> string \<times> string \<times> bool \<Rightarrow> db \<Rightarrow> string step" where
  "finalize_call tid ow ep c s =
     (case c of (e, wid, st, b) \<Rightarrow> finalize_task_claim e wid tid ow ep st b s)"

lemma claim_call_fenced:
  assumes "keys_ok s" "claim_lease s tid = Some l" "l \<noteq> (ow, ep)"
  shows "\<exists>err. finalize_call tid ow ep c s = (Inl err, s)"
proof -
  obtain e wid st b where c: "c = (e, wid, st, b)"
    by (cases c)
  obtain a where a: "claim_row_of tid s = Some a"
    using assms(2) by (auto simp: claim_lease_def)
  have "find (\<lambda>c. cl_task_id c = tid \<and> cl_window_id c = wid \<and> cl_owner c = ow
          \<and> cl_epoch c = ep \<and> cl_status c = ''ACTIVE'') (claims s) = None"
    unfolding find_None_iff
  proof (rule notI, elim exE conjE)
    fix x assume x: "x \<in> set (claims s)" "cl_task_id x = tid" "cl_owner x = ow" "cl_epoch x = ep"
      "cl_status x = ''ACTIVE''"
    then have "x = a"
      using claim_unique [OF assms(1) a] by blast
    with a x assms(2,3) show False
      by (simp add: claim_lease_def)
  qed
  then show ?thesis
    by (simp add: c finalize_call_def finalize_task_claim_def finalize_claim_txn_def Let_def)
qed

lemma claim_forward:
  assumes "live_step s s'" "claim_lease s tid = Some l"
  shows "\<exists>l'. claim_lease s' tid = Some l' \<and> lease_forward l l'"
proof -
  obtain a where a: "claim_row_of tid s = Some a"
      "l = (if cl_status a = ''ACTIVE'' then cl_owner a else '''', cl_epoch a)"
    using assms(2) by (auto simp: claim_lease_def)
  obtain b where "claim_row_of tid s' = Some b" "claim_le a b"
    using claim_evolves [OF live_step_evolves [OF assms(1)] a(1)] by blast
  with a show ?thesis
    by (auto simp: claim_lease_def claim_le_def lease_forward_def)
qed

interpretation claim_fence: fenced_store claim_lease finalize_call live_step reachable
proof unfold_locales
  fix s k ow ep c
  assume "reachable s" "claim_lease s k \<noteq> Some (ow, ep)" "claim_lease s k \<noteq> None"
  then show "\<exists>err. finalize_call k ow ep c s = (Inl err, s)"
    by (metis claim_call_fenced reachable_keys option.exhaust)
next
  show "reachable s'" if "live_step s s'" for s s'
    using that by (auto simp: live_step_iff intro: reachable.step)
qed (rule claim_forward)

end
