(* ===== verification/Frames.thy ===== *)
theory Frames
  imports Operations
begin

text \<open>
  Which tables an operation leaves alone. \<open>TaskStore\<close> writes no table of the control store and
  \<open>PlatformControlStore\<close> writes none of the task store; within the task store only acquisition
  and checkpoint acceptance change which checkpoint a run has reached.
\<close>

section \<open>The two halves of the database\<close>

definition store_part where
  "store_part s =
     (tasks s, idempotency_keys s, task_events s, task_changed_files s, task_evidence s,
      usage_observations s, durable_runs s, checkpoint_history s, external_operations s)"

definition control_part where
  "control_part s =
     (control_schema s, goals s, goal_task_links s, windows s, receipts s, claims s,
      reservations s, usage_charges s, publications s, inbox_items s, roadmap_phases s,
      phase_goals s)"

text \<open>What the checkpoint invariant reads: each run's accepted checkpoint, and the history.\<close>

definition run_progress :: "db \<Rightarrow> (string \<times> string) list \<times> checkpoint_row list" where
  "run_progress s =
     (map (\<lambda>r. (dr_run_id r, dr_accepted_checkpoint r)) (durable_runs s), checkpoint_history s)"

definition store_frame :: "db \<Rightarrow> db \<Rightarrow> bool" where
  "store_frame s s' \<longleftrightarrow> control_part s' = control_part s"

definition progress_frame :: "db \<Rightarrow> db \<Rightarrow> bool" where
  "progress_frame s s' \<longleftrightarrow> control_part s' = control_part s \<and> run_progress s' = run_progress s"

definition control_frame :: "db \<Rightarrow> db \<Rightarrow> bool" where
  "control_frame s s' \<longleftrightarrow> store_part s' = store_part s"

lemma frame_refl [simp]: "progress_frame s s" "store_frame s s" "control_frame s s"
  by (simp_all add: progress_frame_def store_frame_def control_frame_def)

lemma frame_trans:
  "progress_frame s t \<Longrightarrow> progress_frame t u \<Longrightarrow> progress_frame s u"
  "control_frame s t \<Longrightarrow> control_frame t u \<Longrightarrow> control_frame s u"
  by (simp_all add: progress_frame_def control_frame_def)

lemma frame_andthen:
  "progress_frame s (snd r) \<Longrightarrow> (\<And>x t. r = (Inr x, t) \<Longrightarrow> progress_frame t (snd (k x t)))
   \<Longrightarrow> progress_frame s (snd (andthen r k))"
  "control_frame s (snd r) \<Longrightarrow> (\<And>x t. r = (Inr x, t) \<Longrightarrow> control_frame t (snd (k x t)))
   \<Longrightarrow> control_frame s (snd (andthen r k))"
  by (rule andthen_state, blast, blast intro: frame_trans)+

lemma frame_transact:
  "progress_frame s (snd r) \<Longrightarrow> progress_frame s (snd (transact w s r))"
  "control_frame s (snd r) \<Longrightarrow> control_frame s (snd (transact w s r))"
  by (auto simp: transact_def split: prod.splits sum.splits)

lemma progress_writes [simp]:
  "progress_frame s (t\<lparr>tasks := a\<rparr>) = progress_frame s t"
  "progress_frame s (t\<lparr>idempotency_keys := b\<rparr>) = progress_frame s t"
  "progress_frame s (t\<lparr>task_events := c\<rparr>) = progress_frame s t"
  "progress_frame s (t\<lparr>task_changed_files := d\<rparr>) = progress_frame s t"
  "progress_frame s (t\<lparr>task_evidence := f\<rparr>) = progress_frame s t"
  "progress_frame s (t\<lparr>usage_observations := g\<rparr>) = progress_frame s t"
  "progress_frame s (t\<lparr>external_operations := h\<rparr>) = progress_frame s t"
  by (simp_all add: progress_frame_def control_part_def run_progress_def)

lemma progress_runs:
  assumes "progress_frame s t" "T = durable_runs t"
    and "\<And>r. p r \<Longrightarrow> dr_run_id (f r) = dr_run_id r \<and> dr_accepted_checkpoint (f r) = dr_accepted_checkpoint r"
  shows "progress_frame s (t\<lparr>durable_runs := sql_update p f T\<rparr>)"
  using assms by (simp add: progress_frame_def control_part_def run_progress_def map_sql_update)

lemma control_writes [simp]:
  "control_frame s (t\<lparr>goals := a\<rparr>) = control_frame s t"
  "control_frame s (t\<lparr>goal_task_links := b\<rparr>) = control_frame s t"
  "control_frame s (t\<lparr>windows := c\<rparr>) = control_frame s t"
  "control_frame s (t\<lparr>receipts := d\<rparr>) = control_frame s t"
  "control_frame s (t\<lparr>claims := f\<rparr>) = control_frame s t"
  "control_frame s (t\<lparr>reservations := g\<rparr>) = control_frame s t"
  "control_frame s (t\<lparr>usage_charges := h\<rparr>) = control_frame s t"
  "control_frame s (t\<lparr>publications := i\<rparr>) = control_frame s t"
  "control_frame s (t\<lparr>inbox_items := j\<rparr>) = control_frame s t"
  "control_frame s (t\<lparr>roadmap_phases := k\<rparr>) = control_frame s t"
  "control_frame s (t\<lparr>phase_goals := l\<rparr>) = control_frame s t"
  "control_frame s (t\<lparr>control_schema := m\<rparr>) = control_frame s t"
  by (simp_all add: control_frame_def store_part_def)

section \<open>The task store\<close>

lemma progress_update_task [simp]: "progress_frame s (update_task_fields e tid f t) = progress_frame s t"
  by (simp add: update_task_fields_def)

lemma progress_append_event: "progress_frame s (snd (append_event e tid ty ti d l m s))"
  by (simp add: append_event_def Let_def)

lemma progress_create: "progress_frame s (snd (create_task e q s))"
proof -
  have "progress_frame s (snd (create_task_impl e q s))"
    unfolding create_task_impl_def
    by (intro frame_andthen progress_append_event)
      (auto simp: insert_task_row_def insert_key_row_def Let_def sql_insert_def)
  then show ?thesis
    by (auto simp: create_task_def split: option.splits prod.splits)
qed

lemma progress_task_ops:
  "progress_frame s (snd (transition_to e tid st s))"
  "progress_frame s (snd (add_event e tid ty ti d l m s))"
  "progress_frame s (snd (set_changed_files e tid fs s))"
  "progress_frame s (snd (add_evidence e tid i s))"
  "progress_frame s (snd (set_validation_result e tid c x dg s))"
  "progress_frame s (snd (append_usage_observation e tid ui s))"
  by (auto simp: transition_to_def add_event_def set_changed_files_def replace_changed_files_def
      add_evidence_def set_validation_result_def append_usage_observation_def Let_def
      sql_insert_def progress_append_event split: sum.splits option.splits)

lemma progress_classify: "progress_frame s (snd (classify_failure e tid c d s))"
proof -
  have *: "progress_frame s (snd (andthen (append_event e' tid ty ti x l m t) (\<lambda>_ u. return_task tid None u)))"
    if "progress_frame s t" for e' ty ti x l m t
    by (rule frame_trans(1) [OF that], rule frame_andthen(1) [OF progress_append_event]) simp
  show ?thesis
    by (auto simp: classify_failure_def Let_def intro!: * split: sum.splits)
qed

lemma progress_cancel: "progress_frame s (snd (cancel_queued_task e tid s))"
proof -
  have *: "progress_frame s (snd (andthen (append_event e' tid ty ti x l m t) (\<lambda>_ u. (Inr v, u))))"
    if "progress_frame s t" for e' ty ti x l m t v
    by (rule frame_trans(1) [OF that], rule frame_andthen(1) [OF progress_append_event]) simp
  have "progress_frame s (snd (queue_cancel_txn e tid s))"
    by (auto simp: queue_cancel_txn_def Let_def intro!: * split: option.splits)
  then show ?thesis
    unfolding cancel_queued_task_def
    by (intro frame_andthen frame_transact) (simp_all split: prod.splits)
qed

lemma progress_recover: "progress_frame s (snd (recover_durable_lease e rid ow x req s))"
proof -
  have run: "progress_frame s (s\<lparr>durable_runs := sql_update p (\<lambda>r. r\<lparr>dr_lease_owner := ow,
      dr_lease_epoch := n, dr_heartbeat_at_ms := h, dr_lease_expiry_ms := y, dr_updated_at := u\<rparr>)
      (durable_runs s)\<rparr>)" for p n h y u
    by (rule progress_runs) simp_all
  have "progress_frame s (snd (recover_lease_txn e rid ow x req s))"
  proof (cases "run_row_of rid s")
    case None
    then show ?thesis by (simp add: recover_lease_txn_def)
  next
    case (Some r)
    then show ?thesis
      using run by (cases "task_row_of (dr_task_id r) s") (simp_all add: recover_lease_txn_def Let_def)
  qed
  then show ?thesis
    unfolding recover_durable_lease_def by (intro frame_andthen frame_transact) simp_all
qed

lemma progress_reconcile_one: "progress_frame s (snd (reconcile_one e now c s))"
  by (auto simp: reconcile_one_def Let_def intro!: progress_runs split: option.splits)

lemma progress_reconcile_all: "progress_frame s (snd (reconcile_all e now cs s))"
proof (induction cs arbitrary: e s)
  case (Cons c cs)
  show ?case
    using frame_trans(1) [OF progress_reconcile_one [of s e now c] Cons.IH]
    by (simp add: split_def Let_def)
qed simp

lemma progress_fenced:
  "(\<And>r. progress_frame s (snd (body r s))) \<Longrightarrow> progress_frame s (snd (fenced rid ow ep p body s))"
  unfolding fenced_def by (rule frame_transact) (auto split: sum.splits)

lemma progress_run_update:
  assumes "\<And>r. dr_run_id (f r) = dr_run_id r \<and> dr_accepted_checkpoint (f r) = dr_accepted_checkpoint r"
  shows "progress_frame s (snd (fenced_run_update rid ow ep f s))"
  unfolding fenced_run_update_def
  by (rule frame_andthen)
    (auto simp: atomic_fenced_update_def update_run_def intro!: progress_runs assms split: option.splits)

lemma progress_run_fenced:
  assumes "\<And>n d a. c \<noteq> FCheckpoint n d a"
  shows "progress_frame s (snd (run_fenced e rid ow ep c s))"
proof -
  have ret: "progress_frame t (snd (return_task tid None t))" for t tid by simp
  show ?thesis
    using assms
    by (cases c)
      (auto simp: fenced_transition_to_def fenced_set_changed_files_def fenced_add_event_def
        fenced_add_evidence_def fenced_append_usage_observation_def
        fenced_active_usage_budget_snapshot_def fenced_active_usage_reservation_def
        fenced_classify_failure_def fenced_set_task_validation_def fenced_terminalize_def
        set_planner_handoff_digest_def set_coder_product_diff_digest_def
        set_reviewer_handoff_digest_def set_role_attempt_def set_recovery_classification_def
        set_run_validation_result_def set_worktree_identity_def set_authority_identity_def
        set_partial_coder_diff_digest_def set_checkpoint_db_path_def heartbeat_durable_lease_def
        release_durable_lease_def set_repository_base_sha_def
        record_external_operation_def record_external_operation_txn_def
        reconcile_external_operation_def touch_task_def write_status_def replace_changed_files_def
        update_run_def progress_task_ops Let_def sql_insert_def
        intro!: frame_andthen progress_fenced progress_run_update progress_runs frame_transact ret
        split: option.splits sum.splits)
qed

section \<open>The control store\<close>

lemma control_goal_update: "control_frame s (snd (goal_update gid g f err s))"
  by (simp add: goal_update_def Let_def)

lemma control_create_goal: "control_frame s (snd (create_goal e q s))"
  by (auto simp: create_goal_def sql_insert_def split: option.splits)

lemma control_append_receipt: "control_frame s (snd (append_receipt e w i s))"
  by (auto simp: append_receipt_def sql_insert_def split: option.splits sum.splits)

lemma control_claim: "control_frame s (snd (claim_task e w tid ow l s))"
proof -
  have "control_frame t (snd (write_claim e w tid ow ep x t))"
    "control_frame t (snd (write_reservation e v tid ep t))"
    "control_frame t (charge_attempt e w b t)" for t ep x v b
    by (auto simp: write_claim_def write_reservation_def charge_attempt_def sql_insert_def Let_def
        split: option.splits)
  then have "control_frame s (snd (claim_task_txn e w tid ow l s))"
    unfolding claim_task_txn_def Let_def
    by (auto split: option.splits intro!: frame_andthen)
  then show ?thesis
    unfolding claim_task_def by (intro frame_andthen frame_transact) simp_all
qed

lemma control_close: "control_frame s (snd (close_claim e w tid ow ep st b r x s))"
proof -
  have "control_frame s (snd (finalize_claim_txn e w tid ow ep st b s))"
    unfolding finalize_claim_txn_def Let_def by (auto split: option.splits sum.splits)
  then have "control_frame s (snd (finalize_task_claim e w tid ow ep st b s))"
    by (auto simp: finalize_task_claim_def intro: frame_transact)
  then show ?thesis
    unfolding close_claim_def
    by (intro frame_andthen) (auto intro!: frame_andthen control_append_receipt split: sum.splits)
qed

lemma control_promote: "control_frame s (snd (promote_inbox_item e i s))"
proof -
  have "control_frame t (snd (mark_inbox_item_promoted e' j g t))" for t e' j g
    by (auto simp: mark_inbox_item_promoted_def Let_def split: sum.splits)
  then show ?thesis
    by (auto simp: promote_inbox_item_def intro!: frame_andthen control_create_goal split: sum.splits)
qed

lemma control_run_control: "control_frame s (snd (run_control c s))"
  by (cases c)
    (auto simp: control_create_goal save_goal_plan_def approve_goal_def amend_goal_def
      mark_goal_running_def control_goal_update link_goal_task_def refresh_goal_status_def
      activate_window_def active_window_def stop_window_def control_claim abandon_task_claim_def
      complete_task_claim_def control_close control_append_receipt upsert_publication_def
      capture_inbox_item_def control_promote dismiss_inbox_item_def create_roadmap_phase_def
      attach_goal_to_phase_def detach_goal_from_phase_def Let_def sql_insert_def
      intro!: frame_andthen split: option.splits sum.splits)

end
