(* ===== verification/Checkpoint_History.thy ===== *)
theory Checkpoint_History
  imports Frames
begin

text \<open>
  The checkpoint history of a run is the initial part of the checkpoint order that ends at
  the accepted checkpoint: no checkpoint is skipped, repeated or reordered, in any reachable
  database. Acceptance of the current checkpoint again is idempotent because of it.
\<close>

section \<open>Ranks and the order\<close>

lemma rank_cases:
  "(name \<in> set CHECKPOINT_ORDER \<and> 0 \<le> checkpoint_rank name \<and> checkpoint_rank name < 5
      \<and> CHECKPOINT_ORDER ! nat (checkpoint_rank name) = name)
   \<or> (name \<notin> set CHECKPOINT_ORDER \<and> checkpoint_rank name = -1)"
  by (auto simp: checkpoint_rank_def CHECKPOINT_ORDER_def split: if_splits option.splits)

lemma rank_name: "0 \<le> checkpoint_rank name \<Longrightarrow> CHECKPOINT_ORDER ! nat (checkpoint_rank name) = name"
  using rank_cases [of name] by auto

lemma rank_bounds: "-1 \<le> checkpoint_rank name \<and> checkpoint_rank name < 5"
  using rank_cases [of name] by auto

lemma rank_inject: "0 \<le> checkpoint_rank a \<Longrightarrow> checkpoint_rank b = checkpoint_rank a \<Longrightarrow> b = a"
  by (metis rank_name)

lemma length_order: "length CHECKPOINT_ORDER = 5"
  by (simp add: CHECKPOINT_ORDER_def)

lemma rank_empty: "checkpoint_rank '''' = -1"
  by (simp add: checkpoint_rank_def)

lemma rank_first: "checkpoint_rank ''PRE_PLANNER'' = 0"
  by (simp add: checkpoint_rank_def)

text \<open>The checkpoints a run has passed when it has accepted the given one.\<close>

definition passed :: "string \<Rightarrow> string list" where
  "passed name = take (nat (checkpoint_rank name + 1)) CHECKPOINT_ORDER"

lemma passed_empty: "passed '''' = []"
  by (simp add: passed_def rank_empty)

lemma passed_next:
  assumes "0 \<le> checkpoint_rank b" "checkpoint_rank b = checkpoint_rank a + 1"
  shows "passed b = passed a @ [b]"
proof -
  let ?n = "nat (checkpoint_rank b)"
  have n: "?n < length CHECKPOINT_ORDER" "nat (checkpoint_rank b + 1) = Suc ?n"
    using assms(1) rank_bounds [of b] by (simp_all add: length_order)
  have "nat (checkpoint_rank a + 1) = ?n"
    using assms(2) by simp
  with n rank_name [OF assms(1)] show ?thesis
    by (simp add: passed_def take_Suc_conv_app_nth)
qed

lemma passed_last: "0 \<le> checkpoint_rank b \<Longrightarrow> b \<in> set (passed b)"
  using rank_name [of b] rank_bounds [of b]
  by (auto simp: passed_def in_set_conv_nth length_order intro!: exI [of _ "nat (checkpoint_rank b)"])

section \<open>The invariant\<close>

definition run_passed :: "string \<Rightarrow> checkpoint_row list \<Rightarrow> string list" where
  "run_passed rid h = map cp_checkpoint_name (filter (\<lambda>c. cp_run_id c = rid) h)"

text \<open>Over the projection a frame keeps: \<open>(run, accepted)\<close> pairs and the history.\<close>

definition progress_ok :: "(string \<times> string) list \<times> checkpoint_row list \<Rightarrow> bool" where
  "progress_ok p \<longleftrightarrow>
     (\<forall>(rid, acc) \<in> set (fst p). run_passed rid (snd p) = passed acc
        \<and> (acc = '''' \<or> 0 \<le> checkpoint_rank acc))
     \<and> cp_run_id ` set (snd p) \<subseteq> fst ` set (fst p)"

lemma progress_ok_frame: "progress_frame s s' \<Longrightarrow> progress_ok (run_progress s) \<Longrightarrow> progress_ok (run_progress s')"
  by (simp add: progress_frame_def)

lemma progress_ok_row:
  assumes "progress_ok (run_progress s)" "run_row_of rid s = Some r"
  shows "run_passed rid (checkpoint_history s) = passed (dr_accepted_checkpoint r)"
    and "dr_accepted_checkpoint r = '''' \<or> 0 \<le> checkpoint_rank (dr_accepted_checkpoint r)"
proof -
  have "r \<in> set (durable_runs s)" "dr_run_id r = rid"
    using find_SomeD [OF assms(2) [unfolded run_row_of_def]] by simp_all
  with assms(1) show "run_passed rid (checkpoint_history s) = passed (dr_accepted_checkpoint r)"
    "dr_accepted_checkpoint r = '''' \<or> 0 \<le> checkpoint_rank (dr_accepted_checkpoint r)"
    by (auto simp: progress_ok_def run_progress_def)
qed

lemma progress_ok_new_run:
  assumes "progress_ok (runs, h)" "rid \<notin> fst ` set runs"
  shows "progress_ok (runs @ [(rid, '''')], h)"
proof -
  have "filter (\<lambda>c. cp_run_id c = rid) h = []"
    using assms by (auto simp: progress_ok_def filter_empty_conv)
  with assms(1) show ?thesis
    by (auto simp: progress_ok_def run_passed_def passed_empty)
qed

lemma acquire_progress:
  assumes "keys_ok s" "progress_ok (run_progress s)"
  shows "progress_ok (run_progress (snd (acquire_or_find_lease e tid ow x au pl s)))"
proof -
  have txn: "progress_ok (run_progress (snd (acquire_lease_txn e q s)))" for q
  proof -
    have "progress_ok (run_progress (s\<lparr>durable_runs := durable_runs s @ [new_run_row e q], tasks := ts\<rparr>))"
      if "\<not> list_ex (\<lambda>b. dr_run_id (new_run_row e q) = dr_run_id b
            \<or> dr_task_id (new_run_row e q) = dr_task_id b) (durable_runs s)" for ts
      using that progress_ok_new_run [OF assms(2) [unfolded run_progress_def],
          of "dr_run_id (new_run_row e q)"]
      by (auto simp: run_progress_def new_run_row_def list_ex_iff image_image)
    then show ?thesis
      using assms(2)
      by (auto simp: acquire_lease_txn_def Let_def sql_insert_def split: option.splits)
  qed
  have "progress_ok (run_progress (snd (acquire_durable_lease e q s)))" for q
    unfolding acquire_durable_lease_def
    by (rule andthen_state)
      (use txn [of q] assms(2) in \<open>auto simp: transact_def split: prod.splits sum.splits\<close>)
  then show ?thesis
    using assms(2) by (auto simp: acquire_or_find_lease_def split: sum.splits)
qed

text \<open>Writing the next checkpoint of a run extends its history by that name.\<close>

lemma insert_checkpoint_progress:
  assumes ok: "progress_ok (run_progress s)" and row: "run_row_of rid s = Some r"
    and nxt: "0 \<le> checkpoint_rank name"
      "checkpoint_rank name = checkpoint_rank (dr_accepted_checkpoint r) + 1"
  shows "progress_ok (run_progress (snd (insert_checkpoint e rid name d n s)))"
proof -
  have r: "r \<in> set (durable_runs s)" "dr_run_id r = rid"
    using find_SomeD [OF row [unfolded run_row_of_def]] by simp_all
  have old: "run_passed rid (checkpoint_history s) = passed (dr_accepted_checkpoint r)"
    using progress_ok_row [OF ok row] by simp
  note facts = ok r old passed_next [OF nxt] nxt
  show ?thesis
    unfolding progress_ok_def
  proof (intro conjI ballI)
    fix p assume "p \<in> set (fst (run_progress (snd (insert_checkpoint e rid name d n s))))"
    then obtain q where q: "q \<in> set (durable_runs s)"
      "p = (dr_run_id q, if dr_run_id q = rid then name else dr_accepted_checkpoint q)"
      by (auto simp: insert_checkpoint_def Let_def update_run_def run_progress_def set_sql_update)
    then show "case p of (rid', acc) \<Rightarrow>
        run_passed rid' (snd (run_progress (snd (insert_checkpoint e rid name d n s)))) = passed acc
        \<and> (acc = '''' \<or> 0 \<le> checkpoint_rank acc)"
      using facts
      by (auto simp: insert_checkpoint_def Let_def update_run_def run_progress_def run_passed_def
          progress_ok_def)
  next
    show "cp_run_id ` set (snd (run_progress (snd (insert_checkpoint e rid name d n s))))
        \<subseteq> fst ` set (fst (run_progress (snd (insert_checkpoint e rid name d n s))))"
    proof -
      have "fst ` set (fst (run_progress (snd (insert_checkpoint e rid name d n s))))
          = dr_run_id ` set (durable_runs s)"
      proof -
        have "map fst (fst (run_progress (snd (insert_checkpoint e rid name d n s))))
            = map dr_run_id (durable_runs s)"
          by (simp add: insert_checkpoint_def Let_def update_run_def run_progress_def comp_def
              map_sql_update)
        then show ?thesis by (metis list.set_map)
      qed
      moreover have "cp_run_id ` set (snd (run_progress (snd (insert_checkpoint e rid name d n s))))
          = cp_run_id ` set (checkpoint_history s) \<union> {rid}"
        by (simp add: insert_checkpoint_def Let_def update_run_def run_progress_def)
      moreover have "cp_run_id ` set (checkpoint_history s) \<subseteq> dr_run_id ` set (durable_runs s)"
        using ok by (simp add: progress_ok_def run_progress_def image_image)
      moreover have "rid \<in> dr_run_id ` set (durable_runs s)"
        using r by auto
      ultimately show ?thesis by simp
    qed
  qed
qed

text \<open>In a database that satisfies the invariant, the current checkpoint has a history row.\<close>

lemma current_in_history:
  assumes "progress_ok (run_progress s)" "run_row_of rid s = Some r"
    and "0 \<le> checkpoint_rank (dr_accepted_checkpoint r)"
  shows "last_checkpoint rid (dr_accepted_checkpoint r) s \<noteq> None"
proof -
  have "dr_accepted_checkpoint r \<in> set (run_passed rid (checkpoint_history s))"
    using progress_ok_row [OF assms(1,2)] passed_last [OF assms(3)] by simp
  then show ?thesis
    by (auto simp: run_passed_def last_checkpoint_def find_None_iff)
qed

lemma accept_progress:
  assumes ok: "progress_ok (run_progress s)"
  shows "progress_ok (run_progress (snd (accept_checkpoint e rid name d n ow ep s)))"
proof (cases "fenced_validate_lease rid ow ep s")
  case (Inl err)
  with ok show ?thesis by (simp add: accept_checkpoint_def)
next
  case (Inr r)
  then have row: "run_row_of rid s = Some r"
    by (simp add: fenced_validate_row)
  let ?cur = "dr_accepted_checkpoint r"
  have acc: "?cur = '''' \<or> 0 \<le> checkpoint_rank ?cur"
    using progress_ok_row [OF ok row] by simp
  show ?thesis
  proof (cases "checkpoint_rank name = checkpoint_rank ?cur \<and> 0 \<le> checkpoint_rank ?cur")
    case True
    then have "last_checkpoint rid name s \<noteq> None"
      using current_in_history [OF ok row] rank_inject [of ?cur name] by simp
    then obtain c where "last_checkpoint rid name s = Some c"
      by blast
    with Inr True have "snd (accept_checkpoint e rid name d n ow ep s) = s"
      by (simp add: accept_checkpoint_def Let_def)
    with ok show ?thesis by simp
  next
    case False
    show ?thesis
    proof (cases "snd (accept_checkpoint e rid name d n ow ep s) = s")
      case True
      with ok show ?thesis by simp
    next
      case changed: False
      have "0 \<le> checkpoint_rank name" "?cur = '''' \<longrightarrow> name = ''PRE_PLANNER''"
          "checkpoint_rank ?cur \<le> checkpoint_rank name"
          "checkpoint_rank name \<le> checkpoint_rank ?cur + 1 \<or> checkpoint_rank ?cur < 0"
        using changed Inr by (auto simp: accept_checkpoint_def Let_def split: if_splits)
      with False acc rank_empty rank_first
      have nxt: "0 \<le> checkpoint_rank name" "checkpoint_rank name = checkpoint_rank ?cur + 1"
        by auto
      then have "snd (accept_checkpoint e rid name d n ow ep s) = snd (insert_checkpoint e rid name d n s)"
        using changed Inr by (auto simp: accept_checkpoint_def Let_def split: if_splits)
      with insert_checkpoint_progress [OF ok row nxt] show ?thesis
        by simp
    qed
  qed
qed

lemma run_store_progress:
  assumes "keys_ok s" "progress_ok (run_progress s)"
  shows "progress_ok (run_progress (snd (run_store c s)))"
proof (cases c)
  case (AcquireLease e tid ow x au pl)
  with acquire_progress [OF assms] show ?thesis by simp
next
  case (Fenced e rid ow ep fc)
  show ?thesis
  proof (cases "\<exists>n d a. fc = FCheckpoint n d a")
    case True
    with Fenced accept_progress [OF assms(2)] show ?thesis by auto
  next
    case False
    then have "progress_frame s (snd (run_fenced e rid ow ep fc s))"
      by (intro progress_run_fenced) blast
    with Fenced assms(2) show ?thesis by (simp add: progress_ok_frame)
  qed
qed (auto intro!: progress_ok_frame [OF _ assms(2)] simp: progress_create progress_task_ops
    progress_classify progress_cancel progress_recover progress_reconcile_one
    reconcile_expired_runs_def progress_reconcile_all)

lemma reachable_progress: "reachable s \<Longrightarrow> progress_ok (run_progress s)"
proof (induction rule: reachable.induct)
  case new_file
  then show ?case by (simp add: progress_ok_def run_progress_def empty_db_def)
next
  case (step s s')
  from step(2) show ?case
  proof (cases rule: db_step.cases)
    case (store_call c)
    with run_store_progress [OF reachable_keys [OF step(1)] step(3)] show ?thesis by simp
  next
    case open_control
    with step(3) show ?thesis by (simp add: init_control_schema_def run_progress_def)
  next
    case (control_call c)
    have "run_progress s' = run_progress s"
      using control_run_control [of s c] control_call
      by (simp add: control_frame_def store_part_def run_progress_def)
    with step(3) show ?thesis by simp
  qed
qed

end
