(* ===== verification/Budget_Invariant.thy ===== *)
theory Budget_Invariant
  imports Frames
begin

text \<open>
  The budgets of autonomous windows hold in every reachable database: what a window has
  observed is the sum of its settled reservations; while it is \<open>ACTIVE\<close>, observed plus reserved
  units stay within each configured limit; attempts stay within the task and retry limits.
\<close>

section \<open>Sums over tables\<close>

lemma sql_sum_update_same:
  "(\<And>r. r \<in> set t \<Longrightarrow> p r \<Longrightarrow> q (f r) = q r \<and> g (f r) = g r)
   \<Longrightarrow> sql_sum g q (sql_update p f t) = sql_sum g q t"
  by (induction t) (auto simp: table_simps)

text \<open>An update that hits one row changes a sum by that row's difference.\<close>

lemma sql_sum_update_one:
  assumes "distinct (map k t)" "a \<in> set t" "p a" "\<And>r. p r \<Longrightarrow> k r = k a"
  shows "sql_sum g q (sql_update p f t) =
         sql_sum g q t - (if q a then g a else 0) + (if q (f a) then g (f a) else 0)"
  using assms(1,2)
proof (induction t)
  case Nil
  then show ?case by simp
next
  case (Cons r t)
  show ?case
  proof (cases "r = a")
    case True
    have "\<not> p x" if "x \<in> set t" for x
    proof
      assume "p x"
      then have "k x = k a" by (rule assms(4))
      with that True Cons.prems(1) show False
        by (metis distinct.simps(2) image_eqI list.map(2) list.set_map)
    qed
    then have "sql_update p f t = t"
      by (rule sql_update_none)
    with True assms(3) show ?thesis by (simp add: table_simps)
  next
    case False
    then have "a \<in> set t" using Cons.prems(2) by simp
    moreover have "\<not> p r"
      using assms(4) [of r] Cons.prems(1) \<open>a \<in> set t\<close> by auto
    ultimately show ?thesis
      using Cons by (simp add: table_simps)
  qed
qed

lemma key_inject: "distinct (map k t) \<Longrightarrow> a \<in> set t \<Longrightarrow> b \<in> set t \<Longrightarrow> k a = k b \<Longrightarrow> a = b"
  by (simp add: distinct_map inj_on_def)

lemma key_set_update:
  "(\<And>r. p r \<Longrightarrow> k (f r) = k r) \<Longrightarrow> k ` set (sql_update p f t) = k ` set t"
  using map_sql_update [of p k f t] by (metis list.set_map)

section \<open>The invariant\<close>

definition held_units :: "(reservation_row \<Rightarrow> int) \<Rightarrow> string \<Rightarrow> reservation_row list \<Rightarrow> int" where
  "held_units f wid rs = sql_sum f (\<lambda>r. br_window_id r = wid \<and> br_state r = ''ACTIVE'') rs"

definition settled_units :: "(reservation_row \<Rightarrow> int option) \<Rightarrow> string \<Rightarrow> reservation_row list \<Rightarrow> int" where
  "settled_units f wid rs = sql_sum (\<lambda>r. units (f r)) (\<lambda>r. br_window_id r = wid) rs"

definition within :: "int \<Rightarrow> int \<Rightarrow> bool" where
  "within limit n \<longleftrightarrow> (0 < limit \<longrightarrow> n \<le> limit)"

definition window_sound :: "reservation_row list \<Rightarrow> window_row \<Rightarrow> bool" where
  "window_sound rs w \<longleftrightarrow>
     w_observed_token_units w = settled_units br_observed_token_units (w_id w) rs
     \<and> w_observed_cost_micro_units w = settled_units br_observed_cost_micro_units (w_id w) rs
     \<and> (w_status w = ''ACTIVE'' \<longrightarrow>
          within (w_max_token_units w)
            (w_observed_token_units w + held_units br_reserved_token_units (w_id w) rs)
          \<and> within (w_max_cost_micro_units w)
            (w_observed_cost_micro_units w + held_units br_reserved_cost_micro_units (w_id w) rs))
     \<and> w_tasks_started w \<le> max 0 (w_max_tasks w) \<and> w_retries_used w \<le> max 0 (w_max_retries w)"

definition reservation_sound :: "window_row list \<Rightarrow> reservation_row \<Rightarrow> bool" where
  "reservation_sound ws r \<longleftrightarrow>
     br_window_id r \<in> w_id ` set ws
     \<and> (br_state r = ''ACTIVE'' \<longrightarrow>
          br_observed_token_units r = None \<and> br_observed_cost_micro_units r = None)"

definition budget_sound :: "window_row list \<Rightarrow> reservation_row list \<Rightarrow> bool" where
  "budget_sound ws rs \<longleftrightarrow> list_all (window_sound rs) ws \<and> list_all (reservation_sound ws) rs"

lemma reserved_held: "reserved_in f wid s = held_units f wid (reservations s)"
  by (simp add: reserved_in_def held_units_def)

section \<open>Activation, expiry, stop\<close>

lemma no_units:
  assumes "list_all (reservation_sound ws) rs" "wid \<notin> w_id ` set ws"
  shows "held_units f wid rs = 0" "settled_units g wid rs = 0"
proof -
  have "filter (\<lambda>r. br_window_id r = wid) rs = []"
    using assms by (auto simp: list_all_iff reservation_sound_def filter_empty_conv)
  then show "held_units f wid rs = 0" "settled_units g wid rs = 0"
    by (auto simp: held_units_def settled_units_def sql_sum_def filter_empty_conv)
qed

lemma budget_new_window:
  assumes "budget_sound ws rs" "w_id w \<notin> w_id ` set ws"
    and "w_observed_token_units w = 0" "w_observed_cost_micro_units w = 0"
    and "w_tasks_started w = 0" "w_retries_used w = 0"
  shows "budget_sound (ws @ [w]) rs"
proof -
  have "list_all (reservation_sound ws) rs"
    using assms(1) by (simp add: budget_sound_def)
  from no_units [OF this assms(2)] assms show ?thesis
    by (auto simp: budget_sound_def window_sound_def within_def list_all_iff reservation_sound_def)
qed

text \<open>An update that keeps the counters and does not make a window active.\<close>

lemma budget_window_update:
  assumes "budget_sound ws rs"
    and "\<And>w. p w \<Longrightarrow> w_id (f w) = w_id w \<and> w_observed_token_units (f w) = w_observed_token_units w
          \<and> w_observed_cost_micro_units (f w) = w_observed_cost_micro_units w
          \<and> w_max_token_units (f w) = w_max_token_units w
          \<and> w_max_cost_micro_units (f w) = w_max_cost_micro_units w
          \<and> w_max_tasks (f w) = w_max_tasks w \<and> w_max_retries (f w) = w_max_retries w
          \<and> w_tasks_started (f w) = w_tasks_started w \<and> w_retries_used (f w) = w_retries_used w
          \<and> w_status (f w) \<noteq> ''ACTIVE''"
  shows "budget_sound (sql_update p f ws) rs"
proof -
  have "w_id ` set (sql_update p f ws) = w_id ` set ws"
    by (rule key_set_update) (simp add: assms(2))
  moreover have "window_sound rs (f w)" if "window_sound rs w" "p w" for w
    using that assms(2) [of w] by (simp add: window_sound_def)
  ultimately show ?thesis
    using assms(1) by (auto simp: budget_sound_def list_all_iff set_sql_update reservation_sound_def)
qed

lemma budget_activate:
  assumes "budget_sound (windows s) (reservations s)"
  shows "budget_sound (windows (snd (activate_window e p c s)))
           (reservations (snd (activate_window e p c s)))"
proof -
  have "budget_sound (windows s @ [new_window_row e p]) (reservations s)"
    if "\<not> list_ex (\<lambda>b. w_id (new_window_row e p) = w_id b \<or> P b) (windows s)" for P
    using that by (intro budget_new_window [OF assms])
      (auto simp: new_window_row_def list_ex_iff)
  then show ?thesis
    using assms
    by (auto simp: activate_window_def Let_def sql_insert_def split: option.splits)
qed

lemma budget_expire:
  "budget_sound ws rs \<Longrightarrow> budget_sound (sql_update p (expire_window e k) ws) rs"
  by (erule budget_window_update) (simp add: expire_window_def)

lemma budget_active_window:
  "budget_sound (windows s) (reservations s) \<Longrightarrow>
   budget_sound (windows (snd (active_window e now s))) (reservations (snd (active_window e now s)))"
  by (simp add: active_window_def Let_def budget_expire)

lemma budget_stop_window:
  assumes "budget_sound (windows s) (reservations s)"
  shows "budget_sound (windows (snd (stop_window e wid r s))) (reservations (snd (stop_window e wid r s)))"
proof -
  have "budget_sound (sql_update p (\<lambda>w. w\<lparr>w_status := ''STOPPED'', w_stop_reason := x,
      w_updated_at := u\<rparr>) (windows s)) (reservations s)" for p x u
    by (rule budget_window_update [OF assms]) simp
  then show ?thesis by (simp add: stop_window_def Let_def)
qed

section \<open>Claims\<close>

lemma window_hit:
  "keys_ok s \<Longrightarrow> window_row_of wid s = Some w \<Longrightarrow> r \<in> set (windows s) \<Longrightarrow> w_id r = wid \<Longrightarrow> r = w"
  by (rule window_unique)

text \<open>What the two writes of a claim do to windows and reservations.\<close>

lemma write_claim_frame:
  "write_claim e wid tid ow ep x s = (Inr u, t) \<Longrightarrow> windows t = windows s \<and> reservations t = reservations s"
  by (auto simp: write_claim_def sql_insert_def split: option.splits if_splits)

lemma open_reservation_cong: "reservations t = reservations s \<Longrightarrow> open_reservation tid wid t = open_reservation tid wid s"
  by (simp add: open_reservation_def)

lemma rekeyed_sums:
  fixes rs :: "reservation_row list"
  defines "rs' p ep u \<equiv> sql_update p (\<lambda>r. r\<lparr>br_claim_epoch := ep, br_updated_at := u\<rparr>) rs"
  shows "held_units br_reserved_token_units wid (rs' p ep u) = held_units br_reserved_token_units wid rs"
    "held_units br_reserved_cost_micro_units wid (rs' p ep u) = held_units br_reserved_cost_micro_units wid rs"
    "settled_units br_observed_token_units wid (rs' p ep u) = settled_units br_observed_token_units wid rs"
    "settled_units br_observed_cost_micro_units wid (rs' p ep u) = settled_units br_observed_cost_micro_units wid rs"
  by (simp_all add: rs'_def held_units_def settled_units_def sql_sum_update_same)

lemma budget_rekey:
  assumes "budget_sound ws rs"
  shows "budget_sound ws (sql_update p (\<lambda>r. r\<lparr>br_claim_epoch := ep, br_updated_at := u\<rparr>) rs)"
  using assms
  by (auto simp: budget_sound_def list_all_iff window_sound_def rekeyed_sums set_sql_update
      reservation_sound_def)

lemma budget_new_reservation:
  assumes "budget_sound ws rs" "w \<in> set ws" "distinct (map w_id ws)" "br_window_id r = w_id w"
    and "br_observed_token_units r = None" "br_observed_cost_micro_units r = None"
    and "br_state r = ''ACTIVE''"
    and "within (w_max_token_units w) (w_observed_token_units w
           + held_units br_reserved_token_units (w_id w) rs + br_reserved_token_units r)"
    and "within (w_max_cost_micro_units w) (w_observed_cost_micro_units w
           + held_units br_reserved_cost_micro_units (w_id w) rs + br_reserved_cost_micro_units r)"
  shows "budget_sound ws (rs @ [r])"
proof -
  have "window_sound (rs @ [r]) v" if "v \<in> set ws" for v
  proof (cases "w_id v = w_id w")
    case True
    then have "v = w"
      by (rule key_inject [OF assms(3) that assms(2)])
    with assms that show ?thesis
      by (auto simp: budget_sound_def list_all_iff window_sound_def held_units_def
          settled_units_def table_simps units_def algebra_simps)
  next
    case False
    with assms that show ?thesis
      by (auto simp: budget_sound_def list_all_iff window_sound_def held_units_def
          settled_units_def table_simps)
  qed
  with assms show ?thesis
    by (auto simp: budget_sound_def list_all_iff reservation_sound_def)
qed

lemma claim_budget_within:
  assumes "claim_budget_error w tid s = None" "open_reservation tid (w_id w) s = None"
  shows "within (w_max_token_units w) (w_observed_token_units w
           + held_units br_reserved_token_units (w_id w) (reservations s) + w_per_task_token_reservation w)"
    and "within (w_max_cost_micro_units w) (w_observed_cost_micro_units w
           + held_units br_reserved_cost_micro_units (w_id w) (reservations s)
           + w_per_task_cost_reservation w)"
  using assms by (auto simp: claim_budget_error_def budget_refuses_def within_def reserved_held
      split: if_splits)

lemma budget_write_reservation:
  assumes "budget_sound (windows s) (reservations s)" "w \<in> set (windows s)"
    and "distinct (map w_id (windows s))" "claim_budget_error w tid s = None"
    and "write_reservation e w tid ep s = (Inr u, t)"
  shows "budget_sound (windows t) (reservations t) \<and> windows t = windows s"
proof (cases "open_reservation tid (w_id w) s")
  case None
  let ?r = "\<lparr>br_task_id = tid, br_claim_epoch = ep, br_window_id = w_id w,
             br_reserved_token_units = w_per_task_token_reservation w,
             br_reserved_cost_micro_units = w_per_task_cost_reservation w,
             br_state = ''ACTIVE'', br_observed_token_units = None,
             br_observed_cost_micro_units = None, br_created_at = utc e 3,
             br_updated_at = utc e 4, br_reconciled_at = ''''\<rparr>"
  have "budget_sound (windows s) (reservations s @ [?r])"
    using claim_budget_within [OF assms(4) None]
    by (intro budget_new_reservation [OF assms(1-3)]) simp_all
  with None assms(5) show ?thesis
    by (auto simp: write_reservation_def sql_insert_def Let_def split: if_splits)
next
  case (Some r)
  with assms(1,5) budget_rekey [OF assms(1)] show ?thesis
    by (auto simp: write_reservation_def Let_def split: if_splits)
qed

lemma budget_charge:
  assumes "budget_sound (windows s) (reservations s)"
    and "\<And>v. v \<in> set (windows s) \<Longrightarrow> w_id v = wid \<Longrightarrow>
           (if retry then w_retries_used v < w_max_retries v else w_tasks_started v < w_max_tasks v)"
  shows "budget_sound (windows (charge_attempt e wid retry s)) (reservations (charge_attempt e wid retry s))"
proof -
  let ?f = "\<lambda>w. if retry then w\<lparr>w_retries_used := w_retries_used w + 1, w_updated_at := utc e 5\<rparr>
              else w\<lparr>w_tasks_started := w_tasks_started w + 1, w_updated_at := utc e 5\<rparr>"
  have "w_id ` set (sql_update (\<lambda>w. w_id w = wid) ?f (windows s)) = w_id ` set (windows s)"
    by (rule key_set_update) simp
  moreover have "window_sound (reservations s) (?f v)"
    if "v \<in> set (windows s)" "w_id v = wid" "window_sound (reservations s) v" for v
    using that(3) assms(2) [OF that(1,2)] by (auto simp: window_sound_def)
  ultimately show ?thesis
    using assms(1) unfolding charge_attempt_def budget_sound_def list_all_iff
    by (auto simp: set_sql_update reservation_sound_def)
qed

lemma budget_claim_txn:
  assumes "budget_sound (windows s) (reservations s)" "keys_ok s"
    and "claim_task_txn e wid tid ow l s = (Inr n, t)"
  shows "budget_sound (windows t) (reservations t)"
proof -
  obtain w where w: "window_row_of wid s = Some w"
    using assms(3) by (cases "window_row_of wid s") (auto simp: claim_task_txn_def Let_def)
  then have wid: "w \<in> set (windows s)" "w_id w = wid"
    using find_SomeD [OF w [unfolded window_row_of_def]] by simp_all
  obtain task where task: "task_row_of tid s = Some task"
    using assms(3) w by (cases "task_row_of tid s") (auto simp: claim_task_txn_def Let_def split: if_splits)
  let ?retry = "t_status task = ''INTERRUPTED''"
  have guards: "if ?retry then w_retries_used w < w_max_retries w else w_tasks_started w < w_max_tasks w"
    and fits: "claim_budget_error w tid s = None"
    using assms(3) w task
    by (auto simp: claim_task_txn_def Let_def split: if_splits option.splits)
  obtain s1 s2 u v where steps:
    "write_claim e wid tid ow (next_epoch tid s) (now_ms e 0 + l) s = (Inr u, s1)"
    "write_reservation e w tid (next_epoch tid s) s1 = (Inr v, s2)"
    "t = charge_attempt e wid ?retry s2"
    using assms(3) w task fits
    by (auto simp: claim_task_txn_def Let_def andthen_ok split: if_splits option.splits)
  have same: "windows s1 = windows s" "reservations s1 = reservations s"
    using write_claim_frame [OF steps(1)] by simp_all
  have fits1: "claim_budget_error w tid s1 = None"
  proof -
    have "reserved_in f x s1 = reserved_in f x s" for f x
      by (simp add: reserved_in_def same(2))
    then have "claim_budget_error w tid s1 = claim_budget_error w tid s"
      by (simp add: claim_budget_error_def open_reservation_cong [OF same(2)])
    with fits show ?thesis by simp
  qed
  have b: "budget_sound (windows s2) (reservations s2) \<and> windows s2 = windows s1"
  proof (rule budget_write_reservation [OF _ _ _ fits1 steps(2)])
    show "budget_sound (windows s1) (reservations s1)" "w \<in> set (windows s1)"
      using assms(1) wid(1) same by simp_all
    show "distinct (map w_id (windows s1))"
      using assms(2) same(1) by (simp add: keys_ok_def)
  qed
  have ws: "windows s2 = windows s"
    using b same(1) by simp
  show ?thesis
    unfolding steps(3)
  proof (rule budget_charge [OF conjunct1 [OF b]])
    fix x assume "x \<in> set (windows s2)" "w_id x = wid"
    then have "x = w"
      using window_hit [OF assms(2) w] ws by simp
    with guards show "if ?retry then w_retries_used x < w_max_retries x
        else w_tasks_started x < w_max_tasks x" by simp
  qed
qed

lemma budget_claim_task:
  assumes "budget_sound (windows s) (reservations s)" "keys_ok s"
  shows "budget_sound (windows (snd (claim_task e wid tid ow l s)))
           (reservations (snd (claim_task e wid tid ow l s)))"
proof -
  have "budget_sound (windows t) (reservations t)"
    if "transact w s (claim_task_txn e wid tid ow l s) = (r, t)" for w r t
    using that budget_claim_txn [OF assms] assms(1)
    by (cases "claim_task_txn e wid tid ow l s"; cases "fst (claim_task_txn e wid tid ow l s)") auto
  then show ?thesis
    unfolding claim_task_def
    by (intro andthen_state [where P = "\<lambda>t. budget_sound (windows t) (reservations t)"])
      (auto simp: prod_eq_iff)
qed

section \<open>Settlement\<close>

text \<open>
  Settling one reservation of a window moves its amount from reserved to observed. The window
  stays active only when the amount observed is known and fits every limited reservation.
\<close>

definition settle_reservation ::
    "env \<Rightarrow> string \<Rightarrow> usage_result \<Rightarrow> reservation_row \<Rightarrow> reservation_row" where
  "settle_reservation e state u r =
     r\<lparr>br_state := state,
       br_observed_token_units := (if ur_unknown u then None else Some (ur_tokens u)),
       br_observed_cost_micro_units := (if ur_unknown u then None else Some (ur_cost u)),
       br_updated_at := utc e 0, br_reconciled_at := utc e 1\<rparr>"

definition usage_coherent :: "usage_result \<Rightarrow> bool" where
  "usage_coherent u \<longleftrightarrow> (ur_unknown u \<longrightarrow> ur_tokens u = 0 \<and> ur_cost u = 0)"

lemma settle_usage_coherent: "usage_coherent (settle_usage k obs)"
  by (simp add: usage_coherent_def settle_usage_def Let_def)

lemma units_None: "units None = 0"
  by (simp add: units_def)

lemma budget_settle:
  assumes sound: "budget_sound ws rs" and a: "a \<in> set rs" "p a" "br_window_id a = wid"
    and one: "distinct (map k rs)" "\<And>r. p r \<Longrightarrow> k r = k a"
    and held: "\<And>r. p r \<Longrightarrow> br_state r = ''ACTIVE''" and st: "state \<noteq> ''ACTIVE''"
    and u: "usage_coherent u"
    and w: "w \<in> set ws" "w_id w = wid" "distinct (map w_id ws)"
  shows "budget_sound
           (sql_update (\<lambda>w. w_id w = wid) (settle_window e b (usage_overrun w a u) u) ws)
           (sql_update p (settle_reservation e' state u) rs)"
proof -
  let ?g = "settle_reservation e' state u"
  let ?f = "settle_window e b (usage_overrun w a u) u"
  let ?rs = "sql_update p ?g rs"
  have ga: "br_window_id (?g r) = br_window_id r" "br_state (?g r) = state"
    "br_reserved_token_units (?g r) = br_reserved_token_units r"
    "br_reserved_cost_micro_units (?g r) = br_reserved_cost_micro_units r"
    "units (br_observed_token_units (?g r)) = ur_tokens u"
    "units (br_observed_cost_micro_units (?g r)) = ur_cost u" for r
    using u by (auto simp: settle_reservation_def units_def usage_coherent_def)
  have anone: "br_observed_token_units a = None" "br_observed_cost_micro_units a = None"
    using sound a held by (auto simp: budget_sound_def list_all_iff reservation_sound_def)
  have sum1: "sql_sum h q ?rs = sql_sum h q rs - (if q a then h a else 0)
      + (if q (?g a) then h (?g a) else 0)" for h q
    by (rule sql_sum_update_one [where k = k and p = p and a = a, OF one(1) a(1) a(2)]) (rule one(2))
  have held': "held_units f x ?rs = held_units f x rs - (if x = wid then f a else 0)" for f x
    using sum1 [of f "\<lambda>r. br_window_id r = x \<and> br_state r = ''ACTIVE''"] a(3) held [OF a(2)] st
    by (simp add: held_units_def ga)
  have tok: "settled_units br_observed_token_units x ?rs
      = settled_units br_observed_token_units x rs + (if x = wid then ur_tokens u else 0)" for x
    using sum1 [of "\<lambda>r. units (br_observed_token_units r)" "\<lambda>r. br_window_id r = x"] a(3) anone
    by (simp add: settled_units_def ga units_None)
  have cost: "settled_units br_observed_cost_micro_units x ?rs
      = settled_units br_observed_cost_micro_units x rs + (if x = wid then ur_cost u else 0)" for x
    using sum1 [of "\<lambda>r. units (br_observed_cost_micro_units r)" "\<lambda>r. br_window_id r = x"] a(3) anone
    by (simp add: settled_units_def ga units_None)
  have other: "window_sound ?rs v" if "window_sound rs v" "w_id v \<noteq> wid" for v
    using that unfolding window_sound_def by (auto simp: held' tok cost)
  have this_window: "window_sound ?rs (?f w)" if "window_sound rs w"
    using that w(2)
    by (auto simp: window_sound_def held' tok cost settle_window_def Let_def usage_overrun_def
        within_def)
  have ids: "w_id ` set (sql_update (\<lambda>w. w_id w = wid) ?f ws) = w_id ` set ws"
    by (rule key_set_update) (simp add: settle_window_def Let_def)
  have "window_sound ?rs v" if v: "v \<in> set (sql_update (\<lambda>w. w_id w = wid) ?f ws)" for v
  proof -
    obtain x where x: "x \<in> set ws" "v = (if w_id x = wid then ?f x else x)"
      using sql_update_row [OF v] by blast
    have sx: "window_sound rs x"
      using sound x(1) by (simp add: budget_sound_def list_all_iff)
    show ?thesis
    proof (cases "w_id x = wid")
      case True
      then have "x = w"
        using key_inject [OF w(3) x(1) w(1)] w(2) by simp
      with x(2) True this_window sx show ?thesis by simp
    next
      case False
      with x(2) other [OF sx] show ?thesis by simp
    qed
  qed
  moreover have "reservation_sound ws r" if "r \<in> set ?rs" for r
    using sound that st
    by (auto simp: budget_sound_def list_all_iff reservation_sound_def set_sql_update ga)
  ultimately show ?thesis
    by (simp add: budget_sound_def list_all_iff reservation_sound_def ids)
qed

lemma budget_finalize:
  assumes "budget_sound (windows s) (reservations s)" "keys_ok s"
    and "finalize_claim_txn e wid tid ow ep st b s = (Inr state, t)"
  shows "budget_sound (windows t) (reservations t)"
proof -
  let ?held = "\<lambda>r. br_task_id r = tid \<and> br_claim_epoch r = ep \<and> br_state r = ''ACTIVE''"
  obtain a where a: "find (\<lambda>r. ?held r \<and> br_window_id r = wid) (reservations s) = Some a"
    using assms(3) by (cases "find (\<lambda>r. ?held r \<and> br_window_id r = wid) (reservations s)")
      (auto simp: finalize_claim_txn_def Let_def split: if_splits)
  then have ra: "a \<in> set (reservations s)" "?held a" "br_window_id a = wid"
    using find_SomeD [OF a] by simp_all
  obtain w where w: "window_row_of wid s = Some w"
    using assms(3) a by (cases "window_row_of wid s")
      (auto simp: finalize_claim_txn_def Let_def split: if_splits)
  then have rw: "w \<in> set (windows s)" "w_id w = wid"
    using find_SomeD [OF w [unfolded window_row_of_def]] by simp_all
  obtain task where task: "task_row_of tid s = Some task"
    using assms(3) a w by (cases "task_row_of tid s")
      (auto simp: finalize_claim_txn_def Let_def split: if_splits)
  let ?u = "settle_usage (t_executor_kind task) (uncharged tid wid s)"
  let ?state = "if ur_unknown ?u then ''UNKNOWN'' else if usage_overrun w a ?u then ''OVERRUN''
                else ''RECONCILED''"
  have t: "windows t = sql_update (\<lambda>w. w_id w = wid) (settle_window e b (usage_overrun w a ?u) ?u) (windows s)"
    "reservations t = sql_update ?held (settle_reservation e ?state ?u) (reservations s)"
    using assms(3) a w task
    by (auto simp: finalize_claim_txn_def Let_def settle_reservation_def [abs_def]
        split: if_splits sum.splits)
  show ?thesis
    unfolding t
  proof (rule budget_settle [where k = "\<lambda>r. (br_task_id r, br_claim_epoch r)"])
    show "budget_sound (windows s) (reservations s)" "a \<in> set (reservations s)"
      "br_window_id a = wid" "w \<in> set (windows s)" "w_id w = wid"
      using assms(1) ra rw by simp_all
    show "distinct (map (\<lambda>r. (br_task_id r, br_claim_epoch r)) (reservations s))"
      "distinct (map w_id (windows s))"
      using assms(2) by (simp_all add: keys_ok_def)
    show "usage_coherent ?u" by (rule settle_usage_coherent)
    show "?state \<noteq> ''ACTIVE''" by simp
  qed (use ra in auto)
qed

lemma budget_close_claim:
  assumes "budget_sound (windows s) (reservations s)" "keys_ok s"
  shows "budget_sound (windows (snd (close_claim e wid tid ow ep st b r x s)))
           (reservations (snd (close_claim e wid tid ow ep st b r x s)))"
proof -
  let ?P = "\<lambda>t. budget_sound (windows t) (reservations t)"
  have fin: "?P (snd (finalize_task_claim e wid tid ow ep st b s))"
    using budget_finalize [OF assms, of e wid tid ow ep st b] assms(1)
    by (auto simp: finalize_task_claim_def transact_def split: prod.splits sum.splits)
  have receipt: "?P (snd (append_receipt e' w i t))" if "?P t" for e' w i t
    using that by (auto simp: append_receipt_def sql_insert_def split: option.splits sum.splits)
  show ?thesis
    unfolding close_claim_def
    by (rule andthen_state [where P = ?P, OF fin])
      (auto intro!: andthen_state [where P = ?P] receipt split: sum.splits)
qed

section \<open>Every other call leaves windows and reservations alone\<close>

lemma store_keeps_control: "control_part (snd (run_store c s)) = control_part s"
proof -
  have acquire: "control_part (snd (acquire_durable_lease e q s)) = control_part s" for e q
    unfolding acquire_durable_lease_def
    by (rule andthen_state [where P = "\<lambda>t. control_part t = control_part s"])
      (auto simp: transact_def acquire_lease_txn_def Let_def sql_insert_def control_part_def
        split: prod.splits sum.splits option.splits if_splits)
  have accept: "control_part (snd (accept_checkpoint e rid n d a ow ep s)) = control_part s"
    for e rid n d a ow ep
    by (auto simp: accept_checkpoint_def insert_checkpoint_def update_run_def Let_def
        control_part_def split: sum.splits option.splits)
  have fenced: "control_part (snd (run_fenced e rid ow ep fc s)) = control_part s" for e rid ow ep fc
  proof (cases "\<exists>n d a. fc = FCheckpoint n d a")
    case True
    with accept show ?thesis by auto
  next
    case False
    then have "progress_frame s (snd (run_fenced e rid ow ep fc s))"
      by (intro progress_run_fenced) blast
    then show ?thesis by (simp add: progress_frame_def)
  qed
  show ?thesis
    using progress_create [of s] progress_task_ops [of s] progress_classify [of s]
      progress_cancel [of s] progress_recover [of s] progress_reconcile_one [of s]
      progress_reconcile_all [of s]
    by (cases c)
      (auto simp: acquire fenced acquire_or_find_lease_def reconcile_expired_runs_def
        progress_frame_def split: sum.splits)
qed

fun window_call :: "control_call \<Rightarrow> bool" where
  "window_call (ActivateWindow e p x) = True"
| "window_call (ActiveWindow e n) = True"
| "window_call (StopWindow e w r) = True"
| "window_call (ClaimTask e w tid ow l) = True"
| "window_call (AbandonClaim e w tid ow ep r) = True"
| "window_call (CompleteClaim e w tid ow ep r) = True"
| "window_call c = False"

lemma other_control_calls:
  assumes "\<not> window_call c"
  shows "windows (snd (run_control c s)) = windows s \<and> reservations (snd (run_control c s)) = reservations s
    \<and> claims (snd (run_control c s)) = claims s"
proof -
  let ?P = "\<lambda>t. windows t = windows s \<and> reservations t = reservations s \<and> claims t = claims s"
  have create: "windows (snd (create_goal e q t)) = windows t
      \<and> reservations (snd (create_goal e q t)) = reservations t
      \<and> claims (snd (create_goal e q t)) = claims t" for e q t
    by (auto simp: create_goal_def sql_insert_def split: option.splits)
  have goal: "?P (snd (goal_update g f h err s))" for g f h err
    by (simp add: goal_update_def Let_def)
  have promote: "?P (snd (promote_inbox_item e i s))" for e i
  proof -
    have "windows (snd (mark_inbox_item_promoted e' j g t)) = windows t
        \<and> reservations (snd (mark_inbox_item_promoted e' j g t)) = reservations t
        \<and> claims (snd (mark_inbox_item_promoted e' j g t)) = claims t" for e' j g t
      by (auto simp: mark_inbox_item_promoted_def Let_def split: sum.splits)
    then have mark: "?P (snd (andthen (mark_inbox_item_promoted e' j g t)
        (\<lambda>i' u. (map_sum id (Pair i') (get_goal g' u), u))))" if "?P t" for e' j g t g'
      using that by (intro andthen_state [where P = ?P]) simp_all
    have "?P (snd (andthen (create_goal e q s) (\<lambda>g t.
        if g_status g \<noteq> ''DRAFT'' then (Inl (TaskStoreError ''inbox_promotion_goal_not_draft''), t)
        else andthen (mark_inbox_item_promoted (later 1 e) i (g_id g) t)
               (\<lambda>i' u. (map_sum id (Pair i') (get_goal (g_id g) u), u)))))" for q
      using create [of e q s] mark by (intro andthen_state [where P = ?P]) simp_all
    then show ?thesis
      by (simp add: promote_inbox_item_def split: sum.splits)
  qed
  have upsert: "?P (snd (upsert_publication e t i s))" for e t i
    unfolding upsert_publication_def
    by (auto simp: sql_insert_def intro!: andthen_state [where P = ?P] split: option.splits)
  show ?thesis
    using assms
    by (cases c)
      (auto simp: create goal promote upsert save_goal_plan_def approve_goal_def amend_goal_def
        mark_goal_running_def link_goal_task_def refresh_goal_status_def append_receipt_def
        capture_inbox_item_def dismiss_inbox_item_def create_roadmap_phase_def
        attach_goal_to_phase_def detach_goal_from_phase_def Let_def sql_insert_def
        split: option.splits sum.splits)
qed

lemma budget_run_control:
  assumes "budget_sound (windows s) (reservations s)" "keys_ok s"
  shows "budget_sound (windows (snd (run_control c s))) (reservations (snd (run_control c s)))"
proof (cases c)
  case (ActivateWindow e p x)
  with budget_activate [OF assms(1)] show ?thesis by simp
next
  case (ActiveWindow e n)
  with budget_active_window [OF assms(1)] show ?thesis by simp
next
  case (StopWindow e w r)
  with budget_stop_window [OF assms(1)] show ?thesis by simp
next
  case (ClaimTask e w t ow l)
  with budget_claim_task [OF assms] show ?thesis by simp
next
  case (AbandonClaim e w t ow ep r)
  with budget_close_claim [OF assms] show ?thesis by (simp add: abandon_task_claim_def)
next
  case (CompleteClaim e w t ow ep r)
  with budget_close_claim [OF assms] show ?thesis by (simp add: complete_task_claim_def)
qed (simp_all add: other_control_calls assms(1) del: run_control.simps)

lemma reachable_budget: "reachable s \<Longrightarrow> budget_sound (windows s) (reservations s)"
proof (induction rule: reachable.induct)
  case new_file
  then show ?case by (simp add: budget_sound_def empty_db_def)
next
  case (step s s')
  from step(2) show ?case
  proof (cases rule: db_step.cases)
    case (store_call c)
    with store_keeps_control [of c s] step(3) show ?thesis by (simp add: control_part_def)
  next
    case open_control
    with step(3) show ?thesis by (simp add: init_control_schema_def)
  next
    case (control_call c)
    with budget_run_control [OF step(3) reachable_keys [OF step(1)]] show ?thesis by simp
  qed
qed

end
