(* ===== verification/Scenarios.thy ===== *)
theory Scenarios
  imports Lease_Fencing Checkpoint_History Budget_Invariant
begin

text \<open>
  Concrete clients and databases for the witnesses: an environment with a numbered identifier
  and a fixed clock, requests, and the databases that short sequences of calls produce.
\<close>

definition wenv :: "int \<Rightarrow> int \<Rightarrow> env" where
  "wenv i ms = \<lparr>utc = (\<lambda>_. ''2026-01-01T00:00:00Z''), now_ms = (\<lambda>_. ms),
     uuid = (\<lambda>k. str_of_int (i + k)), sha256 = (\<lambda>x. x)\<rparr>"

definition wtask :: "string \<Rightarrow> string \<Rightarrow> task_request" where
  "wtask title key =
     \<lparr>q_title = title, q_repository = ''o/r'', q_executor_kind = ''opencode'',
      q_model_profile_ref = '''', q_binding_ref = '''', q_permission_profile = ''P'',
      q_policy_ref = '''', q_workspace = '''', q_branch = '''', q_idempotency_key = key,
      q_orchestration_mode = ''single''\<rparr>"

definition w_task_id :: string where "w_task_id = ''task-0-1''"
definition w_run_id :: string where "w_run_id = ''run-task-0-1-2''"

text \<open>A queued task; its run held by A; its run taken over by B.\<close>

definition queued_calls :: "call list" where
  "queued_calls = [StoreCall (CreateTask (wenv 1 0) (wtask ''t'' ''k''))]"

definition held_calls :: "call list" where
  "held_calls = queued_calls @ [StoreCall (AcquireLease (wenv 2 0) w_task_id ''A'' 1000 ''au'' ''pl'')]"

definition taken_calls :: "call list" where
  "taken_calls = held_calls @
     [StoreCall (Fenced (wenv 3 0) w_run_id ''A'' 1 (FCheckpoint ''PRE_PLANNER'' ''d0'' 1)),
      StoreCall (RecoverLease (wenv 4 0) w_run_id ''B'' 1000 False)]"

definition queued_db :: db where "queued_db = run_calls queued_calls empty_db"
definition held_db :: db where "held_db = run_calls held_calls empty_db"
definition taken_db :: db where "taken_db = run_calls taken_calls empty_db"

lemma reachable_scenarios: "reachable queued_db" "reachable held_db" "reachable taken_db"
  by (auto simp: queued_db_def held_db_def taken_db_def intro: reachable_run reachable.new_file)

lemma taken_lease: "run_lease taken_db w_run_id = Some (''B'', 2)"
  by code_simp

end
