(* ===== verification/Run_Properties.thy ===== *)
theory Run_Properties
  imports Scenarios
begin

text \<open>
  The properties of durable runs: fencing, acquisition, checkpoints and the journal of external
  operations. Each is a few steps over the lemmas of \<open>Lease_Fencing\<close>, \<open>Run_Laws\<close> and
  \<open>Checkpoint_History\<close>.
\<close>

section \<open>Fencing\<close>

text \<open>
  C1. A holder whose lease was superseded (the epoch has moved on, or the lease was given up)
  is refused by every fenced call of the store in every later reachable database, and the
  refused call changes nothing.
\<close>

theorem stale_holder_fenced_forever:
  assumes "reachable s" "run_lease s rid = Some l" "superseded ow ep l" "live_step\<^sup>*\<^sup>* s s'"
  shows "\<exists>err. run_fenced e rid ow ep c s' = (Inl err, s')"
  using run_fence.fenced_forever [OF assms, of "(e, c)"] by simp

lemma taken_superseded: "superseded ''A'' 1 (''B'', 2)"
  by (simp add: superseded_def)

theorem stale_holder_fenced_forever_witness:
  "\<exists>err. run_fenced (wenv 9 50) w_run_id ''A'' 1 (FTransition w_task_id ''RUNNING'') taken_db
     = (Inl err, taken_db)"
  by (rule stale_holder_fenced_forever [OF reachable_scenarios(3) taken_lease taken_superseded
        rtranclp.rtrancl_refl])

text \<open>
  An epoch has one owner: if a run's lease is held in epoch n by a and, in a later database,
  in epoch n by a named b, then a and b are the same.
\<close>

theorem run_epoch_has_one_owner:
  assumes "run_lease s rid = Some (a, n)" "live_step\<^sup>*\<^sup>* s s'" "run_lease s' rid = Some (b, n)" "b \<noteq> ''''"
  shows "a = b"
  by (rule run_fence.one_owner_per_epoch [OF assms])

theorem run_epoch_has_one_owner_witness: "''B'' = (''B'' :: string)"
  by (rule run_epoch_has_one_owner [OF taken_lease rtranclp.rtrancl_refl taken_lease]) simp

text \<open>
  A successful recovery opens the next epoch for the new owner and supersedes whoever held
  the lease before, unless it is the same owner asking again with the new epoch.
\<close>

theorem recovery_supersedes:
  assumes "keys_ok s" "run_row_of rid s = Some r"
    and "recover_durable_lease e rid ow x req s = (Inr h, s')"
  shows "\<exists>r'. run_row_of rid s' = Some r' \<and> h = lease_handle_from_row r' \<and>
           dr_lease_owner r' = ow \<and> dr_lease_epoch r' = dr_lease_epoch r + 1 \<and>
           dr_accepted_checkpoint r' = dr_accepted_checkpoint r \<and>
           superseded (dr_lease_owner r) (dr_lease_epoch r) (ow, dr_lease_epoch r')"
proof -
  let ?hit = "\<lambda>q. dr_run_id q = rid \<and> dr_lease_epoch q = dr_lease_epoch r"
  let ?f = "\<lambda>q. q\<lparr>dr_lease_owner := ow, dr_lease_epoch := dr_lease_epoch r + 1,
              dr_heartbeat_at_ms := now_ms e 0, dr_lease_expiry_ms := now_ms e 0 + x,
              dr_updated_at := utc e 0\<rparr>"
  obtain t where t: "task_row_of (dr_task_id r) s = Some t"
    using assms(2,3) by (cases "task_row_of (dr_task_id r) s")
      (auto simp: recover_durable_lease_def recover_lease_txn_def run_not_found_def)
  have runs: "durable_runs s' = sql_update ?hit ?f (durable_runs s)"
    and h: "get_durable_run rid s' = Inr r' \<Longrightarrow> h = lease_handle_from_row r'" for r'
    using assms(2,3) t
    by (auto simp: recover_durable_lease_def recover_lease_txn_def Let_def andthen_ok transact_ok
        split: if_splits)
  have "find (\<lambda>q. dr_run_id q = rid) (sql_update ?hit ?f (durable_runs s))
      = map_option (\<lambda>q. if ?hit q then ?f q else q) (find (\<lambda>q. dr_run_id q = rid) (durable_runs s))"
    by (rule find_sql_update) simp
  moreover have "dr_run_id r = rid"
    using find_SomeD [OF assms(2) [unfolded run_row_of_def]] by simp
  ultimately have row: "run_row_of rid s' = Some (?f r)"
    using assms(2) by (simp add: run_row_of_def runs)
  then have "h = lease_handle_from_row (?f r)"
    by (intro h) (simp add: get_durable_run_def)
  with row show ?thesis by (simp add: superseded_def)
qed

theorem recovery_supersedes_witness:
  "\<exists>r r' h s'. run_row_of w_run_id held_db = Some r
     \<and> recover_durable_lease (wenv 4 0) w_run_id ''B'' 1000 False held_db = (Inr h, s')
     \<and> run_row_of w_run_id s' = Some r' \<and> dr_lease_epoch r' = dr_lease_epoch r + 1"
proof -
  have k: "keys_ok held_db"
    by (rule reachable_keys [OF reachable_scenarios(2)])
  have "run_row_of w_run_id held_db \<noteq> None"
    by code_simp
  then obtain r where r: "run_row_of w_run_id held_db = Some r"
    by blast
  have "case fst (recover_durable_lease (wenv 4 0) w_run_id ''B'' 1000 False held_db) of
      Inl _ \<Rightarrow> False | Inr _ \<Rightarrow> True"
    by code_simp
  then obtain h s' where h: "recover_durable_lease (wenv 4 0) w_run_id ''B'' 1000 False held_db = (Inr h, s')"
    by (cases "recover_durable_lease (wenv 4 0) w_run_id ''B'' 1000 False held_db")
      (auto split: sum.splits)
  from recovery_supersedes [OF k r h] r h show ?thesis by blast
qed

section \<open>Acquisition\<close>

text \<open>
  A task has at most one durable run, in every reachable database.
\<close>

theorem one_run_per_task:
  assumes "reachable s"
  shows "sql_count (\<lambda>r. dr_task_id r = tid) (durable_runs s) \<le> 1"
  using reachable_keys [OF assms] by (intro sql_count_le_1) (simp add: keys_ok_def)

theorem one_run_per_task_witness:
  "sql_count (\<lambda>r. dr_task_id r = w_task_id) (durable_runs taken_db) \<le> 1"
  by (rule one_run_per_task [OF reachable_scenarios(3)])

lemma find_new_last: "find p t = None \<Longrightarrow> p r \<Longrightarrow> find p (t @ [r]) = Some r"
  by (simp add: find_append)

text \<open>
  Acquiring a lease either raises and changes nothing, or the task had no run before and was
  queued or live; then it has a run in epoch 1 held by the caller with no checkpoint accepted,
  the task is PREPARING_WORKSPACE, and the returned handle is that run's.
\<close>

theorem acquisition_outcome:
  "case acquire_or_find_lease e tid ow x au pl s of
     (Inl err, s') \<Rightarrow> s' = s
   | (Inr h, s') \<Rightarrow>
       (\<exists>t r. task_row_of tid s = Some t \<and> t_status t \<in> set (''QUEUED'' # LIVE_STATUSES) \<and>
          find (\<lambda>r. dr_task_id r = tid) (durable_runs s) = None \<and>
          durable_runs s' = durable_runs s @ [r] \<and> run_row_of (lh_run_id h) s' = Some r \<and>
          h = lease_handle_from_row r \<and> dr_task_id r = tid \<and> holds_lease r ow 1 \<and>
          dr_accepted_checkpoint r = '''' \<and> dr_lease_expiry_ms r = now_ms e 0 + x \<and>
          task_row_of tid s' = Some (t\<lparr>t_status := ''PREPARING_WORKSPACE'', t_updated_at := utc e 0\<rparr>))"
proof (cases "acquire_or_find_lease e tid ow x au pl s")
  case (Pair res s')
  show ?thesis
  proof (cases res)
    case (Inl err)
    with Pair have "s' = s"
      by (auto simp: acquire_or_find_lease_def acquire_durable_lease_def andthen_def
          transact_def split: sum.splits prod.splits)
    with Pair Inl show ?thesis by simp
  next
    case (Inr h)
    obtain v where v: "get_task tid None s = Inr v"
      using Pair Inr by (auto simp: acquire_or_find_lease_def split: sum.splits)
    then obtain t where t: "task_row_of tid s = Some t" "t_status (tv_row v) = t_status t"
      using get_task_row by blast
    define q where "q = \<lparr>aq_task_id = tid, aq_execution_id = t_execution_id (tv_row v),
             aq_lease_owner = ow, aq_expiry_ms = x, aq_execution_authority_sha = au,
             aq_planning_sha = pl,
             aq_task_status = (if t_status (tv_row v) = ''QUEUED'' then Some ''QUEUED'' else None)\<rparr>"
    have fields: "dr_task_id (new_run_row e q) = tid" "holds_lease (new_run_row e q) ow 1"
      "dr_accepted_checkpoint (new_run_row e q) = ''''"
      "dr_lease_expiry_ms (new_run_row e q) = now_ms e 0 + x" "aq_task_id q = tid"
      by (simp_all add: new_run_row_def q_def holds_lease_def)
    have ok: "acquire_durable_lease e q s = (Inr h, s')"
      using Pair Inr v by (simp add: acquire_or_find_lease_def q_def)
    then have guard: "status_guard q t = None"
      and fresh: "\<not> list_ex (\<lambda>r. dr_task_id r = tid) (durable_runs s)"
        "\<not> list_ex (\<lambda>b. dr_run_id (new_run_row e q) = dr_run_id b) (durable_runs s)"
      and h: "h = lease_handle_from_row (new_run_row e q)"
      and s': "durable_runs s' = durable_runs s @ [new_run_row e q]"
        "tasks s' = sql_update (\<lambda>r. t_id r = tid)
           (\<lambda>r. r\<lparr>t_status := ''PREPARING_WORKSPACE'', t_updated_at := utc e 0\<rparr>) (tasks s)"
      using t(1) fields(5)
      by (auto simp: acquire_durable_lease_def acquire_lease_txn_def Let_def andthen_ok transact_ok
          sql_insert_def list_ex_iff split: if_splits)
    have live: "t_status t \<in> set (''QUEUED'' # LIVE_STATUSES)"
      using guard t(2) by (auto simp: status_guard_def q_def split: if_splits)
    have none: "find (\<lambda>r. dr_task_id r = tid) (durable_runs s) = None"
      using fresh(1) by (auto simp: find_None_iff list_ex_iff)
    have row: "run_row_of (lh_run_id h) s' = Some (new_run_row e q)"
      using fresh(2) unfolding run_row_of_def s'(1) h
      by (intro find_new_last) (auto simp: find_None_iff list_ex_iff lease_handle_from_row_def)
    have "task_row_of tid s' = Some (t\<lparr>t_status := ''PREPARING_WORKSPACE'', t_updated_at := utc e 0\<rparr>)"
      using t(1) find_SomeD [OF t(1) [unfolded task_row_of_def]]
      by (simp add: task_row_of_def s'(2) find_sql_update)
    with Pair Inr t(1) live none s'(1) row h fields show ?thesis by auto
  qed
qed

section \<open>Checkpoints\<close>

text \<open>
  C6. In every reachable database the checkpoint history of a run names, in order and without
  gaps or repetitions, exactly the checkpoints up to the one the run has accepted.
\<close>

theorem checkpoint_history_is_prefix:
  assumes "reachable s" "run_row_of rid s = Some r"
  shows "map cp_checkpoint_name (get_durable_checkpoints rid s) =
         take (nat (checkpoint_rank (dr_accepted_checkpoint r) + 1)) CHECKPOINT_ORDER"
  using progress_ok_row(1) [OF reachable_progress [OF assms(1)] assms(2)]
  by (simp add: run_passed_def passed_def get_durable_checkpoints_def run_history_def)

theorem checkpoint_history_is_prefix_witness:
  "\<exists>r. run_row_of w_run_id taken_db = Some r \<and>
     map cp_checkpoint_name (get_durable_checkpoints w_run_id taken_db) =
       take (nat (checkpoint_rank (dr_accepted_checkpoint r) + 1)) CHECKPOINT_ORDER"
proof -
  have "run_row_of w_run_id taken_db \<noteq> None"
    by code_simp
  then obtain r where r: "run_row_of w_run_id taken_db = Some r"
    by blast
  from checkpoint_history_is_prefix [OF reachable_scenarios(3) r] r show ?thesis
    by blast
qed

text \<open>
  Accepting a checkpoint, by outcome. An error changes nothing. A success either found the
  run's current checkpoint recorded with the same digest and attempt and changes nothing, or it
  appends one row for the checkpoint that follows the current one and moves the run to it.
\<close>

theorem accept_checkpoint_outcome:
  assumes "reachable s" "run_row_of rid s = Some r"
  shows "case accept_checkpoint e rid name d n ow ep s of
     (Inl err, s') \<Rightarrow> s' = s
   | (Inr c, s') \<Rightarrow>
       holds_lease r ow ep \<and> cp_run_id c = rid \<and> cp_checkpoint_name c = name \<and>
       cp_artifact_digest c = d \<and> cp_role_attempt c = n \<and>
       ((s' = s \<and> name = dr_accepted_checkpoint r \<and> c \<in> set (checkpoint_history s)) \<or>
        (checkpoint_rank name = checkpoint_rank (dr_accepted_checkpoint r) + 1 \<and>
         s' = snd (insert_checkpoint e rid name d n s) \<and>
         map cp_checkpoint_name (get_durable_checkpoints rid s') =
           map cp_checkpoint_name (get_durable_checkpoints rid s) @ [name]))"
proof (cases "fenced_validate_lease rid ow ep s")
  case (Inl err)
  then show ?thesis by (simp add: accept_checkpoint_def)
next
  case (Inr q)
  with assms(2) have lease: "holds_lease r ow ep" "q = r"
    using fenced_validate_row [OF Inr] by auto
  let ?cur = "dr_accepted_checkpoint r"
  note ok = reachable_progress [OF assms(1)]
  have acc: "?cur = '''' \<or> 0 \<le> checkpoint_rank ?cur"
    by (rule progress_ok_row(2) [OF ok assms(2)])
  have hist: "map cp_checkpoint_name (get_durable_checkpoints rid (snd (insert_checkpoint e rid name d n s)))
      = map cp_checkpoint_name (get_durable_checkpoints rid s) @ [name]"
    by (simp add: insert_checkpoint_def Let_def update_run_def get_durable_checkpoints_def run_history_def)
  have ins: "fst (insert_checkpoint e rid name d n s) =
      Inr \<lparr>cp_checkpoint_id = ''cp-'' @ rid @ ''-'' @ uuid e 0, cp_run_id = rid,
           cp_checkpoint_name = name, cp_artifact_digest = d, cp_role_attempt = n,
           cp_created_at = utc e 2\<rparr>"
    by (simp add: insert_checkpoint_def Let_def)
  show ?thesis
  proof (cases "checkpoint_rank name = checkpoint_rank ?cur \<and> 0 \<le> checkpoint_rank ?cur")
    case True
    then have name: "name = ?cur"
      using rank_inject by blast
    with True obtain c where c: "last_checkpoint rid name s = Some c"
      using current_in_history [OF ok assms(2)] by auto
    then have "c \<in> set (checkpoint_history s)" "cp_run_id c = rid" "cp_checkpoint_name c = name"
      using find_SomeD [OF c [unfolded last_checkpoint_def]] by simp_all
    with Inr c True lease name show ?thesis
      by (simp add: accept_checkpoint_def Let_def)
  next
    case False
    show ?thesis
    proof (cases "0 \<le> checkpoint_rank name \<and> checkpoint_rank name = checkpoint_rank ?cur + 1
        \<and> (?cur = '''' \<longrightarrow> name = ''PRE_PLANNER'')")
      case True
      then have "accept_checkpoint e rid name d n ow ep s = insert_checkpoint e rid name d n s"
        using Inr lease(2) by (auto simp: accept_checkpoint_def Let_def)
      with True ins hist lease(1) show ?thesis
        by (cases "insert_checkpoint e rid name d n s") simp
    next
      case no: False
      with False acc rank_empty rank_first have "\<exists>err. accept_checkpoint e rid name d n ow ep s = (Inl err, s)"
        using Inr lease(2) by (auto simp: accept_checkpoint_def Let_def)
      then show ?thesis by auto
    qed
  qed
qed

theorem accept_checkpoint_outcome_witness:
  "case accept_checkpoint (wenv 5 9) w_run_id ''POST_PLANNER'' ''d1'' 1 ''B'' 2 taken_db of
     (Inl err, s') \<Rightarrow> False
   | (Inr c, s') \<Rightarrow> map cp_checkpoint_name (get_durable_checkpoints w_run_id s') =
       map cp_checkpoint_name (get_durable_checkpoints w_run_id taken_db) @ [''POST_PLANNER'']"
proof -
  have "run_row_of w_run_id taken_db \<noteq> None"
    by code_simp
  then obtain r where r: "run_row_of w_run_id taken_db = Some r"
    by blast
  have acc: "map_option dr_accepted_checkpoint (run_row_of w_run_id taken_db) = Some ''PRE_PLANNER''"
    by code_simp
  have "case fst (accept_checkpoint (wenv 5 9) w_run_id ''POST_PLANNER'' ''d1'' 1 ''B'' 2 taken_db) of
      Inl _ \<Rightarrow> False | Inr _ \<Rightarrow> True"
    by code_simp
  then show ?thesis
    using accept_checkpoint_outcome [OF reachable_scenarios(3) r,
        where e = "wenv 5 9" and name = "''POST_PLANNER''" and d = "''d1''" and n = 1
          and ow = "''B''" and ep = 2] acc r
    by (auto split: prod.splits sum.splits)
qed

text \<open>
  The holder of the lease always succeeds in accepting the checkpoint after the current one
  (the first one when none has been accepted), whatever digest and attempt it records.
\<close>

theorem next_checkpoint_accepted:
  assumes "reachable s" "run_row_of rid s = Some r" "holds_lease r ow ep"
    and "i < length CHECKPOINT_ORDER" "checkpoint_rank (dr_accepted_checkpoint r) + 1 = int i"
  shows "\<exists>c s'. accept_checkpoint e rid (CHECKPOINT_ORDER ! i) d n ow ep s = (Inr c, s') \<and>
           map_option dr_accepted_checkpoint (run_row_of rid s') = Some (CHECKPOINT_ORDER ! i)"
proof -
  let ?name = "CHECKPOINT_ORDER ! i"
  have "i = 0 \<or> i = 1 \<or> i = 2 \<or> i = 3 \<or> i = 4"
    using assms(4) by (auto simp: length_order)
  then have rank: "checkpoint_rank ?name = int i"
    by (auto simp: CHECKPOINT_ORDER_def checkpoint_rank_def)
  have acc: "dr_accepted_checkpoint r = '''' \<or> 0 \<le> checkpoint_rank (dr_accepted_checkpoint r)"
    by (rule progress_ok_row(2) [OF reachable_progress [OF assms(1)] assms(2)])
  have v: "fenced_validate_lease rid ow ep s = Inr r"
    using assms(2,3) by (simp add: fenced_validate_lease_def)
  have first: "?name = ''PRE_PLANNER''" if "dr_accepted_checkpoint r = ''''"
    using that assms(5) rank_empty by (simp add: CHECKPOINT_ORDER_def)
  have "accept_checkpoint e rid ?name d n ow ep s = insert_checkpoint e rid ?name d n s"
    using v rank assms(5) first by (auto simp: accept_checkpoint_def Let_def)
  moreover have "run_row_of rid (snd (insert_checkpoint e rid ?name d n s)) =
      Some (r\<lparr>dr_accepted_checkpoint := ?name, dr_current_role := checkpoint_to_role ?name,
              dr_updated_at := utc e 1\<rparr>)"
    using assms(2) find_SomeD [OF assms(2) [unfolded run_row_of_def]]
    by (simp add: insert_checkpoint_def Let_def update_run_def run_row_of_def find_sql_update)
  ultimately show ?thesis
    by (auto simp: insert_checkpoint_def Let_def)
qed

theorem next_checkpoint_accepted_witness:
  "\<exists>c s'. accept_checkpoint (wenv 5 9) w_run_id (CHECKPOINT_ORDER ! 1) ''d1'' 1 ''B'' 2 taken_db = (Inr c, s') \<and>
     map_option dr_accepted_checkpoint (run_row_of w_run_id s') = Some (CHECKPOINT_ORDER ! 1)"
proof -
  have "map_option (\<lambda>r. holds_lease r ''B'' 2 \<and> checkpoint_rank (dr_accepted_checkpoint r) + 1 = int 1)
      (run_row_of w_run_id taken_db) = Some True"
    by code_simp
  then obtain r where r: "run_row_of w_run_id taken_db = Some r" "holds_lease r ''B'' 2"
    "checkpoint_rank (dr_accepted_checkpoint r) + 1 = int 1"
    by auto
  show ?thesis
    by (rule next_checkpoint_accepted [OF reachable_scenarios(3) r(1,2) _ r(3)])
      (simp add: CHECKPOINT_ORDER_def)
qed

section \<open>The base revision and the journal\<close>

text \<open>
  The repository base revision of a run is written at most once: once set, it is the same
  in every later database.
\<close>

theorem base_sha_write_once:
  assumes "run_row_of rid s = Some r" "dr_repository_base_sha r \<noteq> ''''" "live_step\<^sup>*\<^sup>* s s'"
  shows "\<exists>r'. run_row_of rid s' = Some r' \<and> dr_repository_base_sha r' = dr_repository_base_sha r"
  using run_evolves [OF steps_evolve [OF assms(3)] assms(1)] assms(2) by (auto simp: run_le_def)

definition based_db :: db where
  "based_db = run_calls (held_calls @
     [StoreCall (Fenced (wenv 3 0) w_run_id ''A'' 1 (FBaseSha ''sha''))]) empty_db"

definition rebased_db :: db where
  "rebased_db = run_calls
     [StoreCall (Fenced (wenv 3 0) w_run_id ''A'' 1 (FBaseSha ''other''))] based_db"

theorem base_sha_write_once_witness:
  "\<exists>r r'. run_row_of w_run_id based_db = Some r \<and> run_row_of w_run_id rebased_db = Some r' \<and>
     dr_repository_base_sha r' = dr_repository_base_sha r"
proof -
  have "map_option (\<lambda>r. dr_repository_base_sha r \<noteq> '''') (run_row_of w_run_id based_db) = Some True"
    by code_simp
  then obtain r where r: "run_row_of w_run_id based_db = Some r" "dr_repository_base_sha r \<noteq> ''''"
    by auto
  have "live_step\<^sup>*\<^sup>* based_db rebased_db"
    unfolding rebased_db_def based_db_def by (intro steps_run reachable_run reachable.new_file)
  from base_sha_write_once [OF r this] r(1) show ?thesis by blast
qed

lemma newest_operation_row:
  "newest_operation k d s = Some x \<Longrightarrow>
     x \<in> set (external_operations s) \<and> xo_idempotency_key x = k \<and> xo_request_digest x = d"
  by (auto simp: newest_operation_def split: list.splits dest!: order_desc_hd)

lemma newest_operation_None:
  "newest_operation k d s = None \<Longrightarrow> x \<in> set (external_operations s) \<Longrightarrow>
     xo_idempotency_key x \<noteq> k \<or> xo_request_digest x \<noteq> d"
  by (auto simp: newest_operation_def filter_empty_conv split: list.splits)

lemma newest_operation_iff:
  "(\<exists>x. newest_operation k d s = Some x) \<longleftrightarrow>
     (\<exists>x \<in> set (external_operations s). xo_idempotency_key x = k \<and> xo_request_digest x = d)"
  by (cases "newest_operation k d s")
    (auto dest: newest_operation_None newest_operation_row)

lemma operation_persists:
  assumes "evolves s s'" "newest_operation k d s = Some x"
  shows "\<exists>x'. newest_operation k d s' = Some x'"
proof -
  have "\<exists>x \<in> set (external_operations s). xo_idempotency_key x = k \<and> xo_request_digest x = d"
    using assms(2) newest_operation_iff [of k d s] by blast
  then obtain i where i: "i < length (external_operations s)"
    "xo_idempotency_key (external_operations s ! i) = k" "xo_request_digest (external_operations s ! i) = d"
    by (auto simp: in_set_conv_nth)
  have ev: "table_evolves extop_le any_row (external_operations s) (external_operations s')"
    using assms(1) by (simp add: evolves_def)
  from extops_o.nth_evolves [OF this i(1)] i show ?thesis
    unfolding newest_operation_iff
    by (intro bexI [of _ "external_operations s' ! i"]) (auto simp: extop_le_def)
qed

text \<open>
  An external operation is journalled once. After it has been recorded under a key and
  digest, whoever holds the lease of the run later is told not to dispatch it, and recording it
  again returns a journal row of that key and digest and inserts none.
\<close>

theorem external_operation_recorded_once:
  assumes "reachable s" "record_external_operation e ok key d rid tid ow ep s = (Inr x, s1)"
    and "live_step\<^sup>*\<^sup>* s1 s2" "journal_lease_ok rid ow2 ep2 s2" "key \<noteq> ''''"
  shows "external_operation_prevents_dispatch key d rid ow2 ep2 s2 \<and>
    (\<exists>x2. record_external_operation e2 ok2 key d rid tid2 ow2 ep2 s2 = (Inr x2, s2) \<and>
       x2 \<in> set (external_operations s2) \<and> xo_idempotency_key x2 = key \<and> xo_request_digest x2 = d)"
proof -
  have "\<exists>y. newest_operation key d s1 = Some y"
  proof (cases "newest_operation key d s")
    case None
    with assms(2) show ?thesis
      by (auto simp: record_external_operation_def transact_ok record_external_operation_txn_def
          Let_def sql_insert_def newest_operation_iff split: if_splits)
  next
    case (Some y)
    with assms(2) have "s1 = s"
      by (auto simp: record_external_operation_def transact_ok record_external_operation_txn_def
          split: if_splits)
    with Some show ?thesis by blast
  qed
  then obtain x2 where x2: "newest_operation key d s2 = Some x2"
    using operation_persists [OF steps_evolve [OF assms(3)]] by blast
  with newest_operation_row [OF x2] assms(4,5) show ?thesis
    by (simp add: external_operation_prevents_dispatch_def record_external_operation_def
        record_external_operation_txn_def)
qed

definition journal_db :: db where
  "journal_db = run_calls
     [StoreCall (Fenced (wenv 5 0) w_run_id ''B'' 2 (FRecordOp ''push'' ''key'' ''dig'' w_task_id))] taken_db"

theorem external_operation_recorded_once_witness:
  "external_operation_prevents_dispatch ''key'' ''dig'' w_run_id ''B'' 2 journal_db"
proof -
  have "case fst (record_external_operation (wenv 5 0) ''push'' ''key'' ''dig'' w_run_id w_task_id ''B'' 2 taken_db) of
      Inl _ \<Rightarrow> False | Inr _ \<Rightarrow> True"
    by code_simp
  then obtain x where "fst (record_external_operation (wenv 5 0) ''push'' ''key'' ''dig'' w_run_id w_task_id ''B'' 2 taken_db) = Inr x"
    by (auto split: sum.splits)
  moreover have "snd (record_external_operation (wenv 5 0) ''push'' ''key'' ''dig'' w_run_id w_task_id ''B'' 2 taken_db) = journal_db"
    by (simp add: journal_db_def run_calls_def)
  ultimately have x: "record_external_operation (wenv 5 0) ''push'' ''key'' ''dig'' w_run_id w_task_id ''B'' 2 taken_db
      = (Inr x, journal_db)"
    by (simp only: prod_eq_iff fst_conv snd_conv)
  have lease: "journal_lease_ok w_run_id ''B'' 2 journal_db"
    by code_simp
  show ?thesis
    by (rule conjunct1, rule external_operation_recorded_once [OF reachable_scenarios(3) x
          rtranclp.rtrancl_refl lease]) simp
qed

end
