(* ===== verification/Reconciliation.thy ===== *)
theory Reconciliation
  imports Scenarios
begin

text \<open>
  The reconciler of expired leases (\<open>TaskStore._reconcile_expired_runs\<close>): exactly which runs it
  interrupts, that it interrupts each once, and the runs it leaves behind.
\<close>

section \<open>One candidate\<close>

definition reconcilable :: "run_row \<Rightarrow> bool" where
  "reconcilable r \<longleftrightarrow> dr_recovery_classification r \<in> {''normal'', ''orphan_stale_lease''}"

text \<open>The database after interrupting one run.\<close>

definition interrupt_run :: "env \<Rightarrow> int \<Rightarrow> string \<Rightarrow> string \<Rightarrow> string \<Rightarrow> db \<Rightarrow> db" where
  "interrupt_run e now rid tid st s =
     s\<lparr>durable_runs := sql_update (\<lambda>r. dr_run_id r = rid \<and> dr_lease_expiry_ms r < now
           \<and> dr_recovery_classification r \<in> {''normal'', ''orphan_stale_lease''})
         (\<lambda>r. r\<lparr>dr_recovery_classification := ''orphan_stale_lease'', dr_lease_owner := '''',
                dr_interrupted_at := utc e 0, dr_updated_at := utc e 1\<rparr>) (durable_runs s),
       tasks := sql_update (\<lambda>x. t_id x = tid \<and> t_status x \<in> set LIVE_STATUSES)
         (\<lambda>x. x\<lparr>t_status := ''INTERRUPTED'', t_updated_at := utc e 2\<rparr>) (tasks s),
       task_events := task_events s @ [interrupted_event e rid tid st]\<rparr>"

lemma reconcile_one_eq:
  assumes "keys_ok s" "run_row_of (dr_run_id r0) s = Some r" "dr_task_id r = dr_task_id r0"
    and "task_row_of (dr_task_id r0) s = Some t"
  shows "reconcile_one e now (r0, st) s =
    (if dr_lease_expiry_ms r < now \<and> t_status t \<in> set LIVE_STATUSES \<and> reconcilable r then
       (Some \<lparr>rr_run_id = dr_run_id r0, rr_task_id = dr_task_id r0, rr_previous_status = st,
              rr_recovery_classification = ''orphan_stale_lease''\<rparr>,
        interrupt_run e now (dr_run_id r0) (dr_task_id r0) st s)
     else (None, s))"
proof -
  let ?stale = "\<lambda>q. dr_run_id q = dr_run_id r0 \<and> dr_lease_expiry_ms q < now
      \<and> dr_recovery_classification q \<in> {''normal'', ''orphan_stale_lease''}"
  let ?live = "\<lambda>x. t_id x = dr_task_id r0 \<and> t_status x \<in> set LIVE_STATUSES"
  have r: "r \<in> set (durable_runs s)" "dr_run_id r = dr_run_id r0"
    using find_SomeD [OF assms(2) [unfolded run_row_of_def]] by simp_all
  have t: "t \<in> set (tasks s)" "t_id t = dr_task_id r0"
    using find_SomeD [OF assms(4) [unfolded task_row_of_def]] by simp_all
  have "sql_count ?stale (durable_runs s) = 0 \<longleftrightarrow> \<not> ?stale r"
    unfolding sql_count_zero using r run_hit [OF run_key [OF assms(1)] assms(2)] by blast
  then have stale: "sql_count ?stale (durable_runs s) = 0 \<longleftrightarrow>
      \<not> (dr_lease_expiry_ms r < now \<and> reconcilable r)"
    using r(2) by (simp add: reconcilable_def)
  have "sql_count ?live (tasks s) = 0 \<longleftrightarrow> \<not> ?live t"
    unfolding sql_count_zero using t task_hit [OF task_key [OF assms(1)] assms(4)] by blast
  then have live: "sql_count ?live (tasks s) = 0 \<longleftrightarrow> t_status t \<notin> set LIVE_STATUSES"
    using t(2) by simp
  show ?thesis
    using assms(2-4) stale live
    by (simp add: reconcile_one_def Let_def interrupt_run_def)
qed

lemma interrupt_other_run:
  "rid' \<noteq> rid \<Longrightarrow> run_row_of rid' (interrupt_run e now rid tid st s) = run_row_of rid' s"
  by (simp add: interrupt_run_def run_row_of_def find_sql_update)
    (cases "find (\<lambda>r. dr_run_id r = rid') (durable_runs s)", auto dest: find_SomeD)

lemma interrupt_other_task:
  "tid' \<noteq> tid \<Longrightarrow> task_row_of tid' (interrupt_run e now rid tid st s) = task_row_of tid' s"
  by (simp add: interrupt_run_def task_row_of_def find_sql_update)
    (cases "find (\<lambda>r. t_id r = tid') (tasks s)", auto dest: find_SomeD)

lemma interrupt_task:
  "task_row_of tid s = Some t \<Longrightarrow> t_status t \<in> set LIVE_STATUSES \<Longrightarrow>
   task_row_of tid (interrupt_run e now rid tid st s)
     = Some (t\<lparr>t_status := ''INTERRUPTED'', t_updated_at := utc e 2\<rparr>)"
  by (auto simp: interrupt_run_def task_row_of_def find_sql_update dest: find_SomeD)

section \<open>All candidates\<close>

text \<open>A list of candidates as the first query returns it, read in the given database.\<close>

definition fresh_candidates :: "int \<Rightarrow> (run_row \<times> string) list \<Rightarrow> db \<Rightarrow> bool" where
  "fresh_candidates now cs s \<longleftrightarrow>
     distinct (map (dr_run_id \<circ> fst) cs) \<and> distinct (map (dr_task_id \<circ> fst) cs) \<and>
     (\<forall>(r, st) \<in> set cs. run_row_of (dr_run_id r) s = Some r \<and> dr_lease_expiry_ms r < now \<and>
        (\<exists>t. task_row_of (dr_task_id r) s = Some t \<and> t_status t = st \<and> st \<in> set LIVE_STATUSES))"

definition record_of :: "run_row \<times> string \<Rightarrow> reconcile_record" where
  "record_of c = \<lparr>rr_run_id = dr_run_id (fst c), rr_task_id = dr_task_id (fst c),
     rr_previous_status = snd c, rr_recovery_classification = ''orphan_stale_lease''\<rparr>"

lemma fresh_tail:
  assumes "fresh_candidates now ((r, st) # cs) s"
  shows "fresh_candidates now cs s"
    and "fresh_candidates now cs (interrupt_run e now (dr_run_id r) (dr_task_id r) st s)"
proof -
  show "fresh_candidates now cs s"
    using assms by (auto simp: fresh_candidates_def)
  have "dr_run_id q \<noteq> dr_run_id r \<and> dr_task_id q \<noteq> dr_task_id r" if "(q, x) \<in> set cs" for q x
  proof -
    have "dr_run_id q \<in> set (map (dr_run_id \<circ> fst) cs)" "dr_task_id q \<in> set (map (dr_task_id \<circ> fst) cs)"
      using imageI [OF that, of "dr_run_id \<circ> fst"] imageI [OF that, of "dr_task_id \<circ> fst"] by simp_all
    moreover have "dr_run_id r \<notin> set (map (dr_run_id \<circ> fst) cs)"
      "dr_task_id r \<notin> set (map (dr_task_id \<circ> fst) cs)"
      using assms by (simp_all add: fresh_candidates_def)
    ultimately show ?thesis by metis
  qed
  then have "run_row_of (dr_run_id q) (interrupt_run e now (dr_run_id r) (dr_task_id r) st s)
        = run_row_of (dr_run_id q) s \<and>
      task_row_of (dr_task_id q) (interrupt_run e now (dr_run_id r) (dr_task_id r) st s)
        = task_row_of (dr_task_id q) s" if "(q, x) \<in> set cs" for q x
    using that by (simp add: interrupt_other_run interrupt_other_task)
  then have "run_row_of (dr_run_id (fst x)) (interrupt_run e now (dr_run_id r) (dr_task_id r) st s)
        = run_row_of (dr_run_id (fst x)) s \<and>
      task_row_of (dr_task_id (fst x)) (interrupt_run e now (dr_run_id r) (dr_task_id r) st s)
        = task_row_of (dr_task_id (fst x)) s" if "x \<in> set cs" for x
    using that by (cases x) simp
  with \<open>fresh_candidates now cs s\<close>
  show "fresh_candidates now cs (interrupt_run e now (dr_run_id r) (dr_task_id r) st s)"
    unfolding fresh_candidates_def by (simp add: case_prod_unfold)
qed

definition hit_tasks :: "(run_row \<times> string) list \<Rightarrow> string list" where
  "hit_tasks cs = map (\<lambda>c. dr_task_id (fst c)) (filter (\<lambda>c. reconcilable (fst c)) cs)"

lemma hit_tasks_simps [simp]:
  "hit_tasks [] = []"
  "hit_tasks ((r, st) # cs) = (if reconcilable r then dr_task_id r # hit_tasks cs else hit_tasks cs)"
  by (simp_all add: hit_tasks_def)

lemma reconcile_step:
  assumes "keys_ok s" "fresh_candidates now ((r, st) # cs) s"
  shows "reconcile_one e now (r, st) s =
      (if reconcilable r then (Some (record_of (r, st)), interrupt_run e now (dr_run_id r) (dr_task_id r) st s)
       else (None, s))"
    and "keys_ok (snd (reconcile_one e now (r, st) s))"
    and "fresh_candidates now cs (snd (reconcile_one e now (r, st) s))"
proof -
  from assms(2) obtain t where t: "run_row_of (dr_run_id r) s = Some r" "dr_lease_expiry_ms r < now"
    "task_row_of (dr_task_id r) s = Some t" "t_status t \<in> set LIVE_STATUSES"
    by (auto simp: fresh_candidates_def)
  from reconcile_one_eq [OF assms(1) t(1) refl t(3), of e now st] t
  show step: "reconcile_one e now (r, st) s =
      (if reconcilable r then (Some (record_of (r, st)), interrupt_run e now (dr_run_id r) (dr_task_id r) st s)
       else (None, s))"
    by (simp add: record_of_def)
  show "keys_ok (snd (reconcile_one e now (r, st) s))"
    using lawful_reconcile_one [of s e now "(r, st)"] assms(1) by (simp add: lawful_def)
  show "fresh_candidates now cs (snd (reconcile_one e now (r, st) s))"
    unfolding step using fresh_tail [OF assms(2)] by simp
qed

lemma reconcile_all_exact:
  "keys_ok s \<Longrightarrow> fresh_candidates now cs s \<Longrightarrow>
     fst (reconcile_all e now cs s) = map record_of (filter (\<lambda>c. reconcilable (fst c)) cs) \<and>
     (\<exists>evs. task_events (snd (reconcile_all e now cs s)) = task_events s @ evs \<and>
        map ev_task_id evs = hit_tasks cs) \<and>
     (\<forall>tid. map_option t_status (task_row_of tid (snd (reconcile_all e now cs s))) =
        (if tid \<in> set (hit_tasks cs) then Some ''INTERRUPTED'' else map_option t_status (task_row_of tid s)))"
proof (induction cs arbitrary: e s)
  case Nil
  then show ?case by simp
next
  case (Cons c cs)
  obtain r st where c: "c = (r, st)" by (cases c)
  let ?s1 = "snd (reconcile_one e now c s)"
  note step = reconcile_step [OF Cons.prems [unfolded c], of e]
  note IH = Cons.IH [OF step(2,3), of "later 4 e", folded c]
  have all: "snd (reconcile_all e now (c # cs) s) = snd (reconcile_all (later 4 e) now cs ?s1)"
    by (simp add: split_def Let_def)
  obtain t where t: "task_row_of (dr_task_id r) s = Some t" "t_status t \<in> set LIVE_STATUSES"
    using Cons.prems(2) by (auto simp: fresh_candidates_def c)
  have notin: "dr_task_id r \<notin> set (hit_tasks cs)"
    using Cons.prems(2) by (auto simp: fresh_candidates_def c hit_tasks_def)
  have records: "fst (reconcile_all e now (c # cs) s)
      = map record_of (filter (\<lambda>c. reconcilable (fst c)) (c # cs))"
    using conjunct1 [OF IH] step(1)
    by (cases "reconcilable r") (simp_all add: split_def Let_def c)
  obtain evs where "task_events (snd (reconcile_all (later 4 e) now cs ?s1)) = task_events ?s1 @ evs"
    "map ev_task_id evs = hit_tasks cs"
    using IH by blast
  then have events: "\<exists>evs. task_events (snd (reconcile_all e now (c # cs) s)) = task_events s @ evs \<and>
      map ev_task_id evs = hit_tasks (c # cs)"
    unfolding all using step(1)
    by (intro exI [of _ "(if reconcilable r then [interrupted_event e (dr_run_id r) (dr_task_id r) st] else []) @ evs"])
      (simp add: c interrupt_run_def interrupted_event_def)
  have status: "map_option t_status (task_row_of tid (snd (reconcile_all e now (c # cs) s))) =
      (if tid \<in> set (hit_tasks (c # cs)) then Some ''INTERRUPTED''
       else map_option t_status (task_row_of tid s))" for tid
  proof (cases "reconcilable r")
    case True
    with step(1) have s1: "?s1 = interrupt_run e now (dr_run_id r) (dr_task_id r) st s"
      by (simp add: c)
    show ?thesis
      using IH True notin interrupt_task [OF t, of e now "dr_run_id r" st]
        interrupt_other_task [of tid "dr_task_id r" e now "dr_run_id r" st s]
      unfolding all s1 by (auto simp: c)
  next
    case False
    with step(1) have s1: "?s1 = s"
      by (simp add: c)
    show ?thesis
      using IH False unfolding all s1 by (simp add: c)
  qed
  show ?case
    using records events status by blast
qed

section \<open>The candidates of the query\<close>

lemma distinct_order_asc: "distinct (map f (order_asc k xs)) = distinct (map f xs)"
  by (simp add: order_asc_def distinct_map)

definition expired_run :: "int \<Rightarrow> db \<Rightarrow> run_row \<Rightarrow> bool" where
  "expired_run now s r \<longleftrightarrow>
     0 < dr_lease_expiry_ms r \<and> dr_lease_expiry_ms r < now \<and>
     (case task_row_of (dr_task_id r) s of None \<Rightarrow> False | Some t \<Rightarrow> t_status t \<in> set LIVE_STATUSES)"

lemma candidates_rows:
  "map fst (concat (map (\<lambda>r.
          if 0 < dr_lease_expiry_ms r \<and> dr_lease_expiry_ms r < now then
            (case task_row_of (dr_task_id r) s of
               None \<Rightarrow> []
             | Some t \<Rightarrow> if t_status t \<in> set LIVE_STATUSES then [(r, t_status t)] else [])
          else []) rs)) = filter (expired_run now s) rs"
  by (induction rs) (auto simp: expired_run_def split: option.splits)

lemma in_concat_map: "x \<in> set (concat (map f xs)) \<longleftrightarrow> (\<exists>q \<in> set xs. x \<in> set (f q))"
  by simp

lemma candidates_iff:
  "(r, st) \<in> set (expired_candidates now s) \<longleftrightarrow>
     r \<in> set (durable_runs s) \<and> expired_run now s r \<and>
     map_option t_status (task_row_of (dr_task_id r) s) = Some st"
proof -
  define pick where "pick q = (if 0 < dr_lease_expiry_ms q \<and> dr_lease_expiry_ms q < now then
            (case task_row_of (dr_task_id q) s of
               None \<Rightarrow> []
             | Some t \<Rightarrow> if t_status t \<in> set LIVE_STATUSES then [(q, t_status t)] else [])
          else [])" for q :: run_row
  have pick: "pick q = (case map_option t_status (task_row_of (dr_task_id q) s) of
      None \<Rightarrow> [] | Some x \<Rightarrow> if expired_run now s q then [(q, x)] else [])" for q :: run_row
    by (simp add: pick_def expired_run_def split: option.split)
  have "(r, st) \<in> set (pick q) \<longleftrightarrow> q = r \<and> expired_run now s r \<and>
      map_option t_status (task_row_of (dr_task_id r) s) = Some st" for q
    unfolding pick by (cases "map_option t_status (task_row_of (dr_task_id q) s)") auto
  moreover have "expired_candidates now s = order_asc (\<lambda>(r, _). dr_created_at r) (concat (map pick (durable_runs s)))"
    unfolding expired_candidates_def pick_def ..
  ultimately show ?thesis
    by (auto simp: in_concat_map simp del: set_concat)
qed

lemma candidates_fresh:
  assumes "keys_ok s"
  shows "fresh_candidates now (expired_candidates now s) s"
  unfolding fresh_candidates_def
proof (intro conjI ballI)
  have d: "distinct (map (f \<circ> fst) (expired_candidates now s))" if "distinct (map f (durable_runs s))" for f
    unfolding expired_candidates_def distinct_order_asc
    by (subst map_map [symmetric], subst candidates_rows) (rule distinct_map_filter [OF that])
  show "distinct (map (dr_run_id \<circ> fst) (expired_candidates now s))"
    "distinct (map (dr_task_id \<circ> fst) (expired_candidates now s))"
    using assms by (auto intro!: d simp: keys_ok_def)
  fix c assume c: "c \<in> set (expired_candidates now s)"
  obtain r st where rst: "c = (r, st)" by (cases c)
  from c have "r \<in> set (durable_runs s)" "expired_run now s r"
    "map_option t_status (task_row_of (dr_task_id r) s) = Some st"
    by (simp_all add: rst candidates_iff)
  moreover from this have "run_row_of (dr_run_id r) s = Some r"
    using assms find_distinct_key [of dr_run_id "durable_runs s" r] by (simp add: run_row_of_def keys_ok_def)
  ultimately show "case c of (r, st) \<Rightarrow> run_row_of (dr_run_id r) s = Some r \<and> dr_lease_expiry_ms r < now \<and>
      (\<exists>t. task_row_of (dr_task_id r) s = Some t \<and> t_status t = st \<and> st \<in> set LIVE_STATUSES)"
    by (auto simp: rst expired_run_def split: option.splits)
qed

lemma reconcile_nothing:
  assumes "keys_ok s" "fresh_candidates now cs s" "\<And>r st. (r, st) \<in> set cs \<Longrightarrow> \<not> reconcilable r"
  shows "reconcile_all e now cs s = ([], s)"
  using assms
proof (induction cs arbitrary: e)
  case (Cons c cs)
  obtain r st where c: "c = (r, st)" by (cases c)
  have "reconcile_one e now c s = (None, s)"
    using reconcile_step(1) [OF Cons.prems(1) Cons.prems(2) [unfolded c]] Cons.prems(3) [of r st] by (simp add: c)
  moreover have "reconcile_all (later 4 e) now cs s = ([], s)"
    using Cons.prems fresh_tail(1) [OF Cons.prems(2) [unfolded c]] by (intro Cons.IH) auto
  ultimately show ?case by (simp add: Let_def)
qed simp

lemma reconcile_other_run:
  assumes "keys_ok s" "fresh_candidates now cs s"
    and "\<And>c. c \<in> set cs \<Longrightarrow> reconcilable (fst c) \<Longrightarrow> dr_run_id (fst c) \<noteq> rid"
  shows "run_row_of rid (snd (reconcile_all e now cs s)) = run_row_of rid s"
  using assms
proof (induction cs arbitrary: e s)
  case (Cons c cs)
  obtain r st where c: "c = (r, st)" by (cases c)
  let ?s1 = "snd (reconcile_one e now c s)"
  note step = reconcile_step [OF Cons.prems(1) Cons.prems(2) [unfolded c], of e, folded c]
  have "run_row_of rid ?s1 = run_row_of rid s"
    using step(1) Cons.prems(3) [of c] interrupt_other_run [of rid "dr_run_id r" e now "dr_task_id r" st s]
    by (auto simp: c)
  moreover have "run_row_of rid (snd (reconcile_all (later 4 e) now cs ?s1)) = run_row_of rid ?s1"
    using Cons.prems(3) by (intro Cons.IH [OF step(2,3)]) simp
  ultimately show ?case
    by (simp add: split_def Let_def)
qed simp

text \<open>Reconciliation keeps identity and expiry of runs and makes no run reconcilable.\<close>

definition run_kept :: "run_row \<Rightarrow> run_row \<Rightarrow> bool" where
  "run_kept a b \<longleftrightarrow>
     dr_run_id b = dr_run_id a \<and> dr_task_id b = dr_task_id a \<and> dr_lease_expiry_ms b = dr_lease_expiry_ms a
     \<and> dr_lease_epoch b = dr_lease_epoch a \<and> (reconcilable b \<longrightarrow> reconcilable a)"

lemma reconcile_one_table:
  "\<exists>P. durable_runs (snd (reconcile_one e now c s)) = sql_update P
     (\<lambda>r. r\<lparr>dr_recovery_classification := ''orphan_stale_lease'', dr_lease_owner := '''',
            dr_interrupted_at := utc e 0, dr_updated_at := utc e 1\<rparr>) (durable_runs s)
     \<and> (\<forall>r. P r \<longrightarrow> reconcilable r)"
proof (cases "durable_runs (snd (reconcile_one e now c s)) = durable_runs s")
  case True
  then show ?thesis
    by (intro exI [of _ "\<lambda>_. False"]) (simp add: sql_update_none)
next
  case False
  then show ?thesis
    by (intro exI [of _ "\<lambda>r. dr_run_id r = dr_run_id (fst c) \<and> dr_lease_expiry_ms r < now
                 \<and> dr_recovery_classification r \<in> {''normal'', ''orphan_stale_lease''}"])
      (auto simp: reconcile_one_def Let_def reconcilable_def split: option.splits if_splits)
qed

lemma reconcile_one_runs:
  assumes "b \<in> set (durable_runs (snd (reconcile_one e now c s)))"
  shows "\<exists>a \<in> set (durable_runs s). run_kept a b"
proof -
  obtain P where P: "durable_runs (snd (reconcile_one e now c s)) = sql_update P
     (\<lambda>r. r\<lparr>dr_recovery_classification := ''orphan_stale_lease'', dr_lease_owner := '''',
            dr_interrupted_at := utc e 0, dr_updated_at := utc e 1\<rparr>) (durable_runs s)"
    and rec: "\<And>r. P r \<Longrightarrow> reconcilable r"
    using reconcile_one_table [of e now c s] by blast
  from assms obtain a where "a \<in> set (durable_runs s)" "b = (if P a then
      a\<lparr>dr_recovery_classification := ''orphan_stale_lease'', dr_lease_owner := '''',
            dr_interrupted_at := utc e 0, dr_updated_at := utc e 1\<rparr> else a)"
    unfolding P by (auto simp: sql_update_def)
  with rec [of a] show ?thesis
    by (intro bexI [of _ a]) (simp_all add: run_kept_def)
qed

lemma reconcile_all_runs:
  "b \<in> set (durable_runs (snd (reconcile_all e now cs s))) \<Longrightarrow> \<exists>a \<in> set (durable_runs s). run_kept a b"
proof (induction cs arbitrary: e s)
  case Nil
  then show ?case by (auto simp: run_kept_def)
next
  case (Cons c cs)
  from Cons.prems have "b \<in> set (durable_runs (snd (reconcile_all (later 4 e) now cs (snd (reconcile_one e now c s)))))"
    by (simp add: split_def Let_def)
  from Cons.IH [OF this] obtain x where x: "x \<in> set (durable_runs (snd (reconcile_one e now c s)))" "run_kept x b"
    by blast
  from reconcile_one_runs [OF x(1)] x(2) show ?case
    by (auto simp: run_kept_def)
qed

section \<open>Properties\<close>

lemma hit_tasks_records: "hit_tasks cs = map rr_task_id (map record_of (filter (\<lambda>c. reconcilable (fst c)) cs))"
  by (simp add: hit_tasks_def record_of_def comp_def)

text \<open>
  C36. Reconciliation at a time \<open>now\<close> interrupts exactly the runs that have an expired lease, a
  live task and a classification that allows it: it returns one record for each, records one
  event for each, moves exactly their tasks to INTERRUPTED and leaves every other status.
\<close>

theorem reconcile_exact:
  assumes "reachable s" "reconcile_expired_runs e now s = (recs, s')"
  shows "rr_run_id ` set recs = dr_run_id ` {r \<in> set (durable_runs s). expired_run now s r \<and> reconcilable r}
    \<and> distinct (map rr_run_id recs)
    \<and> (\<exists>evs. task_events s' = task_events s @ evs \<and> map ev_task_id evs = map rr_task_id recs)
    \<and> (\<forall>tid. map_option t_status (task_row_of tid s') =
         (if tid \<in> rr_task_id ` set recs then Some ''INTERRUPTED'' else map_option t_status (task_row_of tid s)))"
proof (intro conjI)
  let ?cs = "expired_candidates now s"
  let ?hits = "filter (\<lambda>c. reconcilable (fst c)) ?cs"
  have keys: "keys_ok s"
    by (rule reachable_keys [OF assms(1)])
  note fresh = candidates_fresh [OF keys, of now]
  note exact = reconcile_all_exact [OF keys fresh, of e, folded reconcile_expired_runs_def]
  from exact assms(2) have recs: "recs = map record_of ?hits"
    by simp
  then have tasks: "hit_tasks ?cs = map rr_task_id recs"
    by (simp add: hit_tasks_records)
  have "fst ` set ?hits = {r \<in> set (durable_runs s). expired_run now s r \<and> reconcilable r}"
  proof (intro set_eqI iffI)
    fix r assume "r \<in> fst ` set ?hits"
    then show "r \<in> {r \<in> set (durable_runs s). expired_run now s r \<and> reconcilable r}"
      by (auto simp: candidates_iff)
  next
    fix r assume r: "r \<in> {r \<in> set (durable_runs s). expired_run now s r \<and> reconcilable r}"
    then obtain st where "map_option t_status (task_row_of (dr_task_id r) s) = Some st"
      by (auto simp: expired_run_def split: option.splits)
    with r have "(r, st) \<in> set ?hits"
      by (simp add: candidates_iff)
    then show "r \<in> fst ` set ?hits"
      by force
  qed
  moreover have "rr_run_id ` set recs = dr_run_id ` fst ` set ?hits"
    by (simp add: recs record_of_def image_image)
  ultimately show "rr_run_id ` set recs = dr_run_id ` {r \<in> set (durable_runs s). expired_run now s r \<and> reconcilable r}"
    by simp
  have "distinct (map (dr_run_id \<circ> fst) ?hits)"
    using fresh by (simp add: fresh_candidates_def distinct_map_filter)
  then show "distinct (map rr_run_id recs)"
    by (simp add: recs record_of_def comp_def)
  show "\<exists>evs. task_events s' = task_events s @ evs \<and> map ev_task_id evs = map rr_task_id recs"
    using conjunct1 [OF conjunct2 [OF exact]] unfolding assms(2) tasks snd_conv .
  show "\<forall>tid. map_option t_status (task_row_of tid s') =
         (if tid \<in> rr_task_id ` set recs then Some ''INTERRUPTED'' else map_option t_status (task_row_of tid s))"
    using exact assms(2) tasks by simp
qed

theorem reconcile_exact_witness:
  "rr_run_id ` set (fst (reconcile_expired_runs (wenv 6 0) 5000 held_db)) = {w_run_id}"
proof -
  have "dr_run_id ` set (filter (\<lambda>r. expired_run 5000 held_db r \<and> reconcilable r) (durable_runs held_db)) = {w_run_id}"
    by code_simp
  with reconcile_exact [OF reachable_scenarios(2) prod.collapse [symmetric], of "wenv 6 0" 5000]
  show ?thesis by simp
qed

text \<open>
  Reconciliation is idempotent: repeated at the same time it finds nothing and changes
  nothing.
\<close>

theorem reconcile_idempotent:
  assumes "reachable s" "reconcile_expired_runs e now s = (recs, s')"
  shows "reconcile_expired_runs e2 now s' = ([], s')"
proof -
  have keys: "keys_ok s" "keys_ok s'"
    using reachable_keys [OF assms(1)] lawful_reconcile [of s e now] assms(2) by (auto simp: lawful_def)
  note exact = reconcile_all_exact [OF keys(1) candidates_fresh [OF keys(1)], of e now,
      folded reconcile_expired_runs_def, unfolded assms(2)]
  have no_live: "''INTERRUPTED'' \<notin> set LIVE_STATUSES"
    by (simp add: LIVE_STATUSES_def)
  have "\<not> reconcilable b" if "(b, st) \<in> set (expired_candidates now s')" for b st
  proof
    assume "reconcilable b"
    from that have b: "b \<in> set (durable_runs s')" "expired_run now s' b"
      "map_option t_status (task_row_of (dr_task_id b) s') = Some st" "st \<in> set LIVE_STATUSES"
      by (auto simp: candidates_iff expired_run_def)
    obtain a where a: "a \<in> set (durable_runs s)" "run_kept a b"
      using reconcile_all_runs [of b e now "expired_candidates now s" s] b(1) assms(2)
      by (auto simp: reconcile_expired_runs_def)
    have out: "dr_task_id b \<notin> set (hit_tasks (expired_candidates now s))"
      and same: "map_option t_status (task_row_of (dr_task_id b) s) = Some st"
      using exact b(3,4) no_live by (auto split: if_splits)
    have "expired_run now s a"
      using same a(2) b(2,4) by (auto simp: expired_run_def run_kept_def)
    then have "(a, st) \<in> set (expired_candidates now s)"
      using a same by (simp add: candidates_iff run_kept_def)
    moreover have "reconcilable a"
      using a(2) \<open>reconcilable b\<close> by (simp add: run_kept_def)
    ultimately have "dr_task_id a \<in> set (hit_tasks (expired_candidates now s))"
      by (force simp: hit_tasks_def)
    with out a(2) show False
      by (simp add: run_kept_def)
  qed
  then show ?thesis
    unfolding reconcile_expired_runs_def
    by (intro reconcile_nothing [OF keys(2) candidates_fresh [OF keys(2)]])
qed

theorem reconcile_idempotent_witness:
  "reconcile_expired_runs (wenv 7 0) 5000 (snd (reconcile_expired_runs (wenv 6 0) 5000 held_db))
     = ([], snd (reconcile_expired_runs (wenv 6 0) 5000 held_db))"
  by (rule reconcile_idempotent [OF reachable_scenarios(2) prod.collapse [symmetric]])

text \<open>
  A run marked \<open>interrupted\<close>, as the resume path marks the run it takes over, is never
  reconciled, however long its lease has expired: its row and its task's status stay as they are.
\<close>

theorem interrupted_run_not_reconciled:
  assumes "reachable s" "run_row_of rid s = Some r" "dr_recovery_classification r = ''interrupted''"
    and "reconcile_expired_runs e now s = (recs, s')"
  shows "rid \<notin> rr_run_id ` set recs \<and> run_row_of rid s' = Some r
    \<and> map_option t_status (task_row_of (dr_task_id r) s') = map_option t_status (task_row_of (dr_task_id r) s)"
proof -
  have keys: "keys_ok s"
    by (rule reachable_keys [OF assms(1)])
  have r: "r \<in> set (durable_runs s)" "dr_run_id r = rid" "\<not> reconcilable r"
    using find_SomeD [OF assms(2) [unfolded run_row_of_def]] assms(3) by (simp_all add: reconcilable_def)
  note exact = reconcile_all_exact [OF keys candidates_fresh [OF keys], of e now,
      folded reconcile_expired_runs_def, unfolded assms(4)]
  let ?hits = "filter (\<lambda>c. reconcilable (fst c)) (expired_candidates now s)"
  have other: "dr_run_id (fst c) \<noteq> rid \<and> dr_task_id (fst c) \<noteq> dr_task_id r" if "c \<in> set ?hits" for c
  proof -
    have c: "fst c \<in> set (durable_runs s)" "reconcilable (fst c)"
      using that candidates_iff [of "fst c" "snd c" now s] by auto
    with r(3) have "fst c \<noteq> r" by auto
    with c(1) r(1,2) keys show ?thesis
      using key_inject [of dr_run_id "durable_runs s" "fst c" r]
        key_inject [of dr_task_id "durable_runs s" "fst c" r] by (auto simp: keys_ok_def)
  qed
  then have "dr_task_id r \<notin> (\<lambda>c. dr_task_id (fst c)) ` set ?hits" "rid \<notin> (\<lambda>c. dr_run_id (fst c)) ` set ?hits"
    unfolding image_iff by metis+
  moreover have "rr_run_id ` set recs = (\<lambda>c. dr_run_id (fst c)) ` set ?hits"
    using conjunct1 [OF exact] by (simp add: image_image record_of_def)
  ultimately have "rid \<notin> rr_run_id ` set recs" "dr_task_id r \<notin> set (hit_tasks (expired_candidates now s))"
    by (simp_all add: hit_tasks_def)
  moreover have "run_row_of rid s' = Some r"
    using reconcile_other_run [OF keys candidates_fresh [OF keys], of now rid e] other assms(2,4)
    by (auto simp: reconcile_expired_runs_def)
  ultimately show ?thesis
    using exact by simp
qed

definition stuck_db :: db where
  "stuck_db = run_calls
     [StoreCall (Fenced (wenv 5 0) w_run_id ''B'' 2 (FRecoveryClass ''interrupted''))] taken_db"

theorem interrupted_run_not_reconciled_witness:
  "\<exists>r. run_row_of w_run_id stuck_db = Some r \<and> expired_run 5000 stuck_db r \<and>
     run_row_of w_run_id (snd (reconcile_expired_runs (wenv 6 0) 5000 stuck_db)) = Some r"
proof -
  have "map_option (\<lambda>r. expired_run 5000 stuck_db r \<and> dr_recovery_classification r = ''interrupted'')
      (run_row_of w_run_id stuck_db) = Some True"
    by code_simp
  then obtain r where r: "run_row_of w_run_id stuck_db = Some r" "expired_run 5000 stuck_db r"
    "dr_recovery_classification r = ''interrupted''"
    by auto
  have "reachable stuck_db"
    unfolding stuck_db_def by (rule reachable_run [OF reachable_scenarios(3)])
  from interrupted_run_not_reconciled [OF this r(1,3) prod.collapse [symmetric], of "wenv 6 0" 5000] r
  show ?thesis by blast
qed

end
