(* ===== verification/Task_Properties.thy ===== *)
theory Task_Properties
  imports Scenarios "HOL-Library.Sublist"
begin

text \<open>
  The properties of tasks: the status machine over every sequence of calls, the outcome of a
  transition and of a queue cancellation, idempotent creation, and the append-only logs.
\<close>

section \<open>Statuses over time\<close>


definition cancelled_db :: db where
  "cancelled_db = run_calls [StoreCall (CancelQueued (wenv 3 0) w_task_id)] queued_db"

definition later_db :: db where
  "later_db = run_calls
     [StoreCall (TransitionTo (wenv 4 0) w_task_id ''RUNNING''),
      StoreCall (AcquireLease (wenv 5 0) w_task_id ''A'' 1000 '''' '''')] cancelled_db"

lemma reachable_cancelled: "reachable cancelled_db"
  unfolding cancelled_db_def by (rule reachable_run [OF reachable_scenarios(1)])

lemma cancelled_later: "live_step\<^sup>*\<^sup>* cancelled_db later_db"
  unfolding later_db_def by (rule steps_run [OF reachable_cancelled])

lemma cancelled_status: "map_option t_status (task_row_of w_task_id cancelled_db) = Some ''CANCELLED''"
  by code_simp


text \<open>
  A task is never lost, its request is never rewritten, and it never returns to QUEUED:
  if it is QUEUED later, it was QUEUED before.
\<close>

theorem task_keeps_request:
  assumes "task_row_of tid s = Some t" "live_step\<^sup>*\<^sup>* s s'"
  shows "\<exists>t'. task_row_of tid s' = Some t' \<and>
     (t_title t', t_repository t', t_executor_kind t', t_execution_id t', t_binding_ref t',
      t_orchestration_mode t', t_idempotency_key t', t_created_at t') =
     (t_title t, t_repository t, t_executor_kind t, t_execution_id t, t_binding_ref t,
      t_orchestration_mode t, t_idempotency_key t, t_created_at t) \<and>
     (t_status t' = ''QUEUED'' \<longrightarrow> t_status t = ''QUEUED'')"
  using task_evolves [OF steps_evolve [OF assms(2)] assms(1)] by (auto simp: task_le_def)

theorem task_keeps_request_witness:
  "\<exists>t t'. task_row_of w_task_id queued_db = Some t \<and> task_row_of w_task_id cancelled_db = Some t' \<and>
     t_title t' = t_title t"
proof -
  have "task_row_of w_task_id queued_db \<noteq> None"
    by code_simp
  then obtain t where t: "task_row_of w_task_id queued_db = Some t" by blast
  have "live_step\<^sup>*\<^sup>* queued_db cancelled_db"
    unfolding cancelled_db_def by (rule steps_run [OF reachable_scenarios(1)])
  from task_keeps_request [OF t this] t show ?thesis by auto
qed



section \<open>Transitions\<close>

text \<open>
  A transition, by outcome. An error changes nothing. A success returns the task with the
  requested status: either it had it already and nothing changes, or the rules allow the move
  from its status and the write touches only the status and time of that task.
\<close>

theorem transition_outcome:
  "case transition_to e tid st s of
     (Inl err, s') \<Rightarrow> s' = s
   | (Inr v, s') \<Rightarrow> t_status (tv_row v) = st \<and> (\<exists>t. task_row_of tid s = Some t \<and>
        (if t_status t = st then s' = s
         else st \<in> set (transition_rules (t_status t)) \<and> t_status t \<in> - set TERMINAL_STATUSES \<and>
           s' = s\<lparr>tasks := sql_update (\<lambda>r. t_id r = tid)
                   (\<lambda>r. r\<lparr>t_status := st, t_updated_at := utc e 0\<rparr>) (tasks s)\<rparr>))"
proof (cases "transition_to e tid st s")
  case (Pair res s')
  show ?thesis
  proof (cases res)
    case (Inl err)
    with Pair show ?thesis
      by (auto simp: transition_to_def Let_def return_task_def get_task_def update_task_fields_def
          task_row_of_def find_sql_update set_status_def split: if_splits sum.splits option.splits)
  next
    case (Inr v)
    from Pair Inr obtain u where u: "get_task tid None s = Inr u"
      by (auto simp: transition_to_def split: if_splits sum.splits)
    then obtain t where t: "task_row_of tid s = Some t" "t_status (tv_row u) = t_status t"
      using get_task_row by blast
    show ?thesis
    proof (cases "t_status t = st")
      case True
      with Pair Inr u t show ?thesis
        by (auto simp: transition_to_def split: if_splits)
    next
      case False
      with Pair Inr u t have allowed: "st \<in> set (transition_rules (t_status t))"
        and s': "s' = update_task_fields e tid (set_status st) s" and v: "get_task tid None s' = Inr v"
        by (auto simp: transition_to_def return_task_def Let_def split: if_splits)
      have "t_id t = tid"
        using find_SomeD [OF t(1) [unfolded task_row_of_def]] by simp
      then have "task_row_of tid s' = Some (t\<lparr>t_status := st, t_updated_at := utc e 0\<rparr>)"
        using t(1) by (simp add: s' update_task_fields_def task_row_of_def find_sql_update set_status_def)
      with get_task_row [OF v] have "t_status (tv_row v) = st"
        by auto
      with Pair Inr t(1) False allowed rules_terminal [OF allowed] show ?thesis
        by (auto simp: s' update_task_fields_def set_status_def)
    qed
  qed
qed


section \<open>Nothing starts a finished task\<close>

lemma acquire_status:
  assumes "task_row_of tid s = Some t" "acquire_or_find_lease e tid ow x au pl s = (Inr h, s')"
  shows "t_status t \<in> set (''QUEUED'' # LIVE_STATUSES)"
proof -
  obtain v where v: "get_task tid None s = Inr v" "t_status (tv_row v) = t_status t"
    using assms get_task_row [of tid None s]
    by (auto simp: acquire_or_find_lease_def split: sum.splits)
  with assms show ?thesis
    by (auto simp: acquire_or_find_lease_def acquire_durable_lease_def acquire_lease_txn_def
        Let_def andthen_ok transact_ok status_guard_def split: if_splits)
qed

lemma claim_status:
  assumes "task_row_of tid s = Some t" "claim_task_txn e wid tid ow l s = (Inr n, s')"
  shows "t_status t \<in> {''QUEUED'', ''INTERRUPTED''}"
  using assms by (auto simp: claim_task_txn_def Let_def split: if_splits option.splits)

lemma claim_txn_error_keeps:
  assumes "\<And>n u. claim_task_txn e wid tid ow l s \<noteq> (Inr n, u)"
  shows "\<exists>err. claim_task e wid tid ow l s = (Inl err, s)"
  using assms by (cases "claim_task_txn e wid tid ow l s")
    (auto simp: claim_task_def transact_def split: sum.splits)

text \<open>
  Once a task has a terminal status (a cancelled queue entry, say) no later call can start
  it: acquiring a run and claiming it for a window both raise and change nothing.
\<close>

theorem finished_task_never_started:
  assumes "task_row_of tid s = Some t" "t_status t \<in> set TERMINAL_STATUSES" "live_step\<^sup>*\<^sup>* s s'"
  shows "(\<exists>err. acquire_or_find_lease e tid ow x au pl s' = (Inl err, s')) \<and>
         (\<exists>err. claim_task e wid tid ow l s' = (Inl err, s'))"
proof -
  obtain t' where t': "task_row_of tid s' = Some t'" "t_status t' \<in> set TERMINAL_STATUSES"
    using task_evolves [OF steps_evolve [OF assms(3)] assms(1)] assms(2) by (auto simp: task_le_def)
  then have "t_status t' \<notin> set (''QUEUED'' # LIVE_STATUSES)" "t_status t' \<notin> {''QUEUED'', ''INTERRUPTED''}"
    by (auto simp: TERMINAL_STATUSES_def LIVE_STATUSES_def)
  with acquire_status [OF t'(1)] claim_status [OF t'(1)] acquire_error_keeps claim_txn_error_keeps
  show ?thesis
    by (metis old.sum.exhaust surj_pair)
qed

theorem finished_task_never_started_witness:
  "\<exists>err. acquire_or_find_lease (wenv 6 0) w_task_id ''A'' 1000 '''' '''' later_db = (Inl err, later_db)"
proof -
  obtain t where t: "task_row_of w_task_id cancelled_db = Some t" "t_status t = ''CANCELLED''"
    using cancelled_status by auto
  have "t_status t \<in> set TERMINAL_STATUSES"
    by (simp add: t(2) TERMINAL_STATUSES_def)
  from finished_task_never_started [OF t(1) this cancelled_later] show ?thesis by blast
qed

section \<open>Queue cancellation\<close>

text \<open>
  A queue cancellation, by outcome. \<open>APPLIED\<close> means that the task was QUEUED and had no
  claim, run, reservation or publication; it is CANCELLED now and one event records it. Any
  other answer, and every error, leaves the database as it was.
\<close>

theorem cancel_outcome_exact:
  "case cancel_queued_task e tid s of
     (Inl err, s') \<Rightarrow> s' = s
   | (Inr c, s') \<Rightarrow>
       if qc_status c = ''APPLIED'' then
         \<exists>t ev. task_row_of tid s = Some t \<and> t_status t = ''QUEUED'' \<and>
           sql_count (\<lambda>r. dr_task_id r = tid) (durable_runs s) = 0 \<and>
           (if control_schema s then
              (sql_count (\<lambda>x. cl_task_id x = tid) (claims s),
               sql_count (\<lambda>x. br_task_id x = tid) (reservations s),
               sql_count (\<lambda>x. pb_task_id x = tid) (publications s)) = (0, 0, 0) else True) \<and>
           map_option t_status (task_row_of tid s') = Some ''CANCELLED'' \<and>
           task_events s' = task_events s @ [ev] \<and> ev_task_id ev = tid \<and> ev_type ev = ''QUEUE_CANCELLED'' \<and>
           t_status (tv_row (qc_task c)) = ''CANCELLED''
       else s' = s"
proof (cases "task_row_of tid s")
  case None
  then show ?thesis by (simp add: cancel_queued_task_def queue_cancel_txn_def)
next
  case (Some t)
  have tid: "t_id t = tid"
    using find_SomeD [OF Some [unfolded task_row_of_def]] by simp
  let ?hit = "\<lambda>r. t_id r = tid \<and> t_status r = ''QUEUED''"
  let ?s1 = "s\<lparr>tasks := sql_update ?hit (\<lambda>r. r\<lparr>t_status := ''CANCELLED'', t_updated_at := utc e 0\<rparr>) (tasks s)\<rparr>"
  have read: "\<exists>v. get_task tid (Some 0) s = Inr v"
    using Some by (simp add: get_task_def)
  show ?thesis
  proof (cases "queue_cancel_reason tid (t_status t) s = ''QUEUED_UNCLAIMED'' \<and> sql_count ?hit (tasks s) = 1")
    case False
    then have "\<exists>a b. queue_cancel_txn e tid s = (Inr (a, b), s) \<and> a \<noteq> ''APPLIED''"
      using Some by (auto simp: queue_cancel_txn_def Let_def)
    then show ?thesis
      using read by (auto simp: cancel_queued_task_def)
  next
    case True
    then have queued: "t_status t = ''QUEUED''" "\<not> has_execution_history tid s"
      by (auto simp: queue_cancel_reason_def split: if_splits)
    have fresh: "sql_count (\<lambda>r. dr_task_id r = tid) (durable_runs s) = 0"
      "if control_schema s then
              (sql_count (\<lambda>x. cl_task_id x = tid) (claims s),
               sql_count (\<lambda>x. br_task_id x = tid) (reservations s),
               sql_count (\<lambda>x. pb_task_id x = tid) (publications s)) = (0, 0, 0) else True"
      using queued(2) by (auto simp: has_execution_history_def sql_count_zero list_ex_iff)
    obtain ev s' where ev: "append_event (later 1 e) tid ''QUEUE_CANCELLED'' ''Queued task cancelled''
        ''Queued task cancellation completed'' '''' (Some (JObj [])) ?s1 = (Inr ev, s')"
      "ev_task_id ev = tid" "ev_type ev = ''QUEUE_CANCELLED''" "task_events s' = task_events s @ [ev]"
      "tasks s' = tasks (update_task_fields (later 1 (later 1 e)) tid id ?s1)"
      by (simp add: append_event_def VALID_EVENT_TYPES_def Let_def update_task_fields_def)
    have row: "task_row_of tid s' =
        Some (t\<lparr>t_status := ''CANCELLED'', t_updated_at := utc (later 1 (later 1 e)) 0\<rparr>)"
      using Some tid queued(1)
      by (simp add: task_row_of_def ev(5) update_task_fields_def find_sql_update)
    then obtain v where v: "get_task tid (Some 0) s' = Inr v" "t_status (tv_row v) = ''CANCELLED''"
      by (auto simp: get_task_def row_to_task_def Let_def)
    have "queue_cancel_txn e tid s = (Inr (''APPLIED'', ''QUEUED_UNCLAIMED''), s')"
      using Some True ev(1) by (simp add: queue_cancel_txn_def)
    with v ev Some queued(1) fresh row show ?thesis
      by (auto simp: cancel_queued_task_def)
  qed
qed

section \<open>Logs\<close>

text \<open>
  The logs only grow at their end: events, evidence, usage observations, checkpoints,
  charges, receipts, links and idempotency keys recorded once are there, in order and unchanged,
  in every later database.
\<close>

theorem logs_append_only:
  assumes "live_step\<^sup>*\<^sup>* s s'"
  shows "prefix (task_events s) (task_events s') \<and> prefix (task_evidence s) (task_evidence s')
    \<and> prefix (usage_observations s) (usage_observations s')
    \<and> prefix (checkpoint_history s) (checkpoint_history s')
    \<and> prefix (usage_charges s) (usage_charges s') \<and> prefix (receipts s) (receipts s')
    \<and> prefix (goal_task_links s) (goal_task_links s') \<and> prefix (idempotency_keys s) (idempotency_keys s')"
  using steps_evolve [OF assms] by (auto simp: evolves_def prefix_def dest!: append_only)

theorem logs_append_only_witness: "prefix (task_events cancelled_db) (task_events later_db)"
  using logs_append_only [OF cancelled_later] by blast

section \<open>Idempotent creation\<close>

lemma existing_request_append:
  assumes "key \<notin> ik_key ` set (idempotency_keys s)"
    and "idempotency_keys s' = idempotency_keys s @ [k]" "ik_key k = key"
  shows "existing_request key s' = map_option (Pair k) (task_row_of (ik_task_id k) s')"
proof -
  have "find (\<lambda>k. ik_key k = key) (idempotency_keys s) = None"
    using assms(1) by (auto simp: find_None_iff)
  with assms(2,3) show ?thesis
    by (simp add: existing_request_def find_append)
qed

text \<open>What a creation under a key leaves behind: the key names the task that was returned.\<close>

lemma created_request:
  assumes "create_task e q s = (Inr v, s1)" "q_idempotency_key q \<noteq> ''''"
  shows "\<exists>k t. existing_request (q_idempotency_key q) s1 = Some (k, t) \<and> same_request q k t
           \<and> t_id (tv_row v) = ik_task_id k"
proof (cases "existing_request (q_idempotency_key q) s")
  case (Some kt)
  obtain k t where kt: "kt = (k, t)" by (cases kt)
  with Some have row: "task_row_of (ik_task_id k) s = Some t"
    by (auto simp: existing_request_def split: option.splits)
  from assms Some kt have v: "get_task (ik_task_id k) None s = Inr v" "s1 = s" "same_request q k t"
    by (auto simp: create_task_def return_task_def split: if_splits)
  have "t_id t = ik_task_id k"
    using find_SomeD [OF row [unfolded task_row_of_def]] by simp
  with get_task_row [OF v(1)] row v(2,3) Some kt show ?thesis
    by auto
next
  case None
  let ?tid = "t_id (new_task_row e q)"
  from assms None have "create_task_impl e q s = (Inr v, s1)"
    by (auto simp: create_task_def split: if_splits)
  then obtain s2 s3 ev where s2: "insert_task_row e q s = (Inr (new_task_row e q), s2)"
    and s3: "insert_key_row e q ?tid s2 = (Inr (), s3)"
    and ev: "append_event (later 1 e) ?tid ''DISCOVERED'' ''Task queued''
                (''Task created for '' @ q_repository q) ''''
                (Some (JObj [(''executor_kind'', JStr (q_executor_kind q)),
                             (''status'', JStr ''QUEUED'')])) s3 = (Inr ev, s1)"
    and v: "get_task ?tid None s1 = Inr v"
    by (auto simp: create_task_impl_def andthen_ok insert_task_row_def Let_def return_task_def
        split: sum.splits)
  have t2: "tasks s2 = tasks s @ [new_task_row e q]" "idempotency_keys s2 = idempotency_keys s"
    and fresh: "?tid \<notin> t_id ` set (tasks s)"
    using s2 by (auto simp: insert_task_row_def sql_insert_def Let_def list_ex_iff split: if_splits)
  have k3: "idempotency_keys s3 = idempotency_keys s @ [new_key_row e q ?tid]" "tasks s3 = tasks s2"
    and new: "q_idempotency_key q \<notin> ik_key ` set (idempotency_keys s)"
    using s3 assms(2) t2(2) by (auto simp: insert_key_row_def sql_insert_def list_ex_iff new_key_row_def split: if_splits)
  have s1: "idempotency_keys s1 = idempotency_keys s3"
    "tasks s1 = sql_update (\<lambda>r. t_id r = ?tid) (\<lambda>r. r\<lparr>t_updated_at := utc (later 1 (later 1 e)) 0\<rparr>) (tasks s2)"
    using ev k3(2) by (auto simp: append_event_def Let_def update_task_fields_def split: if_splits)
  have row: "task_row_of ?tid s1 = Some ((new_task_row e q)\<lparr>t_updated_at := utc (later 1 (later 1 e)) 0\<rparr>)"
  proof -
    have "find (\<lambda>r. t_id r = ?tid) (tasks s) = None"
      unfolding find_None_iff using fresh by (metis image_eqI)
    then have "find (\<lambda>r. t_id r = ?tid) (tasks s2) = Some (new_task_row e q)"
      by (simp add: t2(1) find_append)
    then show ?thesis
      by (simp add: task_row_of_def s1(2) find_sql_update)
  qed
  have "existing_request (q_idempotency_key q) s1 =
      map_option (Pair (new_key_row e q ?tid)) (task_row_of (ik_task_id (new_key_row e q ?tid)) s1)"
    using s1(1) k3(1) by (intro existing_request_append [OF new]) (simp_all add: new_key_row_def)
  moreover have "t_id (tv_row v) = ?tid"
    using get_task_row [OF v] row by auto
  ultimately show ?thesis
    using row by (simp add: new_key_row_def same_request_def new_task_row_def Let_def)
qed

lemma existing_request_persists:
  assumes "evolves s s'" "existing_request key s = Some (k, t)"
  shows "\<exists>t'. existing_request key s' = Some (k, t') \<and> task_le t t'"
proof -
  have k: "find (\<lambda>x. ik_key x = key) (idempotency_keys s) = Some k" "task_row_of (ik_task_id k) s = Some t"
    using assms(2) by (auto simp: existing_request_def split: option.splits)
  obtain v where "idempotency_keys s' = idempotency_keys s @ v"
    using append_only [of any_row "idempotency_keys s" "idempotency_keys s'"] assms(1)
    by (auto simp only: evolves_def)
  with k task_evolves [OF assms(1) k(2)] show ?thesis
    by (auto simp: existing_request_def find_append)
qed

definition same_fields :: "task_request \<Rightarrow> task_request \<Rightarrow> bool" where
  "same_fields p q \<longleftrightarrow>
     q_title p = q_title q \<and> q_repository p = q_repository q \<and> q_executor_kind p = q_executor_kind q \<and>
     q_binding_ref p = q_binding_ref q \<and> q_orchestration_mode p = q_orchestration_mode q"

definition valid_request :: "task_request \<Rightarrow> bool" where
  "valid_request q \<longleftrightarrow>
     q_orchestration_mode q \<in> {''single'', ''sequential_team''} \<and>
     (q_executor_kind q = ''opencode'' \<or>
      (q_orchestration_mode q = ''single'' \<and> q_binding_ref q = ''''))"

text \<open>
  Creation is idempotent per key. After a task was created under a key, in every later
  database a valid request with that key either asks for the same task and is answered with
  that task, or differs in a compared field and is refused as a duplicate; neither writes.
\<close>

theorem create_task_idempotent:
  assumes "create_task e q s = (Inr v, s1)" "q_idempotency_key q \<noteq> ''''" "live_step\<^sup>*\<^sup>* s1 s2"
    and "q_idempotency_key p = q_idempotency_key q" "valid_request p"
  shows "if same_fields p q
         then \<exists>u. create_task e2 p s2 = (Inr u, s2) \<and> t_id (tv_row u) = t_id (tv_row v)
         else \<exists>m. create_task e2 p s2 = (Inl (DuplicateTaskError m), s2)"
proof -
  obtain k t where k: "existing_request (q_idempotency_key q) s1 = Some (k, t)" "same_request q k t"
    "t_id (tv_row v) = ik_task_id k"
    using created_request [OF assms(1,2)] by blast
  obtain t' where t': "existing_request (q_idempotency_key q) s2 = Some (k, t')" "task_le t t'"
    using existing_request_persists [OF steps_evolve [OF assms(3)] k(1)] by blast
  have same: "same_request p k t' \<longleftrightarrow> same_fields p q"
    using k(2) t'(2) by (auto simp: same_request_def same_fields_def task_le_def)
  have row: "task_row_of (ik_task_id k) s2 = Some t'" "t_id t' = ik_task_id k"
    using t'(1) find_SomeD [of "\<lambda>r. t_id r = ik_task_id k" "tasks s2" t']
    by (auto simp: existing_request_def task_row_of_def split: option.splits)
  then obtain u where "get_task (ik_task_id k) None s2 = Inr u" "t_id (tv_row u) = ik_task_id k"
    by (simp add: get_task_def row_to_task_def Let_def)
  with assms(2,4,5) t'(1) same k(3) show ?thesis
    by (auto simp: create_task_def return_task_def valid_request_def)
qed

theorem create_task_idempotent_witness:
  "\<exists>m. create_task (wenv 8 0) (wtask ''other'' ''k'') later_db = (Inl (DuplicateTaskError m), later_db)"
proof -
  have "case fst (create_task (wenv 1 0) (wtask ''t'' ''k'') empty_db) of Inl _ \<Rightarrow> False | Inr _ \<Rightarrow> True"
    by code_simp
  then obtain v where v: "fst (create_task (wenv 1 0) (wtask ''t'' ''k'') empty_db) = Inr v"
    by (auto split: sum.splits)
  have "snd (create_task (wenv 1 0) (wtask ''t'' ''k'') empty_db) = queued_db"
    by (simp add: queued_db_def queued_calls_def run_calls_def)
  with v have c: "create_task (wenv 1 0) (wtask ''t'' ''k'') empty_db = (Inr v, queued_db)"
    by (simp only: prod_eq_iff fst_conv snd_conv)
  have "live_step\<^sup>*\<^sup>* queued_db cancelled_db"
    unfolding cancelled_db_def by (rule steps_run [OF reachable_scenarios(1)])
  then have "live_step\<^sup>*\<^sup>* queued_db later_db"
    using cancelled_later by (rule rtranclp_trans)
  from create_task_idempotent [OF c _ this, of "wtask ''other'' ''k''" "wenv 8 0"]
  show ?thesis by (simp add: wtask_def valid_request_def same_fields_def)
qed

end
