(* ===== verification/Claim_Backing.thy ===== *)
theory Claim_Backing
  imports Budget_Invariant
begin

text \<open>
  What a claim writes, and the invariant that every active claim is backed: its task and window
  exist and an active reservation carries its task, window and epoch. So the holder of a claim
  can always settle it.
\<close>

section \<open>What the operations write\<close>

lemma claim_txn_steps:
  assumes "claim_task_txn e wid tid ow l s = (Inr n, t)"
  shows "\<exists>w task s1 s2. window_row_of wid s = Some w \<and> w_status w = ''ACTIVE'' \<and> utc e 0 < w_expires_at w
    \<and> int (sql_count (live_claim wid (now_ms e 0)) (claims s)) < w_max_concurrent_tasks w
    \<and> task_row_of tid s = Some task \<and> t_status task \<in> {''QUEUED'', ''INTERRUPTED''}
    \<and> (case claim_row_of tid s of None \<Rightarrow> True
         | Some c \<Rightarrow> \<not> (cl_status c = ''ACTIVE'' \<and> now_ms e 0 < cl_expires_at_ms c))
    \<and> claim_budget_error w tid s = None \<and> n = next_epoch tid s
    \<and> write_claim e wid tid ow n (now_ms e 0 + l) s = (Inr (), s1)
    \<and> write_reservation e w tid n s1 = (Inr (), s2)
    \<and> t = charge_attempt e wid (t_status task = ''INTERRUPTED'') s2"
proof -
  obtain w where w: "window_row_of wid s = Some w"
    using assms by (cases "window_row_of wid s") (auto simp: claim_task_txn_def Let_def)
  obtain task where task: "task_row_of tid s = Some task"
    using assms w by (cases "task_row_of tid s") (auto simp: claim_task_txn_def Let_def split: if_splits)
  from assms w task show ?thesis
    by (auto simp: claim_task_txn_def Let_def andthen_ok not_le split: if_splits option.splits)
qed

lemma write_claim_rows:
  assumes "write_claim e wid tid ow ep x s = (Inr u, t)" "c \<in> set (claims t)"
  shows "(c \<in> set (claims s) \<and> cl_task_id c \<noteq> tid) \<or>
    (cl_task_id c = tid \<and> cl_window_id c = wid \<and> cl_owner c = ow \<and> cl_epoch c = ep
     \<and> cl_status c = ''ACTIVE'' \<and> cl_expires_at_ms c = x)"
proof (cases "claim_row_of tid s")
  case None
  define new where "new = \<lparr>cl_task_id = tid, cl_window_id = wid, cl_owner = ow, cl_epoch = ep,
     cl_expires_at_ms = x, cl_status = ''ACTIVE'', cl_created_at = utc e 1, cl_updated_at = utc e 2\<rparr>"
  from None assms(1) have "claims t = claims s @ [new]" "\<And>b. b \<in> set (claims s) \<Longrightarrow> cl_task_id b \<noteq> tid"
    by (auto simp: write_claim_def sql_insert_def new_def list_ex_iff split: if_splits)
  with assms(2) have "(c \<in> set (claims s) \<and> cl_task_id c \<noteq> tid) \<or> c = new"
    by simp blast
  then show ?thesis
    by (elim disjE) (simp_all add: new_def)
next
  case (Some a)
  with assms(1) have "claims t = sql_update (\<lambda>c. cl_task_id c = tid)
      (\<lambda>c. c\<lparr>cl_window_id := wid, cl_owner := ow, cl_epoch := ep, cl_expires_at_ms := x,
             cl_status := ''ACTIVE'', cl_updated_at := utc e 1\<rparr>) (claims s)"
    by (auto simp: write_claim_def)
  from sql_update_row [OF assms(2) [unfolded this]] show ?thesis
    by (elim bexE) (simp split: if_splits)
qed

lemma write_claim_row:
  assumes "write_claim e wid tid ow ep x s = (Inr u, t)"
  shows "\<exists>c. claim_row_of tid t = Some c"
proof (cases "claim_row_of tid s")
  case None
  with assms show ?thesis
    by (auto simp: write_claim_def sql_insert_def claim_row_of_def find_append split: if_splits option.split)
next
  case (Some a)
  with assms show ?thesis
    by (auto simp: write_claim_def claim_row_of_def find_sql_update)
qed

lemma open_reservation_row:
  "open_reservation tid wid s = Some r \<Longrightarrow>
   r \<in> set (reservations s) \<and> br_task_id r = tid \<and> br_window_id r = wid \<and> br_state r = ''ACTIVE''"
  by (auto simp: open_reservation_def split: list.splits dest: order_desc_hd)

lemma write_reservation_rows:
  assumes "write_reservation e w tid ep s = (Inr u, t)"
  shows "\<exists>r \<in> set (reservations t). br_task_id r = tid \<and> br_window_id r = w_id w
           \<and> br_claim_epoch r = ep \<and> br_state r = ''ACTIVE''"
    and "r \<in> set (reservations s) \<Longrightarrow> br_task_id r \<noteq> tid \<Longrightarrow> r \<in> set (reservations t)"
    and "claims t = claims s \<and> tasks t = tasks s \<and> windows t = windows s"
proof -
  show "claims t = claims s \<and> tasks t = tasks s \<and> windows t = windows s"
    using assms by (auto simp: write_reservation_def Let_def sql_insert_def split: option.splits if_splits)
  show "r \<in> set (reservations s) \<Longrightarrow> br_task_id r \<noteq> tid \<Longrightarrow> r \<in> set (reservations t)"
    using assms by (auto simp: write_reservation_def Let_def sql_insert_def set_sql_update image_iff
        split: option.splits if_splits)
  show "\<exists>r \<in> set (reservations t). br_task_id r = tid \<and> br_window_id r = w_id w
           \<and> br_claim_epoch r = ep \<and> br_state r = ''ACTIVE''"
  proof (cases "open_reservation tid (w_id w) s")
    case None
    with assms show ?thesis
      by (auto simp: write_reservation_def Let_def sql_insert_def split: if_splits)
  next
    case (Some q)
    note q = open_reservation_row [OF Some]
    show ?thesis
    proof (cases "br_claim_epoch q = ep")
      case True
      with assms Some q show ?thesis
        by (auto simp: write_reservation_def Let_def)
    next
      case False
      with assms Some have "reservations t = sql_update
          (\<lambda>x. br_task_id x = tid \<and> br_claim_epoch x = br_claim_epoch q \<and> br_state x = ''ACTIVE'')
          (\<lambda>x. x\<lparr>br_claim_epoch := ep, br_updated_at := utc e 3\<rparr>) (reservations s)"
        by (auto simp: write_reservation_def Let_def split: if_splits)
      with q have "q\<lparr>br_claim_epoch := ep, br_updated_at := utc e 3\<rparr> \<in> set (reservations t)"
        by (auto simp: set_sql_update intro!: image_eqI [of _ _ q])
      with q show ?thesis
        by (intro bexI [of _ "q\<lparr>br_claim_epoch := ep, br_updated_at := utc e 3\<rparr>"]) simp_all
    qed
  qed
qed

lemma charge_attempt_keeps [simp]:
  "claims (charge_attempt e wid b s) = claims s" "reservations (charge_attempt e wid b s) = reservations s"
  "tasks (charge_attempt e wid b s) = tasks s"
  by (simp_all add: charge_attempt_def)

lemma finalize_txn_steps:
  assumes "finalize_claim_txn e wid tid ow ep st b s = (Inr state, t)"
  shows "\<exists>c r w task cs. c \<in> set (claims s) \<and> cl_task_id c = tid \<and> cl_window_id c = wid \<and> cl_owner c = ow
    \<and> cl_epoch c = ep \<and> cl_status c = ''ACTIVE''
    \<and> r \<in> set (reservations s) \<and> br_task_id r = tid \<and> br_claim_epoch r = ep \<and> br_state r = ''ACTIVE''
    \<and> br_window_id r = wid \<and> window_row_of wid s = Some w \<and> task_row_of tid s = Some task
    \<and> insert_charges (later 10 e) wid tid ep (uncharged tid wid s) (usage_charges s) = Inr cs
    \<and> (let u = settle_usage (t_executor_kind task) (uncharged tid wid s) in
        state = (if ur_unknown u then ''UNKNOWN'' else if usage_overrun w r u then ''OVERRUN'' else ''RECONCILED'')
        \<and> t = s\<lparr>usage_charges := cs,
               reservations := sql_update (\<lambda>r. br_task_id r = tid \<and> br_claim_epoch r = ep \<and> br_state r = ''ACTIVE'')
                 (settle_reservation e state u) (reservations s),
               claims := sql_update (\<lambda>c. cl_task_id c = tid \<and> cl_window_id c = wid \<and> cl_owner c = ow
                   \<and> cl_epoch c = ep \<and> cl_status c = ''ACTIVE'')
                 (\<lambda>c. c\<lparr>cl_status := st, cl_updated_at := utc e 2\<rparr>) (claims s),
               windows := sql_update (\<lambda>w. w_id w = wid) (settle_window e b (usage_overrun w r u) u) (windows s)\<rparr>)"
proof -
  let ?mine = "\<lambda>c. cl_task_id c = tid \<and> cl_window_id c = wid \<and> cl_owner c = ow
            \<and> cl_epoch c = ep \<and> cl_status c = ''ACTIVE''"
  let ?held = "\<lambda>r. br_task_id r = tid \<and> br_claim_epoch r = ep \<and> br_state r = ''ACTIVE''"
  obtain c where c: "find ?mine (claims s) = Some c"
    using assms by (cases "find ?mine (claims s)") (auto simp: finalize_claim_txn_def Let_def)
  obtain r where r: "find (\<lambda>r. ?held r \<and> br_window_id r = wid) (reservations s) = Some r"
    using assms c by (cases "find (\<lambda>r. ?held r \<and> br_window_id r = wid) (reservations s)")
      (auto simp: finalize_claim_txn_def Let_def)
  obtain w where w: "window_row_of wid s = Some w"
    using assms c r by (cases "window_row_of wid s") (auto simp: finalize_claim_txn_def Let_def)
  obtain task where task: "task_row_of tid s = Some task"
    using assms c r w by (cases "task_row_of tid s") (auto simp: finalize_claim_txn_def Let_def)
  obtain cs where cs: "insert_charges (later 10 e) wid tid ep (uncharged tid wid s) (usage_charges s) = Inr cs"
    using assms c r w task
    by (cases "insert_charges (later 10 e) wid tid ep (uncharged tid wid s) (usage_charges s)")
      (auto simp: finalize_claim_txn_def Let_def)
  show ?thesis
    using assms c r w task cs find_SomeD [OF c] find_SomeD [OF r]
    by (intro exI [of _ c] exI [of _ r] exI [of _ w] exI [of _ task] exI [of _ cs])
      (auto simp: finalize_claim_txn_def Let_def settle_reservation_def [abs_def])
qed

text \<open>The same, table by table.\<close>

lemma finalize_txnE:
  assumes "finalize_claim_txn e wid tid ow ep st b s = (Inr state, t)"
  obtains c r w u and task :: task_row where
    "c \<in> set (claims s)" "cl_task_id c = tid" "cl_window_id c = wid" "cl_owner c = ow" "cl_epoch c = ep"
    "cl_status c = ''ACTIVE''" "window_row_of wid s = Some w"
    "u = settle_usage (t_executor_kind task) (uncharged tid wid s)"
    "state = (if ur_unknown u then ''UNKNOWN'' else if usage_overrun w r u then ''OVERRUN'' else ''RECONCILED'')"
    "insert_charges (later 10 e) wid tid ep (uncharged tid wid s) (usage_charges s) = Inr (usage_charges t)"
    "usage_observations t = usage_observations s"
    "claims t = sql_update (\<lambda>c. cl_task_id c = tid \<and> cl_window_id c = wid \<and> cl_owner c = ow
         \<and> cl_epoch c = ep \<and> cl_status c = ''ACTIVE'')
       (\<lambda>c. c\<lparr>cl_status := st, cl_updated_at := utc e 2\<rparr>) (claims s)"
    "windows t = sql_update (\<lambda>w. w_id w = wid) (settle_window e b (usage_overrun w r u) u) (windows s)"
proof -
  from finalize_txn_steps [OF assms, unfolded Let_def] show thesis
  proof (elim exE conjE)
    fix c r w cs and task :: task_row
    let ?u = "settle_usage (t_executor_kind task) (uncharged tid wid s)"
    assume "c \<in> set (claims s)" "cl_task_id c = tid" "cl_window_id c = wid" "cl_owner c = ow"
      "cl_epoch c = ep" "cl_status c = ''ACTIVE''" "window_row_of wid s = Some w"
      "insert_charges (later 10 e) wid tid ep (uncharged tid wid s) (usage_charges s) = Inr cs"
      "state = (if ur_unknown ?u then ''UNKNOWN'' else if usage_overrun w r ?u then ''OVERRUN'' else ''RECONCILED'')"
      "t = s\<lparr>usage_charges := cs,
               reservations := sql_update (\<lambda>r. br_task_id r = tid \<and> br_claim_epoch r = ep \<and> br_state r = ''ACTIVE'')
                 (settle_reservation e state ?u) (reservations s),
               claims := sql_update (\<lambda>c. cl_task_id c = tid \<and> cl_window_id c = wid \<and> cl_owner c = ow
                   \<and> cl_epoch c = ep \<and> cl_status c = ''ACTIVE'')
                 (\<lambda>c. c\<lparr>cl_status := st, cl_updated_at := utc e 2\<rparr>) (claims s),
               windows := sql_update (\<lambda>w. w_id w = wid) (settle_window e b (usage_overrun w r ?u) ?u) (windows s)\<rparr>"
    then show thesis
      by (intro that [of c w ?u task r]) simp_all
  qed
qed

section \<open>Active claims are backed\<close>

definition claim_backed :: "db \<Rightarrow> claim_row \<Rightarrow> bool" where
  "claim_backed s c \<longleftrightarrow>
     task_row_of (cl_task_id c) s \<noteq> None \<and> window_row_of (cl_window_id c) s \<noteq> None \<and>
     (\<exists>r \<in> set (reservations s). br_task_id r = cl_task_id c \<and> br_window_id r = cl_window_id c
        \<and> br_claim_epoch r = cl_epoch c \<and> br_state r = ''ACTIVE'')"

definition claims_backed :: "db \<Rightarrow> bool" where
  "claims_backed s \<longleftrightarrow> (\<forall>c \<in> set (claims s). cl_status c = ''ACTIVE'' \<longrightarrow> claim_backed s c)"

lemma rows_persist:
  assumes "evolves s t"
  shows "task_row_of tid s \<noteq> None \<Longrightarrow> task_row_of tid t \<noteq> None"
    and "window_row_of wid s \<noteq> None \<Longrightarrow> window_row_of wid t \<noteq> None"
  using task_evolves [OF assms, of tid] window_evolves [OF assms, of wid] by auto

text \<open>A backed claim stays backed while no reservation of its task changes.\<close>

lemma backed_persists:
  assumes "evolves s t" "claim_backed s c"
    and "\<And>r. r \<in> set (reservations s) \<Longrightarrow> br_task_id r = cl_task_id c \<Longrightarrow> r \<in> set (reservations t)"
  shows "claim_backed t c"
  using assms rows_persist [OF assms(1)] unfolding claim_backed_def by blast

lemma backed_claim_txn:
  assumes "claims_backed s" "keys_ok s" "claim_task_txn e wid tid ow l s = (Inr n, t)"
  shows "claims_backed t"
  unfolding claims_backed_def
proof (intro ballI impI)
  fix c assume c: "c \<in> set (claims t)" "cl_status c = ''ACTIVE''"
  obtain w task s1 s2 where st: "window_row_of wid s = Some w" "task_row_of tid s = Some task"
    "write_claim e wid tid ow n (now_ms e 0 + l) s = (Inr (), s1)"
    "write_reservation e w tid n s1 = (Inr (), s2)"
    "t = charge_attempt e wid (t_status task = ''INTERRUPTED'') s2"
    using claim_txn_steps [OF assms(3)] by blast
  have "t = snd (claim_task e wid tid ow l s)"
    using assms(3) by (simp add: claim_task_def)
  then have ev: "evolves s t"
    using lawful_claim_task [of s e wid tid ow l] assms(2) by (simp add: lawful_def)
  have same: "reservations s1 = reservations s"
    using write_claim_frame [OF st(3)] by simp
  from c(1) have "c \<in> set (claims s1)"
    using write_reservation_rows(3) [OF st(4)] by (simp add: st(5))
  from write_claim_rows [OF st(3) this] show "claim_backed t c"
  proof (elim disjE conjE)
    assume old: "c \<in> set (claims s)" "cl_task_id c \<noteq> tid"
    then have "claim_backed s c"
      using assms(1) c(2) by (simp add: claims_backed_def)
    then show ?thesis
      by (rule backed_persists [OF ev]) (use write_reservation_rows(2) [OF st(4)] same old(2) st(5) in auto)
  next
    assume new: "cl_task_id c = tid" "cl_window_id c = wid" "cl_epoch c = n"
    have "w_id w = wid"
      using find_SomeD [OF st(1) [unfolded window_row_of_def]] by simp
    with new rows_persist [OF ev] st(1,2) write_reservation_rows(1) [OF st(4)] show ?thesis
      by (simp add: claim_backed_def st(5))
  qed
qed

lemma backed_finalize:
  assumes "claims_backed s" "keys_ok s" "st \<in> {''COMPLETE'', ''FAILED''}"
    and "finalize_claim_txn e wid tid ow ep st b s = (Inr state, t)"
  shows "claims_backed t"
  unfolding claims_backed_def
proof (intro ballI impI)
  fix c assume c: "c \<in> set (claims t)" "cl_status c = ''ACTIVE''"
  let ?mine = "\<lambda>c. cl_task_id c = tid \<and> cl_window_id c = wid \<and> cl_owner c = ow
            \<and> cl_epoch c = ep \<and> cl_status c = ''ACTIVE''"
  obtain a where a: "a \<in> set (claims s)" "?mine a"
    and ct: "claims t = sql_update ?mine (\<lambda>c. c\<lparr>cl_status := st, cl_updated_at := utc e 2\<rparr>) (claims s)"
    and rt: "\<And>r. r \<in> set (reservations s) \<Longrightarrow> br_task_id r \<noteq> tid \<Longrightarrow> r \<in> set (reservations t)"
    using finalize_txn_steps [OF assms(4)] by (auto simp: Let_def set_sql_update image_iff)
  have "t = snd (finalize_claim_txn e wid tid ow ep st b s)"
    using assms(4) by simp
  then have ev: "evolves s t"
    using lawful_finalize [OF assms(3), of s e wid tid ow ep b] assms(2) by (simp add: lawful_def)
  obtain q where q: "q \<in> set (claims s)" "c = (if ?mine q then q\<lparr>cl_status := st, cl_updated_at := utc e 2\<rparr> else q)"
    using sql_update_row [OF c(1) [unfolded ct]] by blast
  with c(2) assms(3) have "c = q" "\<not> ?mine q"
    by (auto split: if_splits)
  moreover have "cl_task_id q \<noteq> tid"
  proof
    assume "cl_task_id q = tid"
    then have "q = a"
      using key_inject [of cl_task_id "claims s" q a] q(1) a assms(2) by (simp add: keys_ok_def)
    with a \<open>\<not> ?mine q\<close> show False by simp
  qed
  moreover have "claim_backed s q"
    using assms(1) q(1) c(2) \<open>c = q\<close> by (simp add: claims_backed_def)
  ultimately show "claim_backed t c"
    using backed_persists [OF ev] rt by simp
qed

fun claim_call :: "control_call \<Rightarrow> bool" where
  "claim_call (ClaimTask e w tid ow l) = True"
| "claim_call (AbandonClaim e w tid ow ep r) = True"
| "claim_call (CompleteClaim e w tid ow ep r) = True"
| "claim_call c = False"

lemma claims_frame:
  assumes "\<not> claim_call c"
  shows "claims (snd (run_control c s)) = claims s \<and> reservations (snd (run_control c s)) = reservations s"
proof (cases "window_call c")
  case False
  then show ?thesis by (simp add: other_control_calls)
next
  case True
  with assms show ?thesis
    by (cases c) (auto simp: activate_window_def active_window_def stop_window_def Let_def
        sql_insert_def split: option.splits)
qed

lemma backed_close:
  assumes "claims_backed s" "keys_ok s" "st \<in> {''COMPLETE'', ''FAILED''}"
  shows "claims_backed (snd (close_claim e wid tid ow ep st b r x s))"
proof -
  have receipt: "claims_backed (snd (append_receipt e' w i t))" if "claims_backed t" for e' w i t
    using that by (auto simp: append_receipt_def sql_insert_def claims_backed_def claim_backed_def
        task_row_of_def window_row_of_def split: option.splits sum.splits)
  have "claims_backed (snd (finalize_task_claim e wid tid ow ep st b s))"
    using backed_finalize [OF assms, of e wid tid ow ep b] assms(1,3)
    by (auto simp: finalize_task_claim_def transact_def split: prod.splits sum.splits)
  then show ?thesis
    unfolding close_claim_def
    by (rule andthen_state [where P = claims_backed])
      (auto intro!: andthen_state [where P = claims_backed] receipt split: sum.splits)
qed

lemma backed_claim_task:
  assumes "claims_backed s" "keys_ok s"
  shows "claims_backed (snd (claim_task e wid tid ow l s))"
proof -
  have "claims_backed t" if "transact w s (claim_task_txn e wid tid ow l s) = (r, t)" for w r t
    using that backed_claim_txn [OF assms] assms(1)
    by (cases "claim_task_txn e wid tid ow l s"; cases "fst (claim_task_txn e wid tid ow l s)") auto
  then show ?thesis
    unfolding claim_task_def
    by (intro andthen_state [where P = claims_backed]) (auto simp: prod_eq_iff)
qed

lemma backed_untouched:
  assumes "claims_backed s" "evolves s t" "claims t = claims s" "reservations t = reservations s"
  shows "claims_backed t"
  using assms(1) backed_persists [OF assms(2)] by (auto simp: claims_backed_def assms(3,4))

lemma reachable_backed: "reachable s \<Longrightarrow> claims_backed s"
proof (induction rule: reachable.induct)
  case new_file
  then show ?case by (simp add: claims_backed_def empty_db_def)
next
  case (step s s')
  have ev: "evolves s s'"
    using db_step_lawful [OF step(2)] reachable_keys [OF step(1)] by (simp add: lawful_def)
  from step(2) show ?case
  proof (cases rule: db_step.cases)
    case (store_call c)
    with store_keeps_control [of c s] step(3) ev show ?thesis
      by (intro backed_untouched [OF step(3) ev]) (simp_all add: control_part_def)
  next
    case open_control
    with step(3) ev show ?thesis
      by (intro backed_untouched [OF step(3) ev]) (simp_all add: init_control_schema_def)
  next
    case (control_call c)
    show ?thesis
    proof (cases "claim_call c")
      case False
      with claims_frame [of c s] control_call ev show ?thesis
        by (intro backed_untouched [OF step(3) ev]) simp_all
    next
      case True
      then show ?thesis
        unfolding control_call(1)
        by (cases c)
          (simp_all add: backed_claim_task backed_close abandon_task_claim_def
            complete_task_claim_def step(3) reachable_keys [OF step(1)])
    qed
  qed
qed


section \<open>Settling\<close>

lemma insert_charges_ok:
  "distinct (map uo_id us) \<Longrightarrow> uo_id ` set us \<inter> uc_observation_id ` set cs = {} \<Longrightarrow>
   \<exists>cs'. insert_charges e wid tid ep us cs = Inr cs'"
proof (induction us arbitrary: e cs)
  case (Cons u us)
  let ?r = "\<lparr>uc_observation_id = uo_id u, uc_window_id = wid, uc_task_id = tid,
             uc_claim_epoch = ep, uc_charged_at = utc e 0\<rparr>"
  have "\<not> list_ex (\<lambda>c. uo_id u = uc_observation_id c) cs"
    using Cons.prems(2) by (auto simp: list_ex_iff)
  moreover have "\<exists>cs'. insert_charges (later 1 e) wid tid ep us (cs @ [?r]) = Inr cs'"
    using Cons.prems by (intro Cons.IH) auto
  ultimately show ?case by (simp add: sql_insert_def)
qed simp

lemma distinct_ordered: "distinct (map f (order_asc k xs)) = distinct (map f xs)"
  by (simp add: order_asc_def distinct_map)

lemma uncharged_fresh:
  assumes "keys_ok s"
  shows "distinct (map uo_id (uncharged tid wid s))"
    and "uo_id ` set (uncharged tid wid s) \<inter> uc_observation_id ` set (usage_charges s) = {}"
  using assms by (auto simp: uncharged_def distinct_ordered keys_ok_def distinct_map_filter list_ex_iff)

text \<open>The holder of an active claim can settle it.\<close>

lemma active_claim_settles:
  assumes "reachable s" "claim_row_of tid s = Some c" "cl_status c = ''ACTIVE''"
    and "st \<in> {''COMPLETE'', ''FAILED''}"
  shows "\<exists>state s'. finalize_task_claim e (cl_window_id c) tid (cl_owner c) (cl_epoch c) st b s = (Inr state, s')"
proof -
  have keys: "keys_ok s"
    by (rule reachable_keys [OF assms(1)])
  have c: "c \<in> set (claims s)" "cl_task_id c = tid"
    using find_SomeD [OF assms(2) [unfolded claim_row_of_def]] by simp_all
  let ?wid = "cl_window_id c" and ?ep = "cl_epoch c"
  let ?mine = "\<lambda>x. cl_task_id x = tid \<and> cl_window_id x = ?wid \<and> cl_owner x = cl_owner c
            \<and> cl_epoch x = ?ep \<and> cl_status x = ''ACTIVE''"
  let ?held = "\<lambda>r. (br_task_id r = tid \<and> br_claim_epoch r = ?ep \<and> br_state r = ''ACTIVE'') \<and> br_window_id r = ?wid"
  have "claim_backed s c"
    using reachable_backed [OF assms(1)] c(1) assms(3) by (simp add: claims_backed_def)
  then obtain t w r where bk: "task_row_of tid s = Some t" "window_row_of ?wid s = Some w"
    "r \<in> set (reservations s)" "?held r"
    using c(2) by (auto simp: claim_backed_def)
  have "find ?mine (claims s) \<noteq> None"
    using c assms(3) by (auto simp: find_None_iff)
  moreover obtain a where "find ?held (reservations s) = Some a"
    using bk(3,4) by (cases "find ?held (reservations s)") (auto simp: find_None_iff)
  moreover obtain cs where "insert_charges (later 10 e) ?wid tid ?ep (uncharged tid ?wid s) (usage_charges s) = Inr cs"
    using insert_charges_ok [OF uncharged_fresh [OF keys]] by blast
  ultimately show ?thesis
    using bk(1,2) assms(4)
    by (auto simp: finalize_task_claim_def finalize_claim_txn_def Let_def)
qed

end
