(* ===== verification/Window_Properties.thy ===== *)
theory Window_Properties
  imports Scenarios Claim_Backing
begin

text \<open>
  The properties of autonomous windows: budgets, admission of claims, fencing of their holders,
  and the settlement of usage.
\<close>

section \<open>A window with a claimed task\<close>

definition wpolicy :: window_policy where
  "wpolicy = \<lparr>wp_window_id = ''w'', wp_policy_id = ''p'', wp_policy_revision = 1,
     wp_owner_identity = ''o'', wp_starts_at = ''2026-01-01T00:00:00Z'',
     wp_expires_at = ''2026-01-02T00:00:00Z'', wp_repositories = [''o/r''],
     wp_capabilities = [''execute_task''], wp_max_concurrent_tasks = 1, wp_max_tasks = 3,
     wp_max_retries = 1, wp_max_token_units = 100, wp_max_cost_micro_units = 0,
     wp_per_task_token_reservation = 40, wp_per_task_cost_reservation = 0,
     wp_provider_quota_state = ''KNOWN'', wp_enforcement_class = ''HARD''\<rparr>"

definition wobs :: usage_input where
  "wobs = \<lparr>ui_observation_id = ''ob'', ui_execution_id = ''x'', ui_role = ''coder'',
     ui_model_id = ''m'', ui_provider_id = ''pr'', ui_source_kind = ''k'', ui_source_id = ''s'',
     ui_status = ''OBSERVED'', ui_input_units = Some 20, ui_output_units = Some 10,
     ui_reasoning_units = Some 0, ui_cache_read_units = Some 0, ui_cache_write_units = Some 0,
     ui_cost_micro_units = Some 5\<rparr>"

definition claimed_calls :: "call list" where
  "claimed_calls = queued_calls @
     [OpenControl, ControlCall (ActivateWindow (wenv 2 0) wpolicy ''ACTIVATE''),
      ControlCall (ClaimTask (wenv 3 0) ''w'' w_task_id ''C'' 1000)]"

definition claimed_db :: db where "claimed_db = run_calls claimed_calls empty_db"

definition used_db :: db where
  "used_db = run_calls [StoreCall (AppendUsage (wenv 4 0) w_task_id wobs)] claimed_db"

lemma reachable_claimed: "reachable claimed_db" "reachable used_db"
  by (auto simp: claimed_db_def used_db_def intro: reachable_run reachable.new_file)

lemma claimed_lease: "claim_lease used_db w_task_id = Some (''C'', 1)"
  by code_simp

lemma used_window: "map_option w_status (window_row_of ''w'' used_db) = Some ''ACTIVE''"
  by code_simp


section \<open>Budgets\<close>



text \<open>
  In every reachable database a window has started no more tasks than its task limit and
  used no more retries than its retry limit.
\<close>

theorem window_attempts_bounded:
  assumes "reachable s" "w \<in> set (windows s)"
  shows "w_tasks_started w \<le> max 0 (w_max_tasks w) \<and> w_retries_used w \<le> max 0 (w_max_retries w)"
  using reachable_budget [OF assms(1)] assms(2)
  by (auto simp: budget_sound_def list_all_iff window_sound_def)

theorem window_attempts_bounded_witness:
  "w_tasks_started (hd (windows used_db)) \<le> max 0 (w_max_tasks (hd (windows used_db)))"
proof (rule conjunct1, rule window_attempts_bounded [OF reachable_claimed(2)])
  have "windows used_db \<noteq> []"
    by code_simp
  then show "hd (windows used_db) \<in> set (windows used_db)"
    by (rule hd_in_set)
qed

section \<open>Claims\<close>

lemma sql_count_append: "sql_count p (t @ u) = sql_count p t + sql_count p u"
  by (simp add: sql_count_def)

lemma sql_count_update: "sql_count p (sql_update q f t) \<le> sql_count p t + sql_count q t"
  by (induction t) (auto simp: sql_count_def table_simps)

lemma write_claim_count:
  assumes "keys_ok s" "write_claim e wid tid ow ep x s = (Inr u, t)"
  shows "sql_count p (claims t) \<le> sql_count p (claims s) + 1"
proof (cases "claim_row_of tid s")
  case None
  with assms(2) show ?thesis
    by (auto simp: write_claim_def sql_insert_def sql_count_append sql_count_def split: if_splits)
next
  case (Some c)
  have "sql_count (\<lambda>c. cl_task_id c = tid) (claims s) \<le> 1"
    using assms(1) by (intro sql_count_le_1) (simp add: keys_ok_def)
  moreover obtain f where "claims t = sql_update (\<lambda>c. cl_task_id c = tid) f (claims s)"
    using Some assms(2) by (auto simp: write_claim_def)
  ultimately show ?thesis
    using sql_count_update [of p "\<lambda>c. cl_task_id c = tid" f "claims s"] by simp
qed

lemma written_claim_lease:
  assumes "write_claim e wid tid ow ep x s = (Inr u, t)"
  shows "claim_lease t tid = Some (ow, ep)"
proof -
  obtain c where c: "claim_row_of tid t = Some c"
    using write_claim_row [OF assms] by blast
  then have "c \<in> set (claims t)" "cl_task_id c = tid"
    using find_SomeD [OF c [unfolded claim_row_of_def]] by simp_all
  with write_claim_rows [OF assms] c show ?thesis
    by (auto simp: claim_lease_def)
qed

lemma charged_window:
  "window_row_of wid s = Some w \<Longrightarrow> window_row_of wid (charge_attempt e wid b s) =
     Some (if b then w\<lparr>w_retries_used := w_retries_used w + 1, w_updated_at := utc e 5\<rparr>
           else w\<lparr>w_tasks_started := w_tasks_started w + 1, w_updated_at := utc e 5\<rparr>)"
  by (auto simp: charge_attempt_def window_row_of_def find_sql_update dest: find_SomeD)

text \<open>
  Claiming a task, by outcome. An error changes nothing. A success means that the window
  was active and unexpired, the task waiting and not claimed by a live holder; the claim opens
  the task's next epoch for the caller, the window's live claims stay within its limit, and
  exactly one attempt is counted: a retry for an interrupted task, a started task otherwise.
\<close>

theorem claim_outcome:
  assumes "reachable s"
  shows "case claim_task e wid tid ow l s of
     (Inl err, s') \<Rightarrow> s' = s
   | (Inr (n, w'), s') \<Rightarrow> \<exists>w t.
       window_row_of wid s = Some w \<and> w_status w = ''ACTIVE'' \<and> utc e 0 < w_expires_at w
       \<and> task_row_of tid s = Some t \<and> t_status t \<in> {''QUEUED'', ''INTERRUPTED''}
       \<and> (case claim_row_of tid s of None \<Rightarrow> n = 1
            | Some c \<Rightarrow> n = cl_epoch c + 1 \<and> live_claim (cl_window_id c) (now_ms e 0) c = False)
       \<and> claim_lease s' tid = Some (ow, n)
       \<and> int (sql_count (live_claim wid (now_ms e 0)) (claims s')) \<le> w_max_concurrent_tasks w
       \<and> window_row_of wid s' = Some w'
       \<and> (w_tasks_started w', w_retries_used w') =
           (if t_status t = ''INTERRUPTED'' then (w_tasks_started w, w_retries_used w + 1)
            else (w_tasks_started w + 1, w_retries_used w))"
proof (cases "claim_task_txn e wid tid ow l s")
  case (Pair res t')
  show ?thesis
  proof (cases res)
    case (Inl err)
    with Pair show ?thesis by (auto simp: claim_task_def transact_def)
  next
    case (Inr n)
    with Pair have txn: "claim_task_txn e wid tid ow l s = (Inr n, t')" by simp
    from claim_txn_steps [OF this] obtain w task s1 s2 where st:
      "window_row_of wid s = Some w" "w_status w = ''ACTIVE''" "utc e 0 < w_expires_at w"
      "int (sql_count (live_claim wid (now_ms e 0)) (claims s)) < w_max_concurrent_tasks w"
      "task_row_of tid s = Some task" "t_status task \<in> {''QUEUED'', ''INTERRUPTED''}"
      "case claim_row_of tid s of None \<Rightarrow> True
         | Some c \<Rightarrow> \<not> (cl_status c = ''ACTIVE'' \<and> now_ms e 0 < cl_expires_at_ms c)"
      "n = next_epoch tid s" "write_claim e wid tid ow n (now_ms e 0 + l) s = (Inr (), s1)"
      "write_reservation e w tid n s1 = (Inr (), s2)"
      "t' = charge_attempt e wid (t_status task = ''INTERRUPTED'') s2"
      by blast
    have same: "claims t' = claims s1" "windows s2 = windows s"
      using write_reservation_rows(3) [OF st(10)] write_claim_frame [OF st(9)] by (simp_all add: st(11))
    then have row: "window_row_of wid t' = Some (if t_status task = ''INTERRUPTED''
          then w\<lparr>w_retries_used := w_retries_used w + 1, w_updated_at := utc e 5\<rparr>
          else w\<lparr>w_tasks_started := w_tasks_started w + 1, w_updated_at := utc e 5\<rparr>)"
      unfolding st(11) using st(1) by (intro charged_window) (simp add: window_row_of_def)
    have "claim_lease t' tid = Some (ow, n)"
      using written_claim_lease [OF st(9)] same(1) by (simp add: claim_lease_def claim_row_of_def)
    moreover have "int (sql_count (live_claim wid (now_ms e 0)) (claims t')) \<le> w_max_concurrent_tasks w"
      using write_claim_count [OF reachable_keys [OF assms] st(9), of "live_claim wid (now_ms e 0)"] st(4)
      by (simp add: same(1))
    moreover have "case claim_row_of tid s of None \<Rightarrow> n = 1
            | Some c \<Rightarrow> n = cl_epoch c + 1 \<and> live_claim (cl_window_id c) (now_ms e 0) c = False"
      using st(7,8) by (auto simp: next_epoch_def live_claim_def split: option.splits)
    ultimately show ?thesis
      using row st(1,2,3,5,6) by (simp add: claim_task_def txn get_window_def)
  qed
qed

theorem claim_outcome_witness:
  "case claim_task (wenv 5 2000) ''w'' w_task_id ''D'' 1000 used_db of
     (Inl err, s') \<Rightarrow> False | (Inr (n, w'), s') \<Rightarrow> n = 2 \<and> claim_lease s' w_task_id = Some (''D'', 2)"
proof -
  have "case fst (claim_task (wenv 5 2000) ''w'' w_task_id ''D'' 1000 used_db) of Inl _ \<Rightarrow> False | Inr _ \<Rightarrow> True"
    by code_simp
  moreover have "map_option cl_epoch (claim_row_of w_task_id used_db) = Some 1"
    by code_simp
  ultimately show ?thesis
    using claim_outcome [OF reachable_claimed(2), where e = "wenv 5 2000" and wid = "''w''"
        and tid = w_task_id and ow = "''D''" and l = 1000]
    by (auto split: prod.splits sum.splits option.splits)
qed

text \<open>
  C5. A coordinator whose claim was closed or taken over can never settle it: in every later
  database completing or abandoning it raises and changes nothing.
\<close>

theorem stale_claim_fenced_forever:
  assumes "reachable s" "claim_lease s tid = Some l" "superseded ow ep l" "live_step\<^sup>*\<^sup>* s s'"
  shows "(\<exists>err. complete_task_claim e wid tid ow ep x s' = (Inl err, s')) \<and>
         (\<exists>err. abandon_task_claim e wid tid ow ep x s' = (Inl err, s'))"
  using claim_fence.fenced_forever [OF assms, of "(e, wid, ''COMPLETE'', True)"]
    claim_fence.fenced_forever [OF assms, of "(e, wid, ''FAILED'', False)"]
  by (auto simp: finalize_call_def complete_task_claim_def abandon_task_claim_def close_claim_def)

theorem stale_claim_fenced_forever_witness:
  "\<exists>err. complete_task_claim (wenv 9 0) ''w'' w_task_id ''B'' 0 ''ok'' used_db = (Inl err, used_db)"
  using stale_claim_fenced_forever [OF reachable_claimed(2) claimed_lease, of "''B''" 0]
  by (simp add: superseded_def)

text \<open>
  A window that is not ACTIVE (stopped, expired or blocked) never admits a task again.
\<close>

theorem closed_window_admits_nothing:
  assumes "window_row_of wid s = Some w" "w_status w \<noteq> ''ACTIVE''" "live_step\<^sup>*\<^sup>* s s'"
  shows "\<exists>err. claim_task e wid tid ow l s' = (Inl err, s')"
proof -
  obtain w' where "window_row_of wid s' = Some w'" "w_status w' \<noteq> ''ACTIVE''"
    using window_evolves [OF steps_evolve [OF assms(3)] assms(1)] assms(2) by (auto simp: window_le_def)
  then show ?thesis
    by (simp add: claim_task_def claim_task_txn_def Let_def)
qed

definition stopped_db :: db where
  "stopped_db = run_calls [ControlCall (StopWindow (wenv 6 0) ''w'' ''enough'')] used_db"

theorem closed_window_admits_nothing_witness:
  "\<exists>err. claim_task (wenv 7 5000) ''w'' w_task_id ''D'' 10 stopped_db = (Inl err, stopped_db)"
proof -
  have "map_option w_status (window_row_of ''w'' stopped_db) = Some ''STOPPED''"
    by code_simp
  then obtain w where "window_row_of ''w'' stopped_db = Some w" "w_status w \<noteq> ''ACTIVE''"
    by auto
  then show ?thesis
    by (rule closed_window_admits_nothing) simp
qed

text \<open>
  A claim against a window that is past its expiry raises and leaves the database as it
  was: the EXPIRED mark written on the way is rolled back, and the window stays ACTIVE.
\<close>

theorem expired_claim_rolls_back:
  assumes "window_row_of wid s = Some w" "w_status w = ''ACTIVE''" "w_expires_at w \<le> utc e 0"
  shows "claim_task e wid tid ow l s = (Inl (TaskStoreError ''window_expired''), s)"
  using assms by (simp add: claim_task_def claim_task_txn_def Let_def)

definition late_env :: env where
  "late_env = (wenv 8 0)\<lparr>utc := (\<lambda>_. ''2026-01-03T00:00:00Z'')\<rparr>"

theorem expired_claim_rolls_back_witness:
  "claim_task late_env ''w'' w_task_id ''D'' 10 used_db = (Inl (TaskStoreError ''window_expired''), used_db)"
proof -
  have "map_option (\<lambda>w. w_status w = ''ACTIVE'' \<and> w_expires_at w \<le> utc late_env 0) (window_row_of ''w'' used_db)
      = Some True"
    by code_simp
  then obtain w where "window_row_of ''w'' used_db = Some w" "w_status w = ''ACTIVE''" "w_expires_at w \<le> utc late_env 0"
    by auto
  then show ?thesis
    by (rule expired_claim_rolls_back)
qed

section \<open>Settlement\<close>



lemma settled_window:
  "window_row_of wid s = Some w \<Longrightarrow>
   find (\<lambda>w. w_id w = wid) (sql_update (\<lambda>w. w_id w = wid) (settle_window e b ov u) (windows s))
     = Some (settle_window e b ov u w)"
  by (auto simp: window_row_of_def find_sql_update settle_window_def Let_def dest: find_SomeD)

text \<open>
  C4. Settling a claim charges every usage observation of the task in the window exactly once:
  it appends one charge for each that had none, afterwards none is left, and no observation is
  charged twice.
\<close>

theorem settlement_charges_once:
  assumes "reachable s" "finalize_task_claim e wid tid ow ep st b s = (Inr state, s')"
  shows "(\<exists>rs. usage_charges s' = usage_charges s @ rs \<and>
            map uc_observation_id rs = map uo_id (uncharged tid wid s) \<and>
            list_all (\<lambda>r. uc_window_id r = wid \<and> uc_task_id r = tid \<and> uc_claim_epoch r = ep) rs)
    \<and> uncharged tid wid s' = [] \<and> distinct (map uc_observation_id (usage_charges s'))"
proof -
  have txn: "finalize_claim_txn e wid tid ow ep st b s = (Inr state, s')" and st: "st \<in> {''COMPLETE'', ''FAILED''}"
    using assms(2) by (auto simp: finalize_task_claim_def transact_ok split: if_splits)
  let ?mine = "\<lambda>c. cl_task_id c = tid \<and> cl_window_id c = wid \<and> cl_owner c = ow
            \<and> cl_epoch c = ep \<and> cl_status c = ''ACTIVE''"
  obtain c r w u and t :: task_row where fin: "c \<in> set (claims s)" "cl_task_id c = tid" "cl_window_id c = wid"
    "cl_owner c = ow" "cl_epoch c = ep" "cl_status c = ''ACTIVE''" "window_row_of wid s = Some w"
    "u = settle_usage (t_executor_kind t) (uncharged tid wid s)"
    "state = (if ur_unknown u then ''UNKNOWN'' else if usage_overrun w r u then ''OVERRUN'' else ''RECONCILED'')"
    "insert_charges (later 10 e) wid tid ep (uncharged tid wid s) (usage_charges s) = Inr (usage_charges s')"
    "usage_observations s' = usage_observations s"
    "claims s' = sql_update ?mine (\<lambda>c. c\<lparr>cl_status := st, cl_updated_at := utc e 2\<rparr>) (claims s)"
    "windows s' = sql_update (\<lambda>w. w_id w = wid) (settle_window e b (usage_overrun w r u) u) (windows s)"
    by (rule finalize_txnE [OF txn])
  from insert_charges_rows [OF fin(10)] obtain rs where rs: "usage_charges s' = usage_charges s @ rs"
    "map uc_observation_id rs = map uo_id (uncharged tid wid s)"
    "\<forall>r \<in> set rs. uc_window_id r = wid \<and> uc_task_id r = tid \<and> uc_claim_epoch r = ep"
    by blast
  have ids: "uc_observation_id ` set rs = uo_id ` set (uncharged tid wid s)"
    using rs(2) by (metis list.set_map)
  have "u \<notin> set (uncharged tid wid s')" for u
  proof
    assume u: "u \<in> set (uncharged tid wid s')"
    then have "uo_id u \<notin> uc_observation_id ` set (usage_charges s')"
      by (auto simp: uncharged_def list_ex_iff)
    moreover from u calculation have "u \<in> set (uncharged tid wid s)"
      by (auto simp: uncharged_def fin(11) rs(1) list_ex_iff)
    ultimately show False
      using ids by (auto simp: rs(1))
  qed
  then have "uncharged tid wid s' = []"
    by (metis list.set_intros(1) list.exhaust)
  moreover have "keys_ok s'"
    using lawful_finalize [OF st, of s e wid tid ow ep b] reachable_keys [OF assms(1)] txn
    by (simp add: lawful_def)
  ultimately show ?thesis
    using rs by (auto simp: keys_ok_def list_all_iff)
qed

lemma settle_ok:
  "\<exists>state. finalize_task_claim (wenv 9 100) ''w'' w_task_id ''C'' 1 ''COMPLETE'' True used_db
     = (Inr state, snd (finalize_task_claim (wenv 9 100) ''w'' w_task_id ''C'' 1 ''COMPLETE'' True used_db))"
proof -
  have "case fst (finalize_task_claim (wenv 9 100) ''w'' w_task_id ''C'' 1 ''COMPLETE'' True used_db) of
      Inl _ \<Rightarrow> False | Inr _ \<Rightarrow> True"
    by code_simp
  then show ?thesis
    by (cases "finalize_task_claim (wenv 9 100) ''w'' w_task_id ''C'' 1 ''COMPLETE'' True used_db")
      (auto split: sum.splits)
qed

theorem settlement_charges_once_witness:
  "uncharged w_task_id ''w''
     (snd (finalize_task_claim (wenv 9 100) ''w'' w_task_id ''C'' 1 ''COMPLETE'' True used_db)) = []"
  using settle_ok settlement_charges_once [OF reachable_claimed(2)] by blast

text \<open>
  The effect of a settlement: the claim is closed in its epoch and the window's counters
  take the observed sums, or one unknown, or nothing and a block: unknown usage and usage above
  a limited reservation block the window.
\<close>

theorem settlement_effect:
  assumes "reachable s" "finalize_task_claim e wid tid ow ep st b s = (Inr state, s')"
  shows "claim_lease s tid = Some (ow, ep) \<and> claim_lease s' tid = Some ('''', ep) \<and>
    (\<exists>w w'. window_row_of wid s = Some w \<and> window_row_of wid s' = Some w' \<and>
       state \<in> {''UNKNOWN'', ''OVERRUN'', ''RECONCILED''} \<and>
       w_observed_token_units w' = w_observed_token_units w +
         (if state = ''UNKNOWN'' then 0 else sum_list (map token_units (uncharged tid wid s))) \<and>
       w_tasks_completed w' = w_tasks_completed w + (if b then 1 else 0) \<and>
       w_status w' = (if state = ''RECONCILED'' then w_status w else ''BLOCKED''))"
proof -
  have keys: "keys_ok s"
    by (rule reachable_keys [OF assms(1)])
  have txn: "finalize_claim_txn e wid tid ow ep st b s = (Inr state, s')" and st: "st \<in> {''COMPLETE'', ''FAILED''}"
    using assms(2) by (auto simp: finalize_task_claim_def transact_ok split: if_splits)
  let ?mine = "\<lambda>c. cl_task_id c = tid \<and> cl_window_id c = wid \<and> cl_owner c = ow
            \<and> cl_epoch c = ep \<and> cl_status c = ''ACTIVE''"
  obtain c r w u and t :: task_row where fin: "c \<in> set (claims s)" "cl_task_id c = tid" "cl_window_id c = wid"
    "cl_owner c = ow" "cl_epoch c = ep" "cl_status c = ''ACTIVE''" "window_row_of wid s = Some w"
    "u = settle_usage (t_executor_kind t) (uncharged tid wid s)"
    "state = (if ur_unknown u then ''UNKNOWN'' else if usage_overrun w r u then ''OVERRUN'' else ''RECONCILED'')"
    "insert_charges (later 10 e) wid tid ep (uncharged tid wid s) (usage_charges s) = Inr (usage_charges s')"
    "usage_observations s' = usage_observations s"
    "claims s' = sql_update ?mine (\<lambda>c. c\<lparr>cl_status := st, cl_updated_at := utc e 2\<rparr>) (claims s)"
    "windows s' = sql_update (\<lambda>w. w_id w = wid) (settle_window e b (usage_overrun w r u) u) (windows s)"
    by (rule finalize_txnE [OF txn])
  then have c: "c \<in> set (claims s)" "?mine c" and w: "window_row_of wid s = Some w"
    by simp_all
  have row: "claim_row_of tid s = Some c"
    using find_distinct_key [of cl_task_id "claims s" c tid] c keys by (simp add: claim_row_of_def keys_ok_def)
  then have "claim_row_of tid s' = Some (c\<lparr>cl_status := st, cl_updated_at := utc e 2\<rparr>)"
    using c(2) by (simp add: claim_row_of_def fin(12) find_sql_update)
  with row c(2) st have "claim_lease s tid = Some (ow, ep)" "claim_lease s' tid = Some ('''', ep)"
    by (auto simp: claim_lease_def)
  moreover have "window_row_of wid s' = Some (settle_window e b (usage_overrun w r u) u w)"
    unfolding window_row_of_def fin(13) by (rule settled_window [OF w])
  ultimately show ?thesis
    using w by (auto simp: fin(8,9) settle_window_def settle_usage_def Let_def usage_overrun_def)
qed

theorem settlement_effect_witness:
  "claim_lease (snd (finalize_task_claim (wenv 9 100) ''w'' w_task_id ''C'' 1 ''COMPLETE'' True used_db)) w_task_id
     = Some ('''', 1)"
  using settle_ok settlement_effect [OF reachable_claimed(2)] by blast

section \<open>Activation\<close>

text \<open>
  Activating a window, by outcome. An error changes nothing. A success needed the typed
  confirmation and a policy without secrets, and either replays an activation of the same
  policy revision and digest, or appends one fresh ACTIVE window for a revision that had none.
\<close>

theorem activation_outcome:
  "case activate_window e p conf s of
     (Inl err, s') \<Rightarrow> s' = s
   | (Inr w, s') \<Rightarrow> py_strip conf = ''ACTIVATE'' \<and> reject_sensitive_keys ''$'' (policy_json p) = None \<and>
       w_policy_id w = wp_policy_id p \<and> w_policy_revision w = wp_policy_revision p \<and>
       w_policy_digest w = sha256_json e (policy_json p) \<and>
       (if s' = s then w \<in> set (windows s)
        else s' = s\<lparr>windows := windows s @ [w]\<rparr> \<and> w_status w = ''ACTIVE'' \<and>
          sql_count (\<lambda>x. w_policy_id x = wp_policy_id p \<and> w_policy_revision x = wp_policy_revision p)
            (windows s) = 0 \<and>
          (w_tasks_started w, w_retries_used w, w_observed_token_units w, w_observed_cost_micro_units w) = (0, 0, 0, 0))"
proof (cases "reject_sensitive_keys ''$'' (policy_json p) = None \<and> py_strip conf = ''ACTIVATE''")
  case False
  then show ?thesis by (auto simp: activate_window_def split: option.splits)
next
  case True
  define row where "row = new_window_row e p"
  have fields: "w_policy_id row = wp_policy_id p" "w_policy_revision row = wp_policy_revision p"
    "w_policy_digest row = sha256_json e (policy_json p)" "w_status row = ''ACTIVE''"
    "(w_tasks_started row, w_retries_used row, w_observed_token_units row, w_observed_cost_micro_units row) = (0, 0, 0, 0)"
    by (simp_all add: row_def new_window_row_def)
  define clash where "clash b \<longleftrightarrow> w_id row = w_id b \<or> (w_policy_id row = w_policy_id b
      \<and> w_policy_revision row = w_policy_revision b)" for b :: window_row
  show ?thesis
  proof (cases "list_ex clash (windows s)")
    case False
    then have free: "\<not> clash b" if "b \<in> set (windows s)" for b
      using that by (simp add: list_ex_iff)
    have "find (\<lambda>w. w_id w = w_id row) (windows s) = None"
      unfolding find_None_iff using free by (metis clash_def)
    then have "find (\<lambda>w. w_id w = w_id row) (windows s @ [row]) = Some row"
      by (simp add: find_append)
    then have "activate_window e p conf s = (Inr row, s\<lparr>windows := windows s @ [row]\<rparr>)"
      using True False by (simp add: activate_window_def sql_insert_def Let_def get_window_def
          window_row_of_def row_def [symmetric] clash_def [symmetric])
    moreover have "s\<lparr>windows := windows s @ [row]\<rparr> \<noteq> s"
    proof
      assume "s\<lparr>windows := windows s @ [row]\<rparr> = s"
      from arg_cong [OF this, of windows] show False by simp
    qed
    moreover have "sql_count (\<lambda>x. w_policy_id x = wp_policy_id p \<and> w_policy_revision x = wp_policy_revision p)
            (windows s) = 0"
      unfolding sql_count_zero using free fields(1,2) by (metis clash_def)
    ultimately show ?thesis
      using True fields by simp
  next
    case clash: True
    then have "activate_window e p conf s =
       (case find (\<lambda>w. w_policy_id w = wp_policy_id p \<and> w_policy_revision w = wp_policy_revision p) (windows s) of
          Some w \<Rightarrow> if w_policy_digest w = w_policy_digest row then (Inr w, s)
            else (Inl (TaskStoreError (''window_activation_failed:'' @
              error_text (IntegrityError ''UNIQUE constraint failed: platform_autonomous_windows''))), s)
        | None \<Rightarrow> (Inl (TaskStoreError (''window_activation_failed:'' @
              error_text (IntegrityError ''UNIQUE constraint failed: platform_autonomous_windows''))), s))"
      using True by (simp add: activate_window_def sql_insert_def Let_def row_def [symmetric] clash_def [symmetric])
    with True fields show ?thesis
      by (auto split: option.split dest: find_SomeD)
  qed
qed

end
