(* ===== verification/Goal_Properties.thy ===== *)
theory Goal_Properties
  imports Scenarios
begin

text \<open>
  The properties of goals and of the records beside them: the frozen plan, which tasks of a
  running goal may start, the derived status, the guard against secrets, inbox promotion and
  publications.
\<close>

section \<open>A running goal with two tasks\<close>

definition wgoal :: goal_request where
  "wgoal = \<lparr>gq_title = ''g'', gq_objective = ''do'', gq_repository = ''o/r'', gq_idempotency_key = ''gk'',
     gq_executor_kind = ''opencode'', gq_orchestration_mode = ''single'', gq_binding_ref = '''',
     gq_policy_ref = '''', gq_window_id = ''''\<rparr>"

definition w_goal_id :: string where "w_goal_id = ''goal-0-3''"
definition w_task2_id :: string where "w_task2_id = ''task-0-2''"

text \<open>The second task depends on the first, and comes first in the plan's order.\<close>

definition goal_calls :: "call list" where
  "goal_calls = queued_calls @
     [StoreCall (CreateTask (wenv 2 0) (wtask ''t2'' ''k2'')), OpenControl,
      ControlCall (CreateGoal (wenv 3 0) wgoal),
      ControlCall (SaveGoalPlan (wenv 4 0) w_goal_id 1 ''spec'' ''plan'' [] [''ok'']),
      ControlCall (ApproveGoal (wenv 5 0) w_goal_id 1 ''''),
      ControlCall (LinkGoalTask w_goal_id 1 ''b'' w_task2_id [''a''] 0),
      ControlCall (LinkGoalTask w_goal_id 1 ''a'' w_task_id [] 1),
      ControlCall (MarkGoalRunning (wenv 6 0) w_goal_id 1 ''w'')]"

definition goal_db :: db where "goal_db = run_calls goal_calls empty_db"

lemma reachable_goal: "reachable goal_db"
  by (auto simp: goal_db_def intro: reachable_run reachable.new_file)

section \<open>Plans\<close>

text \<open>
  C39. An approved plan is frozen: once a goal has left DRAFT and PLANNED, its objective, plan,
  acceptance criteria and artifact digest are the same in every later database in which it is
  still at the same revision; the revision never goes back.
\<close>

theorem approved_plan_frozen:
  assumes "goal_row_of gid s = Some g" "g_status g \<notin> {''DRAFT'', ''PLANNED''}" "live_step\<^sup>*\<^sup>* s s'"
  shows "\<exists>g'. goal_row_of gid s' = Some g' \<and> g_revision g \<le> g_revision g' \<and>
     (g_revision g' = g_revision g \<longrightarrow>
        (g_objective g', g_tasks g', g_acceptance g', g_artifact_digest g', g_spec_markdown g', g_plan_markdown g')
          = (g_objective g, g_tasks g, g_acceptance g, g_artifact_digest g, g_spec_markdown g, g_plan_markdown g)
        \<and> g_status g' \<notin> {''DRAFT'', ''PLANNED''})"
  using goal_evolves [OF steps_evolve [OF assms(3)] assms(1)] assms(2)
  by (auto simp: goal_le_def plan_frozen_def)

definition replanned_db :: db where
  "replanned_db = run_calls
     [ControlCall (SaveGoalPlan (wenv 7 0) w_goal_id 1 ''other'' ''other'' [] [])] goal_db"

theorem approved_plan_frozen_witness:
  "map_option g_plan_markdown (goal_row_of w_goal_id replanned_db) = Some ''plan''"
proof -
  have "map_option (\<lambda>g. g_status g = ''RUNNING'' \<and> g_revision g = 1 \<and> g_plan_markdown g = ''plan'')
      (goal_row_of w_goal_id goal_db) = Some True"
    by code_simp
  then obtain g where g: "goal_row_of w_goal_id goal_db = Some g" "g_status g = ''RUNNING''" "g_revision g = 1"
    "g_plan_markdown g = ''plan''"
    by auto
  have "map_option g_revision (goal_row_of w_goal_id replanned_db) = Some 1"
    by code_simp
  moreover have "live_step\<^sup>*\<^sup>* goal_db replanned_db"
    unfolding replanned_db_def by (rule steps_run [OF reachable_goal])
  ultimately show ?thesis
    using approved_plan_frozen [OF g(1) _ \<open>live_step\<^sup>*\<^sup>* goal_db replanned_db\<close>] g by auto
qed

section \<open>Runnable tasks\<close>

text \<open>What the coordinator may start: the specification of \<open>runnable_tasks\<close>.\<close>

definition may_start :: "string \<Rightarrow> db \<Rightarrow> string \<Rightarrow> bool" where
  "may_start wid s tid \<longleftrightarrow>
     (\<exists>l \<in> set (goal_task_links s). gl_task_id l = tid \<and>
        (case (goal_row_of (gl_goal_id l) s, task_row_of tid s) of
           (Some g, Some t) \<Rightarrow>
             g_status g = ''RUNNING'' \<and> g_window_id g = wid \<and> g_revision g = gl_goal_revision l \<and>
             t_status t \<in> {''QUEUED'', ''INTERRUPTED''} \<and>
             list_all (\<lambda>dep. case plan_task_status (gl_goal_id l) (gl_goal_revision l) dep s of
                 None \<Rightarrow> False | Some st \<Rightarrow> st \<in> {''READY_FOR_REVIEW'', ''READY_FOR_REVIEW_FIXTURE''})
               (gl_dependencies l)
         | _ \<Rightarrow> False))"

lemma waiting_iff:
  "(g, l) \<in> set (waiting_links wid s) \<longleftrightarrow>
     l \<in> set (goal_task_links s) \<and> goal_row_of (gl_goal_id l) s = Some g \<and>
     g_revision g = gl_goal_revision l \<and> g_window_id g = wid \<and> g_status g = ''RUNNING'' \<and>
     (case task_row_of (gl_task_id l) s of None \<Rightarrow> False | Some t \<Rightarrow> t_status t \<in> {''QUEUED'', ''INTERRUPTED''})"
proof -
  define pick where "pick x =
     (case (goal_row_of (gl_goal_id x) s, task_row_of (gl_task_id x) s) of
        (Some g, Some t) \<Rightarrow>
          if g_revision g = gl_goal_revision x \<and> g_window_id g = wid \<and> g_status g = ''RUNNING''
             \<and> t_status t \<in> {''QUEUED'', ''INTERRUPTED''} then [(g, x)] else []
      | _ \<Rightarrow> [])" for x :: link_row
  have pick: "(g, l) \<in> set (pick x) \<longleftrightarrow> x = l \<and> goal_row_of (gl_goal_id l) s = Some g \<and>
     g_revision g = gl_goal_revision l \<and> g_window_id g = wid \<and> g_status g = ''RUNNING'' \<and>
     (case task_row_of (gl_task_id l) s of None \<Rightarrow> False | Some t \<Rightarrow> t_status t \<in> {''QUEUED'', ''INTERRUPTED''})" for x
    by (cases "x = l") (auto simp: pick_def split: option.split)
  have "set (waiting_links wid s) = (\<Union>x \<in> set (goal_task_links s). set (pick x))"
    by (simp add: waiting_links_def pick_def [abs_def])
  then show ?thesis
    using pick by auto
qed

lemma may_start_iff:
  "may_start wid s tid \<longleftrightarrow>
     (\<exists>g l. (g, l) \<in> set (waiting_links wid s) \<and> gl_task_id l = tid \<and>
        list_all (dependency_ready l s) (gl_dependencies l))"
proof -
  have "dependency_ready l s = (\<lambda>dep. case plan_task_status (gl_goal_id l) (gl_goal_revision l) dep s of
      None \<Rightarrow> False | Some st \<Rightarrow> st \<in> {''READY_FOR_REVIEW'', ''READY_FOR_REVIEW_FIXTURE''})" for l
    by (auto simp: fun_eq_iff dependency_ready_def READY_STATUSES_def split: option.split)
  then show ?thesis
    unfolding may_start_def waiting_iff
    by (intro iffI; clarsimp split: option.split_asm) (force split: option.split)+
qed

text \<open>
  C40. \<open>runnable_tasks\<close> returns only tasks that may start: linked to the current revision of a
  RUNNING goal of the window, waiting, with every dependency ready for review; and it returns
  all of them when the limit does not cut the waiting links short.
\<close>

theorem runnable_tasks_exact:
  "(\<forall>tid \<in> set (runnable_tasks wid limit s). may_start wid s tid) \<and>
   (length (waiting_links wid s) \<le> clamp_limit 500 limit \<longrightarrow>
      set (runnable_tasks wid limit s) = {tid. may_start wid s tid})"
proof -
  have "tid \<in> set (runnable_tasks wid limit s) \<longleftrightarrow>
      (\<exists>g l. (g, l) \<in> set (take (clamp_limit 500 limit) (waiting_links wid s)) \<and> gl_task_id l = tid \<and>
        list_all (dependency_ready l s) (gl_dependencies l))" for tid
    by (auto simp: runnable_tasks_def image_iff case_prod_unfold)
  note exact = this
  have "may_start wid s tid" if "tid \<in> set (runnable_tasks wid limit s)" for tid
    using that in_set_takeD unfolding exact may_start_iff by fast
  moreover have "tid \<in> set (runnable_tasks wid limit s)"
    if "may_start wid s tid" "length (waiting_links wid s) \<le> clamp_limit 500 limit" for tid
    using that unfolding exact may_start_iff by simp
  ultimately show ?thesis by blast
qed

theorem runnable_tasks_exact_witness: "may_start ''w'' goal_db w_task_id"
proof -
  have "list_ex ((=) w_task_id) (runnable_tasks ''w'' 10 goal_db)"
    by code_simp
  then have "w_task_id \<in> set (runnable_tasks ''w'' 10 goal_db)"
    by (auto simp: list_ex_iff)
  with runnable_tasks_exact [of "''w''" 10 goal_db] show ?thesis by blast
qed

text \<open>
  The limit is applied before the dependencies are looked at: with a limit of 1 the blocked
  second task hides the first, which may start.
\<close>

lemma limit_hides_runnable_task:
  "runnable_tasks ''w'' 1 goal_db = [] \<and> runnable_tasks ''w'' 2 goal_db = [w_task_id]"
  by code_simp

section \<open>The derived status\<close>

text \<open>
  Refreshing a goal, by outcome. Nothing changes for a goal that does not exist or has no
  linked task. Otherwise the goal is COMPLETED exactly when every linked task is ready for
  review, BLOCKED exactly when some is not and one has failed, is blocked or cancelled, and
  RUNNING in the other cases; only its status and time are written.
\<close>

theorem refresh_outcome:
  "case refresh_goal_status e gid s of
     (Inl err, s') \<Rightarrow> s' = s
   | (Inr g, s') \<Rightarrow>
       (let sts = map (\<lambda>(_, t). t_status t) (list_goal_tasks gid s);
            ready = list_all (\<lambda>x. x \<in> {''READY_FOR_REVIEW'', ''READY_FOR_REVIEW_FIXTURE''}) sts;
            bad = list_ex (\<lambda>x. x \<in> {''FAILED'', ''BLOCKED'', ''CANCELLED''}) sts in
        if sts = [] then s' = s
        else (g_status g = ''COMPLETED'') = ready \<and>
             (g_status g = ''BLOCKED'') = (\<not> ready \<and> bad) \<and>
             (g_status g = ''RUNNING'') = (\<not> ready \<and> \<not> bad) \<and>
             s' = s\<lparr>goals := sql_update (\<lambda>g. g_id g = gid)
                     (\<lambda>x. x\<lparr>g_status := g_status g, g_updated_at := utc e 0\<rparr>) (goals s)\<rparr>)"
proof (cases "list_goal_tasks gid s = []")
  case True
  then show ?thesis
    by (auto simp: refresh_goal_status_def return_goal_def split: prod.splits sum.splits)
next
  case False
  then obtain l t where "(l, t) \<in> set (list_goal_tasks gid s)"
    by (metis hd_in_set surj_pair)
  then obtain g where g: "goal_row_of gid s = Some g"
    by (auto simp: list_goal_tasks_def dest: sym split: option.splits if_splits)
  define st where "st = derived_goal_status (map (\<lambda>(_, t). t_status t) (list_goal_tasks gid s))"
  have "goal_row_of gid (s\<lparr>goals := sql_update (\<lambda>g. g_id g = gid)
      (\<lambda>x. x\<lparr>g_status := st, g_updated_at := utc e 0\<rparr>) (goals s)\<rparr>)
      = Some (g\<lparr>g_status := st, g_updated_at := utc e 0\<rparr>)"
    using g find_SomeD [OF g [unfolded goal_row_of_def]]
    by (simp add: goal_row_of_def find_sql_update)
  with False have "refresh_goal_status e gid s =
     (Inr (g\<lparr>g_status := st, g_updated_at := utc e 0\<rparr>), s\<lparr>goals := sql_update (\<lambda>g. g_id g = gid)
        (\<lambda>x. x\<lparr>g_status := st, g_updated_at := utc e 0\<rparr>) (goals s)\<rparr>)"
    by (simp add: refresh_goal_status_def Let_def return_goal_def get_goal_def st_def)
  with False show ?thesis
    by (simp add: Let_def st_def derived_goal_status_def READY_STATUSES_def)
qed

section \<open>Secrets\<close>

text \<open>
  The guard against secrets is exact: it lets a payload through exactly when every field at
  any depth either is one of the allowed numeric controls with a non-negative integer, or has a
  name without any of the sensitive parts.
\<close>

theorem sensitive_guard_exact:
  "reject_sensitive_keys path v = None \<longleftrightarrow>
     list_all (\<lambda>(k, c). if safe_numeric_key k then is_nonneg_int c else sensitive_key k = False) (json_fields v)"
proof -
  have "field_ok = (\<lambda>(k, c). if safe_numeric_key k then is_nonneg_int c else sensitive_key k = False)"
    by (auto simp: fun_eq_iff)
  then show ?thesis
    using reject_iff_aux(1) [of path v] by simp
qed

end
