(* ===== verification/Usage_Summary.thy ===== *)
theory Usage_Summary
  imports Usage
begin

text \<open>
  What the one-pass summary of usage observations computes: the loop of \<open>usage_summary\<close>, with
  its running totals and its table of roles, equals sums over filtered lists.
\<close>

section \<open>Totals\<close>

definition is_known :: "usage_row \<Rightarrow> bool" where
  "is_known u \<longleftrightarrow> uo_status u \<noteq> ''UNKNOWN''"

definition totals_of :: "usage_row list \<Rightarrow> totals" where
  "totals_of us =
     \<lparr>tot_input = sum_list (map (\<lambda>u. units (uo_input_units u)) us),
      tot_output = sum_list (map (\<lambda>u. units (uo_output_units u)) us),
      tot_reasoning = sum_list (map (\<lambda>u. units (uo_reasoning_units u)) us),
      tot_cache_read = sum_list (map (\<lambda>u. units (uo_cache_read_units u)) us),
      tot_cache_write = sum_list (map (\<lambda>u. units (uo_cache_write_units u)) us),
      tot_cost = sum_list (map (\<lambda>u. units (uo_cost_micro_units u)) us)\<rparr>"

lemma totals_of_snoc: "totals_of (us @ [u]) = add_totals u (totals_of us)"
  by (simp add: totals_of_def add_totals_def)

lemma fold_add_totals: "fold add_totals us (totals_of vs) = totals_of (vs @ us)"
proof (induction us arbitrary: vs)
  case (Cons u us)
  then show ?case
    by (simp add: totals_of_snoc [symmetric])
qed simp

lemma totals_of_Nil: "totals_of [] = zero_totals"
  by (simp add: totals_of_def zero_totals_def)

lemma totals_fold: "fold add_totals us zero_totals = totals_of us"
  using fold_add_totals [of us "[]"] by (simp add: totals_of_Nil)

lemma token_units_sum:
  "sum_list (map token_units us) =
     tot_input (totals_of us) + tot_output (totals_of us) + tot_reasoning (totals_of us)
       + tot_cache_read (totals_of us) + tot_cache_write (totals_of us)"
  by (induction us) (simp_all add: totals_of_def token_units_def)

lemma usage_loop_eq:
  "usage_loop us (tot, roles, n) =
     (fold add_totals (filter is_known us) tot, fold count_in_roles us roles,
      n + int (sql_count (\<lambda>u. uo_status u = ''UNKNOWN'') us))"
  by (induction us arbitrary: tot roles n) (auto simp: sql_count_def is_known_def)

section \<open>The table of roles\<close>

lemma count_role_key [simp]: "rt_role (count_role u r) = rt_role r"
  by (simp add: count_role_def Let_def)

lemma new_role_key [simp]: "rt_role (new_role_totals x) = x"
  by (simp add: new_role_totals_def)

lemma count_in_roles_keys:
  "map rt_role (count_in_roles u rs) =
     (if uo_role u \<in> set (map rt_role rs) then map rt_role rs else map rt_role rs @ [uo_role u])"
  by (induction rs) auto

lemma count_in_roles_find:
  "find (\<lambda>r. rt_role r = x) (count_in_roles u rs) =
     (if x = uo_role u then
        Some (count_role u (case find (\<lambda>r. rt_role r = x) rs of None \<Rightarrow> new_role_totals x | Some r \<Rightarrow> r))
      else find (\<lambda>r. rt_role r = x) rs)"
  by (induction rs) auto

lemma roles_keys:
  "distinct (map rt_role rs) \<Longrightarrow>
   distinct (map rt_role (fold count_in_roles us rs))
   \<and> rt_role ` set (fold count_in_roles us rs) = rt_role ` set rs \<union> uo_role ` set us"
proof (induction us arbitrary: rs)
  case (Cons u us)
  have "distinct (map rt_role (count_in_roles u rs))"
    using Cons.prems by (auto simp: count_in_roles_keys)
  moreover have "rt_role ` set (count_in_roles u rs) = insert (uo_role u) (rt_role ` set rs)"
    using arg_cong [OF count_in_roles_keys [of u rs], of set] by auto
  ultimately show ?case
    using Cons.IH [of "count_in_roles u rs"] by simp
qed simp

lemma roles_find:
  "find (\<lambda>r. rt_role r = x) (fold count_in_roles us rs) =
     (if x \<in> uo_role ` set us then
        Some (fold count_role (filter (\<lambda>u. uo_role u = x) us)
          (case find (\<lambda>r. rt_role r = x) rs of None \<Rightarrow> new_role_totals x | Some r \<Rightarrow> r))
      else find (\<lambda>r. rt_role r = x) rs)"
proof (induction us arbitrary: rs)
  case (Cons u us)
  have none: "filter (\<lambda>u. uo_role u = x) us = []" if "x \<notin> uo_role ` set us"
    using that by (auto simp: filter_empty_conv)
  show ?case
    using none by (cases "uo_role u = x") (simp_all add: Cons.IH count_in_roles_find)
qed simp

lemma fold_count_role:
  "fold count_role us r =
     \<lparr>rt_role = rt_role r,
      rt_totals = fold add_totals (filter is_known us) (rt_totals r),
      rt_observation_count = rt_observation_count r + int (length us),
      rt_unknown_count = rt_unknown_count r + int (sql_count (\<lambda>u. uo_status u = ''UNKNOWN'') us),
      rt_provenance_ids = rt_provenance_ids r @ map uo_id us\<rparr>"
  by (induction us arbitrary: r) (auto simp: count_role_def Let_def is_known_def sql_count_def)

text \<open>The entry of a role: sums over the observations of that role.\<close>

definition role_summary :: "usage_row list \<Rightarrow> string \<Rightarrow> role_totals" where
  "role_summary us x =
     (let mine = filter (\<lambda>u. uo_role u = x) us in
      \<lparr>rt_role = x, rt_totals = totals_of (filter is_known mine),
       rt_observation_count = int (length mine),
       rt_unknown_count = int (sql_count (\<lambda>u. uo_status u = ''UNKNOWN'') mine),
       rt_provenance_ids = map uo_id mine\<rparr>)"

lemma roles_entries:
  assumes "r \<in> set (fold count_in_roles us [])"
  shows "r = role_summary us (rt_role r)"
proof -
  have keys: "distinct (map rt_role (fold count_in_roles us []))"
    "rt_role ` set (fold count_in_roles us []) = uo_role ` set us"
    using roles_keys [of "[]" us] by simp_all
  then have "rt_role r \<in> uo_role ` set us"
    using assms by blast
  moreover have "find (\<lambda>x. rt_role x = rt_role r) (fold count_in_roles us []) = Some r"
    by (rule find_distinct_key [OF keys(1) assms refl])
  ultimately have "r = fold count_role (filter (\<lambda>u. uo_role u = rt_role r) us) (new_role_totals (rt_role r))"
    by (simp add: roles_find)
  also have "\<dots> = role_summary us (rt_role r)"
    by (simp add: fold_count_role role_summary_def new_role_totals_def totals_fold Let_def)
  finally show ?thesis .
qed

lemma summarize_roles:
  "us_per_role (summarize_usage us) = sort_key rt_role (fold count_in_roles us [])"
  by (simp add: summarize_usage_def usage_loop_eq)

end
