(* ===== verification/Record_Properties.thy ===== *)
theory Record_Properties
  imports Scenarios Usage_Summary
begin

text \<open>
  The properties of the records around tasks and goals: inbox items and the goals they become,
  publications, usage observations and their summary, and the migration check of the run table.
\<close>

section \<open>Inbox\<close>

lemma created_goal:
  assumes "keys_ok s" "create_goal e q s = (Inr g, s1)"
  shows "goal_row_of (g_id g) s1 = Some g"
proof (cases "find (\<lambda>g. g_idempotency_key g = py_strip (gq_idempotency_key q)) (goals s)")
  case None
  with assms(2) have "return_goal (g_id (new_goal_row e q)) s1 = (Inr g, s1)"
    by (auto simp: create_goal_def sql_insert_def return_goal_def split: if_splits)
  then have row: "goal_row_of (g_id (new_goal_row e q)) s1 = Some g"
    by (auto simp: return_goal_def get_goal_def split: option.splits)
  then have "g_id g = g_id (new_goal_row e q)"
    using find_SomeD [OF row [unfolded goal_row_of_def]] by simp
  with row show ?thesis by simp
next
  case (Some a)
  with assms(2) have "g = a" "s1 = s"
    by (auto simp: create_goal_def split: if_splits)
  moreover have "goal_row_of (g_id a) s = Some a"
    unfolding goal_row_of_def using assms(1) find_SomeD [OF Some]
    by (intro find_distinct_key) (simp_all add: keys_ok_def)
  ultimately show ?thesis by simp
qed

lemma item_row:
  "get_inbox_item iid s = Inr i \<longleftrightarrow> find (\<lambda>i. ib_id i = iid) (inbox_items s) = Some i"
  by (auto simp: get_inbox_item_def split: option.splits)

lemma item_evolves:
  "evolves s s' \<Longrightarrow> get_inbox_item iid s = Inr i \<Longrightarrow> \<exists>i'. get_inbox_item iid s' = Inr i' \<and> inbox_le i i'"
  unfolding item_row
  by (rule inbox_o.lookup_evolves [where t = "inbox_items s"]) (auto simp: evolves_def inbox_le_def)

lemma marked_item:
  assumes "keys_ok s" "mark_inbox_item_promoted e iid gid s = (Inr i, s')"
  shows "get_inbox_item iid s' = Inr i \<and> ib_status i = ''PROMOTED'' \<and> ib_promoted_goal_id i = gid
    \<and> goals s' = goals s"
proof -
  let ?hit = "\<lambda>i. ib_id i = iid \<and> ib_status i = ''CAPTURED''"
  have out: "get_inbox_item iid s' = Inr i" "goals s' = goals s"
    using assms(2) by (auto simp: mark_inbox_item_promoted_def Let_def split: if_splits sum.splits)
  have "ib_status i = ''PROMOTED'' \<and> ib_promoted_goal_id i = gid"
  proof (cases "sql_count ?hit (inbox_items s) = 1")
    case False
    with assms(2) show ?thesis
      by (auto simp: mark_inbox_item_promoted_def Let_def split: if_splits sum.splits)
  next
    case True
    then obtain y where y: "y \<in> set (inbox_items s)" "?hit y"
      using sql_count_pos [of ?hit "inbox_items s"] by auto
    then have "find (\<lambda>i. ib_id i = iid) (inbox_items s) = Some y"
      using assms(1) find_distinct_key [of ib_id "inbox_items s" y iid] by (simp add: keys_ok_def)
    then have "find (\<lambda>i. ib_id i = iid) (sql_update ?hit (\<lambda>i. i\<lparr>ib_status := ''PROMOTED'',
        ib_promoted_goal_id := gid, ib_updated_at := utc e 0\<rparr>) (inbox_items s))
        = Some (y\<lparr>ib_status := ''PROMOTED'', ib_promoted_goal_id := gid, ib_updated_at := utc e 0\<rparr>)"
      using y(2) by (simp add: find_sql_update)
    with assms(2) True out(1) show ?thesis
      by (auto simp: mark_inbox_item_promoted_def Let_def item_row)
  qed
  with out show ?thesis by simp
qed

lemma map_sum_ok: "map_sum id f r = Inr y \<longleftrightarrow> (\<exists>x. r = Inr x \<and> y = f x)"
  by (cases r) auto

text \<open>What a promotion leaves behind.\<close>

lemma promoted_item:
  assumes "reachable s" "promote_inbox_item e iid s = (Inr (i, g), s1)"
  shows "get_inbox_item iid s1 = Inr i \<and> ib_status i = ''PROMOTED'' \<and> ib_promoted_goal_id i = g_id g
    \<and> g_id g \<noteq> '''' \<and> goal_row_of (g_id g) s1 = Some g"
proof -
  have keys: "keys_ok s" and named: "list_all goal_ok (goals s)"
    using reachable_keys [OF assms(1)] reachable_rows [OF assms(1)] by simp_all
  obtain i0 where i0: "get_inbox_item iid s = Inr i0"
    using assms(2) by (auto simp: promote_inbox_item_def split: sum.splits)
  show ?thesis
  proof (cases "ib_status i0 = ''PROMOTED'' \<and> ib_promoted_goal_id i0 \<noteq> ''''")
    case True
    with assms(2) i0 have "i = i0" "s1 = s" "get_goal (ib_promoted_goal_id i0) s = Inr g"
      by (cases "get_goal (ib_promoted_goal_id i0) s"; simp add: promote_inbox_item_def)+
    moreover from this have row: "goal_row_of (ib_promoted_goal_id i0) s = Some g"
      by (auto simp: get_goal_def split: option.splits)
    moreover have "g_id g = ib_promoted_goal_id i0"
      using find_SomeD [OF row [unfolded goal_row_of_def]] by simp
    ultimately show ?thesis using True i0 by simp
  next
    case False
    with assms(2) i0 obtain h s2 where create: "create_goal e (promotion_request i0) s = (Inr h, s2)"
      and mark: "mark_inbox_item_promoted (later 1 e) iid (g_id h) s2 = (Inr i, s1)"
      and g: "get_goal (g_id h) s1 = Inr g"
      by (auto simp: promote_inbox_item_def andthen_ok map_sum_ok split: if_splits sum.splits)
    have keys2: "keys_ok s2 \<and> evolves s s2"
      using lawful_create_goal [of s e "promotion_request i0"] keys create by (simp add: lawful_def)
    note item = marked_item [OF conjunct1 [OF keys2] mark]
    have row: "goal_row_of (g_id h) s1 = Some h"
      using created_goal [OF keys create] item by (simp add: goal_row_of_def)
    then have "g = h"
      using g by (simp add: get_goal_def)
    moreover have "h \<in> set (goals s2)"
      using find_SomeD [OF row [unfolded goal_row_of_def]] item by simp
    moreover have "list_all goal_ok (goals s2)"
      using goals_o.all_ok_evolves [of "goals s" "goals s2"] keys2 named by (simp add: evolves_def)
    ultimately show ?thesis
      using item row by (auto simp: list_all_iff goal_ok_def)
  qed
qed

text \<open>
  Promotion of an inbox item is idempotent: after a success, promoting the item again in any
  later database returns the same item and the goal it became, and writes nothing.
\<close>

theorem promotion_idempotent:
  assumes "reachable s" "promote_inbox_item e iid s = (Inr (i, g), s1)" "live_step\<^sup>*\<^sup>* s1 s2"
  shows "\<exists>g2. promote_inbox_item e2 iid s2 = (Inr (i, g2), s2) \<and> g_id g2 = g_id g"
proof -
  note p = promoted_item [OF assms(1,2)]
  have "get_inbox_item iid s2 = Inr i"
    using item_evolves [OF steps_evolve [OF assms(3)], of iid i] p by (auto simp: inbox_le_def)
  moreover obtain g2 where g2: "goal_row_of (g_id g) s2 = Some g2"
    using goal_evolves [OF steps_evolve [OF assms(3)], of "g_id g" g] p by blast
  moreover have "g_id g2 = g_id g"
    using find_SomeD [OF g2 [unfolded goal_row_of_def]] by simp
  ultimately show ?thesis
    using p by (simp add: promote_inbox_item_def get_goal_def)
qed

definition captured_db :: db where
  "captured_db = run_calls [OpenControl, ControlCall (CaptureInbox (wenv 1 0) ''idea'' ''do it'' '''')] empty_db"

theorem promotion_idempotent_witness:
  "\<exists>r s1. promote_inbox_item (wenv 2 0) ''inbox-0-1'' captured_db = (Inr r, s1) \<and>
     (\<exists>g2. promote_inbox_item (wenv 3 0) ''inbox-0-1'' s1 = (Inr (fst r, g2), s1))"
proof -
  have "case fst (promote_inbox_item (wenv 2 0) ''inbox-0-1'' captured_db) of Inl _ \<Rightarrow> False | Inr _ \<Rightarrow> True"
    by code_simp
  then obtain i g s1 where ok: "promote_inbox_item (wenv 2 0) ''inbox-0-1'' captured_db = (Inr (i, g), s1)"
    by (cases "promote_inbox_item (wenv 2 0) ''inbox-0-1'' captured_db") (auto split: sum.splits)
  have "reachable captured_db"
    unfolding captured_db_def by (rule reachable_run [OF reachable.new_file])
  from promotion_idempotent [OF this ok rtranclp.rtrancl_refl, of "wenv 3 0"] ok show ?thesis
    by auto
qed

section \<open>Publications\<close>

lemma publication_evolves:
  "evolves s s' \<Longrightarrow> get_publication tid s = Some p \<Longrightarrow> \<exists>p'. get_publication tid s' = Some p' \<and> publication_le p p'"
  unfolding get_publication_def
  by (rule publications_o.lookup_evolves [where t = "publications s"]) (auto simp: evolves_def publication_le_def)

text \<open>
  A publication is bound to the request it was made for: its repository, branches and digest
  never change, and in every later database an update for the task under another digest is
  refused and changes nothing.
\<close>

theorem publication_bound_to_request:
  assumes "get_publication tid s = Some p" "live_step\<^sup>*\<^sup>* s s'" "pi_request_digest i \<noteq> pb_request_digest p"
  shows "(\<exists>p'. get_publication tid s' = Some p' \<and>
            (pb_repository p', pb_base_branch p', pb_branch p', pb_request_digest p') =
            (pb_repository p, pb_base_branch p, pb_branch p, pb_request_digest p)) \<and>
         (\<exists>m. upsert_publication e tid i s' = (Inl (TaskStoreError m), s'))"
  using publication_evolves [OF steps_evolve [OF assms(2)] assms(1)] assms(3)
  by (auto simp: publication_le_def upsert_publication_def)

definition wpub :: "string \<Rightarrow> publication_input" where
  "wpub d = \<lparr>pi_repository = ''o/r'', pi_base_branch = ''main'', pi_branch = ''b'', pi_status = ''PENDING'',
     pi_request_digest = d, pi_commit_sha = '''', pi_pr_number = 0, pi_pr_url = '''',
     pi_failure_classification = ''''\<rparr>"

definition published_db :: db where
  "published_db = run_calls [OpenControl, ControlCall (UpsertPublication (wenv 2 0) w_task_id (wpub ''d''))] queued_db"

theorem publication_bound_to_request_witness:
  "\<exists>m. upsert_publication (wenv 3 0) w_task_id (wpub ''other'') published_db = (Inl (TaskStoreError m), published_db)"
proof -
  have "map_option pb_request_digest (get_publication w_task_id published_db) = Some ''d''"
    by code_simp
  then obtain p where "get_publication w_task_id published_db = Some p" "pb_request_digest p = ''d''"
    by auto
  with publication_bound_to_request [OF this(1) rtranclp.rtrancl_refl] show ?thesis
    by (simp add: wpub_def)
qed

section \<open>Usage\<close>

lemma usage_found:
  assumes "keys_ok s" "u \<in> set (usage_observations s)"
  shows "find (\<lambda>x. uo_id x = uo_id u) (usage_observations s) = Some u"
  using assms by (intro find_distinct_key) (simp_all add: keys_ok_def)

text \<open>
  Recording a usage observation is replay-safe. After a success, recording the same
  observation again in any later database, with the same digest function, returns the stored
  row and writes nothing; an observation under its identity with another digest is refused.
\<close>

theorem usage_append_replay_safe:
  assumes "reachable s" "append_usage_observation e tid i s = (Inr u, s1)" "live_step\<^sup>*\<^sup>* s1 s2"
    and "sha256 e2 = sha256 e" "ui_observation_id j = ui_observation_id i" "usage_validation j = None"
  shows "if sha256_json e (usage_payload j) = sha256_json e (usage_payload i)
         then append_usage_observation e2 tid j s2 = (Inr u, s2)
         else \<exists>m. append_usage_observation e2 tid j s2 = (Inl (TaskStoreError m), s2)"
proof -
  have l: "keys_ok s1 \<and> evolves s s1"
    using lawful_append_usage [of s e tid i] reachable_keys [OF assms(1)] assms(2) by (simp add: lawful_def)
  have u: "u \<in> set (usage_observations s1)" "uo_id u = ui_observation_id i"
    "uo_payload_digest u = sha256_json e (usage_payload i)"
    using assms(2)
    by (auto simp: append_usage_observation_def new_usage_row_def sql_insert_def Let_def
        split: option.splits if_splits dest!: find_SomeD)
  obtain t where "task_row_of tid s = Some t"
    using assms(2) by (auto simp: append_usage_observation_def split: option.splits if_splits)
  then obtain t2 where t2: "task_row_of tid s2 = Some t2"
    using task_evolves [OF evolves_trans [OF conjunct2 [OF l] steps_evolve [OF assms(3)]]] by blast
  have ev: "evolves s1 s2"
    by (rule steps_evolve [OF assms(3)])
  then obtain v where "usage_observations s2 = usage_observations s1 @ v"
    using append_only [of any_row "usage_observations s1" "usage_observations s2"] by (auto simp only: evolves_def)
  then have found: "find (\<lambda>x. uo_id x = ui_observation_id i) (usage_observations s2) = Some u"
    using usage_found [OF conjunct1 [OF l] u(1)] u(2) by (simp add: find_append)
  then have "list_ex (\<lambda>b. ui_observation_id i = uo_id b) (usage_observations s2)"
    using find_SomeD [OF found] by (auto simp: list_ex_iff intro!: bexI [of _ u])
  moreover have "sha256_json e2 = sha256_json e"
    using assms(4) by (simp add: sha256_json_def fun_eq_iff)
  ultimately show ?thesis
    using assms(5,6) t2 found u(3)
    by (simp add: append_usage_observation_def new_usage_row_def sql_insert_def Let_def)
qed

definition wusage :: usage_input where
  "wusage = \<lparr>ui_observation_id = ''ob'', ui_execution_id = ''x'', ui_role = ''coder'',
     ui_model_id = ''m'', ui_provider_id = ''pr'', ui_source_kind = ''k'', ui_source_id = ''s'',
     ui_status = ''UNKNOWN'', ui_input_units = None, ui_output_units = None,
     ui_reasoning_units = None, ui_cache_read_units = None, ui_cache_write_units = None,
     ui_cost_micro_units = None\<rparr>"

theorem usage_append_replay_safe_witness:
  "\<exists>u s1. append_usage_observation (wenv 2 0) w_task_id wusage queued_db = (Inr u, s1) \<and>
     append_usage_observation (wenv 3 5) w_task_id wusage s1 = (Inr u, s1)"
proof -
  have "case fst (append_usage_observation (wenv 2 0) w_task_id wusage queued_db) of Inl _ \<Rightarrow> False | Inr _ \<Rightarrow> True"
    by code_simp
  then obtain u s1 where ok: "append_usage_observation (wenv 2 0) w_task_id wusage queued_db = (Inr u, s1)"
    by (cases "append_usage_observation (wenv 2 0) w_task_id wusage queued_db") (auto split: sum.splits)
  have "usage_validation wusage = None"
    by code_simp
  with usage_append_replay_safe [OF reachable_scenarios(1) ok rtranclp.rtrancl_refl, of "wenv 3 5" wusage] ok
  show ?thesis by (simp add: wenv_def)
qed

text \<open>
  The usage summary of a task is what its observations sum to: totals and cost over the
  known observations, counts over all, the status OBSERVED exactly when there are observations
  and none is unknown, and one entry per role, in order, with the sums of that role.
\<close>

theorem usage_summary_exact:
  "us_totals (summarize_usage us) = totals_of (filter is_known us) \<and>
   us_total_token_units (summarize_usage us) = sum_list (map token_units (filter is_known us)) \<and>
   us_observation_count (summarize_usage us) = int (length us) \<and>
   us_unknown_count (summarize_usage us) = int (length us) - int (length (filter is_known us)) \<and>
   (us_status (summarize_usage us) = ''OBSERVED'') = (us \<noteq> [] \<and> list_all is_known us) \<and>
   us_per_role (summarize_usage us) =
     map (role_summary us) (sorted_list_of_set (uo_role ` set us))"
proof (intro conjI)
  have unknown: "sql_count (\<lambda>u. uo_status u = ''UNKNOWN'') us = length us - length (filter is_known us)"
    by (induction us) (auto simp: sql_count_def is_known_def Suc_diff_le)
  have le: "length (filter is_known us) \<le> length us"
    by simp
  have all: "length (filter is_known us) = length us \<longleftrightarrow> list_all is_known us"
    by (metis filter_id_conv length_filter_less list_all_iff nat_less_le)
  show "us_totals (summarize_usage us) = totals_of (filter is_known us)"
    "us_total_token_units (summarize_usage us) = sum_list (map token_units (filter is_known us))"
    "us_observation_count (summarize_usage us) = int (length us)"
    by (simp_all add: summarize_usage_def usage_loop_eq totals_fold token_units_sum)
  show "us_unknown_count (summarize_usage us) = int (length us) - int (length (filter is_known us))"
    using le by (simp add: summarize_usage_def usage_loop_eq unknown of_nat_diff)
  show "(us_status (summarize_usage us) = ''OBSERVED'') = (us \<noteq> [] \<and> list_all is_known us)"
    using le all by (auto simp: summarize_usage_def usage_loop_eq unknown)
  let ?roles = "fold count_in_roles us []"
  have keys: "distinct (map rt_role ?roles)" "rt_role ` set ?roles = uo_role ` set us"
    using roles_keys [of "[]" us] by simp_all
  have "map rt_role (sort_key rt_role ?roles) = sorted_list_of_set (uo_role ` set us)"
    using keys by (intro sorted_distinct_set_unique) (simp_all add: distinct_map)
  moreover have "sort_key rt_role ?roles = map (role_summary us) (map rt_role (sort_key rt_role ?roles))"
    unfolding map_map comp_def using roles_entries [of _ us] by (intro map_idI [symmetric]) simp
  ultimately show "us_per_role (summarize_usage us) =
     map (role_summary us) (sorted_list_of_set (uo_role ` set us))"
    by (simp add: summarize_roles)
qed

section \<open>Migration\<close>

text \<open>
  Opening a store file checks the run table exactly: the migration to one run per task
  succeeds if and only if no task has two runs, and it never changes a row.
\<close>

theorem migration_exact:
  "(fst (migrate_durable_runs_unique s) = Inr ()) = distinct (map dr_task_id (durable_runs s)) \<and>
   snd (migrate_durable_runs_unique s) = s"
  using migrate_ok_iff [of s] by (simp add: migrate_durable_runs_unique_def split: option.split)

end
