(* ===== verification/Task_Execution.thy ===== *)
theory Task_Execution
  imports Task_Lifecycle
begin

text \<open>
  \<open>TaskExecutionService.execute\<close> (task_execution.py): the life of one queued task from dispatch
  to its review or failure status, over the executor the router selects. The executor is an
  argument that may write to the store; the deterministic fixture executor (task_runtime.py)
  is modelled up to what the host answers: the worktree it creates, and the results of the git
  commands it runs.
\<close>

record executor_result =
  er_success :: bool
  er_validation_exit_code :: int
  er_validation_command_id :: string
  er_validation_output_digest :: string
  er_validation_output_summary :: string
  er_changed_files :: "file_change list"
  er_error :: string
  er_execution_id :: string
  er_failure_classification :: string

record execution_outcome =
  xe_task_id :: string
  xe_execution_id :: string
  xe_success :: bool
  xe_validation_command_id :: string
  xe_validation_exit_code :: int
  xe_changed_files :: "changed_file_row list"
  xe_evidence_ids :: "string list"
  xe_failure_classification :: string
  xe_failure_detail :: string

type_synonym dispatcher = "env \<Rightarrow> task_row \<Rightarrow> db \<Rightarrow> executor_result step"

definition runtime_error :: "string \<Rightarrow> store_error" where
  "runtime_error m = PyError ''ExecutorRuntimeError'' m"

text \<open>\<open>except ExecutorRuntimeError\<close>, with its subclass for validation commands.\<close>

fun is_runtime_error :: "store_error \<Rightarrow> bool" where
  "is_runtime_error (PyError c _) =
     (c \<in> {''ExecutorRuntimeError'', ''ValidationCommandError''})"
| "is_runtime_error _ = False"

section \<open>The fixture executor\<close>

record executor_event =
  ee_type :: string
  ee_title :: string
  ee_description :: string
  ee_raw_log :: string
  ee_metadata :: json

text \<open>\<open>_store_event_callback\<close>: an event that cannot be stored is dropped.\<close>

definition store_event :: "env \<Rightarrow> string \<Rightarrow> executor_event \<Rightarrow> db \<Rightarrow> db" where
  "store_event e tid ev s =
     snd (add_event e tid (ee_type ev) (ee_title ev) (ee_description ev) (ee_raw_log ev)
            (Some (ee_metadata ev)) s)"

text \<open>
  What the host answers: the worktree's path, the class of an exception raised while the
  repository is prepared, the validation run (an \<open>ExecutorRuntimeError\<close>, or exit code, output
  and digest), and the changed files (or the class of an exception).
\<close>

record fixture_host =
  fh_worktree :: string
  fh_prepare_error :: "string option"
  fh_validation :: "store_error + (int \<times> string \<times> string)"
  fh_changed :: "string + file_change list"

definition sanitize_output :: "nat \<Rightarrow> string \<Rightarrow> string" where
  "sanitize_output n s = filter (\<lambda>c. c \<noteq> CHR 0x00) (take n s)"

definition fixture_error :: "string \<Rightarrow> string \<Rightarrow> executor_result" where
  "fixture_error tid cls =
     \<lparr>er_success = False, er_validation_exit_code = -1,
      er_validation_command_id = ''git_diff_check'', er_validation_output_digest = '''',
      er_validation_output_summary = '''', er_changed_files = [],
      er_error = ''executor_error:'' @ cls, er_execution_id = ''exec-'' @ tid,
      er_failure_classification = ''''\<rparr>"

definition fixture_event :: "string \<Rightarrow> string \<Rightarrow> string \<Rightarrow> string \<Rightarrow> (string \<times> json) list \<Rightarrow> string \<Rightarrow> executor_event"
where
  "fixture_event tid ty title descr meta raw =
     \<lparr>ee_type = ty, ee_title = title, ee_description = descr, ee_raw_log = raw,
      ee_metadata = JObj ((''execution_id'', JStr (''exec-'' @ tid)) # meta)\<rparr>"

definition fixture_validated ::
    "env \<Rightarrow> fixture_host \<Rightarrow> string \<Rightarrow> int \<Rightarrow> string \<Rightarrow> string \<Rightarrow> db \<Rightarrow> executor_result step" where
  "fixture_validated e h tid code output digest s =
     (let s1 = store_event e tid (fixture_event tid ''LOCAL_VALIDATED'' ''Local validation''
                 (''git_diff_check exit='' @ str_of_int code)
                 [(''validation_command_id'', JStr ''git_diff_check''),
                  (''validation_exit_code'', JInt code)] (sanitize_output 2048 output)) s in
      case fh_changed h of
        Inl cls \<Rightarrow> (Inr (fixture_error tid cls), s1)
      | Inr files \<Rightarrow>
          (Inr \<lparr>er_success = (code = 0), er_validation_exit_code = code,
                er_validation_command_id = ''git_diff_check'',
                er_validation_output_digest = digest,
                er_validation_output_summary = sanitize_output 1024 output,
                er_changed_files = files, er_error = '''', er_execution_id = ''exec-'' @ tid,
                er_failure_classification = ''''\<rparr>,
           if code = 0 then
             store_event (later 10 e) tid (fixture_event tid ''VALIDATED'' ''Task validated''
               ''Deterministic fixture validation passed'' [(''validation_passed'', JBool True)] '''') s1
           else s1))"

definition fixture_execute :: "fixture_host \<Rightarrow> string \<Rightarrow> dispatcher" where
  "fixture_execute h workspace_root e task s =
     (let tid = t_id task in
      if workspace_root = '''' then (Inl (runtime_error ''workspace_root_required''), s)
      else if py_strip workspace_root = '''' then
        (Inl (runtime_error ''workspace_root_must_be_non_empty''), s)
      else
        let s1 = store_event e tid
              \<lparr>ee_type = ''WORKSPACE_READY'', ee_title = ''Workspace ready'',
               ee_description = ''Disposable worktree created at '' @ fh_worktree h,
               ee_raw_log = '''',
               ee_metadata = JObj [(''workspace'', JStr (fh_worktree h)),
                                   (''execution_id'', JStr (''exec-'' @ tid))]\<rparr> s in
        case fh_prepare_error h of
          Some cls \<Rightarrow> (Inr (fixture_error tid cls), s1)
        | None \<Rightarrow>
            let s2 = store_event (later 10 e) tid (fixture_event tid ''EXECUTOR_FINISHED''
                  ''Fixture mutation applied'' ''Mutation append_to_file applied''
                  [(''mutation_command_id'', JStr ''append_to_file''),
                   (''fixture_path'', JStr ''fixture.txt'')] '''') s1 in
            (case fh_validation h of
               Inl err \<Rightarrow>
                 (if is_runtime_error err then Inl err else Inr (fixture_error tid (error_class err)), s2)
             | Inr (code, output, digest) \<Rightarrow>
                 fixture_validated (later 20 e) h tid code output digest s2))"

section \<open>Dispatch and outcome\<close>

text \<open>\<open>_dispatch_executor\<close>: run it, then record files, validation and evidence.\<close>

definition dispatch_executor ::
    "env \<Rightarrow> dispatcher \<Rightarrow> task_row \<Rightarrow> db \<Rightarrow> executor_result step" where
  "dispatch_executor e run task s =
     (let tid = t_id task in
      andthen (run e task s) (\<lambda>r s1.
      andthen (set_changed_files (later 100 e) tid (er_changed_files r) s1) (\<lambda>_ s2.
      andthen (set_validation_result (later 110 e) tid (er_validation_command_id r)
                 (er_validation_exit_code r) (er_validation_output_digest r) s2) (\<lambda>_ s3.
      andthen (add_evidence (later 120 e) tid
                 \<lparr>in_category = ''Validation'', in_label = er_validation_command_id r,
                  in_value = str_of_int (er_validation_exit_code r),
                  in_status = (if er_validation_exit_code r = 0 then ''pass'' else ''fail''),
                  in_detail = er_validation_output_summary r,
                  in_raw_json_digest = er_validation_output_digest r\<rparr> s3) (\<lambda>_ s4.
      andthen (add_evidence (later 130 e) tid
                 \<lparr>in_category = ''Executor'', in_label = ''executor_kind'',
                  in_value = t_executor_kind task, in_status = ''pass'',
                  in_detail = (if t_executor_kind task = ''deterministic_fixture''
                               then ''fixture/provider-free executor'' else t_executor_kind task),
                  in_raw_json_digest = ''''\<rparr> s4) (\<lambda>_ s5.
      (Inr r, s5)))))))"

text \<open>The outcome read back from the store, with the evidence recorded since \<open>known\<close>.\<close>

definition outcome_of ::
    "string \<Rightarrow> nat \<Rightarrow> bool \<Rightarrow> string \<Rightarrow> int \<Rightarrow> bool \<Rightarrow> db \<Rightarrow> execution_outcome step" where
  "outcome_of tid known success command_id code with_files s =
     (case get_task tid None s of
        Inl err \<Rightarrow> (Inl err, s)
      | Inr final \<Rightarrow>
          (Inr \<lparr>xe_task_id = tid, xe_execution_id = t_execution_id (tv_row final),
                xe_success = success, xe_validation_command_id = command_id,
                xe_validation_exit_code = code,
                xe_changed_files = (if with_files then tv_changed_files final else []),
                xe_evidence_ids = drop known (map evd_id (tv_evidence_refs final)),
                xe_failure_classification = t_failure_classification (tv_row final),
                xe_failure_detail = t_failure_detail (tv_row final)\<rparr>, s))"

definition block_task ::
    "env \<Rightarrow> string \<Rightarrow> nat \<Rightarrow> string \<Rightarrow> string \<Rightarrow> db \<Rightarrow> execution_outcome step" where
  "block_task e tid known command_id detail s =
     andthen (classify_failure e tid ''blocked'' detail s) (\<lambda>_ s1.
       outcome_of tid known False command_id (-1) False s1)"

definition review_status :: "string \<Rightarrow> string" where
  "review_status kind =
     (if kind = ''deterministic_fixture'' then ''READY_FOR_REVIEW_FIXTURE'' else ''READY_FOR_REVIEW'')"

definition running_status :: "string \<Rightarrow> string" where
  "running_status kind =
     (if kind = ''deterministic_fixture'' then ''RUNNING_FIXTURE'' else ''RUNNING'')"

definition record_success :: "env \<Rightarrow> string \<Rightarrow> string \<Rightarrow> executor_result \<Rightarrow> db \<Rightarrow> unit step" where
  "record_success e tid kind r s =
     andthen (transition_to e tid ''VALIDATING'' s) (\<lambda>_ s1.
     andthen (transition_to (later 10 e) tid (review_status kind) s1) (\<lambda>_ s2.
     andthen (add_event (later 20 e) tid ''VALIDATED'' ''Validation passed''
                (er_validation_command_id r @ '' passed'') ''''
                (Some (JObj [(''validation_exit_code'', JInt (er_validation_exit_code r))])) s2)
       (\<lambda>_ s3. (Inr (), s3))))"

definition failure_class_of :: "executor_result \<Rightarrow> string" where
  "failure_class_of r =
     (if py_in ''unapproved'' (er_error r) then ''blocked''
      else if er_failure_classification r = '''' then ''failed'' else er_failure_classification r)"

definition record_failure :: "env \<Rightarrow> string \<Rightarrow> executor_result \<Rightarrow> db \<Rightarrow> unit step" where
  "record_failure e tid r s =
     andthen (classify_failure e tid (failure_class_of r) (er_error r) s) (\<lambda>_ s1.
     andthen (add_event (later 20 e) tid ''EXECUTOR_FINISHED'' ''Executor finished'' (er_error r) ''''
                (Some (JObj [(''validation_exit_code'', JInt (er_validation_exit_code r))])) s1)
       (\<lambda>_ s2. (Inr (), s2)))"

definition finish_execution ::
    "env \<Rightarrow> string \<Rightarrow> nat \<Rightarrow> string \<Rightarrow> executor_result \<Rightarrow> db \<Rightarrow> execution_outcome step" where
  "finish_execution e tid known kind r s =
     andthen (if er_success r then record_success e tid kind r s else record_failure e tid r s)
       (\<lambda>_ s1. outcome_of tid known (er_success r) (er_validation_command_id r)
                 (er_validation_exit_code r) True s1)"

text \<open>
  \<open>execute\<close>. \<open>kwargs_error\<close> is the text of the \<open>ExecutorRuntimeError\<close> that resolving the
  executor's arguments raises, if it does.
\<close>

definition execute_task ::
    "env \<Rightarrow> (task_row \<Rightarrow> string option) \<Rightarrow> dispatcher \<Rightarrow> string \<Rightarrow> string \<Rightarrow> db
     \<Rightarrow> execution_outcome step" where
  "execute_task e kwargs_error run command_id tid s =
     (case get_task tid None s of
        Inl err \<Rightarrow> (Inl (PyError ''TaskExecutionError'' (''task_not_found:'' @ tid)), s)
      | Inr view \<Rightarrow>
          let task = tv_row view; kind = t_executor_kind task;
              known = length (tv_evidence_refs view) in
          if t_status task \<noteq> ''QUEUED'' then
            (Inl (PyError ''TaskExecutionError''
               (''task_not_queued:'' @ tid @ '':'' @ t_status task)), s)
          else case kwargs_error task of
            Some detail \<Rightarrow> block_task e tid known command_id detail s
          | None \<Rightarrow>
              andthen (transition_to e tid ''PREPARING_WORKSPACE'' s) (\<lambda>_ s1.
              andthen (transition_to (later 10 e) tid (running_status kind) s1) (\<lambda>_ s2.
              andthen (add_event (later 20 e) tid ''EXECUTOR_RUNNING'' ''Executor running''
                         (''Executor '' @ kind @ '' started'') ''''
                         (Some (JObj [(''executor_kind'', JStr kind)])) s2) (\<lambda>_ s3.
              case dispatch_executor (later 30 e) run task s3 of
                (Inl err, s4) \<Rightarrow>
                  if is_runtime_error err then
                    block_task (later 1000 e) tid known command_id (error_text err) s4
                  else (Inl err, s4)
              | (Inr r, s4) \<Rightarrow> finish_execution (later 1000 e) tid known kind r s4))))"

end
