(* ===== verification/Execution_Laws.thy ===== *)
theory Execution_Laws
  imports Frames Task_Execution
begin

text \<open>
  What the execution of a task may do to the database. The locale \<open>task_relation\<close> is the
  interface between the execution service and the store it writes to: a relation between
  databases that is reflexive and transitive and holds across every operation of the store on
  the one task. It then holds across an execution of that task, with any executor that keeps it.
\<close>

lemma view_fields [simp]:
  "t_id (tv_row (row_to_task t l s)) = t_id t" "t_status (tv_row (row_to_task t l s)) = t_status t"
  "t_executor_kind (tv_row (row_to_task t l s)) = t_executor_kind t"
  "t_failure_classification (tv_row (row_to_task t l s)) = t_failure_classification t"
  "t_failure_detail (tv_row (row_to_task t l s)) = t_failure_detail t"
  by (simp_all add: row_to_task_def Let_def)

locale task_relation =
  fixes R :: "db \<Rightarrow> db \<Rightarrow> bool" and tid :: string
  assumes R_refl [simp]: "R s s"
    and R_trans: "R s t \<Longrightarrow> R t u \<Longrightarrow> R s u"
    and R_transition: "R s (snd (transition_to e tid st s))"
    and R_event: "R s (snd (add_event e tid ty ti d l m s))"
    and R_files: "R s (snd (set_changed_files e tid fs s))"
    and R_evidence: "R s (snd (add_evidence e tid i s))"
    and R_validation: "R s (snd (set_validation_result e tid c x dg s))"
    and R_classify: "R s (snd (classify_failure e tid c d s))"
begin

lemmas R_ops = R_transition R_event R_files R_evidence R_validation R_classify

lemma R_andthen:
  assumes "R s (snd r)" and "\<And>x t. r = (Inr x, t) \<Longrightarrow> R t (snd (k x t))"
  shows "R s (snd (andthen r k))"
  using assms by (cases r; cases "fst r") (auto intro: R_trans)

lemma R_events: "R s t \<Longrightarrow> R s (store_event e tid ev t)"
  by (simp add: store_event_def R_trans [OF _ R_event])

lemma R_fixture:
  assumes "t_id task = tid"
  shows "R s (snd (fixture_execute h root e task s))"
  unfolding fixture_execute_def fixture_validated_def Let_def assms
  by (auto intro!: R_events split: option.split sum.split prod.split)

lemma R_outcome [simp]: "snd (outcome_of i n ok c x b s) = s"
  by (simp add: outcome_of_def split: sum.split)

lemma R_dispatch:
  assumes "t_id task = tid" "R s (snd (run e task s))"
  shows "R s (snd (dispatch_executor e run task s))"
  using assms(2) unfolding dispatch_executor_def Let_def assms(1)
  by (intro R_andthen R_ops) simp_all

lemma R_block: "R s (snd (block_task e tid n c d s))"
  unfolding block_task_def by (intro R_andthen) (auto intro: R_ops)

lemma R_finish: "R s (snd (finish_execution e tid n k r s))"
  unfolding finish_execution_def record_success_def record_failure_def
  by (intro R_andthen) (auto intro!: R_andthen R_ops)

lemma R_execute_task:
  assumes run: "\<And>e task s. t_id task = tid \<Longrightarrow> R s (snd (run e task s))"
  shows "R s (snd (execute_task e kw run c tid s))"
proof -
  show ?thesis
  proof (cases "get_task tid None s")
    case (Inl err)
    then show ?thesis by (simp add: execute_task_def)
  next
    case (Inr view)
    then have "t_id (tv_row view) = tid"
      by (auto simp: get_task_def task_row_of_def split: option.splits dest: find_SomeD)
    then have dispatched: "R s s4" if "dispatch_executor e' run (tv_row view) s = (r, s4)" for e' s r s4
      using R_dispatch [where run = run and task = "tv_row view", OF _ run, of s e'] that by simp
    from Inr show ?thesis
      unfolding execute_task_def Let_def
      by (auto intro!: R_andthen R_ops R_block
          intro: dispatched R_trans [OF dispatched R_block] R_trans [OF dispatched R_finish]
          split: option.split sum.split prod.split)
  qed
qed

end

text \<open>An execution writes only the tables of the task store.\<close>

interpretation framed: task_relation progress_frame tid for tid
  by unfold_locales (auto intro: frame_trans(1) progress_task_ops progress_classify)

section \<open>Other tasks\<close>

text \<open>The rows of the tasks other than \<open>tid\<close> are as they were.\<close>

definition others_kept :: "string \<Rightarrow> db \<Rightarrow> db \<Rightarrow> bool" where
  "others_kept tid s s' \<longleftrightarrow>
     filter (\<lambda>t. t_id t \<noteq> tid) (tasks s') = filter (\<lambda>t. t_id t \<noteq> tid) (tasks s)
     \<and> filter (\<lambda>v. ev_task_id v \<noteq> tid) (task_events s') = filter (\<lambda>v. ev_task_id v \<noteq> tid) (task_events s)
     \<and> filter (\<lambda>v. evd_task_id v \<noteq> tid) (task_evidence s') = filter (\<lambda>v. evd_task_id v \<noteq> tid) (task_evidence s)
     \<and> filter (\<lambda>v. cf_task_id v \<noteq> tid) (task_changed_files s')
         = filter (\<lambda>v. cf_task_id v \<noteq> tid) (task_changed_files s)"

lemma filter_update_other:
  "(\<And>r. p r \<Longrightarrow> k r = x \<and> k (f r) = x) \<Longrightarrow>
   filter (\<lambda>r. k r \<noteq> x) (sql_update p f t) = filter (\<lambda>r. k r \<noteq> x) t"
  by (induction t) (auto simp: sql_update_def)

lemma others_trans: "others_kept tid s t \<Longrightarrow> others_kept tid t u \<Longrightarrow> others_kept tid s u"
  by (simp add: others_kept_def)

lemma others_update [simp]:
  "(\<And>r. t_id (f r) = t_id r) \<Longrightarrow> others_kept tid s (update_task_fields e tid f t) = others_kept tid s t"
  by (simp add: others_kept_def update_task_fields_def filter_update_other)

lemma others_event: "others_kept tid s (snd (append_event e tid ty ti d l m s))"
  by (simp add: append_event_def Let_def) (simp add: others_kept_def)

interpretation isolated: task_relation "others_kept tid" tid for tid
proof unfold_locales
  fix s t u e st ty ti d l m fs i c x dg
  show "others_kept tid s s" by (simp add: others_kept_def)
  show "others_kept tid s t \<Longrightarrow> others_kept tid t u \<Longrightarrow> others_kept tid s u" by (rule others_trans)
  show "others_kept tid s (snd (transition_to e tid st s))"
    by (auto simp: transition_to_def Let_def set_status_def others_kept_def [of tid s s] split: sum.split)
  show "others_kept tid s (snd (add_event e tid ty ti d l m s))"
    by (auto simp: add_event_def others_event others_kept_def [of tid s s] split: sum.split)
  show "others_kept tid s (snd (set_changed_files e tid fs s))"
    by (auto simp: set_changed_files_def split: sum.split)
      (auto simp: others_kept_def replace_changed_files_def changed_file_row_of_def)
  show "others_kept tid s (snd (add_evidence e tid i s))"
    by (auto simp: add_evidence_def split: sum.split) (auto simp: others_kept_def evidence_row_of_def)
  show "others_kept tid s (snd (set_validation_result e tid c x dg s))"
    by (auto simp: set_validation_result_def others_kept_def [of tid s s] split: sum.split)
  show "others_kept tid s (snd (classify_failure e tid c d s))"
  proof -
    have *: "others_kept tid s (snd (andthen (append_event e' tid ty ti x l m t) (\<lambda>_ u. return_task tid None u)))"
      if "others_kept tid s t" for e' ty ti x l m t
      using others_trans [OF that others_event, of e' ty ti x l m]
      by (cases "append_event e' tid ty ti x l m t"; cases "fst (append_event e' tid ty ti x l m t)") auto
    show ?thesis
      by (auto simp: classify_failure_def Let_def set_status_def others_kept_def [of tid s s]
          intro!: * split: sum.split)
  qed
qed

section \<open>The status of the task\<close>

definition stands :: "string \<Rightarrow> string \<Rightarrow> string \<Rightarrow> db \<Rightarrow> bool" where
  "stands tid kind st s \<longleftrightarrow>
     (\<exists>t. task_row_of tid s = Some t \<and> t_status t = st \<and> t_executor_kind t = kind)"

lemma update_row:
  "(\<And>r. t_id (f r) = t_id r) \<Longrightarrow> task_row_of tid (update_task_fields e tid f s)
     = map_option (\<lambda>t. (f t)\<lparr>t_updated_at := utc e 0\<rparr>) (task_row_of tid s)"
  by (cases "task_row_of tid s")
    (auto simp: task_row_of_def update_task_fields_def find_sql_update dest: find_SomeD)

lemma stands_update:
  "stands tid kind st s \<Longrightarrow> (\<And>r. t_id (f r) = t_id r \<and> t_status (f r) = t_status r \<and> t_executor_kind (f r) = t_executor_kind r)
   \<Longrightarrow> stands tid kind st (update_task_fields e tid f s)"
  by (auto simp: stands_def update_row)

lemma stands_view:
  assumes "stands tid kind st s"
  obtains v where "get_task tid None s = Inr v" "t_status (tv_row v) = st" "t_executor_kind (tv_row v) = kind"
    "t_id (tv_row v) = tid"
proof -
  from assms obtain t where "task_row_of tid s = Some t" "t_status t = st" "t_executor_kind t = kind"
    by (auto simp: stands_def)
  moreover from this have "t_id t = tid" by (auto simp: task_row_of_def dest: find_SomeD)
  ultimately show thesis using that by (simp add: get_task_def)
qed

lemma transition_moves:
  assumes "stands tid kind a s" "b \<in> set (transition_rules a)" "b \<noteq> a"
    "a \<notin> set TERMINAL_STATUSES" "b \<in> set TASK_STATUS_ORDER"
  shows "\<exists>v s'. transition_to e tid b s = (Inr v, s') \<and> stands tid kind b s'"
proof -
  obtain v where v: "get_task tid None s = Inr v" "t_status (tv_row v) = a"
    by (rule stands_view [OF assms(1)])
  let ?s = "update_task_fields e tid (set_status b) s"
  have "stands tid kind b ?s"
    using assms(1) by (auto simp: stands_def update_row set_status_def)
  moreover from this obtain w where "get_task tid None ?s = Inr w" by (rule stands_view)
  ultimately show ?thesis
    using assms(2-5) v by (simp add: transition_to_def Let_def return_task_def)
qed

text \<open>The other operations succeed on an existing task, and keep its status and kind.\<close>

lemma task_ops_keep:
  assumes "stands tid kind st s"
  shows "ty \<in> set VALID_EVENT_TYPES \<Longrightarrow>
      \<exists>v s'. add_event e tid ty ti d l m s = (Inr v, s') \<and> stands tid kind st s'"
    and "\<exists>v s'. set_changed_files e tid fs s = (Inr v, s') \<and> stands tid kind st s'"
    and "\<exists>v s'. set_validation_result e tid c x dg s = (Inr v, s') \<and> stands tid kind st s'"
    and "\<exists>v s'. add_evidence e tid i s = (Inr v, s') \<and> stands tid kind st s'"
proof -
  obtain v where v: "get_task tid None s = Inr v" by (rule stands_view [OF assms])
  have same: "stands tid kind st (update_task_fields e' tid f s1)"
    if "tasks s1 = tasks s" "\<And>r. t_id (f r) = t_id r \<and> t_status (f r) = t_status r \<and> t_executor_kind (f r) = t_executor_kind r"
    for e' f s1
    using assms that by (intro stands_update) (auto simp: stands_def task_row_of_def)
  have ret: "\<exists>v s'. return_task tid None u = (Inr v, s') \<and> stands tid kind st s'"
    if "stands tid kind st u" for u
    using that stands_view [OF that] by (metis return_task_def)
  show "ty \<in> set VALID_EVENT_TYPES \<Longrightarrow>
      \<exists>v s'. add_event e tid ty ti d l m s = (Inr v, s') \<and> stands tid kind st s'"
    by (simp add: add_event_def v append_event_def Let_def same)
  show "\<exists>v s'. set_changed_files e tid fs s = (Inr v, s') \<and> stands tid kind st s'"
    by (simp add: set_changed_files_def v ret same replace_changed_files_def)
  show "\<exists>v s'. set_validation_result e tid c x dg s = (Inr v, s') \<and> stands tid kind st s'"
    by (simp add: set_validation_result_def v ret same)
  show "\<exists>v s'. add_evidence e tid i s = (Inr v, s') \<and> stands tid kind st s'"
    by (simp add: add_evidence_def v ret same)
qed

definition failed_with :: "string \<Rightarrow> string \<Rightarrow> string \<Rightarrow> db \<Rightarrow> bool" where
  "failed_with tid c d s \<longleftrightarrow>
     (\<exists>t. task_row_of tid s = Some t \<and> t_status t = failure_target c
        \<and> t_failure_classification t = c \<and> t_failure_detail t = d)"

lemma failed_view:
  assumes "failed_with tid c d s"
  obtains v where "get_task tid None s = Inr v" "t_failure_classification (tv_row v) = c"
    "t_failure_detail (tv_row v) = d"
  using assms by (auto simp: failed_with_def get_task_def)

lemma failed_update:
  "failed_with tid c d s \<Longrightarrow> failed_with tid c d (update_task_fields e tid id (s\<lparr>task_events := evs\<rparr>))"
  by (auto simp: failed_with_def update_row) (simp add: task_row_of_def)

lemma failed_event:
  assumes "failed_with tid c d s" "ty \<in> set VALID_EVENT_TYPES"
  shows "\<exists>v s'. add_event e tid ty ti x l m s = (Inr v, s') \<and> failed_with tid c d s'"
    and "\<exists>v s'. append_event e tid ty ti x l m s = (Inr v, s') \<and> failed_with tid c d s'"
proof -
  obtain v where "get_task tid None s = Inr v" by (rule failed_view [OF assms(1)])
  then show "\<exists>v s'. add_event e tid ty ti x l m s = (Inr v, s') \<and> failed_with tid c d s'"
    and "\<exists>v s'. append_event e tid ty ti x l m s = (Inr v, s') \<and> failed_with tid c d s'"
    using assms(2) by (simp_all add: add_event_def append_event_def Let_def failed_update [OF assms(1)])
qed

lemma classify_fails:
  assumes "stands tid kind st s" "st \<notin> set TERMINAL_STATUSES"
  shows "\<exists>v s'. classify_failure e tid c d s = (Inr v, s') \<and> failed_with tid c d s'"
proof -
  obtain v where v: "get_task tid None s = Inr v" "t_status (tv_row v) = st"
    by (rule stands_view [OF assms(1)])
  let ?s1 = "update_task_fields e tid (\<lambda>r. r\<lparr>t_failure_classification := c, t_failure_detail := d\<rparr>) s"
  let ?s2 = "if st \<noteq> failure_target c then update_task_fields (later 1 e) tid (set_status (failure_target c)) ?s1
             else ?s1"
  have "failed_with tid c d ?s2"
    using assms(1) by (auto simp: failed_with_def stands_def update_row set_status_def)
  from failed_event(2) [OF this, of "''EXECUTOR_FINISHED''" "later 2 e" "''Executor failed''"
      "''failure_classification='' @ c" "''''" "Some (failure_metadata c d)"]
  obtain x s' where "append_event (later 2 e) tid ''EXECUTOR_FINISHED'' ''Executor failed''
      (''failure_classification='' @ c) '''' (Some (failure_metadata c d)) ?s2 = (Inr x, s')"
    and s': "failed_with tid c d s'"
    by (auto simp: VALID_EVENT_TYPES_def)
  then have "classify_failure e tid c d s = return_task tid None s'"
    using v assms(2) by (simp add: classify_failure_def Let_def)
  with s' failed_view [OF s'] show ?thesis by (metis return_task_def)
qed

section \<open>How an execution ends\<close>

text \<open>
  The outcome and the stored task agree: a success is in its review status, a failure in the
  status of its class, with the class and the detail that the outcome reports.
\<close>

definition ended :: "string \<Rightarrow> string \<Rightarrow> execution_outcome \<Rightarrow> db \<Rightarrow> bool" where
  "ended tid kind out s \<longleftrightarrow>
     (if xe_success out then stands tid kind (review_status kind) s
      else failed_with tid (xe_failure_classification out) (xe_failure_detail out) s)"

lemma block_outcome:
  assumes "stands tid kind st s" "st \<notin> set TERMINAL_STATUSES"
  shows "\<exists>out s'. block_task e tid n c d s = (Inr out, s') \<and> ended tid kind out s'"
proof -
  obtain v s' where s': "classify_failure e tid ''blocked'' d s = (Inr v, s')" "failed_with tid ''blocked'' d s'"
    using classify_fails [OF assms] by blast
  obtain w where "get_task tid None s' = Inr w" "t_failure_classification (tv_row w) = ''blocked''"
    "t_failure_detail (tv_row w) = d"
    by (rule failed_view [OF s'(2)])
  with s' show ?thesis by (simp add: block_task_def outcome_of_def ended_def)
qed

lemma status_moves:
  "''VALIDATING'' \<in> set (transition_rules (running_status kind))"
  "running_status kind \<in> set (transition_rules ''PREPARING_WORKSPACE'')"
  "review_status kind \<in> set (transition_rules ''VALIDATING'')"
  "''PREPARING_WORKSPACE'' \<in> set (transition_rules ''QUEUED'')"
  "''VALIDATING'' \<noteq> running_status kind" "running_status kind \<noteq> ''PREPARING_WORKSPACE''"
  "review_status kind \<noteq> ''VALIDATING''" "running_status kind \<notin> set TERMINAL_STATUSES"
  "''VALIDATING'' \<notin> set TERMINAL_STATUSES" "''PREPARING_WORKSPACE'' \<notin> set TERMINAL_STATUSES"
  "''QUEUED'' \<notin> set TERMINAL_STATUSES" "running_status kind \<in> set TASK_STATUS_ORDER"
  "review_status kind \<in> set TASK_STATUS_ORDER" "''VALIDATING'' \<in> set TASK_STATUS_ORDER"
  "''PREPARING_WORKSPACE'' \<in> set TASK_STATUS_ORDER"
  by (simp_all add: running_status_def review_status_def transition_rules_def TERMINAL_STATUSES_def
      TASK_STATUS_ORDER_def)

lemma success_recorded:
  assumes "stands tid kind (running_status kind) s"
  shows "\<exists>s'. record_success e tid kind r s = (Inr (), s') \<and> stands tid kind (review_status kind) s'"
proof -
  obtain v s1 where 1: "transition_to e tid ''VALIDATING'' s = (Inr v, s1)" "stands tid kind ''VALIDATING'' s1"
    using transition_moves [OF assms, of "''VALIDATING''" e] by (auto simp: status_moves)
  obtain v2 s2 where 2: "transition_to (later 10 e) tid (review_status kind) s1 = (Inr v2, s2)"
      "stands tid kind (review_status kind) s2"
    using transition_moves [OF 1(2), of "review_status kind" "later 10 e"] by (auto simp: status_moves)
  have ev: "''VALIDATED'' \<in> set VALID_EVENT_TYPES" by (simp add: VALID_EVENT_TYPES_def)
  show ?thesis
    using 1 2 task_ops_keep(1) [OF 2(2) ev] unfolding record_success_def by (auto simp: andthen_ok) blast
qed

lemma failure_recorded:
  assumes "stands tid kind (running_status kind) s"
  shows "\<exists>s'. record_failure e tid r s = (Inr (), s') \<and> failed_with tid (failure_class_of r) (er_error r) s'"
proof -
  from classify_fails [OF assms status_moves(8)] obtain v s1
    where 1: "classify_failure e tid (failure_class_of r) (er_error r) s = (Inr v, s1)"
      "failed_with tid (failure_class_of r) (er_error r) s1" by blast
  have ev: "''EXECUTOR_FINISHED'' \<in> set VALID_EVENT_TYPES" by (simp add: VALID_EVENT_TYPES_def)
  show ?thesis
    using 1 failed_event(1) [OF 1(2) ev] unfolding record_failure_def by (auto simp: andthen_ok) blast
qed

lemma finish_outcome:
  assumes "stands tid kind (running_status kind) s"
  shows "\<exists>out s'. finish_execution e tid n kind r s = (Inr out, s') \<and> ended tid kind out s'"
proof (cases "er_success r")
  case True
  obtain s' where s': "record_success e tid kind r s = (Inr (), s')" "stands tid kind (review_status kind) s'"
    using success_recorded [OF assms] by blast
  obtain v where "get_task tid None s' = Inr v" by (rule stands_view [OF s'(2)])
  with s' True show ?thesis by (simp add: finish_execution_def outcome_of_def ended_def)
next
  case False
  obtain s' where s': "record_failure e tid r s = (Inr (), s')"
      "failed_with tid (failure_class_of r) (er_error r) s'"
    using failure_recorded [OF assms] by blast
  obtain v where "get_task tid None s' = Inr v" "t_failure_classification (tv_row v) = failure_class_of r"
      "t_failure_detail (tv_row v) = er_error r"
    by (rule failed_view [OF s'(2)])
  with s' False show ?thesis by (simp add: finish_execution_def outcome_of_def ended_def)
qed

text \<open>
  What the service relies on of an executor: it leaves the status of its task alone, and it
  raises nothing but \<open>ExecutorRuntimeError\<close>.
\<close>

definition well_behaved :: "string \<Rightarrow> string \<Rightarrow> dispatcher \<Rightarrow> bool" where
  "well_behaved tid kind run \<longleftrightarrow>
     (\<forall>e t s. t_id t = tid \<longrightarrow> stands tid kind (running_status kind) s \<longrightarrow>
        stands tid kind (running_status kind) (snd (run e t s))
        \<and> (\<forall>err. fst (run e t s) = Inl err \<longrightarrow> is_runtime_error err))"

lemma dispatch_outcome:
  assumes "well_behaved tid kind run" "t_id t = tid" "stands tid kind (running_status kind) s"
  shows "stands tid kind (running_status kind) (snd (dispatch_executor e run t s))
    \<and> (\<forall>err. fst (dispatch_executor e run t s) = Inl err \<longrightarrow> is_runtime_error err)"
proof (cases "run e t s")
  case (Pair r s1)
  with assms have r: "stands tid kind (running_status kind) s1" "\<And>err. r = Inl err \<Longrightarrow> is_runtime_error err"
    by (auto simp: well_behaved_def dest!: spec [of _ e] spec [of _ t] spec [of _ s])
  show ?thesis
  proof (cases r)
    case (Inl err)
    with Pair r show ?thesis by (simp add: dispatch_executor_def Let_def)
  next
    case (Inr x)
    obtain v2 s2 where 2: "set_changed_files (later 100 e) tid (er_changed_files x) s1 = (Inr v2, s2)"
        "stands tid kind (running_status kind) s2"
      using task_ops_keep(2) [OF r(1)] by blast
    obtain v3 s3 where 3: "set_validation_result (later 110 e) tid (er_validation_command_id x)
          (er_validation_exit_code x) (er_validation_output_digest x) s2 = (Inr v3, s3)"
        "stands tid kind (running_status kind) s3"
      using task_ops_keep(3) [OF 2(2)] by blast
    have more: "\<exists>v u'. add_evidence e' tid i u = (Inr v, u') \<and> stands tid kind (running_status kind) u'"
      if "stands tid kind (running_status kind) u" for e' i u
      by (rule task_ops_keep(4) [OF that])
    let ?i = "\<lparr>in_category = ''Validation'', in_label = er_validation_command_id x,
                  in_value = str_of_int (er_validation_exit_code x),
                  in_status = (if er_validation_exit_code x = 0 then ''pass'' else ''fail''),
                  in_detail = er_validation_output_summary x,
                  in_raw_json_digest = er_validation_output_digest x\<rparr>"
    let ?j = "\<lparr>in_category = ''Executor'', in_label = ''executor_kind'',
                  in_value = t_executor_kind t, in_status = ''pass'',
                  in_detail = (if t_executor_kind t = ''deterministic_fixture''
                               then ''fixture/provider-free executor'' else t_executor_kind t),
                  in_raw_json_digest = ''''\<rparr>"
    obtain v4 s4 where 4: "add_evidence (later 120 e) tid ?i s3 = (Inr v4, s4)"
        "stands tid kind (running_status kind) s4"
      using more [OF 3(2)] by blast
    obtain v5 s5 where 5: "add_evidence (later 130 e) tid ?j s4 = (Inr v5, s5)"
        "stands tid kind (running_status kind) s5"
      using more [OF 4(2)] by blast
    have "dispatch_executor e run t s = (Inr x, s5)"
      unfolding dispatch_executor_def Let_def assms(2) Pair Inr andthen_simps 2(1) 3(1) 4(1) 5(1) by simp
    with 5(2) show ?thesis by simp
  qed
qed

text \<open>
  An execution of a queued task over such an executor never raises: it returns an outcome, and
  the stored task agrees with it.
\<close>

lemma execution_ends:
  assumes "stands tid kind ''QUEUED'' s" "well_behaved tid kind run"
  shows "\<exists>out s'. execute_task e kw run c tid s = (Inr out, s') \<and> ended tid kind out s'"
proof -
  obtain v where v: "get_task tid None s = Inr v" "t_status (tv_row v) = ''QUEUED''"
      "t_executor_kind (tv_row v) = kind" "t_id (tv_row v) = tid"
    by (rule stands_view [OF assms(1)])
  let ?n = "length (tv_evidence_refs v)"
  show ?thesis
  proof (cases "kw (tv_row v)")
    case (Some d)
    from block_outcome [OF assms(1) status_moves(11), of e ?n c d] v Some show ?thesis
      by (simp add: execute_task_def Let_def)
  next
    case None
    obtain v1 s1 where 1: "transition_to e tid ''PREPARING_WORKSPACE'' s = (Inr v1, s1)"
        "stands tid kind ''PREPARING_WORKSPACE'' s1"
      using transition_moves [OF assms(1), of "''PREPARING_WORKSPACE''" e] by (auto simp: status_moves)
    obtain v2 s2 where 2: "transition_to (later 10 e) tid (running_status kind) s1 = (Inr v2, s2)"
        "stands tid kind (running_status kind) s2"
      using transition_moves [OF 1(2), of "running_status kind" "later 10 e"] by (auto simp: status_moves)
    obtain v3 s3 where 3: "add_event (later 20 e) tid ''EXECUTOR_RUNNING'' ''Executor running''
          (''Executor '' @ kind @ '' started'') '''' (Some (JObj [(''executor_kind'', JStr kind)])) s2 = (Inr v3, s3)"
        "stands tid kind (running_status kind) s3"
      using task_ops_keep(1) [OF 2(2), of "''EXECUTOR_RUNNING''"] unfolding VALID_EVENT_TYPES_def
      by (metis list.set_intros(1) list.set_intros(2))
    obtain r s4 where r: "dispatch_executor (later 30 e) run (tv_row v) s3 = (r, s4)" by force
    with dispatch_outcome [OF assms(2) v(4) 3(2), of "later 30 e"]
    have s4: "stands tid kind (running_status kind) s4" "\<And>err. r = Inl err \<Longrightarrow> is_runtime_error err"
      by auto
    have ex: "execute_task e kw run c tid s = (case r of
        Inl err \<Rightarrow> if is_runtime_error err then block_task (later 1000 e) tid ?n c (error_text err) s4
                   else (Inl err, s4)
      | Inr x \<Rightarrow> finish_execution (later 1000 e) tid ?n kind x s4)"
      using v None 1(1) 2(1) 3(1) r by (simp add: execute_task_def Let_def split: sum.split)
    from block_outcome [OF s4(1) status_moves(8), of "later 1000 e" ?n c] finish_outcome [OF s4(1), of "later 1000 e" ?n]
    show ?thesis
      unfolding ex using s4(2) by (cases r) auto
  qed
qed

text \<open>The fixture executor is well behaved.\<close>

lemma store_event_keeps: "stands tid kind st s \<Longrightarrow> stands tid kind st (store_event e tid ev s)"
proof (cases "ee_type ev \<in> set VALID_EVENT_TYPES")
  case True
  assume "stands tid kind st s"
  from task_ops_keep(1) [OF this True] show ?thesis
    unfolding store_event_def by (metis snd_conv)
next
  case False
  assume "stands tid kind st s"
  with False show ?thesis
    by (auto simp: store_event_def add_event_def append_event_def split: sum.split)
qed

lemma fixture_well_behaved: "well_behaved tid kind (fixture_execute h root)"
  by (auto simp: well_behaved_def fixture_execute_def fixture_validated_def Let_def runtime_error_def
      intro!: store_event_keeps split: option.split sum.split prod.split)


end
