(* ===== verification/Py_Values.thy ===== *)
theory Py_Values
  imports Json
begin

text \<open>
  What the services do to a JSON value they have not validated yet, as Python does it:
  \<open>payload.get\<close>, \<open>str\<close> and \<open>repr\<close>, truth, iteration (with the \<open>TypeError\<close> of a value
  that has none), \<open>int(...)\<close> of a string, and \<open>re.fullmatch\<close> on a character class.
\<close>

section \<open>Text of a value\<close>

definition py_repr_char :: "char \<Rightarrow> char \<Rightarrow> string" where
  "py_repr_char quote c =
     (let n = (of_char c :: int) in
      if c = quote \<or> n = 92 then [CHR 0x5C, c]
      else if n = 9 then [CHR 0x5C, CHR ''t'']
      else if n = 10 then [CHR 0x5C, CHR ''n'']
      else if n = 13 then [CHR 0x5C, CHR ''r'']
      else if n < 32 \<or> (127 \<le> n \<and> n \<le> 160) \<or> n = 173 then
        [CHR 0x5C, CHR ''x'', hex_digit (n div 16), hex_digit (n mod 16)]
      else [c])"

definition py_repr_string :: "string \<Rightarrow> string" where
  "py_repr_string s =
     (let quote = (if CHR 0x27 \<in> set s \<and> CHR 0x22 \<notin> set s then CHR 0x22 else CHR 0x27)
      in [quote] @ concat (map (py_repr_char quote) s) @ [quote])"

fun py_repr :: "json \<Rightarrow> string" where
  "py_repr JNull = ''None''"
| "py_repr (JBool b) = (if b then ''True'' else ''False'')"
| "py_repr (JInt i) = str_of_int i"
| "py_repr (JStr s) = py_repr_string s"
| "py_repr (JArr vs) = ''['' @ str_join '', '' (map py_repr vs) @ '']''"
| "py_repr (JObj kvs) =
     ''{'' @ str_join '', '' (map (\<lambda>(k, v). py_repr_string k @ '': '' @ py_repr v) kvs) @ ''}''"

fun py_str :: "json \<Rightarrow> string" where
  "py_str (JStr s) = s"
| "py_str v = py_repr v"

fun py_type_name :: "json \<Rightarrow> string" where
  "py_type_name JNull = ''NoneType''"
| "py_type_name (JBool _) = ''bool''"
| "py_type_name (JInt _) = ''int''"
| "py_type_name (JStr _) = ''str''"
| "py_type_name (JArr _) = ''list''"
| "py_type_name (JObj _) = ''dict''"

section \<open>Dictionaries and sequences\<close>

text \<open>A dictionary read with \<open>.get(key, default)\<close>, its value turned to text and stripped.\<close>

type_synonym payload = "(string \<times> json) list"

definition get_value :: "payload \<Rightarrow> string \<Rightarrow> json \<Rightarrow> json" where
  "get_value kvs k dflt = (case map_of kvs k of None \<Rightarrow> dflt | Some v \<Rightarrow> v)"

definition get_str :: "payload \<Rightarrow> string \<Rightarrow> string \<Rightarrow> string" where
  "get_str kvs k dflt = py_str (get_value kvs k (JStr dflt))"

definition get_text :: "payload \<Rightarrow> string \<Rightarrow> string \<Rightarrow> string" where
  "get_text kvs k dflt = py_strip (get_str kvs k dflt)"

fun py_iter :: "json \<Rightarrow> json list outcome" where
  "py_iter (JArr vs) = Inr vs"
| "py_iter (JStr s) = Inr (map (\<lambda>c. JStr [c]) s)"
| "py_iter (JObj kvs) = Inr (map (\<lambda>(k, _). JStr k) kvs)"
| "py_iter v = Inl (PyError ''TypeError'' ([CHR 0x27] @ py_type_name v @ [CHR 0x27]
                      @ '' object is not iterable''))"

text \<open>\<open>raw.get\<close> of a value that is not a dictionary.\<close>

fun py_mapping :: "json \<Rightarrow> payload outcome" where
  "py_mapping (JObj kvs) = Inr kvs"
| "py_mapping v = Inl (PyError ''AttributeError'' ([CHR 0x27] @ py_type_name v @ [CHR 0x27]
                         @ '' object has no attribute '' @ [CHR 0x27] @ ''get'' @ [CHR 0x27]))"

text \<open>\<open>str(value).strip()\<close> of every element, the empty ones left out.\<close>

definition clean_lines :: "json list \<Rightarrow> string list" where
  "clean_lines vs = filter (\<lambda>x. x \<noteq> []) (map (\<lambda>v. py_strip (py_str v)) vs)"

text \<open>The keys of \<open>dict.fromkeys\<close>: the first occurrence of each element, in order.\<close>

fun dict_fromkeys :: "'a list \<Rightarrow> 'a list" where
  "dict_fromkeys [] = []"
| "dict_fromkeys (x # xs) = x # filter (\<lambda>y. y \<noteq> x) (dict_fromkeys xs)"

lemma set_dict_fromkeys [simp]: "set (dict_fromkeys xs) = set xs"
  by (induction xs) auto

lemma distinct_dict_fromkeys [simp]: "distinct (dict_fromkeys xs)"
  by (induction xs) auto

lemma clean_lines_strip: "x \<in> set (clean_lines vs) \<Longrightarrow> py_strip x = x \<and> x \<noteq> []"
  by (auto simp: clean_lines_def)

lemma clean_lines_fixed:
  "(\<And>x. x \<in> set xs \<Longrightarrow> py_strip x = x \<and> x \<noteq> []) \<Longrightarrow> clean_lines (map JStr xs) = xs"
  by (induction xs) (auto simp: clean_lines_def)

lemma py_strip_iff:
  assumes "s \<noteq> []"
  shows "py_strip s = s \<longleftrightarrow> \<not> py_isspace (hd s) \<and> \<not> py_isspace (last s)"
proof
  assume *: "\<not> py_isspace (hd s) \<and> \<not> py_isspace (last s)"
  have "dropWhile py_isspace s = s" "dropWhile py_isspace (rev s) = rev s"
    using * assms by (auto intro!: dropWhile_fixed simp: hd_rev)
  then show "py_strip s = s" by (simp add: py_strip_def)
next
  assume *: "py_strip s = s"
  let ?d = "dropWhile py_isspace s"
  have "length ?d \<le> length s" "length (dropWhile py_isspace (rev ?d)) \<le> length ?d"
    using length_dropWhile_le [of py_isspace s] length_dropWhile_le [of py_isspace "rev ?d"] by auto
  moreover have "length (dropWhile py_isspace (rev ?d)) = length s"
    using * by (metis length_rev py_strip_def)
  ultimately have "length ?d = length s" by simp
  then have d: "?d = s"
    by (metis dropWhile_eq_self_iff length_dropWhile_le leD lessI list.exhaust dropWhile.simps(2) length_Cons le_imp_less_Suc)
  with * have "rev (dropWhile py_isspace (rev s)) = s" by (simp add: py_strip_def)
  then have "dropWhile py_isspace (rev s) = rev s" by (metis rev_swap)
  with d assms show "\<not> py_isspace (hd s) \<and> \<not> py_isspace (last s)"
    by (metis dropWhile_eq_self_iff hd_rev rev_is_Nil_conv)
qed

section \<open>Patterns\<close>

definition is_digit :: "char \<Rightarrow> bool" where
  "is_digit c = (let n = (of_char c :: int) in 48 \<le> n \<and> n \<le> 57)"

definition is_alnum :: "char \<Rightarrow> bool" where
  "is_alnum c = (let n = (of_char c :: int) in
     is_digit c \<or> (65 \<le> n \<and> n \<le> 90) \<or> (97 \<le> n \<and> n \<le> 122))"

text \<open>\<open>re.fullmatch(r"[A-Za-z0-9<extra>]{lo,hi}", s)\<close>.\<close>

definition matches_class :: "string \<Rightarrow> nat \<Rightarrow> nat \<Rightarrow> string \<Rightarrow> bool" where
  "matches_class extra lo hi s \<longleftrightarrow>
     lo \<le> length s \<and> length s \<le> hi \<and> list_all (\<lambda>c. is_alnum c \<or> c \<in> set extra) s"

text \<open>A run of whitespace becomes one blank: \<open>re.sub(r"\s+", " ", s)\<close>.\<close>

function collapse_ws :: "string \<Rightarrow> string" where
  "collapse_ws [] = []"
| "collapse_ws (c # cs) =
     (if py_isspace c then CHR '' '' # collapse_ws (dropWhile py_isspace cs)
      else c # collapse_ws cs)"
  by pat_completeness auto
termination by (relation "measure length") (auto simp: le_imp_less_Suc length_dropWhile_le)

text \<open>The characters of the class carry no whitespace, so stripping changes nothing.\<close>

lemma alnum_not_space: "is_alnum c \<Longrightarrow> \<not> py_isspace c"
  by (auto simp: is_alnum_def is_digit_def py_isspace_def Let_def)

lemma py_strip_no_space:
  assumes "list_all (\<lambda>c. \<not> py_isspace c) s"
  shows "py_strip s = s"
proof -
  have keep: "dropWhile py_isspace t = t" if "set t \<subseteq> set s" for t
    using that assms by (cases t) (auto simp: list_all_iff)
  show ?thesis
    using keep [of s] keep [of "rev s"] by (simp add: py_strip_def)
qed

lemma matches_class_strip:
  assumes "matches_class extra lo hi s" and "list_all (\<lambda>c. \<not> py_isspace c) extra"
  shows "py_strip s = s"
  using assms by (intro py_strip_no_space) (auto simp: matches_class_def list_all_iff alnum_not_space)

section \<open>Numbers and truth\<close>

text \<open>\<open>bool(value)\<close>\<close>

fun py_truth :: "json \<Rightarrow> bool" where
  "py_truth JNull = False"
| "py_truth (JBool b) = b"
| "py_truth (JInt i) = (i \<noteq> 0)"
| "py_truth (JStr s) = (s \<noteq> [])"
| "py_truth (JArr vs) = (vs \<noteq> [])"
| "py_truth (JObj kvs) = (kvs \<noteq> [])"

text \<open>
  The digits of \<open>int(text)\<close>, with single underscores between digits; \<open>None\<close> is a
  \<open>ValueError\<close>. (Python also refuses more than 4300 digits; every caller here bounds the
  number far below that and maps both refusals to the same exception.)
\<close>

fun digits_value :: "int \<Rightarrow> string \<Rightarrow> int option" where
  "digits_value acc [] = Some acc"
| "digits_value acc (c # cs) =
     (if is_digit c then digits_value (10 * acc + (of_char c - 48)) cs
      else if c = CHR ''_'' then
        (case cs of d # _ \<Rightarrow> if is_digit d then digits_value acc cs else None | [] \<Rightarrow> None)
      else None)"

definition unsigned_value :: "string \<Rightarrow> int option" where
  "unsigned_value s =
     (case s of [] \<Rightarrow> None | c # _ \<Rightarrow> if is_digit c then digits_value 0 s else None)"

definition int_of_text :: "string \<Rightarrow> int option" where
  "int_of_text s =
     (case py_strip s of
        [] \<Rightarrow> None
      | c # cs \<Rightarrow>
          if c = CHR ''-'' then map_option uminus (unsigned_value cs)
          else if c = CHR ''+'' then unsigned_value cs
          else unsigned_value (c # cs))"

text \<open>\<open>int(value)\<close>; \<open>None\<close> is a \<open>TypeError\<close> or a \<open>ValueError\<close>.\<close>

fun py_int :: "json \<Rightarrow> int option" where
  "py_int (JInt i) = Some i"
| "py_int (JBool b) = Some (if b then 1 else 0)"
| "py_int (JStr s) = int_of_text s"
| "py_int _ = None"

section \<open>Replacement and case\<close>

text \<open>\<open>s.replace(pat, new)\<close> for a non-empty \<open>pat\<close>.\<close>

function py_replace :: "string \<Rightarrow> string \<Rightarrow> string \<Rightarrow> string" where
  "py_replace pat new [] = []"
| "py_replace pat new (c # cs) =
     (if pat \<noteq> [] \<and> take (length pat) (c # cs) = pat
      then new @ py_replace pat new (drop (length pat) (c # cs))
      else c # py_replace pat new cs)"
  by pat_completeness auto
termination by (relation "measure (\<lambda>(_, _, s). length s)") auto

text \<open>
  \<open>str.upper\<close>, except on the three letters of Latin-1 whose capitals are not single Latin-1
  letters; the callers compare the result with words of plain letters only.
\<close>

definition py_upper_char :: "char \<Rightarrow> char" where
  "py_upper_char c =
     (let n = (of_char c :: int) in
      if (97 \<le> n \<and> n \<le> 122) \<or> (224 \<le> n \<and> n \<le> 254 \<and> n \<noteq> 247) then char_of (n - 32) else c)"

definition py_upper :: "string \<Rightarrow> string" where
  "py_upper s = map py_upper_char s"

end
