(* ===== verification/Goal_Planning.thy ===== *)
theory Goal_Planning
  imports Py_Values Windows
begin

text \<open>
  \<open>GoalService\<close> (goal_service.py): normalisation of the plan a caller edits (its cycle check
  included), the deterministic plan and specification texts, and the workflow create, plan,
  approve, amend, launch over the two stores. The em dash of the plan's headings is written
  as its three UTF-8 bytes; \<open>spec_kit_available\<close>, which asks the host for a program, is an
  argument.
\<close>

record planned_task =
  pt_id :: string
  pt_title :: string
  pt_instruction :: string
  pt_dependencies :: "string list"
  pt_capability :: string

text \<open>\<open>asdict\<close> of a planned task.\<close>

definition planned_json :: "planned_task \<Rightarrow> json" where
  "planned_json t =
     JObj [(''id'', JStr (pt_id t)), (''title'', JStr (pt_title t)),
           (''instruction'', JStr (pt_instruction t)),
           (''dependencies'', JArr (map JStr (pt_dependencies t))),
           (''capability'', JStr (pt_capability t))]"

section \<open>Normalising a plan\<close>

definition default_task_id :: "nat \<Rightarrow> string" where
  "default_task_id seq =
     (let digits = str_of_nat (seq + 1) in
      ''T'' @ replicate (3 - length digits) (CHR ''0'') @ digits)"

definition normalize_fields :: "payload \<Rightarrow> nat \<Rightarrow> string list \<Rightarrow> planned_task outcome" where
  "normalize_fields kvs seq deps =
     (let task_id = get_text kvs ''id'' (default_task_id seq);
          title = get_text kvs ''title'' '''';
          instruction = get_text kvs ''instruction'' '''';
          capability = get_text kvs ''capability'' ''execute_task'' in
      if \<not> matches_class ''_-'' 1 40 task_id \<or> title = '''' \<or> instruction = '''' then
        Inl (TaskStoreError ''invalid_plan_task'')
      else if capability \<notin> {''execute_task'', ''validate_task''} then
        Inl (TaskStoreError (''unsupported_plan_task_capability:'' @ capability))
      else Inr \<lparr>pt_id = task_id, pt_title = title, pt_instruction = instruction,
                pt_dependencies = deps, pt_capability = capability\<rparr>)"

definition normalize_task :: "json \<Rightarrow> nat \<Rightarrow> planned_task outcome" where
  "normalize_task raw seq =
     (case py_mapping raw of
        Inl err \<Rightarrow> Inl err
      | Inr kvs \<Rightarrow>
          (case py_iter (get_value kvs ''dependencies'' (JArr [])) of
             Inl err \<Rightarrow> Inl err
           | Inr vs \<Rightarrow> normalize_fields kvs seq (clean_lines vs)))"

fun normalize_each :: "nat \<Rightarrow> json list \<Rightarrow> planned_task list outcome" where
  "normalize_each seq [] = Inr []"
| "normalize_each seq (raw # raws) =
     (case normalize_task raw seq of
        Inl err \<Rightarrow> Inl err
      | Inr t \<Rightarrow> map_sum id (Cons t) (normalize_each (seq + 1) raws))"

text \<open>
  The cycle check. \<open>visiting\<close> is the path of open calls, \<open>visited\<close> the finished nodes, and
  the result the new \<open>visited\<close>. A node that is not in the graph is Python's \<open>KeyError\<close>. The
  measure counts the nodes of the graph that are not on the path.
\<close>

type_synonym plan_graph = "(string \<times> string list) list"

lemma open_nodes_decrease:
  assumes "map_of g t = Some deps" and "t \<notin> set visiting"
  shows "card (fst ` set g - set (t # visiting)) < card (fst ` set g - set visiting)"
proof (rule psubset_card_mono)
  have "t \<in> fst ` set g"
    using assms(1) by (force dest: map_of_SomeD)
  with assms(2) show "fst ` set g - set (t # visiting) \<subset> fst ` set g - set visiting"
    by auto
qed simp

function visit :: "plan_graph \<Rightarrow> string list \<Rightarrow> string list \<Rightarrow> string \<Rightarrow> string list outcome"
  and visit_all ::
    "plan_graph \<Rightarrow> string list \<Rightarrow> string list \<Rightarrow> string list \<Rightarrow> string list outcome" where
  "visit g visiting visited t =
     (if t \<in> set visiting then Inl (TaskStoreError ''cyclic_plan_task_dependencies'')
      else if t \<in> set visited then Inr visited
      else case map_of g t of
             None \<Rightarrow> Inl (PyError ''KeyError'' (py_repr_string t))
           | Some deps \<Rightarrow> map_sum id (Cons t) (visit_all g (t # visiting) visited deps))"
| "visit_all g visiting visited [] = Inr visited"
| "visit_all g visiting visited (t # ts) =
     (case visit g visiting visited t of
        Inl err \<Rightarrow> Inl err
      | Inr visited' \<Rightarrow> visit_all g visiting visited' ts)"
  by pat_completeness auto

termination
  by (relation "inv_image (less_than <*lex*> less_than)
       (case_sum (\<lambda>(g, visiting, _, _). (card (fst ` set g - set visiting), 0))
                 (\<lambda>(g, visiting, _, ts). (card (fst ` set g - set visiting), Suc (length ts))))")
    (auto dest: open_nodes_decrease)

definition plan_graph_of :: "planned_task list \<Rightarrow> plan_graph" where
  "plan_graph_of ts = map (\<lambda>t. (pt_id t, pt_dependencies t)) ts"

definition bad_dependencies :: "string list \<Rightarrow> planned_task \<Rightarrow> bool" where
  "bad_dependencies ids t \<longleftrightarrow>
     pt_id t \<in> set (pt_dependencies t) \<or> (\<exists>dep \<in> set (pt_dependencies t). dep \<notin> set ids)"

definition check_plan :: "planned_task list \<Rightarrow> planned_task list outcome" where
  "check_plan ts =
     (let ids = map pt_id ts in
      if length (dict_fromkeys ids) \<noteq> length ts then Inl (TaskStoreError ''duplicate_plan_task_id'')
      else case find (bad_dependencies ids) ts of
             Some t \<Rightarrow> Inl (TaskStoreError (''invalid_plan_task_dependencies:'' @ pt_id t))
           | None \<Rightarrow> map_sum id (\<lambda>_. ts) (visit_all (plan_graph_of ts) [] [] ids))"

definition normalize_tasks :: "json list \<Rightarrow> planned_task list outcome" where
  "normalize_tasks raws =
     (if raws = [] \<or> 50 < length raws then Inl (TaskStoreError ''goal_tasks_count_invalid'')
      else case normalize_each 0 raws of Inl err \<Rightarrow> Inl err | Inr ts \<Rightarrow> check_plan ts)"

section \<open>The deterministic plan\<close>

definition newline :: string where
  "newline = [CHR 0x0A]"

definition title_from_objective :: "string \<Rightarrow> string" where
  "title_from_objective objective =
     (let clean = py_strip (collapse_ws objective) in
      if 80 < length clean then take 77 clean @ ''...'' else clean)"

definition derive_acceptance :: "string \<Rightarrow> string list" where
  "derive_acceptance objective =
     [''The requested outcome is demonstrably delivered: '' @ py_strip objective,
      ''Relevant deterministic checks pass on the exact implementation head.'',
      ''Changed paths and external operations remain inside the active policy.'']"

definition derive_tasks :: "goal_row \<Rightarrow> string list \<Rightarrow> planned_task list" where
  "derive_tasks g criteria =
     [\<lparr>pt_id = ''T001'', pt_title = ''Analyze the goal and repository'',
       pt_instruction = ''Inspect '' @ g_repository g
         @ '' and turn this objective into a bounded implementation approach: '' @ g_objective g
         @ ''. Preserve existing architecture and record assumptions.'',
       pt_dependencies = [], pt_capability = ''execute_task''\<rparr>,
      \<lparr>pt_id = ''T002'', pt_title = ''Implement the approved outcome'',
       pt_instruction = ''Implement the smallest complete change for: '' @ g_objective g
         @ ''. Reuse mature repository capabilities and keep changes reviewable.'',
       pt_dependencies = [''T001''], pt_capability = ''execute_task''\<rparr>,
      \<lparr>pt_id = ''T003'', pt_title = ''Verify and prepare evidence'',
       pt_instruction = ''Run the relevant deterministic checks, review the exact diff, and produce evidence for: ''
         @ str_join ''; '' criteria,
       pt_dependencies = [''T002''], pt_capability = ''validate_task''\<rparr>]"

definition render_spec :: "goal_row \<Rightarrow> string list \<Rightarrow> string" where
  "render_spec g criteria =
     ''# Specification: '' @ g_title g @ newline @ newline
     @ ''## Objective'' @ newline @ newline @ g_objective g @ newline @ newline
     @ ''## Repository'' @ newline @ newline @ [CHR 0x60] @ g_repository g @ [CHR 0x60]
     @ newline @ newline @ ''## Acceptance criteria'' @ newline @ newline
     @ str_join newline (map (\<lambda>c. ''- '' @ c) criteria) @ newline"

definition render_task :: "planned_task \<Rightarrow> string list" where
  "render_task t =
     [''### '' @ pt_id t @ '' '' @ [CHR 0xE2, CHR 0x80, CHR 0x94] @ '' '' @ pt_title t, '''',
      pt_instruction t, '''',
      ''Dependencies: '' @ (if pt_dependencies t = [] then ''none''
                            else str_join '', '' (pt_dependencies t)),
      ''Capability: '' @ [CHR 0x60] @ pt_capability t @ [CHR 0x60], '''']"

definition render_plan :: "goal_row \<Rightarrow> planned_task list \<Rightarrow> string" where
  "render_plan g ts =
     str_join newline ([''# Plan: '' @ g_title g, '''', ''## Execution tasks'', '''']
                       @ concat (map render_task ts))"

section \<open>The workflow\<close>

definition service_create_goal :: "env \<Rightarrow> payload \<Rightarrow> db \<Rightarrow> goal_row step" where
  "service_create_goal e payload s =
     (let objective = get_text payload ''objective'' '''';
          given = get_text payload ''title'' '''';
          title = (if given = '''' then title_from_objective objective else given);
          repository = get_text payload ''repository'' ''dddd2024/reverse-agent'';
          idempotency_key = get_text payload ''idempotency_key'' '''' in
      if idempotency_key = '''' then (Inl (TaskStoreError ''goal_idempotency_key_required''), s)
      else create_goal e
             \<lparr>gq_title = title, gq_objective = objective, gq_repository = repository,
              gq_idempotency_key = idempotency_key,
              gq_executor_kind = get_str payload ''executor_kind'' ''opencode'',
              gq_orchestration_mode = get_str payload ''orchestration_mode'' ''sequential_team'',
              gq_binding_ref = get_str payload ''binding_ref'' '''',
              gq_policy_ref = get_str payload ''policy_ref'' '''',
              gq_window_id = get_str payload ''window_id'' ''''\<rparr> s)"

record goal_plan =
  gp_goal :: goal_row
  gp_planner :: string
  gp_spec_kit_available :: bool

fun is_array :: "json \<Rightarrow> bool" where
  "is_array (JArr _) = True"
| "is_array _ = False"

fun array_items :: "json \<Rightarrow> json list" where
  "array_items (JArr vs) = vs"
| "array_items _ = []"

text \<open>
  The criteria and tasks are the caller's JSON arrays; an absent one is the empty array. An
  empty list of tasks asks for the derived plan.
\<close>

definition plan_goal ::
    "env \<Rightarrow> bool \<Rightarrow> string \<Rightarrow> int \<Rightarrow> json \<Rightarrow> json \<Rightarrow> db \<Rightarrow> goal_plan step" where
  "plan_goal e spec_kit gid revn acceptance tasks0 s =
     (case get_goal gid s of
        Inl err \<Rightarrow> (Inl err, s)
      | Inr g \<Rightarrow>
          if g_revision g \<noteq> revn then (Inl (TaskStoreError ''goal_revision_mismatch''), s)
          else if \<not> is_array acceptance \<or> \<not> is_array tasks0 then
            (Inl (TaskStoreError ''goal_plan_arrays_required''), s)
          else case reject_sensitive_keys ''$''
                      (JObj [(''acceptance_criteria'', acceptance), (''tasks'', tasks0)]) of
            Some err \<Rightarrow> (Inl err, s)
          | None \<Rightarrow>
              let lines = clean_lines (array_items acceptance);
                  criteria = (if lines = [] then derive_acceptance (g_objective g) else lines) in
              (case (if array_items tasks0 = [] then Inr (derive_tasks g criteria)
                     else normalize_tasks (array_items tasks0)) of
                 Inl err \<Rightarrow> (Inl err, s)
               | Inr planned \<Rightarrow>
                   andthen (save_goal_plan e gid revn (render_spec g criteria)
                              (render_plan g planned) (map planned_json planned) criteria s)
                     (\<lambda>saved s1.
                        (Inr \<lparr>gp_goal = saved, gp_planner = ''spec-kit-compatible/deterministic'',
                              gp_spec_kit_available = spec_kit\<rparr>, s1))))"

text \<open>\<open>approve\<close> and \<open>amend\<close> pass through to the store: \<open>approve_goal\<close>, \<open>amend_goal\<close>.\<close>

definition execution_title :: "goal_row \<Rightarrow> planned_task \<Rightarrow> string" where
  "execution_title g t =
     ''['' @ g_title g @ ''] '' @ pt_id t @ '' '' @ pt_title t @ newline @ newline
     @ pt_instruction t"

definition launch_key :: "goal_row \<Rightarrow> planned_task \<Rightarrow> string" where
  "launch_key g t = ''goal:'' @ g_id g @ '':r'' @ str_of_int (g_revision g) @ '':'' @ pt_id t"

definition launch_request :: "goal_row \<Rightarrow> window_row \<Rightarrow> planned_task \<Rightarrow> task_request" where
  "launch_request g w t =
     \<lparr>q_title = execution_title g t, q_repository = g_repository g,
      q_executor_kind = g_executor_kind g, q_model_profile_ref = '''',
      q_binding_ref = g_binding_ref g, q_permission_profile = ''AUTONOMOUS_WINDOW'',
      q_policy_ref = w_policy_id w, q_workspace = '''', q_branch = '''',
      q_idempotency_key = launch_key g t, q_orchestration_mode = g_orchestration_mode g\<rparr>"

text \<open>A link that exists already is taken for the one a first attempt wrote.\<close>

definition link_tolerant :: "unit step \<Rightarrow> unit step" where
  "link_tolerant r =
     (case r of
        (Inl err, s) \<Rightarrow>
          (if py_in ''UNIQUE constraint failed'' (error_text err) then Inr () else Inl err, s)
      | (Inr u, s) \<Rightarrow> (Inr u, s))"

definition launch_one :: "env \<Rightarrow> goal_row \<Rightarrow> window_row \<Rightarrow> nat \<Rightarrow> json \<Rightarrow> db \<Rightarrow> unit step" where
  "launch_one e g w seq raw s =
     (case normalize_task raw seq of
        Inl err \<Rightarrow> (Inl err, s)
      | Inr t \<Rightarrow>
          andthen (create_task e (launch_request g w t) s) (\<lambda>task s1.
            link_tolerant (link_goal_task (g_id g) (g_revision g) (pt_id t)
                             (t_id (tv_row task)) (pt_dependencies t) (int seq) s1)))"

fun launch_tasks :: "env \<Rightarrow> goal_row \<Rightarrow> window_row \<Rightarrow> nat \<Rightarrow> json list \<Rightarrow> db \<Rightarrow> unit step" where
  "launch_tasks e g w seq [] s = (Inr (), s)"
| "launch_tasks e g w seq (raw # raws) s =
     andthen (launch_one e g w seq raw s) (\<lambda>_ s1.
       launch_tasks (later 10 e) g w (seq + 1) raws s1)"

definition launch_goal :: "env \<Rightarrow> string \<Rightarrow> int \<Rightarrow> string \<Rightarrow> db \<Rightarrow> goal_row step" where
  "launch_goal e gid revn wid s =
     (case get_goal gid s of
        Inl err \<Rightarrow> (Inl err, s)
      | Inr g \<Rightarrow>
          if g_revision g \<noteq> revn then (Inl (TaskStoreError ''goal_not_launchable''), s)
          else if g_status g = ''RUNNING'' \<and> g_window_id g = wid then (Inr g, s)
          else if g_status g \<noteq> ''APPROVED'' then (Inl (TaskStoreError ''goal_not_launchable''), s)
          else case get_window wid s of
            Inl err \<Rightarrow> (Inl err, s)
          | Inr w \<Rightarrow>
              if w_status w \<noteq> ''ACTIVE'' then
                (Inl (TaskStoreError ''goal_requires_active_window''), s)
              else if g_repository g \<notin> set (w_repositories w) then
                (Inl (TaskStoreError ''goal_repository_outside_window''), s)
              else if ''execute_task'' \<notin> set (w_capabilities w) then
                (Inl (TaskStoreError ''goal_window_missing_execute_task_capability''), s)
              else
                andthen (launch_tasks e g w 0 (g_tasks g) s) (\<lambda>_ s1.
                  case get_goal gid s1 of
                    Inl err \<Rightarrow> (Inl err, s1)
                  | Inr current \<Rightarrow>
                      if g_status current = ''RUNNING'' \<and> g_window_id current = wid
                      then (Inr current, s1)
                      else mark_goal_running (later (10 * int (length (g_tasks g))) e)
                             (g_id g) (g_revision g) wid s1))"

section \<open>Responses\<close>

text \<open>\<open>_response_snapshot\<close>: the goal as refreshed, its status recomputed from the links.\<close>

definition snapshot_status :: "goal_row \<Rightarrow> (link_row \<times> task_row) list \<Rightarrow> string" where
  "snapshot_status g links =
     (let statuses = map (\<lambda>(_, t). t_status t) links in
      if links = [] then g_status g
      else if list_all (\<lambda>x. x \<in> {''READY_FOR_REVIEW'', ''READY_FOR_REVIEW_FIXTURE''}) statuses
      then ''COMPLETED''
      else if list_ex (\<lambda>x. x \<in> {''FAILED'', ''BLOCKED'', ''CANCELLED''}) statuses then ''BLOCKED''
      else ''RUNNING'')"

definition response_snapshot ::
    "env \<Rightarrow> string \<Rightarrow> db \<Rightarrow> (goal_row \<times> (link_row \<times> task_row) list) step" where
  "response_snapshot e gid s =
     andthen (refresh_goal_status e gid s) (\<lambda>g s1.
       let links = list_goal_tasks gid s1 in
       (Inr (g\<lparr>g_status := snapshot_status g links\<rparr>, links), s1))"

fun snapshot_each ::
    "env \<Rightarrow> goal_row list \<Rightarrow> db \<Rightarrow> (goal_row \<times> (link_row \<times> task_row) list) list step" where
  "snapshot_each e [] s = (Inr [], s)"
| "snapshot_each e (g # gs) s =
     andthen (response_snapshot e (g_id g) s) (\<lambda>x s1.
       andthen (snapshot_each (later 1 e) gs s1) (\<lambda>xs s2. (Inr (x # xs), s2)))"

definition service_list_goals ::
    "env \<Rightarrow> int \<Rightarrow> db \<Rightarrow> (goal_row \<times> (link_row \<times> task_row) list) list step" where
  "service_list_goals e limit s = snapshot_each e (list_goals limit s) s"

end
