(* ===== verification/Plan_Laws.thy ===== *)
theory Plan_Laws
  imports Goal_Planning
begin

text \<open>
  The meaning of the plan check. A plan's dependencies are the relation \<open>plan_edges\<close>; the
  search \<open>visit\<close> of goal_service.py accepts a graph exactly when that relation is acyclic.
  From it: what \<open>normalize_tasks\<close> accepts, the order of execution an accepted plan has, and
  the normalisation of a plan read back from the database.
\<close>

section \<open>The search against acyclicity\<close>

definition plan_edges :: "plan_graph \<Rightarrow> (string \<times> string) set" where
  "plan_edges g = {(t, d). \<exists>deps. map_of g t = Some deps \<and> d \<in> set deps}"

text \<open>Nodes whose search is over: closed under dependencies and on no cycle.\<close>

definition finished :: "plan_graph \<Rightarrow> string set \<Rightarrow> bool" where
  "finished g V \<longleftrightarrow>
     (\<forall>x\<in>V. (\<forall>y. (x, y) \<in> plan_edges g \<longrightarrow> y \<in> V) \<and> (x, x) \<notin> (plan_edges g)\<^sup>+)"

lemma finished_empty [simp]: "finished g {}"
  by (simp add: finished_def)

lemma finished_reach:
  assumes "(x, y) \<in> (plan_edges g)\<^sup>+" and "finished g V" and "x \<in> V"
  shows "y \<in> V"
  using assms by (induction rule: trancl_induct) (auto simp: finished_def)

lemma finished_insert:
  assumes deps: "map_of g t = Some deps" and sub: "set deps \<subseteq> V"
    and fin: "finished g V" and new: "t \<notin> V"
  shows "finished g (insert t V)"
proof -
  have succ: "y \<in> V" if "(t, y) \<in> plan_edges g" for y
    using that deps sub by (auto simp: plan_edges_def)
  have "(t, t) \<notin> (plan_edges g)\<^sup>+"
  proof
    assume "(t, t) \<in> (plan_edges g)\<^sup>+"
    then obtain y where step: "(t, y) \<in> plan_edges g" and rest: "y = t \<or> (y, t) \<in> (plan_edges g)\<^sup>+"
      by (metis converse_tranclE)
    from succ [OF step] rest new finished_reach [OF _ fin, of y t] show False by blast
  qed
  with succ fin show ?thesis by (auto simp: finished_def)
qed

declare visit.simps [simp del]

lemma visit_cases [simp]:
  "t \<in> set ving \<Longrightarrow>
     visit g ving ved t = Inl (TaskStoreError ''cyclic_plan_task_dependencies'')"
  "t \<notin> set ving \<Longrightarrow> t \<in> set ved \<Longrightarrow> visit g ving ved t = Inr ved"
  "t \<notin> set ving \<Longrightarrow> t \<notin> set ved \<Longrightarrow> map_of g t = None \<Longrightarrow>
     visit g ving ved t = Inl (PyError ''KeyError'' (py_repr_string t))"
  "t \<notin> set ving \<Longrightarrow> t \<notin> set ved \<Longrightarrow> map_of g t = Some deps \<Longrightarrow>
     visit g ving ved t = map_sum id (Cons t) (visit_all g (t # ving) ved deps)"
  by (simp_all add: visit.simps)

lemma visit_sound:
  "visit g ving ved t = Inr V \<Longrightarrow> finished g (set ved) \<Longrightarrow> set ved \<inter> set ving = {}
   \<Longrightarrow> finished g (set V) \<and> insert t (set ved) \<subseteq> set V \<and> set V \<inter> set ving = {}"
  "visit_all g ving ved ts = Inr V \<Longrightarrow> finished g (set ved) \<Longrightarrow> set ved \<inter> set ving = {}
   \<Longrightarrow> finished g (set V) \<and> set ts \<union> set ved \<subseteq> set V \<and> set V \<inter> set ving = {}"
proof (induction g ving ved t and g ving ved ts arbitrary: V and V rule: visit_visit_all.induct)
  case (1 g ving ved t)
  show ?case
  proof (cases "t \<in> set ved")
    case True
    with "1.prems" show ?thesis by (cases "t \<in> set ving") auto
  next
    case False
    from "1.prems"(1) have fresh: "t \<notin> set ving" by auto
    from fresh False "1.prems"(1) obtain deps where deps: "map_of g t = Some deps"
      by (cases "map_of g t") auto
    from fresh False deps "1.prems"(1) obtain V0
      where rec: "visit_all g (t # ving) ved deps = Inr V0" and V: "V = t # V0"
      by (cases "visit_all g (t # ving) ved deps") auto
    have "finished g (set V0) \<and> set deps \<union> set ved \<subseteq> set V0 \<and> set V0 \<inter> set (t # ving) = {}"
      using "1.prems" False by (intro "1.IH" [OF fresh False deps rec]) auto
    with fresh finished_insert [OF deps, of "set V0"] show ?thesis by (auto simp: V)
  qed
next
  case (2 g ving ved)
  then show ?case by simp
next
  case (3 g ving ved t ts)
  from "3.prems"(1) obtain V1
    where one: "visit g ving ved t = Inr V1" and rest: "visit_all g ving V1 ts = Inr V"
    by (cases "visit g ving ved t") auto
  from "3.IH"(1) [OF one "3.prems"(2,3)] "3.IH"(2) [OF one rest] show ?case by auto
qed

lemma visit_complete:
  "acyclic (plan_edges g) \<Longrightarrow> (\<And>a b. (a, b) \<in> plan_edges g \<Longrightarrow> b \<in> fst ` set g)
   \<Longrightarrow> t \<in> fst ` set g \<Longrightarrow> (\<And>v. v \<in> set ving \<Longrightarrow> (v, t) \<in> (plan_edges g)\<^sup>+)
   \<Longrightarrow> \<exists>V. visit g ving ved t = Inr V"
  "acyclic (plan_edges g) \<Longrightarrow> (\<And>a b. (a, b) \<in> plan_edges g \<Longrightarrow> b \<in> fst ` set g)
   \<Longrightarrow> set ts \<subseteq> fst ` set g
   \<Longrightarrow> (\<And>v u. v \<in> set ving \<Longrightarrow> u \<in> set ts \<Longrightarrow> (v, u) \<in> (plan_edges g)\<^sup>+)
   \<Longrightarrow> \<exists>V. visit_all g ving ved ts = Inr V"
proof (induction g ving ved t and g ving ved ts rule: visit_visit_all.induct)
  case (1 g ving ved t)
  have fresh: "t \<notin> set ving"
    using "1.prems"(1,4) by (auto simp: acyclic_def)
  show ?case
  proof (cases "t \<in> set ved")
    case True
    with fresh show ?thesis by simp
  next
    case False
    from "1.prems"(3) obtain deps where deps: "map_of g t = Some deps"
      by (metis map_of_eq_None_iff not_None_eq)
    have edge: "(t, d) \<in> plan_edges g" if "d \<in> set deps" for d
      using that deps by (auto simp: plan_edges_def)
    have "\<exists>V. visit_all g (t # ving) ved deps = Inr V"
    proof (rule "1.IH" [OF fresh False deps])
      show "set deps \<subseteq> fst ` set g" using edge "1.prems"(2) by blast
    next
      fix v u assume "v \<in> set (t # ving)" and "u \<in> set deps"
      then show "(v, u) \<in> (plan_edges g)\<^sup>+"
        using edge [of u] "1.prems"(4) [of v] by (auto intro: trancl_into_trancl)
    qed (use "1.prems" in auto)
    with fresh False deps show ?thesis by auto
  qed
next
  case (2 g ving ved)
  then show ?case by simp
next
  case (3 g ving ved t ts)
  have "\<exists>V. visit g ving ved t = Inr V"
    using "3.prems" by (intro "3.IH"(1)) auto
  then obtain V1 where one: "visit g ving ved t = Inr V1" ..
  have "\<exists>V. visit_all g ving V1 ts = Inr V"
    using "3.prems" by (intro "3.IH"(2) [OF one]) auto
  with one show ?case by simp
qed

text \<open>The search from every node accepts exactly the acyclic graphs.\<close>

lemma visit_all_iff_acyclic:
  assumes closed: "\<And>a b. (a, b) \<in> plan_edges g \<Longrightarrow> b \<in> fst ` set g"
  shows "(\<exists>V. visit_all g [] [] (map fst g) = Inr V) \<longleftrightarrow> acyclic (plan_edges g)"
proof
  assume "\<exists>V. visit_all g [] [] (map fst g) = Inr V"
  then obtain V where "visit_all g [] [] (map fst g) = Inr V" ..
  from visit_sound(2) [OF this] have fin: "finished g (set V)" and all: "fst ` set g \<subseteq> set V"
    by auto
  show "acyclic (plan_edges g)"
    unfolding acyclic_def
  proof (intro allI notI)
    fix x assume cyc: "(x, x) \<in> (plan_edges g)\<^sup>+"
    then obtain y where "(x, y) \<in> plan_edges g" by (metis converse_tranclE)
    then have "x \<in> fst ` set g"
      by (force simp: plan_edges_def dest: map_of_SomeD)
    with all fin cyc show False by (auto simp: finished_def)
  qed
next
  assume "acyclic (plan_edges g)"
  with closed show "\<exists>V. visit_all g [] [] (map fst g) = Inr V"
    by (intro visit_complete(2)) auto
qed

text \<open>The search raises nothing but the cycle error on a closed graph.\<close>

lemma visit_error:
  "visit g ving ved t = Inl err \<Longrightarrow> (\<And>a b. (a, b) \<in> plan_edges g \<Longrightarrow> b \<in> fst ` set g)
   \<Longrightarrow> t \<in> fst ` set g \<Longrightarrow> err = TaskStoreError ''cyclic_plan_task_dependencies''"
  "visit_all g ving ved ts = Inl err \<Longrightarrow> (\<And>a b. (a, b) \<in> plan_edges g \<Longrightarrow> b \<in> fst ` set g)
   \<Longrightarrow> set ts \<subseteq> fst ` set g \<Longrightarrow> err = TaskStoreError ''cyclic_plan_task_dependencies''"
proof (induction g ving ved t and g ving ved ts arbitrary: err and err rule: visit_visit_all.induct)
  case (1 g ving ved t)
  show ?case
  proof (cases "t \<in> set ving \<or> t \<in> set ved")
    case True
    with "1.prems"(1) show ?thesis by (cases "t \<in> set ving") auto
  next
    case False
    from "1.prems"(3) obtain deps where deps: "map_of g t = Some deps"
      by (metis map_of_eq_None_iff not_None_eq)
    with False "1.prems"(1) have rec: "visit_all g (t # ving) ved deps = Inl err"
      by (cases "visit_all g (t # ving) ved deps") auto
    have "set deps \<subseteq> fst ` set g"
      using deps "1.prems"(2) [of t] by (auto simp: plan_edges_def)
    with False deps rec "1.prems"(2) show ?thesis
      by (intro "1.IH") auto
  qed
next
  case (2 g ving ved)
  then show ?case by simp
next
  case (3 g ving ved t ts)
  show ?case
  proof (cases "visit g ving ved t")
    case (Inl e1)
    with "3.prems" "3.IH"(1) [OF Inl] show ?thesis by auto
  next
    case (Inr V1)
    with "3.prems"(1) have "visit_all g ving V1 ts = Inl err" by simp
    from "3.IH"(2) [OF Inr this "3.prems"(2)] "3.prems"(3) show ?thesis by auto
  qed
qed

section \<open>What the check accepts\<close>

definition depends_on :: "planned_task list \<Rightarrow> (string \<times> string) set" where
  "depends_on ts = {(pt_id t, d) | t d. t \<in> set ts \<and> d \<in> set (pt_dependencies t)}"

lemma finite_depends_on: "finite (depends_on ts)"
proof -
  have "depends_on ts = (\<Union>t\<in>set ts. Pair (pt_id t) ` set (pt_dependencies t))"
    by (auto simp: depends_on_def)
  then show ?thesis by simp
qed

lemma plan_edges_graph:
  assumes "distinct (map pt_id ts)"
  shows "plan_edges (plan_graph_of ts) = depends_on ts"
proof -
  have "map_of (plan_graph_of ts) x = Some ds \<longleftrightarrow> (\<exists>t\<in>set ts. x = pt_id t \<and> ds = pt_dependencies t)"
    for x ds
  proof -
    have "map fst (plan_graph_of ts) = map pt_id ts"
      by (simp add: plan_graph_of_def)
    with assms have "map_of (plan_graph_of ts) x = Some ds \<longleftrightarrow> (x, ds) \<in> set (plan_graph_of ts)"
      by (intro map_of_eq_Some_iff) (simp only:)
    also have "\<dots> \<longleftrightarrow> (\<exists>t\<in>set ts. x = pt_id t \<and> ds = pt_dependencies t)"
      by (auto simp: plan_graph_of_def)
    finally show ?thesis .
  qed
  then show ?thesis by (auto simp: plan_edges_def depends_on_def)
qed

lemma length_dict_fromkeys: "(length (dict_fromkeys xs) = length xs) = distinct xs"
proof -
  have "length (dict_fromkeys xs) = card (set xs)"
    using distinct_card [OF distinct_dict_fromkeys [of xs]] by simp
  then show ?thesis by (metis card_distinct distinct_card)
qed

definition plan_ok :: "planned_task list \<Rightarrow> bool" where
  "plan_ok ts \<longleftrightarrow>
     distinct (map pt_id ts) \<and> snd ` depends_on ts \<subseteq> pt_id ` set ts \<and> acyclic (depends_on ts)"

lemma no_bad_dependencies:
  "find (bad_dependencies (map pt_id ts)) ts = None \<longleftrightarrow>
     snd ` depends_on ts \<subseteq> pt_id ` set ts \<and> (\<forall>t\<in>set ts. pt_id t \<notin> set (pt_dependencies t))"
  by (fastforce simp: find_None_iff bad_dependencies_def depends_on_def image_iff)

lemma check_plan_iff: "check_plan ts = Inr us \<longleftrightarrow> us = ts \<and> plan_ok ts"
proof (cases "distinct (map pt_id ts) \<and> find (bad_dependencies (map pt_id ts)) ts = None")
  case True
  then have closed: "snd ` depends_on ts \<subseteq> pt_id ` set ts"
    by (simp add: no_bad_dependencies)
  have keys: "map fst (plan_graph_of ts) = map pt_id ts" and keyset: "fst ` set (plan_graph_of ts) = pt_id ` set ts"
    by (auto simp: plan_graph_of_def image_iff)
  have "(\<exists>V. visit_all (plan_graph_of ts) [] [] (map pt_id ts) = Inr V) \<longleftrightarrow> acyclic (depends_on ts)"
    using visit_all_iff_acyclic [of "plan_graph_of ts"] closed True
    unfolding keys keyset plan_edges_graph [OF conjunct1 [OF True]] by force
  with True closed show ?thesis
    by (cases "visit_all (plan_graph_of ts) [] [] (map pt_id ts)")
      (auto simp: check_plan_def length_dict_fromkeys [of "map pt_id ts", simplified] plan_ok_def)
next
  case False
  then have "check_plan ts \<noteq> Inr us"
    by (auto simp: check_plan_def length_dict_fromkeys [of "map pt_id ts", simplified] Let_def
        split: option.splits)
  moreover have "\<not> plan_ok ts"
  proof
    assume ok: "plan_ok ts"
    have "pt_id t \<notin> set (pt_dependencies t)" if "t \<in> set ts" for t
    proof
      assume "pt_id t \<in> set (pt_dependencies t)"
      with that have "(pt_id t, pt_id t) \<in> (depends_on ts)\<^sup>+"
        by (auto simp: depends_on_def)
      with ok show False by (simp add: plan_ok_def acyclic_def)
    qed
    with ok False show False by (auto simp: plan_ok_def no_bad_dependencies)
  qed
  ultimately show ?thesis by simp
qed

lemma normalize_each_iff:
  "normalize_each seq raws = Inr ts \<longleftrightarrow>
     length ts = length raws \<and> (\<forall>i<length raws. normalize_task (raws ! i) (seq + i) = Inr (ts ! i))"
proof (induction seq raws arbitrary: ts rule: normalize_each.induct)
  case (1 seq)
  then show ?case by auto
next
  case (2 seq raw raws)
  show ?case
  proof (cases ts)
    case Nil
    then show ?thesis by (auto simp: map_sum_def split: sum.splits)
  next
    case (Cons u us)
    have "normalize_each seq (raw # raws) = Inr ts \<longleftrightarrow>
            normalize_task raw seq = Inr u \<and> normalize_each (seq + 1) raws = Inr us"
      by (cases "normalize_task raw seq"; cases "normalize_each (seq + 1) raws")
        (auto simp: Cons)
    moreover have "normalize_each (seq + 1) raws = Inr us \<longleftrightarrow> length us = length raws
        \<and> (\<forall>i<length raws. normalize_task (raws ! i) (seq + 1 + i) = Inr (us ! i))"
      if "normalize_task raw seq = Inr u"
      by (rule 2 [OF that])
    ultimately show ?thesis
      by (auto simp: Cons All_less_Suc2)
  qed
qed

lemma normalize_tasks_iff:
  "normalize_tasks raws = Inr ts \<longleftrightarrow>
     0 < length raws \<and> length raws \<le> 50 \<and> length ts = length raws
     \<and> (\<forall>i<length raws. normalize_task (raws ! i) i = Inr (ts ! i)) \<and> plan_ok ts"
proof (cases "normalize_each 0 raws")
  case (Inl err)
  then have "\<not> (length ts = length raws \<and> (\<forall>i<length raws. normalize_task (raws ! i) i = Inr (ts ! i)))"
    using normalize_each_iff [of 0 raws ts] by simp
  with Inl show ?thesis by (auto simp: normalize_tasks_def)
next
  case (Inr us)
  have "(length ts = length raws \<and> (\<forall>i<length raws. normalize_task (raws ! i) i = Inr (ts ! i)))
        \<longleftrightarrow> us = ts"
    using normalize_each_iff [of 0 raws ts] Inr by auto
  with Inr check_plan_iff [of us ts] show ?thesis
    by (auto simp: normalize_tasks_def)
qed

section \<open>An accepted plan can always go on\<close>

text \<open>
  Whatever set of its tasks is finished, an accepted plan has an unfinished task all of whose
  dependencies are finished, until every task is.
\<close>

lemma plan_ok_progress:
  assumes "plan_ok ts" and "\<not> pt_id ` set ts \<subseteq> finished_ids"
  obtains t where "t \<in> set ts" and "pt_id t \<notin> finished_ids"
    and "set (pt_dependencies t) \<subseteq> finished_ids"
proof -
  let ?Q = "pt_id ` set ts - finished_ids"
  have "wf ((depends_on ts)\<inverse>)"
    using assms(1) by (intro finite_acyclic_wf_converse finite_depends_on) (simp add: plan_ok_def)
  moreover obtain q where "q \<in> ?Q" using assms(2) by auto
  ultimately obtain z where z: "z \<in> ?Q" and min: "\<And>y. (y, z) \<in> (depends_on ts)\<inverse> \<Longrightarrow> y \<notin> ?Q"
    by (metis wfE_min)
  from z obtain t where t: "t \<in> set ts" "pt_id t = z" "z \<notin> finished_ids" by auto
  have "d \<in> finished_ids" if d: "d \<in> set (pt_dependencies t)" for d
  proof -
    have edge: "(z, d) \<in> depends_on ts" using t d by (auto simp: depends_on_def)
    then have "d \<in> pt_id ` set ts" using assms(1) by (force simp: plan_ok_def)
    with min [of d] edge show ?thesis by auto
  qed
  with t that show ?thesis by blast
qed

section \<open>Reading a plan back\<close>

text \<open>The fields of a normalised task are stripped and in range.\<close>

definition planned_ok :: "planned_task \<Rightarrow> bool" where
  "planned_ok t \<longleftrightarrow>
     matches_class ''_-'' 1 40 (pt_id t) \<and> py_strip (pt_title t) = pt_title t \<and> pt_title t \<noteq> ''''
     \<and> py_strip (pt_instruction t) = pt_instruction t \<and> pt_instruction t \<noteq> ''''
     \<and> (\<forall>d\<in>set (pt_dependencies t). py_strip d = d \<and> d \<noteq> '''')
     \<and> pt_capability t \<in> {''execute_task'', ''validate_task''}"

lemma normalize_task_ok: "normalize_task raw seq = Inr t \<Longrightarrow> planned_ok t"
  by (auto simp: normalize_task_def normalize_fields_def planned_ok_def Let_def get_text_def
      dest: clean_lines_strip split: sum.splits if_splits)

lemma planned_ok_id_strip: "planned_ok t \<Longrightarrow> py_strip (pt_id t) = pt_id t"
  unfolding planned_ok_def
  by (elim conjE, erule matches_class_strip) (simp add: py_isspace_def)

lemma planned_canon:
  "json_canon (planned_json t) =
     JObj [(''capability'', JStr (pt_capability t)),
           (''dependencies'', JArr (map JStr (pt_dependencies t))),
           (''id'', JStr (pt_id t)), (''instruction'', JStr (pt_instruction t)),
           (''title'', JStr (pt_title t))]"
  by (simp add: planned_json_def o_def)

lemma capability_strip: "c \<in> {''execute_task'', ''validate_task''} \<Longrightarrow> py_strip c = c"
  by (auto simp: py_strip_def py_isspace_def)

lemma normalize_planned:
  assumes "planned_ok t"
  shows "normalize_task (json_canon (planned_json t)) seq = Inr t"
proof -
  have "clean_lines (map JStr (pt_dependencies t)) = pt_dependencies t"
    using assms by (intro clean_lines_fixed) (simp add: planned_ok_def)
  moreover note planned_ok_id_strip [OF assms]
  moreover have "py_strip (pt_capability t) = pt_capability t"
    using assms by (intro capability_strip) (simp add: planned_ok_def)
  ultimately show ?thesis
    using assms
    by (simp add: normalize_task_def planned_canon normalize_fields_def get_text_def get_str_def
        get_value_def planned_ok_def Let_def)
qed

lemma normalize_planned_all:
  assumes "\<And>t. t \<in> set ts \<Longrightarrow> planned_ok t" and "plan_ok ts" and "ts \<noteq> []" and "length ts \<le> 50"
  shows "normalize_tasks (map (\<lambda>t. json_canon (planned_json t)) ts) = Inr ts"
  using assms by (auto simp: normalize_tasks_iff normalize_planned)

section \<open>The derived plan\<close>

text \<open>The tasks the service derives itself are of the shape that normalisation gives.\<close>

lemma derived_tasks_ok:
  assumes "\<forall>c \<in> set crit. c \<noteq> ''''" "crit \<noteq> []" "py_strip (last crit) = last crit"
  shows "\<forall>t \<in> set (derive_tasks g crit). planned_ok t"
proof -
  have join: "str_join ''; '' crit \<noteq> [] \<and> last (str_join ''; '' crit) = last (last crit)"
    using assms(1,2)
  proof (induction "''; ''" crit rule: str_join.induct)
    case (3 x y ys)
    then have "str_join ''; '' (y # ys) \<noteq> []" "last (str_join ''; '' (y # ys)) = last (last (y # ys))"
      by auto
    then show ?case by simp
  qed auto
  have "last crit \<in> set crit" using assms(2) by simp
  then have "\<not> py_isspace (last (last crit))"
    using assms(1,3) py_strip_iff [of "last crit"] by auto
  then show ?thesis
    by (simp add: derive_tasks_def planned_ok_def matches_class_def is_alnum_def is_digit_def
        py_strip_iff join) (simp add: py_isspace_def)
qed

lemma derived_plan_ok: "plan_ok (derive_tasks g crit)"
proof -
  have "check_plan (derive_tasks g crit) = Inr (derive_tasks g crit)"
    by (simp add: check_plan_def derive_tasks_def bad_dependencies_def plan_graph_of_def visit.simps)
  then show ?thesis by (simp add: check_plan_iff)
qed

lemma criteria_ok:
  assumes "crit = (if lines = [] then derive_acceptance objective else lines)" "lines = clean_lines vs"
  shows "\<forall>c \<in> set crit. c \<noteq> ''''" "crit \<noteq> []" "py_strip (last crit) = last crit"
proof -
  show "\<forall>c \<in> set crit. c \<noteq> ''''" "crit \<noteq> []"
    using clean_lines_strip [of _ vs] by (auto simp: assms derive_acceptance_def)
  show "py_strip (last crit) = last crit"
  proof (cases "lines = []")
    case True
    then show ?thesis by (simp add: assms derive_acceptance_def py_strip_iff) (simp add: py_isspace_def)
  next
    case False
    then have "last lines \<in> set (clean_lines vs)" using assms(2) by (metis last_in_set)
    with False show ?thesis using clean_lines_strip by (simp add: assms(1))
  qed
qed

end
