(* ===== verification/Autonomy.thy ===== *)
theory Autonomy
  imports Py_Values Windows
begin

text \<open>
  \<open>CapabilityRegistry\<close> (capability_registry.py) and \<open>AutonomyService\<close> (autonomy.py): which
  operations the host supports, the validation of an owner's policy, activation of a window,
  and the authorisation of one operation, which leaves a receipt whatever it decides. The
  manifest files, sorted by name, and the reading and writing of ISO times are arguments.
\<close>

section \<open>Capabilities\<close>

record capability =
  ca_id :: string
  ca_name :: string
  ca_kind :: string
  ca_provider :: string
  ca_version :: string
  ca_description :: string
  ca_operations :: "string list"
  ca_maturity :: string
  ca_available :: bool
  ca_source :: string

definition builtin :: "string \<Rightarrow> string \<Rightarrow> string \<Rightarrow> string \<Rightarrow> string \<Rightarrow> string \<Rightarrow> string list \<Rightarrow> string \<Rightarrow> capability"
where
  "builtin i n k p v d ops m =
     \<lparr>ca_id = i, ca_name = n, ca_kind = k, ca_provider = p, ca_version = v, ca_description = d,
      ca_operations = ops, ca_maturity = m, ca_available = True, ca_source = ''builtin''\<rparr>"

definition BUILTIN_CAPABILITIES :: "capability list" where
  "BUILTIN_CAPABILITIES =
     [builtin ''spec-kit-planning'' ''Spec Kit planning'' ''planner'' ''GitHub Spec Kit'' ''compatible''
        ''Persistent Goal to Specification, Plan and Tasks artifacts.'' [''plan_goal''] ''stable'',
      builtin ''langgraph-orchestration'' ''LangGraph orchestration'' ''orchestrator'' ''LangGraph'' ''pinned''
        ''Sequential and parallel team topology with durable checkpoints.''
        [''execute_task'', ''resume_task'', ''reconcile_task''] ''stable'',
      builtin ''opencode-executor'' ''OpenCode executor'' ''executor'' ''OpenCode'' ''pinned''
        ''Repository execution through bounded ACP/OpenCode adapters.''
        [''execute_task'', ''resume_task''] ''stable'',
      builtin ''deterministic-verifier'' ''Deterministic verifier'' ''verifier'' ''reverse-agent'' ''1''
        ''Allowlisted validation commands and exact evidence digests.'' [''validate_task''] ''stable'',
      builtin ''github-draft-publication'' ''GitHub Draft publication'' ''publisher'' ''GitHub'' ''api''
        ''Idempotent branch push and Draft PR creation; merge is excluded.'' [''open_draft_pr''] ''guarded'',
      builtin ''agent-canvas'' ''Agent Canvas'' ''frontend'' ''OpenHands'' ''pinned''
        ''Human-readable task, evidence and product setup surface.'' [''view_platform''] ''stable'']"

text \<open>
  A manifest file: its name, its size, and its JSON value (\<open>None\<close> when it cannot be read or
  parsed). No pack directory is the empty list.
\<close>

record manifest =
  mf_name :: string
  mf_size :: nat
  mf_payload :: "json option"

definition is_lower :: "char \<Rightarrow> bool" where
  "is_lower c = (let n = (of_char c :: int) in 97 \<le> n \<and> n \<le> 122)"

text \<open>\<open>[a-z0-9][a-z0-9-]{1,62}\<close> and \<open>[a-z][a-z0-9_]{1,62}\<close>\<close>

definition capability_id_ok :: "string \<Rightarrow> bool" where
  "capability_id_ok s =
     (case s of [] \<Rightarrow> False
      | c # cs \<Rightarrow> (is_lower c \<or> is_digit c) \<and> 1 \<le> length cs \<and> length cs \<le> 62
          \<and> list_all (\<lambda>x. is_lower x \<or> is_digit x \<or> x = CHR ''-'') cs)"

definition operation_name_ok :: "string \<Rightarrow> bool" where
  "operation_name_ok s =
     (case s of [] \<Rightarrow> False
      | c # cs \<Rightarrow> is_lower c \<and> 1 \<le> length cs \<and> length cs \<le> 62
          \<and> list_all (\<lambda>x. is_lower x \<or> is_digit x \<or> x = CHR ''_'') cs)"

definition manifest_capability :: "string \<Rightarrow> payload \<Rightarrow> capability outcome" where
  "manifest_capability name kvs =
     (let identifier = get_text kvs ''id'' '''' in
      case py_iter (get_value kvs ''operations'' (JArr [])) of
        Inl err \<Rightarrow> Inl err
      | Inr vs \<Rightarrow>
          let operations = clean_lines vs in
          if \<not> capability_id_ok identifier \<or> operations = [] then
            Inl (TaskStoreError (''invalid_capability_manifest:'' @ name))
          else if list_ex (\<lambda>x. \<not> operation_name_ok x) operations then
            Inl (TaskStoreError (''invalid_capability_operation:'' @ identifier))
          else Inr
            \<lparr>ca_id = identifier, ca_name = get_text kvs ''name'' identifier,
             ca_kind = get_text kvs ''kind'' ''pack'',
             ca_provider = get_text kvs ''provider'' ''owner-pack'',
             ca_version = get_text kvs ''version'' ''1'',
             ca_description = get_text kvs ''description'' '''', ca_operations = operations,
             ca_maturity = get_text kvs ''maturity'' ''experimental'',
             ca_available = py_truth (get_value kvs ''available'' (JBool True)),
             ca_source = ''pack:'' @ name\<rparr>)"

definition load_manifest :: "manifest \<Rightarrow> capability outcome" where
  "load_manifest m =
     (let invalid = Inl (TaskStoreError (''invalid_capability_manifest:'' @ mf_name m)) in
      if 64 * 1024 < mf_size m then
        Inl (TaskStoreError (''capability_manifest_too_large:'' @ mf_name m))
      else case mf_payload m of
        None \<Rightarrow> invalid
      | Some (JObj kvs) \<Rightarrow>
          (case reject_sensitive_keys ''$'' (JObj kvs) of
             Some err \<Rightarrow> Inl err
           | None \<Rightarrow> manifest_capability (mf_name m) kvs)
      | Some _ \<Rightarrow> invalid)"

fun load_manifests :: "manifest list \<Rightarrow> capability list outcome" where
  "load_manifests [] = Inr []"
| "load_manifests (m # ms) =
     (case load_manifest m of
        Inl err \<Rightarrow> Inl err
      | Inr c \<Rightarrow> map_sum id (Cons c) (load_manifests ms))"

definition list_capabilities :: "manifest list \<Rightarrow> capability list outcome" where
  "list_capabilities packs =
     (case load_manifests packs of
        Inl err \<Rightarrow> Inl err
      | Inr cs \<Rightarrow>
          let all = BUILTIN_CAPABILITIES @ cs; ids = map ca_id all in
          if length ids \<noteq> length (dict_fromkeys ids) then
            Inl (TaskStoreError ''duplicate_capability_id'')
          else Inr all)"

definition supports_operation :: "manifest list \<Rightarrow> string \<Rightarrow> bool outcome" where
  "supports_operation packs operation =
     map_sum id (list_ex (\<lambda>c. operation \<in> set (ca_operations c) \<and> ca_available c))
       (list_capabilities packs)"

section \<open>Policies\<close>

text \<open>
  \<open>datetime.fromisoformat\<close>: \<open>None\<close> is a \<open>ValueError\<close>, otherwise whether the time has a zone,
  and its distance from the epoch in microseconds. \<open>isoformat\<close> of a time in UTC, and the
  reading of the clock.
\<close>

record time_lib =
  parse_iso :: "string \<Rightarrow> (bool \<times> int) option"
  format_iso :: "int \<Rightarrow> string"
  clock_us :: int

definition KNOWN_OPERATIONS :: "string list" where
  "KNOWN_OPERATIONS =
     [''execute_task'', ''resume_task'', ''reconcile_task'', ''validate_task'', ''open_draft_pr'']"

definition MAX_WINDOW_DURATION :: int where
  "MAX_WINDOW_DURATION = 7 * 24 * 60 * 60 * 1000000"

definition parse_time :: "time_lib \<Rightarrow> string \<Rightarrow> int outcome" where
  "parse_time lib text =
     (case parse_iso lib (py_replace ''Z'' ''+00:00'' text) of
        None \<Rightarrow> Inl (TaskStoreError ''invalid_autonomy_window_time'')
      | Some (aware, t) \<Rightarrow>
          if aware then Inr t else Inl (TaskStoreError ''autonomy_time_requires_timezone''))"

definition format_time :: "time_lib \<Rightarrow> int \<Rightarrow> string" where
  "format_time lib t = py_replace ''+00:00'' ''Z'' (format_iso lib (t - t mod 1000000))"

definition bounded_int :: "payload \<Rightarrow> string \<Rightarrow> int \<Rightarrow> int \<Rightarrow> int outcome" where
  "bounded_int kvs key minimum maximum =
     (case py_int (get_value kvs key (JInt minimum)) of
        None \<Rightarrow> Inl (TaskStoreError (''invalid_autonomy_limit:'' @ key))
      | Some v \<Rightarrow>
          if v < minimum \<or> maximum < v then
            Inl (TaskStoreError (''invalid_autonomy_limit:'' @ key))
          else Inr v)"

definition optional_budget_int :: "payload \<Rightarrow> string \<Rightarrow> int outcome" where
  "optional_budget_int kvs key =
     (case get_value kvs key (JInt 0) of
        JNull \<Rightarrow> Inr 0
      | JInt v \<Rightarrow>
          (if v < 0 \<or> 10 ^ 15 < v then Inl (TaskStoreError (''invalid_autonomy_budget:'' @ key))
           else Inr v)
      | _ \<Rightarrow> Inl (TaskStoreError (''invalid_autonomy_budget:'' @ key)))"

text \<open>\<open>[A-Za-z0-9_.-]+/[A-Za-z0-9_.-]+\<close>\<close>

definition repository_ok :: "string \<Rightarrow> bool" where
  "repository_ok s =
     (let owner = takeWhile (\<lambda>c. c \<noteq> CHR ''/'') s; rest = dropWhile (\<lambda>c. c \<noteq> CHR ''/'') s;
          word = (\<lambda>w. w \<noteq> [] \<and> list_all (\<lambda>c. is_alnum c \<or> c \<in> set ''_.-'') w) in
      rest \<noteq> [] \<and> word owner \<and> word (tl rest))"

definition budget_pair_bad :: "int \<Rightarrow> int \<Rightarrow> bool" where
  "budget_pair_bad limit reservation \<longleftrightarrow>
     (limit \<noteq> 0) \<noteq> (reservation \<noteq> 0) \<or> (limit \<noteq> 0 \<and> limit < reservation)"

text \<open>The checks that can stop a validation, as steps: \<open>None\<close> lets it go on.\<close>

definition bind_outcome :: "'a outcome \<Rightarrow> ('a \<Rightarrow> 'b outcome) \<Rightarrow> 'b outcome" where
  "bind_outcome r k = (case r of Inl err \<Rightarrow> Inl err | Inr x \<Rightarrow> k x)"

definition ensure :: "bool \<Rightarrow> string \<Rightarrow> unit outcome" where
  "ensure ok err = (if ok then Inr () else Inl (TaskStoreError err))"

declare bind_outcome_def [code_unfold]

lemma bind_outcome_simps [simp]:
  "bind_outcome (Inl err) k = Inl err"
  "bind_outcome (Inr x) k = k x"
  by (simp_all add: bind_outcome_def)

lemma bind_outcome_Inr: "bind_outcome r k = Inr y \<longleftrightarrow> (\<exists>x. r = Inr x \<and> k x = Inr y)"
  by (cases r) auto

lemma ensure_Inr [simp]: "ensure ok err = Inr u \<longleftrightarrow> ok"
  by (simp add: ensure_def)

definition policy_times :: "time_lib \<Rightarrow> payload \<Rightarrow> (int \<times> int) outcome" where
  "policy_times lib kvs =
     bind_outcome (parse_time lib (get_str kvs ''starts_at'' '''')) (\<lambda>starts.
     bind_outcome (parse_time lib (get_str kvs ''expires_at'' '''')) (\<lambda>expires.
     bind_outcome (ensure (\<not> (clock_us lib + 300000000 < starts \<or> expires \<le> clock_us lib
                              \<or> expires \<le> starts)) ''invalid_autonomy_window_time'') (\<lambda>_.
     bind_outcome (ensure (expires - starts \<le> MAX_WINDOW_DURATION)
                     ''autonomy_window_duration_exceeded'') (\<lambda>_.
     Inr (starts, expires)))))"

fun array_texts :: "json \<Rightarrow> string list option" where
  "array_texts (JArr vs) = Some (dict_fromkeys (map (\<lambda>v. py_strip (py_str v)) vs))"
| "array_texts _ = None"

text \<open>The operations of the list that the registry does not support, in order.\<close>

fun unsupported :: "manifest list \<Rightarrow> string list \<Rightarrow> string list outcome" where
  "unsupported packs [] = Inr []"
| "unsupported packs (x # xs) =
     bind_outcome (supports_operation packs x) (\<lambda>ok.
       map_sum id (\<lambda>ys. if ok then ys else x # ys) (unsupported packs xs))"

definition policy_scope :: "manifest list \<Rightarrow> payload \<Rightarrow> (string list \<times> string list) outcome" where
  "policy_scope packs kvs =
     (case (array_texts (get_value kvs ''repositories'' (JArr [])),
            array_texts (get_value kvs ''capabilities'' (JArr []))) of
        (Some repositories, Some capabilities) \<Rightarrow>
          bind_outcome (ensure (repositories \<noteq> [] \<and> list_all repository_ok repositories)
                          ''invalid_autonomy_repositories'') (\<lambda>_.
          bind_outcome (ensure (capabilities \<noteq> []
                            \<and> list_all (\<lambda>x. x \<in> set KNOWN_OPERATIONS) capabilities)
                          ''invalid_autonomy_capabilities'') (\<lambda>_.
          bind_outcome (unsupported packs capabilities) (\<lambda>missing.
          bind_outcome (ensure (missing = [])
                          (''unavailable_autonomy_capability:'' @ str_join '','' missing)) (\<lambda>_.
          Inr (repositories, capabilities)))))
      | _ \<Rightarrow> Inl (TaskStoreError ''autonomy_policy_arrays_required''))"

definition policy_budgets :: "payload \<Rightarrow> (int \<times> int \<times> int \<times> int) outcome" where
  "policy_budgets kvs =
     bind_outcome (optional_budget_int kvs ''max_token_units'') (\<lambda>mt.
     bind_outcome (optional_budget_int kvs ''max_cost_micro_units'') (\<lambda>mc.
     bind_outcome (optional_budget_int kvs ''per_task_token_reservation'') (\<lambda>rt.
     bind_outcome (optional_budget_int kvs ''per_task_cost_reservation'') (\<lambda>rc.
     bind_outcome (ensure (\<not> budget_pair_bad mt rt) ''invalid_autonomy_budget_pair:token'') (\<lambda>_.
     bind_outcome (ensure (\<not> budget_pair_bad mc rc) ''invalid_autonomy_budget_pair:cost'') (\<lambda>_.
     Inr (mt, mc, rt, rc)))))))"

definition validate_policy ::
    "time_lib \<Rightarrow> manifest list \<Rightarrow> payload \<Rightarrow> window_policy outcome" where
  "validate_policy lib packs kvs =
     (let policy_id = get_text kvs ''policy_id'' ''''; owner = get_text kvs ''owner_identity'' '''' in
      bind_outcome (ensure (matches_class ''._:-'' 3 100 policy_id \<and> owner \<noteq> '''')
                      ''invalid_autonomy_policy_identity'') (\<lambda>_.
      bind_outcome (bounded_int kvs ''policy_revision'' 1 1000000) (\<lambda>revision.
      bind_outcome (policy_times lib kvs) (\<lambda>(starts, expires).
      bind_outcome (policy_scope packs kvs) (\<lambda>(repositories, capabilities).
      bind_outcome (policy_budgets kvs) (\<lambda>(mt, mc, rt, rc).
      let quota = py_upper (get_text kvs ''provider_quota_state'' ''NOT_CONFIGURED'') in
      bind_outcome (ensure (quota \<in> {''NOT_CONFIGURED'', ''OBSERVED'', ''UNKNOWN''})
                      ''invalid_provider_quota_state'') (\<lambda>_.
      bind_outcome (bounded_int kvs ''max_concurrent_tasks'' 1 8) (\<lambda>wip.
      bind_outcome (bounded_int kvs ''max_tasks'' 1 100) (\<lambda>max_tasks.
      bind_outcome (bounded_int kvs ''max_retries'' 0 5) (\<lambda>max_retries.
      Inr \<lparr>wp_window_id = get_text kvs ''window_id'' '''', wp_policy_id = policy_id,
           wp_policy_revision = revision, wp_owner_identity = owner,
           wp_starts_at = format_time lib starts, wp_expires_at = format_time lib expires,
           wp_repositories = repositories, wp_capabilities = capabilities,
           wp_max_concurrent_tasks = wip, wp_max_tasks = max_tasks, wp_max_retries = max_retries,
           wp_max_token_units = mt, wp_max_cost_micro_units = mc,
           wp_per_task_token_reservation = rt, wp_per_task_cost_reservation = rc,
           wp_provider_quota_state = quota,
           wp_enforcement_class =
             (if mt \<noteq> 0 \<or> mc \<noteq> 0 then ''HARD_ADMISSION_ENFORCED''
              else ''POST_RUN_OBSERVED'')\<rparr>))))))))))"

section \<open>Activation\<close>

definition service_activate ::
    "env \<Rightarrow> time_lib \<Rightarrow> manifest list \<Rightarrow> payload \<Rightarrow> db \<Rightarrow> window_row step" where
  "service_activate e lib packs kvs s =
     (case validate_policy lib packs kvs of
        Inl err \<Rightarrow> (Inl err, s)
      | Inr p \<Rightarrow>
          let confirmation = get_str kvs ''confirmation'' '''';
              (active, s1) = active_window e None s in
          (case active of
             Some w \<Rightarrow>
               if w_policy_id w = wp_policy_id p \<and> w_policy_revision w = wp_policy_revision p
               then activate_window (later 2 e) p confirmation s1
               else (Inl (TaskStoreError (''active_window_already_exists:'' @ w_id w)), s1)
           | None \<Rightarrow> activate_window (later 2 e) p confirmation s1))"

section \<open>Authorisation\<close>

text \<open>The checks of \<open>authorize\<close>; reading the active window may mark windows expired.\<close>

definition evaluate_operation ::
    "env \<Rightarrow> manifest list \<Rightarrow> string \<Rightarrow> string \<Rightarrow> string \<Rightarrow> db \<Rightarrow> unit step" where
  "evaluate_operation e packs wid operation repository s =
     (case get_window wid s of
        Inl err \<Rightarrow> (Inl err, s)
      | Inr w \<Rightarrow>
          if w_status w \<noteq> ''ACTIVE'' then (Inl (TaskStoreError ''window_not_active''), s)
          else
            let (active, s1) = active_window e None s in
            if active = None then (Inl (TaskStoreError ''window_not_active''), s1)
            else if repository \<notin> set (w_repositories w) then
              (Inl (TaskStoreError ''repository_outside_window''), s1)
            else if operation \<notin> set (w_capabilities w) then
              (Inl (TaskStoreError ''capability_outside_window''), s1)
            else if operation \<notin> set KNOWN_OPERATIONS then
              (Inl (TaskStoreError ''capability_unavailable''), s1)
            else case supports_operation packs operation of
              Inl err \<Rightarrow> (Inl err, s1)
            | Inr ok \<Rightarrow>
                (if ok then Inr () else Inl (TaskStoreError ''capability_unavailable''), s1))"

definition evaluation_receipt :: "string \<Rightarrow> string \<Rightarrow> string \<Rightarrow> json \<Rightarrow> string \<Rightarrow> string \<Rightarrow> receipt_input"
where
  "evaluation_receipt operation repository subject input decision reason =
     \<lparr>ri_operation_type = ''policy_evaluation'', ri_capability = operation,
      ri_repository = repository, ri_subject_id = subject, ri_decision = decision,
      ri_reason = reason, ri_input_payload = input, ri_external_id = '''', ri_result = ''''\<rparr>"

definition authorize ::
    "env \<Rightarrow> manifest list \<Rightarrow> string \<Rightarrow> string \<Rightarrow> string \<Rightarrow> string \<Rightarrow> json \<Rightarrow> db \<Rightarrow> bool step" where
  "authorize e packs wid operation repository subject input s =
     (case evaluate_operation e packs wid operation repository s of
        (Inr _, s1) \<Rightarrow>
          andthen (append_receipt (later 2 e) wid
                     (evaluation_receipt operation repository subject input ''allowed''
                        ''operation_inside_active_window'') s1)
            (\<lambda>_ s2. (Inr True, s2))
      | (Inl err, s1) \<Rightarrow>
          if is_store_error err then
            andthen (append_receipt (later 2 e) wid
                       (evaluation_receipt operation repository subject input ''denied''
                          (error_text err)) s1)
              (\<lambda>_ s2. (Inr False, s2))
          else (Inl err, s1))"

section \<open>Summaries\<close>

record window_report =
  wr_window :: window_row
  wr_tasks_remaining :: int
  wr_retries_remaining :: int
  wr_wip_limit :: int
  wr_budget :: budget_summary
  wr_allowed :: nat
  wr_denied :: nat
  wr_total :: nat
  wr_goals :: "goal_row list"
  wr_receipts :: "receipt_row list"

definition autonomy_summary :: "string \<Rightarrow> db \<Rightarrow> window_report outcome" where
  "autonomy_summary wid s =
     bind_outcome (get_window wid s) (\<lambda>w.
     bind_outcome (window_budget_summary wid s) (\<lambda>b.
       let rs = list_receipts wid 200 s in
       Inr \<lparr>wr_window = w, wr_tasks_remaining = max 0 (w_max_tasks w - w_tasks_started w),
            wr_retries_remaining = max 0 (w_max_retries w - w_retries_used w),
            wr_wip_limit = w_max_concurrent_tasks w, wr_budget = b,
            wr_allowed = sql_count (\<lambda>r. rc_decision r = ''allowed'') rs,
            wr_denied = sql_count (\<lambda>r. rc_decision r = ''denied'') rs, wr_total = length rs,
            wr_goals = list_window_goals wid s, wr_receipts = rs\<rparr>))"

definition autonomy_status :: "env \<Rightarrow> db \<Rightarrow> (bool \<times> window_row option) \<times> db" where
  "autonomy_status e s = (let (active, s1) = active_window e None s in ((active \<noteq> None, active), s1))"

end
