(* ===== verification/Coordinator.thy ===== *)
theory Coordinator
  imports Autonomy Durable_Runs Task_Execution
begin

text \<open>
  \<open>UnattendedCoordinator\<close> (unattended_coordinator.py) above the two stores: one \<open>tick\<close> claims
  runnable tasks under the window's policy, dispatches the batch, closes every claim and
  refreshes the goals. The team graph that runs a batch (team_graph.py) validates the
  assignments, runs one worker for each, and joins their results; the graph library calls the
  workers in the order of the assignments here, while on the host their store calls may
  interleave. The executor of one task is an argument, and so are the readings of the stop
  event: \<open>stop n\<close> is its \<open>n\<close>-th reading since the tick began.
\<close>

section \<open>State\<close>

record coordinator =
  co_owner :: string
  co_claim_lease_ms :: int
  co_workspace_root :: string
  co_dispatch_active :: bool
  co_last_error :: string
  co_last_batch :: json
  co_ticks :: nat
  co_executions :: nat

text \<open>A method of the coordinator: it may raise, and changes its own state and the database.\<close>

type_synonym 'a action = "'a outcome \<times> (coordinator \<times> db)"

definition on_db :: "'a step \<Rightarrow> coordinator \<Rightarrow> 'a action" where
  "on_db r co = (fst r, (co, snd r))"

definition set_error :: "string \<Rightarrow> coordinator \<Rightarrow> coordinator" where
  "set_error msg co = co\<lparr>co_last_error := msg\<rparr>"

text \<open>\<open>try: \<dots> except Exception as exc\<close>: what the body has written stays.\<close>

definition catch :: "'a outcome \<times> 's \<Rightarrow> (store_error \<Rightarrow> 's \<Rightarrow> 'a outcome \<times> 's) \<Rightarrow> 'a outcome \<times> 's" where
  "catch r h = (case r of (Inl err, s) \<Rightarrow> h err s | (Inr x, s) \<Rightarrow> (Inr x, s))"

declare catch_def [code_unfold]

text \<open>\<open>except TaskStoreError\<close>: other exceptions go on.\<close>

definition catch_store ::
    "'a outcome \<times> 's \<Rightarrow> (store_error \<Rightarrow> 's \<Rightarrow> 'a outcome \<times> 's) \<Rightarrow> 'a outcome \<times> 's" where
  "catch_store r h = catch r (\<lambda>err s. if is_store_error err then h err s else (Inl err, s))"

section \<open>Claiming a batch\<close>

text \<open>The claims of this tick: a dictionary from task to epoch.\<close>

type_synonym claimed = "(string \<times> int) list"

fun dict_set :: "'k \<Rightarrow> 'v \<Rightarrow> ('k \<times> 'v) list \<Rightarrow> ('k \<times> 'v) list" where
  "dict_set k v [] = [(k, v)]"
| "dict_set k v ((k', v') # d) = (if k' = k then (k, v) # d else (k', v') # dict_set k v d)"

definition ADMISSION_LIMITS :: "string list" where
  "ADMISSION_LIMITS =
     [''window_wip_limit_reached'', ''window_task_budget_exhausted'',
      ''window_retry_budget_exhausted'', ''window_token_budget_exhausted'',
      ''window_cost_budget_exhausted'']"

definition tick_operation :: "task_row \<Rightarrow> string" where
  "tick_operation t = (if t_status t = ''INTERRUPTED'' then ''resume_task'' else ''execute_task'')"

text \<open>
  The claim loop of \<open>tick\<close>. The result is the dictionary and the number of readings of the
  stop event. Each round is given the environment after the readings of the rounds before it.
\<close>

fun claim_loop ::
    "env \<Rightarrow> (nat \<Rightarrow> bool) \<Rightarrow> manifest list \<Rightarrow> string \<Rightarrow> nat \<Rightarrow> string list \<Rightarrow> claimed
     \<Rightarrow> coordinator \<Rightarrow> db \<Rightarrow> (claimed \<times> nat) action" where
  "claim_loop e stop packs wid n [] claimed co s = (Inr (claimed, n), (co, s))"
| "claim_loop e stop packs wid n (tid # tids) claimed co s =
     (if stop n then (Inr (claimed, n + 1), (co, s))
      else case get_task tid None s of
        Inl err \<Rightarrow> (Inl err, (co, s))
      | Inr view \<Rightarrow>
          let t = tv_row view in
          if stop (n + 1) then (Inr (claimed, n + 2), (co, s))
          else case authorize e packs wid (tick_operation t) (t_repository t) tid
                      (JObj [(''task_id'', JStr tid), (''status'', JStr (t_status t))]) s of
            (Inl err, s1) \<Rightarrow> (Inl err, (co, s1))
          | (Inr False, s1) \<Rightarrow>
              claim_loop (later 20 e) stop packs wid (n + 2) tids claimed co s1
          | (Inr True, s1) \<Rightarrow>
              if stop (n + 2) then (Inr (claimed, n + 3), (co, s1))
              else case claim_task (later 10 e) wid tid (co_owner co) (co_claim_lease_ms co) s1 of
                (Inl err, s2) \<Rightarrow>
                  if \<not> is_store_error err then (Inl err, (co, s2))
                  else if error_text err \<in> set ADMISSION_LIMITS then
                    (Inr (claimed, n + 3), (co, s2))
                  else if error_text err = ''task_already_claimed'' then
                    claim_loop (later 20 e) stop packs wid (n + 3) tids claimed co s2
                  else claim_loop (later 20 e) stop packs wid (n + 3) tids claimed
                         (set_error (error_text err) co) s2
              | (Inr (epoch, _), s2) \<Rightarrow>
                  if stop (n + 3) then (Inr (dict_set tid epoch claimed, n + 4), (co, s2))
                  else claim_loop (later 20 e) stop packs wid (n + 4) tids
                         (dict_set tid epoch claimed) co s2)"

section \<open>Refreshing goals\<close>

fun goal_ids_of :: "string list \<Rightarrow> string list \<Rightarrow> coordinator \<Rightarrow> db \<Rightarrow> string list \<times> coordinator" where
  "goal_ids_of [] ids co s = (ids, co)"
| "goal_ids_of (tid # tids) ids co s =
     (case goal_id_for_task tid s of
        Inl _ \<Rightarrow> goal_ids_of tids ids (set_error (''goal_link_not_found:'' @ tid) co) s
      | Inr gid \<Rightarrow> goal_ids_of tids (if gid \<in> set ids then ids else ids @ [gid]) co s)"

fun refresh_each :: "env \<Rightarrow> string list \<Rightarrow> coordinator \<Rightarrow> db \<Rightarrow> unit action" where
  "refresh_each e [] co s = (Inr (), (co, s))"
| "refresh_each e (gid # gids) co s =
     (case refresh_goal_status e gid s of
        (Inl err, s1) \<Rightarrow>
          if is_store_error err then
            refresh_each (later 1 e) gids
              (set_error (''goal_refresh_failed:'' @ error_class err) co) s1
          else (Inl err, (co, s1))
      | (Inr _, s1) \<Rightarrow> refresh_each (later 1 e) gids co s1)"

definition refresh_claimed_goals :: "env \<Rightarrow> string list \<Rightarrow> coordinator \<Rightarrow> db \<Rightarrow> unit action" where
  "refresh_claimed_goals e tids co s =
     (let (ids, co1) = goal_ids_of tids [] co s in refresh_each e (sort ids) co1 s)"

section \<open>Stopping before dispatch\<close>

text \<open>The claims that could not be given back, as \<open>task:class\<close>.\<close>

fun abandon_each ::
    "env \<Rightarrow> string \<Rightarrow> string \<Rightarrow> string \<Rightarrow> claimed \<Rightarrow> db \<Rightarrow> string list step" where
  "abandon_each e wid owner reason [] s = (Inr [], s)"
| "abandon_each e wid owner reason ((tid, epoch) # rest) s =
     (case abandon_task_claim e wid tid owner epoch reason s of
        (Inl err, s1) \<Rightarrow>
          if is_store_error err then
            andthen (abandon_each (later 2000 e) wid owner reason rest s1)
              (\<lambda>fs s2. (Inr ((tid @ '':'' @ error_class err) # fs), s2))
          else (Inl err, s1)
      | (Inr _, s1) \<Rightarrow> abandon_each (later 2000 e) wid owner reason rest s1)"

definition abandon_batch :: "string list \<Rightarrow> string \<Rightarrow> string list \<Rightarrow> json" where
  "abandon_batch tids reason failures =
     JObj [(''accepted'', JBool False), (''size'', JInt 0), (''claimed_size'', JInt (int (length tids))),
           (''task_ids'', JArr (map JStr (sort tids))), (''reasons'', JArr [JStr reason]),
           (''cleanup_failures'', JArr (map JStr failures))]"

definition abandon_claimed ::
    "env \<Rightarrow> string \<Rightarrow> claimed \<Rightarrow> string \<Rightarrow> coordinator \<Rightarrow> db \<Rightarrow> unit action" where
  "abandon_claimed e wid claimed reason co s =
     andthen (on_db (abandon_each e wid (co_owner co) reason claimed s) co) (\<lambda>failures (co1, s1).
     andthen (refresh_claimed_goals (later (2000 * int (length claimed)) e) (map fst claimed) co1 s1)
       (\<lambda>_ (co2, s2).
         let co3 = (if failures = [] then co2
                    else set_error ''coordinator_stop_claim_cleanup_failed'' co2) in
         (Inr (), (co3\<lparr>co_last_batch := abandon_batch (map fst claimed) reason failures\<rparr>, s2))))"

section \<open>Workers and the team graph\<close>

text \<open>How one task is run.\<close>

type_synonym executor = "env \<Rightarrow> string \<Rightarrow> db \<Rightarrow> execution_outcome step"

record assignment =
  as_worker_id :: string
  as_role :: string
  as_task_id :: string
  as_workspace_root :: string

record worker_result =
  wk_worker_id :: string
  wk_task_id :: string
  wk_execution_id :: string
  wk_success :: bool
  wk_validation_exit_code :: int
  wk_evidence_ids :: "string list"
  wk_failure_classification :: string
  wk_failure_detail :: string
  wk_reasons :: "string list"

definition worker_done :: "assignment \<Rightarrow> string \<Rightarrow> execution_outcome \<Rightarrow> bool \<Rightarrow> task_row \<Rightarrow> worker_result"
where
  "worker_done a tid out success t =
     \<lparr>wk_worker_id = as_worker_id a, wk_task_id = tid,
      wk_execution_id = (if xe_execution_id out = '''' then t_execution_id t else xe_execution_id out),
      wk_success = success, wk_validation_exit_code = xe_validation_exit_code out,
      wk_evidence_ids = xe_evidence_ids out,
      wk_failure_classification = t_failure_classification t,
      wk_failure_detail = t_failure_detail t, wk_reasons = [''claim_completed'']\<rparr>"

definition worker_failed :: "assignment \<Rightarrow> string \<Rightarrow> store_error \<Rightarrow> worker_result" where
  "worker_failed a tid err =
     \<lparr>wk_worker_id = as_worker_id a, wk_task_id = tid, wk_execution_id = '''', wk_success = False,
      wk_validation_exit_code = -1, wk_evidence_ids = [],
      wk_failure_classification = ''coordinator_execution_error'',
      wk_failure_detail = error_class err,
      wk_reasons = [''claim_abandoned'', ''worker_exception:'' @ error_class err]\<rparr>"

definition complete_worker ::
    "env \<Rightarrow> executor \<Rightarrow> string \<Rightarrow> string \<Rightarrow> int \<Rightarrow> assignment \<Rightarrow> db \<Rightarrow> worker_result step" where
  "complete_worker e run wid owner epoch a s =
     (let tid = as_task_id a in
      andthen (run e tid s) (\<lambda>out s1.
        case get_task tid None s1 of
          Inl err \<Rightarrow> (Inl err, s1)
        | Inr view \<Rightarrow>
            let t = tv_row view;
                success = (xe_success out
                  \<and> t_status t \<in> {''READY_FOR_REVIEW'', ''READY_FOR_REVIEW_FIXTURE''});
                result = (if success then ''success'' else ''terminal:'' @ t_status t) in
            andthen (complete_task_claim (later 5000 e) wid tid owner epoch result s1) (\<lambda>_ s2.
              (Inr (worker_done a tid out success t), s2))))"

definition execute_assignment ::
    "env \<Rightarrow> executor \<Rightarrow> string \<Rightarrow> string \<Rightarrow> claimed \<Rightarrow> assignment \<Rightarrow> db \<Rightarrow> worker_result step" where
  "execute_assignment e run wid owner claimed a s =
     (case map_of claimed (as_task_id a) of
        None \<Rightarrow> (Inl (PyError ''KeyError'' (py_repr_string (as_task_id a))), s)
      | Some epoch \<Rightarrow>
          catch (complete_worker e run wid owner epoch a s) (\<lambda>err s1.
            case abandon_task_claim (later 7000 e) wid (as_task_id a) owner epoch
                   (''execution_failed:'' @ as_task_id a @ '':'' @ error_class err) s1 of
              (Inl err2, s2) \<Rightarrow>
                (if is_store_error err2 then Inr (worker_failed a (as_task_id a) err)
                 else Inl err2, s2)
            | (Inr _, s2) \<Rightarrow> (Inr (worker_failed a (as_task_id a) err), s2)))"

definition make_assignment :: "string \<Rightarrow> nat \<Rightarrow> string \<Rightarrow> assignment" where
  "make_assignment root i tid =
     (let digits = str_of_nat i in
      \<lparr>as_worker_id = ''task-'' @ replicate (3 - length digits) (CHR ''0'') @ digits,
       as_role = ''task_executor'', as_task_id = tid, as_workspace_root = root\<rparr>)"

definition make_assignments :: "string \<Rightarrow> string list \<Rightarrow> assignment list" where
  "make_assignments root tids = map (\<lambda>(i, tid). make_assignment root i tid) (enumerate 1 tids)"

text \<open>\<open>WorkerAssignment.from_mapping\<close>: every field stripped, none blank.\<close>

definition parse_assignment :: "assignment \<Rightarrow> assignment outcome" where
  "parse_assignment a =
     (let check = (\<lambda>v field rest. if py_strip v = '''' then
             Inl (PyError ''ValueError'' (''missing_or_invalid:'' @ field)) else rest) in
      check (as_worker_id a) ''worker_id'' (check (as_role a) ''role''
        (check (as_task_id a) ''task_id'' (check (as_workspace_root a) ''workspace_root''
          (Inr \<lparr>as_worker_id = py_strip (as_worker_id a), as_role = py_strip (as_role a),
                as_task_id = py_strip (as_task_id a),
                as_workspace_root = py_strip (as_workspace_root a)\<rparr>)))))"

fun validate_assignments ::
    "nat \<Rightarrow> string list \<Rightarrow> assignment list \<Rightarrow> assignment list outcome" where
  "validate_assignments i seen [] = Inr []"
| "validate_assignments i seen (a # rest) =
     (case parse_assignment a of
        Inl err \<Rightarrow> Inl (PyError ''TeamGraphError''
                     (''invalid_assignment['' @ str_of_nat i @ '']:'' @ error_text err))
      | Inr p \<Rightarrow>
          if as_worker_id p \<in> set seen then
            Inl (PyError ''TeamGraphError'' (''duplicate_worker_id:'' @ as_worker_id p))
          else map_sum id (Cons p) (validate_assignments (i + 1) (as_worker_id p # seen) rest))"

fun run_workers ::
    "env \<Rightarrow> (env \<Rightarrow> assignment \<Rightarrow> db \<Rightarrow> worker_result step) \<Rightarrow> assignment list \<Rightarrow> db
     \<Rightarrow> worker_result list step" where
  "run_workers e worker [] s = (Inr [], s)"
| "run_workers e worker (a # rest) s =
     andthen (worker e a s) (\<lambda>r s1.
     andthen (run_workers (later 10000 e) worker rest s1) (\<lambda>rs s2. (Inr (r # rs), s2)))"

record team_result =
  tm_accepted :: bool
  tm_worker_results :: "worker_result list"
  tm_reasons :: "string list"

definition default_verifier :: "worker_result list \<Rightarrow> team_result" where
  "default_verifier rs =
     \<lparr>tm_accepted = list_all wk_success rs, tm_worker_results = rs,
      tm_reasons = map (\<lambda>r. ''worker_failed:'' @ wk_worker_id r @ '':task='' @ wk_task_id r
          @ '':classification='' @ (if wk_failure_classification r = '''' then ''unknown''
                                    else wk_failure_classification r))
        (filter (\<lambda>r. \<not> wk_success r) rs)\<rparr>"

definition team_graph ::
    "env \<Rightarrow> (env \<Rightarrow> assignment \<Rightarrow> db \<Rightarrow> worker_result step) \<Rightarrow> assignment list \<Rightarrow> db
     \<Rightarrow> team_result step" where
  "team_graph e worker assignments s =
     (if assignments = [] then (Inl (PyError ''TeamGraphError'' ''team_assignments_empty''), s)
      else case validate_assignments 0 [] assignments of
        Inl err \<Rightarrow> (Inl err, s)
      | Inr parsed \<Rightarrow>
          andthen (run_workers e worker parsed s) (\<lambda>rs s1.
            (Inr (default_verifier (sort_key wk_worker_id rs)), s1)))"

section \<open>Running one task\<close>

text \<open>
  \<open>_execute_task\<close> without an injected executor: fixture tasks of a host with no durable
  identity run directly, all others in the durable service, which is an argument.
\<close>

definition coordinator_execute ::
    "fixture_host \<Rightarrow> string \<Rightarrow> bool \<Rightarrow> executor \<Rightarrow> executor" where
  "coordinator_execute h workspace_root durable_identity durable e tid s =
     (case get_task tid None s of
        Inl err \<Rightarrow> (Inl err, s)
      | Inr view \<Rightarrow>
          if t_executor_kind (tv_row view) = ''deterministic_fixture'' \<and> \<not> durable_identity then
            (if t_status (tv_row view) \<noteq> ''QUEUED'' then
               (Inl (TaskStoreError (''fixture_task_not_queued:'' @ t_status (tv_row view))), s)
             else execute_task e (\<lambda>_. None) (fixture_execute h workspace_root) ''git_diff_check'' tid s)
          else durable e tid s)"

section \<open>Dispatch\<close>

definition batch_report :: "team_result \<Rightarrow> json" where
  "batch_report team =
     (let rs = tm_worker_results team in
      JObj [(''accepted'', JBool (tm_accepted team)), (''size'', JInt (int (length rs))),
            (''task_ids'', JArr (map (\<lambda>r. JStr (wk_task_id r)) rs)),
            (''reasons'', JArr (map JStr (tm_reasons team))),
            (''failures'', JArr (map (\<lambda>r. JObj
                [(''task_id'', JStr (wk_task_id r)),
                 (''classification'', JStr (wk_failure_classification r)),
                 (''detail'', JStr (take 220 (wk_failure_detail r)))])
              (filter (\<lambda>r. \<not> wk_success r) rs)))])"

text \<open>
  The graph raised: every claim is given back (\<open>except TaskStoreError: pass\<close>), the goals are
  refreshed, the batch counts as nothing done.
\<close>

definition graph_failed ::
    "env \<Rightarrow> string \<Rightarrow> claimed \<Rightarrow> store_error \<Rightarrow> coordinator \<Rightarrow> db \<Rightarrow> nat action" where
  "graph_failed e wid claimed err co s =
     (let reason = ''parallel_batch_failed:'' @ error_class err in
      andthen (on_db (abandon_each e wid (co_owner co) reason claimed s) co) (\<lambda>_ (co1, s1).
      andthen (refresh_claimed_goals (later (2000 * int (length claimed)) e) (map fst claimed) co1 s1)
        (\<lambda>_ (co2, s2).
          (Inr 0, ((set_error reason co2)\<lparr>co_last_batch :=
             JObj [(''accepted'', JBool False), (''size'', JInt (int (length claimed))),
                   (''reasons'', JArr [JStr reason])]\<rparr>, s2)))))"

definition batch_finished ::
    "env \<Rightarrow> claimed \<Rightarrow> team_result \<Rightarrow> coordinator \<Rightarrow> db \<Rightarrow> nat action" where
  "batch_finished e claimed team co s =
     andthen (refresh_claimed_goals e (map fst claimed) co s) (\<lambda>_ (co1, s1).
       let rs = tm_worker_results team;
           completed = sql_count (\<lambda>r. ''claim_completed'' \<in> set (wk_reasons r)) rs;
           co2 = co1\<lparr>co_executions := co_executions co1 + completed,
                     co_last_batch := batch_report team\<rparr>;
           co3 = (case find (\<lambda>r. \<not> wk_success r) rs of
                    None \<Rightarrow> co2
                  | Some r \<Rightarrow> set_error (''task_unsuccessful:'' @ wk_task_id r) co2) in
       (Inr completed, (co3, s1)))"

definition execute_claimed_batch ::
    "env \<Rightarrow> executor \<Rightarrow> string \<Rightarrow> claimed \<Rightarrow> coordinator \<Rightarrow> db \<Rightarrow> nat action" where
  "execute_claimed_batch e run wid claimed co s =
     (let assignments = make_assignments (co_workspace_root co) (sort (map fst claimed));
          after = later (10000 * int (length claimed)) e in
      case team_graph e (\<lambda>e' a. execute_assignment e' run wid (co_owner co) claimed a)
             assignments s of
        (Inl err, s1) \<Rightarrow> graph_failed after wid claimed err co s1
      | (Inr team, s1) \<Rightarrow> batch_finished after claimed team co s1)"

text \<open>\<open>_begin_dispatch\<close> reads the stop event under the lock; the result says whether it began.\<close>

definition begin_dispatch :: "bool \<Rightarrow> coordinator \<Rightarrow> bool \<times> coordinator" where
  "begin_dispatch stopped co =
     (if stopped \<or> co_dispatch_active co then (False, co)
      else (True, co\<lparr>co_dispatch_active := True\<rparr>))"

definition finish_dispatch :: "coordinator \<Rightarrow> coordinator" where
  "finish_dispatch co = co\<lparr>co_dispatch_active := False\<rparr>"

section \<open>One tick\<close>

definition dispatch_claimed ::
    "env \<Rightarrow> bool \<Rightarrow> executor \<Rightarrow> string \<Rightarrow> claimed \<Rightarrow> coordinator \<Rightarrow> db \<Rightarrow> nat action" where
  "dispatch_claimed e stopped run wid claimed co s =
     (let (begun, co1) = begin_dispatch stopped co in
      if \<not> begun then
        andthen (abandon_claimed e wid claimed ''coordinator_stop_requested_before_dispatch'' co1 s)
          (\<lambda>_ cs. (Inr 0, cs))
      else case execute_claimed_batch e run wid claimed co1 s of
        (r, (co2, s2)) \<Rightarrow> (r, (finish_dispatch co2, s2)))"

definition tick ::
    "env \<Rightarrow> (nat \<Rightarrow> bool) \<Rightarrow> manifest list \<Rightarrow> executor \<Rightarrow> coordinator \<Rightarrow> db \<Rightarrow> nat action" where
  "tick e stop packs run co s =
     (if stop 0 then (Inr 0, (co, s))
      else
        let co1 = co\<lparr>co_ticks := co_ticks co + 1\<rparr> in
        if stop 1 then (Inr 0, (co1, s))
        else
          let (window, s1) = active_window e None s in
          case window of
            None \<Rightarrow> (Inr 0, (co1, s1))
          | Some w \<Rightarrow>
              let runnable = runnable_tasks (w_id w) (w_max_concurrent_tasks w) s1 in
              andthen (claim_loop (later 2 e) stop packs (w_id w) 2 runnable [] co1 s1)
                (\<lambda>(claimed, n) (co2, s2).
                  if claimed = [] then (Inr 0, (co2, s2))
                  else dispatch_claimed (later (2 + 20 * int (length runnable)) e) (stop n) run (w_id w)
                         claimed co2 s2))"

text \<open>One round of the thread's loop: whatever a tick raises becomes the last error.\<close>

definition run_round ::
    "env \<Rightarrow> (nat \<Rightarrow> bool) \<Rightarrow> manifest list \<Rightarrow> executor \<Rightarrow> coordinator \<Rightarrow> db \<Rightarrow> coordinator \<times> db" where
  "run_round e stop packs run co s =
     (case tick e stop packs run co s of
        (Inl err, (co1, s1)) \<Rightarrow>
          (set_error (''coordinator_tick_failed:'' @ error_class err) co1, s1)
      | (Inr _, cs) \<Rightarrow> cs)"

text \<open>
  \<open>reconcile\<close>: expired runs first (with the clock reading \<open>now\<close>), then the reservations that
  stay held for the next claim; neither call raises.
\<close>

definition coordinator_reconcile ::
    "env \<Rightarrow> db \<Rightarrow> (reconcile_record list \<times> string list) \<times> db" where
  "coordinator_reconcile e s =
     (let (records, s1) = reconcile_expired_runs (later 1 e) (now_ms e 0) s in
      ((records, expired_reservation_tasks (now_ms e 1) s1), s1))"

end
