(* ===== verification/Service_Steps.thy ===== *)
theory Service_Steps
  imports Execution_Laws Plan_Laws Coordinator
begin

text \<open>
  The services against the transition system of the stores. A service works on a system both
  of whose stores are open; \<open>acts\<close> relates the databases before and after when the second is
  reached by store calls. Every operation of the services acts, so the invariants and the
  contracts of \<open>Operations\<close> hold of whatever the services do. The locale \<open>acting\<close> is the
  interface of a piece of code that only goes through the stores; the coordinator's executor is
  one.
\<close>

definition system :: "db \<Rightarrow> bool" where
  "system s \<longleftrightarrow> reachable s \<and> control_schema s"

definition acts :: "db \<Rightarrow> db \<Rightarrow> bool" where
  "acts s s' \<longleftrightarrow> (system s \<longrightarrow> live_step\<^sup>*\<^sup>* s s')"

lemma system_reachable [dest]: "system s \<Longrightarrow> reachable s"
  by (simp add: system_def)

lemma acts_system: "acts s s' \<Longrightarrow> system s \<Longrightarrow> system s'"
  unfolding acts_def system_def
  by (auto intro: reachable_steps dest: steps_evolve simp: evolves_def)

lemma acts_evolves: "acts s s' \<Longrightarrow> system s \<Longrightarrow> evolves s s'"
  by (simp add: acts_def steps_evolve)

lemma acts_refl [simp]: "acts s s"
  by (simp add: acts_def)

lemma acts_trans: "acts s t \<Longrightarrow> acts t u \<Longrightarrow> acts s u"
  using acts_system [of s t] by (auto simp: acts_def)

lemma acts_andthen:
  assumes "acts s (snd r)" and "\<And>x t. r = (Inr x, t) \<Longrightarrow> acts t (snd (k x t))"
  shows "acts s (snd (andthen r k))"
  using assms by (cases r; cases "fst r") (auto intro: acts_trans)

text \<open>The branches of an operation, one rule for each kind of case.\<close>

lemma acts_cases:
  "(\<And>y. acts s (snd (f y))) \<Longrightarrow> acts s (snd (case r of Inl err \<Rightarrow> (Inl err, s) | Inr y \<Rightarrow> f y))"
  "acts s (snd a) \<Longrightarrow> acts s (snd b) \<Longrightarrow> acts s (snd (if c then a else b))"
  "acts s (snd a) \<Longrightarrow> (\<And>y. acts s (snd (f y)))
     \<Longrightarrow> acts s (snd (case m of None \<Rightarrow> a | Some y \<Rightarrow> f y))"
  "acts s (snd (x, s))"
  by (auto split: sum.split option.split)

section \<open>Store calls\<close>

lemma acts_step: "(system s \<Longrightarrow> db_step s s') \<Longrightarrow> acts s s'"
  by (auto simp: acts_def live_step_iff system_def intro: r_into_rtranclp)

lemma acts_store: "acts s (snd (run_store c s))"
  by (rule acts_step) (rule store_call)

lemma acts_control: "acts s (snd (run_control c s))"
  by (rule acts_step) (simp add: control_call system_def)

lemma acts_create_task: "acts s (snd (create_task e q s))"
  using acts_store [of s "CreateTask e q"] by simp

lemma acts_reconcile: "acts s (snd (reconcile_expired_runs e now s))"
  using acts_store [of s "Reconcile e now"] by simp

lemma acts_goal_ops:
  "acts s (snd (create_goal e gq s))" "acts s (snd (save_goal_plan e gid n sp pl ts cr s))"
  "acts s (snd (mark_goal_running e gid n wid s))" "acts s (snd (refresh_goal_status e gid s))"
  "acts s (snd (link_goal_task gid n p tid ds q s))"
  using acts_control [of s "CreateGoal e gq"] acts_control [of s "SaveGoalPlan e gid n sp pl ts cr"]
    acts_control [of s "MarkGoalRunning e gid n wid"] acts_control [of s "RefreshGoalStatus e gid"]
    acts_control [of s "LinkGoalTask gid n p tid ds q"]
  by simp_all

lemma acts_window_ops:
  "acts s (snd (activate_window e p c s))" "acts s (snd (active_window e now s))"
  "acts s (snd (claim_task e wid tid ow l s))" "acts s (snd (abandon_task_claim e wid tid ow ep r s))"
  "acts s (snd (complete_task_claim e wid tid ow ep r s))" "acts s (snd (append_receipt e wid i s))"
  using acts_control [of s "ActivateWindow e p c"] acts_control [of s "ActiveWindow e now"]
    acts_control [of s "ClaimTask e wid tid ow l"] acts_control [of s "AbandonClaim e wid tid ow ep r"]
    acts_control [of s "CompleteClaim e wid tid ow ep r"] acts_control [of s "AppendReceipt e wid i"]
  by simp_all

lemmas acts_intros = acts_create_task acts_reconcile acts_goal_ops acts_window_ops

section \<open>Goal planning\<close>

lemma acts_service_create_goal: "acts s (snd (service_create_goal e p s))"
  by (simp add: service_create_goal_def Let_def acts_intros)

lemma acts_plan_goal: "acts s (snd (plan_goal e k gid n acc ts s))"
  unfolding plan_goal_def Let_def
  by (intro acts_cases acts_andthen acts_intros)

lemma snd_link_tolerant [simp]: "snd (link_tolerant r) = snd r"
  by (auto simp: link_tolerant_def split: prod.split sum.split)

lemma acts_launch_one: "acts s (snd (launch_one e g w n raw s))"
  unfolding launch_one_def by (auto intro!: acts_andthen acts_intros split: sum.split)

lemma acts_launch_tasks: "acts s (snd (launch_tasks e g w n raws s))"
  by (induction e g w n raws s rule: launch_tasks.induct)
    (auto intro!: acts_andthen acts_launch_one)

lemma acts_launch_goal: "acts s (snd (launch_goal e gid n wid s))"
  unfolding launch_goal_def
  by (auto intro!: acts_andthen acts_launch_tasks acts_intros split: sum.split)

lemma acts_response_snapshot: "acts s (snd (response_snapshot e gid s))"
  unfolding response_snapshot_def Let_def by (auto intro!: acts_andthen acts_intros)

section \<open>Autonomy\<close>

lemma acts_service_activate: "acts s (snd (service_activate e lib packs kvs s))"
proof -
  have "acts s s1" if "active_window e None s = (a, s1)" for a s1
    using acts_window_ops(2) [of s e None] that by simp
  then show ?thesis
    unfolding service_activate_def Let_def
    by (auto intro: acts_trans acts_window_ops(1) split: sum.split prod.split option.split)
qed

lemma acts_evaluate: "acts s (snd (evaluate_operation e packs wid op repo s))"
proof -
  have "acts s s1" if "active_window e None s = (a, s1)" for a s1
    using acts_window_ops(2) [of s e None] that by simp
  then show ?thesis
    unfolding evaluate_operation_def Let_def
    by (auto split: sum.split prod.split)
qed

lemma acts_authorize: "acts s (snd (authorize e packs wid op repo subj inp s))"
proof -
  have ev: "acts s s1" if "evaluate_operation e packs wid op repo s = (a, s1)" for a s1
    using acts_evaluate [of s e packs wid op repo] that by simp
  have rc: "acts t (snd (andthen (append_receipt e' wid i t) (\<lambda>_ s2. (Inr b, s2))))" for t e' i b
    by (rule acts_andthen) (simp_all add: acts_intros)
  show ?thesis
    unfolding authorize_def
    by (auto intro: acts_trans [OF ev rc] ev split: prod.split sum.split)
qed

section \<open>The coordinator\<close>

text \<open>An action of the coordinator acts on the database.\<close>

abbreviation cacts :: "db \<Rightarrow> 'a action \<Rightarrow> bool" where
  "cacts s r \<equiv> acts s (snd (snd r))"

lemma cacts_andthen:
  assumes "cacts s r" and "\<And>x co t. r = (Inr x, (co, t)) \<Longrightarrow> cacts t (k x (co, t))"
  shows "cacts s (andthen r k)"
  using assms by (cases r; cases "fst r"; cases "snd r") (auto intro: acts_trans)

lemma cacts_on_db: "acts s (snd r) \<Longrightarrow> cacts s (on_db r co)"
  by (simp add: on_db_def)

declare claim_loop.simps(2) [simp del]

text \<open>
  What the claim loop keeps: a relation between the claims made and the database survives the
  loop when it survives an authorisation, a refused claim, and a claim that is entered in the
  dictionary. On an exception it holds of the claims made so far.
\<close>

lemma claim_loop_keeps:
  assumes au: "\<And>cl s e op repo tid inp r s1. P cl s \<Longrightarrow>
        authorize e packs wid op repo tid inp s = (r, s1) \<Longrightarrow> P cl s1"
    and refused: "\<And>cl s e tid ow l err s1. P cl s \<Longrightarrow>
        claim_task e wid tid ow l s = (Inl err, s1) \<Longrightarrow> P cl s1"
    and claimed: "\<And>cl s e op repo tid inp s1 e' l ep w s2. P cl s \<Longrightarrow>
        authorize e packs wid op repo tid inp s = (Inr True, s1) \<Longrightarrow>
        claim_task e' wid tid owner l s1 = (Inr (ep, w), s2) \<Longrightarrow> P (dict_set tid ep cl) s2"
  shows "P cl s \<Longrightarrow> co_owner co = owner \<Longrightarrow>
    claim_loop e stop packs wid n tids cl co s = (r, (co', s')) \<Longrightarrow>
    co_owner co' = owner \<and> (\<exists>cl'. P cl' s' \<and> (\<forall>c m. r = Inr (c, m) \<longrightarrow> cl' = c))"
proof (induction tids arbitrary: e n cl co s)
  case Nil
  then show ?case by auto
next
  case (Cons tid tids)
  have stopped: ?case if "claim_loop e stop packs wid n (tid # tids) cl co s = (x, (co, t))"
      "P cl t" "\<And>c m. x = Inr (c, m) \<Longrightarrow> c = cl" for x t
    using that Cons.prems(2,3) by auto
  show ?case
  proof (cases "stop n")
    case True
    with Cons.prems(1) show ?thesis by (intro stopped) (auto simp: claim_loop.simps)
  next
    case go: False
    show ?thesis
    proof (cases "get_task tid None s")
      case (Inl err)
      with go Cons.prems(1) show ?thesis by (intro stopped) (auto simp: claim_loop.simps)
    next
      case view: (Inr view)
      define t where "t = tv_row view"
      obtain b s1 where auth: "authorize e packs wid (tick_operation t) (t_repository t) tid
          (JObj [(''task_id'', JStr tid), (''status'', JStr (t_status t))]) s = (b, s1)"
        by (metis surj_pair)
      have P1: "P cl s1" by (rule au [OF Cons.prems(1) auth])
      show ?thesis
      proof (cases "stop (n + 1)")
        case True
        with go view Cons.prems(1) show ?thesis
          by (intro stopped) (auto simp: claim_loop.simps Let_def)
      next
        case go1: False
        let ?claim = "claim_task (later 10 e) wid tid (co_owner co) (co_claim_lease_ms co) s1"
        have loop: "claim_loop e stop packs wid n (tid # tids) cl co s =
           (case b of
              Inl err \<Rightarrow> (Inl err, (co, s1))
            | Inr False \<Rightarrow> claim_loop (later 20 e) stop packs wid (n + 2) tids cl co s1
            | Inr True \<Rightarrow>
                if stop (n + 2) then (Inr (cl, n + 3), (co, s1))
                else case ?claim of
                  (Inl err, s2) \<Rightarrow>
                    if \<not> is_store_error err then (Inl err, (co, s2))
                    else if error_text err \<in> set ADMISSION_LIMITS then (Inr (cl, n + 3), (co, s2))
                    else if error_text err = ''task_already_claimed'' then
                      claim_loop (later 20 e) stop packs wid (n + 3) tids cl co s2
                    else claim_loop (later 20 e) stop packs wid (n + 3) tids cl
                           (set_error (error_text err) co) s2
                | (Inr (epoch, _), s2) \<Rightarrow>
                    if stop (n + 3) then (Inr (dict_set tid epoch cl, n + 4), (co, s2))
                    else claim_loop (later 20 e) stop packs wid (n + 4) tids
                           (dict_set tid epoch cl) co s2)"
          using go view go1 auth by (simp add: claim_loop.simps t_def Let_def)
        show ?thesis
        proof (cases b)
          case (Inl err)
          with loop Cons.prems P1 show ?thesis by auto
        next
          case (Inr ok)
          show ?thesis
          proof (cases "ok \<and> \<not> stop (n + 2)")
            case False
            show ?thesis
            proof (cases ok)
              case True
              with False loop Inr show ?thesis by (intro stopped [OF _ P1]) auto
            next
              case no: False
              with loop Inr Cons.prems(3)
              have "claim_loop (later 20 e) stop packs wid (n + 2) tids cl co s1 = (r, co', s')"
                by simp
              from Cons.IH [OF P1 Cons.prems(2) this] show ?thesis .
            qed
          next
            case True
            then have auth': "authorize e packs wid (tick_operation t) (t_repository t) tid
                (JObj [(''task_id'', JStr tid), (''status'', JStr (t_status t))]) s = (Inr True, s1)"
              using auth Inr by simp
            obtain x s2 where claim: "?claim = (x, s2)" by (metis surj_pair)
            show ?thesis
            proof (cases x)
              case bad: (Inl err)
              have P2: "P cl s2" using refused [OF P1] claim bad by simp
              have own: "co_owner (set_error m co) = owner" for m
                using Cons.prems(2) by (simp add: set_error_def)
              show ?thesis
              proof (cases "is_store_error err \<and> error_text err \<notin> set ADMISSION_LIMITS")
                case False
                from Cons.prems(3) True claim bad False Cons.prems(2) P2 show ?thesis
                  unfolding loop Inr by (auto split: if_splits)
              next
                case on: True
                show ?thesis
                proof (cases "error_text err = ''task_already_claimed''")
                  case already: True
                  have "claim_loop (later 20 e) stop packs wid (n + 3) tids cl co s2 = (r, co', s')"
                    using Cons.prems(3) True on already claim bad unfolding loop Inr by simp
                  from Cons.IH [OF P2 Cons.prems(2) this] show ?thesis .
                next
                  case other: False
                  have "claim_loop (later 20 e) stop packs wid (n + 3) tids cl
                      (set_error (error_text err) co) s2 = (r, co', s')"
                    using Cons.prems(3) True on other claim bad unfolding loop Inr by simp
                  from Cons.IH [OF P2 own this] show ?thesis .
                qed
              qed
            next
              case good: (Inr epw)
              obtain ep w where epw: "epw = (ep, w)" by force
              have "claim_task (later 10 e) wid tid owner (co_claim_lease_ms co) s1 = (Inr (ep, w), s2)"
                using claim good epw Cons.prems(2) by simp
              then have P2: "P (dict_set tid ep cl) s2"
                by (rule claimed [OF Cons.prems(1) auth'])
              show ?thesis
              proof (cases "stop (n + 3)")
                case stop3: True
                from Cons.prems(3) True claim good epw stop3 Cons.prems(2) P2 show ?thesis
                  unfolding loop Inr by auto
              next
                case go3: False
                have "claim_loop (later 20 e) stop packs wid (n + 4) tids (dict_set tid ep cl) co s2
                    = (r, co', s')"
                  using Cons.prems(3) True go3 claim good epw unfolding loop Inr by simp
                from Cons.IH [OF P2 Cons.prems(2) this] show ?thesis .
              qed
            qed
          qed
        qed
      qed
    qed
  qed
qed

lemma cacts_claim_loop: "cacts s (claim_loop e stop packs wid n tids claimed co s)"
proof -
  obtain r co' s' where loop: "claim_loop e stop packs wid n tids claimed co s = (r, (co', s'))"
    by (metis surj_pair)
  have "co_owner co' = co_owner co \<and> (\<exists>cl'. acts s s' \<and> (\<forall>c m. r = Inr (c, m) \<longrightarrow> cl' = c))"
  proof (rule claim_loop_keeps [where P = "\<lambda>_. acts s", OF _ _ _ _ refl loop])
    show "acts s s2" if "acts s s1" "authorize e packs wid op repo tid inp s1 = (r, s2)"
      for e op repo tid inp r s1 s2
      using acts_trans [OF that(1) acts_authorize] that(2) by (metis snd_conv)
    show "acts s s2" if "acts s s1" "claim_task e wid tid ow l s1 = (Inl err, s2)"
      for e tid ow l err s1 s2
      using acts_trans [OF that(1) acts_window_ops(3)] that(2) by (metis snd_conv)
    show "acts s s3" if "acts s s1" "authorize e packs wid op repo tid inp s1 = (Inr True, s2)"
        "claim_task e' wid tid (co_owner co) l s2 = (Inr (ep, w), s3)"
      for e op repo tid inp e' l ep w s1 s2 s3
      using acts_trans [OF acts_trans [OF that(1) acts_authorize] acts_window_ops(3)] that(2,3)
      by (metis snd_conv)
  qed simp
  with loop show ?thesis by simp
qed

lemma cacts_refresh_each: "cacts s (refresh_each e gids co s)"
proof (induction e gids co s rule: refresh_each.induct)
  case (1 e co s)
  then show ?case by simp
next
  case (2 e gid gids co s)
  have "acts s s1" if "refresh_goal_status e gid s = (b, s1)" for b s1
    using acts_goal_ops(4) [of s e gid] that by simp
  with 2 show ?case by (auto intro: acts_trans split: prod.split sum.split)
qed

lemma cacts_refresh_claimed: "cacts s (refresh_claimed_goals e tids co s)"
  by (simp add: refresh_claimed_goals_def cacts_refresh_each split: prod.split)

lemma acts_abandon_each: "acts s (snd (abandon_each e wid ow reason cs s))"
proof (induction e wid ow reason cs s rule: abandon_each.induct)
  case (1 e wid ow reason s)
  then show ?case by simp
next
  case (2 e wid ow reason tid ep rest s)
  have ab: "acts s s1" if "abandon_task_claim e wid tid ow ep reason s = (b, s1)" for b s1
    using acts_window_ops(4) [of s e wid tid ow ep reason] that by simp
  show ?case
    using 2
    by (auto intro: ab acts_trans [OF ab] intro!: acts_andthen split: prod.split sum.split)
qed

lemma cacts_abandon_claimed: "cacts s (abandon_claimed e wid cs reason co s)"
  unfolding abandon_claimed_def
  by (auto simp: Let_def intro!: cacts_andthen cacts_on_db acts_abandon_each cacts_refresh_claimed)

section \<open>Executors\<close>

locale acting =
  fixes run :: "env \<Rightarrow> string \<Rightarrow> db \<Rightarrow> 'a step"
  assumes run_acts: "acts s (snd (run e tid s))"
begin

lemma run_result: "run e tid s = (r, s') \<Longrightarrow> acts s s'"
  using run_acts [of s e tid] by simp

lemma run_system: "run e tid s = (r, s') \<Longrightarrow> system s \<Longrightarrow> system s'"
  using run_result acts_system by blast

lemma runs_evolve: "run e tid s = (r, s') \<Longrightarrow> system s \<Longrightarrow> evolves s s'"
  using run_result acts_evolves by blast

end

lemma acts_task_ops:
  "acts s (snd (transition_to e tid st s))" "acts s (snd (add_event e tid ty ti d l m s))"
  "acts s (snd (set_changed_files e tid fs s))" "acts s (snd (add_evidence e tid i s))"
  "acts s (snd (set_validation_result e tid c x dg s))" "acts s (snd (classify_failure e tid c d s))"
  using acts_store [of s "TransitionTo e tid st"] acts_store [of s "AddEvent e tid ty ti d l m"]
    acts_store [of s "SetChangedFiles e tid fs"] acts_store [of s "AddEvidence e tid i"]
    acts_store [of s "SetValidation e tid c x dg"] acts_store [of s "ClassifyFailure e tid c d"]
  by simp_all

interpretation stepping: task_relation acts tid for tid
  by unfold_locales (auto intro: acts_trans acts_task_ops)

section \<open>Batches\<close>

text \<open>
  The coordinator over an executor that goes through the stores: everything a worker, a batch
  or a tick does is a sequence of store calls too.
\<close>

locale batch_executor = acting run for run :: executor
begin

lemma acts_complete_worker: "acts s (snd (complete_worker e run wid ow ep a s))"
  unfolding complete_worker_def Let_def
  by (intro acts_andthen acts_cases run_acts acts_window_ops)

lemma acts_assignment: "acts s (snd (execute_assignment e run wid ow cs a s))"
proof -
  have done1: "acts s s1" if "complete_worker e run wid ow ep a s = (r, s1)" for ep r s1
    using acts_complete_worker [of s e wid ow ep a] that by simp
  have gone: "acts s1 s2" if "abandon_task_claim e' wid tid ow ep x s1 = (r, s2)" for e' tid ep x r s1 s2
    using acts_window_ops(4) [of s1 e' wid tid ow ep x] that by simp
  show ?thesis
    unfolding execute_assignment_def catch_def
    by (auto intro: done1 acts_trans [OF done1 gone] split: option.split prod.split sum.split)
qed

lemma acts_run_workers:
  "acts s (snd (run_workers e (\<lambda>e' a. execute_assignment e' run wid ow cs a) as s))"
  by (induction "e" "\<lambda>e' a. execute_assignment e' run wid ow cs a" "as" s rule: run_workers.induct)
    (auto intro!: acts_andthen acts_assignment)

lemma acts_team_graph:
  "acts s (snd (team_graph e (\<lambda>e' a. execute_assignment e' run wid ow cs a) as s))"
  unfolding team_graph_def
  by (intro acts_cases acts_andthen acts_run_workers)

lemma cacts_graph_failed: "cacts s (graph_failed e wid cs err co s)"
  unfolding graph_failed_def
  by (auto simp: Let_def intro!: cacts_andthen cacts_on_db acts_abandon_each cacts_refresh_claimed)

lemma cacts_batch_finished: "cacts s (batch_finished e cs team co s)"
  unfolding batch_finished_def
  by (intro cacts_andthen) (auto simp: Let_def cacts_refresh_claimed)

lemma cacts_batch: "cacts s (execute_claimed_batch e run wid cs co s)"
proof -
  have graph: "acts s s1"
    if "team_graph e (\<lambda>e' a. execute_assignment e' run wid ow cs a) as s = (r, s1)" for ow as r s1
    using acts_team_graph [of s e wid ow cs as] that by simp
  show ?thesis
    unfolding execute_claimed_batch_def Let_def
    by (auto intro: acts_trans [OF graph cacts_graph_failed] acts_trans [OF graph cacts_batch_finished]
        split: prod.split sum.split)
qed

lemma cacts_dispatch: "cacts s (dispatch_claimed e b run wid cs co s)"
proof -
  have "cacts s (andthen (abandon_claimed e wid cs x co1 s) (\<lambda>_ y. (Inr m, y)))" for x co1 m
    by (intro cacts_andthen cacts_abandon_claimed) simp
  moreover have "acts s s2" if "execute_claimed_batch e run wid cs co1 s = (r, (co2, s2))" for co1 r co2 s2
    using cacts_batch [of s e wid cs co1] that by simp
  ultimately show ?thesis
    unfolding dispatch_claimed_def by (auto simp: Let_def split: prod.split)
qed

lemma cacts_tick: "cacts s (tick e stop packs run co s)"
proof -
  have active: "acts s s1" if "active_window e None s = (w, s1)" for w s1
    using acts_window_ops(2) [of s e None] that by simp
  have "cacts t (andthen (claim_loop e' stop packs wid n ts cl co1 t)
      (\<lambda>(c, m) (co2, s2). if c = [] then (Inr 0, (co2, s2))
         else dispatch_claimed e'' (stop m) run wid c co2 s2))" for t e' e'' wid n ts cl co1
    by (intro cacts_andthen cacts_claim_loop) (auto simp: cacts_dispatch)
  then show ?thesis
    unfolding tick_def
    by (auto simp: Let_def intro: active acts_trans [OF active] split: prod.split option.split)
qed

lemma acts_round: "acts s (snd (run_round e stop packs run co s))"
  using cacts_tick [of s e stop packs co]
  by (auto simp: run_round_def split: prod.splits sum.split)

end

interpretation fixture_run: acting "\<lambda>e. execute_task e kw (fixture_execute h root) c" for kw h root c
  by unfold_locales (rule stepping.R_execute_task, rule stepping.R_fixture)

text \<open>The coordinator's own executor, when fixtures are all it runs.\<close>

interpretation fixture_batch: batch_executor "coordinator_execute h root False (\<lambda>e. execute_task e
    (\<lambda>_. None) (fixture_execute h root) ''git_diff_check'')" for h root
  by unfold_locales
    (auto simp: coordinator_execute_def fixture_run.run_acts split: sum.split)

end
