(* ===== verification/Launch_Laws.thy ===== *)
theory Launch_Laws
  imports Service_Steps
begin

text \<open>
  What launching a goal writes: one task and one link for each task of the plan, and nothing
  else in the tables of tasks and links; then the goal's status.
\<close>

section \<open>Creating one task\<close>

lemma viewed_id: "get_task tid lim s = Inr v \<Longrightarrow> t_id (tv_row v) = tid"
  by (auto simp: get_task_def row_to_task_def task_row_of_def Let_def
      split: option.splits dest: find_SomeD)

text \<open>The effect of a successful creation, by whether the idempotency key was used before.\<close>

lemma create_taskE:
  assumes "create_task e q s = (Inr view, s')" and "q_idempotency_key q \<noteq> ''''"
  obtains (again) k t where "existing_request (q_idempotency_key q) s = Some (k, t)" "s' = s"
      "t_id (tv_row view) = ik_task_id k" "same_request q k t"
  | (fresh) row u where "existing_request (q_idempotency_key q) s = None"
      "row = (new_task_row e q)\<lparr>t_updated_at := u\<rparr>"
      "t_id (tv_row view) = t_id row" "t_id row \<notin> t_id ` set (tasks s)"
      "q_idempotency_key q \<notin> ik_key ` set (idempotency_keys s)"
      "tasks s' = tasks s @ [row]" "idempotency_keys s' = idempotency_keys s @ [new_key_row e q (t_id row)]"
      "goals s' = goals s" "goal_task_links s' = goal_task_links s" "windows s' = windows s"
proof (cases "existing_request (q_idempotency_key q) s")
  case None
  with assms have impl: "create_task_impl e q s = (Inr view, s')"
    by (auto simp: create_task_def split: if_splits)
  let ?row = "new_task_row e q"
  from impl assms(2) have new: "t_id ?row \<notin> t_id ` set (tasks s)"
      "q_idempotency_key q \<notin> ik_key ` set (idempotency_keys s)"
    by (auto simp: create_task_impl_def andthen_ok insert_task_row_def insert_key_row_def
        new_key_row_def sql_insert_def list_ex_iff Let_def split: if_splits)
  have touch: "sql_update (\<lambda>r. t_id r = t_id ?row) f (tasks s) = tasks s" for f
    using new(1) by (intro sql_update_none) (metis image_eqI)
  let ?s2 = "s\<lparr>tasks := tasks s @ [?row],
      idempotency_keys := idempotency_keys s @ [new_key_row e q (t_id ?row)]\<rparr>"
  have "insert_task_row e q s = (Inr ?row, s\<lparr>tasks := tasks s @ [?row]\<rparr>)"
    using new(1) by (auto simp: insert_task_row_def sql_insert_def list_ex_iff Let_def)
  moreover have "insert_key_row e q (t_id ?row) (s\<lparr>tasks := tasks s @ [?row]\<rparr>) = (Inr (), ?s2)"
    using new(2) assms(2)
    by (auto simp: insert_key_row_def sql_insert_def list_ex_iff new_key_row_def)
  ultimately have "andthen (append_event (later 1 e) (t_id ?row) ''DISCOVERED'' ''Task queued''
      (''Task created for '' @ q_repository q) ''''
      (Some (JObj [(''executor_kind'', JStr (q_executor_kind q)), (''status'', JStr ''QUEUED'')])) ?s2)
      (\<lambda>_ s3. return_task (t_id ?row) None s3) = (Inr view, s')"
    using impl unfolding create_task_impl_def by simp
  then obtain ev s3 where s3: "append_event (later 1 e) (t_id ?row) ''DISCOVERED'' ''Task queued''
      (''Task created for '' @ q_repository q) ''''
      (Some (JObj [(''executor_kind'', JStr (q_executor_kind q)), (''status'', JStr ''QUEUED'')])) ?s2
        = (Inr ev, s3)" and ret: "return_task (t_id ?row) None s3 = (Inr view, s')"
    unfolding andthen_ok by blast
  have s': "s3 = s'" using ret by (simp add: return_task_def)
  have view: "t_id (tv_row view) = t_id ?row"
    using ret by (intro viewed_id [of _ None s3]) (simp add: return_task_def s')
  have "s' = update_task_fields (later 1 (later 1 e)) (t_id ?row) id
      (?s2\<lparr>task_events := task_events s @ [ev]\<rparr>)"
    using s3 by (auto simp: s' append_event_def Let_def split: if_splits)
  then have "tasks s' = tasks s @ [?row\<lparr>t_updated_at := utc (later 1 (later 1 e)) 0\<rparr>]"
    "goals s' = goals s" "idempotency_keys s' = idempotency_keys s @ [new_key_row e q (t_id ?row)]"
    "goal_task_links s' = goal_task_links s" "windows s' = windows s"
    by (simp_all add: update_task_fields_def table_simps touch)
  note this view
  then show thesis
    using new by (intro fresh [OF None refl, of "utc (later 1 (later 1 e)) 0"]) simp_all
next
  case (Some kt)
  obtain k t where kt: "kt = (k, t)" by force
  from assms(1) Some kt show thesis
    by (intro again) (auto simp: create_task_def return_task_def assms(2) dest: viewed_id split: if_splits)
qed

lemma create_task_fresh:
  assumes "create_task e q s = (Inr view, s')" "q_idempotency_key q \<noteq> ''''"
    and none: "existing_request (q_idempotency_key q) s = None"
  obtains row u where "row = (new_task_row e q)\<lparr>t_updated_at := u\<rparr>"
      "t_id (tv_row view) = t_id row" "t_id row \<notin> t_id ` set (tasks s)"
      "tasks s' = tasks s @ [row]"
      "idempotency_keys s' = idempotency_keys s @ [new_key_row e q (t_id row)]"
      "goal_task_links s' = goal_task_links s"
proof (cases rule: create_taskE [OF assms(1,2)])
  case (1 k t)
  with none show ?thesis by simp
next
  case (2 row u)
  then show ?thesis by (intro that [of row u])
qed

lemma create_task_persists:
  assumes "create_task e q s = (Inr view, s')" and "q_idempotency_key q \<noteq> ''''"
  shows "task_row_of (t_id (tv_row view)) s' \<noteq> None"
    and "\<exists>k \<in> set (idempotency_keys s'). ik_key k = q_idempotency_key q \<and> ik_task_id k = t_id (tv_row view)"
    and "goals s' = goals s" and "goal_task_links s' = goal_task_links s" and "windows s' = windows s"
  using assms
  by (cases rule: create_taskE;
      auto simp: existing_request_def task_row_of_def find_None_iff new_key_row_def
        split: option.splits dest: find_SomeD)+

section \<open>Launching one task of the plan\<close>

text \<open>The task of the plan is in the store under its key, and linked.\<close>

definition materialized :: "goal_row \<Rightarrow> planned_task \<Rightarrow> db \<Rightarrow> bool" where
  "materialized g t s \<longleftrightarrow>
     (\<exists>k \<in> set (idempotency_keys s). ik_key k = launch_key g t \<and> task_row_of (ik_task_id k) s \<noteq> None \<and>
        (\<exists>l \<in> set (goal_task_links s). gl_task_id l = ik_task_id k \<or>
           (gl_goal_id l = g_id g \<and> gl_goal_revision l = g_revision g \<and> gl_plan_task_id l = pt_id t)))"

lemma launch_key_nonempty [simp]: "launch_key g t \<noteq> ''''"
  by (simp add: launch_key_def)

lemma launch_request_key [simp]: "q_idempotency_key (launch_request g w t) = launch_key g t"
  by (simp add: launch_request_def)

lemma link_tolerant_ok:
  "link_tolerant (link_goal_task gid n p tid ds q s) =
     (Inr (), snd (link_goal_task gid n p tid ds q s))"
  by (auto simp: link_tolerant_def link_goal_task_def sql_insert_def Let_def split: prod.split sum.split)

lemma link_rows:
  "s' = snd (link_goal_task gid n p tid ds q s) \<Longrightarrow>
     (\<exists>l \<in> set (goal_task_links s'). gl_task_id l = tid \<or>
        (gl_goal_id l = gid \<and> gl_goal_revision l = n \<and> gl_plan_task_id l = p))
     \<and> goals s' = goals s \<and> tasks s' = tasks s \<and> windows s' = windows s
     \<and> idempotency_keys s' = idempotency_keys s"
  by (auto simp: link_goal_task_def sql_insert_def list_ex_iff Let_def)

lemma launch_oneE:
  assumes "launch_one e g w n raw s = (Inr u, s')"
  obtains t view s1 where "normalize_task raw n = Inr t"
    "create_task e (launch_request g w t) s = (Inr view, s1)"
    "s' = snd (link_goal_task (g_id g) (g_revision g) (pt_id t) (t_id (tv_row view))
                 (pt_dependencies t) (int n) s1)"
  using assms
  by (auto simp: launch_one_def andthen_ok link_tolerant_ok split: sum.splits)

lemma launch_one_materializes:
  assumes "launch_one e g w n raw s = (Inr u, s')"
  shows "\<exists>t. normalize_task raw n = Inr t \<and> materialized g t s'"
    and "goals s' = goals s"
proof -
  obtain t view s1 where t: "normalize_task raw n = Inr t"
    and create: "create_task e (launch_request g w t) s = (Inr view, s1)"
    and link: "s' = snd (link_goal_task (g_id g) (g_revision g) (pt_id t) (t_id (tv_row view))
                 (pt_dependencies t) (int n) s1)"
    by (rule launch_oneE [OF assms])
  note rows = link_rows [OF link]
  note made = create_task_persists [OF create, simplified]
  show "goals s' = goals s" using rows made(3) by simp
  have "task_row_of (t_id (tv_row view)) s' \<noteq> None"
    using rows made(1) by (simp add: task_row_of_def)
  moreover obtain k where "k \<in> set (idempotency_keys s1)" "ik_key k = launch_key g t"
    "ik_task_id k = t_id (tv_row view)"
    using made(2) by blast
  ultimately have "materialized g t s'"
    unfolding materialized_def using rows by (intro bexI [of _ k]) auto
  with t show "\<exists>t. normalize_task raw n = Inr t \<and> materialized g t s'" by blast
qed

lemma materialized_evolves:
  assumes "evolves s s'" "materialized g t s"
  shows "materialized g t s'"
proof -
  have "set (idempotency_keys s) \<subseteq> set (idempotency_keys s')"
    "set (goal_task_links s) \<subseteq> set (goal_task_links s')"
    using assms(1) by (auto simp: evolves_def dest!: append_only)
  moreover have "task_row_of tid s \<noteq> None \<Longrightarrow> task_row_of tid s' \<noteq> None" for tid
    using task_evolves [OF assms(1), of tid] by auto
  ultimately show ?thesis
    using assms(2) unfolding materialized_def by blast
qed

lemma launch_tasks_materialize:
  "launch_tasks e g w n raws s = (Inr u, s') \<Longrightarrow> system s \<Longrightarrow>
   goals s' = goals s \<and>
   (\<forall>i < length raws. \<exists>t. normalize_task (raws ! i) (n + i) = Inr t \<and> materialized g t s')"
proof (induction e g w n raws s arbitrary: u s' rule: launch_tasks.induct)
  case (1 e g w n s)
  then show ?case by simp
next
  case (2 e g w n raw raws s)
  then obtain v s1 where one: "launch_one e g w n raw s = (Inr v, s1)"
    and rest: "launch_tasks (later 10 e) g w (n + 1) raws s1 = (Inr u, s')"
    by (auto simp: andthen_ok)
  have sys: "system s1"
    using acts_system [OF acts_launch_one "2.prems"(2), of e g w n raw] one by simp
  have ev: "evolves s1 s'"
    using acts_evolves [OF acts_launch_tasks sys, of "later 10 e" g w "n + 1" raws] rest by simp
  obtain t where t: "normalize_task raw n = Inr t" "materialized g t s'"
    using launch_one_materializes(1) [OF one] materialized_evolves [OF ev] by blast
  have "goals s' = goals s1 \<and>
    (\<forall>i < length raws. \<exists>t. normalize_task (raws ! i) (n + 1 + i) = Inr t \<and> materialized g t s')"
    using "2.IH" [OF rest sys] by simp
  with t launch_one_materializes(2) [OF one] show ?case
    by (auto simp: All_less_Suc2)
qed

section \<open>The first launch of a plan\<close>

text \<open>Nothing of the goal's revision is in the store yet, and no link is left dangling.\<close>

definition unlaunched :: "goal_row \<Rightarrow> db \<Rightarrow> bool" where
  "unlaunched g s \<longleftrightarrow>
     (\<forall>l \<in> set (goal_task_links s). task_row_of (gl_task_id l) s \<noteq> None
        \<and> \<not> (gl_goal_id l = g_id g \<and> gl_goal_revision l = g_revision g))
     \<and> (\<forall>k \<in> set (idempotency_keys s). \<forall>t. ik_key k \<noteq> launch_key g t)"

definition plan_link :: "goal_row \<Rightarrow> nat \<Rightarrow> planned_task \<Rightarrow> string \<Rightarrow> link_row" where
  "plan_link g n t tid =
     \<lparr>gl_goal_id = g_id g, gl_goal_revision = g_revision g, gl_plan_task_id = pt_id t,
      gl_task_id = tid, gl_dependencies = pt_dependencies t, gl_seq = int n\<rparr>"

definition launched_task :: "goal_row \<Rightarrow> window_row \<Rightarrow> planned_task \<Rightarrow> task_row \<Rightarrow> bool" where
  "launched_task g w t row \<longleftrightarrow>
     t_title row = execution_title g t \<and> t_repository row = g_repository g \<and> t_status row = ''QUEUED''
     \<and> t_executor_kind row = g_executor_kind g \<and> t_policy_ref row = w_policy_id w
     \<and> t_permission_profile row = ''AUTONOMOUS_WINDOW''
     \<and> t_orchestration_mode row = g_orchestration_mode g \<and> t_idempotency_key row = launch_key g t"

text \<open>What holds between two tasks of the loop, when those of \<open>seen\<close> have been launched.\<close>

definition launching :: "goal_row \<Rightarrow> string set \<Rightarrow> db \<Rightarrow> bool" where
  "launching g seen s \<longleftrightarrow>
     (\<forall>l \<in> set (goal_task_links s). task_row_of (gl_task_id l) s \<noteq> None
        \<and> (gl_goal_id l = g_id g \<and> gl_goal_revision l = g_revision g \<longrightarrow> gl_plan_task_id l \<in> seen))
     \<and> (\<forall>k \<in> set (idempotency_keys s). \<forall>t. ik_key k = launch_key g t \<longrightarrow> pt_id t \<in> seen)"

lemma launch_key_inj: "launch_key g t = launch_key g u \<Longrightarrow> pt_id t = pt_id u"
  by (simp add: launch_key_def)

lemma launch_one_fresh:
  assumes one: "launch_one e g w n raw s = (Inr u, s')" and raw: "normalize_task raw n = Inr t"
    and inv: "launching g seen s" and new: "pt_id t \<notin> seen"
  obtains row where "launched_task g w t row" "tasks s' = tasks s @ [row]"
    "goal_task_links s' = goal_task_links s @ [plan_link g n t (t_id row)]"
    "launching g (insert (pt_id t) seen) s'"
proof -
  obtain view s1 where create: "create_task e (launch_request g w t) s = (Inr view, s1)"
    and link: "s' = snd (link_goal_task (g_id g) (g_revision g) (pt_id t) (t_id (tv_row view))
                 (pt_dependencies t) (int n) s1)"
    by (rule launch_oneE [OF one]) (use raw in auto)
  have nokey: "existing_request (launch_key g t) s = None"
    using inv new by (auto simp: existing_request_def launching_def split: option.split dest: find_SomeD)
  obtain row x where row: "row = (new_task_row e (launch_request g w t))\<lparr>t_updated_at := x\<rparr>"
      "t_id (tv_row view) = t_id row" "t_id row \<notin> t_id ` set (tasks s)"
      "tasks s1 = tasks s @ [row]"
      "idempotency_keys s1 = idempotency_keys s @ [new_key_row e (launch_request g w t) (t_id row)]"
      "goal_task_links s1 = goal_task_links s"
    by (rule create_task_fresh [OF create, unfolded launch_request_key, OF launch_key_nonempty nokey])
  have noclash: "\<not> (gl_task_id l = t_id row \<or> (gl_goal_id l = g_id g \<and> gl_goal_revision l = g_revision g
        \<and> gl_plan_task_id l = pt_id t))" if "l \<in> set (goal_task_links s)" for l
    using inv that new row(3)
    by (force simp: launching_def task_row_of_def find_None_iff image_iff)
  have "\<not> list_ex (\<lambda>b. gl_task_id (plan_link g n t (t_id row)) = gl_task_id b \<or>
      gl_goal_id (plan_link g n t (t_id row)) = gl_goal_id b \<and>
      gl_goal_revision (plan_link g n t (t_id row)) = gl_goal_revision b \<and>
      gl_plan_task_id (plan_link g n t (t_id row)) = gl_plan_task_id b) (goal_task_links s)"
    unfolding list_ex_iff plan_link_def using noclash by fastforce
  then have s': "s' = s1\<lparr>goal_task_links := goal_task_links s @ [plan_link g n t (t_id row)]\<rparr>"
    unfolding link link_goal_task_def sql_insert_def Let_def row(2) row(6) plan_link_def by simp
  show thesis
  proof (rule that)
    show "launched_task g w t row"
      by (simp add: launched_task_def row(1) new_task_row_def launch_request_def Let_def)
    show "tasks s' = tasks s @ [row]" by (simp add: s' row)
    show "goal_task_links s' = goal_task_links s @ [plan_link g n t (t_id row)]" by (simp add: s')
    have keep: "task_row_of tid s' \<noteq> None" if "task_row_of tid s \<noteq> None" for tid
      using that by (auto simp: s' row task_row_of_def find_append split: option.split)
    have here: "task_row_of (t_id row) s' \<noteq> None"
      by (auto simp: s' row(4) task_row_of_def find_append split: option.split)
    show "launching g (insert (pt_id t) seen) s'"
      using inv keep here
      by (auto simp: launching_def s' row(5) new_key_row_def plan_link_def dest: launch_key_inj)
  qed
qed

lemma launch_tasks_fresh:
  "launch_tasks e g w n raws s = (Inr u, s') \<Longrightarrow>
   \<forall>i < length raws. normalize_task (raws ! i) (n + i) = Inr (ts ! i) \<Longrightarrow> length ts = length raws \<Longrightarrow>
   distinct (map pt_id ts) \<Longrightarrow> launching g seen s \<Longrightarrow> seen \<inter> pt_id ` set ts = {} \<Longrightarrow>
   \<exists>rows. length rows = length ts \<and> list_all2 (launched_task g w) ts rows \<and> tasks s' = tasks s @ rows \<and>
     goal_task_links s' = goal_task_links s
       @ map (\<lambda>(i, t, row). plan_link g i t (t_id row)) (zip [n..<n + length ts] (zip ts rows))"
proof (induction e g w n raws s arbitrary: u s' ts seen rule: launch_tasks.induct)
  case (1 e g w n s)
  then show ?case by simp
next
  case (2 e g w n raw raws s)
  then obtain t ts1 where ts: "ts = t # ts1" by (cases ts) auto
  from "2.prems"(1) obtain v s1 where one: "launch_one e g w n raw s = (Inr v, s1)"
    and rest: "launch_tasks (later 10 e) g w (n + 1) raws s1 = (Inr u, s')"
    by (auto simp: andthen_ok)
  from "2.prems"(2) ts have raw: "normalize_task raw n = Inr t"
    and raws: "\<forall>i < length raws. normalize_task (raws ! i) (n + 1 + i) = Inr (ts1 ! i)"
    by (auto simp: All_less_Suc2)
  obtain row where row: "launched_task g w t row" "tasks s1 = tasks s @ [row]"
    "goal_task_links s1 = goal_task_links s @ [plan_link g n t (t_id row)]"
    "launching g (insert (pt_id t) seen) s1"
    by (rule launch_one_fresh [OF one raw "2.prems"(5)]) (use "2.prems"(6) ts in auto)
  have "\<exists>rows. length rows = length ts1 \<and> list_all2 (launched_task g w) ts1 rows \<and> tasks s' = tasks s1 @ rows \<and>
     goal_task_links s' = goal_task_links s1
       @ map (\<lambda>(i, t, row). plan_link g i t (t_id row)) (zip [n + 1..<n + 1 + length ts1] (zip ts1 rows))"
    by (rule "2.IH" [OF rest raws _ _ row(4)]) (use "2.prems"(3,4,6) ts in auto)
  then obtain rows where rows: "length rows = length ts1" "list_all2 (launched_task g w) ts1 rows"
    "tasks s' = tasks s1 @ rows" "goal_task_links s' = goal_task_links s1
       @ map (\<lambda>(i, t, row). plan_link g i t (t_id row)) (zip [n + 1..<n + 1 + length ts1] (zip ts1 rows))"
    by blast
  have "[n..<n + length ts] = n # [n + 1..<n + 1 + length ts1]"
    by (simp add: ts upt_conv_Cons del: upt_Suc)
  with rows row show ?case
    by (intro exI [of _ "row # rows"]) (simp add: ts)
qed

end
