(* ===== verification/Service_Scenarios.thy ===== *)
theory Service_Scenarios
  imports Scenarios Launch_Laws
begin

text \<open>
  A concrete host for the witnesses of the services: a policy, a goal whose plan has two tasks,
  and the databases of its life from activation to launch.
\<close>

definition sv_lib :: time_lib where
  "sv_lib = \<lparr>parse_iso = (\<lambda>s. if s = ''S'' then Some (True, 0) else if s = ''E'' then Some (True, 86400000000) else None),
     format_iso = (\<lambda>t. if t = 0 then ''2026-01-01T00:00:00+00:00'' else ''2026-01-02T00:00:00+00:00''),
     clock_us = 0\<rparr>"

definition sv_policy :: payload where
  "sv_policy = [(''window_id'', JStr ''w''), (''policy_id'', JStr ''pol''), (''owner_identity'', JStr ''me''),
     (''policy_revision'', JInt 1), (''starts_at'', JStr ''S''), (''expires_at'', JStr ''E''),
     (''repositories'', JArr [JStr ''o/r'']),
     (''capabilities'', JArr [JStr ''execute_task'', JStr ''resume_task'']),
     (''max_concurrent_tasks'', JInt 2), (''max_tasks'', JInt 5), (''max_retries'', JInt 1),
     (''confirmation'', JStr ''ACTIVATE'')]"

definition sv_goal :: payload where
  "sv_goal = [(''title'', JStr ''g''), (''objective'', JStr ''do it''), (''repository'', JStr ''o/r''),
     (''idempotency_key'', JStr ''gk''), (''executor_kind'', JStr ''deterministic_fixture''),
     (''orchestration_mode'', JStr ''single'')]"

definition sv_raws :: "json list" where
  "sv_raws = [JObj [(''id'', JStr ''a''), (''title'', JStr ''A''), (''instruction'', JStr '' do a '')],
     JObj [(''title'', JStr ''B''), (''instruction'', JStr ''do b''), (''dependencies'', JArr [JStr ''a''])]]"

definition sv_goal_id :: string where "sv_goal_id = ''goal-0-2''"

definition open_db :: db where "open_db = run_calls [OpenControl] empty_db"
definition active_db :: db where "active_db = snd (service_activate (wenv 1 0) sv_lib [] sv_policy open_db)"
definition drafted_db :: db where "drafted_db = snd (service_create_goal (wenv 2 0) sv_goal active_db)"
definition planned_db :: db where
  "planned_db = snd (plan_goal (wenv 3 0) False sv_goal_id 1 (JArr [JStr ''ok'']) (JArr sv_raws) drafted_db)"
definition approved_db :: db where "approved_db = snd (approve_goal (wenv 4 0) sv_goal_id 1 '''' planned_db)"
definition launched_db :: db where "launched_db = snd (launch_goal (wenv 5 0) sv_goal_id 1 ''w'' approved_db)"

lemma system_open: "system open_db"
proof -
  have "reachable open_db"
    unfolding open_db_def by (intro reachable_run reachable.new_file)
  moreover have "control_schema open_db" by code_simp
  ultimately show ?thesis by (simp add: system_def)
qed

lemma system_life: "system active_db" "system drafted_db" "system planned_db" "system approved_db"
  "system launched_db"
proof -
  show 1: "system active_db"
    unfolding active_db_def by (rule acts_system [OF acts_service_activate system_open])
  show 2: "system drafted_db"
    unfolding drafted_db_def by (rule acts_system [OF acts_service_create_goal 1])
  show 3: "system planned_db"
    unfolding planned_db_def by (rule acts_system [OF acts_plan_goal 2])
  have "acts planned_db approved_db"
    unfolding approved_db_def
    using acts_control [of planned_db "ApproveGoal (wenv 4 0) sv_goal_id 1 ''''"] by simp
  then show 4: "system approved_db" by (rule acts_system [OF _ 3])
  show "system launched_db"
    unfolding launched_db_def by (rule acts_system [OF acts_launch_goal 4])
qed

text \<open>The goal as approved, and the launch as it happened.\<close>

lemma approved_goal:
  obtains g where "goal_row_of sv_goal_id approved_db = Some g" "g_status g = ''APPROVED''" "g_revision g = 1"
proof -
  have "map_option (\<lambda>g. (g_status g, g_revision g)) (goal_row_of sv_goal_id approved_db)
      = Some (''APPROVED'', 1)"
    by code_simp
  then show thesis using that by auto
qed

lemma launch_happened:
  obtains g where "launch_goal (wenv 5 0) sv_goal_id 1 ''w'' approved_db = (Inr g, launched_db)"
proof -
  have "case fst (launch_goal (wenv 5 0) sv_goal_id 1 ''w'' approved_db) of Inl _ \<Rightarrow> False | Inr _ \<Rightarrow> True"
    by code_simp
  then show thesis
    using that unfolding launched_db_def
    by (cases "launch_goal (wenv 5 0) sv_goal_id 1 ''w'' approved_db") (auto split: sum.splits)
qed

text \<open>What the launch wrote.\<close>

definition sv_view :: "db \<Rightarrow> link_row list \<times> (string \<times> string) list" where
  "sv_view s = (goal_task_links s, map (\<lambda>t. (t_id t, t_status t)) (tasks s))"

definition sv_link :: "string \<Rightarrow> string \<Rightarrow> string list \<Rightarrow> int \<Rightarrow> link_row" where
  "sv_link p tid ds n = \<lparr>gl_goal_id = sv_goal_id, gl_goal_revision = 1, gl_plan_task_id = p,
     gl_task_id = tid, gl_dependencies = ds, gl_seq = n\<rparr>"

lemma launched_view:
  "sv_view launched_db = ([sv_link ''a'' ''task-0-5'' [] 0, sv_link ''T002'' ''task-0-15'' [''a''] 1],
     [(''task-0-5'', ''QUEUED''), (''task-0-15'', ''QUEUED'')])"
  by code_simp

lemma launched_tables:
  obtains a b where "tasks launched_db = [a, b]" "t_id a = ''task-0-5''" "t_id b = ''task-0-15''"
    "t_status a = ''QUEUED''" "t_status b = ''QUEUED''"
    "goal_task_links launched_db = [sv_link ''a'' ''task-0-5'' [] 0, sv_link ''T002'' ''task-0-15'' [''a''] 1]"
  using launched_view that by (auto simp: sv_view_def map_eq_Cons_conv)

end
