(* ===== verification/Planning_Properties.thy ===== *)
theory Planning_Properties
  imports Service_Scenarios
begin

text \<open>
  The properties of goal planning: which plans are accepted, that an accepted plan can always go
  on, that the stored plan is the one that is launched, and what launching writes.
\<close>

section \<open>Accepting a plan\<close>

text \<open>
  C32. A plan is accepted exactly when it has 1 to 50 tasks that normalise one by one, their ids
  are distinct, every dependency is a task of the plan, and the dependencies have no cycle: the
  depth-first search of the code decides acyclicity.
\<close>

theorem plan_accepted_iff:
  "normalize_tasks raws = Inr ts \<longleftrightarrow>
     0 < length raws \<and> length raws \<le> 50 \<and> length ts = length raws
     \<and> (\<forall>i < length raws. normalize_task (raws ! i) i = Inr (ts ! i))
     \<and> distinct (map pt_id ts)
     \<and> (\<forall>t \<in> set ts. set (pt_dependencies t) \<subseteq> pt_id ` set ts)
     \<and> acyclic {(pt_id t, d) | t d. t \<in> set ts \<and> d \<in> set (pt_dependencies t)}"
proof -
  have "snd ` depends_on ts \<subseteq> pt_id ` set ts \<longleftrightarrow>
      (\<forall>t \<in> set ts. set (pt_dependencies t) \<subseteq> pt_id ` set ts)"
    by (force simp: depends_on_def)
  then show ?thesis
    unfolding normalize_tasks_iff plan_ok_def by (auto simp: depends_on_def)
qed

definition sv_plan :: "planned_task list" where
  "sv_plan = [\<lparr>pt_id = ''a'', pt_title = ''A'', pt_instruction = ''do a'', pt_dependencies = [],
       pt_capability = ''execute_task''\<rparr>,
     \<lparr>pt_id = ''T002'', pt_title = ''B'', pt_instruction = ''do b'', pt_dependencies = [''a''],
       pt_capability = ''execute_task''\<rparr>]"

lemma sv_accepted: "normalize_tasks sv_raws = Inr sv_plan"
  by code_simp

theorem plan_accepted_iff_witness:
  "acyclic {(pt_id t, d) | t d. t \<in> set sv_plan \<and> d \<in> set (pt_dependencies t)}"
  using plan_accepted_iff [of sv_raws sv_plan] sv_accepted by blast

text \<open>
  A plan that is refused because of its dependencies is refused with the error the code
  documents, and the search always ends: for a plan of normalised tasks with distinct ids whose
  dependencies all exist and name no task as its own, the check raises the cycle error exactly
  when there is a cycle, and never a KeyError.
\<close>

theorem cyclic_plan_refused:
  assumes "distinct (map pt_id ts)" "\<forall>t \<in> set ts. set (pt_dependencies t) \<subseteq> pt_id ` set ts - {pt_id t}"
  shows "check_plan ts =
     (if acyclic {(pt_id t, d) | t d. t \<in> set ts \<and> d \<in> set (pt_dependencies t)} then Inr ts
      else Inl (TaskStoreError ''cyclic_plan_task_dependencies''))"
proof -
  have nobad: "find (bad_dependencies (map pt_id ts)) ts = None"
    using assms(2) by (auto simp: find_None_iff bad_dependencies_def)
  have closed: "b \<in> fst ` set (plan_graph_of ts)" if "(a, b) \<in> plan_edges (plan_graph_of ts)" for a b
    using that assms(2) unfolding plan_edges_graph [OF assms(1)]
    by (force simp: depends_on_def plan_graph_of_def)
  have "err = TaskStoreError ''cyclic_plan_task_dependencies''"
    if "visit_all (plan_graph_of ts) [] [] (map pt_id ts) = Inl err" for err
    by (rule visit_error(2) [OF that closed]) (auto simp: plan_graph_of_def image_iff)
  moreover have "check_plan ts = map_sum id (\<lambda>_. ts) (visit_all (plan_graph_of ts) [] [] (map pt_id ts))"
    using assms(1) nobad length_dict_fromkeys [of "map pt_id ts"] by (simp add: check_plan_def)
  moreover have "(\<exists>us. check_plan ts = Inr us) \<longleftrightarrow> acyclic (depends_on ts)"
    using check_plan_iff [of ts ts] check_plan_iff [of ts] assms no_bad_dependencies [of ts] nobad
    by (auto simp: plan_ok_def)
  ultimately show ?thesis
    unfolding depends_on_def [symmetric]
    by (cases "visit_all (plan_graph_of ts) [] [] (map pt_id ts)") auto
qed

definition sv_loop :: "planned_task list" where
  "sv_loop = map (\<lambda>(i, d). \<lparr>pt_id = i, pt_title = ''t'', pt_instruction = ''i'',
     pt_dependencies = [d], pt_capability = ''execute_task''\<rparr>) [(''a'', ''b''), (''b'', ''c''), (''c'', ''a'')]"

theorem cyclic_plan_refused_witness:
  "check_plan sv_loop = Inl (TaskStoreError ''cyclic_plan_task_dependencies'') \<and>
   \<not> acyclic {(pt_id t, d) | t d. t \<in> set sv_loop \<and> d \<in> set (pt_dependencies t)}"
proof -
  have "check_plan sv_loop = Inl (TaskStoreError ''cyclic_plan_task_dependencies'')"
    by code_simp
  moreover have "distinct (map pt_id sv_loop)"
    "\<forall>t \<in> set sv_loop. set (pt_dependencies t) \<subseteq> pt_id ` set sv_loop - {pt_id t}"
    by (simp_all add: sv_loop_def)
  note cyclic_plan_refused [OF this]
  ultimately show ?thesis by (auto split: if_splits)
qed

section \<open>An accepted plan can always go on\<close>

text \<open>
  A running goal is never stuck on its dependencies. When the links of a goal's revision
  are those of an accepted plan and each names a task of the store, then as long as one of the
  tasks is not ready for review, some task that is not ready has all its dependencies ready.
\<close>

theorem launched_plan_never_stuck:
  assumes "normalize_tasks raws = Inr ts"
    and linked: "\<forall>t \<in> set ts. \<exists>l. find (\<lambda>l. gl_goal_id l = gid \<and> gl_goal_revision l = revn
            \<and> gl_plan_task_id l = pt_id t) (goal_task_links s) = Some l
          \<and> gl_dependencies l = pt_dependencies t \<and> task_row_of (gl_task_id l) s \<noteq> None"
    and "\<exists>t \<in> set ts. \<not> (\<exists>st \<in> set READY_STATUSES. plan_task_status gid revn (pt_id t) s = Some st)"
  shows "\<exists>l \<in> set (goal_task_links s). gl_goal_id l = gid \<and> gl_goal_revision l = revn
     \<and> (\<exists>row. task_row_of (gl_task_id l) s = Some row \<and> t_status row \<notin> set READY_STATUSES)
     \<and> list_all (dependency_ready l s) (gl_dependencies l)"
proof -
  define ready where "ready = {i. \<exists>st \<in> set READY_STATUSES. plan_task_status gid revn i s = Some st}"
  have "plan_ok ts" using assms(1) by (simp add: normalize_tasks_iff)
  moreover have "\<not> pt_id ` set ts \<subseteq> ready" using assms(3) by (auto simp: ready_def)
  ultimately obtain t where t: "t \<in> set ts" "pt_id t \<notin> ready" "set (pt_dependencies t) \<subseteq> ready"
    by (rule plan_ok_progress)
  from linked t(1) obtain l where l: "find (\<lambda>l. gl_goal_id l = gid \<and> gl_goal_revision l = revn
        \<and> gl_plan_task_id l = pt_id t) (goal_task_links s) = Some l"
      "gl_dependencies l = pt_dependencies t" "task_row_of (gl_task_id l) s \<noteq> None"
    by blast
  obtain row where row: "task_row_of (gl_task_id l) s = Some row" using l(3) by auto
  have keys: "l \<in> set (goal_task_links s)" "gl_goal_id l = gid" "gl_goal_revision l = revn"
    using find_SomeD [OF l(1)] by auto
  have "plan_task_status gid revn (pt_id t) s = Some (t_status row)"
    by (simp add: plan_task_status_def l(1) row)
  with t(2) have "t_status row \<notin> set READY_STATUSES" by (auto simp: ready_def)
  moreover have "list_all (dependency_ready l s) (gl_dependencies l)"
    using t(3) by (auto simp: list_all_iff dependency_ready_def keys l(2) ready_def split: option.split)
  ultimately show ?thesis using keys row by blast
qed

theorem launched_plan_never_stuck_witness:
  "\<exists>l \<in> set (goal_task_links launched_db). gl_goal_id l = sv_goal_id
     \<and> list_all (dependency_ready l launched_db) (gl_dependencies l)"
proof -
  obtain a b where tab: "tasks launched_db = [a, b]" "t_id a = ''task-0-5''" "t_id b = ''task-0-15''"
    "t_status a = ''QUEUED''" "t_status b = ''QUEUED''"
    "goal_task_links launched_db = [sv_link ''a'' ''task-0-5'' [] 0, sv_link ''T002'' ''task-0-15'' [''a''] 1]"
    by (rule launched_tables)
  have linked: "\<forall>t \<in> set sv_plan. \<exists>l. find (\<lambda>l. gl_goal_id l = sv_goal_id \<and> gl_goal_revision l = 1
            \<and> gl_plan_task_id l = pt_id t) (goal_task_links launched_db) = Some l
          \<and> gl_dependencies l = pt_dependencies t \<and> task_row_of (gl_task_id l) launched_db \<noteq> None"
    by (simp add: sv_plan_def tab sv_link_def task_row_of_def)
  have "\<exists>t \<in> set sv_plan. \<not> (\<exists>st \<in> set READY_STATUSES. plan_task_status sv_goal_id 1 (pt_id t) launched_db = Some st)"
    by (simp add: sv_plan_def READY_STATUSES_def plan_task_status_def tab sv_link_def task_row_of_def)
  from launched_plan_never_stuck [OF sv_accepted linked this] show ?thesis by blast
qed

section \<open>From the plan to the launch\<close>

section \<open>From the plan to the launch\<close>

lemma goal_updateE:
  assumes "goal_update gid guard f err s = (Inr g, s')" and "\<And>g. g_id (f g) = g_id g" and "system s"
  obtains a where "goal_row_of gid s = Some a" "guard a" "g = f a" "goal_row_of gid s' = Some g"
    "s' = s\<lparr>goals := goals s'\<rparr>"
proof -
  let ?hit = "\<lambda>g. g_id g = gid \<and> guard g"
  have s': "s' = s\<lparr>goals := sql_update ?hit f (goals s)\<rparr>" and n: "sql_count ?hit (goals s) = 1"
    and g: "goal_row_of gid s' = Some g"
    using assms(1) by (auto simp: goal_update_def return_goal_def get_goal_def Let_def split: if_splits option.splits)
  obtain a where a: "a \<in> set (goals s)" "g_id a = gid" "guard a"
    using n sql_count_pos [of ?hit "goals s"] by auto
  have "distinct (map g_id (goals s))"
    using reachable_keys [of s] assms(3) by (auto simp: keys_ok_def)
  then have row: "goal_row_of gid s = Some a"
    unfolding goal_row_of_def using a by (intro find_distinct_key) auto
  have "goal_row_of gid s' = map_option (\<lambda>r. if ?hit r then f r else r) (goal_row_of gid s)"
    unfolding goal_row_of_def by (simp add: s' find_sql_update assms(2))
  with row a g that show thesis by (auto simp: s')
qed

text \<open>
  C33. The plan an owner approves is the plan that is launched: whatever a caller passes to
  \<open>plan\<close>, normalising the stored tasks again, as \<open>launch\<close> does, gives back exactly the tasks that
  were planned and displayed, the caller's own when there were any.
\<close>

theorem stored_plan_roundtrip:
  assumes "plan_goal e k gid revn acceptance (JArr raws) s = (Inr p, s')" "system s"
  shows "\<exists>ts. g_tasks (gp_goal p) = map (\<lambda>t. json_canon (planned_json t)) ts
     \<and> normalize_tasks (g_tasks (gp_goal p)) = Inr ts
     \<and> (if raws = [] then ts = derive_tasks (the (goal_row_of gid s)) (g_acceptance (gp_goal p))
        else normalize_tasks raws = Inr ts)
     \<and> goal_row_of gid s' = Some (gp_goal p) \<and> g_status (gp_goal p) = ''PLANNED''
     \<and> g_revision (gp_goal p) = revn"
proof -
  from assms(1) obtain g where g: "get_goal gid s = Inr g" "g_revision g = revn" "is_array acceptance"
    by (auto simp: plan_goal_def split: sum.splits if_splits)
  define lines where "lines = clean_lines (array_items acceptance)"
  define crit where "crit = (if lines = [] then derive_acceptance (g_objective g) else lines)"
  from assms(1) g obtain ts where
    ts: "(if raws = [] then Inr (derive_tasks g crit) else normalize_tasks raws) = Inr ts"
    and save: "save_goal_plan e gid revn (render_spec g crit) (render_plan g ts) (map planned_json ts) crit s
        = (Inr (gp_goal p), s')"
    by (auto simp: plan_goal_def Let_def andthen_ok simp flip: lines_def crit_def
        split: sum.splits option.splits if_splits)
  have ok: "(\<forall>t \<in> set ts. planned_ok t) \<and> plan_ok ts \<and> ts \<noteq> [] \<and> length ts \<le> 50"
  proof (cases "raws = []")
    case True
    with ts have "ts = derive_tasks g crit" by simp
    then show ?thesis
      using derived_tasks_ok [OF criteria_ok [OF crit_def lines_def]] derived_plan_ok
      by (auto simp: derive_tasks_def)
  next
    case False
    with ts have "normalize_tasks raws = Inr ts" by simp
    then show ?thesis
      using normalize_task_ok by (fastforce simp: normalize_tasks_iff in_set_conv_nth)
  qed
  from save obtain x where x: "gp_goal p = x\<lparr>g_status := ''PLANNED'',
        g_spec_markdown := render_spec g crit, g_plan_markdown := render_plan g ts,
        g_tasks := map json_canon (map planned_json ts), g_acceptance := crit,
        g_artifact_digest := sha256_json e (plan_payload gid revn (render_spec g crit)
           (render_plan g ts) (map planned_json ts) crit), g_updated_at := utc e 0\<rparr>"
      "g_revision x = revn" "goal_row_of gid s' = Some (gp_goal p)"
    unfolding save_goal_plan_def Let_def
    by (auto split: option.splits elim!: goal_updateE [OF _ _ assms(2)])
  have "goal_row_of gid s = Some g"
    using g(1) by (auto simp: get_goal_def split: option.splits)
  with x ts normalize_planned_all [of ts] ok show ?thesis
    by (intro exI [of _ ts]) (auto simp: o_def split: if_splits)
qed

theorem stored_plan_roundtrip_witness:
  "\<exists>p. fst (plan_goal (wenv 3 0) False sv_goal_id 1 (JArr [JStr ''ok'']) (JArr sv_raws) drafted_db) = Inr p
     \<and> normalize_tasks (g_tasks (gp_goal p)) = Inr sv_plan"
proof -
  have "case fst (plan_goal (wenv 3 0) False sv_goal_id 1 (JArr [JStr ''ok'']) (JArr sv_raws) drafted_db) of
      Inl _ \<Rightarrow> False | Inr _ \<Rightarrow> True"
    by code_simp
  then obtain p where p: "plan_goal (wenv 3 0) False sv_goal_id 1 (JArr [JStr ''ok'']) (JArr sv_raws) drafted_db
      = (Inr p, planned_db)"
    unfolding planned_db_def
    by (cases "plan_goal (wenv 3 0) False sv_goal_id 1 (JArr [JStr ''ok'']) (JArr sv_raws) drafted_db")
      (auto split: sum.splits)
  from stored_plan_roundtrip [OF p system_life(2)] sv_accepted p show ?thesis
    by (auto simp: sv_raws_def split: if_splits)
qed

text \<open>
  A launch that returns a goal that was approved has checked the window (active, with the
  repository and the capability), leaves the goal RUNNING in that window with the approved
  plan, and has put every task of the plan into the store under its own key, linked.
\<close>

lemma launch_steps:
  assumes "launch_goal e gid revn wid s = (Inr g', s')" "goal_row_of gid s = Some g"
    "\<not> (g_status g = ''RUNNING'' \<and> g_window_id g = wid)" "system s"
  obtains w s1 u where "g_revision g = revn" "g_status g = ''APPROVED''"
    "window_row_of wid s = Some w" "w_status w = ''ACTIVE''" "g_repository g \<in> set (w_repositories w)"
    "''execute_task'' \<in> set (w_capabilities w)" "launch_tasks e g w 0 (g_tasks g) s = (Inr (), s1)"
    "goals s1 = goals s" "g' = g\<lparr>g_status := ''RUNNING'', g_window_id := wid, g_updated_at := u\<rparr>"
    "goal_row_of gid s' = Some g'" "s' = s1\<lparr>goals := goals s'\<rparr>"
proof -
  have gid: "g_id g = gid" using assms(2) by (auto simp: goal_row_of_def dest: find_SomeD)
  from assms obtain w s1 where w: "g_revision g = revn" "g_status g = ''APPROVED''"
      "window_row_of wid s = Some w" "w_status w = ''ACTIVE''" "g_repository g \<in> set (w_repositories w)"
      "''execute_task'' \<in> set (w_capabilities w)"
    and loop: "launch_tasks e g w 0 (g_tasks g) s = (Inr (), s1)"
    and rest: "(case get_goal gid s1 of Inl err \<Rightarrow> (Inl err, s1)
      | Inr current \<Rightarrow> if g_status current = ''RUNNING'' \<and> g_window_id current = wid then (Inr current, s1)
          else mark_goal_running (later (10 * int (length (g_tasks g))) e) (g_id g) (g_revision g) wid s1) = (Inr g', s')"
    by (auto simp: launch_goal_def get_goal_def get_window_def andthen_ok split: option.splits if_splits)
  have same: "goals s1 = goals s"
    using launch_tasks_materialize [OF loop assms(4)] by simp
  have sys: "system s1"
    using acts_system [OF acts_launch_tasks assms(4), of e g w 0 "g_tasks g"] loop by simp
  from rest same assms(2) w(2) gid w(1)
  have "mark_goal_running (later (10 * int (length (g_tasks g))) e) gid revn wid s1 = (Inr g', s')"
    by (auto simp: get_goal_def goal_row_of_def)
  then obtain a where "goal_row_of gid s1 = Some a"
      "g' = a\<lparr>g_status := ''RUNNING'', g_window_id := wid, g_updated_at := utc (later (10 * int (length (g_tasks g))) e) 0\<rparr>"
      "goal_row_of gid s' = Some g'" "s' = s1\<lparr>goals := goals s'\<rparr>"
    unfolding mark_goal_running_def by (elim goal_updateE [OF _ _ sys]) auto
  moreover from this(1) have "a = g" using same assms(2) by (simp add: goal_row_of_def)
  ultimately show thesis using w loop same by (intro that) auto
qed

theorem launch_effect:
  assumes "system s" "launch_goal e gid revn wid s = (Inr g', s')" "goal_row_of gid s = Some g"
    "g_status g \<noteq> ''RUNNING''"
  shows "g_revision g = revn \<and> g_status g = ''APPROVED''
     \<and> (\<exists>w. window_row_of wid s = Some w \<and> w_status w = ''ACTIVE''
           \<and> g_repository g \<in> set (w_repositories w) \<and> ''execute_task'' \<in> set (w_capabilities w))
     \<and> goal_row_of gid s' = Some g'
     \<and> (\<exists>u. g' = g\<lparr>g_status := ''RUNNING'', g_window_id := wid, g_updated_at := u\<rparr>)
     \<and> (\<forall>i < length (g_tasks g). \<exists>t k. normalize_task (g_tasks g ! i) i = Inr t
           \<and> k \<in> set (idempotency_keys s') \<and> ik_key k = launch_key g t
           \<and> task_row_of (ik_task_id k) s' \<noteq> None
           \<and> (\<exists>l \<in> set (goal_task_links s'). gl_task_id l = ik_task_id k \<or>
                 (gl_goal_id l = gid \<and> gl_goal_revision l = revn \<and> gl_plan_task_id l = pt_id t)))"
proof -
  have fresh: "\<not> (g_status g = ''RUNNING'' \<and> g_window_id g = wid)" using assms(4) by simp
  have gid: "g_id g = gid" using assms(3) by (auto simp: goal_row_of_def dest: find_SomeD)
  obtain w s1 u where st: "g_revision g = revn" "g_status g = ''APPROVED''"
    "window_row_of wid s = Some w" "w_status w = ''ACTIVE''" "g_repository g \<in> set (w_repositories w)"
    "''execute_task'' \<in> set (w_capabilities w)" "launch_tasks e g w 0 (g_tasks g) s = (Inr (), s1)"
    "goals s1 = goals s" "g' = g\<lparr>g_status := ''RUNNING'', g_window_id := wid, g_updated_at := u\<rparr>"
    "goal_row_of gid s' = Some g'" "s' = s1\<lparr>goals := goals s'\<rparr>"
    by (rule launch_steps [OF assms(2,3) fresh assms(1)])
  have tables: "idempotency_keys s' = idempotency_keys s1" "tasks s' = tasks s1"
      "goal_task_links s' = goal_task_links s1"
    by (subst st(11), simp)+
  have "\<forall>i < length (g_tasks g). \<exists>t. normalize_task (g_tasks g ! i) i = Inr t \<and> materialized g t s1"
    using launch_tasks_materialize [OF st(7) assms(1)] by simp
  then have "\<forall>i < length (g_tasks g). \<exists>t k. normalize_task (g_tasks g ! i) i = Inr t
           \<and> k \<in> set (idempotency_keys s') \<and> ik_key k = launch_key g t
           \<and> task_row_of (ik_task_id k) s' \<noteq> None
           \<and> (\<exists>l \<in> set (goal_task_links s'). gl_task_id l = ik_task_id k \<or>
                 (gl_goal_id l = gid \<and> gl_goal_revision l = revn \<and> gl_plan_task_id l = pt_id t))"
    unfolding materialized_def gid st(1) tables task_row_of_def by meson
  with st show ?thesis by blast
qed

theorem launch_effect_witness:
  "\<exists>g. goal_row_of sv_goal_id launched_db = Some g \<and> g_status g = ''RUNNING'' \<and> g_window_id g = ''w''"
proof -
  obtain g where g: "goal_row_of sv_goal_id approved_db = Some g" "g_status g = ''APPROVED''" "g_revision g = 1"
    by (rule approved_goal)
  obtain g' where l: "launch_goal (wenv 5 0) sv_goal_id 1 ''w'' approved_db = (Inr g', launched_db)"
    by (rule launch_happened)
  from launch_effect [OF system_life(4) l g(1)] g(2) show ?thesis by auto
qed

text \<open>
  Launching is idempotent: a launch that returned, repeated on the database it left, returns
  the same goal and changes nothing.
\<close>

theorem launch_idempotent:
  assumes "system s" "launch_goal e gid revn wid s = (Inr g', s')"
  shows "launch_goal e' gid revn wid s' = (Inr g', s')"
proof -
  from assms(2) obtain g where g: "goal_row_of gid s = Some g"
    by (auto simp: launch_goal_def get_goal_def split: option.splits)
  show ?thesis
  proof (cases "g_status g = ''RUNNING'' \<and> g_window_id g = wid")
    case True
    with assms(2) g show ?thesis by (auto simp: launch_goal_def get_goal_def split: if_splits)
  next
    case False
    obtain w s1 u where "g_revision g = revn"
      "g' = g\<lparr>g_status := ''RUNNING'', g_window_id := wid, g_updated_at := u\<rparr>" "goal_row_of gid s' = Some g'"
      by (rule launch_steps [OF assms(2) g False assms(1)])
    then show ?thesis by (simp add: launch_goal_def get_goal_def)
  qed
qed

theorem launch_idempotent_witness:
  "\<exists>g. launch_goal (wenv 9 7) sv_goal_id 1 ''w'' launched_db = (Inr g, launched_db)"
proof -
  obtain g' where l: "launch_goal (wenv 5 0) sv_goal_id 1 ''w'' approved_db = (Inr g', launched_db)"
    by (rule launch_happened)
  from launch_idempotent [OF system_life(4) l] show ?thesis by blast
qed

text \<open>
  The first launch of a plan writes exactly its tasks: one new queued task and one new link
  for each task of the plan, in the plan's order, with the plan's ids and dependencies, the
  goal's executor and repository and the window's policy; the other tasks and links stay.
\<close>

theorem first_launch_exact:
  assumes "system s" "launch_goal e gid revn wid s = (Inr g', s')" "goal_row_of gid s = Some g"
    "g_status g \<noteq> ''RUNNING''" "normalize_tasks (g_tasks g) = Inr ts" "unlaunched g s"
  shows "\<exists>w rows. window_row_of wid s = Some w \<and> length rows = length ts
     \<and> tasks s' = tasks s @ rows \<and> list_all2 (launched_task g w) ts rows
     \<and> goal_task_links s' = goal_task_links s
         @ map (\<lambda>(i, t, row). plan_link g i t (t_id row)) (zip [0..<length ts] (zip ts rows))"
proof -
  have fresh: "\<not> (g_status g = ''RUNNING'' \<and> g_window_id g = wid)" using assms(4) by simp
  obtain w s1 u where st: "g_revision g = revn" "g_status g = ''APPROVED''"
    "window_row_of wid s = Some w" "w_status w = ''ACTIVE''" "g_repository g \<in> set (w_repositories w)"
    "''execute_task'' \<in> set (w_capabilities w)" "launch_tasks e g w 0 (g_tasks g) s = (Inr (), s1)"
    "goals s1 = goals s" "g' = g\<lparr>g_status := ''RUNNING'', g_window_id := wid, g_updated_at := u\<rparr>"
    "goal_row_of gid s' = Some g'" "s' = s1\<lparr>goals := goals s'\<rparr>"
    by (rule launch_steps [OF assms(2,3) fresh assms(1)])
  have tables: "tasks s' = tasks s1" "goal_task_links s' = goal_task_links s1"
    by (subst st(11), simp)+
  have plan: "length ts = length (g_tasks g)" "distinct (map pt_id ts)"
    "\<forall>i < length (g_tasks g). normalize_task (g_tasks g ! i) (0 + i) = Inr (ts ! i)"
    using assms(5) by (auto simp: normalize_tasks_iff plan_ok_def)
  have "launching g {} s"
    using assms(6) by (auto simp: launching_def unlaunched_def)
  from launch_tasks_fresh [OF st(7) plan(3,1,2) this] st(3) show ?thesis
    unfolding tables by auto
qed

definition sv_untouched :: "db \<Rightarrow> bool" where
  "sv_untouched s \<longleftrightarrow> goal_task_links s = [] \<and> idempotency_keys s = []"

theorem first_launch_exact_witness:
  "map gl_plan_task_id (goal_task_links launched_db) = [''a'', ''T002'']
   \<and> map gl_dependencies (goal_task_links launched_db) = [[], [''a'']]"
proof -
  obtain g where g: "goal_row_of sv_goal_id approved_db = Some g" "g_status g = ''APPROVED''" "g_revision g = 1"
    by (rule approved_goal)
  obtain g' where l: "launch_goal (wenv 5 0) sv_goal_id 1 ''w'' approved_db = (Inr g', launched_db)"
    by (rule launch_happened)
  have "map_option (\<lambda>g. normalize_tasks (g_tasks g)) (goal_row_of sv_goal_id approved_db) = Some (Inr sv_plan)"
    by code_simp
  with g(1) have plan: "normalize_tasks (g_tasks g) = Inr sv_plan" by simp
  have "sv_untouched approved_db" by code_simp
  then have none: "goal_task_links approved_db = []" "unlaunched g approved_db"
    by (simp_all add: sv_untouched_def unlaunched_def)
  from first_launch_exact [OF system_life(4) l g(1) _ plan none(2)] g(2) none(1)
  show ?thesis
    by (auto simp: sv_plan_def plan_link_def upt_conv_Cons length_Suc_conv)
qed

text \<open>
  A response describes the database it was read from: the goal of a snapshot is the row that
  is stored, status included, and its links are the ones stored; taking a second snapshot gives
  the same status.
\<close>

theorem snapshot_is_stored:
  assumes "response_snapshot e gid s = (Inr (g, links), s')"
  shows "goal_row_of gid s' = Some g \<and> links = list_goal_tasks gid s' \<and> links = list_goal_tasks gid s
     \<and> (links \<noteq> [] \<longrightarrow> g_status g = derived_goal_status (map (\<lambda>(_, t). t_status t) links))"
proof -
  from assms obtain g0 where refresh: "refresh_goal_status e gid s = (Inr g0, s')"
    and g: "g = g0\<lparr>g_status := snapshot_status g0 (list_goal_tasks gid s')\<rparr>"
    and links: "links = list_goal_tasks gid s'"
    by (auto simp: response_snapshot_def andthen_ok Let_def)
  define st where "st = derived_goal_status (map (\<lambda>(_, t). t_status t) (list_goal_tasks gid s))"
  have row: "goal_row_of gid s' = Some g0"
    using refresh by (auto simp: refresh_goal_status_def return_goal_def get_goal_def Let_def
        split: option.splits if_splits)
  have derived: "snapshot_status g0 ls = (if ls = [] then g_status g0 else derived_goal_status (map (\<lambda>(_, t). t_status t) ls))" for ls
    by (simp add: snapshot_status_def derived_goal_status_def READY_STATUSES_def Let_def)
  show ?thesis
  proof (cases "list_goal_tasks gid s = []")
    case True
    then have "s' = s" using refresh by (simp add: refresh_goal_status_def return_goal_def)
    with True row g links show ?thesis by (simp add: derived)
  next
    case False
    then have s': "s' = s\<lparr>goals := sql_update (\<lambda>g. g_id g = gid)
        (\<lambda>g. g\<lparr>g_status := st, g_updated_at := utc e 0\<rparr>) (goals s)\<rparr>"
      using refresh by (simp add: refresh_goal_status_def return_goal_def Let_def st_def)
    have upd: "goal_row_of gid s' = map_option (\<lambda>g. if g_id g = gid
        then g\<lparr>g_status := st, g_updated_at := utc e 0\<rparr> else g) (goal_row_of gid s)"
      by (simp add: s' goal_row_of_def find_sql_update)
    then have "map_option g_revision (goal_row_of gid s') = map_option g_revision (goal_row_of gid s)"
      by (cases "goal_row_of gid s") auto
    then have same: "list_goal_tasks gid s' = list_goal_tasks gid s"
      unfolding list_goal_tasks_def
      by (intro arg_cong [of _ _ "order_asc _"] arg_cong [of _ _ concat] map_cong)
        (auto simp: s' task_row_of_def split: option.splits)
    have "g_status g0 = st"
      using row upd by (cases "goal_row_of gid s") (auto simp: goal_row_of_def dest: find_SomeD)
    with row g links same False show ?thesis by (simp add: derived st_def)
  qed
qed

theorem snapshot_is_stored_witness:
  "\<exists>g links s'. response_snapshot (wenv 8 0) sv_goal_id launched_db = (Inr (g, links), s') \<and>
     goal_row_of sv_goal_id s' = Some g"
proof -
  have "case fst (response_snapshot (wenv 8 0) sv_goal_id launched_db) of Inl _ \<Rightarrow> False | Inr _ \<Rightarrow> True"
    by code_simp
  then obtain x s' where "response_snapshot (wenv 8 0) sv_goal_id launched_db = (Inr x, s')"
    by (cases "response_snapshot (wenv 8 0) sv_goal_id launched_db") (auto split: sum.splits)
  then obtain g links where r: "response_snapshot (wenv 8 0) sv_goal_id launched_db = (Inr (g, links), s')"
    by (cases x) auto
  from snapshot_is_stored [OF r] r show ?thesis by blast
qed

end
