(* ===== verification/Batch_Laws.thy ===== *)
theory Batch_Laws
  imports Service_Steps Claim_Backing
begin

text \<open>
  The life of a coordinator's claim: opened by \<open>claim_task\<close>, and settled once it is closed or
  superseded. Both are stable, and every way a batch ends settles the claims it was given.
\<close>

section \<open>Opened and settled claims\<close>

definition opened :: "string \<Rightarrow> string \<Rightarrow> db \<Rightarrow> string \<times> int \<Rightarrow> bool" where
  "opened wid owner s te \<longleftrightarrow>
     (\<exists>c. claim_row_of (fst te) s = Some c \<and> snd te \<le> cl_epoch c
        \<and> (cl_epoch c = snd te \<longrightarrow> cl_owner c = owner \<and> cl_window_id c = wid))"

definition settled :: "db \<Rightarrow> string \<times> int \<Rightarrow> bool" where
  "settled s te \<longleftrightarrow>
     (\<exists>c. claim_row_of (fst te) s = Some c
        \<and> (snd te < cl_epoch c \<or> (cl_epoch c = snd te \<and> cl_status c \<noteq> ''ACTIVE'')))"

lemma claim_row_moves:
  assumes "evolves s s'" "claim_row_of tid s = Some c"
  obtains c' where "claim_row_of tid s' = Some c'" "claim_le c c'"
  using claim_evolves [OF assms] by blast

lemma opened_evolves: "evolves s s' \<Longrightarrow> opened wid ow s te \<Longrightarrow> opened wid ow s' te"
  unfolding opened_def by (elim exE conjE claim_row_moves) (auto simp: claim_le_def)

lemma settled_evolves: "evolves s s' \<Longrightarrow> settled s te \<Longrightarrow> settled s' te"
  unfolding settled_def by (elim exE conjE claim_row_moves) (auto simp: claim_le_def)

lemma claim_task_opens:
  assumes "claim_task e wid tid ow l s = (Inr (ep, w), s')"
  shows "opened wid ow s' (tid, ep)"
proof -
  from assms have "claim_task_txn e wid tid ow l s = (Inr ep, s')"
    by (auto simp: claim_task_def andthen_ok transact_ok get_window_def split: option.splits)
  from claim_txn_steps [OF this] obtain task s1 s2 and w :: window_row where
    wr: "write_claim e wid tid ow ep (now_ms e 0 + l) s = (Inr (), s1)"
    and rs: "write_reservation e w tid ep s1 = (Inr (), s2)"
    and s': "s' = charge_attempt e wid (t_status (task :: task_row) = ''INTERRUPTED'') s2"
    by blast
  obtain c where c: "claim_row_of tid s1 = Some c"
    using write_claim_row [OF wr] by blast
  then have "c \<in> set (claims s1)" "cl_task_id c = tid"
    by (auto simp: claim_row_of_def dest: find_SomeD)
  with write_claim_rows [OF wr this(1)] have "cl_window_id c = wid" "cl_owner c = ow" "cl_epoch c = ep"
    by auto
  moreover have "claims s' = claims s1"
    using write_reservation_rows(3) [OF rs] by (simp add: s')
  ultimately show ?thesis
    using c by (simp add: opened_def claim_row_of_def)
qed

section \<open>Closing a claim\<close>

text \<open>An attempt to close an opened claim settles it, whether it succeeds or raises.\<close>

lemma finalize_closes:
  assumes "finalize_task_claim e wid tid ow ep st b s = (Inr state, s')" "reachable s"
  shows "settled s' (tid, ep)"
proof -
  have txn: "finalize_claim_txn e wid tid ow ep st b s = (Inr state, s')" and st: "st \<in> {''COMPLETE'', ''FAILED''}"
    using assms(1) by (auto simp: finalize_task_claim_def transact_ok split: if_splits)
  let ?mine = "\<lambda>c. cl_task_id c = tid \<and> cl_window_id c = wid \<and> cl_owner c = ow
            \<and> cl_epoch c = ep \<and> cl_status c = ''ACTIVE''"
  from txn obtain c where c: "find ?mine (claims s) = Some c"
    and claims: "claims s' = sql_update ?mine (\<lambda>c. c\<lparr>cl_status := st, cl_updated_at := utc e 2\<rparr>) (claims s)"
    by (auto simp: finalize_claim_txn_def Let_def split: if_splits option.splits sum.splits)
  have mine: "c \<in> set (claims s)" "?mine c" using find_SomeD [OF c] by auto
  have "distinct (map cl_task_id (claims s))"
    using reachable_keys [OF assms(2)] by (simp add: keys_ok_def)
  then have "claim_row_of tid s = Some c"
    unfolding claim_row_of_def using mine by (intro find_distinct_key) auto
  then have "claim_row_of tid s' = Some (c\<lparr>cl_status := st, cl_updated_at := utc e 2\<rparr>)"
    using mine(2) by (simp add: claim_row_of_def claims find_sql_update)
  with mine(2) st show ?thesis by (auto simp: settled_def)
qed

lemma close_claim_settles:
  assumes "close_claim e wid tid ow ep st b r x s = (res, s')" "system s" "opened wid ow s (tid, ep)"
    and st: "st \<in> {''COMPLETE'', ''FAILED''}" and ev: "evolves s s'"
  shows "settled s' (tid, ep)"
proof (cases "finalize_task_claim e wid tid ow ep st b s")
  case (Pair fin s1)
  obtain c where c: "claim_row_of tid s = Some c" "ep \<le> cl_epoch c"
    "cl_epoch c = ep \<Longrightarrow> cl_owner c = ow \<and> cl_window_id c = wid"
    using assms(3) by (auto simp: opened_def)
  show ?thesis
  proof (cases "settled s (tid, ep)")
    case True
    then show ?thesis by (rule settled_evolves [OF ev])
  next
    case False
    with c have "cl_epoch c = ep" "cl_status c = ''ACTIVE''" by (auto simp: settled_def)
    with active_claim_settles [OF _ c(1) _ st, of e b] c(3) assms(2) Pair
    obtain state where fin: "fin = Inr state" by auto
    have s1: "settled s1 (tid, ep)"
      using finalize_closes Pair fin assms(2) by blast
    have sys: "evolves s s1"
    proof -
      have "lawful s s1" using lawful_finalize_task_claim [of s e wid tid ow ep st b] Pair by simp
      then show ?thesis using reachable_keys [of s] assms(2) by (auto simp: lawful_def)
    qed
    have "claims s' = claims s1"
      using assms(1) Pair fin
      by (auto simp: close_claim_def append_receipt_def sql_insert_def andthen_def
          split: sum.splits option.splits if_splits)
    with s1 show ?thesis by (simp add: settled_def claim_row_of_def)
  qed
qed

lemma abandon_settles:
  assumes "abandon_task_claim e wid tid ow ep r s = (res, s')" "system s" "opened wid ow s (tid, ep)"
  shows "settled s' (tid, ep)"
proof -
  have "evolves s s'"
    using acts_evolves [OF acts_window_ops(4) assms(2), of e wid tid ow ep r] assms(1) by simp
  with assms show ?thesis
    unfolding abandon_task_claim_def by (intro close_claim_settles) auto
qed

lemma complete_settles:
  assumes "complete_task_claim e wid tid ow ep r s = (res, s')" "system s" "opened wid ow s (tid, ep)"
  shows "settled s' (tid, ep)"
proof -
  have "evolves s s'"
    using acts_evolves [OF acts_window_ops(5) assms(2), of e wid tid ow ep r] assms(1) by simp
  with assms show ?thesis
    unfolding complete_task_claim_def by (intro close_claim_settles) auto
qed

section \<open>The claims of a tick\<close>

lemma set_dict_set: "set (dict_set k v d) \<subseteq> insert (k, v) (set d)"
  by (induction k v d rule: dict_set.induct) auto

lemma keys_dict_set:
  "map fst (dict_set k v d) = (if k \<in> fst ` set d then map fst d else map fst d @ [k])"
  by (induction k v d rule: dict_set.induct) auto

lemma distinct_dict_set: "distinct (map fst d) \<Longrightarrow> distinct (map fst (dict_set k v d))"
  by (simp add: keys_dict_set)

lemma length_dict_set: "length (dict_set k v d) \<le> Suc (length d)"
  by (induction k v d rule: dict_set.induct) auto

text \<open>
  Every claim of the dictionary is open, and an allowed receipt of this loop was written for
  its task before it.
\<close>

definition authorized_since :: "nat \<Rightarrow> string \<Rightarrow> db \<Rightarrow> string \<Rightarrow> bool" where
  "authorized_since n wid s tid \<longleftrightarrow>
     (\<exists>r \<in> set (drop n (receipts s)). rc_window_id r = wid \<and> rc_operation_type r = ''policy_evaluation''
        \<and> rc_subject_id r = tid \<and> rc_decision r = ''allowed'')"

lemma receipts_grow:
  assumes "evolves s s'" "n \<le> length (receipts s)"
  shows "n \<le> length (receipts s')" "authorized_since n wid s tid \<Longrightarrow> authorized_since n wid s' tid"
proof -
  obtain rs where rs: "receipts s' = receipts s @ rs"
    using assms(1) by (auto simp: evolves_def dest: append_only)
  with assms(2) show "n \<le> length (receipts s')" by simp
  show "authorized_since n wid s tid \<Longrightarrow> authorized_since n wid s' tid"
    by (auto simp: authorized_since_def rs)
qed

lemma append_receipt_row:
  assumes "append_receipt e wid i s = (Inr r, s')"
  shows "\<exists>w. get_window wid s = Inr w \<and> s' = s\<lparr>receipts := receipts s @ [new_receipt e w i]\<rparr>"
  using assms by (auto simp: append_receipt_def sql_insert_cases split: option.splits sum.splits)

lemma window_of_id: "get_window wid s = Inr w \<Longrightarrow> w_id w = wid"
  by (auto simp: get_window_def window_row_of_def split: option.splits dest: find_SomeD)

lemma authorize_receipt:
  assumes "authorize e packs wid op repo tid inp s = (Inr True, s')" "system s"
    "n \<le> length (receipts s)"
  shows "authorized_since n wid s' tid"
proof -
  from assms(1) obtain u s1 r where ev: "evaluate_operation e packs wid op repo s = (Inr u, s1)"
    and rc: "append_receipt (later 2 e) wid
        (evaluation_receipt op repo tid inp ''allowed'' ''operation_inside_active_window'') s1 = (Inr r, s')"
    by (auto simp: authorize_def andthen_ok split: prod.splits sum.splits if_splits)
  have "evolves s s1"
    using acts_evolves [OF acts_evaluate assms(2), of e packs wid op repo] ev by simp
  from receipts_grow(1) [OF this assms(3)] append_receipt_row [OF rc] show ?thesis
    by (auto simp: authorized_since_def new_receipt_def evaluation_receipt_def dest: window_of_id)
qed

definition claims_made :: "nat \<Rightarrow> string \<Rightarrow> string \<Rightarrow> claimed \<Rightarrow> db \<Rightarrow> bool" where
  "claims_made n wid owner cl s \<longleftrightarrow> system s \<and> n \<le> length (receipts s)
     \<and> distinct (map fst cl)
     \<and> (\<forall>te \<in> set cl. opened wid owner s te \<and> authorized_since n wid s (fst te))"

lemma claims_made_evolves:
  assumes "claims_made n wid ow cl s" "acts s s'"
  shows "claims_made n wid ow cl s'"
  using assms acts_evolves [OF assms(2)] acts_system [OF assms(2)] receipts_grow [of s s' n]
  by (auto simp: claims_made_def intro: opened_evolves)

lemma claims_made_claim:
  assumes P: "claims_made n wid ow cl s" and au: "authorize e packs wid op repo tid inp s = (Inr True, s1)"
    and cl: "claim_task e' wid tid ow l s1 = (Inr (ep, w), s2)"
  shows "claims_made n wid ow (dict_set tid ep cl) s2"
proof -
  have P1: "claims_made n wid ow cl s1"
    using claims_made_evolves [OF P acts_authorize] au by (metis snd_conv)
  have step: "acts s1 s2" using acts_window_ops(3) cl by (metis snd_conv)
  have P2: "claims_made n wid ow cl s2" by (rule claims_made_evolves [OF P1 step])
  have "authorized_since n wid s1 tid"
    using authorize_receipt [OF au] P by (simp add: claims_made_def)
  then have "authorized_since n wid s2 tid"
    using receipts_grow(2) [of s1 s2 n] acts_evolves [OF step] P1 by (auto simp: claims_made_def)
  with claim_task_opens [OF cl] P2 set_dict_set [of tid ep cl] show ?thesis
    by (fastforce simp: claims_made_def distinct_dict_set)
qed

lemma claim_loop_length:
  "claim_loop e stop packs wid k tids cl co s = (Inr (c, m), x) \<Longrightarrow> length c \<le> length cl + length tids"
proof (induction tids arbitrary: e k cl co s)
  case (Cons tid tids)
  have step: "length c \<le> Suc (length cl + length tids)"
    if "claim_loop e' stop packs wid k' tids cl' co' s' = (Inr (c, m), x)" "length cl' \<le> Suc (length cl)"
    for e' k' cl' co' s'
    using Cons.IH [OF that(1)] that(2) by simp
  have grow: "length (dict_set tid v cl) \<le> Suc (length cl + n)" for v n
    by (rule le_trans [OF length_dict_set]) simp
  show ?case
    using Cons.prems
    by (auto simp: claim_loop.simps Let_def intro: step grow length_dict_set
        split: if_splits sum.splits prod.splits bool.splits)
qed simp

section \<open>How a batch ends\<close>

lemma abandon_each_settles:
  "abandon_each e wid ow reason cs s = (Inr fs, s') \<Longrightarrow> system s \<Longrightarrow>
   \<forall>te \<in> set cs. opened wid ow s te \<Longrightarrow> \<forall>te \<in> set cs. settled s' te"
proof (induction e wid ow reason cs s arbitrary: fs s' rule: abandon_each.induct)
  case (1 e wid ow reason s)
  then show ?case by simp
next
  case (2 e wid ow reason tid ep rest s)
  obtain r s1 where r: "abandon_task_claim e wid tid ow ep reason s = (r, s1)" by force
  have sys: "system s1" and ev: "evolves s s1"
    using acts_system [OF acts_window_ops(4) "2.prems"(2), of e wid tid ow ep reason]
      acts_evolves [OF acts_window_ops(4) "2.prems"(2), of e wid tid ow ep reason] r by auto
  have one: "settled s1 (tid, ep)"
    using abandon_settles [OF r "2.prems"(2)] "2.prems"(3) by simp
  have opn: "\<forall>te \<in> set rest. opened wid ow s1 te"
    using "2.prems"(3) opened_evolves [OF ev] by simp
  obtain gs where rest: "abandon_each (later 2000 e) wid ow reason rest s1 = (Inr gs, s')"
    using "2.prems"(1) r by (auto simp: andthen_ok split: sum.splits if_splits)
  have "\<forall>te \<in> set rest. settled s' te"
  proof (cases r)
    case (Inl err)
    with "2.prems"(1) r have st: "is_store_error err" by (auto split: if_splits)
    from "2.IH"(1) [OF r [symmetric] Inl st rest sys opn] show ?thesis .
  next
    case (Inr u)
    from "2.IH"(2) [OF r [symmetric] Inr rest sys opn] show ?thesis .
  qed
  moreover have "evolves s1 s'"
    using acts_evolves [OF acts_abandon_each sys, of "later 2000 e" wid ow reason rest] rest by simp
  ultimately show ?case using settled_evolves [OF _ one] by simp
qed

context batch_executor
begin

lemma assignment_settles:
  assumes "execute_assignment e run wid ow cs a s = (Inr r, s')" "system s"
    "map_of cs (as_task_id a) = Some ep" "opened wid ow s (as_task_id a, ep)"
  shows "settled s' (as_task_id a, ep)"
proof -
  let ?tid = "as_task_id a"
  obtain b s1 where cw: "complete_worker e run wid ow ep a s = (b, s1)" by force
  have acts1: "acts s s1" using acts_complete_worker [of s e wid ow ep a] cw by simp
  show ?thesis
  proof (cases b)
    case (Inl err)
    obtain c s2 where ab: "abandon_task_claim (later 7000 e) wid ?tid ow ep
        (''execution_failed:'' @ ?tid @ '':'' @ error_class err) s1 = (c, s2)"
      by force
    have "settled s2 (?tid, ep)"
      using abandon_settles [OF ab acts_system [OF acts1 assms(2)]]
        opened_evolves [OF acts_evolves [OF acts1 assms(2)] assms(4)] by simp
    moreover have "s' = s2"
      using assms(1,3) cw Inl ab by (auto simp: execute_assignment_def catch_def split: sum.splits)
    ultimately show ?thesis by simp
  next
    case (Inr w)
    with cw obtain out s0 where run: "run e ?tid s = (Inr out, s0)"
      by (cases "run e ?tid s"; cases "fst (run e ?tid s)") (auto simp: complete_worker_def)
    obtain view where view: "get_task ?tid None s0 = Inr view"
      using cw Inr run by (cases "get_task ?tid None s0") (auto simp: complete_worker_def)
    obtain x where done1: "complete_task_claim (later 5000 e) wid ?tid ow ep x s0 = (Inr (), s1)"
      using cw Inr run view by (auto simp: complete_worker_def Let_def andthen_ok)
    have "settled s1 (?tid, ep)"
      using complete_settles [OF done1 run_system [OF run assms(2)]]
        opened_evolves [OF runs_evolve [OF run assms(2)] assms(4)] by simp
    moreover have "s' = s1"
      using assms(1,3) cw Inr by (auto simp: execute_assignment_def catch_def)
    ultimately show ?thesis by simp
  qed
qed

lemma workers_settle:
  "run_workers e (\<lambda>e' a. execute_assignment e' run wid ow cs a) as s = (Inr rs, s') \<Longrightarrow> system s \<Longrightarrow>
   \<forall>te \<in> set cs. opened wid ow s te \<Longrightarrow>
   \<forall>a \<in> set as. \<forall>ep. map_of cs (as_task_id a) = Some ep \<longrightarrow> settled s' (as_task_id a, ep)"
proof (induction as arbitrary: e s rs s')
  case (Cons a as)
  from Cons.prems(1) obtain r s1 rs1 where one: "execute_assignment e run wid ow cs a s = (Inr r, s1)"
    and rest: "run_workers (later 10000 e) (\<lambda>e' a. execute_assignment e' run wid ow cs a) as s1 = (Inr rs1, s')"
    by (auto simp: andthen_ok)
  have step: "acts s s1" using acts_assignment [of s e wid ow cs a] one by simp
  have sys: "system s1" by (rule acts_system [OF step Cons.prems(2)])
  have opn: "\<forall>te \<in> set cs. opened wid ow s1 te"
    using Cons.prems(3) opened_evolves [OF acts_evolves [OF step Cons.prems(2)]] by blast
  have ev: "evolves s1 s'"
    using acts_evolves [OF acts_run_workers sys, of "later 10000 e" wid ow cs as] rest by simp
  have "settled s' (as_task_id a, ep)" if "map_of cs (as_task_id a) = Some ep" for ep
    using assignment_settles [OF one Cons.prems(2) that] Cons.prems(3) map_of_SomeD [OF that]
      settled_evolves [OF ev] by blast
  with Cons.IH [OF rest sys opn] show ?case by simp
qed simp

lemma validated_ids:
  "validate_assignments i seen as = Inr ps \<Longrightarrow> map as_task_id ps = map (\<lambda>a. py_strip (as_task_id a)) as"
proof (induction i seen as arbitrary: ps rule: validate_assignments.induct)
  case (1 i seen)
  then show ?case by simp
next
  case (2 i seen a rest)
  from "2.prems" obtain p qs where p: "parse_assignment a = Inr p" "as_worker_id p \<notin> set seen"
    and qs: "validate_assignments (i + 1) (as_worker_id p # seen) rest = Inr qs" "ps = p # qs"
    by (cases "parse_assignment a";
        cases "validate_assignments (i + 1) (as_worker_id (projr (parse_assignment a)) # seen) rest")
      (auto split: if_splits)
  moreover have "as_task_id p = py_strip (as_task_id a)"
    using p(1) by (auto simp: parse_assignment_def Let_def split: if_splits)
  ultimately show ?case using "2.IH" [OF p qs(1)] by simp
qed

lemma assignment_ids: "map as_task_id (make_assignments root tids) = tids"
  by (simp add: make_assignments_def make_assignment_def o_def case_prod_unfold Let_def)

lemma refresh_evolves:
  "refresh_claimed_goals e tids co s = (r, (co', s')) \<Longrightarrow> system s \<Longrightarrow> evolves s s'"
  using acts_evolves [OF cacts_refresh_claimed [of s e tids co]] by simp

lemma on_db_eq: "on_db r co = (x, (co', s')) \<longleftrightarrow> r = (x, s') \<and> co' = co"
  by (cases r) (auto simp: on_db_def)

text \<open>However a batch ends, its claims are settled when the call returns.\<close>

lemma graph_failed_settles:
  assumes "graph_failed e wid cs err co s = (Inr n, (co', s'))" "system s"
    "\<forall>te \<in> set cs. opened wid (co_owner co) s te"
  shows "\<forall>te \<in> set cs. settled s' te"
proof -
  obtain fs s1 e2 co2 r where ab: "abandon_each e wid (co_owner co)
      (''parallel_batch_failed:'' @ error_class err) cs s = (Inr fs, s1)"
    and rf: "refresh_claimed_goals e2 (map fst cs) co s1 = (Inr r, (co2, s'))"
    using assms(1) by (auto simp: graph_failed_def Let_def on_db_eq andthen_ok)
  have "system s1"
    using acts_system [OF acts_abandon_each assms(2)] ab by (metis snd_conv)
  with abandon_each_settles [OF ab assms(2,3)] show ?thesis
    using settled_evolves [OF refresh_evolves [OF rf]] by blast
qed

lemma abandon_claimed_settles:
  assumes "abandon_claimed e wid cs reason co s = (Inr u, (co', s'))" "system s"
    "\<forall>te \<in> set cs. opened wid (co_owner co) s te"
  shows "\<forall>te \<in> set cs. settled s' te"
proof -
  obtain fs s1 e2 co2 r where ab: "abandon_each e wid (co_owner co) reason cs s = (Inr fs, s1)"
    and rf: "refresh_claimed_goals e2 (map fst cs) co s1 = (Inr r, (co2, s'))"
    using assms(1) by (auto simp: abandon_claimed_def Let_def on_db_eq andthen_ok)
  have "system s1"
    using acts_system [OF acts_abandon_each assms(2)] ab by (metis snd_conv)
  with abandon_each_settles [OF ab assms(2,3)] show ?thesis
    using settled_evolves [OF refresh_evolves [OF rf]] by blast
qed

lemma batch_settles:
  assumes "execute_claimed_batch e run wid cs co s = (Inr n, (co', s'))" "system s"
    "\<forall>te \<in> set cs. opened wid (co_owner co) s te" "distinct (map fst cs)"
    "\<forall>te \<in> set cs. py_strip (fst te) = fst te"
  shows "\<forall>te \<in> set cs. settled s' te"
proof -
  let ?worker = "\<lambda>e' a. execute_assignment e' run wid (co_owner co) cs a"
  let ?as = "make_assignments (co_workspace_root co) (sort (map fst cs))"
  let ?after = "later (10000 * int (length cs)) e"
  obtain r s1 where graph: "team_graph e ?worker ?as s = (r, s1)" by force
  have step: "acts s s1" using acts_team_graph [of s e wid "co_owner co" cs ?as] graph by simp
  have sys: "system s1" by (rule acts_system [OF step assms(2)])
  have opn: "\<forall>te \<in> set cs. opened wid (co_owner co) s1 te"
    using assms(3) opened_evolves [OF acts_evolves [OF step assms(2)]] by blast
  show ?thesis
  proof (cases r)
    case (Inl err)
    with assms(1) graph have "graph_failed ?after wid cs err co s1 = (Inr n, (co', s'))"
      by (simp add: execute_claimed_batch_def Let_def)
    from graph_failed_settles [OF this sys opn] show ?thesis .
  next
    case (Inr team)
    then obtain ps rs where ps: "validate_assignments 0 [] ?as = Inr ps"
      and work: "run_workers e ?worker ps s = (Inr rs, s1)"
      using graph by (auto simp: team_graph_def andthen_ok split: if_splits sum.splits)
    have "map as_task_id ps = map py_strip (map as_task_id ?as)"
      by (simp add: validated_ids [OF ps])
    then have "map as_task_id ps = map py_strip (sort (map fst cs))"
      by (simp only: assignment_ids)
    from arg_cong [OF this, of set] have "as_task_id ` set ps = py_strip ` fst ` set cs"
      by simp
    also have "\<dots> = fst ` set cs"
      using assms(5) by (force simp: image_iff)
    finally have ids: "as_task_id ` set ps = fst ` set cs" .
    have done1: "settled s1 te" if te: "te \<in> set cs" for te
    proof -
      obtain a where a: "a \<in> set ps" "as_task_id a = fst te"
        using ids te by (metis image_iff)
      have "map_of cs (fst te) = Some (snd te)"
        using te assms(4) by (simp add: map_of_is_SomeI)
      with workers_settle [OF work assms(2,3)] a show ?thesis by (metis prod.collapse)
    qed
    have "batch_finished ?after cs team co s1 = (Inr n, (co', s'))"
      using assms(1) graph Inr by (simp add: execute_claimed_batch_def Let_def)
    then obtain u co2 where rf: "refresh_claimed_goals ?after (map fst cs) co s1 = (Inr u, (co2, s'))"
      by (auto simp: batch_finished_def Let_def andthen_ok)
    from done1 settled_evolves [OF refresh_evolves [OF rf sys]] show ?thesis by blast
  qed
qed

lemma dispatch_settles:
  assumes "dispatch_claimed e b run wid cs co s = (Inr n, (co', s'))" "system s"
    "\<forall>te \<in> set cs. opened wid (co_owner co) s te" "distinct (map fst cs)"
    "\<forall>te \<in> set cs. py_strip (fst te) = fst te"
  shows "\<forall>te \<in> set cs. settled s' te"
proof (cases "fst (begin_dispatch b co)")
  case False
  then obtain u co2 where "abandon_claimed e wid cs ''coordinator_stop_requested_before_dispatch'' co s
      = (Inr u, (co2, s'))"
    using assms(1) by (auto simp: dispatch_claimed_def begin_dispatch_def andthen_ok Let_def split: if_splits)
  from abandon_claimed_settles [OF this assms(2,3)] show ?thesis .
next
  case True
  let ?co = "co\<lparr>co_dispatch_active := True\<rparr>"
  obtain co2 where "execute_claimed_batch e run wid cs ?co s = (Inr n, (co2, s'))"
    using True assms(1)
    by (auto simp: dispatch_claimed_def begin_dispatch_def Let_def split: if_splits prod.splits)
  from batch_settles [OF this assms(2) _ assms(4,5)] assms(3) show ?thesis by simp
qed

end

end
