(* ===== verification/Tick_Laws.thy ===== *)
theory Tick_Laws
  imports Batch_Laws
begin

text \<open>
  What a whole tick does to the claims. The pair of a claim's task and epoch identifies one
  claiming; only \<open>claim_task\<close> writes a new pair, so the pairs of a tick are those of its claim
  loop, and an executor that claims nothing adds none.
\<close>

section \<open>Claimings\<close>

definition claim_epochs :: "db \<Rightarrow> (string \<times> int) list" where
  "claim_epochs s = map (\<lambda>c. (cl_task_id c, cl_epoch c)) (claims s)"

definition same_epochs :: "db \<Rightarrow> db \<Rightarrow> bool" where
  "same_epochs s s' \<longleftrightarrow> claim_epochs s' = claim_epochs s"

lemma same_epochs_refl [simp]: "same_epochs s s"
  by (simp add: same_epochs_def)

lemma same_epochs_trans: "same_epochs s t \<Longrightarrow> same_epochs t u \<Longrightarrow> same_epochs s u"
  by (simp add: same_epochs_def)

lemma same_claims: "claims s' = claims s \<Longrightarrow> same_epochs s s'"
  by (simp add: same_epochs_def claim_epochs_def)

text \<open>A transitive relation across a sequence, read off the states by \<open>f\<close>.\<close>

lemma andthen_rel:
  assumes "\<And>a b c. R a b \<Longrightarrow> R b c \<Longrightarrow> R a c" "R s (f (snd r))"
    and "\<And>x t. r = (Inr x, t) \<Longrightarrow> R (f t) (f (snd (k x t)))"
  shows "R s (f (snd (andthen r k)))"
  using assms(2,3) by (cases r; cases "fst r") (auto intro: assms(1))

lemma epochs_andthen:
  assumes "same_epochs s (snd r)" and "\<And>x t. r = (Inr x, t) \<Longrightarrow> same_epochs t (snd (k x t))"
  shows "same_epochs s (snd (andthen r k))"
  by (rule andthen_rel [where f = "\<lambda>s. s", OF same_epochs_trans]) (use assms in auto)

lemma epochs_receipt: "same_epochs s (snd (append_receipt e w i s))"
  by (rule same_claims)
    (auto simp: append_receipt_def sql_insert_def split: option.split sum.split if_split)

lemma epochs_finalize: "same_epochs s (snd (finalize_task_claim e wid tid ow ep st b s))"
proof -
  have "same_epochs s (snd (finalize_claim_txn e wid tid ow ep st b s))"
    by (auto simp: finalize_claim_txn_def Let_def same_epochs_def claim_epochs_def map_sql_update
        split: option.split sum.split)
  then show ?thesis
    by (cases "finalize_claim_txn e wid tid ow ep st b s"; cases "fst (finalize_claim_txn e wid tid ow ep st b s)")
      (auto simp: finalize_task_claim_def)
qed

lemma epochs_close: "same_epochs s (snd (close_claim e wid tid ow ep st b r x s))"
  unfolding close_claim_def
  by (rule epochs_andthen [OF epochs_finalize])
    (auto intro!: epochs_andthen epochs_receipt split: sum.split)

lemma epochs_window_ops:
  "same_epochs s (snd (abandon_task_claim e wid tid ow ep r s))"
  "same_epochs s (snd (complete_task_claim e wid tid ow ep r s))"
  "same_epochs s (snd (active_window e now s))"
  "same_epochs s (snd (refresh_goal_status e gid s))"
  by (simp_all add: abandon_task_claim_def complete_task_claim_def epochs_close active_window_def
      refresh_goal_status_def return_goal_def Let_def same_claims)

lemma epochs_authorize: "same_epochs s (snd (authorize e packs wid op repo subj inp s))"
proof -
  have ev: "same_epochs s s1" if "evaluate_operation e packs wid op repo s = (a, s1)" for a s1
  proof -
    have "same_epochs s (snd (evaluate_operation e packs wid op repo s))"
      using epochs_window_ops(3) [of s e None]
      by (auto simp: evaluate_operation_def Let_def split: sum.split prod.split)
    with that show ?thesis by simp
  qed
  have rc: "same_epochs t (snd (andthen (append_receipt e' wid i t) (\<lambda>_ s2. (Inr b, s2))))" for t e' i b
    by (rule epochs_andthen) (simp_all add: epochs_receipt)
  show ?thesis
    unfolding authorize_def
    by (auto intro: same_epochs_trans [OF ev rc] ev split: prod.split sum.split)
qed

text \<open>A refused claim writes no claiming; a claim writes one, for its task.\<close>

lemma claim_txn_window:
  assumes "claim_task_txn e wid tid ow l s = (Inr ep, s')"
  shows "\<exists>w. get_window wid s' = Inr w"
proof -
  from claim_txn_steps [OF assms] obtain task s1 s2 and w :: window_row where
    w: "window_row_of wid s = Some w"
    and wr: "write_claim e wid tid ow ep (now_ms e 0 + l) s = (Inr (), s1)"
    and rs: "write_reservation e w tid ep s1 = (Inr (), s2)"
    and s': "s' = charge_attempt e wid (t_status (task :: task_row) = ''INTERRUPTED'') s2"
    by blast
  have "windows s1 = windows s"
    using wr by (auto simp: write_claim_def split: option.splits sum.splits)
  then have "windows s2 = windows s" using write_reservation_rows(3) [OF rs] by simp
  with w show ?thesis
    by (auto simp: s' get_window_def window_row_of_def charge_attempt_def find_sql_update split: option.split)
qed

lemma refused_claim:
  assumes "claim_task e wid tid ow l s = (Inl err, s')"
  shows "s' = s"
proof (cases "claim_task_txn e wid tid ow l s")
  case (Pair r t)
  show ?thesis
  proof (cases r)
    case (Inl x)
    with Pair assms show ?thesis by (simp add: claim_task_def)
  next
    case (Inr ep)
    with Pair obtain w where "get_window wid t = Inr w" using claim_txn_window by blast
    with Pair Inr assms show ?thesis by (simp add: claim_task_def)
  qed
qed

lemma claim_task_epochs:
  assumes "claim_task e wid tid ow l s = (Inr (ep, w), s')" "te \<in> set (claim_epochs s')"
  shows "te = (tid, ep) \<or> (te \<in> set (claim_epochs s) \<and> fst te \<noteq> tid)"
proof -
  from assms(1) have "claim_task_txn e wid tid ow l s = (Inr ep, s')"
    by (auto simp: claim_task_def andthen_ok transact_ok get_window_def split: option.splits)
  from claim_txn_steps [OF this] obtain task s1 s2 and w :: window_row where
    wr: "write_claim e wid tid ow ep (now_ms e 0 + l) s = (Inr (), s1)"
    and rs: "write_reservation e w tid ep s1 = (Inr (), s2)"
    and s': "s' = charge_attempt e wid (t_status (task :: task_row) = ''INTERRUPTED'') s2"
    by blast
  have "claims s' = claims s1"
    using write_reservation_rows(3) [OF rs] by (simp add: s')
  with assms(2) obtain c where c: "c \<in> set (claims s1)" "te = (cl_task_id c, cl_epoch c)"
    by (auto simp: claim_epochs_def)
  from write_claim_rows [OF wr c(1)] c(2) show ?thesis
    by (auto simp: claim_epochs_def)
qed

section \<open>The claim loop\<close>

lemma dict_set_keeps: "te \<in> set d \<Longrightarrow> fst te \<noteq> k \<Longrightarrow> te \<in> set (dict_set k v d)"
  by (induction k v d rule: dict_set.induct) auto

lemma dict_set_has: "(k, v) \<in> set (dict_set k v d)"
  by (induction k v d rule: dict_set.induct) auto

text \<open>
  Since the state \<open>s0\<close> the loop has written no row of the task store, and every claiming that
  \<open>s0\<close> does not have is an entry of the dictionary.
\<close>

definition claimed_since :: "db \<Rightarrow> claimed \<Rightarrow> db \<Rightarrow> bool" where
  "claimed_since s0 cl s \<longleftrightarrow> store_part s = store_part s0
     \<and> set (claim_epochs s) \<subseteq> set (claim_epochs s0) \<union> set cl
     \<and> fst ` set cl \<subseteq> t_id ` set (tasks s0)"

lemma store_part_tasks: "store_part s = store_part t \<Longrightarrow> tasks s = tasks t"
  by (simp add: store_part_def)

lemma control_authorize: "store_part (snd (authorize e packs wid op repo subj inp s)) = store_part s"
proof -
  have ev: "control_frame s s1" if "evaluate_operation e packs wid op repo s = (a, s1)" for a s1
  proof -
    have "control_frame s (snd (active_window e None s))" by (simp add: active_window_def Let_def)
    then have "control_frame s (snd (evaluate_operation e packs wid op repo s))"
      by (auto simp: evaluate_operation_def Let_def split: sum.split prod.split)
    with that show ?thesis by simp
  qed
  have rc: "control_frame t (snd (andthen (append_receipt e' wid i t) (\<lambda>_ s2. (Inr b, s2))))" for t e' i b
    by (rule frame_andthen) (simp_all add: control_append_receipt)
  have "control_frame s (snd (authorize e packs wid op repo subj inp s))"
    unfolding authorize_def
    by (auto intro: frame_trans(2) [OF ev rc] ev split: prod.split sum.split)
  then show ?thesis by (simp add: control_frame_def)
qed

lemma claimed_since_claim:
  assumes P: "claimed_since s0 cl s" and au: "authorize e packs wid op repo tid inp s = (Inr True, s1)"
    and cl: "claim_task e' wid tid ow l s1 = (Inr (ep, w), s2)"
  shows "claimed_since s0 (dict_set tid ep cl) s2"
proof -
  have s1: "store_part s1 = store_part s0" "claim_epochs s1 = claim_epochs s"
    using P control_authorize [of e packs wid op repo tid inp s]
      epochs_authorize [of s e packs wid op repo tid inp] au
    by (simp_all add: claimed_since_def same_epochs_def)
  have "store_part s2 = store_part s1"
    using control_claim [of s1 e' wid tid ow l] cl by (simp add: control_frame_def)
  moreover have "te \<in> set (claim_epochs s0) \<union> set (dict_set tid ep cl)"
    if "te \<in> set (claim_epochs s2)" for te
    using claim_task_epochs [OF cl that] P dict_set_has [of tid ep cl]
      dict_set_keeps [of te cl tid ep]
    by (auto simp: claimed_since_def s1(2))
  moreover have "fst ` set (dict_set tid ep cl) \<subseteq> t_id ` set (tasks s0)"
  proof -
    obtain task where "task_row_of tid s1 = Some task"
      using cl by (auto simp: claim_task_def claim_task_txn_def Let_def andthen_ok transact_ok
          split: option.splits if_splits)
    then have "tid \<in> t_id ` set (tasks s0)"
      using store_part_tasks [OF s1(1)] by (auto simp: task_row_of_def dest: find_SomeD)
    moreover have "fst ` set (dict_set tid ep cl) \<subseteq> insert tid (fst ` set cl)"
      using set_dict_set [of tid ep cl] by auto
    ultimately show ?thesis using P by (simp add: claimed_since_def) blast
  qed
  ultimately show ?thesis
    using P s1(1) by (auto simp: claimed_since_def)
qed

text \<open>Both invariants of the loop at once, whether it returns or raises.\<close>

lemma claim_loop_made:
  assumes "claims_made n wid (co_owner co) cl s" "claimed_since s0 cl s"
    "claim_loop e stop packs wid k tids cl co s = (r, (co', s'))"
  shows "co_owner co' = co_owner co \<and> (\<exists>cl'. (claims_made n wid (co_owner co) cl' s' \<and> claimed_since s0 cl' s')
     \<and> (\<forall>c m. r = Inr (c, m) \<longrightarrow> cl' = c))"
proof (rule claim_loop_keeps [OF _ _ _ _ refl assms(3)])
  let ?P = "\<lambda>cl s. claims_made n wid (co_owner co) cl s \<and> claimed_since s0 cl s"
  show "?P cl s" using assms(1,2) by simp
  show "?P cl s1" if "?P cl s" "authorize e packs wid op repo tid inp s = (r, s1)"
    for cl s e op repo tid inp r s1
    using that claims_made_evolves [OF _ acts_authorize, of n wid "co_owner co" cl s e packs wid op repo tid inp]
      epochs_authorize [of s e packs wid op repo tid inp]
      control_authorize [of e packs wid op repo tid inp s]
    by (simp add: claimed_since_def same_epochs_def)
  show "?P cl s1" if "?P cl s" "claim_task e wid tid ow l s = (Inl err, s1)" for cl s e tid ow l err s1
    using that refused_claim by blast
  show "?P (dict_set tid ep cl) s2" if "?P cl s"
      "authorize e packs wid op repo tid inp s = (Inr True, s1)"
      "claim_task e' wid tid (co_owner co) l s1 = (Inr (ep, w), s2)"
    for cl s e op repo tid inp s1 e' l ep w s2
    using claims_made_claim [OF _ that(2,3)] claimed_since_claim [OF _ that(2,3)] that(1) by blast
qed

section \<open>Executors that claim nothing\<close>

lemma same_on_db: "same_epochs s (snd r) \<Longrightarrow> same_epochs s (snd (snd (on_db r co)))"
  by (simp add: on_db_def)

lemma same_action_andthen:
  assumes "same_epochs s (snd (snd r))"
    and "\<And>x co t. r = (Inr x, (co, t)) \<Longrightarrow> same_epochs t (snd (snd (k x (co, t))))"
  shows "same_epochs s (snd (snd (andthen r k)))"
  by (rule andthen_rel [where f = snd, OF same_epochs_trans]) (use assms in auto)

lemma epochs_refresh_each: "same_epochs s (snd (snd (refresh_each e gids co s)))"
proof (induction e gids co s rule: refresh_each.induct)
  case (1 e co s)
  then show ?case by simp
next
  case (2 e gid gids co s)
  have "same_epochs s s1" if "refresh_goal_status e gid s = (b, s1)" for b s1
    using epochs_window_ops(4) [of s e gid] that by simp
  with 2 show ?case by (auto intro: same_epochs_trans split: prod.split sum.split)
qed

lemma epochs_refresh: "same_epochs s (snd (snd (refresh_claimed_goals e tids co s)))"
  by (simp add: refresh_claimed_goals_def epochs_refresh_each split: prod.split)

lemma epochs_abandon_each: "same_epochs s (snd (abandon_each e wid ow reason cs s))"
proof (induction e wid ow reason cs s rule: abandon_each.induct)
  case (1 e wid ow reason s)
  then show ?case by simp
next
  case (2 e wid ow reason tid ep rest s)
  have ab: "same_epochs s s1" if "abandon_task_claim e wid tid ow ep reason s = (b, s1)" for b s1
    using epochs_window_ops(1) [of s e wid tid ow ep reason] that by simp
  show ?case
    using 2
    by (auto intro: ab same_epochs_trans [OF ab] intro!: epochs_andthen split: prod.split sum.split)
qed

lemma epochs_abandon_claimed: "same_epochs s (snd (snd (abandon_claimed e wid cs reason co s)))"
  unfolding abandon_claimed_def
  by (auto simp: Let_def intro!: same_action_andthen same_on_db epochs_abandon_each epochs_refresh)

lemma epochs_cases:
  "(\<And>y. same_epochs s (snd (f y))) \<Longrightarrow>
     same_epochs s (snd (case r of Inl err \<Rightarrow> (Inl err, s) | Inr y \<Rightarrow> f y))"
  "same_epochs s (snd a) \<Longrightarrow> same_epochs s (snd b) \<Longrightarrow> same_epochs s (snd (if c then a else b))"
  "same_epochs s (snd (x, s))"
  by (auto split: sum.split)

section \<open>The steps of a tick\<close>

text \<open>
  A tick, step by step: the window is read, the loop claims, and the batch is dispatched. The
  claims it is given were opened with an allowed receipt, and are settled when it returns.
\<close>

lemma tick_dispatch:
  assumes "tick e stop packs run co s = (r, (co', s'))" "system s"
  obtains (nothing) "same_epochs s s'" "store_part s' = store_part s"
    | (claimed) e1 w s1 l co2 s2 cl where "active_window e None s = (Some w, s1)"
      "claim_loop e1 stop packs (w_id w) 2 (runnable_tasks (w_id w) (w_max_concurrent_tasks w) s1) []
         (co\<lparr>co_ticks := co_ticks co + 1\<rparr>) s1 = (l, (co2, s2))"
      "claims_made (length (receipts s)) (w_id w) (co_owner co) cl s2" "claimed_since s cl s2"
      "co_owner co2 = co_owner co" "\<And>c m. l = Inr (c, m) \<Longrightarrow> cl = c"
      "(\<exists>err. l = Inl err \<and> r = Inl err \<and> s' = s2) \<or> (\<exists>m. l = Inr ([], m) \<and> r = Inr 0 \<and> s' = s2)
       \<or> (\<exists>m e2. l = Inr (cl, m) \<and> cl \<noteq> [] \<and>
            dispatch_claimed e2 (stop m) run (w_id w) cl co2 s2 = (r, (co', s')))"
proof -
  obtain x s1 where aw: "active_window e None s = (x, s1)" by force
  have s1: "store_part s1 = store_part s" "receipts s1 = receipts s" "same_epochs s s1" "system s1"
    using aw epochs_window_ops(3) [of s e None] acts_system [OF acts_window_ops(2) assms(2), of e None]
    by (auto simp: active_window_def Let_def store_part_def)
  show thesis
  proof (cases "stop 0 \<or> stop 1 \<or> x = None")
    case True
    then have "s' = s \<or> s' = s1"
      using assms(1) aw by (auto simp: tick_def Let_def split: if_splits)
    with s1(1,3) have "same_epochs s s'" "store_part s' = store_part s" by auto
    then show thesis by (rule nothing)
  next
    case False
    then obtain w where w: "x = Some w" by auto
    let ?run = "runnable_tasks (w_id w) (w_max_concurrent_tasks w) s1"
    let ?co = "co\<lparr>co_ticks := co_ticks co + 1\<rparr>"
    obtain l co2 s2 where loop: "claim_loop (later 2 e) stop packs (w_id w) 2 ?run [] ?co s1 = (l, (co2, s2))"
      by (metis surj_pair)
    have start: "claims_made (length (receipts s)) (w_id w) (co_owner ?co) [] s1" "claimed_since s [] s1"
      using s1 by (auto simp: claims_made_def claimed_since_def same_epochs_def)
    from claim_loop_made [OF start loop] obtain cl where
      cl: "claims_made (length (receipts s)) (w_id w) (co_owner co) cl s2" "claimed_since s cl s2"
        "\<And>c m. l = Inr (c, m) \<Longrightarrow> cl = c" "co_owner co2 = co_owner co"
      by auto
    have rest: "andthen (l, (co2, s2)) (\<lambda>(claimed, n) (co2, s2).
          if claimed = [] then (Inr 0, (co2, s2))
          else dispatch_claimed (later (2 + 20 * int (length ?run)) e) (stop n) run (w_id w) claimed co2 s2)
        = (r, (co', s'))"
      using assms(1) False aw w loop by (simp add: tick_def Let_def)
    show thesis
    proof (rule claimed [OF aw [unfolded w] loop cl(1,2,4,3)])
      show "(\<exists>err. l = Inl err \<and> r = Inl err \<and> s' = s2) \<or> (\<exists>m. l = Inr ([], m) \<and> r = Inr 0 \<and> s' = s2)
       \<or> (\<exists>m e2. l = Inr (cl, m) \<and> cl \<noteq> [] \<and>
            dispatch_claimed e2 (stop m) run (w_id w) cl co2 s2 = (r, (co', s')))"
        using rest cl(3) by (cases l) (auto split: if_splits)
    qed
  qed
qed

section \<open>Ticks over an executor that claims nothing\<close>

locale frugal_executor = batch_executor +
  assumes run_claims: "same_epochs s (snd (run e tid s))"
begin

lemma epochs_complete: "same_epochs s (snd (complete_worker e run wid ow ep a s))"
  unfolding complete_worker_def Let_def
  by (intro epochs_andthen epochs_cases run_claims epochs_window_ops)

lemma epochs_assignment: "same_epochs s (snd (execute_assignment e run wid ow cs a s))"
proof -
  have done1: "same_epochs s s1" if "complete_worker e run wid ow ep a s = (r, s1)" for ep r s1
    using epochs_complete [of s e wid ow ep a] that by simp
  have gone: "same_epochs s1 s2" if "abandon_task_claim e' wid tid ow ep x s1 = (r, s2)"
    for e' tid ep x r s1 s2
    using epochs_window_ops(1) [of s1 e' wid tid ow ep x] that by simp
  show ?thesis
    unfolding execute_assignment_def catch_def
    by (auto intro: done1 same_epochs_trans [OF done1 gone] split: option.split prod.split sum.split)
qed

lemma epochs_workers:
  "same_epochs s (snd (run_workers e (\<lambda>e' a. execute_assignment e' run wid ow cs a) as s))"
  by (induction "e" "\<lambda>e' a. execute_assignment e' run wid ow cs a" "as" s rule: run_workers.induct)
    (auto intro!: epochs_andthen epochs_assignment)

lemma epochs_team:
  "same_epochs s (snd (team_graph e (\<lambda>e' a. execute_assignment e' run wid ow cs a) as s))"
  unfolding team_graph_def
  by (intro epochs_cases epochs_andthen epochs_workers)

lemma epochs_batch: "same_epochs s (snd (snd (execute_claimed_batch e run wid cs co s)))"
proof -
  have graph: "same_epochs s s1"
    if "team_graph e (\<lambda>e' a. execute_assignment e' run wid ow cs a) as s = (r, s1)" for ow as r s1
    using epochs_team [of s e wid ow cs as] that by simp
  have failed: "same_epochs t (snd (snd (graph_failed e' wid cs err co t)))" for t e' err
    unfolding graph_failed_def
    by (auto simp: Let_def intro!: same_action_andthen same_on_db epochs_abandon_each epochs_refresh)
  have finished: "same_epochs t (snd (snd (batch_finished e' cs team co t)))" for t e' team
    unfolding batch_finished_def
    by (intro same_action_andthen) (auto simp: Let_def epochs_refresh)
  show ?thesis
    unfolding execute_claimed_batch_def Let_def
    by (auto intro: same_epochs_trans [OF graph failed] same_epochs_trans [OF graph finished]
        split: prod.split sum.split)
qed

lemma epochs_dispatch: "same_epochs s (snd (snd (dispatch_claimed e b run wid cs co s)))"
proof -
  have "same_epochs s (snd (snd (andthen (abandon_claimed e wid cs x co1 s) (\<lambda>_ y. (Inr m, y)))))"
    for x co1 m
    by (intro same_action_andthen epochs_abandon_claimed) simp
  moreover have "same_epochs s s2" if "execute_claimed_batch e run wid cs co1 s = (r, (co2, s2))"
    for co1 r co2 s2
    using epochs_batch [of s e wid cs co1] that by simp
  ultimately show ?thesis
    unfolding dispatch_claimed_def by (auto simp: Let_def split: prod.split)
qed

text \<open>A claiming of the final state is settled, or it was there at the start.\<close>

lemma tick_settles:
  assumes "tick e stop packs run co s = (Inr n, (co', s'))" "system s"
    "\<forall>t \<in> set (tasks s). py_strip (t_id t) = t_id t" "te \<in> set (claim_epochs s')"
  shows "te \<in> set (claim_epochs s) \<or> settled s' te"
  using assms(1,2)
proof (cases rule: tick_dispatch)
  case nothing
  with assms(4) show ?thesis by (simp add: same_epochs_def)
next
  case (claimed e1 w s1 l co2 s2 cl)
  then consider "s' = s2" "cl = []"
    | m e2 where "dispatch_claimed e2 (stop m) run (w_id w) cl co2 s2 = (Inr n, (co', s'))"
    by blast
  then show ?thesis
  proof cases
    case 1
    with claimed(4) assms(4) show ?thesis by (auto simp: claimed_since_def)
  next
    case 2
    have made: "system s2" "\<forall>te \<in> set cl. opened (w_id w) (co_owner co2) s2 te" "distinct (map fst cl)"
      using claimed(3,5) by (auto simp: claims_made_def)
    have "\<forall>te \<in> set cl. py_strip (fst te) = fst te"
      using claimed(4) assms(3) by (force simp: claimed_since_def)
    from dispatch_settles [OF 2 made this] have "\<forall>te \<in> set cl. settled s' te" .
    moreover have "te \<in> set (claim_epochs s2)"
      using epochs_dispatch [of s2 e2 "stop m" "w_id w" cl co2] 2 assms(4) by (simp add: same_epochs_def)
    ultimately show ?thesis
      using claimed(4) by (auto simp: claimed_since_def)
  qed
qed

end

section \<open>Authorised claimings\<close>

context frugal_executor
begin

lemma tick_authorized:
  assumes "tick e stop packs run co s = (r, (co', s'))" "system s" "te \<in> set (claim_epochs s')"
  shows "te \<in> set (claim_epochs s) \<or>
    (\<exists>w t. active_window e None s = (Some w, t) \<and> opened (w_id w) (co_owner co) s' te
       \<and> authorized_since (length (receipts s)) (w_id w) s' (fst te))"
  using assms(1,2)
proof (cases rule: tick_dispatch)
  case nothing
  with assms(3) show ?thesis by (simp add: same_epochs_def)
next
  case (claimed e1 w s1 l co2 s2 cl)
  then have step: "acts s2 s' \<and> same_epochs s2 s'"
    using cacts_dispatch [of s2 _ _ "w_id w" cl co2] epochs_dispatch [of s2 _ _ "w_id w" cl co2]
    by (metis acts_refl same_epochs_refl snd_conv)
  have "te \<in> set (claim_epochs s) \<or> te \<in> set cl"
    using claimed(4) assms(3) step by (auto simp: claimed_since_def same_epochs_def)
  moreover have "claims_made (length (receipts s)) (w_id w) (co_owner co) cl s'"
    using claims_made_evolves [OF claimed(3)] step by blast
  ultimately show ?thesis
    using claimed(1) by (auto simp: claims_made_def)
qed

end

text \<open>The coordinator's own executor over fixture tasks claims nothing.\<close>

lemma framed_epochs: "progress_frame s s' \<Longrightarrow> same_epochs s s'"
  by (rule same_claims) (simp add: progress_frame_def control_part_def)

lemma fixture_epochs: "same_epochs s (snd (execute_task e kw (fixture_execute h root) c tid s))"
  by (rule framed_epochs, rule framed.R_execute_task, rule framed.R_fixture)

interpretation frugal_fixture: frugal_executor "coordinator_execute h root False (\<lambda>e. execute_task e
    (\<lambda>_. None) (fixture_execute h root) ''git_diff_check'')" for h root
  by unfold_locales (auto simp: coordinator_execute_def fixture_epochs split: sum.split)

section \<open>Stopping\<close>

text \<open>Giving a batch back writes no row of the task store.\<close>

lemma control_abandon_each: "control_frame s (snd (abandon_each e wid ow reason cs s))"
proof (induction e wid ow reason cs s rule: abandon_each.induct)
  case (1 e wid ow reason s)
  then show ?case by simp
next
  case (2 e wid ow reason tid ep rest s)
  have ab: "control_frame s s1" if "abandon_task_claim e wid tid ow ep reason s = (b, s1)" for b s1
    using control_close [of s e wid tid ow ep "''FAILED''" False "''coordinator_execution_failed''" reason] that
    by (simp add: abandon_task_claim_def)
  show ?case
    using 2
    by (auto intro: ab frame_trans(2) [OF ab] intro!: frame_andthen split: prod.split sum.split)
qed

lemma control_refresh_each: "control_frame s (snd (snd (refresh_each e gids co s)))"
proof (induction e gids co s rule: refresh_each.induct)
  case (1 e co s)
  then show ?case by simp
next
  case (2 e gid gids co s)
  have "control_frame s s1" if "refresh_goal_status e gid s = (b, s1)" for b s1
    using control_run_control [of s "RefreshGoalStatus e gid"] that by simp
  with 2 show ?case by (auto intro: frame_trans(2) split: prod.split sum.split)
qed

lemma control_action_andthen:
  assumes "control_frame s (snd (snd r))"
    and "\<And>x co t. r = (Inr x, (co, t)) \<Longrightarrow> control_frame t (snd (snd (k x (co, t))))"
  shows "control_frame s (snd (snd (andthen r k)))"
  by (rule andthen_rel [where f = snd, OF frame_trans(2)]) (use assms in auto)

lemma control_abandon_claimed: "control_frame s (snd (snd (abandon_claimed e wid cs x co s)))"
  unfolding abandon_claimed_def refresh_claimed_goals_def
  by (intro control_action_andthen)
    (auto simp: on_db_def Let_def control_abandon_each control_refresh_each
      intro!: control_action_andthen split: prod.split)

lemma control_stopped:
  assumes "dispatch_claimed e True run wid cs co s = (r, (co', s'))"
  shows "store_part s' = store_part s"
proof -
  have "control_frame s (snd (snd (dispatch_claimed e True run wid cs co s)))"
    by (auto simp: dispatch_claimed_def begin_dispatch_def
        intro!: control_action_andthen control_abandon_claimed)
  with assms show ?thesis by (simp add: control_frame_def)
qed

end
