(* ===== verification/Batch_Scenarios.thy ===== *)
theory Batch_Scenarios
  imports Scenarios Tick_Laws
begin

text \<open>
  A concrete host for the witnesses of the coordinator: a window in which another coordinator
  holds a task, and a running goal whose one task is waiting, for a tick to claim and to run
  with the fixture executor.
\<close>

definition b_policy :: window_policy where
  "b_policy = \<lparr>wp_window_id = ''w'', wp_policy_id = ''p'', wp_policy_revision = 1,
     wp_owner_identity = ''o'', wp_starts_at = ''2026-01-01T00:00:00Z'',
     wp_expires_at = ''2026-01-02T00:00:00Z'', wp_repositories = [''o/r''],
     wp_capabilities = [''execute_task''], wp_max_concurrent_tasks = 2, wp_max_tasks = 3,
     wp_max_retries = 1, wp_max_token_units = 0, wp_max_cost_micro_units = 0,
     wp_per_task_token_reservation = 0, wp_per_task_cost_reservation = 0,
     wp_provider_quota_state = ''UNKNOWN'', wp_enforcement_class = ''POST_RUN_OBSERVED''\<rparr>"

definition b_goal :: goal_request where
  "b_goal = \<lparr>gq_title = ''g'', gq_objective = ''x'', gq_repository = ''o/r'', gq_idempotency_key = ''k'',
     gq_executor_kind = ''deterministic_fixture'', gq_orchestration_mode = ''single'',
     gq_binding_ref = '''', gq_policy_ref = '''', gq_window_id = ''''\<rparr>"

definition b_task :: "string \<Rightarrow> task_request" where
  "b_task key = (wtask ''t'' key)\<lparr>q_executor_kind := ''deterministic_fixture''\<rparr>"

definition b_task_id :: string where "b_task_id = ''task-0-1''"
definition b_goal_id :: string where "b_goal_id = ''goal-0-3''"

definition batch_calls :: "call list" where
  "batch_calls =
     [OpenControl, StoreCall (CreateTask (wenv 1 0) (b_task ''k1'')),
      StoreCall (CreateTask (wenv 2 0) (b_task ''k2'')),
      ControlCall (CreateGoal (wenv 3 0) b_goal),
      ControlCall (SaveGoalPlan (wenv 4 0) b_goal_id 1 '''' '''' [] []),
      ControlCall (ApproveGoal (wenv 5 0) b_goal_id 1 ''''),
      ControlCall (ActivateWindow (wenv 6 0) b_policy ''ACTIVATE''),
      ControlCall (LinkGoalTask b_goal_id 1 ''a'' b_task_id [] 0),
      ControlCall (MarkGoalRunning (wenv 7 0) b_goal_id 1 ''w''),
      ControlCall (ClaimTask (wenv 8 0) ''w'' ''task-0-2'' ''other'' 1000)]"

definition batch_db :: db where "batch_db = run_calls batch_calls empty_db"

definition b_coordinator :: coordinator where
  "b_coordinator = \<lparr>co_owner = ''co'', co_claim_lease_ms = 1000, co_workspace_root = ''/ws'',
     co_dispatch_active = False, co_last_error = '''', co_last_batch = JNull, co_ticks = 0,
     co_executions = 0\<rparr>"

text \<open>The executor of the scenario fails halfway: the tick gives its claim back.\<close>

definition b_run :: executor where
  "b_run e tid s = (Inl (PyError ''RuntimeError'' ''boom''),
     snd (transition_to e tid ''PREPARING_WORKSPACE'' s))"

definition b_tick :: "(nat \<Rightarrow> bool) \<Rightarrow> db \<Rightarrow> nat action" where
  "b_tick stop s = tick (wenv 100 0) stop [] b_run b_coordinator s"

text \<open>What a tick returned, and the claims and tasks it left.\<close>

definition b_view :: "nat action \<Rightarrow> nat option \<times> (string \<times> string \<times> int \<times> string) list \<times> (string \<times> string) list"
where
  "b_view r = (case r of (x, (_, s)) \<Rightarrow>
     (case x of Inl _ \<Rightarrow> None | Inr n \<Rightarrow> Some n,
      map (\<lambda>c. (cl_task_id c, cl_owner c, cl_epoch c, cl_status c)) (claims s),
      map (\<lambda>t. (t_id t, t_status t)) (tasks s)))"

definition b_ids :: "db \<Rightarrow> string list" where
  "b_ids s = map t_id (tasks s)"

definition b_statuses :: "db \<Rightarrow> string list" where
  "b_statuses s = map t_status (tasks s)"

lemma system_batch: "system batch_db"
proof -
  have "reachable batch_db"
    unfolding batch_db_def by (intro reachable_run reachable.new_file)
  moreover have "control_schema batch_db" by code_simp
  ultimately show ?thesis by (simp add: system_def)
qed

lemma batch_ids: "\<forall>t \<in> set (tasks batch_db). py_strip (t_id t) = t_id t"
proof -
  have "list_all (\<lambda>x. py_strip x = x) (b_ids batch_db)" by code_simp
  then show ?thesis by (simp add: list_all_iff b_ids_def)
qed

lemma b_ticked:
  obtains co s a b where
    "tick (wenv 100 0) (\<lambda>_. False) [] b_run b_coordinator batch_db = (Inr 0, (co, s))"
    "a \<in> set (claims s)" "cl_task_id a = ''task-0-2''" "cl_status a = ''ACTIVE''"
    "b \<in> set (claims s)" "cl_task_id b = ''task-0-1''" "cl_status b = ''FAILED''"
    "map t_status (tasks s) = [''PREPARING_WORKSPACE'', ''QUEUED'']"
proof -
  have "b_view (b_tick (\<lambda>_. False) batch_db) = (Some 0,
      [(''task-0-2'', ''other'', 1, ''ACTIVE''), (''task-0-1'', ''co'', 1, ''FAILED'')],
      [(''task-0-1'', ''PREPARING_WORKSPACE''), (''task-0-2'', ''QUEUED'')])"
    by code_simp
  then obtain co s where "tick (wenv 100 0) (\<lambda>_. False) [] b_run b_coordinator batch_db = (Inr 0, (co, s))"
    "map (\<lambda>c. (cl_task_id c, cl_owner c, cl_epoch c, cl_status c)) (claims s) =
      [(''task-0-2'', ''other'', 1, ''ACTIVE''), (''task-0-1'', ''co'', 1, ''FAILED'')]"
    "map (\<lambda>t. (t_id t, t_status t)) (tasks s) =
      [(''task-0-1'', ''PREPARING_WORKSPACE''), (''task-0-2'', ''QUEUED'')]"
    by (auto simp: b_view_def b_tick_def split: prod.splits sum.splits)
  moreover from this obtain a b where "claims s = [a, b]" "cl_task_id a = ''task-0-2''"
    "cl_status a = ''ACTIVE''" "cl_task_id b = ''task-0-1''" "cl_status b = ''FAILED''"
    by (auto simp: map_eq_Cons_conv)
  ultimately show thesis
    by (intro that [of co s a b]) (auto simp: map_eq_Cons_conv)
qed

interpretation b_frugal: frugal_executor b_run
  by unfold_locales (simp_all add: b_run_def acts_task_ops framed_epochs progress_task_ops)

end
