(* ===== verification/Batch_Properties.thy ===== *)
theory Batch_Properties
  imports Batch_Scenarios
begin

text \<open>
  The properties of the unattended coordinator and of task execution: a tick is a sequence of
  store calls, it leaves no claim of its own open, it claims nothing unauthorised and runs
  nothing once it is asked to stop; an execution always ends, and touches one task only.
\<close>

section \<open>Ticks\<close>

lemma executor_frugal:
  assumes "\<And>e tid s. acts s (snd (run e tid s))" "\<And>e tid s. same_epochs s (snd (run e tid s))"
  shows "frugal_executor run"
  using assms
  by (simp add: frugal_executor_def frugal_executor_axioms_def batch_executor_def acting_def)





text \<open>
  C8. A tick claims nothing without authority: whether it returns or raises, every claim it
  opened is in the window that was active when it began, for this coordinator, and the window
  has an allowed policy receipt for the task that was written during the tick.
\<close>

theorem tick_claims_authorized:
  assumes "\<And>e tid s. acts s (snd (run e tid s))" "\<And>e tid s. same_epochs s (snd (run e tid s))"
    "reachable s" "control_schema s" "tick e stop packs run co s = (r, (co', s'))" "c \<in> set (claims s')"
    "\<forall>c0 \<in> set (claims s). cl_task_id c0 = cl_task_id c \<longrightarrow> cl_epoch c0 \<noteq> cl_epoch c"
  shows "\<exists>w. fst (active_window e None s) = Some w \<and> cl_window_id c = w_id w \<and> cl_owner c = co_owner co
     \<and> (\<exists>q \<in> set (drop (length (receipts s)) (receipts s')). rc_window_id q = w_id w
          \<and> rc_operation_type q = ''policy_evaluation'' \<and> rc_subject_id q = cl_task_id c
          \<and> rc_decision q = ''allowed'')"
proof -
  have frugal: "frugal_executor run" by (rule executor_frugal [OF assms(1,2)])
  have sys: "system s" using assms(3,4) by (simp add: system_def)
  have step: "acts s s'"
    using batch_executor.cacts_tick [OF frugal_executor.axioms(1) [OF frugal], of s e stop packs co]
      assms(5) by simp
  have "distinct (map cl_task_id (claims s'))"
    using reachable_keys [of s'] acts_system [OF step sys] by (auto simp: keys_ok_def system_def)
  from find_distinct_key [OF this assms(6) refl]
  have row: "claim_row_of (cl_task_id c) s' = Some c" by (simp add: claim_row_of_def)
  let ?te = "(cl_task_id c, cl_epoch c)"
  have "?te \<in> set (claim_epochs s')" using assms(6) by (auto simp: claim_epochs_def)
  moreover have "?te \<notin> set (claim_epochs s)" using assms(7) by (auto simp: claim_epochs_def)
  ultimately obtain w t where "active_window e None s = (Some w, t)"
      "opened (w_id w) (co_owner co) s' ?te" "authorized_since (length (receipts s)) (w_id w) s' (cl_task_id c)"
    using frugal_executor.tick_authorized [OF frugal assms(5) sys, of ?te] by auto
  with row show ?thesis by (auto simp: opened_def authorized_since_def)
qed

definition b_unclaimed :: "string \<Rightarrow> db \<Rightarrow> bool" where
  "b_unclaimed tid s \<longleftrightarrow> list_all (\<lambda>c. cl_task_id c \<noteq> tid) (claims s)"

theorem tick_claims_authorized_witness:
  "\<exists>co s c w. tick (wenv 100 0) (\<lambda>_. False) [] b_run b_coordinator batch_db = (Inr 0, (co, s))
     \<and> c \<in> set (claims s) \<and> fst (active_window (wenv 100 0) None batch_db) = Some w \<and> cl_window_id c = w_id w"
proof -
  obtain co s c where t: "tick (wenv 100 0) (\<lambda>_. False) [] b_run b_coordinator batch_db = (Inr 0, (co, s))"
    and c: "c \<in> set (claims s)" "cl_task_id c = ''task-0-1''"
    by (rule b_ticked)
  have "b_unclaimed ''task-0-1'' batch_db" by code_simp
  then have "\<forall>c0 \<in> set (claims batch_db). cl_task_id c0 = cl_task_id c \<longrightarrow> cl_epoch c0 \<noteq> cl_epoch c"
    using c(2) by (auto simp: b_unclaimed_def list_all_iff)
  moreover have "reachable batch_db" "control_schema batch_db"
    using system_batch by (simp_all add: system_def)
  ultimately show ?thesis
    using tick_claims_authorized [OF b_frugal.run_acts b_frugal.run_claims _ _ t c(1)] t c(1) by blast
qed

section \<open>Stopping\<close>

text \<open>
  Once the stop event is set it stays set, and a tick that has seen it runs nothing: a tick
  that changes any row of the task store (a task, an event, evidence, a run, a checkpoint) has
  claimed a batch and has read the event clear at every reading, the one made when it began the
  dispatch included.
\<close>

theorem stopped_tick_runs_nothing:
  assumes "\<forall>i j. i \<le> j \<longrightarrow> stop i \<longrightarrow> stop j" "reachable s" "control_schema s"
    "tick e stop packs run co s = (r, (co', s'))" "store_part s' \<noteq> store_part s"
  shows "\<exists>e1 w s1 cl m co2 s2. active_window e None s = (Some w, s1)
     \<and> claim_loop e1 stop packs (w_id w) 2 (runnable_tasks (w_id w) (w_max_concurrent_tasks w) s1) []
         (co\<lparr>co_ticks := co_ticks co + 1\<rparr>) s1 = (Inr (cl, m), (co2, s2))
     \<and> cl \<noteq> [] \<and> (\<forall>i \<le> m. \<not> stop i)"
proof -
  have sys: "system s" using assms(2,3) by (simp add: system_def)
  from assms(4) sys show ?thesis
  proof (cases rule: tick_dispatch)
    case nothing
    with assms(5) show ?thesis by simp
  next
    case (claimed e1 w s1 l co2 s2 cl)
    have s2: "store_part s2 = store_part s" using claimed(4) by (simp add: claimed_since_def)
    with claimed(7) assms(5) obtain m e2 where l: "l = Inr (cl, m)" "cl \<noteq> []"
      and run: "dispatch_claimed e2 (stop m) run (w_id w) cl co2 s2 = (r, (co', s'))"
      by metis
    have "\<not> stop m"
      using control_stopped [of e2 run "w_id w" cl co2 s2 r co' s'] run s2 assms(5) by auto
    with assms(1) have "\<forall>i \<le> m. \<not> stop i" by blast
    with claimed(1,2) l show ?thesis by blast
  qed
qed

theorem stopped_tick_runs_nothing_witness:
  "\<exists>co s. tick (wenv 100 0) (\<lambda>_. False) [] b_run b_coordinator batch_db = (Inr 0, (co, s))
     \<and> store_part s \<noteq> store_part batch_db \<and> (\<exists>w. fst (active_window (wenv 100 0) None batch_db) = Some w)"
proof -
  obtain co s where t: "tick (wenv 100 0) (\<lambda>_. False) [] b_run b_coordinator batch_db = (Inr 0, (co, s))"
    and st: "map t_status (tasks s) = [''PREPARING_WORKSPACE'', ''QUEUED'']"
    by (rule b_ticked)
  have "b_statuses batch_db = [''QUEUED'', ''QUEUED'']" by code_simp
  with st have d: "store_part s \<noteq> store_part batch_db"
    by (auto simp: b_statuses_def store_part_def)
  have "reachable batch_db" "control_schema batch_db" using system_batch by (simp_all add: system_def)
  from stopped_tick_runs_nothing [OF _ this t d] t d show ?thesis by auto
qed

section \<open>Executions\<close>

text \<open>
  C10. Executing a queued task over a well-behaved executor always ends in an outcome and never
  raises, and the stored task agrees with it: a success leaves the task in the review status of
  its kind, a failure leaves it BLOCKED or FAILED by its class, with the class and the detail
  of the outcome on its row.
\<close>

theorem execution_always_ends:
  assumes "task_row_of tid s = Some t" "t_status t = ''QUEUED''"
    "well_behaved tid (t_executor_kind t) run"
  shows "\<exists>out s' t'. execute_task e kw run c tid s = (Inr out, s') \<and> task_row_of tid s' = Some t'
     \<and> (if xe_success out then t_status t' = review_status (t_executor_kind t)
        else t_status t' = failure_target (xe_failure_classification out)
           \<and> t_failure_classification t' = xe_failure_classification out
           \<and> t_failure_detail t' = xe_failure_detail out)"
proof -
  have "stands tid (t_executor_kind t) ''QUEUED'' s" using assms(1,2) by (simp add: stands_def)
  from execution_ends [OF this assms(3), of e kw c] obtain out s'
    where "execute_task e kw run c tid s = (Inr out, s')" "ended tid (t_executor_kind t) out s'"
    by blast
  then show ?thesis
    by (auto simp: ended_def stands_def failed_with_def split: if_splits)
qed

theorem execution_always_ends_witness:
  "\<exists>out s'. execute_task (wenv 50 0) (\<lambda>_. None)
       (fixture_execute \<lparr>fh_worktree = ''/ws/t'', fh_prepare_error = None,
          fh_validation = Inr (0, '''', ''d''), fh_changed = Inr []\<rparr> ''/ws'')
       ''git_diff_check'' b_task_id batch_db = (Inr out, s')"
proof -
  have "map_option t_status (task_row_of b_task_id batch_db) = Some ''QUEUED''" by code_simp
  then obtain t where "task_row_of b_task_id batch_db = Some t" "t_status t = ''QUEUED''" by auto
  from execution_always_ends [OF this fixture_well_behaved] show ?thesis by blast
qed

text \<open>
  C11. Executing a task with the fixture executor is confined to that task: the rows, events,
  evidence and changed files of every other task, every durable run's accepted checkpoint, and
  the whole control store are as they were. Workers of one batch cannot disturb each other's
  tasks.
\<close>

theorem execution_confined:
  "others_kept tid s (snd (execute_task e kw (fixture_execute h root) c tid s))
   \<and> progress_frame s (snd (execute_task e kw (fixture_execute h root) c tid s))"
  by (intro conjI isolated.R_execute_task isolated.R_fixture framed.R_execute_task framed.R_fixture)


end
