(* ===== verification/Autonomy_Properties.thy ===== *)
theory Autonomy_Properties
  imports Service_Scenarios Batch_Scenarios
begin

text \<open>
  The properties of the autonomy service: the bounds of a validated policy, what an activation
  writes, exactly which operations are authorised and the receipt each decision leaves, and the
  gap in the guard against a second active window.
\<close>

section \<open>Policies\<close>

lemma bounded_int_Inr: "bounded_int kvs k lo hi = Inr v \<Longrightarrow> lo \<le> v \<and> v \<le> hi"
  by (auto simp: bounded_int_def not_less split: option.splits if_splits)

lemma optional_budget_Inr: "optional_budget_int kvs k = Inr v \<Longrightarrow> 0 \<le> v \<and> v \<le> 10 ^ 15"
  by (auto simp: optional_budget_int_def split: json.splits if_splits)

lemma unsupported_none:
  "unsupported packs xs = Inr [] \<Longrightarrow> x \<in> set xs \<Longrightarrow> supports_operation packs x = Inr True"
proof (induction xs)
  case (Cons y ys)
  from Cons.prems(1) obtain ok where y: "supports_operation packs y = Inr ok"
    and r: "map_sum id (\<lambda>zs. if ok then zs else y # zs) (unsupported packs ys) = Inr []"
    by (auto simp: bind_outcome_Inr)
  from r have "ok" "unsupported packs ys = Inr []"
    by (cases "unsupported packs ys"; auto split: if_splits)+
  with Cons y show ?case by auto
qed simp

lemma policy_times_Inr:
  "policy_times lib kvs = Inr (a, b) \<Longrightarrow>
   a \<le> clock_us lib + 300000000 \<and> clock_us lib < b \<and> a < b \<and> b - a \<le> MAX_WINDOW_DURATION"
  by (auto simp: policy_times_def bind_outcome_Inr not_less not_le)

lemma policy_scope_Inr:
  assumes "policy_scope packs kvs = Inr (rs, cs)"
  shows "rs \<noteq> [] \<and> (\<forall>r \<in> set rs. repository_ok r) \<and> cs \<noteq> [] \<and> set cs \<subseteq> set KNOWN_OPERATIONS
     \<and> (\<forall>c \<in> set cs. supports_operation packs c = Inr True)"
  using assms
  by (auto simp: policy_scope_def bind_outcome_Inr list_all_iff dest: unsupported_none split: option.splits)

lemma policy_budgets_Inr:
  assumes "policy_budgets kvs = Inr (mt, mc, rt, rc)"
  shows "{mt, mc, rt, rc} \<subseteq> {0..10 ^ 15} \<and> (mt = 0 \<longleftrightarrow> rt = 0) \<and> (mc = 0 \<longleftrightarrow> rc = 0)
     \<and> rt \<le> mt \<and> rc \<le> mc"
  using assms
  by (auto simp: policy_budgets_def bind_outcome_Inr budget_pair_bad_def dest!: optional_budget_Inr)

text \<open>
  C34. A policy that validation accepts is bounded: revision 1 to 1000000, at most 8 tasks at a
  time, 100 tasks and 5 retries, budgets up to 10^15 with a reservation exactly where there is a
  limit and never above it, a window of at most 7 days that starts at most 5 minutes ahead and
  has not ended, well-formed repositories, and only known operations that the host supports.
\<close>

theorem policy_bounds:
  assumes "validate_policy lib packs kvs = Inr p"
  shows "wp_policy_revision p \<in> {1..1000000} \<and> wp_max_concurrent_tasks p \<in> {1..8}
     \<and> wp_max_tasks p \<in> {1..100} \<and> wp_max_retries p \<in> {0..5}
     \<and> {wp_max_token_units p, wp_max_cost_micro_units p} \<subseteq> {0..10 ^ 15}
     \<and> wp_per_task_token_reservation p \<in> {0..wp_max_token_units p}
     \<and> wp_per_task_cost_reservation p \<in> {0..wp_max_cost_micro_units p}
     \<and> (wp_max_token_units p = 0 \<longleftrightarrow> wp_per_task_token_reservation p = 0)
     \<and> (wp_max_cost_micro_units p = 0 \<longleftrightarrow> wp_per_task_cost_reservation p = 0)
     \<and> wp_repositories p \<noteq> [] \<and> (\<forall>r \<in> set (wp_repositories p). repository_ok r)
     \<and> wp_capabilities p \<noteq> [] \<and> set (wp_capabilities p) \<subseteq> set KNOWN_OPERATIONS
     \<and> (\<forall>c \<in> set (wp_capabilities p). supports_operation packs c = Inr True)
     \<and> (\<exists>a b. wp_starts_at p = format_time lib a \<and> wp_expires_at p = format_time lib b
          \<and> a \<le> clock_us lib + 300000000 \<and> clock_us lib < b \<and> a < b \<and> b - a \<le> MAX_WINDOW_DURATION)"
proof -
  from assms obtain rev a b rs cs mt mc rt rc wip mx mr where
    rev: "bounded_int kvs ''policy_revision'' 1 1000000 = Inr rev"
    and times: "policy_times lib kvs = Inr (a, b)" and scope: "policy_scope packs kvs = Inr (rs, cs)"
    and budgets: "policy_budgets kvs = Inr (mt, mc, rt, rc)"
    and wip: "bounded_int kvs ''max_concurrent_tasks'' 1 8 = Inr wip"
    and mx: "bounded_int kvs ''max_tasks'' 1 100 = Inr mx"
    and mr: "bounded_int kvs ''max_retries'' 0 5 = Inr mr"
    and p: "wp_policy_revision p = rev" "wp_max_concurrent_tasks p = wip" "wp_max_tasks p = mx"
      "wp_max_retries p = mr" "wp_max_token_units p = mt" "wp_max_cost_micro_units p = mc"
      "wp_per_task_token_reservation p = rt" "wp_per_task_cost_reservation p = rc"
      "wp_repositories p = rs" "wp_capabilities p = cs" "wp_starts_at p = format_time lib a"
      "wp_expires_at p = format_time lib b"
    by (auto simp: validate_policy_def bind_outcome_Inr Let_def)
  have "\<exists>a b. wp_starts_at p = format_time lib a \<and> wp_expires_at p = format_time lib b
          \<and> a \<le> clock_us lib + 300000000 \<and> clock_us lib < b \<and> a < b \<and> b - a \<le> MAX_WINDOW_DURATION"
    using policy_times_Inr [OF times] p(11,12) by blast
  then show ?thesis
    using bounded_int_Inr [OF rev] bounded_int_Inr [OF wip] bounded_int_Inr [OF mx]
      bounded_int_Inr [OF mr] policy_scope_Inr [OF scope] policy_budgets_Inr [OF budgets]
    by (simp add: p)
qed

theorem policy_bounds_witness:
  "\<exists>p. validate_policy sv_lib [] sv_policy = Inr p \<and> wp_max_concurrent_tasks p \<in> {1..8}"
proof -
  have "case validate_policy sv_lib [] sv_policy of Inl _ \<Rightarrow> False | Inr _ \<Rightarrow> True" by code_simp
  then obtain p where "validate_policy sv_lib [] sv_policy = Inr p" by (auto split: sum.splits)
  with policy_bounds [OF this] show ?thesis by blast
qed

section \<open>Authorisation\<close>

text \<open>What the service promises to allow.\<close>

definition permitted :: "env \<Rightarrow> manifest list \<Rightarrow> string \<Rightarrow> string \<Rightarrow> string \<Rightarrow> db \<Rightarrow> bool" where
  "permitted e packs wid operation repository s \<longleftrightarrow>
     (\<exists>w. window_row_of wid s = Some w \<and> w_status w = ''ACTIVE''
        \<and> fst (active_window e None s) \<noteq> None \<and> repository \<in> set (w_repositories w)
        \<and> operation \<in> set (w_capabilities w) \<and> operation \<in> set KNOWN_OPERATIONS
        \<and> supports_operation packs operation = Inr True)"

lemma evaluate_permitted:
  "evaluate_operation e packs wid operation repository s = (r, s1) \<Longrightarrow>
   (r = Inr () \<longleftrightarrow> permitted e packs wid operation repository s)
   \<and> (s1 = s \<or> s1 = snd (active_window e None s))"
  by (auto simp: evaluate_operation_def permitted_def get_window_def Let_def
      split: option.splits if_splits sum.splits prod.splits)

text \<open>
  C35. Authorisation decides exactly the promise and records it: a call that returns says True
  if and only if the window is ACTIVE, some window is live, and the repository and a known,
  supported operation are in the window; it appends exactly one receipt, for the window, the
  operation and the subject, whose decision is the answer.
\<close>

theorem authorize_exact:
  assumes "authorize e packs wid operation repository subject input s = (Inr b, s')"
  shows "(b \<longleftrightarrow> permitted e packs wid operation repository s)
     \<and> (\<exists>q. receipts s' = receipts s @ [q] \<and> rc_window_id q = wid
          \<and> rc_operation_type q = ''policy_evaluation'' \<and> rc_capability q = operation
          \<and> rc_repository q = repository \<and> rc_subject_id q = subject
          \<and> rc_decision q = (if b then ''allowed'' else ''denied''))
     \<and> claims s' = claims s \<and> goals s' = goals s \<and> store_part s' = store_part s"
proof -
  obtain r s1 where ev: "evaluate_operation e packs wid operation repository s = (r, s1)" by force
  note perm = evaluate_permitted [OF ev]
  have same: "receipts s1 = receipts s" "claims s1 = claims s" "goals s1 = goals s"
      "store_part s1 = store_part s"
    using perm by (auto simp: active_window_def Let_def store_part_def)
  have row: "append_receipt (later 2 e) wid (evaluation_receipt operation repository subject input
          (if b then ''allowed'' else ''denied'') reason) s1 = (Inr q, s') \<Longrightarrow> ?thesis"
    if "b \<longleftrightarrow> r = Inr ()" for reason q
    using append_receipt_row [of "later 2 e" wid "evaluation_receipt operation repository subject input
        (if b then ''allowed'' else ''denied'') reason" s1 q s'] perm same that
    by (auto simp: new_receipt_def evaluation_receipt_def store_part_def dest!: window_of_id)
  show ?thesis
  proof (cases r)
    case (Inl err)
    with assms ev have "\<not> b" and "\<exists>q. append_receipt (later 2 e) wid
        (evaluation_receipt operation repository subject input ''denied'' (error_text err)) s1 = (Inr q, s')"
      by (auto simp: authorize_def andthen_ok split: if_splits)
    with row Inl show ?thesis by auto
  next
    case (Inr u)
    with assms ev have "b" and "\<exists>q. append_receipt (later 2 e) wid
        (evaluation_receipt operation repository subject input ''allowed'' ''operation_inside_active_window'')
        s1 = (Inr q, s')"
      by (auto simp: authorize_def andthen_ok)
    with row Inr show ?thesis by auto
  qed
qed

theorem authorize_exact_witness:
  "\<exists>s'. authorize (wenv 30 0) [] ''w'' ''execute_task'' ''o/r'' ''x'' (JObj []) batch_db = (Inr True, s')
     \<and> permitted (wenv 30 0) [] ''w'' ''execute_task'' ''o/r'' batch_db"
proof -
  have "case fst (authorize (wenv 30 0) [] ''w'' ''execute_task'' ''o/r'' ''x'' (JObj []) batch_db) of
      Inl _ \<Rightarrow> False | Inr b \<Rightarrow> b"
    by code_simp
  then obtain s' where a: "authorize (wenv 30 0) [] ''w'' ''execute_task'' ''o/r'' ''x'' (JObj []) batch_db
      = (Inr True, s')"
    by (cases "authorize (wenv 30 0) [] ''w'' ''execute_task'' ''o/r'' ''x'' (JObj []) batch_db")
      (auto split: sum.splits)
  with authorize_exact [OF a] show ?thesis by blast
qed

section \<open>Activation\<close>

text \<open>
  Activation that returns has a validated policy and the owner's confirmation. Either it
  added one window, the ACTIVE row built from the policy, and no window was live before it; or
  it added nothing and returns the window that the same policy, digest included, has already.
\<close>

theorem activation_exact:
  assumes "service_activate e lib packs kvs s = (Inr w, s')"
  shows "\<exists>p t. validate_policy lib packs kvs = Inr p \<and> t = snd (active_window e None s)
     \<and> py_strip (get_str kvs ''confirmation'' '''') = ''ACTIVATE''
     \<and> w_policy_id w = wp_policy_id p \<and> w_policy_revision w = wp_policy_revision p
     \<and> w_policy_digest w = sha256_json e (policy_json p)
     \<and> ((fst (active_window e None s) = None \<and> w = new_window_row (later 2 e) p
           \<and> s' = t\<lparr>windows := windows t @ [w]\<rparr>)
        \<or> (w \<in> set (windows t) \<and> s' = t))"
proof -
  obtain p where p: "validate_policy lib packs kvs = Inr p"
    using assms by (cases "validate_policy lib packs kvs") (auto simp: service_activate_def)
  obtain x t where aw: "active_window e None s = (x, t)" by force
  have act: "activate_window (later 2 e) p (get_str kvs ''confirmation'' '''') t = (Inr w, s')"
    and live: "x = None \<or> (\<exists>v. x = Some v \<and> w_policy_id v = wp_policy_id p
                 \<and> w_policy_revision v = wp_policy_revision p)"
    using assms p aw by (auto simp: service_activate_def Let_def split: option.splits if_splits)
  let ?row = "new_window_row (later 2 e) p"
  let ?clash = "\<lambda>a b. w_id a = w_id b \<or> (w_policy_id a = w_policy_id b \<and> w_policy_revision a = w_policy_revision b)"
  have digest: "w_policy_digest ?row = sha256_json e (policy_json p)" "w_policy_id ?row = wp_policy_id p"
      "w_policy_revision ?row = wp_policy_revision p"
    by (simp_all add: new_window_row_def sha256_json_def later_def)
  have member: "x = Some v \<Longrightarrow> v \<in> set (windows t)" for v
    using aw by (auto simp: active_window_def Let_def split: list.splits dest!: order_desc_hd)
  show ?thesis
  proof (cases "list_ex (?clash ?row) (windows t)")
    case True
    then obtain w' where "find (\<lambda>w. w_policy_id w = wp_policy_id p
            \<and> w_policy_revision w = wp_policy_revision p) (windows t) = Some w'"
      and "w = w'" "w_policy_digest w' = w_policy_digest ?row" "s' = t"
      and "py_strip (get_str kvs ''confirmation'' '''') = ''ACTIVATE''"
      using act by (auto simp: activate_window_def Let_def sql_insert_def split: option.splits if_splits)
    with p aw digest show ?thesis by (auto dest!: find_SomeD)
  next
    case False
    then have new: "s' = t\<lparr>windows := windows t @ [?row]\<rparr>" "get_window (w_id ?row) s' = Inr w"
        "py_strip (get_str kvs ''confirmation'' '''') = ''ACTIVATE''"
      using act by (auto simp: activate_window_def Let_def sql_insert_def split: option.splits if_splits)
    have "find (\<lambda>v. w_id v = w_id ?row) (windows t) = None"
      using False by (auto simp: find_None_iff list_ex_iff)
    then have w: "w = ?row"
      using new(1,2) by (simp add: get_window_def window_row_of_def find_append)
    have "x = None"
      using False live member digest by (fastforce simp: list_ex_iff)
    with p aw new w digest show ?thesis by auto
  qed
qed

theorem activation_exact_witness:
  "\<exists>w. service_activate (wenv 1 0) sv_lib [] sv_policy open_db = (Inr w, active_db) \<and> w_policy_id w = ''pol''"
proof -
  have "map_sum (\<lambda>_. ()) w_policy_id (fst (service_activate (wenv 1 0) sv_lib [] sv_policy open_db)) = Inr ''pol''"
    by code_simp
  then obtain w where a: "service_activate (wenv 1 0) sv_lib [] sv_policy open_db = (Inr w, active_db)"
      "w_policy_id w = ''pol''"
    unfolding active_db_def
    by (cases "service_activate (wenv 1 0) sv_lib [] sv_policy open_db"; cases "fst (service_activate (wenv 1 0) sv_lib [] sv_policy open_db)") auto
  from activation_exact [OF a(1)] a show ?thesis by blast
qed

text \<open>
  The guard against a second window looks at the windows that are live at the activation,
  and a window may start up to five minutes later. A policy that starts four minutes ahead and
  another that starts at once can both be activated: four minutes on both windows are live.
\<close>

definition ov_lib :: time_lib where
  "ov_lib = sv_lib\<lparr>parse_iso := (\<lambda>s. if s = ''F'' then Some (True, 240000000) else parse_iso sv_lib s),
     format_iso := (\<lambda>t. if t = 240000000 then ''2026-01-01T00:04:00+00:00'' else format_iso sv_lib t)\<rparr>"

definition ov_policy :: payload where
  "ov_policy = (''window_id'', JStr ''v'') # (''policy_id'', JStr ''ahead'') # (''starts_at'', JStr ''F'') # sv_policy"

definition live_at :: "string \<Rightarrow> db \<Rightarrow> string list" where
  "live_at now s = map w_id (filter (\<lambda>w. w_status w = ''ACTIVE'' \<and> w_starts_at w \<le> now \<and> now < w_expires_at w) (windows s))"

theorem two_live_windows:
  "live_at ''2026-01-01T00:04:00Z''
     (snd (service_activate (wenv 2 0) ov_lib [] sv_policy
       (snd (service_activate (wenv 1 0) ov_lib [] ov_policy (run_calls [OpenControl] empty_db)))))
   = [''v'', ''w'']"
  by code_simp


end
