(* ===== verification/Guests.thy ===== *)
theory Guests
  imports Fenced_Ops Task_Execution
begin

text \<open>
  The executor as the durable service sees it (durable_execution.py). An executor is code
  behind an interface: it reaches the store only through the facade
  \<open>_DurableFencedExecutorStore\<close> and the event callback \<open>_DurableFencedCallback\<close>, each bound
  to one run, task, owner and epoch. So an executor is a tree of facade calls here: what it
  does next may depend on every answer it has had, and no other call can be written down.
\<close>

section \<open>The facade\<close>

datatype facade_call =
    GetTask string
  | AddEvidence string evidence_input
  | AppendUsage string usage_input
  | ActiveReservation string
  | BudgetSnapshot string
  | EmitEvent executor_event

datatype facade_reply =
    TaskReply "task_view outcome"
  | UsageReply "usage_row outcome"
  | ReservationReply "(int \<times> int \<times> int) outcome"
  | SnapshotReply "budget_snapshot outcome"
  | Emitted

text \<open>The check of each facade method that the task is the bound one.\<close>

definition bound_task :: "string \<Rightarrow> string \<Rightarrow> string \<Rightarrow> 'a step \<Rightarrow> db \<Rightarrow> 'a step" where
  "bound_task name tid t r s =
     (if t \<noteq> tid then
        (Inl (TaskStoreError (''durable_single_fenced_'' @ name @ '':'' @ t @ '':expected:'' @ tid)), s)
      else r)"

text \<open>
  One call by the executor of the lease. An event that cannot be stored is dropped, whatever
  the exception.
\<close>

fun facade_step :: "env \<Rightarrow> lease_handle \<Rightarrow> string \<Rightarrow> facade_call \<Rightarrow> db \<Rightarrow> facade_reply \<times> db" where
  "facade_step e l tid (GetTask t) s =
     map_prod TaskReply id (bound_task ''get_task'' tid t (get_task t None s, s) s)"
| "facade_step e l tid (AddEvidence t i) s =
     map_prod TaskReply id (bound_task ''add_evidence'' tid t
       (fenced_add_evidence e (lh_run_id l) tid i (lh_owner l) (lh_epoch l) s) s)"
| "facade_step e l tid (AppendUsage t i) s =
     map_prod UsageReply id (bound_task ''usage'' tid t
       (fenced_append_usage_observation e (lh_run_id l) tid i (lh_owner l) (lh_epoch l) s) s)"
| "facade_step e l tid (ActiveReservation t) s =
     map_prod ReservationReply id (bound_task ''reservation'' tid t
       (fenced_active_usage_reservation (lh_run_id l) tid (lh_owner l) (lh_epoch l) s) s)"
| "facade_step e l tid (BudgetSnapshot t) s =
     map_prod SnapshotReply id (bound_task ''budget_snapshot'' tid t
       (fenced_active_usage_budget_snapshot (lh_run_id l) tid (lh_owner l) (lh_epoch l) s) s)"
| "facade_step e l tid (EmitEvent ev) s =
     (Emitted, snd (fenced_add_event e (lh_run_id l) tid (ee_type ev) (ee_title ev)
        (ee_description ev) (ee_raw_log ev) (Some (ee_metadata ev)) (lh_owner l) (lh_epoch l) s))"

section \<open>Executors\<close>

text \<open>Code that calls the facade and at last returns or raises.\<close>

datatype 'r guest =
    Done "'r outcome"
  | Call facade_call "facade_reply \<Rightarrow> 'r guest"

text \<open>
  Running it. Each call reads the environment at a place of its own, \<open>d\<close> further on; the
  callers give the executor places that the service does not read.
\<close>

primrec run_guest :: "env \<Rightarrow> int \<Rightarrow> lease_handle \<Rightarrow> string \<Rightarrow> 'r guest \<Rightarrow> db \<Rightarrow> 'r step" where
  "run_guest e d l tid (Done r) s = (r, s)"
| "run_guest e d l tid (Call c k) s =
     (case facade_step e l tid c s of (r, s1) \<Rightarrow> run_guest (later d e) d l tid (k r) s1)"

text \<open>
  What the router creates: \<open>prepare_worktree_once\<close> (the worktree's path),
  \<open>execute_role_prepared\<close> for the role \<open>executor\<close> in a worktree, and \<open>execute\<close> under a
  workspace root.
\<close>

record run_executor =
  ex_prepare :: "string \<Rightarrow> string \<Rightarrow> string guest"
  ex_role :: "string \<Rightarrow> string \<Rightarrow> executor_result guest"
  ex_execute :: "string \<Rightarrow> string \<Rightarrow> executor_result guest"

section \<open>The rest of the host\<close>

text \<open>
  The answers of one call of the service: the exception of resolving the executor's arguments,
  the router, \<open>reconstruct_prepared_context\<close> (worktree, base revision and execution id to the
  worktree of the context), and the file system and git, read at numbered places: whether a
  path exists, \<open>git rev-parse HEAD\<close> (empty on failure), the files that git reports as changed,
  and the validation command (exit code and output digest, \<open>None\<close> when it raises). The path of
  the checkpoint database is made of the run id; creating its directory may raise.
\<close>

record durable_host =
  dh_kwargs :: "task_row \<Rightarrow> unit outcome"
  dh_create :: "string \<Rightarrow> store_error + run_executor"
  dh_reconstruct :: "string \<Rightarrow> string \<Rightarrow> string \<Rightarrow> string outcome"
  dh_exists :: "int \<Rightarrow> string \<Rightarrow> bool"
  dh_head :: "int \<Rightarrow> string \<Rightarrow> string"
  dh_changes :: "int \<Rightarrow> string \<Rightarrow> file_change list outcome"
  dh_validate :: "int \<Rightarrow> string \<Rightarrow> (int \<times> string) option"
  dh_checkpoint_path :: "string \<Rightarrow> string outcome"

text \<open>
  \<open>_collect_product_diff\<close> and \<open>_collect_final_product_files\<close>: the changed files outside the
  directory the roles hand their notes over in.
\<close>

definition HANDOFF_DIR :: string where
  "HANDOFF_DIR = ''.reverse-agent-handoff''"

definition is_handoff_path :: "string \<Rightarrow> bool" where
  "is_handoff_path p \<longleftrightarrow>
     (let d = HANDOFF_DIR @ ''/'' in take (length d) p = d) \<or> p = HANDOFF_DIR"

definition product_files :: "durable_host \<Rightarrow> int \<Rightarrow> string \<Rightarrow> file_change list outcome" where
  "product_files h k wt =
     map_sum id (filter (\<lambda>f. case fc_path f of
        None \<Rightarrow> False | Some p \<Rightarrow> p \<noteq> [] \<and> \<not> is_handoff_path p)) (dh_changes h k wt)"

end
