(* ===== verification/Durable_Single.thy ===== *)
theory Durable_Single
  imports Guests
begin

text \<open>
  \<open>DurableExecutionService\<close> (durable_execution.py) for tasks of orchestration mode
  \<open>single\<close>: one executor dispatch under a lease, five checkpoints, validation, and the
  resumption of a run from its accepted checkpoint. The test seam that simulates the death of
  the process right after a checkpoint is the argument \<open>crash\<close>; its exception is not an
  \<open>Exception\<close>, so nothing catches it. The background heartbeat writes three columns of the
  run that no phase reads; its first round is modelled, before the phases.
\<close>

section \<open>Configuration\<close>

record durable_config =
  dc_expiry_ms :: int
  dc_heartbeat_window_ms :: int
  dc_authority_sha :: "string option"
  dc_planning_sha :: "string option"

definition execution_error :: "string \<Rightarrow> store_error" where
  "execution_error m = PyError ''TaskExecutionError'' m"

definition resume_error :: "string \<Rightarrow> store_error" where
  "resume_error m = PyError ''DurableResumeError'' m"

definition validate_lease_config :: "durable_config \<Rightarrow> unit outcome" where
  "validate_lease_config c =
     (if dc_expiry_ms c \<le> 0 then
        Inl (execution_error (''durable_trusted_expiry_ms_non_positive:'' @ str_of_int (dc_expiry_ms c)))
      else if dc_heartbeat_window_ms c \<le> 0 then
        Inl (execution_error (''durable_trusted_heartbeat_window_ms_non_positive:''
          @ str_of_int (dc_heartbeat_window_ms c)))
      else if dc_expiry_ms c \<le> dc_heartbeat_window_ms c then
        Inl (execution_error (''durable_trusted_heartbeat_cannot_renew_before_expiry:''
          @ ''heartbeat_window_ms='' @ str_of_int (dc_heartbeat_window_ms c) @ '':expiry_ms=''
          @ str_of_int (dc_expiry_ms c)))
      else Inr ())"

definition normalize_identity :: "string option \<Rightarrow> string" where
  "normalize_identity v = (case v of None \<Rightarrow> '''' | Some s \<Rightarrow> py_strip s)"

definition trusted_authority_sha :: "durable_config \<Rightarrow> string" where
  "trusted_authority_sha c = normalize_identity (dc_authority_sha c)"

definition trusted_planning_sha :: "durable_config \<Rightarrow> string" where
  "trusted_planning_sha c = normalize_identity (dc_planning_sha c)"

definition assert_identity_for_execute :: "durable_config \<Rightarrow> unit outcome" where
  "assert_identity_for_execute c =
     (if trusted_authority_sha c = '''' then
        Inl (execution_error (''durable_trusted_identity_missing:''
          @ ''execution_authority_sha is empty/whitespace/None''))
      else if trusted_planning_sha c = '''' then
        Inl (execution_error (''durable_trusted_identity_missing:''
          @ ''planning_sha is empty/whitespace/None''))
      else Inr ())"

definition assert_identity_for_resume ::
    "durable_config \<Rightarrow> string option \<Rightarrow> string option \<Rightarrow> (string \<times> string) outcome" where
  "assert_identity_for_resume c authority planning =
     (let a = normalize_identity (case authority of None \<Rightarrow> dc_authority_sha c | x \<Rightarrow> x);
          p = normalize_identity (case planning of None \<Rightarrow> dc_planning_sha c | x \<Rightarrow> x) in
      if a = '''' then
        Inl (resume_error (''trusted_authority_sha_missing:''
          @ ''execution_authority_sha is empty/whitespace/None''))
      else if p = '''' then
        Inl (resume_error (''trusted_planning_sha_missing:''
          @ ''planning_sha is empty/whitespace/None''))
      else Inr (a, p))"

section \<open>The crash seam\<close>

definition check_crash_seam :: "string option \<Rightarrow> string \<Rightarrow> unit outcome" where
  "check_crash_seam crash name =
     (if crash = Some name then Inl (PyError ''_CrashSimulated'' (''simulated_crash_after:'' @ name))
      else Inr ())"

text \<open>What \<open>except Exception\<close> does not catch.\<close>

fun is_crash :: "store_error \<Rightarrow> bool" where
  "is_crash (PyError c _) = (c = ''_CrashSimulated'')"
| "is_crash _ = False"

section \<open>Statements under a lease\<close>

definition pass_checkpoint ::
    "env \<Rightarrow> lease_handle \<Rightarrow> string \<Rightarrow> string \<Rightarrow> int \<Rightarrow> db \<Rightarrow> unit step" where
  "pass_checkpoint e l name digest attempt s =
     andthen (accept_checkpoint e (lh_run_id l) name digest attempt (lh_owner l) (lh_epoch l) s)
       (\<lambda>_ s1. (Inr (), s1))"

definition pass_or_crash ::
    "env \<Rightarrow> string option \<Rightarrow> lease_handle \<Rightarrow> string \<Rightarrow> string \<Rightarrow> int \<Rightarrow> db \<Rightarrow> unit step" where
  "pass_or_crash e crash l name digest attempt s =
     andthen (pass_checkpoint e l name digest attempt s) (\<lambda>_ s1. (check_crash_seam crash name, s1))"

definition put_files :: "env \<Rightarrow> lease_handle \<Rightarrow> string \<Rightarrow> file_change list \<Rightarrow> db \<Rightarrow> unit step" where
  "put_files e l tid files s =
     andthen (fenced_set_changed_files e (lh_run_id l) tid files (lh_owner l) (lh_epoch l) s)
       (\<lambda>_ s1. (Inr (), s1))"

definition move_to :: "env \<Rightarrow> lease_handle \<Rightarrow> string \<Rightarrow> string \<Rightarrow> db \<Rightarrow> unit step" where
  "move_to e l tid status s =
     andthen (fenced_transition_to e (lh_run_id l) tid status (lh_owner l) (lh_epoch l) s)
       (\<lambda>_ s1. (Inr (), s1))"

definition put_run_validation ::
    "env \<Rightarrow> lease_handle \<Rightarrow> string \<Rightarrow> int \<Rightarrow> string \<Rightarrow> db \<Rightarrow> unit step" where
  "put_run_validation e l command_id code digest s =
     set_run_validation_result e (lh_run_id l) command_id code digest (lh_owner l) (lh_epoch l) s"

definition terminalize :: "env \<Rightarrow> lease_handle \<Rightarrow> string \<Rightarrow> terminal_input \<Rightarrow> db \<Rightarrow> unit step" where
  "terminalize e l tid i s =
     andthen (fenced_terminalize e (lh_run_id l) tid i (lh_owner l) (lh_epoch l) s)
       (\<lambda>_ s1. (Inr (), s1))"

definition classify :: "env \<Rightarrow> lease_handle \<Rightarrow> string \<Rightarrow> string \<Rightarrow> string \<Rightarrow> db \<Rightarrow> unit step" where
  "classify e l tid classification detail s =
     andthen (fenced_classify_failure e (lh_run_id l) tid classification detail (lh_owner l)
                (lh_epoch l) s)
       (\<lambda>_ s1. (Inr (), s1))"

definition failed_input :: "string \<Rightarrow> int \<Rightarrow> string \<Rightarrow> string \<Rightarrow> string \<Rightarrow> terminal_input" where
  "failed_input command_id code digest classification detail =
     \<lparr>tm_status = ''FAILED'', tm_command_id = command_id, tm_exit_code = code,
      tm_output_digest = digest, tm_failure_classification = classification,
      tm_failure_detail = detail\<rparr>"

section \<open>Outcomes\<close>

definition durable_outcome ::
    "string \<Rightarrow> string \<Rightarrow> bool \<Rightarrow> string \<Rightarrow> int \<Rightarrow> string \<Rightarrow> string \<Rightarrow> execution_outcome" where
  "durable_outcome tid exec success command_id code classification detail =
     \<lparr>xe_task_id = tid, xe_execution_id = exec, xe_success = success,
      xe_validation_command_id = command_id, xe_validation_exit_code = code,
      xe_changed_files = [], xe_evidence_ids = [], xe_failure_classification = classification,
      xe_failure_detail = detail\<rparr>"

text \<open>\<open>run.validation_command_id or "git_diff_check"\<close>, \<open>run.validation_exit_code or 0\<close>\<close>

definition run_outcome :: "string \<Rightarrow> run_row \<Rightarrow> execution_outcome" where
  "run_outcome tid r =
     durable_outcome tid (dr_execution_id r) True
       (if dr_validation_command_id r = '''' then ''git_diff_check'' else dr_validation_command_id r)
       (case dr_validation_exit_code r of None \<Rightarrow> 0 | Some c \<Rightarrow> c) '''' ''''"

text \<open>A failure as the store has it.\<close>

definition stored_failure :: "string \<Rightarrow> string \<Rightarrow> int \<Rightarrow> db \<Rightarrow> execution_outcome step" where
  "stored_failure tid command_id code s =
     (case get_task tid None s of
        Inl err \<Rightarrow> (Inl err, s)
      | Inr final \<Rightarrow>
          (Inr (durable_outcome tid (t_execution_id (tv_row final)) False command_id code
                  (t_failure_classification (tv_row final)) (t_failure_detail (tv_row final))), s))"

definition give_up ::
    "env \<Rightarrow> lease_handle \<Rightarrow> string \<Rightarrow> string \<Rightarrow> db \<Rightarrow> execution_outcome step" where
  "give_up e l tid detail s =
     andthen (classify e l tid ''blocked'' detail s) (\<lambda>_ s1. stored_failure tid '''' (-1) s1)"

section \<open>The result of a dispatch\<close>

definition option_field :: "string \<Rightarrow> ('a \<Rightarrow> json) \<Rightarrow> 'a option \<Rightarrow> (string \<times> json) list" where
  "option_field k f v = (case v of None \<Rightarrow> [] | Some x \<Rightarrow> [(k, f x)])"

definition file_json :: "file_change \<Rightarrow> json" where
  "file_json f = JObj
     (option_field ''path'' JStr (fc_path f) @ option_field ''status'' JStr (fc_status f)
      @ option_field ''additions'' JInt (fc_additions f)
      @ option_field ''deletions'' JInt (fc_deletions f)
      @ option_field ''diff_digest'' JStr (fc_diff_digest f)
      @ option_field ''content_digest'' JStr (fc_content_digest f))"

text \<open>The dictionary \<open>exec_result\<close>.\<close>

definition result_json :: "executor_result \<Rightarrow> json" where
  "result_json r = JObj
     [(''success'', JBool (er_success r)),
      (''validation_command_id'', JStr (er_validation_command_id r)),
      (''validation_exit_code'', JInt (er_validation_exit_code r)),
      (''validation_output_digest'', JStr (er_validation_output_digest r)),
      (''changed_files'', JArr (map file_json (er_changed_files r))),
      (''error'', JStr (er_error r)),
      (''failure_classification'', JStr (er_failure_classification r))]"

definition single_request :: "env \<Rightarrow> string \<Rightarrow> string \<Rightarrow> string \<Rightarrow> string \<Rightarrow> string" where
  "single_request e tid exec root base =
     sha256_json e (JObj [(''task_id'', JStr tid), (''execution_id'', JStr exec),
                          (''workspace_root'', JStr root), (''repo_base'', JStr base)])"

definition single_key :: "string \<Rightarrow> string \<Rightarrow> string" where
  "single_key tid exec = ''single-exec-'' @ tid @ ''-'' @ exec"

definition record_single ::
    "env \<Rightarrow> lease_handle \<Rightarrow> string \<Rightarrow> string \<Rightarrow> string \<Rightarrow> db \<Rightarrow> external_op_row step" where
  "record_single e l tid key digest s =
     record_external_operation e (''single-exec-'' @ tid) key digest (lh_run_id l) tid
       (lh_owner l) (lh_epoch l) s"

definition reconcile_single ::
    "env \<Rightarrow> lease_handle \<Rightarrow> external_op_row \<Rightarrow> string \<Rightarrow> db \<Rightarrow> unit step" where
  "reconcile_single e l op result s =
     andthen (reconcile_external_operation e (xo_operation_id op) (xo_operation_id op) result
                (lh_run_id l) (lh_owner l) (lh_epoch l) s)
       (\<lambda>_ s1. (Inr (), s1))"

text \<open>
  The executor raised. The death of the process inside the executor is not an \<open>Exception\<close>.
\<close>

definition dispatch_raised ::
    "env \<Rightarrow> lease_handle \<Rightarrow> string \<Rightarrow> external_op_row \<Rightarrow> store_error \<Rightarrow> db
     \<Rightarrow> execution_outcome step" where
  "dispatch_raised e l tid op err s =
     (if is_crash err then (Inl err, s)
      else let detail = ''executor_dispatch_exception:'' @ error_text err in
      andthen (classify e l tid ''executor_dispatch_failed'' detail s) (\<lambda>_ s1.
      andthen (terminalize (later 10 e) l tid
                 (failed_input '''' (-1) '''' ''executor_dispatch_failed'' detail) s1) (\<lambda>_ s2.
      andthen (reconcile_single (later 20 e) l op ''failure'' s2) (\<lambda>_ s3.
      stored_failure tid '''' (-1) s3))))"

text \<open>The executor returned a failure: the remaining checkpoints are passed, the task ends.\<close>

definition dispatch_failed ::
    "env \<Rightarrow> lease_handle \<Rightarrow> string \<Rightarrow> int \<Rightarrow> executor_result \<Rightarrow> db \<Rightarrow> execution_outcome step" where
  "dispatch_failed e l tid attempt r s =
     andthen (pass_checkpoint e l ''POST_PLANNER'' (sha256 e (er_error r)) attempt s) (\<lambda>_ s1.
     andthen (pass_checkpoint (later 10 e) l ''POST_CODER'' '''' attempt s1) (\<lambda>_ s2.
     andthen (pass_checkpoint (later 20 e) l ''POST_REVIEWER'' '''' attempt s2) (\<lambda>_ s3.
     andthen (pass_checkpoint (later 30 e) l ''POST_VALIDATION'' '''' attempt s3) (\<lambda>_ s4.
     andthen (terminalize (later 40 e) l tid
                (failed_input (er_validation_command_id r) (er_validation_exit_code r)
                   (er_validation_output_digest r) (failure_class_of r) (er_error r)) s4) (\<lambda>_ s5.
     stored_failure tid (er_validation_command_id r) (er_validation_exit_code r) s5)))))"

text \<open>The executor returned a success: its result is accepted, up to \<open>POST_REVIEWER\<close>.\<close>

definition accept_result ::
    "env \<Rightarrow> string option \<Rightarrow> lease_handle \<Rightarrow> string \<Rightarrow> int \<Rightarrow> string \<Rightarrow> executor_result \<Rightarrow> db
     \<Rightarrow> unit step" where
  "accept_result e crash l tid attempt digest r s =
     andthen (pass_or_crash e crash l ''POST_PLANNER'' digest attempt s) (\<lambda>_ s1.
     andthen (put_files (later 10 e) l tid (er_changed_files r) s1) (\<lambda>_ s2.
     andthen (pass_or_crash (later 20 e) crash l ''POST_CODER'' '''' attempt s2) (\<lambda>_ s3.
     andthen (put_run_validation (later 30 e) l (er_validation_command_id r)
                (er_validation_exit_code r) (er_validation_output_digest r) s3) (\<lambda>_ s4.
     pass_or_crash (later 40 e) crash l ''POST_REVIEWER'' '''' attempt s4))))"

text \<open>Validation recorded: on the run, as the last checkpoint, on the task.\<close>

definition record_validation ::
    "env \<Rightarrow> string option \<Rightarrow> lease_handle \<Rightarrow> string \<Rightarrow> int \<Rightarrow> int \<Rightarrow> string \<Rightarrow> db \<Rightarrow> unit step" where
  "record_validation e crash l tid attempt code digest s =
     andthen (put_run_validation e l ''git_diff_check'' code digest s) (\<lambda>_ s1.
     andthen (pass_or_crash (later 10 e) crash l ''POST_VALIDATION'' '''' attempt s1) (\<lambda>_ s2.
     andthen (fenced_set_task_validation (later 20 e) (lh_run_id l) tid ''git_diff_check'' code
                digest (lh_owner l) (lh_epoch l) s2) (\<lambda>_ s3.
     (Inr (), s3))))"

text \<open>The last statements: final files, review or failure. \<open>meta\<close> is the event's last field.\<close>

definition conclude ::
    "env \<Rightarrow> lease_handle \<Rightarrow> string \<Rightarrow> string \<Rightarrow> string \<Rightarrow> int \<Rightarrow> string \<Rightarrow> string \<Rightarrow> string
     \<Rightarrow> (string \<times> json) list \<Rightarrow> file_change list \<Rightarrow> db \<Rightarrow> execution_outcome step" where
  "conclude e l tid exec review code digest title descr meta final s =
     andthen (put_files e l tid final s) (\<lambda>_ s1.
     andthen (move_to (later 10 e) l tid ''VALIDATING'' s1) (\<lambda>_ s2.
     if code = 0 then
       andthen (move_to (later 20 e) l tid review s2) (\<lambda>_ s3.
       andthen (fenced_add_event (later 30 e) (lh_run_id l) tid ''VALIDATED'' title descr ''''
                  (Some (JObj ([(''validation_exit_code'', JInt code),
                                (''validation_command_id'', JStr ''git_diff_check''),
                                (''run_id'', JStr (lh_run_id l))] @ meta)))
                  (lh_owner l) (lh_epoch l) s3) (\<lambda>_ s4.
       (Inr (durable_outcome tid exec True ''git_diff_check'' code '''' ''''), s4)))
     else
       let detail = ''git_diff_check exit='' @ str_of_int code in
       andthen (terminalize (later 20 e) l tid
                  (failed_input ''git_diff_check'' code digest ''deterministic_validation_failure''
                     detail) s2) (\<lambda>_ s3.
       (Inr (durable_outcome tid exec False ''git_diff_check'' code
               ''deterministic_validation_failure'' detail), s3))))"

definition validation_answer :: "(int \<times> string) option \<Rightarrow> int \<times> string" where
  "validation_answer v = (case v of None \<Rightarrow> (-1, '''') | Some x \<Rightarrow> x)"

section \<open>First execution\<close>

text \<open>A step that may end the method with an outcome (\<open>Inl\<close>) or let it go on.\<close>

type_synonym 'a early = "(execution_outcome + 'a) step"

definition return_early :: "execution_outcome step \<Rightarrow> 'a early" where
  "return_early r = (map_sum id Inl (fst r), snd r)"

text \<open>The opencode executor and its prepared worktree: executor, worktree, head revision.\<close>

definition prepare_opencode ::
    "env \<Rightarrow> durable_config \<Rightarrow> durable_host \<Rightarrow> lease_handle \<Rightarrow> string \<Rightarrow> string \<Rightarrow> db
     \<Rightarrow> (run_executor \<times> string \<times> string) early" where
  "prepare_opencode e c h l tid root s =
     (case dh_create h ''opencode'' of
        Inl err \<Rightarrow> return_early (give_up e l tid (error_text err) s)
      | Inr x \<Rightarrow>
          (case run_guest (later (-10) e) (-20) l tid (ex_prepare x tid root) s of
             (Inl err, s1) \<Rightarrow>
               (if is_crash err then (Inl err, s1)
                else return_early
                  (give_up e l tid (''worktree_preparation_failed:'' @ error_text err) s1))
           | (Inr wt, s1) \<Rightarrow>
               if \<not> dh_exists h 0 wt then
                 return_early (give_up e l tid (''prepared_worktree_missing:'' @ wt) s1)
               else let head = dh_head h 0 wt in
               if head = '''' then
                 return_early (give_up e l tid (''prepared_worktree_empty_HEAD:'' @ wt) s1)
               else
                 andthen (set_worktree_identity e (lh_run_id l) wt head (lh_owner l) (lh_epoch l) s1) (\<lambda>_ s2.
                 andthen (set_authority_identity (later 10 e) (lh_run_id l) (trusted_authority_sha c)
                            (trusted_planning_sha c) (lh_owner l) (lh_epoch l) s2) (\<lambda>_ s3.
                 andthen (set_repository_base_sha (later 20 e) (lh_run_id l) head (lh_owner l)
                            (lh_epoch l) s3) (\<lambda>_ s4.
                 andthen (dh_checkpoint_path h (lh_run_id l), s4) (\<lambda>path s5.
                 andthen (set_checkpoint_db_path (later 30 e) (lh_run_id l) path (lh_owner l)
                            (lh_epoch l) s5) (\<lambda>_ s6.
                 (Inr (Inr (x, wt, head)), s6))))))))"

text \<open>Up to \<open>RUNNING\<close>: the first checkpoint, then the files that differ already.\<close>

definition start_single ::
    "env \<Rightarrow> durable_host \<Rightarrow> string option \<Rightarrow> lease_handle \<Rightarrow> string \<Rightarrow> string \<Rightarrow> db \<Rightarrow> unit step" where
  "start_single e h crash l tid wt s =
     andthen (pass_or_crash e crash l ''PRE_PLANNER'' '''' 1 s) (\<lambda>_ s1.
     andthen (if wt \<noteq> '''' \<and> dh_exists h 1 wt then product_files h 0 wt else Inr [], s1) (\<lambda>files s2.
     andthen (put_files (later 10 e) l tid files s2) (\<lambda>_ s3.
     move_to (later 20 e) l tid ''RUNNING'' s3)))"

text \<open>Digest of an opencode result in the first execution.\<close>

definition opencode_digest :: "env \<Rightarrow> executor_result \<Rightarrow> string" where
  "opencode_digest e r =
     sha256_json e (JObj
       [(''success'', JBool (er_success r)), (''execution_id'', JStr (er_execution_id r)),
        (''validation_exit_code'', JInt (er_validation_exit_code r)),
        (''error'', JStr (er_error r)),
        (''failure_classification'', JStr (er_failure_classification r))])"

definition dispatch_opencode ::
    "env \<Rightarrow> durable_host \<Rightarrow> string option \<Rightarrow> lease_handle \<Rightarrow> string \<Rightarrow> run_row \<Rightarrow> run_executor \<Rightarrow> string
     \<Rightarrow> string \<Rightarrow> string \<Rightarrow> db \<Rightarrow> execution_outcome step" where
  "dispatch_opencode e h crash l tid run x wt key digest s =
     andthen (record_single e l tid key digest s) (\<lambda>op s1.
     case run_guest (later (-20) e) (-20) l tid (ex_role x wt tid) s1 of
       (Inl err, s2) \<Rightarrow> dispatch_raised (later 10 e) l tid op err s2
     | (Inr r, s2) \<Rightarrow>
         andthen (reconcile_single (later 10 e) l op
                    (if er_success r then ''success'' else ''failure'') s2) (\<lambda>_ s3.
         if \<not> er_success r then dispatch_failed (later 20 e) l tid 1 r s3
         else
           andthen (accept_result (later 20 e) crash l tid 1 (opencode_digest e r) r s3) (\<lambda>_ s4.
           let (code, out) = validation_answer (dh_validate h 0 wt) in
           andthen (record_validation (later 100 e) crash l tid 1 code out s4) (\<lambda>_ s5.
           andthen (product_files h 1 wt, s5) (\<lambda>final s6.
           conclude (later 200 e) l tid (dr_execution_id run) ''READY_FOR_REVIEW'' code out
             ''Durable single opencode validated''
             ''opencode executor dispatch + validation completed''
             [(''executor_kind'', JStr ''opencode'')] final s6)))))"

text \<open>Evidence that is dropped on a \<open>TaskStoreError\<close>.\<close>

definition tolerant_evidence ::
    "env \<Rightarrow> lease_handle \<Rightarrow> string \<Rightarrow> evidence_input \<Rightarrow> db \<Rightarrow> unit step" where
  "tolerant_evidence e l tid i s =
     (case fenced_add_evidence e (lh_run_id l) tid i (lh_owner l) (lh_epoch l) s of
        (Inl err, s1) \<Rightarrow> (if is_store_error err then Inr () else Inl err, s1)
      | (Inr _, s1) \<Rightarrow> (Inr (), s1))"

definition fixture_evidence :: "env \<Rightarrow> lease_handle \<Rightarrow> string \<Rightarrow> int \<Rightarrow> string \<Rightarrow> db \<Rightarrow> unit step" where
  "fixture_evidence e l tid code digest s =
     andthen (tolerant_evidence e l tid
                \<lparr>in_category = ''Validation'', in_label = ''git_diff_check'',
                 in_value = str_of_int code, in_status = (if code = 0 then ''pass'' else ''fail''),
                 in_detail = ''git_diff_check exit='' @ str_of_int code,
                 in_raw_json_digest = digest\<rparr> s) (\<lambda>_ s1.
     tolerant_evidence (later 10 e) l tid
       \<lparr>in_category = ''Executor'', in_label = ''executor_kind'',
        in_value = ''deterministic_fixture'', in_status = ''pass'',
        in_detail = ''fixture/provider-free executor'', in_raw_json_digest = ''''\<rparr> s1)"

definition dispatch_fixture ::
    "env \<Rightarrow> durable_host \<Rightarrow> string option \<Rightarrow> lease_handle \<Rightarrow> string \<Rightarrow> run_row \<Rightarrow> string \<Rightarrow> string
     \<Rightarrow> string \<Rightarrow> db \<Rightarrow> execution_outcome step" where
  "dispatch_fixture e h crash l tid run root key digest s =
     andthen (record_single e l tid key digest s) (\<lambda>op s1.
     case dh_create h ''deterministic_fixture'' of
       Inl err \<Rightarrow> give_up (later 10 e) l tid (error_text err) s1
     | Inr x \<Rightarrow>
         (case run_guest (later (-20) e) (-20) l tid (ex_execute x tid root) s1 of
            (Inl err, s2) \<Rightarrow> dispatch_raised (later 10 e) l tid op err s2
          | (Inr r, s2) \<Rightarrow>
              andthen (reconcile_single (later 10 e) l op
                         (if er_success r then ''success'' else ''failure'') s2) (\<lambda>_ s3.
              if \<not> er_success r then dispatch_failed (later 20 e) l tid 1 r s3
              else
                let code = er_validation_exit_code r; out = er_validation_output_digest r in
                andthen (accept_result (later 20 e) crash l tid 1
                           (sha256_json e (result_json r)) r s3) (\<lambda>_ s4.
                andthen (record_validation (later 100 e) crash l tid 1 code out s4) (\<lambda>_ s5.
                andthen (fixture_evidence (later 150 e) l tid code out s5) (\<lambda>_ s6.
                conclude (later 200 e) l tid (dr_execution_id run) ''READY_FOR_REVIEW_FIXTURE''
                  code out ''Durable single fixture validated''
                  ''deterministic fixture dispatch + validation completed''
                  [(''executor_kind'', JStr ''deterministic_fixture'')]
                  (er_changed_files r) s6))))))"

text \<open>
  \<open>_execute_single_with_lease\<close>. The requests of both branches hash the workspace root the
  caller gave.
\<close>

definition execute_single_with_lease ::
    "env \<Rightarrow> durable_config \<Rightarrow> durable_host \<Rightarrow> string option \<Rightarrow> string \<Rightarrow> string \<Rightarrow> lease_handle \<Rightarrow> db
     \<Rightarrow> execution_outcome step" where
  "execute_single_with_lease e c h crash tid root l s =
     andthen (validate_durable_lease (lh_run_id l) (lh_owner l) (lh_epoch l) s, s) (\<lambda>_ s.
     andthen (get_durable_run (lh_run_id l) s, s) (\<lambda>run s.
     andthen (get_task tid None s, s) (\<lambda>view s.
     let task = tv_row view; kind = t_executor_kind task;
         key = single_key tid (dr_execution_id run) in
     if dr_accepted_checkpoint run = ''POST_VALIDATION'' then
       (if t_status task = review_status kind then Inr (run_outcome tid run)
        else Inl (execution_error (''durable_single_post_validation_without_ready:'' @ tid)), s)
     else
       andthen (dh_kwargs h task, s) (\<lambda>_ s.
       if kind = ''opencode'' then
         andthen (prepare_opencode e c h l tid root s) (\<lambda>ready s1.
         case ready of
           Inl out \<Rightarrow> (Inr out, s1)
         | Inr (x, wt, head) \<Rightarrow>
             andthen (start_single (later 100 e) h crash l tid wt s1) (\<lambda>_ s2.
             dispatch_opencode (later 200 e) h crash l tid run x wt key
               (single_request e tid (dr_execution_id run) root head) s2))
       else
         andthen (start_single (later 100 e) h crash l tid '''' s) (\<lambda>_ s2.
         dispatch_fixture (later 200 e) h crash l tid run root key
           (single_request e tid (dr_execution_id run) root '''') s2)))))"

text \<open>
  The method body under the heartbeat; an exception gives the lease back, the death of the
  process does not.
\<close>

definition with_lease ::
    "env \<Rightarrow> durable_config \<Rightarrow> lease_handle \<Rightarrow> (db \<Rightarrow> 'a step) \<Rightarrow> db \<Rightarrow> 'a step" where
  "with_lease e c l body s =
     (case body (snd (heartbeat_durable_lease e (lh_run_id l) (lh_owner l) (lh_epoch l)
                        (dc_expiry_ms c) s)) of
        (Inr x, s1) \<Rightarrow> (Inr x, s1)
      | (Inl err, s1) \<Rightarrow>
          if is_crash err then (Inl err, s1)
          else
            andthen (release_durable_lease (later 10 e) (lh_run_id l) (lh_owner l) (lh_epoch l) s1)
              (\<lambda>_ s2. (Inl err, s2)))"

definition execute_durable_single ::
    "env \<Rightarrow> durable_config \<Rightarrow> durable_host \<Rightarrow> string option \<Rightarrow> string \<Rightarrow> string \<Rightarrow> string \<Rightarrow> db
     \<Rightarrow> execution_outcome step" where
  "execute_durable_single e c h crash tid root owner s =
     andthen (assert_identity_for_execute c, s) (\<lambda>_ s.
     andthen (get_task tid None s, s) (\<lambda>view s.
     let mode = t_orchestration_mode (tv_row view) in
     if mode \<noteq> ''single'' then
       (Inl (execution_error (''durable_single_wrong_mode:'' @ tid @ '':actual='' @ mode)), s)
     else
       andthen (acquire_or_find_lease e tid owner (dc_expiry_ms c) (trusted_authority_sha c)
                  (trusted_planning_sha c) s) (\<lambda>l s1.
       with_lease (later 10 e) c l
         (execute_single_with_lease (later 100 e) c h crash tid root l) s1)))"

section \<open>Resuming\<close>

text \<open>\<open>_resume_single_validate_and_terminal\<close>; a missing worktree is validated in the current directory.\<close>

definition resume_validate ::
    "env \<Rightarrow> durable_host \<Rightarrow> string option \<Rightarrow> lease_handle \<Rightarrow> string \<Rightarrow> string \<Rightarrow> string \<Rightarrow> int \<Rightarrow> string
     \<Rightarrow> db \<Rightarrow> execution_outcome step" where
  "resume_validate e h crash l tid exec prepared attempt review s =
     (let (code, out) = validation_answer
            (dh_validate h 0 (if dh_exists h 9 prepared then prepared else ''.'')) in
      andthen (record_validation e crash l tid attempt code out s) (\<lambda>_ s1.
      andthen (product_files h 9 prepared, s1) (\<lambda>final s2.
      conclude (later 100 e) l tid exec review code out
        ''Durable single execution validated (resume)'' ''resume validation completed'' [] final s2)))"

definition resume_post_reviewer where
  "resume_post_reviewer e h crash l tid run prepared attempt review s =
     resume_validate e h crash l tid (dr_execution_id run) prepared attempt review s"

definition resume_post_coder ::
    "env \<Rightarrow> durable_host \<Rightarrow> string option \<Rightarrow> lease_handle \<Rightarrow> string \<Rightarrow> run_row \<Rightarrow> string \<Rightarrow> int \<Rightarrow> string
     \<Rightarrow> db \<Rightarrow> execution_outcome step" where
  "resume_post_coder e h crash l tid run prepared attempt review s =
     andthen (pass_or_crash e crash l ''POST_REVIEWER'' '''' attempt s) (\<lambda>_ s1.
     resume_validate (later 10 e) h crash l tid (dr_execution_id run) prepared attempt review s1)"

definition files_at :: "durable_host \<Rightarrow> int \<Rightarrow> int \<Rightarrow> string \<Rightarrow> file_change list outcome" where
  "files_at h k j wt = (if dh_exists h k wt then product_files h j wt else Inr [])"

definition resume_post_planner ::
    "env \<Rightarrow> durable_host \<Rightarrow> string option \<Rightarrow> lease_handle \<Rightarrow> string \<Rightarrow> run_row \<Rightarrow> string \<Rightarrow> int \<Rightarrow> string
     \<Rightarrow> db \<Rightarrow> execution_outcome step" where
  "resume_post_planner e h crash l tid run prepared attempt review s =
     andthen (files_at h 4 2 prepared, s) (\<lambda>files s1.
     andthen (put_files e l tid files s1) (\<lambda>_ s2.
     andthen (pass_or_crash (later 10 e) crash l ''POST_CODER'' '''' attempt s2) (\<lambda>_ s3.
     andthen (pass_or_crash (later 20 e) crash l ''POST_REVIEWER'' '''' attempt s3) (\<lambda>_ s4.
     resume_validate (later 30 e) h crash l tid (dr_execution_id run) prepared attempt review s4))))"

text \<open>\<open>os.path.join(root, name)\<close>\<close>

definition path_join :: "string \<Rightarrow> string \<Rightarrow> string" where
  "path_join root name =
     (if name \<noteq> [] \<and> hd name = CHR ''/'' then name
      else if root = [] \<or> last root = CHR ''/'' then root @ name
      else root @ ''/'' @ name)"

text \<open>
  The dispatch of a resumed run, all of it inside one \<open>try\<close>: the result and the worktree to
  validate.
\<close>

definition redispatch ::
    "env \<Rightarrow> durable_host \<Rightarrow> lease_handle \<Rightarrow> string \<Rightarrow> run_row \<Rightarrow> run_executor \<Rightarrow> string \<Rightarrow> string \<Rightarrow> string
     \<Rightarrow> db \<Rightarrow> (executor_result \<times> string) step" where
  "redispatch e h l tid run x kind root prepared s =
     (if kind = ''opencode'' then
        andthen (dh_reconstruct h (if dr_worktree_path run = '''' then prepared
                                   else dr_worktree_path run)
                   (dr_repository_base_sha run) (dr_execution_id run), s) (\<lambda>wt s1.
        andthen (run_guest (later (-20) e) (-20) l tid (ex_role x wt tid) s1) (\<lambda>r s2.
        (Inr (r, wt), s2)))
      else
        andthen (run_guest (later (-20) e) (-20) l tid (ex_execute x tid root) s) (\<lambda>r s1.
        let wt = path_join root tid in
        if dh_exists h 5 wt then
          andthen (set_worktree_identity e (lh_run_id l) wt (dh_head h 5 wt) (lh_owner l)
                     (lh_epoch l) s1) (\<lambda>_ s2. (Inr (r, wt), s2))
        else (Inr (r, prepared), s1)))"

definition AMBIGUOUS_DETAIL :: string where
  "AMBIGUOUS_DETAIL = ''external operation already recorded; refusing second dispatch''"

text \<open>
  Resuming from \<open>PRE_PLANNER\<close>, the only checkpoint from which the executor is dispatched. The
  guard against a second dispatch looks for the journalled request, whose digest is made of
  the workspace root given here.
\<close>

definition resume_pre_planner ::
    "env \<Rightarrow> durable_host \<Rightarrow> string option \<Rightarrow> lease_handle \<Rightarrow> string \<Rightarrow> run_row \<Rightarrow> string \<Rightarrow> task_row
     \<Rightarrow> string \<Rightarrow> int \<Rightarrow> string \<Rightarrow> db \<Rightarrow> execution_outcome step" where
  "resume_pre_planner e h crash l tid run root task prepared attempt review s =
     (let kind = t_executor_kind task; key = single_key tid (dr_execution_id run);
          digest = single_request e tid (dr_execution_id run) root (dr_repository_base_sha run) in
      andthen (dh_kwargs h task, s) (\<lambda>_ s.
      if external_operation_prevents_dispatch key digest (lh_run_id l) (lh_owner l) (lh_epoch l) s
      then
        andthen (classify e l tid ''ambiguous_external_operation'' AMBIGUOUS_DETAIL s) (\<lambda>_ s1.
        andthen (terminalize (later 10 e) l tid
                   (failed_input '''' (-1) '''' ''ambiguous_external_operation'' AMBIGUOUS_DETAIL) s1)
          (\<lambda>_ s2. stored_failure tid '''' (-1) s2))
      else
        andthen (record_single e l tid key digest s) (\<lambda>op s1.
        case dh_create h kind of
          Inl err \<Rightarrow> give_up (later 10 e) l tid (error_text err) s1
        | Inr x \<Rightarrow>
            (case redispatch e h l tid run x kind root prepared s1 of
               (Inl err, s2) \<Rightarrow> dispatch_raised (later 10 e) l tid op err s2
             | (Inr (r, wt), s2) \<Rightarrow>
                 andthen (reconcile_single (later 10 e) l op
                            (if er_success r then ''success'' else ''failure'') s2) (\<lambda>_ s3.
                 if \<not> er_success r then dispatch_failed (later 20 e) l tid attempt r s3
                 else
                   andthen (accept_result (later 20 e) crash l tid attempt
                              (sha256_json e (result_json r)) r s3) (\<lambda>_ s4.
                   resume_validate (later 100 e) h crash l tid (dr_execution_id run) wt attempt
                     review s4))))))"

text \<open>\<open>_resume_single_with_lease\<close>; \<open>run\<close> is the row read before the lease was recovered.\<close>

definition resume_single_with_lease ::
    "env \<Rightarrow> durable_host \<Rightarrow> string option \<Rightarrow> string \<Rightarrow> string \<Rightarrow> run_row \<Rightarrow> lease_handle \<Rightarrow> db
     \<Rightarrow> execution_outcome step" where
  "resume_single_with_lease e h crash tid root run l s =
     andthen (validate_durable_lease (lh_run_id l) (lh_owner l) (lh_epoch l) s, s) (\<lambda>_ s.
     andthen (get_task tid None s, s) (\<lambda>stored s.
     andthen (if t_status (tv_row stored) = ''INTERRUPTED'' then move_to e l tid ''RUNNING'' s
              else (Inr (), s)) (\<lambda>_ s1.
     andthen (get_task tid None s1, s1) (\<lambda>view s1.
     let task = tv_row view; accepted = dr_accepted_checkpoint run;
         review = review_status (t_executor_kind task); attempt = dr_role_attempt run;
         wt = (if dr_worktree_path run = '''' then root else dr_worktree_path run) in
     if accepted = ''POST_VALIDATION'' then (Inr (run_outcome tid run), s1)
     else
       andthen (files_at h 3 1 wt, s1) (\<lambda>files s2.
       andthen (put_files (later 10 e) l tid files s2) (\<lambda>_ s3.
       if accepted = ''PRE_PLANNER'' then
         resume_pre_planner (later 20 e) h crash l tid run root task wt attempt review s3
       else if accepted = ''POST_PLANNER'' then
         resume_post_planner (later 20 e) h crash l tid run wt attempt review s3
       else if accepted = ''POST_CODER'' then
         resume_post_coder (later 20 e) h crash l tid run wt attempt review s3
       else if accepted = ''POST_REVIEWER'' then
         resume_post_reviewer (later 20 e) h crash l tid run wt attempt review s3
       else
         (Inl (resume_error (''unknown_accepted_checkpoint:'' @ accepted @ '':'' @ tid)), s3)))))))"

section \<open>The preconditions of a resumption\<close>

definition REVIEW_STATUSES :: "string list" where
  "REVIEW_STATUSES = [''READY_FOR_REVIEW'', ''READY_FOR_REVIEW_FIXTURE'']"

text \<open>A task that is ready for review is reported as such, from its run.\<close>

definition resume_ready :: "string \<Rightarrow> db \<Rightarrow> execution_outcome outcome" where
  "resume_ready tid s =
     (case find_active_durable_run tid s of
        None \<Rightarrow>
          (case order_desc dr_created_at (filter (\<lambda>r. dr_task_id r = tid) (durable_runs s)) of
             [] \<Rightarrow> Inl (resume_error (''no_durable_run:'' @ tid))
           | r # _ \<Rightarrow> Inr (durable_outcome tid (dr_execution_id r) True ''git_diff_check'' 0 '''' ''''))
      | Some (r, _) \<Rightarrow> map_sum id (run_outcome tid) (get_durable_run (dr_run_id r) s))"

text \<open>The checks of the stored run and task, in the code's order; \<open>None\<close> lets it go on.\<close>

definition resume_refused ::
    "env \<Rightarrow> durable_host \<Rightarrow> string \<Rightarrow> string \<Rightarrow> string \<Rightarrow> string \<Rightarrow> run_row \<Rightarrow> task_row \<Rightarrow> store_error option"
where
  "resume_refused e h tid root authority planning run task =
     (let st = t_status task; wt = (if dr_worktree_path run = '''' then root else dr_worktree_path run);
          refuse = (\<lambda>m. Some (resume_error m)) in
      if t_orchestration_mode task \<noteq> ''single'' then
        refuse (''invalid_orchestration_mode:'' @ t_orchestration_mode task)
      else if dr_execution_authority_sha run \<noteq> authority then
        refuse (''authority_sha_mismatch:'' @ dr_execution_authority_sha run @ ''!='' @ authority)
      else if dr_planning_sha run \<noteq> planning then
        refuse (''planning_sha_mismatch:'' @ dr_planning_sha run @ ''!='' @ planning)
      else if st \<in> set LIVE_STATUSES \<and> now_ms e 0 < dr_lease_expiry_ms run
              \<and> dr_lease_owner run \<noteq> '''' \<and> 0 < dr_lease_epoch run then
        refuse (''durable_run_lease_live:'' @ tid @ '':status='' @ st @ '':epoch=''
          @ str_of_int (dr_lease_epoch run) @ '':owner='' @ dr_lease_owner run)
      else if st = ''INTERRUPTED'' \<and> dr_recovery_classification run \<notin> set RECOVERABLE then
        refuse (''invalid_recovery_classification:'' @ dr_recovery_classification run)
      else if st \<notin> {''BLOCKED'', ''FAILED'', ''CANCELLED'', ''INTERRUPTED''} then
        refuse (''invalid_resume_status:'' @ st)
      else if root \<noteq> '''' \<and> dr_worktree_path run \<noteq> '''' \<and> dr_worktree_path run \<noteq> root then
        refuse (''workspace_mismatch:'' @ dr_worktree_path run @ ''!='' @ root)
      else if \<not> dh_exists h 0 wt \<and> dr_accepted_checkpoint run \<noteq> ''PRE_PLANNER'' then
        refuse (''worktree_not_found:'' @ wt)
      else if dh_exists h 1 wt \<and> dr_repository_base_sha run \<noteq> ''''
              \<and> dh_head h 0 wt \<noteq> dr_repository_base_sha run then
        refuse (''repository_base_head_mismatch:'' @ dr_repository_base_sha run @ ''!='' @ dh_head h 0 wt)
      else None)"

definition resume_owner :: "string \<Rightarrow> run_row \<Rightarrow> string" where
  "resume_owner owner run =
     (if owner \<noteq> '''' then owner
      else if dr_lease_owner run \<noteq> '''' then dr_lease_owner run else ''task-api-resume'')"

text \<open>
  \<open>resume_single\<close>. Nothing is written between its two readings of the task's status, so the
  second reading is the first here.
\<close>

definition resume_single ::
    "env \<Rightarrow> durable_config \<Rightarrow> durable_host \<Rightarrow> string option \<Rightarrow> string \<Rightarrow> string \<Rightarrow> string
     \<Rightarrow> string option \<Rightarrow> string option \<Rightarrow> db \<Rightarrow> execution_outcome step" where
  "resume_single e c h crash tid root owner authority planning s =
     andthen (assert_identity_for_resume c authority planning, s) (\<lambda>(auth, plan) s.
     andthen (get_task tid None s, s) (\<lambda>view s.
     let task = tv_row view in
     if t_status task \<in> set REVIEW_STATUSES then (resume_ready tid s, s)
     else case find_active_durable_run tid s of
       None \<Rightarrow> (Inl (resume_error (''no_active_durable_run:'' @ tid)), s)
     | Some (r, _) \<Rightarrow>
         andthen (get_durable_run (dr_run_id r) s, s) (\<lambda>run s.
         let wt = (if dr_worktree_path run = '''' then root else dr_worktree_path run) in
         case resume_refused e h tid root auth plan run task of
           Some err \<Rightarrow> (Inl err, s)
         | None \<Rightarrow>
             if dr_accepted_checkpoint run = ''POST_VALIDATION'' then (Inr (run_outcome tid run), s)
             else if dr_accepted_checkpoint run = '''' then
               (Inl (resume_error (''pre_pre_planner_no_reconstruction_path:'' @ tid
                  @ '':accepted_checkpoint_empty_fail_closed'')), s)
             else
               andthen (recover_durable_lease e (dr_run_id run) (resume_owner owner run)
                          (dc_expiry_ms c) (t_status task = ''INTERRUPTED'') s) (\<lambda>l s1.
               if lh_epoch l \<le> dr_lease_epoch run then
                 (Inl (PyError ''AssertionError'' ''recovery epoch must be strictly newer''), s1)
               else
                 with_lease (later 10 e) c l
                   (resume_single_with_lease (later 100 e) h crash tid wt run l) s1))))"

end
