(* ===== verification/Durable_Laws.thy ===== *)
theory Durable_Laws
  imports Budget_Invariant Service_Steps Durable_Single
begin

text \<open>
  What the durable service may do to the database. Between acquisition and the end of a phase
  everything it writes is a fenced call about its own task, other than the release; the locale
  \<open>lease_relation\<close> is the interface of a relation that survives such calls, and it then survives
  every phase, whatever the executor does behind its facade. \<open>service_relation\<close> adds the calls
  around the phases: acquiring, recovering and releasing the lease.
\<close>

section \<open>Fenced calls about one task\<close>

fun about_task :: "string \<Rightarrow> fenced_call \<Rightarrow> bool" where
  "about_task tid (FTransition t st) = (t = tid)"
| "about_task tid (FChangedFiles t fs) = (t = tid)"
| "about_task tid (FEvent t ty ti d l m) = (t = tid)"
| "about_task tid (FEvidence t i) = (t = tid)"
| "about_task tid (FUsage t i) = (t = tid)"
| "about_task tid (FSnapshot t) = (t = tid)"
| "about_task tid (FReservation t) = (t = tid)"
| "about_task tid (FClassify t c d) = (t = tid)"
| "about_task tid (FValidation t c x d) = (t = tid)"
| "about_task tid (FTerminalize t i) = (t = tid)"
| "about_task tid (FRecordOp ok k d t) = (t = tid)"
| "about_task tid FRelease = False"
| "about_task tid c = True"

locale lease_relation =
  fixes R :: "db \<Rightarrow> db \<Rightarrow> bool" and tid :: string
  assumes R_refl [simp]: "R s s"
    and R_trans: "R s t \<Longrightarrow> R t u \<Longrightarrow> R s u"
    and R_fenced: "about_task tid c \<Longrightarrow> R s (snd (run_fenced e rid ow ep c s))"
begin

lemma R_andthen:
  assumes "R s (snd r)" and "\<And>x t. r = (Inr x, t) \<Longrightarrow> R t (snd (k x t))"
  shows "R s (snd (andthen r k))"
  using assms by (cases r; cases "fst r") (auto intro: R_trans)

text \<open>The fenced operations the service uses, as calls.\<close>

lemma R_ops:
  "R s (snd (fenced_transition_to e rid tid st ow ep s))"
  "R s (snd (fenced_set_changed_files e rid tid fs ow ep s))"
  "R s (snd (fenced_add_event e rid tid ty ti d lg m ow ep s))"
  "R s (snd (fenced_add_evidence e rid tid i ow ep s))"
  "R s (snd (fenced_append_usage_observation e rid tid ui ow ep s))"
  "R s (snd (fenced_active_usage_budget_snapshot rid tid ow ep s))"
  "R s (snd (fenced_active_usage_reservation rid tid ow ep s))"
  "R s (snd (fenced_classify_failure e rid tid cl d ow ep s))"
  "R s (snd (fenced_set_task_validation e rid tid cm x d ow ep s))"
  "R s (snd (fenced_terminalize e rid tid ti' ow ep s))"
  "R s (snd (set_run_validation_result e rid cm x d ow ep s))"
  "R s (snd (set_worktree_identity e rid p hd' ow ep s))"
  "R s (snd (set_authority_identity e rid au pl ow ep s))"
  "R s (snd (set_checkpoint_db_path e rid p ow ep s))"
  "R s (snd (heartbeat_durable_lease e rid ow ep x s))"
  "R s (snd (set_repository_base_sha e rid hd' ow ep s))"
  "R s (snd (accept_checkpoint e rid n d at ow ep s))"
  "R s (snd (record_external_operation e ok k d rid tid ow ep s))"
  "R s (snd (reconcile_external_operation e oid xid res rid ow ep s))"
  using R_fenced [of "FTransition tid st"] R_fenced [of "FChangedFiles tid fs"]
    R_fenced [of "FEvent tid ty ti d lg m"] R_fenced [of "FEvidence tid i"]
    R_fenced [of "FUsage tid ui"] R_fenced [of "FSnapshot tid"] R_fenced [of "FReservation tid"]
    R_fenced [of "FClassify tid cl d"] R_fenced [of "FValidation tid cm x d"]
    R_fenced [of "FTerminalize tid ti'"] R_fenced [of "FRunValidation cm x d"]
    R_fenced [of "FWorktree p hd'"] R_fenced [of "FAuthority au pl"] R_fenced [of "FCheckpointDb p"]
    R_fenced [of "FHeartbeat x"] R_fenced [of "FBaseSha hd'"]
    R_fenced [of "FCheckpoint n d at"] R_fenced [of "FRecordOp ok k d tid"]
    R_fenced [of "FReconcileOp oid xid res"]
  by simp_all

lemma R_facade: "R s (snd (facade_step e l tid c s))"
  by (cases c) (simp_all add: bound_task_def R_ops)

lemma R_guest: "R s (snd (run_guest e d l tid g s))"
proof (induction g arbitrary: e s)
  case (Call c k)
  have "R s s1" if "facade_step e l tid c s = (r, s1)" for r s1
    using R_facade [of s e l c] that by simp
  then show ?case
    using Call.IH by (auto intro: R_trans split: prod.split)
qed simp

lemma R_guestD: "run_guest e d l tid g s = (r, s1) \<Longrightarrow> R s s1"
  using R_guest [of s e d l g] by simp

lemma R_statements:
  "R s (snd (pass_checkpoint e l n d at s))" "R s (snd (pass_or_crash e crash l n d at s))"
  "R s (snd (put_files e l tid fs s))" "R s (snd (move_to e l tid st s))"
  "R s (snd (put_run_validation e l cm x d s))" "R s (snd (terminalize e l tid i s))"
  "R s (snd (classify e l tid cl d s))" "R s (snd (record_single e l tid k d s))"
  "R s (snd (reconcile_single e l op res s))"
  unfolding pass_checkpoint_def pass_or_crash_def put_files_def move_to_def put_run_validation_def
    terminalize_def classify_def record_single_def reconcile_single_def
  by (intro R_andthen R_ops; simp)+

lemma R_stored [simp]: "snd (stored_failure tid cm x s) = s"
  by (simp add: stored_failure_def split: sum.split)

lemma R_cases:
  "R s (snd a) \<Longrightarrow> R s (snd b) \<Longrightarrow> R s (snd (if c then a else b))"
  "R s (snd (x, s))"
  by auto

lemma R_evidence: "R s (snd (tolerant_evidence e l tid i s))"
proof -
  have "R s t" if "fenced_add_evidence e (lh_run_id l) tid i (lh_owner l) (lh_epoch l) s = (r, t)" for r t
    using R_ops(4) [of s e "lh_run_id l" i "lh_owner l" "lh_epoch l"] that by simp
  then show ?thesis by (auto simp: tolerant_evidence_def split: prod.split sum.split)
qed

lemma R_phases:
  "R s (snd (give_up e l tid d s))" "R s (snd (dispatch_raised e l tid op err s))"
  "R s (snd (dispatch_failed e l tid at r s))" "R s (snd (accept_result e crash l tid at d r s))"
  "R s (snd (record_validation e crash l tid at x d s))"
  "R s (snd (conclude e l tid ex rv x d ti de me fs s))"
  "R s (snd (start_single e h crash l tid wt s))" "R s (snd (fixture_evidence e l tid x d s))"
  unfolding give_up_def dispatch_raised_def dispatch_failed_def accept_result_def
    record_validation_def conclude_def start_single_def fixture_evidence_def Let_def
  by (intro R_andthen R_cases R_statements R_ops R_evidence; simp)+

lemma R_bind:
  assumes "R s (snd r)" "\<And>err t. r = (Inl err, t) \<Longrightarrow> R t (snd (f err t))"
    and "\<And>x t. r = (Inr x, t) \<Longrightarrow> R t (snd (g x t))"
  shows "R s (snd (case r of (Inl err, t) \<Rightarrow> f err t | (Inr x, t) \<Rightarrow> g x t))"
  using assms by (cases r; cases "fst r") (auto intro: R_trans)

lemma R_host:
  "(\<And>err. R s (snd (f err))) \<Longrightarrow> (\<And>x. R s (snd (g x)))
   \<Longrightarrow> R s (snd (case m of Inl err \<Rightarrow> f err | Inr x \<Rightarrow> g x))"
  "(\<And>x y. R s (snd (k x y))) \<Longrightarrow> R s (snd (case z of (x, y) \<Rightarrow> k x y))"
  by (auto split: sum.split prod.split)

lemma R_option:
  "(m = None \<Longrightarrow> R s (snd a)) \<Longrightarrow> (\<And>x. m = Some x \<Longrightarrow> R s (snd (b x)))
   \<Longrightarrow> R s (snd (case m of None \<Rightarrow> a | Some x \<Rightarrow> b x))"
  "(\<And>x y. z = (x, y) \<Longrightarrow> R s (snd (k x y))) \<Longrightarrow> R s (snd (case z of (x, y) \<Rightarrow> k x y))"
  by (auto split: option.split prod.split)

lemma R_early: "R s (snd r) \<Longrightarrow> R s (snd (return_early r))"
  by (simp add: return_early_def)

lemmas R_rules = R_andthen R_cases R_bind R_host R_early R_statements R_phases R_ops R_guest

lemma R_prepare: "R s (snd (prepare_opencode e c h l tid root s))"
  unfolding prepare_opencode_def Let_def by (intro R_rules; simp)

lemma R_dispatch_opencode: "R s (snd (dispatch_opencode e h crash l tid run x wt k d s))"
  unfolding dispatch_opencode_def Let_def by (intro R_rules; simp)

lemma R_dispatch_fixture: "R s (snd (dispatch_fixture e h crash l tid run root k d s))"
  unfolding dispatch_fixture_def Let_def by (intro R_rules; simp)

lemma R_execute: "R s (snd (execute_single_with_lease e c h crash tid root l s))"
  unfolding execute_single_with_lease_def Let_def
  by (intro R_rules R_prepare R_dispatch_opencode R_dispatch_fixture; simp)

lemma R_resume_validate: "R s (snd (resume_validate e h crash l tid ex pr at rv s))"
  unfolding resume_validate_def Let_def by (intro R_rules; simp)

lemma R_redispatch: "R s (snd (redispatch e h l tid run x kind root pr s))"
  unfolding redispatch_def Let_def by (intro R_rules; simp)

lemma R_resume_branches:
  "R s (snd (resume_pre_planner e h crash l tid run root task pr at rv s))"
  "R s (snd (resume_post_planner e h crash l tid run pr at rv s))"
  "R s (snd (resume_post_coder e h crash l tid run pr at rv s))"
  "R s (snd (resume_post_reviewer e h crash l tid run pr at rv s))"
  unfolding resume_pre_planner_def resume_post_planner_def resume_post_coder_def
    resume_post_reviewer_def Let_def
  by (intro R_rules R_redispatch R_resume_validate; simp)+

lemma R_resume: "R s (snd (resume_single_with_lease e h crash tid root run l s))"
  unfolding resume_single_with_lease_def Let_def
  by (intro R_rules R_resume_branches; simp)

end

section \<open>The whole service\<close>

lemma active_run:
  assumes "find_active_durable_run tid s = Some (r, st)" "distinct (map dr_run_id (durable_runs s))"
  shows "run_row_of (dr_run_id r) s = Some r" "dr_task_id r = tid"
proof -
  obtain rs where "order_desc dr_created_at (filter (\<lambda>r. dr_task_id r = tid) (durable_runs s)) = r # rs"
    using assms(1) unfolding find_active_durable_run_def
    by (auto split: list.splits option.splits if_splits)
  note r = order_desc_hd [OF this]
  then have "r \<in> set (durable_runs s)" by simp
  then show "run_row_of (dr_run_id r) s = Some r"
    unfolding run_row_of_def by (rule find_distinct_key [OF assms(2)]) (rule refl)
  show "dr_task_id r = tid" using r by simp
qed

lemma stored_active_run:
  assumes "reachable s" "find_active_durable_run tid s = Some (r, st)"
  shows "get_durable_run (dr_run_id r) s = Inr r"
  using active_run(1) [OF assms(2) run_key [OF reachable_keys [OF assms(1)]]]
  by (simp add: get_durable_run_def)

lemma active_status:
  assumes "find_active_durable_run tid s = Some (r, st)" "get_task tid None s = Inr v"
  shows "t_status (tv_row v) = st" "st \<notin> set TERMINAL_STATUSES"
  using assms(1) get_task_row [OF assms(2)] unfolding find_active_durable_run_def
  by (auto split: list.splits option.splits if_splits)

lemma acquired_row:
  assumes "acquire_or_find_lease e tid ow x au pl s = (Inr l, s1)"
  shows "\<exists>r. run_row_of (lh_run_id l) s1 = Some r \<and> holds_lease r (lh_owner l) (lh_epoch l)
      \<and> dr_task_id r = tid \<and> dr_accepted_checkpoint r = ''''"
proof -
  obtain view where "get_task tid None s = Inr view"
    using assms by (cases "get_task tid None s") (simp_all add: acquire_or_find_lease_def)
  then have "\<exists>q. acquire_durable_lease e q s = (Inr l, s1) \<and> aq_task_id q = tid"
    using assms unfolding acquire_or_find_lease_def sum.case by (intro exI conjI) (simp, simp)
  then obtain q where "aq_task_id q = tid" and q: "acquire_durable_lease e q s = (Inr l, s1)" by blast
  moreover from q obtain row where "acquire_lease_txn e q s = (Inr row, s1)" "l = lease_handle_from_row row"
    unfolding acquire_durable_lease_def
    by (auto simp: andthen_ok transact_def split: sum.splits prod.splits)
  ultimately have q: "aq_task_id q = tid" "acquire_lease_txn e q s = (Inr row, s1)"
    "l = lease_handle_from_row row"
    by simp_all
  then have row: "row = new_run_row e q" "durable_runs s1 = durable_runs s @ [row]"
    "\<not> list_ex (\<lambda>b. dr_run_id row = dr_run_id b \<or> dr_task_id row = dr_task_id b) (durable_runs s)"
    by (auto simp: acquire_lease_txn_def Let_def sql_insert_def split: option.splits if_splits)
  then have "find (\<lambda>r. dr_run_id r = dr_run_id row) (durable_runs s) = None"
    by (auto simp: find_None_iff list_ex_iff)
  then show ?thesis
    using row q by (simp add: run_row_of_def find_append lease_handle_from_row_def holds_lease_def
        new_run_row_def)
qed

locale service_relation = lease_relation +
  assumes R_acquire: "R s (snd (acquire_or_find_lease e tid ow x au pl s))"
    and R_recover: "run_row_of rid s = Some r \<Longrightarrow> dr_task_id r = tid
          \<Longrightarrow> R s (snd (recover_durable_lease e rid ow x req s))"
    and R_release: "R s (snd (release_durable_lease e rid ow ep s))"
begin

lemma R_with_lease:
  assumes "\<And>s. R s (snd (body s))"
  shows "R s (snd (with_lease e c l body s))"
proof -
  let ?s = "snd (heartbeat_durable_lease e (lh_run_id l) (lh_owner l) (lh_epoch l) (dc_expiry_ms c) s)"
  have "R s ?s" by (rule R_ops)
  moreover have "R ?s (snd (with_lease e c l body s))"
    unfolding with_lease_def by (intro R_rules R_release assms; simp)
  ultimately show ?thesis by (rule R_trans)
qed

lemma R_execute_durable: "R s (snd (execute_durable_single e c h crash tid root owner s))"
  unfolding execute_durable_single_def Let_def
  by (intro R_andthen R_cases R_acquire R_with_lease R_execute; simp)

lemma R_resume_single:
  assumes "distinct (map dr_run_id (durable_runs s))"
  shows "R s (snd (resume_single e c h crash tid root owner auth plan s))"
proof -
  have recover: "R s (snd (recover_durable_lease e' (dr_run_id run) ow x req s))"
    if "find_active_durable_run tid s = Some (r, st)" "get_durable_run (dr_run_id r) s = Inr run"
    for r st run e' ow x req
    using R_recover [OF active_run [OF that(1) assms]] active_run(1) [OF that(1) assms] that(2)
    by (simp add: get_durable_run_def)
  show ?thesis
    unfolding resume_single_def Let_def
    apply (intro R_andthen R_cases R_option R_with_lease R_resume; clarsimp?)+
    apply (erule (1) recover)
    done
qed

end

text \<open>The service only goes through the calls of the store.\<close>

interpretation durable: service_relation acts tid for tid
proof unfold_locales
  fix s t u c e rid ow ep x au pl r req
  show "acts s s" by simp
  show "acts s t \<Longrightarrow> acts t u \<Longrightarrow> acts s u" by (rule acts_trans)
  show "acts s (snd (run_fenced e rid ow ep c s))"
    using acts_store [of s "Fenced e rid ow ep c"] by simp
  show "acts s (snd (acquire_or_find_lease e tid ow x au pl s))"
    using acts_store [of s "AcquireLease e tid ow x au pl"] by simp
  show "acts s (snd (recover_durable_lease e rid ow x req s))"
    using acts_store [of s "RecoverLease e rid ow x req"] by simp
  show "acts s (snd (release_durable_lease e rid ow ep s))"
    using acts_store [of s "Fenced e rid ow ep FRelease"] by simp
qed

section \<open>Other tasks\<close>

text \<open>No row of another task, and nothing of the control store.\<close>

definition confined :: "string \<Rightarrow> db \<Rightarrow> db \<Rightarrow> bool" where
  "confined tid s s' \<longleftrightarrow> others_kept tid s s' \<and> control_part s' = control_part s"

lemma confined_refl [simp]: "confined tid s s"
  by (simp add: confined_def others_kept_def)

lemma confined_trans: "confined tid s t \<Longrightarrow> confined tid t u \<Longrightarrow> confined tid s u"
  by (auto simp: confined_def intro: others_trans)

lemma others_writes [simp]:
  "others_kept tid s (t\<lparr>durable_runs := a\<rparr>) = others_kept tid s t"
  "others_kept tid s (t\<lparr>checkpoint_history := b\<rparr>) = others_kept tid s t"
  "others_kept tid s (t\<lparr>usage_observations := c\<rparr>) = others_kept tid s t"
  "others_kept tid s (t\<lparr>external_operations := d\<rparr>) = others_kept tid s t"
  by (simp_all add: others_kept_def)

lemma others_andthen:
  "others_kept tid s (snd r) \<Longrightarrow> (\<And>x t. r = (Inr x, t) \<Longrightarrow> others_kept tid t (snd (k x t)))
   \<Longrightarrow> others_kept tid s (snd (andthen r k))"
  by (rule andthen_state, blast, blast intro: others_trans)

lemma others_transact: "others_kept tid s (snd r) \<Longrightarrow> others_kept tid s (snd (transact w s r))"
  by (auto simp: transact_def others_kept_def [of tid s s] split: prod.splits sum.splits)

lemma others_fenced:
  "(\<And>r. others_kept tid s (snd (body r s))) \<Longrightarrow> others_kept tid s (snd (fenced rid ow ep p body s))"
  unfolding fenced_def
  by (rule others_transact) (auto simp: others_kept_def [of tid s s] split: sum.splits)

lemma others_kept_self [simp]: "others_kept tid s s"
  by (simp add: others_kept_def)

lemma others_task_update [simp]:
  "(\<And>r. t_id (f r) = t_id r) \<Longrightarrow>
   others_kept tid s (t\<lparr>tasks := sql_update (\<lambda>r. t_id r = tid) f (tasks t)\<rparr>) = others_kept tid s t"
  by (simp add: others_kept_def filter_update_other)

lemma others_recovered:
  "others_kept tid s (s\<lparr>durable_runs := rs, tasks := sql_update (\<lambda>x. t_id x = tid \<and> t_status x = st)
     (\<lambda>x. x\<lparr>t_status := st', t_updated_at := at\<rparr>) (tasks s)\<rparr>)"
proof -
  have "filter (\<lambda>t. t_id t \<noteq> tid) (sql_update (\<lambda>x. t_id x = tid \<and> t_status x = st)
     (\<lambda>x. x\<lparr>t_status := st', t_updated_at := at\<rparr>) ts) = filter (\<lambda>t. t_id t \<noteq> tid) ts" for ts
    by (induction ts) (simp_all add: sql_update_def)
  then show ?thesis by (simp add: others_kept_def)
qed

lemma others_appended [simp]:
  "ev_task_id ev = tid \<Longrightarrow>
     others_kept tid s (t\<lparr>task_events := task_events t @ [ev]\<rparr>) = others_kept tid s t"
  "evd_task_id x = tid \<Longrightarrow>
     others_kept tid s (t\<lparr>task_evidence := task_evidence t @ [x]\<rparr>) = others_kept tid s t"
  "others_kept tid s (replace_changed_files tid fs t) = others_kept tid s t"
  by (simp_all add: others_kept_def replace_changed_files_def changed_file_row_of_def)

text \<open>A row written together with the task's own row.\<close>

lemma others_logged:
  "ev_task_id ev = tid \<Longrightarrow> (\<And>r. t_id (f r) = t_id r) \<Longrightarrow> others_kept tid s
     (s\<lparr>task_events := task_events s @ [ev], tasks := sql_update (\<lambda>r. t_id r = tid) f (tasks s)\<rparr>)"
  "ev_task_id ev = tid \<Longrightarrow> (\<And>r. t_id (f r) = t_id r) \<Longrightarrow> others_kept tid s
     (s\<lparr>tasks := sql_update (\<lambda>r. t_id r = tid) f (tasks s), task_events := task_events s @ [ev]\<rparr>)"
  "evd_task_id x = tid \<Longrightarrow> (\<And>r. t_id (f r) = t_id r) \<Longrightarrow> others_kept tid s
     (s\<lparr>task_evidence := task_evidence s @ [x], tasks := sql_update (\<lambda>r. t_id r = tid) f (tasks s)\<rparr>)"
  "(\<And>r. t_id (f r) = t_id r) \<Longrightarrow> others_kept tid s (replace_changed_files tid fs s
     \<lparr>tasks := sql_update (\<lambda>r. t_id r = tid) f (tasks (replace_changed_files tid fs s))\<rparr>)"
  by (auto simp: others_kept_def filter_update_other replace_changed_files_def changed_file_row_of_def)

lemma others_touch [simp]:
  "others_kept tid s (touch_task e k tid t) = others_kept tid s t"
  "others_kept tid s (write_status e tid st t) = others_kept tid s t"
  by (simp_all add: touch_task_def write_status_def)

lemma others_return [simp]: "snd (return_task t limit s) = s"
  by (simp add: return_task_def)

lemma others_task_calls:
  "others_kept tid s (snd (fenced_transition_to e rid tid st ow ep s))"
  "others_kept tid s (snd (fenced_set_changed_files e rid tid fs ow ep s))"
  "others_kept tid s (snd (fenced_add_event e rid tid ty ti d lg m ow ep s))"
  "others_kept tid s (snd (fenced_add_evidence e rid tid i ow ep s))"
  "others_kept tid s (snd (fenced_set_task_validation e rid tid cm x d ow ep s))"
  "others_kept tid s (snd (fenced_terminalize e rid tid ti' ow ep s))"
  "others_kept tid s (snd (fenced_classify_failure e rid tid cl d ow ep s))"
  "others_kept tid s (snd (fenced_append_usage_observation e rid tid ui ow ep s))"
  "others_kept tid s (snd (fenced_active_usage_budget_snapshot rid tid ow ep s))"
  "others_kept tid s (snd (fenced_active_usage_reservation rid tid ow ep s))"
  unfolding fenced_transition_to_def fenced_set_changed_files_def fenced_add_event_def
    fenced_add_evidence_def fenced_set_task_validation_def fenced_terminalize_def
    fenced_classify_failure_def fenced_append_usage_observation_def append_usage_observation_def
    fenced_active_usage_budget_snapshot_def fenced_active_usage_reservation_def Let_def sql_insert_def
  by (auto intro!: others_andthen others_fenced others_transact others_logged
      simp: failure_event_def evidence_row_of_def split: option.split)

lemma others_run_update: "others_kept tid s (snd (fenced_run_update rid ow ep f s))"
  unfolding fenced_run_update_def
  by (rule others_andthen) (auto simp: atomic_fenced_update_def update_run_def split: option.splits)

lemma others_run_calls:
  "others_kept tid s (snd (heartbeat_durable_lease e rid ow ep n s))"
  "others_kept tid s (snd (release_durable_lease e rid ow ep s))"
  "others_kept tid s (snd (set_repository_base_sha e rid hd' ow ep s))"
  "others_kept tid s (snd (accept_checkpoint e rid cn d at ow ep s))"
  "others_kept tid s (snd (record_external_operation e ok k d rid t' ow ep s))"
  "others_kept tid s (snd (reconcile_external_operation e oid xid res rid ow ep s))"
  unfolding heartbeat_durable_lease_def release_durable_lease_def set_repository_base_sha_def
    accept_checkpoint_def insert_checkpoint_def record_external_operation_def
    record_external_operation_txn_def reconcile_external_operation_def update_run_def Let_def
    sql_insert_def
  by (auto intro!: others_andthen others_transact split: option.split sum.split)

lemma others_run_field_calls:
  "others_kept tid s (snd (set_planner_handoff_digest e rid d ow ep s))"
  "others_kept tid s (snd (set_coder_product_diff_digest e rid d ow ep s))"
  "others_kept tid s (snd (set_reviewer_handoff_digest e rid d ow ep s))"
  "others_kept tid s (snd (set_role_attempt e rid ro n ow ep s))"
  "others_kept tid s (snd (set_recovery_classification e rid d ow ep s))"
  "others_kept tid s (snd (set_run_validation_result e rid cm x d ow ep s))"
  "others_kept tid s (snd (set_worktree_identity e rid cm d ow ep s))"
  "others_kept tid s (snd (set_authority_identity e rid cm d ow ep s))"
  "others_kept tid s (snd (set_partial_coder_diff_digest e rid d ow ep s))"
  "others_kept tid s (snd (set_checkpoint_db_path e rid d ow ep s))"
  unfolding set_planner_handoff_digest_def set_coder_product_diff_digest_def
    set_reviewer_handoff_digest_def set_role_attempt_def set_recovery_classification_def
    set_run_validation_result_def set_worktree_identity_def set_authority_identity_def
    set_partial_coder_diff_digest_def set_checkpoint_db_path_def
  by (rule others_run_update)+

lemma others_run_fenced:
  assumes "about_task tid c"
  shows "others_kept tid s (snd (run_fenced e rid ow ep c s))"
  using assms
  by (cases c) (simp_all add: others_task_calls others_run_calls others_run_field_calls)

interpretation isolated_run: service_relation "confined tid" tid for tid
proof unfold_locales
  fix s t u c e rid ow ep x au pl r req
  show "confined tid s s" by simp
  show "confined tid s t \<Longrightarrow> confined tid t u \<Longrightarrow> confined tid s u" by (rule confined_trans)
  show "about_task tid c \<Longrightarrow> confined tid s (snd (run_fenced e rid ow ep c s))"
    using store_keeps_control [of "Fenced e rid ow ep c" s]
    by (simp add: confined_def others_run_fenced)
  show "confined tid s (snd (acquire_or_find_lease e tid ow x au pl s))"
  proof -
    have claimed: "others_kept tid s (s\<lparr>durable_runs := rs, tasks := sql_update (\<lambda>r. t_id r = tid)
        (\<lambda>r. r\<lparr>t_status := st, t_updated_at := at\<rparr>) (tasks s)\<rparr>)" for rs st at
      by (simp add: others_kept_def filter_update_other)
    have "others_kept tid s (snd (acquire_durable_lease e q s))" if "aq_task_id q = tid" for q
      unfolding acquire_durable_lease_def acquire_lease_txn_def that Let_def sql_insert_def
      by (intro others_andthen others_transact) (auto simp: claimed split: option.split)
    then have "others_kept tid s (snd (acquire_or_find_lease e tid ow x au pl s))"
      unfolding acquire_or_find_lease_def by (cases "get_task tid None s") simp_all
    then show ?thesis
      using store_keeps_control [of "AcquireLease e tid ow x au pl" s] by (simp add: confined_def)
  qed
  show "confined tid s (snd (recover_durable_lease e rid ow x req s))"
    if "run_row_of rid s = Some r" "dr_task_id r = tid"
  proof -
    have "others_kept tid s (snd (recover_lease_txn e rid ow x req s))"
      using that by (simp add: recover_lease_txn_def Let_def others_recovered split: option.split)
    then have "others_kept tid s (snd (recover_durable_lease e rid ow x req s))"
      unfolding recover_durable_lease_def
      by (intro others_andthen others_transact) simp_all
    then show ?thesis
      using store_keeps_control [of "RecoverLease e rid ow x req" s] by (simp add: confined_def)
  qed
  show "confined tid s (snd (release_durable_lease e rid ow ep s))"
    using store_keeps_control [of "Fenced e rid ow ep FRelease" s]
    by (simp add: confined_def others_run_calls)
qed

section \<open>The lease itself\<close>

text \<open>The run stays what it is and who holds it, whatever the phases write into its row.\<close>

definition same_holder :: "run_row \<Rightarrow> run_row \<Rightarrow> bool" where
  "same_holder r r' \<longleftrightarrow> dr_run_id r' = dr_run_id r \<and> dr_task_id r' = dr_task_id r
     \<and> dr_execution_id r' = dr_execution_id r \<and> dr_lease_owner r' = dr_lease_owner r
     \<and> dr_lease_epoch r' = dr_lease_epoch r"

definition leases_kept :: "db \<Rightarrow> db \<Rightarrow> bool" where
  "leases_kept s s' \<longleftrightarrow> list_all2 same_holder (durable_runs s) (durable_runs s')"

lemma leases_kept_refl [simp]: "leases_kept s s"
  by (simp add: leases_kept_def list_all2_same same_holder_def)

lemma leases_kept_trans: "leases_kept s t \<Longrightarrow> leases_kept t u \<Longrightarrow> leases_kept s u"
  unfolding leases_kept_def
  by (rule list_all2_trans [of same_holder same_holder]) (auto simp: same_holder_def)

lemma leases_kept_row:
  assumes "leases_kept s s'" "run_row_of rid s = Some r"
  obtains r' where "run_row_of rid s' = Some r'" "same_holder r r'"
proof -
  have "\<exists>r'. find (\<lambda>r. dr_run_id r = rid) ys = Some r' \<and> same_holder r r'"
    if "list_all2 same_holder xs ys" "find (\<lambda>r. dr_run_id r = rid) xs = Some r" for xs ys
    using that by (induction rule: list_all2_induct) (auto simp: same_holder_def split: if_splits)
  then show thesis using assms that unfolding leases_kept_def run_row_of_def by blast
qed

lemma kept_other_tables [simp]:
  "leases_kept s (t\<lparr>tasks := a\<rparr>) = leases_kept s t"
  "leases_kept s (t\<lparr>task_events := b\<rparr>) = leases_kept s t"
  "leases_kept s (t\<lparr>task_evidence := c\<rparr>) = leases_kept s t"
  "leases_kept s (t\<lparr>task_changed_files := d\<rparr>) = leases_kept s t"
  "leases_kept s (t\<lparr>usage_observations := u\<rparr>) = leases_kept s t"
  "leases_kept s (t\<lparr>external_operations := x\<rparr>) = leases_kept s t"
  by (simp_all add: leases_kept_def)

lemma kept_update_run:
  "(\<And>r. same_holder r (f r)) \<Longrightarrow> durable_runs t = durable_runs s \<Longrightarrow> leases_kept s (update_run rid f t)"
  by (auto simp: leases_kept_def update_run_def sql_update_def list_all2_map2 list_all2_same
      same_holder_def)

lemma kept_andthen:
  "leases_kept s (snd r) \<Longrightarrow> (\<And>x t. r = (Inr x, t) \<Longrightarrow> leases_kept t (snd (k x t)))
   \<Longrightarrow> leases_kept s (snd (andthen r k))"
  by (rule andthen_state, blast, blast intro: leases_kept_trans)

lemma kept_transact: "leases_kept s (snd r) \<Longrightarrow> leases_kept s (snd (transact w s r))"
  by (auto simp: transact_def split: prod.splits sum.splits)

lemma kept_fenced:
  "(\<And>r. leases_kept s (snd (body r s))) \<Longrightarrow> leases_kept s (snd (fenced rid ow ep p body s))"
  unfolding fenced_def by (rule kept_transact) (auto split: sum.splits)

lemma kept_task_calls:
  "leases_kept s (snd (fenced_transition_to e rid tid st ow ep s))"
  "leases_kept s (snd (fenced_set_changed_files e rid tid fs ow ep s))"
  "leases_kept s (snd (fenced_add_event e rid tid ty ti d lg m ow ep s))"
  "leases_kept s (snd (fenced_add_evidence e rid tid i ow ep s))"
  "leases_kept s (snd (fenced_set_task_validation e rid tid cm x d ow ep s))"
  "leases_kept s (snd (fenced_terminalize e rid tid ti' ow ep s))"
  "leases_kept s (snd (fenced_classify_failure e rid tid cl d ow ep s))"
  "leases_kept s (snd (fenced_append_usage_observation e rid tid ui ow ep s))"
  "leases_kept s (snd (fenced_active_usage_budget_snapshot rid tid ow ep s))"
  "leases_kept s (snd (fenced_active_usage_reservation rid tid ow ep s))"
  unfolding fenced_transition_to_def fenced_set_changed_files_def fenced_add_event_def
    fenced_add_evidence_def fenced_set_task_validation_def fenced_terminalize_def
    fenced_classify_failure_def fenced_append_usage_observation_def append_usage_observation_def
    fenced_active_usage_budget_snapshot_def fenced_active_usage_reservation_def Let_def sql_insert_def
    touch_task_def write_status_def replace_changed_files_def
  by (auto intro!: kept_andthen kept_fenced kept_transact split: option.split)

lemma kept_run_update:
  assumes "\<And>r. same_holder r (f r)"
  shows "leases_kept s (snd (fenced_run_update rid ow ep f s))"
  unfolding fenced_run_update_def atomic_fenced_update_def
  by (auto intro!: kept_andthen kept_update_run assms split: option.split)

lemma kept_run_calls:
  "leases_kept s (snd (heartbeat_durable_lease e rid ow ep n s))"
  "leases_kept s (snd (set_repository_base_sha e rid hd' ow ep s))"
  "leases_kept s (snd (accept_checkpoint e rid cn d at ow ep s))"
  "leases_kept s (snd (record_external_operation e ok k d rid t' ow ep s))"
  "leases_kept s (snd (reconcile_external_operation e oid xid res rid ow ep s))"
  unfolding heartbeat_durable_lease_def set_repository_base_sha_def
    accept_checkpoint_def insert_checkpoint_def record_external_operation_def
    record_external_operation_txn_def reconcile_external_operation_def Let_def sql_insert_def
  by (auto intro!: kept_andthen kept_transact kept_update_run
      simp: same_holder_def split: option.split sum.split)

lemma kept_run_field_calls:
  "leases_kept s (snd (set_planner_handoff_digest e rid d ow ep s))"
  "leases_kept s (snd (set_coder_product_diff_digest e rid d ow ep s))"
  "leases_kept s (snd (set_reviewer_handoff_digest e rid d ow ep s))"
  "leases_kept s (snd (set_role_attempt e rid ro n ow ep s))"
  "leases_kept s (snd (set_recovery_classification e rid d ow ep s))"
  "leases_kept s (snd (set_run_validation_result e rid cm x d ow ep s))"
  "leases_kept s (snd (set_worktree_identity e rid cm d ow ep s))"
  "leases_kept s (snd (set_authority_identity e rid cm d ow ep s))"
  "leases_kept s (snd (set_partial_coder_diff_digest e rid d ow ep s))"
  "leases_kept s (snd (set_checkpoint_db_path e rid d ow ep s))"
  unfolding set_planner_handoff_digest_def set_coder_product_diff_digest_def
    set_reviewer_handoff_digest_def set_role_attempt_def set_recovery_classification_def
    set_run_validation_result_def set_worktree_identity_def set_authority_identity_def
    set_partial_coder_diff_digest_def set_checkpoint_db_path_def
  by (rule kept_run_update, simp add: same_holder_def)+

interpretation holding: lease_relation leases_kept tid for tid
proof unfold_locales
  fix s t u c e rid ow ep
  show "leases_kept s s" by simp
  show "leases_kept s t \<Longrightarrow> leases_kept t u \<Longrightarrow> leases_kept s u" by (rule leases_kept_trans)
  show "about_task tid c \<Longrightarrow> leases_kept s (snd (run_fenced e rid ow ep c s))"
    by (cases c) (simp_all add: kept_task_calls kept_run_calls kept_run_field_calls)
qed


end
