(* ===== verification/Durable_Scenarios.thy ===== *)
theory Durable_Scenarios
  imports Service_Scenarios Durable_Laws
begin

text \<open>
  Concrete hosts and databases for the witnesses of the durable service: one opencode task in
  mode single, an executor that reads the task, reports an event and returns, and the databases
  after a run that raised, that died inside its executor, and that died after its validation.
\<close>

definition ds_config :: durable_config where
  "ds_config = \<lparr>dc_expiry_ms = 1000, dc_heartbeat_window_ms = 100,
     dc_authority_sha = Some ''au'', dc_planning_sha = Some ''pl''\<rparr>"

definition ds_result :: executor_result where
  "ds_result = \<lparr>er_success = True, er_validation_exit_code = 0,
     er_validation_command_id = ''git_diff_check'', er_validation_output_digest = ''out'',
     er_validation_output_summary = '''', er_changed_files = [], er_error = '''',
     er_execution_id = ''x'', er_failure_classification = ''''\<rparr>"

definition ds_event :: executor_event where
  "ds_event = \<lparr>ee_type = ''EXECUTOR_STARTED'', ee_title = ''started'', ee_description = '''',
     ee_raw_log = '''', ee_metadata = JObj []\<rparr>"

definition ds_executor :: "executor_result outcome \<Rightarrow> run_executor" where
  "ds_executor r = \<lparr>ex_prepare = (\<lambda>tid root. Done (Inr ''/wt'')),
     ex_role = (\<lambda>wt tid. Call (GetTask tid) (\<lambda>_. Call (EmitEvent ds_event) (\<lambda>_. Done r))),
     ex_execute = (\<lambda>tid root. Done r)\<rparr>"

definition ds_host :: "executor_result outcome \<Rightarrow> int \<Rightarrow> durable_host" where
  "ds_host r code = \<lparr>dh_kwargs = (\<lambda>_. Inr ()), dh_create = (\<lambda>_. Inr (ds_executor r)),
     dh_reconstruct = (\<lambda>wt base x. Inr wt), dh_exists = (\<lambda>_ _. True), dh_head = (\<lambda>_ _. ''head''),
     dh_changes = (\<lambda>_ _. Inr []), dh_validate = (\<lambda>_ _. Some (code, ''out'')),
     dh_checkpoint_path = (\<lambda>rid. Inr ('''' @ rid))\<rparr>"

definition process_death :: store_error where
  "process_death = PyError ''_CrashSimulated'' ''simulated_crash_after:PRE_PLANNER''"

definition ds_queued :: db where
  "ds_queued = run_calls [OpenControl, StoreCall (CreateTask (wenv 1 0) (wtask ''t'' ''k''))] empty_db"

lemma system_ds: "system ds_queued"
proof -
  have "control_schema ds_queued" by code_simp
  moreover have "reachable ds_queued"
    unfolding ds_queued_def by (intro reachable_run reachable.new_file)
  ultimately show ?thesis by (simp add: system_def)
qed

text \<open>The run; the run whose executor's arguments cannot be resolved.\<close>

definition ds_run :: "durable_host \<Rightarrow> string option \<Rightarrow> execution_outcome step" where
  "ds_run h crash = execute_durable_single (wenv 10 0) ds_config h crash w_task_id ''/root'' ''A'' ds_queued"

definition ds_broken :: durable_host where
  "ds_broken = (ds_host (Inr ds_result) 0)\<lparr>dh_kwargs := (\<lambda>_. Inl (TaskStoreError ''no_profile''))\<rparr>"

definition interrupted_after :: "execution_outcome step \<Rightarrow> db" where
  "interrupted_after r = snd (reconcile_expired_runs (wenv 500 9000) 9000 (snd r))"

definition ds_resume :: "durable_host \<Rightarrow> db \<Rightarrow> execution_outcome step" where
  "ds_resume h s = resume_single (wenv 600 9000) ds_config h None w_task_id '''' ''B'' None None s"

lemma system_ds_run: "system (snd (ds_run h crash))"
  unfolding ds_run_def by (rule acts_system [OF durable.R_execute_durable system_ds])

lemma system_interrupted: "system (interrupted_after (ds_run h crash))"
  unfolding interrupted_after_def by (rule acts_system [OF acts_reconcile system_ds_run])

end
