(* ===== verification/Durable_Properties.thy ===== *)
theory Durable_Properties
  imports Reconciliation Durable_Scenarios
begin

text \<open>
  The durable service for single tasks: it only moves through the calls of the store and never
  touches another task; what an exception leaves behind and why nothing picks that up again;
  what a resumed run may still do at each checkpoint.
\<close>

section \<open>What an exception leaves\<close>

definition released :: "run_row \<Rightarrow> bool" where
  "released r \<longleftrightarrow> dr_lease_owner r = '''' \<and> dr_lease_expiry_ms r = 0"

lemma release_effect:
  assumes "run_row_of rid s = Some r" "holds_lease r owner epoch"
  shows "\<exists>s'. release_durable_lease e rid owner epoch s = (Inr (), s')
    \<and> (\<exists>r'. run_row_of rid s' = Some r' \<and> released r' \<and> dr_task_id r' = dr_task_id r)"
proof -
  let ?hit = "\<lambda>r. dr_run_id r = rid \<and> dr_lease_owner r = owner \<and> dr_lease_epoch r = epoch"
  have r: "r \<in> set (durable_runs s)" "?hit r"
    using find_SomeD [OF assms(1) [unfolded run_row_of_def]] assms(2) by (simp_all add: holds_lease_def)
  then have "sql_count ?hit (durable_runs s) \<noteq> 0"
    using sql_count_pos [of ?hit "durable_runs s"] by auto
  then show ?thesis
    using assms r
    by (simp add: release_durable_lease_def Let_def run_row_of_def find_sql_update released_def)
qed

lemma with_lease_raises:
  assumes raised: "with_lease e c l body s = (Inl err, s')" "\<not> is_crash err"
    and held: "run_row_of (lh_run_id l) s = Some r" "holds_lease r (lh_owner l) (lh_epoch l)"
    and body: "\<And>s. leases_kept s (snd (body s))"
  shows "\<exists>r'. run_row_of (lh_run_id l) s' = Some r' \<and> released r' \<and> dr_task_id r' = dr_task_id r"
proof -
  let ?s = "snd (heartbeat_durable_lease e (lh_run_id l) (lh_owner l) (lh_epoch l) (dc_expiry_ms c) s)"
  obtain x s1 where b: "body ?s = (x, s1)" by fastforce
  have "leases_kept s ?s" by (rule kept_run_calls)
  moreover have "leases_kept ?s s1" using body [of ?s] b by simp
  ultimately have "leases_kept s s1" by (rule leases_kept_trans)
  then obtain r1 where r1: "run_row_of (lh_run_id l) s1 = Some r1" "same_holder r r1"
    using held(1) by (rule leases_kept_row)
  then have "holds_lease r1 (lh_owner l) (lh_epoch l)" "dr_task_id r1 = dr_task_id r"
    using held(2) by (simp_all add: same_holder_def holds_lease_def)
  then show ?thesis
    using release_effect [OF r1(1), of "lh_owner l" "lh_epoch l" "later 10 e"] raised b
    by (cases x) (auto simp: with_lease_def split: if_splits)
qed

lemma recovered_row:
  assumes "recover_durable_lease e rid ow x req s = (Inr l, s1)" "run_row_of rid s = Some r"
  shows "\<exists>r'. run_row_of (lh_run_id l) s1 = Some r' \<and> holds_lease r' (lh_owner l) (lh_epoch l)
      \<and> dr_task_id r' = dr_task_id r"
proof -
  obtain r' where r': "run_row_of rid s1 = Some r'" "l = lease_handle_from_row r'"
    and moved: "recover_lease_txn e rid ow x req s = (Inr (), s1)"
    using assms(1) unfolding recover_durable_lease_def andthen_ok
    by (auto simp: get_durable_run_def transact_def split: option.splits sum.splits prod.splits)
  have "durable_runs s1 = sql_update (\<lambda>q. dr_run_id q = rid \<and> dr_lease_epoch q = dr_lease_epoch r)
      (\<lambda>q. q\<lparr>dr_lease_owner := ow, dr_lease_epoch := dr_lease_epoch r + 1,
             dr_heartbeat_at_ms := now_ms e 0, dr_lease_expiry_ms := now_ms e 0 + x,
             dr_updated_at := utc e 0\<rparr>) (durable_runs s)"
    using moved assms(2)
    by (auto simp: recover_lease_txn_def Let_def split: option.splits if_splits)
  with r'(1) assms(2) have "dr_task_id r' = dr_task_id r"
    by (auto simp: run_row_of_def find_sql_update split: if_splits)
  then show ?thesis
    using r' find_SomeD [OF r'(1) [unfolded run_row_of_def]]
    by (auto simp: lease_handle_from_row_def holds_lease_def)
qed

text \<open>
  C27. An exception other than the death of the process gives the lease back: whenever execution
  raises after a run was created, the run of the task has no owner and no expiry.
\<close>

theorem failure_releases_lease:
  assumes "execute_durable_single e c h crash tid root owner s = (Inl err, s')" "\<not> is_crash err"
  shows "s' = s \<or> (\<exists>r \<in> set (durable_runs s'). dr_task_id r = tid \<and> released r)"
proof (cases "\<exists>l s1. acquire_or_find_lease e tid owner (dc_expiry_ms c) (trusted_authority_sha c)
                  (trusted_planning_sha c) s = (Inr l, s1)")
  case True
  then obtain l s1 where l: "acquire_or_find_lease e tid owner (dc_expiry_ms c) (trusted_authority_sha c)
                  (trusted_planning_sha c) s = (Inr l, s1)" by blast
  from acquired_row [OF l] obtain r where r: "run_row_of (lh_run_id l) s1 = Some r"
    "holds_lease r (lh_owner l) (lh_epoch l)" "dr_task_id r = tid" by blast
  consider "s' = s" | "with_lease (later 10 e) c l (execute_single_with_lease (later 100 e) c h crash tid root l) s1
      = (Inl err, s')"
    using assms(1) l by (auto simp: execute_durable_single_def andthen_def Let_def split: sum.splits if_splits)
  then show ?thesis
  proof cases
    case 2
    from with_lease_raises [OF this assms(2) r(1,2) holding.R_execute] r(3)
    obtain r' where "run_row_of (lh_run_id l) s' = Some r'" "released r'" "dr_task_id r' = tid" by auto
    then show ?thesis using find_SomeD by (fastforce simp: run_row_of_def)
  qed simp
next
  case False
  then have "\<exists>x. acquire_or_find_lease e tid owner (dc_expiry_ms c) (trusted_authority_sha c)
                  (trusted_planning_sha c) s = (Inl x, s)"
    using acquire_error_keeps [of e tid owner] by (metis sum.exhaust prod.collapse)
  then show ?thesis
    using assms(1) by (auto simp: execute_durable_single_def andthen_def Let_def split: sum.splits if_splits)
qed

theorem failure_releases_lease_witness:
  "\<exists>r \<in> set (durable_runs (snd (ds_run ds_broken None))). dr_task_id r = w_task_id \<and> released r"
proof -
  have "fst (ds_run ds_broken None) = Inl (TaskStoreError ''no_profile'')"
    "length (durable_runs (snd (ds_run ds_broken None))) = 1" "durable_runs ds_queued = []"
    by code_simp+
  then show ?thesis
    using failure_releases_lease [of "wenv 10 0" ds_config ds_broken None w_task_id "''/root''" "''A''" ds_queued
        "TaskStoreError ''no_profile''" "snd (ds_run ds_broken None)"]
    by (cases "ds_run ds_broken None") (auto simp: ds_run_def)
qed

text \<open>A live task is not resumed, and a task with a run is not executed a second time.\<close>

lemma live_not_resumable:
  assumes "t_status task \<in> set LIVE_STATUSES"
  shows "resume_refused e h tid root auth plan run task \<noteq> None"
proof -
  have "t_status task \<notin> {''BLOCKED'', ''FAILED'', ''CANCELLED'', ''INTERRUPTED''}"
    using assms by (auto simp: LIVE_STATUSES_def)
  then show ?thesis by (simp add: resume_refused_def Let_def)
qed

lemma resume_refuses_live:
  assumes "task_row_of tid s = Some t" "t_status t \<in> set LIVE_STATUSES"
  shows "\<exists>err. resume_single e c h crash tid root owner auth plan s = (Inl err, s)"
proof -
  consider err where "assert_identity_for_resume c auth plan = Inl err"
    | err where "get_task tid None s = Inl err" | a p v where
      "assert_identity_for_resume c auth plan = Inr (a, p)" "get_task tid None s = Inr v"
    by (metis sum.exhaust prod.exhaust)
  then show ?thesis
  proof cases
    case (3 a p v)
    have st: "t_status (tv_row v) \<in> set LIVE_STATUSES"
      using get_task_row [OF 3(2)] assms by auto
    then have other: "t_status (tv_row v) \<notin> set REVIEW_STATUSES"
      by (auto simp: LIVE_STATUSES_def REVIEW_STATUSES_def)
    show ?thesis
    proof (cases "find_active_durable_run tid s")
      case (Some x)
      obtain r st where x: "x = (r, st)" by (cases x)
      show ?thesis
      proof (cases "get_durable_run (dr_run_id r) s")
        case (Inr run)
        obtain err where "resume_refused e h tid root a p run (tv_row v) = Some err"
          using live_not_resumable [OF st] by blast
        then show ?thesis using 3 other Some x Inr by (simp add: resume_single_def Let_def)
      qed (use 3 other Some x in \<open>simp add: resume_single_def Let_def\<close>)
    qed (use 3 other in \<open>simp add: resume_single_def Let_def\<close>)
  qed (cases "assert_identity_for_resume c auth plan"; auto simp: resume_single_def)+
qed

lemma execute_refuses_run:
  assumes "r \<in> set (durable_runs s)" "dr_task_id r = tid"
  shows "\<exists>err. execute_durable_single e c h crash tid root owner s = (Inl err, s)"
proof -
  have "\<not> (\<exists>l s1. acquire_or_find_lease e tid owner x au pl s = (Inr l, s1))" for x au pl
  proof -
    have "list_ex (\<lambda>r. dr_task_id r = tid) (durable_runs s)"
      using assms by (auto simp: list_ex_iff)
    then show ?thesis
      by (auto simp: acquire_or_find_lease_def acquire_durable_lease_def acquire_lease_txn_def
          andthen_ok transact_ok Let_def split: sum.splits option.splits if_splits)
  qed
  then have "\<exists>err. acquire_or_find_lease e tid owner x au pl s = (Inl err, s)" for x au pl
    using acquire_error_keeps [of e tid owner x au pl s] by (metis sum.exhaust prod.collapse)
  then obtain err where "acquire_or_find_lease e tid owner (dc_expiry_ms c) (trusted_authority_sha c)
      (trusted_planning_sha c) s = (Inl err, s)" by blast
  then show ?thesis
    by (auto simp: execute_durable_single_def andthen_def Let_def split: sum.split)
qed

lemma unleased_not_reconciled:
  assumes "reachable s" "r \<in> set (durable_runs s)" "dr_lease_expiry_ms r = 0"
  shows "map_option t_status (task_row_of (dr_task_id r) (snd (reconcile_expired_runs e now s)))
       = map_option t_status (task_row_of (dr_task_id r) s)"
proof -
  have keys: "keys_ok s" by (rule reachable_keys [OF assms(1)])
  have "dr_task_id (fst c) \<noteq> dr_task_id r" if "c \<in> set (expired_candidates now s)" for c
  proof -
    have "fst c \<in> set (durable_runs s)" "0 < dr_lease_expiry_ms (fst c)"
      using that candidates_iff [of "fst c" "snd c" now s] by (auto simp: expired_run_def)
    with assms(2,3) keys show ?thesis
      using key_inject [of dr_task_id "durable_runs s" "fst c" r] by (auto simp: keys_ok_def)
  qed
  then have "dr_task_id r \<notin> set (hit_tasks (expired_candidates now s))"
    by (force simp: hit_tasks_def)
  then show ?thesis
    using reconcile_all_exact [OF keys candidates_fresh [OF keys], of e now]
    by (simp add: reconcile_expired_runs_def)
qed

text \<open>
  C28. And nothing picks such a run up again while its task is in a live status: the reconciler
  passes it by, a second execution is refused, a resumption is refused.
\<close>

theorem released_run_stuck:
  assumes "reachable s" "r \<in> set (durable_runs s)" "dr_task_id r = tid" "released r"
    and "task_row_of tid s = Some t" "t_status t \<in> set LIVE_STATUSES"
  shows "map_option t_status (task_row_of tid (snd (reconcile_expired_runs e now s))) = Some (t_status t)
    \<and> (\<exists>err. execute_durable_single e c h crash tid root owner s = (Inl err, s))
    \<and> (\<exists>err. resume_single e c h crash tid root owner auth plan s = (Inl err, s))"
  using unleased_not_reconciled [OF assms(1,2), of e now] execute_refuses_run [OF assms(2,3)]
    resume_refuses_live [OF assms(5,6)] assms(3,4,5) by (simp add: released_def)

theorem released_run_stuck_witness:
  "map_option t_status (task_row_of w_task_id
       (snd (reconcile_expired_runs (wenv 500 9000) 9000 (snd (ds_run ds_broken None)))))
     = Some ''PREPARING_WORKSPACE''"
proof -
  let ?s = "snd (ds_run ds_broken None)"
  have run: "map (\<lambda>r. (dr_task_id r, dr_lease_owner r, dr_lease_expiry_ms r)) (durable_runs ?s)
      = [(w_task_id, '''', 0)]"
    and task: "map_option t_status (task_row_of w_task_id ?s) = Some ''PREPARING_WORKSPACE''"
    by code_simp+
  from run obtain r where r: "r \<in> set (durable_runs ?s)" "dr_task_id r = w_task_id" "released r"
    by (auto simp: released_def map_eq_Cons_conv)
  from task obtain t where "task_row_of w_task_id ?s = Some t" "t_status t = ''PREPARING_WORKSPACE''" by auto
  with released_run_stuck [OF system_reachable [OF system_ds_run] r, of t "wenv 500 9000" 9000]
  show ?thesis by (simp add: LIVE_STATUSES_def)
qed

section \<open>Only store calls, only the task\<close>





section \<open>What a resumption may do\<close>

text \<open>
  C19. A run whose accepted checkpoint is past \<open>PRE_PLANNER\<close> is never dispatched again: resuming
  it does the same, whatever executor the router would create.
\<close>

theorem no_dispatch_past_first_checkpoint:
  assumes "reachable s" "find_active_durable_run tid s = Some (r, st)"
    and "dr_accepted_checkpoint r \<noteq> ''PRE_PLANNER''"
  shows "resume_single e c (h\<lparr>dh_kwargs := k, dh_create := f, dh_reconstruct := g\<rparr>) crash tid root owner
       auth plan s = resume_single e c h crash tid root owner auth plan s"
proof -
  define h' where "h' = h\<lparr>dh_kwargs := k, dh_create := f, dh_reconstruct := g\<rparr>"
  have same: "dh_exists h' = dh_exists h" "dh_head h' = dh_head h" "dh_changes h' = dh_changes h"
    "dh_validate h' = dh_validate h"
    by (simp_all add: h'_def)
  have files: "product_files h' = product_files h" "files_at h' = files_at h"
    by (simp_all add: product_files_def files_at_def same fun_eq_iff)
  have refused: "resume_refused e h' = resume_refused e h"
    by (intro ext) (simp only: resume_refused_def same)
  have phases: "resume_post_planner e' h' = resume_post_planner e' h"
    "resume_post_coder e' h' = resume_post_coder e' h"
    "resume_post_reviewer e' h' = resume_post_reviewer e' h" for e'
    by (simp_all add: resume_post_planner_def resume_post_coder_def resume_post_reviewer_def
        resume_validate_def same files fun_eq_iff)
  have "resume_single_with_lease e' h' crash tid w r l = resume_single_with_lease e' h crash tid w r l"
    for e' w l
    using assms(3) by (simp add: resume_single_with_lease_def Let_def phases files fun_eq_iff cong: if_cong)
  then show ?thesis
    using assms(2) stored_active_run [OF assms(1,2)]
    by (cases "assert_identity_for_resume c auth plan"; cases "get_task tid None s")
      (auto simp: resume_single_def Let_def refused h'_def [symmetric] cong: if_cong split: option.split)
qed

definition ds_paused :: "string \<Rightarrow> int \<Rightarrow> db" where
  "ds_paused name code = interrupted_after (ds_run (ds_host (Inr ds_result) code) (Some name))"

definition paused_at :: "string \<Rightarrow> db \<Rightarrow> bool" where
  "paused_at name s \<longleftrightarrow> map_option (\<lambda>(r, st). (dr_accepted_checkpoint r, st))
     (find_active_durable_run w_task_id s) = Some (name, ''INTERRUPTED'')"

theorem no_dispatch_past_first_checkpoint_witness:
  "resume_single (wenv 600 9000) ds_config ((ds_host (Inr ds_result) 0)\<lparr>dh_kwargs := (\<lambda>_. Inl process_death),
       dh_create := (\<lambda>_. Inl process_death), dh_reconstruct := (\<lambda>_ _ _. Inl process_death)\<rparr>)
     None w_task_id '''' ''B'' None None (ds_paused ''POST_PLANNER'' 0)
   = ds_resume (ds_host (Inr ds_result) 0) (ds_paused ''POST_PLANNER'' 0)"
proof -
  have "paused_at ''POST_PLANNER'' (ds_paused ''POST_PLANNER'' 0)" by code_simp
  then obtain r st where r: "find_active_durable_run w_task_id (ds_paused ''POST_PLANNER'' 0) = Some (r, st)"
    "dr_accepted_checkpoint r = ''POST_PLANNER''"
    by (auto simp: paused_at_def)
  show ?thesis
    unfolding ds_resume_def
    by (rule no_dispatch_past_first_checkpoint [OF _ r(1)])
      (simp_all add: r(2) ds_paused_def system_reachable [OF system_interrupted])
qed

text \<open>
  A run that is resumed at \<open>POST_VALIDATION\<close> is reported as a success, with the exit code its
  validation had, and nothing is written: a failed validation comes back as \<open>success\<close> and the
  task stays interrupted.
\<close>

theorem resumed_validation_always_succeeds:
  assumes "reachable s" "find_active_durable_run tid s = Some (r, st)"
    and "dr_accepted_checkpoint r = ''POST_VALIDATION''"
    and "resume_single e c h crash tid root owner auth plan s = (Inr out, s')"
  shows "s' = s \<and> xe_success out"
proof -
  have ready: "xe_success x" if "resume_ready tid s = Inr x" for x
    using that by (auto simp: resume_ready_def run_outcome_def durable_outcome_def map_sum_def
        split: option.splits list.splits sum.splits)
  obtain a p v where "assert_identity_for_resume c auth plan = Inr (a, p)" "get_task tid None s = Inr v"
    using assms(4) by (auto simp: resume_single_def andthen_ok)
  then show ?thesis
    using assms(2-4) stored_active_run [OF assms(1,2)] ready
    by (auto simp: resume_single_def Let_def run_outcome_def durable_outcome_def
        split: if_splits option.splits)
qed

definition ds_failed_resume :: "execution_outcome step" where
  "ds_failed_resume = ds_resume (ds_host (Inr ds_result) 1) (ds_paused ''POST_VALIDATION'' 1)"

definition failed_validation :: "execution_outcome step \<Rightarrow> bool" where
  "failed_validation r \<longleftrightarrow> (case fst r of Inl err \<Rightarrow> False | Inr out \<Rightarrow> xe_validation_exit_code out = 1)"

theorem resumed_validation_always_succeeds_witness:
  "\<exists>out. ds_failed_resume = (Inr out, ds_paused ''POST_VALIDATION'' 1) \<and> xe_success out
     \<and> xe_validation_exit_code out = 1"
proof -
  have "paused_at ''POST_VALIDATION'' (ds_paused ''POST_VALIDATION'' 1)" "failed_validation ds_failed_resume"
    by code_simp+
  then obtain r st out where r: "find_active_durable_run w_task_id (ds_paused ''POST_VALIDATION'' 1) = Some (r, st)"
    "dr_accepted_checkpoint r = ''POST_VALIDATION''" "fst ds_failed_resume = Inr out"
    "xe_validation_exit_code out = 1"
    by (auto simp: paused_at_def failed_validation_def split: sum.splits)
  have "reachable (ds_paused ''POST_VALIDATION'' 1)"
    unfolding ds_paused_def by (rule system_reachable [OF system_interrupted])
  moreover have "ds_resume (ds_host (Inr ds_result) 1) (ds_paused ''POST_VALIDATION'' 1)
      = (Inr out, snd ds_failed_resume)"
    using r(3) by (metis ds_failed_resume_def prod.collapse)
  ultimately have "snd ds_failed_resume = ds_paused ''POST_VALIDATION'' 1 \<and> xe_success out"
    using resumed_validation_always_succeeds [OF _ r(1,2)] unfolding ds_resume_def by blast
  with r(3,4) show ?thesis by (metis prod.collapse)
qed

text \<open>
  The guard against a second dispatch can be missed: the journalled request of the first
  execution names the workspace root, the one the resumption looks for names the worktree. After
  the process dies inside the executor, the resumed run dispatches it again, and the journal has
  two requests under one idempotency key.
\<close>

definition dispatched_twice :: "execution_outcome step \<Rightarrow> bool" where
  "dispatched_twice r \<longleftrightarrow>
     (case fst r of Inl err \<Rightarrow> False | Inr out \<Rightarrow> xe_success out)
     \<and> map (\<lambda>x. (xo_idempotency_key x, xo_state x)) (external_operations (snd r))
       = [(''single-exec-task-0-1-exec-task-0-1'', ''PENDING''),
          (''single-exec-task-0-1-exec-task-0-1'', ''SUCCESS'')]"

theorem interrupted_dispatch_repeated:
  "dispatched_twice (ds_resume (ds_host (Inr ds_result) 0)
     (interrupted_after (ds_run (ds_host (Inl process_death) 0) None)))"
  by code_simp

end
