(* ===== verification/Publication.thy ===== *)
theory Publication
  imports Autonomy Control_Records
begin

text \<open>
  \<open>PublicationController\<close> (publication_controller.py): the draft pull request for a validated
  task. The controller owns no state; it runs commands through its runner and records its
  progress in the control store. The runner is an argument: what a command answers may depend
  on every command before it, so the model carries the log of commands, oldest first.
\<close>

section \<open>Commands\<close>

record command_result =
  cr_code :: int
  cr_stdout :: string
  cr_stderr :: string

text \<open>A command: its words and its working directory.\<close>

type_synonym command = "string list \<times> string"

text \<open>
  The host: the runner, \<open>Path(text).resolve()\<close> and \<open>is_dir()\<close> after the commands so far, and
  \<open>json.loads\<close> (\<open>None\<close> is a \<open>JSONDecodeError\<close>).
\<close>

record publication_host =
  ph_run :: "command list \<Rightarrow> command \<Rightarrow> command_result"
  ph_resolve :: "command list \<Rightarrow> string \<Rightarrow> string"
  ph_is_dir :: "command list \<Rightarrow> string \<Rightarrow> bool"
  ph_loads :: "string \<Rightarrow> json option"

text \<open>What the controller changes: the log of commands and the database.\<close>

type_synonym publisher = "command list \<times> db"

definition pub_db :: "'a step \<Rightarrow> command list \<Rightarrow> 'a outcome \<times> publisher" where
  "pub_db r log = (fst r, (log, snd r))"

definition run_checked ::
    "publication_host \<Rightarrow> string \<Rightarrow> string \<Rightarrow> string \<Rightarrow> string list \<Rightarrow> publisher
     \<Rightarrow> command_result outcome \<times> publisher" where
  "run_checked h prog failure cwd args p =
     (let c = (prog # args, cwd); r = ph_run h (fst p) c; p' = (fst p @ [c], snd p) in
      if cr_code r \<noteq> 0 then
        (Inl (TaskStoreError (failure @ '':'' @ hd args @ '':'' @ take 200 (py_strip (cr_stderr r)))), p')
      else (Inr r, p'))"

definition git :: "publication_host \<Rightarrow> string \<Rightarrow> string list \<Rightarrow> publisher \<Rightarrow> command_result outcome \<times> publisher"
where
  "git h cwd args p = run_checked h ''git'' ''git_command_failed'' cwd args p"

definition gh :: "publication_host \<Rightarrow> string \<Rightarrow> string list \<Rightarrow> publisher \<Rightarrow> command_result outcome \<times> publisher"
where
  "gh h cwd args p = run_checked h ''gh'' ''github_command_failed'' cwd args p"

section \<open>Text\<close>

text \<open>The separators of \<open>str.splitlines\<close> below code point 256.\<close>

definition is_line_break :: "char \<Rightarrow> bool" where
  "is_line_break c = (let n = (of_char c :: int) in
     (10 \<le> n \<and> n \<le> 13) \<or> (28 \<le> n \<and> n \<le> 30) \<or> n = 133)"

fun splitlines_from :: "string \<Rightarrow> string \<Rightarrow> string list" where
  "splitlines_from acc [] = (if acc = [] then [] else [rev acc])"
| "splitlines_from acc (c # cs) =
     (if is_line_break c then
        rev acc # (if c = CHR 0x0D \<and> cs \<noteq> [] \<and> hd cs = CHR 0x0A
                   then splitlines_from [] (tl cs) else splitlines_from [] cs)
      else splitlines_from (c # acc) cs)"

definition splitlines :: "string \<Rightarrow> string list" where
  "splitlines s = splitlines_from [] s"

definition starts_with :: "string \<Rightarrow> string \<Rightarrow> bool" where
  "starts_with p s \<longleftrightarrow> take (length p) s = p"

text \<open>\<open>s.split(sep, 1)[1]\<close> for a \<open>sep\<close> that occurs in \<open>s\<close>.\<close>

fun after_first :: "string \<Rightarrow> string \<Rightarrow> string" where
  "after_first sep [] = []"
| "after_first sep (c # s) =
     (if starts_with sep (c # s) then drop (length sep) (c # s) else after_first sep s)"

text \<open>\<open>s.strip(c)\<close> and \<open>s.rstrip(c)\<close> for one character.\<close>

definition strip_char :: "char \<Rightarrow> string \<Rightarrow> string" where
  "strip_char x s = rev (dropWhile (\<lambda>c. c = x) (rev (dropWhile (\<lambda>c. c = x) s)))"

definition rstrip_char :: "char \<Rightarrow> string \<Rightarrow> string" where
  "rstrip_char x s = rev (dropWhile (\<lambda>c. c = x) (rev s))"

section \<open>Paths\<close>

text \<open>The pieces between slashes.\<close>

fun split_slash :: "string \<Rightarrow> string list" where
  "split_slash [] = [[]]"
| "split_slash (c # s) =
     (if c = CHR ''/'' then [] # split_slash s
      else case split_slash s of [] \<Rightarrow> [[c]] | w # ws \<Rightarrow> (c # w) # ws)"

text \<open>\<open>PurePosixPath(text)\<close> of a relative path: its parts, and \<open>as_posix()\<close>.\<close>

definition path_parts :: "string \<Rightarrow> string list" where
  "path_parts s = filter (\<lambda>w. w \<noteq> [] \<and> w \<noteq> ''.'') (split_slash s)"

definition as_posix :: "string list \<Rightarrow> string" where
  "as_posix ws = (if ws = [] then ''.'' else str_join ''/'' ws)"

definition safe_path :: "string \<Rightarrow> string outcome" where
  "safe_path value =
     (let normalized = py_replace_char (CHR 0x5C) (CHR ''/'') (py_strip value);
          parts = path_parts normalized in
      if normalized = [] \<or> hd normalized = CHR ''/'' \<or> ''..'' \<in> set parts
         \<or> starts_with ''.git/'' normalized
      then Inl (TaskStoreError (''unsafe_publication_path:'' @ value))
      else Inr (as_posix parts))"

definition path_allowed :: "string \<Rightarrow> string list \<Rightarrow> bool" where
  "path_allowed path allowed =
     list_ex (\<lambda>root. path = root \<or> starts_with (rstrip_char (CHR ''/'') root @ ''/'') path) allowed"

text \<open>\<open>re.sub(r"[^a-z0-9-]+", "-", value.lower()).strip("-")[:80]\<close>\<close>

definition slug_char :: "char \<Rightarrow> bool" where
  "slug_char c = (let n = (of_char c :: int) in
     (97 \<le> n \<and> n \<le> 122) \<or> (48 \<le> n \<and> n \<le> 57) \<or> c = CHR ''-'')"

function slug_runs :: "string \<Rightarrow> string" where
  "slug_runs [] = []"
| "slug_runs (c # cs) =
     (if slug_char c then c # slug_runs cs
      else CHR ''-'' # slug_runs (dropWhile (\<lambda>x. \<not> slug_char x) cs))"
  by pat_completeness auto
termination by (relation "measure length") (auto simp: le_imp_less_Suc length_dropWhile_le)

definition safe_slug :: "string \<Rightarrow> string" where
  "safe_slug value = take 80 (strip_char (CHR ''-'') (slug_runs (py_lower value)))"

definition publication_branch :: "string \<Rightarrow> string" where
  "publication_branch tid = ''agent/task-'' @ safe_slug tid"

text \<open>\<open>tuple(sorted({self._safe_path(p) for p in paths}))\<close>: the first unsafe path raises.\<close>

fun safe_paths :: "string list \<Rightarrow> string list outcome" where
  "safe_paths [] = Inr []"
| "safe_paths (p # ps) =
     bind_outcome (safe_path p) (\<lambda>x. map_sum id (Cons x) (safe_paths ps))"

definition sorted_set :: "string list \<Rightarrow> string list" where
  "sorted_set xs = sort (dict_fromkeys xs)"

section \<open>Reading the worktree\<close>

text \<open>One line of \<open>git status --porcelain=v1\<close>: the path after the rename arrow, if any.\<close>

definition status_path :: "string \<Rightarrow> string" where
  "status_path line =
     (let raw = drop 3 line; raw = (if py_in '' -> '' raw then after_first '' -> '' raw else raw) in
      py_replace_char (CHR 0x5C) (CHR ''/'') (strip_char (CHR 0x22) (py_strip raw)))"

definition changed_paths ::
    "publication_host \<Rightarrow> string \<Rightarrow> publisher \<Rightarrow> string list outcome \<times> publisher" where
  "changed_paths h ws p =
     andthen (git h ws [''status'', ''--porcelain=v1'', ''--untracked-files=all''] p) (\<lambda>r p1.
       (map_sum id sorted_set
          (safe_paths (map status_path
             (filter (\<lambda>line. 4 \<le> length line) (splitlines (cr_stdout r))))), p1))"

definition git_text ::
    "publication_host \<Rightarrow> string \<Rightarrow> string list \<Rightarrow> publisher \<Rightarrow> string outcome \<times> publisher" where
  "git_text h ws args p =
     andthen (git h ws args p) (\<lambda>r p1. (Inr (py_strip (cr_stdout r)), p1))"

definition assert_git_workspace ::
    "publication_host \<Rightarrow> string \<Rightarrow> workspace_view \<Rightarrow> publisher \<Rightarrow> unit outcome \<times> publisher" where
  "assert_git_workspace h ws meta p =
     andthen (git_text h ws [''rev-parse'', ''--show-toplevel''] p) (\<lambda>top p1.
     if ph_resolve h (fst p1) top \<noteq> ws then
       (Inl (TaskStoreError ''publication_workspace_root_mismatch''), p1)
     else
       andthen (git_text h ws [''rev-parse'', ''HEAD''] p1) (\<lambda>head p2.
       (if wv_worktree_head_sha meta \<noteq> '''' \<and> head \<noteq> wv_worktree_head_sha meta then
          Inl (TaskStoreError ''publication_workspace_head_drift'')
        else Inr (), p2)))"

definition evidence_paths :: "task_view \<Rightarrow> string list outcome" where
  "evidence_paths view =
     safe_paths (filter (\<lambda>x. py_strip x \<noteq> []) (map cf_path (tv_changed_files view)))"

section \<open>The pull request\<close>

definition pr_json :: "publication_host \<Rightarrow> string \<Rightarrow> json outcome" where
  "pr_json h text =
     (case ph_loads h (if text = '''' then ''null'' else text) of
        None \<Rightarrow> Inl (TaskStoreError ''publication_json_readback_invalid'')
      | Some v \<Rightarrow> Inr v)"

definition pr_list_args :: "string \<Rightarrow> string \<Rightarrow> string list" where
  "pr_list_args repository branch =
     [''pr'', ''list'', ''--repo'', repository, ''--head'', branch, ''--state'', ''open'',
      ''--json'', ''number,url,isDraft,headRefOid,baseRefName'', ''--limit'', ''1'']"

definition pr_create_args ::
    "string \<Rightarrow> string \<Rightarrow> string \<Rightarrow> string \<Rightarrow> string \<Rightarrow> string list" where
  "pr_create_args repository branch base title body =
     [''pr'', ''create'', ''--repo'', repository, ''--draft'', ''--head'', branch, ''--base'', base,
      ''--title'', take 240 title, ''--body'', body]"

text \<open>The first element of a non-empty list.\<close>

fun first_pr :: "json \<Rightarrow> json option" where
  "first_pr (JArr (v # vs)) = Some v"
| "first_pr _ = None"

definition list_pr ::
    "publication_host \<Rightarrow> string \<Rightarrow> string \<Rightarrow> string \<Rightarrow> publisher \<Rightarrow> json option outcome \<times> publisher" where
  "list_pr h ws repository branch p =
     andthen (gh h ws (pr_list_args repository branch) p) (\<lambda>r p1.
       (map_sum id first_pr (pr_json h (cr_stdout r)), p1))"

definition find_or_create_draft_pr ::
    "publication_host \<Rightarrow> string \<Rightarrow> string \<Rightarrow> string \<Rightarrow> string \<Rightarrow> string \<Rightarrow> string \<Rightarrow> publisher
     \<Rightarrow> payload outcome \<times> publisher" where
  "find_or_create_draft_pr h ws repository branch base title body p =
     andthen (list_pr h ws repository branch p) (\<lambda>existing p1.
     andthen
       (case existing of
          Some pr \<Rightarrow> (Inr pr, p1)
        | None \<Rightarrow>
            andthen (gh h ws (pr_create_args repository branch base title body) p1) (\<lambda>_ p2.
            andthen (list_pr h ws repository branch p2) (\<lambda>created p3.
            case created of
              None \<Rightarrow> (Inl (TaskStoreError ''publication_pr_readback_missing''), p3)
            | Some pr \<Rightarrow> (Inr pr, p3))))
       (\<lambda>pr p4.
        (bind_outcome (py_mapping pr) (\<lambda>kvs.
           if get_str kvs ''baseRefName'' '''' \<noteq> base then
             Inl (TaskStoreError ''publication_pr_base_mismatch'')
           else Inr kvs), p4)))"

text \<open>\<open>int(pr.get("number", 0))\<close>, with the class of its exception.\<close>

definition pr_number :: "payload \<Rightarrow> int outcome" where
  "pr_number kvs =
     (let v = get_value kvs ''number'' (JInt 0) in
      case py_int v of
        Some n \<Rightarrow> Inr n
      | None \<Rightarrow>
          (case v of
             JStr s \<Rightarrow> Inl (PyError ''ValueError''
                        (''invalid literal for int() with base 10: '' @ py_repr_string s))
           | _ \<Rightarrow> Inl (PyError ''TypeError''
                   (''int() argument must be a string, a bytes-like object or a real number, not ''
                      @ [CHR 0x27] @ py_type_name v @ [CHR 0x27]))))"

text \<open>A draft, or an exception.\<close>

definition require_draft :: "payload \<Rightarrow> unit outcome" where
  "require_draft kvs =
     (if py_truth (get_value kvs ''isDraft'' (JBool False)) then Inr ()
      else Inl (TaskStoreError ''publication_pr_not_draft''))"

definition default_body :: "string \<Rightarrow> string \<Rightarrow> string list \<Rightarrow> string" where
  "default_body tid digest paths =
     (let nl = [CHR 0x0A]; q = (\<lambda>x. [CHR 0x60] @ x @ [CHR 0x60]) in
      ''Automated Draft PR for validated task '' @ q tid @ ''.'' @ nl @ nl
      @ ''Request digest: '' @ q digest @ nl @ nl @ ''Changed paths:'' @ nl
      @ str_join nl (map (\<lambda>p. ''- '' @ q p) paths) @ nl @ nl
      @ ''This automation cannot mark ready or merge.'')"

text \<open>\<open>title.strip() or f"{task.title.splitlines()[0]}"\<close>\<close>

definition pr_title :: "string \<Rightarrow> task_row \<Rightarrow> string outcome" where
  "pr_title title task =
     (if py_strip title \<noteq> '''' then Inr (py_strip title)
      else case splitlines (t_title task) of
             [] \<Rightarrow> Inl (PyError ''IndexError'' ''list index out of range'')
           | l # _ \<Rightarrow> Inr l)"

definition pr_body :: "string \<Rightarrow> string \<Rightarrow> string \<Rightarrow> string list \<Rightarrow> string" where
  "pr_body body tid digest paths =
     (if py_strip body \<noteq> '''' then py_strip body else default_body tid digest paths)"

section \<open>Publishing\<close>

record publish_request =
  pq_window_id :: string
  pq_base_branch :: string
  pq_allowed_paths :: json
  pq_title :: string
  pq_body :: string

definition base_branch_ok :: "string \<Rightarrow> bool" where
  "base_branch_ok b \<longleftrightarrow> b \<noteq> ''HEAD'' \<and> matches_class ''._/-'' 1 200 b"

text \<open>An element without \<open>strip\<close> is an \<open>AttributeError\<close>.\<close>

fun path_texts :: "json list \<Rightarrow> string list outcome" where
  "path_texts [] = Inr []"
| "path_texts (JStr s # vs) =
     bind_outcome (safe_path s) (\<lambda>x. map_sum id (Cons x) (path_texts vs))"
| "path_texts (v # vs) =
     Inl (PyError ''AttributeError'' ([CHR 0x27] @ py_type_name v @ [CHR 0x27]
       @ '' object has no attribute '' @ [CHR 0x27] @ ''strip'' @ [CHR 0x27]))"

definition normalized_allowlist :: "json \<Rightarrow> string list outcome" where
  "normalized_allowlist v =
     (case v of
        JArr vs \<Rightarrow>
          bind_outcome (path_texts vs) (\<lambda>ps.
            if ps = [] then Inl (TaskStoreError ''publication_allowed_paths_required'')
            else Inr (sorted_set ps))
      | _ \<Rightarrow> Inl (TaskStoreError ''publication_allowed_paths_array_required''))"

definition publish_digest :: "env \<Rightarrow> string \<Rightarrow> task_row \<Rightarrow> publish_request \<Rightarrow> string list \<Rightarrow> string" where
  "publish_digest e tid task q allowed =
     sha256_json e (JObj
       [(''task_id'', JStr tid), (''repository'', JStr (t_repository task)),
        (''base_branch'', JStr (pq_base_branch q)), (''allowed_paths'', JArr (map JStr allowed)),
        (''title'', JStr (py_strip (pq_title q))), (''body'', JStr (py_strip (pq_body q)))])"

definition pub_input ::
    "task_row \<Rightarrow> publish_request \<Rightarrow> string \<Rightarrow> string \<Rightarrow> string \<Rightarrow> string \<Rightarrow> int \<Rightarrow> string \<Rightarrow> string
     \<Rightarrow> publication_input" where
  "pub_input task q branch digest status commit number url failure =
     \<lparr>pi_repository = t_repository task, pi_base_branch = pq_base_branch q, pi_branch = branch,
      pi_status = status, pi_request_digest = digest, pi_commit_sha = commit,
      pi_pr_number = number, pi_pr_url = url, pi_failure_classification = failure\<rparr>"

text \<open>The end of both ways to publish: a draft pull request, and the record of it.\<close>

definition complete_publication ::
    "env \<Rightarrow> string \<Rightarrow> task_row \<Rightarrow> publish_request \<Rightarrow> string \<Rightarrow> string \<Rightarrow> string \<Rightarrow> payload \<Rightarrow> publisher
     \<Rightarrow> publication_row outcome \<times> publisher" where
  "complete_publication e tid task q branch digest commit pr p =
     andthen (pr_number pr, p) (\<lambda>number p.
     pub_db (upsert_publication e tid
               (pub_input task q branch digest ''COMPLETE'' commit number
                  (get_str pr ''url'' '''') '''') (snd p)) (fst p))"

text \<open>The commit exists already: it is pushed again, and the pull request found or made.\<close>

definition resume_publication ::
    "env \<Rightarrow> publication_host \<Rightarrow> string \<Rightarrow> task_row \<Rightarrow> publish_request \<Rightarrow> string \<Rightarrow> string list
     \<Rightarrow> string \<Rightarrow> publication_row \<Rightarrow> publisher \<Rightarrow> publication_row outcome \<times> publisher" where
  "resume_publication e h tid task q ws allowed digest existing p =
     andthen (git_text h ws [''rev-parse'', ''HEAD''] p) (\<lambda>head p.
     if head \<noteq> pb_commit_sha existing then
       (Inl (TaskStoreError ''publication_committed_head_drift''), p)
     else
       andthen (git h ws [''push'', ''origin'', pb_branch existing] p) (\<lambda>_ p.
       andthen (pr_title (pq_title q) task, p) (\<lambda>title p.
       andthen (find_or_create_draft_pr h ws (t_repository task) (pb_branch existing)
                  (pq_base_branch q) title (pr_body (pq_body q) tid digest allowed) p) (\<lambda>pr p.
       andthen (require_draft pr, p) (\<lambda>_ p.
       complete_publication e tid task q (pb_branch existing) digest (pb_commit_sha existing) pr p)))))"

text \<open>The branch, the staged files, the commit; the result is the commit.\<close>

definition switch_branch ::
    "publication_host \<Rightarrow> string \<Rightarrow> string \<Rightarrow> string \<Rightarrow> publisher \<Rightarrow> unit outcome \<times> publisher" where
  "switch_branch h ws base branch p =
     andthen (git_text h ws [''branch'', ''--show-current''] p) (\<lambda>current p.
     if current = branch then (Inr (), p)
     else if current \<noteq> '''' \<and> current \<notin> {base, ''main'', ''planning''} then
       (Inl (TaskStoreError (''publication_unexpected_branch:'' @ current)), p)
     else andthen (git h ws [''switch'', ''-c'', branch] p) (\<lambda>_ p. (Inr (), p)))"

definition staged_paths :: "string \<Rightarrow> string list" where
  "staged_paths out =
     map (py_replace_char (CHR 0x5C) (CHR ''/''))
       (filter (\<lambda>l. l \<noteq> []) (map py_strip (splitlines out)))"

definition commit_changes ::
    "publication_host \<Rightarrow> string \<Rightarrow> string \<Rightarrow> string \<Rightarrow> string \<Rightarrow> string list \<Rightarrow> publisher
     \<Rightarrow> string outcome \<times> publisher" where
  "commit_changes h ws tid base branch actual p =
     andthen (switch_branch h ws base branch p) (\<lambda>_ p.
     andthen (git h ws ([''add'', ''--''] @ actual) p) (\<lambda>_ p.
     andthen (git h ws [''diff'', ''--cached'', ''--name-only''] p) (\<lambda>r p.
     if set (staged_paths (cr_stdout r)) \<noteq> set actual then
       (Inl (TaskStoreError ''publication_staged_scope_mismatch''), p)
     else
       andthen (git h ws [''commit'', ''-m'', ''feat: complete '' @ tid] p) (\<lambda>_ p.
       git_text h ws [''rev-parse'', ''HEAD''] p))))"

text \<open>The pull request of a pushed commit.\<close>

definition open_draft ::
    "env \<Rightarrow> publication_host \<Rightarrow> string \<Rightarrow> task_row \<Rightarrow> publish_request \<Rightarrow> string \<Rightarrow> string \<Rightarrow> string
     \<Rightarrow> string list \<Rightarrow> string \<Rightarrow> publisher \<Rightarrow> publication_row outcome \<times> publisher" where
  "open_draft e h tid task q ws branch digest actual commit p =
     andthen (pr_title (pq_title q) task, p) (\<lambda>title p.
     andthen (find_or_create_draft_pr h ws (t_repository task) branch (pq_base_branch q) title
                (pr_body (pq_body q) tid digest actual) p) (\<lambda>pr p.
     andthen (require_draft pr, p) (\<lambda>_ p.
     let oid = get_str pr ''headRefOid'' '''' in
     if oid \<noteq> '''' \<and> oid \<noteq> commit then
       (Inl (TaskStoreError ''publication_pr_head_mismatch''), p)
     else complete_publication e tid task q branch digest commit pr p)))"

text \<open>
  The body of the \<open>try\<close>; beside its outcome it leaves the record the handler writes from.
\<close>

definition try_publish ::
    "env \<Rightarrow> publication_host \<Rightarrow> string \<Rightarrow> task_row \<Rightarrow> publish_request \<Rightarrow> string \<Rightarrow> string \<Rightarrow> string
     \<Rightarrow> string list \<Rightarrow> publication_row \<Rightarrow> publisher
     \<Rightarrow> publication_row outcome \<times> (publication_row \<times> publisher)" where
  "try_publish e h tid task q ws branch digest actual rec p =
     (case commit_changes h ws tid (pq_base_branch q) branch actual p of
        (Inl err, p) \<Rightarrow> (Inl err, (rec, p))
      | (Inr commit, p) \<Rightarrow>
          (case pub_db (upsert_publication e tid
                  (pub_input task q branch digest ''COMMIT_CREATED'' commit 0 '''' '''') (snd p))
                  (fst p) of
             (Inl err, p) \<Rightarrow> (Inl err, (rec, p))
           | (Inr rec, p) \<Rightarrow>
               (case git h ws [''push'', ''origin'', branch] p of
                  (Inl err, p) \<Rightarrow> (Inl err, (rec, p))
                | (Inr _, p) \<Rightarrow>
                    (case pub_db (upsert_publication (later 10 e) tid
                            (pub_input task q branch digest ''PUSHED'' commit 0 '''' '''') (snd p))
                            (fst p) of
                       (Inl err, p) \<Rightarrow> (Inl err, (rec, p))
                     | (Inr rec, p) \<Rightarrow>
                         (case open_draft (later 20 e) h tid task q ws branch digest actual commit p of
                            (r, p) \<Rightarrow> (r, (rec, p)))))))"

text \<open>\<open>except Exception as exc\<close>: the failure is recorded, then raised again.\<close>

definition record_publication_failure ::
    "env \<Rightarrow> string \<Rightarrow> task_row \<Rightarrow> publish_request \<Rightarrow> string \<Rightarrow> string
     \<Rightarrow> publication_row outcome \<times> (publication_row \<times> publisher)
     \<Rightarrow> publication_row outcome \<times> publisher" where
  "record_publication_failure e tid task q branch digest r =
     (case r of
        (Inr row, (_, p)) \<Rightarrow> (Inr row, p)
      | (Inl err, (rec, p)) \<Rightarrow>
          andthen
            (pub_db (upsert_publication e tid
               (pub_input task q branch digest ''FAILED'' (pb_commit_sha rec) (pb_pr_number rec)
                  (pb_pr_url rec) (error_class err)) (snd p)) (fst p))
            (\<lambda>_ p. (Inl err, p)))"

text \<open>The first publication, or one that failed before its commit: \<open>PENDING\<close>, then the body.\<close>

definition first_publication ::
    "env \<Rightarrow> publication_host \<Rightarrow> string \<Rightarrow> task_view \<Rightarrow> publish_request \<Rightarrow> string \<Rightarrow> workspace_view
     \<Rightarrow> string list \<Rightarrow> string \<Rightarrow> publisher \<Rightarrow> publication_row outcome \<times> publisher" where
  "first_publication e h tid view q ws meta allowed digest p =
     (let task = tv_row view; branch = publication_branch tid in
      andthen (assert_git_workspace h ws meta p) (\<lambda>_ p.
      andthen (changed_paths h ws p) (\<lambda>actual p.
      if actual = [] then (Inl (TaskStoreError ''publication_has_no_changes''), p)
      else let outside = filter (\<lambda>x. \<not> path_allowed x allowed) actual in
      if outside \<noteq> [] then
        (Inl (TaskStoreError (''publication_path_outside_allowlist:'' @ str_join '','' outside)), p)
      else
        andthen (evidence_paths view, p) (\<lambda>evidence p.
        if evidence \<noteq> [] \<and> set evidence \<noteq> set actual then
          (Inl (TaskStoreError ''publication_task_evidence_scope_mismatch''), p)
        else
          andthen (pub_db (upsert_publication e tid
                     (pub_input task q branch digest ''PENDING'' '''' 0 '''' '''') (snd p)) (fst p))
            (\<lambda>rec p.
             record_publication_failure (later 100 e) tid task q branch digest
               (try_publish (later 10 e) h tid task q ws branch digest actual rec p))))))"

definition publish ::
    "env \<Rightarrow> manifest list \<Rightarrow> publication_host \<Rightarrow> string \<Rightarrow> publish_request \<Rightarrow> publisher
     \<Rightarrow> publication_row outcome \<times> publisher" where
  "publish e packs h tid q p =
     andthen (get_task tid None (snd p), p) (\<lambda>view p.
     let task = tv_row view in
     if t_status task \<notin> {''READY_FOR_REVIEW'', ''READY_FOR_REVIEW_FIXTURE''} then
       (Inl (TaskStoreError (''publication_requires_validated_task:'' @ t_status task)), p)
     else if \<not> base_branch_ok (pq_base_branch q) then
       (Inl (TaskStoreError ''invalid_publication_base_branch''), p)
     else
       andthen (normalized_allowlist (pq_allowed_paths q), p) (\<lambda>allowed p.
       let digest = publish_digest e tid task q allowed; existing = get_publication tid (snd p) in
       if (case existing of None \<Rightarrow> False | Some x \<Rightarrow> pb_request_digest x \<noteq> digest) then
         (Inl (TaskStoreError ''publication_request_digest_mismatch''), p)
       else if (case existing of None \<Rightarrow> False | Some x \<Rightarrow> pb_status x = ''COMPLETE'') then
         (Inr (the existing), p)
       else
         andthen (pub_db (authorize e packs (pq_window_id q) ''open_draft_pr'' (t_repository task) tid
                    (JObj [(''task_id'', JStr tid), (''base_branch'', JStr (pq_base_branch q)),
                           (''allowed_paths'', JArr (map JStr allowed))]) (snd p)) (fst p))
           (\<lambda>granted p.
         if \<not> granted then (Inl (TaskStoreError ''publication_denied_by_window''), p)
         else
           andthen (durable_workspace tid (snd p), p) (\<lambda>meta p.
           let ws = ph_resolve h (fst p) (wv_worktree_path meta) in
           if \<not> ph_is_dir h (fst p) ws \<or> ws = ''/'' then
             (Inl (TaskStoreError ''publication_workspace_invalid''), p)
           else case existing of
             Some x \<Rightarrow>
               (if pb_commit_sha x \<noteq> '''' then
                  resume_publication (later 20 e) h tid task q ws allowed digest x p
                else first_publication (later 20 e) h tid view q ws meta allowed digest p)
           | None \<Rightarrow> first_publication (later 20 e) h tid view q ws meta allowed digest p))))"

end
