(* ===== verification/Publication_Laws.thy ===== *)
theory Publication_Laws
  imports Publication Service_Steps
begin

text \<open>
  What publishing may do: the locale \<open>publishing\<close> is the interface of a relation between a
  publisher before and after that survives the commands the controller is allowed to issue and
  the records it writes. It then survives the controller. The two instances say which commands
  that are, and that the database moves by store calls.
\<close>

section \<open>The commands\<close>

record scope =
  sc_repository :: string
  sc_base :: string
  sc_branches :: "string set"
  sc_allowed :: "string list"

text \<open>
  Every command the controller may issue: it reads the worktree, starts the task's branch, stages
  allowed paths, commits, pushes one branch to \<open>origin\<close>, lists pull requests and creates a draft.
\<close>

definition reading :: "string list \<Rightarrow> bool" where
  "reading argv \<longleftrightarrow> argv \<in>
     {[''git'', ''rev-parse'', ''--show-toplevel''], [''git'', ''rev-parse'', ''HEAD''],
      [''git'', ''status'', ''--porcelain=v1'', ''--untracked-files=all''],
      [''git'', ''branch'', ''--show-current''], [''git'', ''diff'', ''--cached'', ''--name-only'']}"

definition committing :: "scope \<Rightarrow> string list \<Rightarrow> bool" where
  "committing sc argv \<longleftrightarrow>
     (\<exists>b \<in> sc_branches sc. argv = [''git'', ''switch'', ''-c'', b])
     \<or> (\<exists>ps. argv = [''git'', ''add'', ''--''] @ ps \<and> list_all (\<lambda>p. path_allowed p (sc_allowed sc)) ps)
     \<or> (\<exists>m. argv = [''git'', ''commit'', ''-m'', m])"

definition sharing :: "scope \<Rightarrow> string list \<Rightarrow> bool" where
  "sharing sc argv \<longleftrightarrow> (\<exists>b \<in> sc_branches sc.
     argv = [''git'', ''push'', ''origin'', b]
     \<or> argv = ''gh'' # pr_list_args (sc_repository sc) b
     \<or> (\<exists>title body. argv = ''gh'' # pr_create_args (sc_repository sc) b (sc_base sc) title body))"

definition permitted :: "scope \<Rightarrow> command \<Rightarrow> bool" where
  "permitted sc c \<longleftrightarrow> reading (fst c) \<or> committing sc (fst c) \<or> sharing sc (fst c)"

section \<open>The interface\<close>

locale sharing_relation =
  fixes Q :: "publisher \<Rightarrow> publisher \<Rightarrow> bool" and sc :: scope
  assumes Q_refl [simp]: "Q p p"
    and Q_trans: "Q p q \<Longrightarrow> Q q r \<Longrightarrow> Q p r"
    and Q_command: "reading argv \<or> sharing sc argv \<Longrightarrow> Q (log, s) (log @ [(argv, cwd)], s)"
    and Q_upsert: "Q (log, s) (log, snd (upsert_publication e tid i s))"
    and Q_authorize: "Q (log, s) (log, snd (authorize e packs wid op repo subj inp s))"
begin

lemma Q_andthen:
  assumes "Q p (snd r)" and "\<And>x t. r = (Inr x, t) \<Longrightarrow> Q t (snd (k x t))"
  shows "Q p (snd (andthen r k))"
  using assms by (cases r; cases "fst r") (auto intro: Q_trans)

lemma Q_cases:
  "(c \<Longrightarrow> Q p (snd a)) \<Longrightarrow> (\<not> c \<Longrightarrow> Q p (snd b)) \<Longrightarrow> Q p (snd (if c then a else b))"
  "Q p (snd (x, p))"
  by auto

lemma Q_git: "reading (''git'' # args) \<or> sharing sc (''git'' # args) \<Longrightarrow> Q p (snd (git h ws args p))"
  using Q_command [of "''git'' # args" "fst p" "snd p" ws]
  by (simp add: git_def run_checked_def Let_def)

lemma Q_gh: "reading (''gh'' # args) \<or> sharing sc (''gh'' # args) \<Longrightarrow> Q p (snd (gh h ws args p))"
  using Q_command [of "''gh'' # args" "fst p" "snd p" ws]
  by (simp add: gh_def run_checked_def Let_def)

lemma Q_git_text:
  "reading (''git'' # args) \<or> sharing sc (''git'' # args) \<Longrightarrow> Q p (snd (git_text h ws args p))"
  unfolding git_text_def by (intro Q_andthen Q_git) simp_all

lemma Q_record: "Q p (snd (pub_db (upsert_publication e tid i (snd p)) (fst p)))"
  using Q_upsert [of "fst p" "snd p"] by (simp add: pub_db_def)

lemma Q_list: "b \<in> sc_branches sc \<Longrightarrow> Q p (snd (list_pr h ws (sc_repository sc) b p))"
  unfolding list_pr_def by (intro Q_andthen Q_gh) (auto simp: sharing_def)

lemma Q_options:
  "(m = None \<Longrightarrow> Q p (snd a)) \<Longrightarrow> (\<And>x. m = Some x \<Longrightarrow> Q p (snd (f x)))
   \<Longrightarrow> Q p (snd (case m of None \<Rightarrow> a | Some x \<Rightarrow> f x))"
  by (auto split: option.split)

lemma Q_find_or_create:
  assumes "b \<in> sc_branches sc"
  shows "Q p (snd (find_or_create_draft_pr h ws (sc_repository sc) b (sc_base sc) title body p))"
proof -
  have "sharing sc (''gh'' # pr_create_args (sc_repository sc) b (sc_base sc) title body)"
    using assms by (auto simp: sharing_def)
  then show ?thesis
    unfolding find_or_create_draft_pr_def
    by (intro Q_andthen Q_list assms Q_options Q_gh Q_cases) simp_all
qed

lemma Q_complete: "Q p (snd (complete_publication e tid task q b d commit pr p))"
  unfolding complete_publication_def by (intro Q_andthen Q_record) simp

text \<open>A republication only shares.\<close>

lemma Q_resume:
  assumes "pb_branch x \<in> sc_branches sc" "sc_repository sc = t_repository task" "sc_base sc = pq_base_branch q"
  shows "Q p (snd (resume_publication e h tid task q ws allowed d x p))"
proof -
  have "sharing sc [''git'', ''push'', ''origin'', pb_branch x]"
    using assms(1) by (auto simp: sharing_def)
  moreover have "reading [''git'', ''rev-parse'', ''HEAD'']" by (simp add: reading_def)
  ultimately show ?thesis
    unfolding resume_publication_def assms(2,3) [symmetric]
    by (intro Q_andthen Q_cases Q_git Q_git_text Q_find_or_create Q_complete; simp add: assms(1))
qed

lemma Q_authorized: "Q p (snd (pub_db (authorize e packs wid op repo subj inp (snd p)) (fst p)))"
  using Q_authorize [of "fst p" "snd p"] by (simp add: pub_db_def)

lemma Q_republish:
  assumes repo: "\<And>v. get_task tid None (snd p) = Inr v \<Longrightarrow> sc_repository sc = t_repository (tv_row v)"
    and base: "sc_base sc = pq_base_branch q"
    and old: "get_publication tid (snd p) = Some x" "pb_branch x \<in> sc_branches sc" "pb_commit_sha x \<noteq> ''''"
  shows "Q p (snd (publish e packs h tid q p))"
proof -
  have again: "Q p' (snd (resume_publication e' h tid (tv_row v) q ws ps d x p'))"
    if "get_task tid None (snd p) = Inr v" for v e' ws ps d p'
    by (rule Q_resume [OF old(2) repo [OF that] base])
  show ?thesis
    unfolding publish_def Let_def
    by (intro Q_andthen Q_cases Q_options Q_authorized; clarsimp simp: old) (erule again)
qed

end

locale publishing_relation = sharing_relation +
  assumes Q_commit: "committing sc argv \<Longrightarrow> Q (log, s) (log @ [(argv, cwd)], s)"
begin

lemma Q_git_commit: "committing sc (''git'' # args) \<Longrightarrow> Q p (snd (git h ws args p))"
  using Q_commit [of "''git'' # args" "fst p" "snd p" ws]
  by (simp add: git_def run_checked_def Let_def)

lemma Q_commit_changes:
  assumes "b \<in> sc_branches sc" "list_all (\<lambda>p. path_allowed p (sc_allowed sc)) ps"
  shows "Q p (snd (commit_changes h ws tid base b ps p))"
proof -
  have "committing sc [''git'', ''switch'', ''-c'', b]" "committing sc ([''git'', ''add'', ''--''] @ ps)"
    "committing sc [''git'', ''commit'', ''-m'', m]" for m
    using assms by (auto simp: committing_def)
  moreover have "reading [''git'', ''branch'', ''--show-current'']"
    "reading [''git'', ''diff'', ''--cached'', ''--name-only'']" "reading [''git'', ''rev-parse'', ''HEAD'']"
    by (simp_all add: reading_def)
  ultimately show ?thesis
    unfolding commit_changes_def switch_branch_def
    by (intro Q_andthen Q_cases Q_git Q_git_text Q_git_commit; simp)
qed

lemma Q_bind:
  assumes "Q p (snd r)" "\<And>err t. r = (Inl err, t) \<Longrightarrow> Q t (snd (snd (f err t)))"
    and "\<And>x t. r = (Inr x, t) \<Longrightarrow> Q t (snd (snd (g x t)))"
  shows "Q p (snd (snd (case r of (Inl err, t) \<Rightarrow> f err t | (Inr x, t) \<Rightarrow> g x t)))"
  using assms by (cases r; cases "fst r") (auto intro: Q_trans)

lemma Q_keep: "Q p (snd r) \<Longrightarrow> Q p (snd (snd (case r of (x, p) \<Rightarrow> (x, (rec, p)))))"
  by (cases r) simp

lemma Q_open_draft:
  assumes "b \<in> sc_branches sc" "sc_repository sc = t_repository task" "sc_base sc = pq_base_branch q"
  shows "Q p (snd (open_draft e h tid task q ws b d ps commit p))"
  unfolding open_draft_def Let_def assms(2,3) [symmetric]
  by (intro Q_andthen Q_cases Q_find_or_create Q_complete; simp add: assms(1))

lemma Q_try:
  assumes "b \<in> sc_branches sc" "sc_repository sc = t_repository task" "sc_base sc = pq_base_branch q"
    and "list_all (\<lambda>p. path_allowed p (sc_allowed sc)) ps"
  shows "Q p (snd (snd (try_publish e h tid task q ws b d ps rec p)))"
proof -
  have "sharing sc [''git'', ''push'', ''origin'', b]"
    using assms(1) by (auto simp: sharing_def)
  then show ?thesis
    unfolding try_publish_def
    by (intro Q_bind Q_commit_changes Q_record Q_git Q_keep Q_open_draft assms; simp)
qed

lemma Q_failure:
  assumes "Q p (snd (snd r))"
  shows "Q p (snd (record_publication_failure e tid task q b d r))"
proof -
  obtain out rec p1 where r: "r = (out, (rec, p1))" by (cases r) auto
  have "Q p1 (snd (record_publication_failure e tid task q b d r))"
    unfolding r record_publication_failure_def
    by (cases out) (auto intro!: Q_andthen Q_record)
  then show ?thesis using assms r by (auto intro: Q_trans)
qed

lemma Q_assert_workspace: "Q p (snd (assert_git_workspace h ws meta p))"
proof -
  have "reading [''git'', ''rev-parse'', ''--show-toplevel'']" "reading [''git'', ''rev-parse'', ''HEAD'']"
    by (simp_all add: reading_def)
  then show ?thesis
    unfolding assert_git_workspace_def by (intro Q_andthen Q_cases Q_git_text; simp)
qed

lemma Q_changed_paths: "Q p (snd (changed_paths h ws p))"
proof -
  have "reading [''git'', ''status'', ''--porcelain=v1'', ''--untracked-files=all'']"
    by (simp add: reading_def)
  then show ?thesis unfolding changed_paths_def by (intro Q_andthen Q_git; simp)
qed

lemma Q_first:
  assumes "publication_branch tid \<in> sc_branches sc" "sc_repository sc = t_repository (tv_row view)"
    "sc_base sc = pq_base_branch q"
  shows "Q p (snd (first_publication e h tid view q ws meta (sc_allowed sc) d p))"
  unfolding first_publication_def Let_def
  by (intro Q_andthen Q_cases Q_assert_workspace Q_changed_paths Q_failure Q_try Q_record assms;
      simp add: assms list_all_iff filter_empty_conv)

text \<open>The whole of it, for the scope of a request.\<close>

lemma Q_publish:
  assumes repo: "\<And>v. get_task tid None (snd p) = Inr v \<Longrightarrow> sc_repository sc = t_repository (tv_row v)"
    and base: "sc_base sc = pq_base_branch q"
    and own: "publication_branch tid \<in> sc_branches sc"
    and old: "\<And>x. get_publication tid (snd p) = Some x \<Longrightarrow> pb_branch x \<in> sc_branches sc"
    and allowed: "\<And>ps. normalized_allowlist (pq_allowed_paths q) = Inr ps \<Longrightarrow> sc_allowed sc = ps"
  shows "Q p (snd (publish e packs h tid q p))"
proof -
  have first: "Q p' (snd (first_publication e' h tid v q ws meta ps d p'))"
    if "get_task tid None (snd p) = Inr v" "normalized_allowlist (pq_allowed_paths q) = Inr ps"
    for v ps e' ws meta d p'
    using Q_first [OF own repo [OF that(1)] base] allowed [OF that(2)] by simp
  have again: "Q p' (snd (resume_publication e' h tid (tv_row v) q ws ps d x p'))"
    if "get_task tid None (snd p) = Inr v" "get_publication tid (snd p) = Some x" for v x e' ws ps d p'
    by (rule Q_resume [OF old [OF that(2)] repo [OF that(1)] base])
  show ?thesis
    unfolding publish_def Let_def
    by (intro Q_andthen Q_cases Q_options Q_authorized; clarsimp?)
      (rule first again, assumption, assumption)+
qed

end

section \<open>The instances\<close>

definition log_grows :: "(command \<Rightarrow> bool) \<Rightarrow> publisher \<Rightarrow> publisher \<Rightarrow> bool" where
  "log_grows P p p' \<longleftrightarrow> (\<exists>cs. fst p' = fst p @ cs \<and> list_all P cs)"

lemma log_grows_refl [simp]: "log_grows P p p"
  by (simp add: log_grows_def)

lemma log_grows_trans: "log_grows P p q \<Longrightarrow> log_grows P q r \<Longrightarrow> log_grows P p r"
  by (auto simp: log_grows_def)

lemma log_grows_step [simp]: "P c \<Longrightarrow> log_grows P (log, s) (log @ [c], s')"
  by (simp add: log_grows_def)

lemma log_grows_db [simp]: "log_grows P (log, s) (log, s')"
  by (simp add: log_grows_def)

definition read_or_shared :: "scope \<Rightarrow> command \<Rightarrow> bool" where
  "read_or_shared sc c \<longleftrightarrow> reading (fst c) \<or> sharing sc (fst c)"

interpretation command_log: publishing_relation "log_grows (permitted sc)" sc for sc
  by unfold_locales (auto simp: permitted_def intro: log_grows_trans)

interpretation sharing_log: sharing_relation "log_grows (read_or_shared sc)" sc for sc
  by unfold_locales (auto simp: read_or_shared_def intro: log_grows_trans)

definition db_acts :: "publisher \<Rightarrow> publisher \<Rightarrow> bool" where
  "db_acts p p' \<longleftrightarrow> acts (snd p) (snd p')"

lemma acts_upsert: "acts s (snd (upsert_publication e tid i s))"
  using acts_control [of s "UpsertPublication e tid i"] by simp

interpretation database: publishing_relation db_acts sc for sc
  by unfold_locales (auto simp: db_acts_def acts_authorize acts_upsert intro: acts_trans)

end
