(* ===== verification/Publication_Properties.thy ===== *)
theory Publication_Properties
  imports Publication_Laws Durable_Scenarios
begin

text \<open>
  What publishing does: the commands it may issue, the record that a success and a failure
  leave, and what the path guard does and does not keep out.
\<close>

section \<open>A scenario\<close>

text \<open>
  The worktree of a finished run with one changed file; a runner whose push answers \<open>code\<close>; a
  request that allows the directory of the file.
\<close>

definition pb_policy :: payload where
  "pb_policy = map (\<lambda>(k, v). if k = ''capabilities'' then (k, JArr [JStr ''open_draft_pr'']) else (k, v)) sv_policy"

definition pb_db :: db where
  "pb_db = snd (service_activate (wenv 900 0) sv_lib [] pb_policy
     (snd (ds_run (ds_host (Inr ds_result) 0) None)))"

definition pb_answer :: "int \<Rightarrow> command list \<Rightarrow> string list \<Rightarrow> int \<times> string" where
  "pb_answer code log argv =
     (if take 2 argv = [''git'', ''push''] then (code, '''')
      else if argv = [''git'', ''rev-parse'', ''--show-toplevel''] then (0, ''/wt'')
      else if argv = [''git'', ''rev-parse'', ''HEAD''] then
        (0, if list_ex (\<lambda>c. take 2 (fst c) = [''git'', ''commit'']) log then ''c1'' else ''head'')
      else if take 2 argv = [''git'', ''status''] then (0, '' M src/a.py'')
      else if take 2 argv = [''git'', ''branch''] then (0, ''main'')
      else if take 2 argv = [''git'', ''diff''] then (0, ''src/a.py'')
      else (0, ''''))"

definition pb_host :: "int \<Rightarrow> publication_host" where
  "pb_host code = \<lparr>ph_run = (\<lambda>log c. case pb_answer code log (fst c) of (n, out) \<Rightarrow>
       \<lparr>cr_code = n, cr_stdout = out, cr_stderr = ''''\<rparr>),
     ph_resolve = (\<lambda>_ x. x), ph_is_dir = (\<lambda>_ _. True),
     ph_loads = (\<lambda>_. Some (JArr [JObj [(''number'', JInt 7), (''url'', JStr ''u''), (''isDraft'', JBool True),
        (''headRefOid'', JStr ''c1''), (''baseRefName'', JStr ''main'')]]))\<rparr>"

definition pb_request :: publish_request where
  "pb_request = \<lparr>pq_window_id = ''w'', pq_base_branch = ''main'', pq_allowed_paths = JArr [JStr ''src''],
     pq_title = ''t'', pq_body = ''''\<rparr>"

definition pb_publish :: "int \<Rightarrow> int \<Rightarrow> publisher \<Rightarrow> publication_row outcome \<times> publisher" where
  "pb_publish i code p = publish (wenv i 0) [] (pb_host code) w_task_id pb_request p"

lemma system_pb: "system pb_db"
  unfolding pb_db_def by (rule acts_system [OF acts_service_activate system_ds_run])

section \<open>Records\<close>

lemma upsert_effect:
  assumes "upsert_publication e tid i s = (Inr row, s')"
  shows "get_publication tid s' = Some row \<and> pb_status row = pi_status i
    \<and> pb_request_digest row = pi_request_digest i \<and> pb_commit_sha row = pi_commit_sha i
    \<and> pb_failure_classification row = pi_failure_classification i"
proof (cases "get_publication tid s")
  case None
  then show ?thesis
    using assms
    by (auto simp: upsert_publication_def get_publication_def sql_insert_def find_append
        new_publication_row_def andthen_def split: if_splits option.splits)
next
  case (Some p)
  then show ?thesis
    using assms
    by (auto simp: upsert_publication_def get_publication_def find_sql_update dest: find_SomeD
        split: if_splits)
qed

section \<open>A success\<close>









section \<open>A failure\<close>

lemma andthen_err:
  "andthen r k = (Inl err, s') \<longleftrightarrow>
     r = (Inl err, s') \<or> (\<exists>x s. r = (Inr x, s) \<and> k x s = (Inl err, s'))"
  by (auto simp: andthen_def split: prod.splits sum.splits)

text \<open>Commands leave the database alone; an upsert that raises wrote nothing.\<close>

lemma commands_keep_db:
  "git h ws args p = (r, p') \<Longrightarrow> snd p' = snd p" "gh h ws args p = (r', p') \<Longrightarrow> snd p' = snd p"
  by (auto simp: git_def gh_def run_checked_def Let_def split: if_splits)

lemma upsert_raises:
  assumes "upsert_publication e tid i s = (Inl err, s')"
  shows "s' = s"
  using assms
  by (auto simp: upsert_publication_def get_publication_def sql_insert_def find_append andthen_err
      new_publication_row_def find_sql_update split: if_splits option.splits sum.splits)

text \<open>Once the record of a request exists, its states can always be written.\<close>

definition requested :: "string \<Rightarrow> string \<Rightarrow> publisher \<Rightarrow> bool" where
  "requested tid d p \<longleftrightarrow> (\<exists>x. get_publication tid (snd p) = Some x \<and> pb_request_digest x = d)"

lemma requested_upsert:
  assumes "requested tid d p" "pi_request_digest i = d" "pi_status i \<in> set PUBLICATION_STATES"
  shows "\<exists>row s'. upsert_publication e tid i (snd p) = (Inr row, s')"
  using assms
  by (auto simp: requested_def upsert_publication_def get_publication_def find_sql_update dest: find_SomeD)

lemma authorize_keeps_publications: "publications (snd (authorize e packs wid op repo subj inp s)) = publications s"
proof -
  have evaluate: "publications (snd (evaluate_operation e packs wid op repo s)) = publications s"
    unfolding evaluate_operation_def active_window_def Let_def
    by (auto intro!: andthen_state [where P = "\<lambda>t. publications t = publications s"] split: option.splits sum.splits prod.splits)
  have receipt: "publications (snd (append_receipt e wid i s)) = publications s" for e i s
    by (auto simp: append_receipt_def sql_insert_def split: option.split sum.split)
  show ?thesis
    using evaluate unfolding authorize_def
    by (auto simp: receipt intro!: andthen_state [where P = "\<lambda>t. publications t = publications s"]
        split: prod.splits sum.splits)
qed

interpretation kept_request: publishing_relation "\<lambda>p p'. requested tid d p \<longrightarrow> requested tid d p'" sc for tid d sc
proof unfold_locales
  show "requested tid d (log, s) \<longrightarrow> requested tid d (log, snd (upsert_publication e t i s))" for log s e t i
    by (cases "t = tid")
      (auto simp: requested_def upsert_publication_def get_publication_def sql_insert_def find_append
        find_sql_update new_publication_row_def andthen_def dest: find_SomeD
        split: option.splits sum.splits prod.splits if_splits)
  show "requested tid d (log, s) \<longrightarrow> requested tid d (log, snd (authorize e packs wid op repo subj inp s))"
    for log s e packs wid op repo subj inp
    by (simp add: requested_def get_publication_def authorize_keeps_publications)
qed (auto simp: requested_def)

lemma reads_keep_db:
  "git_text h ws args p = (r, p') \<Longrightarrow> snd p' = snd p"
  "assert_git_workspace h ws meta p = (r1, p') \<Longrightarrow> snd p' = snd p"
  "changed_paths h ws p = (r2, p') \<Longrightarrow> snd p' = snd p"
  "find_or_create_draft_pr h ws repo b base title body p = (r3, p') \<Longrightarrow> snd p' = snd p"
proof -
  have answer: "snd p' = snd p" if "git_text h ws args p = (r, p')" for r :: "string outcome" and ws args p p'
    using that by (cases r) (auto simp: git_text_def andthen_ok andthen_err dest!: commands_keep_db)
  have list: "snd p' = snd p" if "list_pr h ws repo b p = (r, p')" for r :: "json option outcome" and p p'
    using that by (cases r) (auto simp: list_pr_def andthen_ok andthen_err dest!: commands_keep_db)
  show "git_text h ws args p = (r, p') \<Longrightarrow> snd p' = snd p" by (rule answer)
  show "assert_git_workspace h ws meta p = (r1, p') \<Longrightarrow> snd p' = snd p"
    by (cases r1) (auto simp: assert_git_workspace_def andthen_ok andthen_err dest!: answer split: if_splits)
  show "changed_paths h ws p = (r2, p') \<Longrightarrow> snd p' = snd p"
    by (cases r2) (auto simp: changed_paths_def andthen_ok andthen_err dest!: commands_keep_db)
  show "find_or_create_draft_pr h ws repo b base title body p = (r3, p') \<Longrightarrow> snd p' = snd p"
    by (cases r3) (auto simp: find_or_create_draft_pr_def andthen_ok andthen_err dest!: list commands_keep_db split: option.splits)
qed

definition failed_as :: "string \<Rightarrow> store_error \<Rightarrow> db \<Rightarrow> db \<Rightarrow> bool" where
  "failed_as tid err s s' \<longleftrightarrow> get_publication tid s' = get_publication tid s
     \<or> (\<exists>row. get_publication tid s' = Some row \<and> pb_status row = ''FAILED''
          \<and> pb_failure_classification row = error_class err)"

lemma publication_failure_recorded:
  assumes "record_publication_failure e tid task q b d (r, (rec, p)) = (Inl err, p')" "requested tid d p"
  shows "failed_as tid err s (snd p')"
proof (cases r)
  case (Inl err0)
  let ?i = "pub_input task q b d ''FAILED'' (pb_commit_sha rec) (pb_pr_number rec) (pb_pr_url rec) (error_class err0)"
  obtain row s' where u: "upsert_publication e tid ?i (snd p) = (Inr row, s')"
    using requested_upsert [OF assms(2), of ?i e] by (auto simp: pub_input_def PUBLICATION_STATES_def)
  then have "err = err0" "snd p' = s'"
    using assms(1) Inl by (auto simp: record_publication_failure_def pub_db_def)
  with upsert_effect [OF u] show ?thesis by (simp add: failed_as_def pub_input_def)
qed (use assms(1) in \<open>simp add: record_publication_failure_def\<close>)

lemma raised_record: "pub_db (upsert_publication e tid i s) log = (Inl err, p') \<Longrightarrow> snd p' = s"
  using upsert_raises [of e tid i s err] by (auto simp: pub_db_def) (metis prod.collapse)

lemma stored_request:
  "pub_db (upsert_publication e tid (pub_input task q b d st c n u f) s) log = (Inr rec, p')
   \<Longrightarrow> requested tid d p'"
  using upsert_effect [of e tid "pub_input task q b d st c n u f" s rec "snd p'"]
  by (auto simp: pub_db_def requested_def pub_input_def) (metis prod.collapse)

lemma first_failure:
  assumes "first_publication e h tid view q ws meta allowed d p = (Inl err, p')"
  shows "failed_as tid err (snd p) (snd p')"
proof -
  define sc where "sc = \<lparr>sc_repository = t_repository (tv_row view), sc_base = pq_base_branch q,
      sc_branches = {publication_branch tid}, sc_allowed = allowed\<rparr>"
  have tried: "failed_as tid err s (snd p')"
    if "record_publication_failure e1 tid (tv_row view) q (publication_branch tid) d
          (try_publish e2 h tid (tv_row view) q ws (publication_branch tid) d ps rec p1) = (Inl err, p')"
      "filter (\<lambda>x. \<not> path_allowed x allowed) ps = []" "requested tid d p1" for e1 e2 ps rec p1 s
  proof -
    obtain r rec' p2 where t: "try_publish e2 h tid (tv_row view) q ws (publication_branch tid) d ps rec p1
        = (r, (rec', p2))" by (metis prod.exhaust)
    have "requested tid d p2"
      using kept_request.Q_try [of "publication_branch tid" sc "tv_row view" q ps tid d p1 e2 h tid ws d rec] that(2,3) t
      by (simp add: sc_def list_all_iff filter_empty_conv)
    then show ?thesis using publication_failure_recorded that(1) unfolding t by blast
  qed
  have same: "failed_as tid x s s" for x s by (simp add: failed_as_def)
  show ?thesis
    using assms unfolding first_publication_def Let_def
    by (auto simp: andthen_err same split: if_splits dest!: reads_keep_db(2,3) raised_record
        intro: tried stored_request)
qed

lemma resume_failure:
  assumes "resume_publication e h tid task q ws allowed d x p = (Inl err, p')"
  shows "snd p' = snd p"
  using assms
  by (auto simp: resume_publication_def complete_publication_def andthen_err split: if_splits
      dest!: reads_keep_db(1,4) commands_keep_db raised_record)

text \<open>Every way to raise, branch by branch.\<close>

definition fails_well :: "string \<Rightarrow> publisher \<Rightarrow> publication_row outcome \<times> publisher \<Rightarrow> bool" where
  "fails_well tid p r \<longleftrightarrow> (case fst r of Inr _ \<Rightarrow> True | Inl err \<Rightarrow> failed_as tid err (snd p) (snd (snd r)))"

lemma fails_well_rules:
  "fails_well tid p (x, p)"
  "(c \<Longrightarrow> fails_well tid p a) \<Longrightarrow> (\<not> c \<Longrightarrow> fails_well tid p b) \<Longrightarrow> fails_well tid p (if c then a else b)"
  "(m = None \<Longrightarrow> fails_well tid p a) \<Longrightarrow> (\<And>x. m = Some x \<Longrightarrow> fails_well tid p (f x))
   \<Longrightarrow> fails_well tid p (case m of None \<Rightarrow> a | Some x \<Rightarrow> f x)"
  by (auto simp: fails_well_def failed_as_def split: sum.split option.split)

lemma fails_well_parts:
  "fails_well tid p (resume_publication e h tid task q ws allowed d y p)"
  "fails_well tid p (first_publication e h tid view q ws meta allowed d p)"
proof -
  have raised: "fails_well tid p r" if "\<And>err p'. r = (Inl err, p') \<Longrightarrow> failed_as tid err (snd p) (snd p')" for r
    using that by (cases r; cases "fst r") (auto simp: fails_well_def)
  show "fails_well tid p (resume_publication e h tid task q ws allowed d y p)"
    by (rule raised) (simp add: resume_failure failed_as_def)
  show "fails_well tid p (first_publication e h tid view q ws meta allowed d p)"
    by (rule raised) (rule first_failure)
qed

lemma fails_well_andthen:
  assumes "get_publication tid (snd (snd r)) = get_publication tid (snd p)"
    and "\<And>x t. r = (Inr x, t) \<Longrightarrow> fails_well tid t (k x t)"
  shows "fails_well tid p (andthen r k)"
  using assms by (cases r; cases "fst r") (auto simp: fails_well_def failed_as_def split: sum.splits)

lemma authorize_keeps_publication:
  "get_publication tid (snd (snd (pub_db (authorize e packs wid op repo subj inp s) log))) = get_publication tid s"
  by (simp add: pub_db_def get_publication_def authorize_keeps_publications)

text \<open>
  When publishing raises, the stored record is the one from before, or it says so: its
  status is \<open>FAILED\<close> and its classification the class of the exception that is raised.
\<close>

theorem failed_publication_recorded:
  assumes "publish e packs h tid q (log, s) = (Inl err, (log', s'))"
  shows "get_publication tid s' = get_publication tid s
    \<or> (\<exists>row. get_publication tid s' = Some row \<and> pb_status row = ''FAILED''
         \<and> pb_failure_classification row = error_class err)"
proof -
  have "fails_well tid (log, s) (publish e packs h tid q (log, s))"
    unfolding publish_def Let_def
    by (intro fails_well_andthen fails_well_rules fails_well_parts; simp add: authorize_keeps_publication)
  then show ?thesis by (simp add: assms fails_well_def failed_as_def)
qed

definition pb_failed :: "publication_row outcome \<times> publisher" where
  "pb_failed = pb_publish 1000 1 ([], pb_db)"

theorem failed_publication_recorded_witness:
  "\<exists>row. get_publication w_task_id (snd (snd pb_failed)) = Some row \<and> pb_status row = ''FAILED''
     \<and> pb_failure_classification row = ''TaskStoreError''"
proof -
  have r: "fst pb_failed = Inl (TaskStoreError ''git_command_failed:push:'')"
    "map_option pb_status (get_publication w_task_id (snd (snd pb_failed))) = Some ''FAILED''"
    "get_publication w_task_id pb_db = None"
    by code_simp+
  then have "pb_failed = (Inl (TaskStoreError ''git_command_failed:push:''), (fst (snd pb_failed), snd (snd pb_failed)))"
    by (metis prod.collapse)
  from failed_publication_recorded [OF this [unfolded pb_failed_def pb_publish_def]] r(2,3)
  show ?thesis unfolding pb_failed_def pb_publish_def by fastforce
qed

section \<open>Commands\<close>

text \<open>What a request gives the controller leave for.\<close>

definition request_scope :: "string \<Rightarrow> publish_request \<Rightarrow> db \<Rightarrow> scope" where
  "request_scope tid q s =
     \<lparr>sc_repository = (case get_task tid None s of Inl _ \<Rightarrow> '''' | Inr v \<Rightarrow> t_repository (tv_row v)),
      sc_base = pq_base_branch q,
      sc_branches = {publication_branch tid} \<union> pb_branch ` set_option (get_publication tid s),
      sc_allowed = (case normalized_allowlist (pq_allowed_paths q) of Inl _ \<Rightarrow> [] | Inr ps \<Rightarrow> ps)\<rparr>"

text \<open>
  C30. The commands of a publication: whatever the tools answer, and whether it returns or raises,
  it reads the worktree, makes the task's branch, stages paths under the allowed ones, commits,
  pushes the task's branch (or the one on record) to \<open>origin\<close>, and lists and creates draft pull
  requests of that branch against the requested base. Nothing is forced, merged or marked ready.
\<close>

theorem publish_commands:
  "\<exists>cs. fst (snd (publish e packs h tid q (log, s))) = log @ cs
     \<and> list_all (permitted (request_scope tid q s)) cs"
proof -
  have "log_grows (permitted (request_scope tid q s)) (log, s) (snd (publish e packs h tid q (log, s)))"
    by (rule command_log.Q_publish) (auto simp: request_scope_def)
  then show ?thesis by (simp add: log_grows_def)
qed

text \<open>
  A commit is never made twice: once the record has a commit, publishing again only reads,
  pushes and deals with the pull request; it switches no branch, stages nothing and commits nothing.
\<close>

theorem republish_only_shares:
  assumes "get_publication tid s = Some x" "pb_commit_sha x \<noteq> ''''"
  shows "\<exists>cs. fst (snd (publish e packs h tid q (log, s))) = log @ cs
     \<and> list_all (read_or_shared (request_scope tid q s)) cs"
proof -
  have "log_grows (read_or_shared (request_scope tid q s)) (log, s) (snd (publish e packs h tid q (log, s)))"
    by (rule sharing_log.Q_republish [where x = x]) (auto simp: request_scope_def assms)
  then show ?thesis by (simp add: log_grows_def)
qed

theorem republish_only_shares_witness:
  "\<exists>cs. fst (snd (pb_publish 2000 0 ([], snd (snd pb_failed)))) = [] @ cs
     \<and> list_all (read_or_shared (request_scope w_task_id pb_request (snd (snd pb_failed)))) cs"
proof -
  have "map_option pb_commit_sha (get_publication w_task_id (snd (snd pb_failed))) = Some ''c1''"
    by code_simp
  then obtain x where "get_publication w_task_id (snd (snd pb_failed)) = Some x" "pb_commit_sha x = ''c1''"
    by auto
  then show ?thesis
    unfolding pb_publish_def by (intro republish_only_shares [where x = x]) simp_all
qed

text \<open>
  Publishing refines the transition system of the stores: its authorisation and its records
  are store calls.
\<close>

theorem publish_refines:
  assumes "reachable s" "control_schema s"
  shows "live_step\<^sup>*\<^sup>* s (snd (snd (publish e packs h tid q (log, s))))"
proof -
  have "db_acts (log, s) (snd (publish e packs h tid q (log, s)))"
    by (rule database.Q_publish [where sc = "request_scope tid q s"]) (auto simp: request_scope_def)
  then show ?thesis using assms by (simp add: db_acts_def acts_def system_def)
qed

theorem publish_refines_witness:
  "live_step\<^sup>*\<^sup>* pb_db (snd (snd (pb_publish 1000 0 ([], pb_db))))"
  unfolding pb_publish_def using system_pb by (intro publish_refines) (simp_all add: system_def)

section \<open>The path guard\<close>

lemma split_slash_not_nil [simp]: "split_slash s \<noteq> []"
  by (induction s) (auto split: list.split)

lemma split_slash_no_slash: "w \<in> set (split_slash s) \<Longrightarrow> CHR ''/'' \<notin> set w"
  by (induction s arbitrary: w) (auto split: list.splits if_splits)

lemma split_slash_word: "CHR ''/'' \<notin> set w \<Longrightarrow> split_slash w = [w]"
  by (induction w) auto

lemma split_slash_append: "CHR ''/'' \<notin> set w \<Longrightarrow> split_slash (w @ CHR ''/'' # s) = w # split_slash s"
  by (induction w) auto

lemma split_slash_join:
  "ws \<noteq> [] \<Longrightarrow> list_all (\<lambda>w. CHR ''/'' \<notin> set w) ws \<Longrightarrow> split_slash (str_join ''/'' ws) = ws"
  by (induction "''/''" ws rule: str_join.induct) (simp_all add: split_slash_word split_slash_append)

text \<open>
  A path that the guard lets through is relative and stays inside the worktree: none of its
  components is empty or \<open>..\<close>, and the first character is no slash.
\<close>

theorem safe_path_inside:
  assumes "safe_path v = Inr w"
  shows "w \<noteq> '''' \<and> hd w \<noteq> CHR ''/'' \<and> '''' \<notin> set (split_slash w) \<and> ''..'' \<notin> set (split_slash w)"
proof -
  obtain n where w: "w = as_posix (path_parts n)" and dots: "''..'' \<notin> set (path_parts n)"
    using assms by (auto simp: safe_path_def Let_def split: if_splits)
  have words: "list_all (\<lambda>w. CHR ''/'' \<notin> set w) (path_parts n)" "'''' \<notin> set (path_parts n)"
    using split_slash_no_slash by (auto simp: path_parts_def list_all_iff)
  have split: "split_slash w = (if path_parts n = [] then [''.''] else path_parts n)"
    using split_slash_join [OF _ words(1)] by (simp add: w as_posix_def)
  then have none: "'''' \<notin> set (split_slash w)" "''..'' \<notin> set (split_slash w)"
    using words(2) dots by (auto split: if_splits)
  then show ?thesis by (cases w) (auto split: if_splits)
qed

theorem safe_path_inside_witness:
  "hd ''src/a.py'' \<noteq> CHR ''/'' \<and> ''..'' \<notin> set (split_slash ''src/a.py'')"
proof -
  have "safe_path ''./src//a.py'' = Inr ''src/a.py''" by code_simp
  from safe_path_inside [OF this] show ?thesis by blast
qed

text \<open>
  But it does not keep out the repository's own directory: the test for \<open>.git/\<close> is on the
  text before it is normalised, so \<open>./.git/config\<close> comes out as \<open>.git/config\<close>, which the guard
  itself refuses.
\<close>

definition refused :: "'a outcome \<Rightarrow> bool" where
  "refused r \<longleftrightarrow> (case r of Inl _ \<Rightarrow> True | Inr _ \<Rightarrow> False)"

theorem safe_path_lets_git_through:
  "safe_path ''./.git/config'' = Inr ''.git/config'' \<and> refused (safe_path ''.git/config'')"
  by code_simp

end
