(* ===== verification/Worktree.thy ===== *)
theory Worktree
  imports Guests Publication
begin

text \<open>
  What the executor side reads from a worktree (opencode_executor.py, and the validation runner
  of task_runtime.py): the changed files as git reports them, the notes the roles hand over,
  and the one validation command. The state of the file system is abstract; the host tells how
  Python's calls answer in it.
\<close>

section \<open>The file system\<close>

text \<open>
  The answers of \<open>Path.exists\<close>, \<open>is_dir\<close>, \<open>is_file\<close>, \<open>is_symlink\<close>, \<open>resolve\<close> (strict or not;
  \<open>None\<close> is an \<open>OSError\<close> or a \<open>RuntimeError\<close>), \<open>stat().st_size\<close>, \<open>read_bytes\<close>,
  \<open>read_text(errors="replace")\<close> (\<open>None\<close> is an \<open>OSError\<close>), the files in a directory,
  \<open>mkdir(parents=True, exist_ok=True)\<close>, \<open>shutil.rmtree(ignore_errors=True)\<close>, and of
  \<open>subprocess.run\<close>: exit code, output and error output, or the class of its exception.
  \<open>wh_digest\<close> is the hexadecimal SHA-256 of bytes. The git commands that are run only read.
\<close>

record 'w file_host =
  wh_exists :: "'w \<Rightarrow> string \<Rightarrow> bool"
  wh_is_dir :: "'w \<Rightarrow> string \<Rightarrow> bool"
  wh_is_file :: "'w \<Rightarrow> string \<Rightarrow> bool"
  wh_is_symlink :: "'w \<Rightarrow> string \<Rightarrow> bool"
  wh_resolve :: "'w \<Rightarrow> bool \<Rightarrow> string \<Rightarrow> string option"
  wh_size :: "'w \<Rightarrow> string \<Rightarrow> int option"
  wh_bytes :: "'w \<Rightarrow> string \<Rightarrow> string option"
  wh_text :: "'w \<Rightarrow> string \<Rightarrow> string option"
  wh_files_in :: "'w \<Rightarrow> string \<Rightarrow> string list"
  wh_mkdir :: "'w \<Rightarrow> string \<Rightarrow> unit outcome \<times> 'w"
  wh_rmtree :: "'w \<Rightarrow> string \<Rightarrow> 'w"
  wh_run :: "'w \<Rightarrow> string list \<Rightarrow> string \<Rightarrow> string + (int \<times> string \<times> string)"
  wh_digest :: "string \<Rightarrow> string"

text \<open>\<open>str(root / name)\<close>\<close>

definition path_div :: "string \<Rightarrow> string \<Rightarrow> string" where
  "path_div root name =
     (if name \<noteq> [] \<and> hd name = CHR ''/'' then name
      else if root = [] \<or> last root = CHR ''/'' then root @ name
      else root @ ''/'' @ name)"

text \<open>\<open>s.split(c)\<close> for one character.\<close>

fun split_char :: "char \<Rightarrow> string \<Rightarrow> string list" where
  "split_char x [] = [[]]"
| "split_char x (c # s) =
     (if c = x then [] # split_char x s
      else case split_char x s of [] \<Rightarrow> [[c]] | w # ws \<Rightarrow> (c # w) # ws)"

section \<open>Changed files\<close>

text \<open>The digest of a file's content, empty where there is no regular file to read.\<close>

definition content_digest :: "'w file_host \<Rightarrow> 'w \<Rightarrow> string \<Rightarrow> string" where
  "content_digest h w p =
     (if wh_exists h w p \<and> wh_is_file h w p \<and> \<not> wh_is_symlink h w p
      then case wh_bytes h w p of None \<Rightarrow> '''' | Some b \<Rightarrow> wh_digest h b
      else '''')"

definition changed_file :: "string \<Rightarrow> string \<Rightarrow> int \<Rightarrow> int \<Rightarrow> string \<Rightarrow> file_change" where
  "changed_file path status added deleted digest =
     \<lparr>fc_path = Some path, fc_status = Some status, fc_additions = Some added,
      fc_deletions = Some deleted, fc_diff_digest = Some '''', fc_content_digest = Some digest\<rparr>"

text \<open>One line of \<open>git diff --numstat HEAD\<close>; a line with fewer than three fields is skipped.\<close>

definition numstat_count :: "string \<Rightarrow> int outcome" where
  "numstat_count f =
     (if f = ''-'' then Inr 0
      else case int_of_text f of
        None \<Rightarrow> Inl (PyError ''ValueError'' (''invalid literal for int() with base 10: '' @ py_repr_string f))
      | Some n \<Rightarrow> Inr n)"

definition numstat_line :: "'w file_host \<Rightarrow> 'w \<Rightarrow> string \<Rightarrow> string \<Rightarrow> file_change list outcome" where
  "numstat_line h w wt line =
     (case split_char (CHR 0x09) line of
        added # deleted # path # _ \<Rightarrow>
          (case numstat_count added of
             Inl err \<Rightarrow> Inl err
           | Inr a \<Rightarrow>
               (case numstat_count deleted of
                  Inl err \<Rightarrow> Inl err
                | Inr d \<Rightarrow> Inr [changed_file path
                    (if added \<noteq> ''-'' \<and> deleted = ''0'' then ''added'' else ''modified'') a d
                    (content_digest h w (path_div wt path))]))
      | _ \<Rightarrow> Inr [])"

fun numstat_files :: "'w file_host \<Rightarrow> 'w \<Rightarrow> string \<Rightarrow> string list \<Rightarrow> file_change list outcome" where
  "numstat_files h w wt [] = Inr []"
| "numstat_files h w wt (line # rest) =
     (case numstat_line h w wt line of
        Inl err \<Rightarrow> Inl err
      | Inr fs \<Rightarrow> map_sum id (\<lambda>gs. fs @ gs) (numstat_files h w wt rest))"

definition is_binary_file :: "'w file_host \<Rightarrow> 'w \<Rightarrow> string \<Rightarrow> bool" where
  "is_binary_file h w p =
     (case wh_bytes h w p of None \<Rightarrow> True | Some b \<Rightarrow> CHR 0x00 \<in> set (take 8192 b))"

definition count_untracked_lines :: "'w file_host \<Rightarrow> 'w \<Rightarrow> string \<Rightarrow> int \<times> int" where
  "count_untracked_lines h w p =
     (if \<not> wh_exists h w p then (0, 0)
      else if is_binary_file h w p then (1, 0)
      else case wh_text h w p of
        None \<Rightarrow> (1, 0)
      | Some t \<Rightarrow> (int (length (splitlines t)), 0))"

text \<open>The untracked files that git lists, without those already seen.\<close>

fun untracked_files ::
    "'w file_host \<Rightarrow> 'w \<Rightarrow> string \<Rightarrow> string list \<Rightarrow> string list \<Rightarrow> file_change list" where
  "untracked_files h w wt seen [] = []"
| "untracked_files h w wt seen (line # rest) =
     (let path = py_strip line in
      if path = '''' \<or> path \<in> set seen then untracked_files h w wt seen rest
      else
        let p = path_div wt path; (adds, dels) = count_untracked_lines h w p in
        changed_file path ''added'' adds dels (content_digest h w p)
          # untracked_files h w wt (path # seen) rest)"

definition seen_paths :: "file_change list \<Rightarrow> string list" where
  "seen_paths fs = List.map_filter fc_path fs"

definition command_missing :: "string \<Rightarrow> bool" where
  "command_missing cls \<longleftrightarrow> cls \<in> {''FileNotFoundError'', ''TimeoutExpired''}"

definition collect_changed_files :: "'w file_host \<Rightarrow> 'w \<Rightarrow> string \<Rightarrow> file_change list outcome" where
  "collect_changed_files h w wt =
     (case wh_run h w [''git'', ''diff'', ''--numstat'', ''HEAD''] wt of
        Inl cls \<Rightarrow> if command_missing cls then Inr [] else Inl (PyError cls '''')
      | Inr (_, out, _) \<Rightarrow>
          (case numstat_files h w wt (splitlines out) of
             Inl err \<Rightarrow> Inl err
           | Inr tracked \<Rightarrow>
               (case wh_run h w [''git'', ''ls-files'', ''--others'', ''--exclude-standard''] wt of
                  Inl cls \<Rightarrow> if command_missing cls then Inr tracked else Inl (PyError cls '''')
                | Inr (_, others, _) \<Rightarrow>
                    Inr (tracked @ untracked_files h w wt (seen_paths tracked) (splitlines others)))))"

text \<open>
  \<open>_collect_product_diff\<close> and \<open>_collect_final_product_files\<close>: the same without the directory of
  the handed-over notes.
\<close>

definition product_diff :: "'w file_host \<Rightarrow> 'w \<Rightarrow> string \<Rightarrow> file_change list outcome" where
  "product_diff h w wt =
     map_sum id (filter (\<lambda>f. case fc_path f of
        None \<Rightarrow> False | Some p \<Rightarrow> p \<noteq> [] \<and> \<not> is_handoff_path p)) (collect_changed_files h w wt)"

section \<open>Notes handed over\<close>

definition handoff_dir :: "string \<Rightarrow> string" where
  "handoff_dir wt = path_div wt HANDOFF_DIR"

definition MAX_HANDOFF_BYTES :: int where
  "MAX_HANDOFF_BYTES = 128 * 1024"

text \<open>\<open>path.relative_to(parent)\<close> succeeds, for absolute paths.\<close>

fun parts_within :: "string list \<Rightarrow> string list \<Rightarrow> bool" where
  "parts_within [] ws = True"
| "parts_within (v # vs) [] = False"
| "parts_within (v # vs) (w # ws) = (v = w \<and> parts_within vs ws)"

definition relative_to :: "string \<Rightarrow> string \<Rightarrow> bool" where
  "relative_to p parent = parts_within (path_parts parent) (path_parts p)"

definition handoff_file_under_worktree :: "'w file_host \<Rightarrow> 'w \<Rightarrow> string \<Rightarrow> string \<Rightarrow> bool" where
  "handoff_file_under_worktree h w p wt =
     (if wh_is_symlink h w p then False
      else case wh_resolve h w True p of
        None \<Rightarrow> False
      | Some real \<Rightarrow>
          (case wh_resolve h w False wt of
             None \<Rightarrow> False
           | Some root \<Rightarrow>
               (case wh_resolve h w False (path_div root HANDOFF_DIR) of
                  None \<Rightarrow> False
                | Some notes \<Rightarrow> relative_to real notes \<and> relative_to real root)))"

text \<open>The reason for refusing the size, if it is refused.\<close>

definition handoff_file_size :: "'w file_host \<Rightarrow> 'w \<Rightarrow> string \<Rightarrow> string option" where
  "handoff_file_size h w p =
     (if \<not> wh_exists h w p then Some ''handoff_missing''
      else if \<not> wh_is_file h w p then Some ''handoff_not_regular_file''
      else case wh_size h w p of
        None \<Rightarrow> Some ''handoff_stat_failed''
      | Some n \<Rightarrow>
          if n = 0 then Some ''handoff_empty''
          else if MAX_HANDOFF_BYTES < n then Some (''handoff_oversized:'' @ str_of_int n)
          else None)"

definition validate_handoff_file :: "'w file_host \<Rightarrow> 'w \<Rightarrow> string \<Rightarrow> string \<Rightarrow> string \<Rightarrow> string" where
  "validate_handoff_file h w p wt label =
     (if \<not> wh_exists h w p then label @ ''_missing''
      else if wh_is_symlink h w p then label @ ''_symlink''
      else if \<not> handoff_file_under_worktree h w p wt then label @ ''_workspace_escape''
      else case handoff_file_size h w p of
        None \<Rightarrow> ''''
      | Some reason \<Rightarrow> py_replace ''handoff_'' (label @ ''_'') reason)"

text \<open>The files of the notes; their directory is the one inside the worktree.\<close>

definition plan_path :: "string \<Rightarrow> string" where
  "plan_path wt = path_div (handoff_dir wt) ''plan.md''"

definition review_path :: "string \<Rightarrow> string" where
  "review_path wt = path_div (handoff_dir wt) ''review.md''"

definition validate_plan_handoff :: "'w file_host \<Rightarrow> 'w \<Rightarrow> string \<Rightarrow> string" where
  "validate_plan_handoff h w wt = validate_handoff_file h w (plan_path wt) wt ''plan''"

definition validate_review_handoff :: "'w file_host \<Rightarrow> 'w \<Rightarrow> string \<Rightarrow> string" where
  "validate_review_handoff h w wt = validate_handoff_file h w (review_path wt) wt ''review''"

definition handoff_digest :: "'w file_host \<Rightarrow> 'w \<Rightarrow> string \<Rightarrow> string outcome" where
  "handoff_digest h w p =
     (if \<not> wh_is_file h w p then Inr ''''
      else case wh_bytes h w p of
        None \<Rightarrow> Inl (PyError ''OSError'' '''')
      | Some b \<Rightarrow> Inr (wh_digest h b))"

text \<open>\<open>_remove_handoff\<close>: a directory without files is left.\<close>

definition remove_handoff :: "'w file_host \<Rightarrow> string \<Rightarrow> 'w \<Rightarrow> bool \<times> 'w" where
  "remove_handoff h dir w =
     (if \<not> wh_is_dir h w dir \<or> wh_files_in h w dir = [] then (False, w)
      else let w1 = wh_rmtree h w dir in (\<not> wh_exists h w1 dir, w1))"

section \<open>Validation\<close>

definition APPROVED_VALIDATION_COMMANDS :: "(string \<times> string list) list" where
  "APPROVED_VALIDATION_COMMANDS =
     [(''git_diff_check'', [''git'', ''diff'', ''--check'']),
      (''git_status_porcelain'', [''git'', ''status'', ''--porcelain=v1''])]"

definition approved_argv :: "string \<Rightarrow> string list outcome" where
  "approved_argv command_id =
     (case map_of APPROVED_VALIDATION_COMMANDS command_id of
        None \<Rightarrow> Inl (runtime_error (''unapproved_command:'' @ command_id))
      | Some argv \<Rightarrow> Inr argv)"

text \<open>\<open>LocalValidationRunner.run\<close>: exit code, output and its digest.\<close>

definition validation_run ::
    "env \<Rightarrow> 'w file_host \<Rightarrow> 'w \<Rightarrow> string \<Rightarrow> string \<Rightarrow> (int \<times> string \<times> string) outcome" where
  "validation_run e h w command_id cwd =
     (case approved_argv command_id of
        Inl err \<Rightarrow> Inl err
      | Inr argv \<Rightarrow>
          if cwd = '''' then Inl (runtime_error ''validation_requires_cwd'')
          else if \<not> wh_is_dir h w cwd then Inl (runtime_error (''workspace_not_found:'' @ cwd))
          else case wh_run h w argv cwd of
            Inl cls \<Rightarrow>
              if cls \<in> {''FileNotFoundError'', ''PermissionError'', ''TimeoutExpired''} then
                Inl (PyError ''ValidationCommandError''
                  (''validation_command_failed:'' @ command_id @ '':'' @ cls))
              else Inl (PyError cls '''')
          | Inr (code, out, errors) \<Rightarrow>
              let output = sanitize_output 4096
                    (out @ (if errors = '''' then '''' else [CHR 0x0A] @ errors)) in
              Inr (code, output, sha256 e output))"

end
