(* ===== verification/Team_Execution.thy ===== *)
theory Team_Execution
  imports Worktree Coordinator
begin

text \<open>
  \<open>TaskExecutionService.execute_sequential_team\<close> (task_execution.py): planner, coder and reviewer
  one after the other in one worktree, sequenced by the graph of \<open>build_sequential_team_graph\<close>
  (team_graph.py). The state is the database with the file system; the executor's methods are
  arguments and may change both.
\<close>

section \<open>The executor\<close>

text \<open>\<open>PreparedWorkspaceContext\<close> and \<open>RoleContext\<close>.\<close>

record prepared =
  pw_worktree :: string
  pw_base_sha :: string
  pw_execution_id :: string
  pw_cli_path :: string
  pw_is_cmd :: bool
  pw_opencode_exe :: "string option"

record role_context =
  rc_role :: string
  rc_task_id :: string
  rc_workspace :: string
  rc_plan_path :: string
  rc_plan_digest :: string
  rc_role_order_index :: int

type_synonym 'w site = "db \<times> 'w"

record 'w team_executor =
  tx_prepare :: "env \<Rightarrow> string \<Rightarrow> string \<Rightarrow> 'w site \<Rightarrow> prepared outcome \<times> 'w site"
  tx_role :: "env \<Rightarrow> prepared \<Rightarrow> role_context \<Rightarrow> 'w site \<Rightarrow> executor_result outcome \<times> 'w site"

section \<open>The sequential graph\<close>

definition SEQUENTIAL_ROLES :: "string list" where
  "SEQUENTIAL_ROLES = [''planner'', ''coder'', ''reviewer'']"

definition team_error :: "string \<Rightarrow> store_error" where
  "team_error m = PyError ''TeamGraphError'' m"

text \<open>A role that an accepted checkpoint lets the graph skip.\<close>

definition skipped_result :: "string \<Rightarrow> string \<Rightarrow> worker_result" where
  "skipped_result tid role =
     \<lparr>wk_worker_id = ''sequential'', wk_task_id = tid, wk_execution_id = '''', wk_success = True,
      wk_validation_exit_code = 0, wk_evidence_ids = [], wk_failure_classification = '''',
      wk_failure_detail = role @ '' skipped: already accepted'',
      wk_reasons = [''accepted_checkpoint:'' @ role]\<rparr>"

text \<open>
  One node: the assignment with its role, what the node checks of the results so far, and the
  worker, unless the role is skipped. The reducer appends the node's result.
\<close>

definition role_node ::
    "string set \<Rightarrow> (assignment \<Rightarrow> 's \<Rightarrow> worker_result outcome \<times> 's) \<Rightarrow> assignment \<Rightarrow> string
     \<Rightarrow> (assignment \<Rightarrow> worker_result list \<Rightarrow> string option) \<Rightarrow> worker_result list \<Rightarrow> 's
     \<Rightarrow> worker_result list outcome \<times> 's" where
  "role_node skip worker base role check results s =
     (case parse_assignment (base\<lparr>as_role := role\<rparr>) of
        Inl err \<Rightarrow> (Inl err, s)
      | Inr wa \<Rightarrow>
          case check wa results of
            Some msg \<Rightarrow> (Inl (team_error msg), s)
          | None \<Rightarrow>
              if role \<in> skip then (Inr (results @ [skipped_result (as_task_id base) role]), s)
              else andthen (worker wa s) (\<lambda>r s1.
                if wk_success r \<and> wk_worker_id r \<noteq> '''' \<and> wk_task_id r = as_task_id wa
                then (Inr (results @ [r]), s1)
                else (Inl (team_error (role @ ''_failed'')), s1)))"

definition coder_check :: "assignment \<Rightarrow> worker_result list \<Rightarrow> string option" where
  "coder_check wa results =
     (if results = [] then Some ''missing_planner_handoff''
      else let p = last results in
        if \<not> wk_success p \<or> wk_task_id p \<noteq> as_task_id wa then Some ''invalid_planner_handoff''
        else None)"

definition reviewer_check :: "assignment \<Rightarrow> worker_result list \<Rightarrow> string option" where
  "reviewer_check wa results =
     (if length results < 2 then Some ''missing_role_handoff''
      else if \<not> wk_success (hd results) then Some ''invalid_planner_handoff'' else None)"

definition sequential_graph ::
    "string set \<Rightarrow> (assignment \<Rightarrow> 's \<Rightarrow> worker_result outcome \<times> 's) \<Rightarrow> assignment \<Rightarrow> 's
     \<Rightarrow> team_result outcome \<times> 's" where
  "sequential_graph skip worker base s =
     andthen (role_node skip worker base ''planner'' (\<lambda>_ _. None) [] s) (\<lambda>rs1 s1.
     andthen (role_node skip worker base ''coder'' coder_check rs1 s1) (\<lambda>rs2 s2.
     andthen (role_node skip worker base ''reviewer'' reviewer_check rs2 s2) (\<lambda>rs3 s3.
     (Inr (default_verifier rs3), s3))))"

section \<open>The role worker\<close>

text \<open>What the worker keeps between the roles, with the role of each result in front of it.\<close>

record team_notes =
  tn_plan_digest :: string
  tn_review_digest :: string
  tn_coder_snapshot :: "file_change list"
  tn_results :: "(string \<times> worker_result) list"
  tn_roles :: "string list"

type_synonym 'w team_state = "'w site \<times> team_notes"

definition on_site :: "'a outcome \<times> 'w site \<Rightarrow> team_notes \<Rightarrow> 'a outcome \<times> 'w team_state" where
  "on_site r n = (fst r, (snd r, n))"

text \<open>\<open>_seq_roles_executed.append\<close>, \<open>_seq_worker_results.append\<close>, \<open>return WorkerExecutionResult\<close>\<close>

definition note_role ::
    "string \<Rightarrow> worker_result \<Rightarrow> 'w team_state \<Rightarrow> worker_result outcome \<times> 'w team_state" where
  "note_role role r st =
     (Inr r, (fst st, (snd st)\<lparr>tn_results := tn_results (snd st) @ [(role, r)],
                                tn_roles := tn_roles (snd st) @ [role]\<rparr>))"

definition role_failed ::
    "assignment \<Rightarrow> string \<Rightarrow> int \<Rightarrow> string \<Rightarrow> string \<Rightarrow> string \<Rightarrow> worker_result" where
  "role_failed wa execution_id code classification detail reason =
     \<lparr>wk_worker_id = as_worker_id wa, wk_task_id = as_task_id wa, wk_execution_id = execution_id,
      wk_success = False, wk_validation_exit_code = code, wk_evidence_ids = [],
      wk_failure_classification = classification, wk_failure_detail = detail,
      wk_reasons = [reason]\<rparr>"

definition role_succeeded :: "assignment \<Rightarrow> executor_result \<Rightarrow> worker_result" where
  "role_succeeded wa x =
     \<lparr>wk_worker_id = as_worker_id wa, wk_task_id = as_task_id wa,
      wk_execution_id = er_execution_id x, wk_success = True,
      wk_validation_exit_code = er_validation_exit_code x, wk_evidence_ids = [],
      wk_failure_classification = '''', wk_failure_detail = '''', wk_reasons = []\<rparr>"

text \<open>A check of the handed-over notes or of the product failed.\<close>

definition refuse_role ::
    "assignment \<Rightarrow> executor_result \<Rightarrow> string \<Rightarrow> string \<Rightarrow> 'w team_state
     \<Rightarrow> worker_result outcome \<times> 'w team_state" where
  "refuse_role wa x classification detail st =
     note_role (as_role wa)
       (role_failed wa (er_execution_id x) (-1) classification detail classification) st"

text \<open>A reading of the file system, which may raise.\<close>

definition reading :: "'a outcome \<Rightarrow> 's \<Rightarrow> 'a outcome \<times> 's" where
  "reading r s = (r, s)"

definition accept_planner ::
    "'w file_host \<Rightarrow> prepared \<Rightarrow> file_change list \<Rightarrow> assignment \<Rightarrow> executor_result \<Rightarrow> 'w team_state
     \<Rightarrow> worker_result outcome \<times> 'w team_state" where
  "accept_planner h pw baseline wa x st =
     (let w = snd (fst st); wt = pw_worktree pw; invalid = validate_plan_handoff h w wt in
      if invalid \<noteq> '''' then refuse_role wa x ''invalid_plan_handoff'' invalid st
      else andthen (reading (handoff_digest h w (plan_path wt)) st) (\<lambda>dg st1.
        let st2 = (fst st1, (snd st1)\<lparr>tn_plan_digest := dg\<rparr>) in
        andthen (reading (product_diff h w wt) st2) (\<lambda>files st3.
          if files \<noteq> baseline then
            refuse_role wa x ''planner_product_mutation'' ''planner mutated product files'' st3
          else note_role (as_role wa) (role_succeeded wa x) st3)))"

definition accept_coder ::
    "'w file_host \<Rightarrow> prepared \<Rightarrow> assignment \<Rightarrow> executor_result \<Rightarrow> 'w team_state
     \<Rightarrow> worker_result outcome \<times> 'w team_state" where
  "accept_coder h pw wa x st =
     (let w = snd (fst st); wt = pw_worktree pw in
      if \<not> wh_is_file h w (plan_path wt) then
        refuse_role wa x ''missing_plan_handoff'' ''plan handoff missing when coder started'' st
      else andthen (reading (product_diff h w wt) st) (\<lambda>files st1.
        let st2 = (fst st1, (snd st1)\<lparr>tn_coder_snapshot := files\<rparr>) in
        if files = [] then
          refuse_role wa x ''no_coder_product_diff'' ''coder did not produce a product diff'' st2
        else note_role (as_role wa) (role_succeeded wa x) st2))"

definition accept_reviewer ::
    "'w file_host \<Rightarrow> prepared \<Rightarrow> assignment \<Rightarrow> executor_result \<Rightarrow> 'w team_state
     \<Rightarrow> worker_result outcome \<times> 'w team_state" where
  "accept_reviewer h pw wa x st =
     (let w = snd (fst st); wt = pw_worktree pw; invalid = validate_review_handoff h w wt in
      if invalid \<noteq> '''' then refuse_role wa x ''invalid_review_handoff'' invalid st
      else andthen (reading (handoff_digest h w (review_path wt)) st) (\<lambda>dg st1.
        let st2 = (fst st1, (snd st1)\<lparr>tn_review_digest := dg\<rparr>) in
        andthen (reading (product_diff h w wt) st2) (\<lambda>files st3.
          if files \<noteq> tn_coder_snapshot (snd st3) then
            refuse_role wa x ''reviewer_product_mutation'' ''reviewer mutated coder product diff'' st3
          else note_role (as_role wa) (role_succeeded wa x) st3)))"

definition accept_role ::
    "'w file_host \<Rightarrow> prepared \<Rightarrow> file_change list \<Rightarrow> assignment \<Rightarrow> executor_result \<Rightarrow> 'w team_state
     \<Rightarrow> worker_result outcome \<times> 'w team_state" where
  "accept_role h pw baseline wa x st =
     (if \<not> er_success x then
        note_role (as_role wa) (role_failed wa (er_execution_id x) (er_validation_exit_code x)
          (er_failure_classification x) (er_error x)
          (if er_failure_classification x = '''' then ''role_failed''
           else er_failure_classification x)) st
      else if as_role wa = ''planner'' then accept_planner h pw baseline wa x st
      else if as_role wa = ''coder'' then accept_coder h pw wa x st
      else if as_role wa = ''reviewer'' then accept_reviewer h pw wa x st
      else note_role (as_role wa) (role_succeeded wa x) st)"

text \<open>The planner's worker makes the directory of the notes; an exception there is not caught.\<close>

definition make_handoff_dir ::
    "'w file_host \<Rightarrow> prepared \<Rightarrow> assignment \<Rightarrow> 'w site \<Rightarrow> unit outcome \<times> 'w site" where
  "make_handoff_dir h pw wa st =
     (if as_role wa = ''planner'' then
        case wh_mkdir h (snd st) (handoff_dir (pw_worktree pw)) of (r, w1) \<Rightarrow> (r, (fst st, w1))
      else (Inr (), st))"

text \<open>The role worker reads its environment at a place of each role's own.\<close>

definition role_place :: "string \<Rightarrow> int" where
  "role_place role = (if role = ''planner'' then 0 else if role = ''coder'' then 1000 else 2000)"

definition role_worker ::
    "env \<Rightarrow> 'w file_host \<Rightarrow> 'w team_executor \<Rightarrow> prepared \<Rightarrow> file_change list \<Rightarrow> assignment
     \<Rightarrow> 'w team_state \<Rightarrow> worker_result outcome \<times> 'w team_state" where
  "role_worker e h x pw baseline wa st =
     andthen (on_site (make_handoff_dir h pw wa (fst st)) (snd st)) (\<lambda>_ st1.
       case tx_role x (later (role_place (as_role wa)) e) pw
              \<lparr>rc_role = as_role wa, rc_task_id = as_task_id wa, rc_workspace = pw_worktree pw,
               rc_plan_path = plan_path (pw_worktree pw), rc_plan_digest = tn_plan_digest (snd st),
               rc_role_order_index = 0\<rparr> (fst st1) of
         (Inl err, site) \<Rightarrow>
           note_role (as_role wa) (role_failed wa '''' (-1) ''executor_error''
               (error_class err @ '':'' @ error_text err)
               (''executor_exception:'' @ error_class err)) (site, snd st1)
       | (Inr r, site) \<Rightarrow> accept_role h pw baseline wa r (site, snd st1))"

section \<open>The service\<close>

text \<open>
  What the service has besides the executor: the file system, and what resolving the
  executor's arguments and creating it gives for a task.
\<close>

record 'w team_host =
  th_files :: "'w file_host"
  th_create :: "task_row \<Rightarrow> store_error + 'w team_executor"

text \<open>The \<open>except ExecutorRuntimeError\<close> branches before the roles run.\<close>

definition block_team ::
    "env \<Rightarrow> string \<Rightarrow> nat \<Rightarrow> store_error \<Rightarrow> string \<Rightarrow> 'w site \<Rightarrow> execution_outcome outcome \<times> 'w site" where
  "block_team e tid known err detail st =
     (if is_runtime_error err then
        case block_task e tid known '''' detail (fst st) of (r, s1) \<Rightarrow> (r, (s1, snd st))
      else (Inl err, st))"

definition in_store :: "'a step \<Rightarrow> 'w \<Rightarrow> 'a outcome \<times> 'w site" where
  "in_store r w = (fst r, (snd r, w))"

text \<open>
  \<open>_complete_sequential_team_failure\<close>: the baseline becomes the changed files, the failure is
  classified (a \<open>TaskStoreError\<close> is dropped), an event says which roles ran.
\<close>

definition team_classify :: "env \<Rightarrow> string \<Rightarrow> string \<Rightarrow> string \<Rightarrow> db \<Rightarrow> unit step" where
  "team_classify e tid classification role s =
     (case classify_failure e tid classification (''sequential team failed at role='' @ role) s of
        (Inl err, s1) \<Rightarrow> (if is_store_error err then (Inr (), s1) else (Inl err, s1))
      | (Inr _, s1) \<Rightarrow> (Inr (), s1))"

definition complete_team_failure ::
    "env \<Rightarrow> string \<Rightarrow> string list \<Rightarrow> file_change list \<Rightarrow> string \<Rightarrow> string list \<Rightarrow> string \<Rightarrow> db
     \<Rightarrow> unit step" where
  "complete_team_failure e tid roles baseline classification reasons plan_digest s =
     andthen (set_changed_files e tid baseline s) (\<lambda>_ s1.
     andthen (team_classify (later 10 e) tid classification
                (if roles = [] then ''none'' else last roles) s1) (\<lambda>_ s2.
     andthen (add_event (later 20 e) tid ''EXECUTOR_FINISHED'' ''Sequential team failed''
                (''roles='' @ (if roles = [] then ''none'' else str_join '','' roles)) ''''
                (Some (JObj [(''roles_executed'', JArr (map JStr roles)),
                             (''classification'', JStr classification),
                             (''reasons'', JArr (map JStr reasons)),
                             (''plan_digest'', JStr plan_digest)])) s2) (\<lambda>_ s3.
     (Inr (), s3))))"

text \<open>The class and reason of the last failed role, else of the exception.\<close>

definition team_failure_class :: "(string \<times> worker_result) list \<Rightarrow> string" where
  "team_failure_class results =
     (case find (\<lambda>(_, r). \<not> wk_success r) (rev results) of
        None \<Rightarrow> ''failed''
      | Some (_, r) \<Rightarrow> if wk_failure_classification r = '''' then ''failed''
                     else wk_failure_classification r)"

definition team_failed ::
    "env \<Rightarrow> string \<Rightarrow> nat \<Rightarrow> file_change list \<Rightarrow> string \<Rightarrow> 'w team_state
     \<Rightarrow> execution_outcome outcome \<times> 'w site" where
  "team_failed e tid known baseline reason st =
     (let n = snd st; cls = team_failure_class (tn_results n); w = snd (fst st) in
      in_store (andthen (complete_team_failure e tid (tn_roles n) baseline cls [reason, cls]
                           (tn_plan_digest n) (fst (fst st)))
                 (\<lambda>_ s1. outcome_of tid known False '''' (-1) True s1)) w)"

definition team_evidence :: "string \<Rightarrow> string \<Rightarrow> string \<Rightarrow> bool \<Rightarrow> string \<Rightarrow> string \<Rightarrow> evidence_input" where
  "team_evidence category label val ok detail digest =
     \<lparr>in_category = category, in_label = label, in_value = val,
      in_status = (if ok then ''pass'' else ''fail''), in_detail = detail,
      in_raw_json_digest = digest\<rparr>"

text \<open>\<open>_persist_sequential_team_evidence\<close>\<close>

definition persist_team_evidence ::
    "env \<Rightarrow> string \<Rightarrow> bool \<Rightarrow> int \<Rightarrow> string \<Rightarrow> string list \<Rightarrow> string \<Rightarrow> string \<Rightarrow> nat \<Rightarrow> db \<Rightarrow> unit step" where
  "persist_team_evidence e tid success code dg roles plan_digest review_digest changed s =
     andthen (set_validation_result e tid ''git_diff_check'' code dg s) (\<lambda>_ s1.
     andthen (add_evidence (later 10 e) tid (team_evidence ''Validation'' ''git_diff_check''
                (str_of_int code) (code = 0) ''git_diff_check after sequential team'' dg) s1) (\<lambda>_ s2.
     andthen (add_evidence (later 20 e) tid (team_evidence ''Executor'' ''executor_kind'' ''opencode''
                True ''sequential team executor_kind opencode'' '''') s2) (\<lambda>_ s3.
     andthen (add_evidence (later 30 e) tid (team_evidence ''Executor'' ''sequential_roles''
                (str_join '','' roles) success
                (''plan_digest='' @ take 12 plan_digest @ '' review_digest='' @ take 12 review_digest
                  @ '' validation_exit='' @ str_of_int code
                  @ '' changed_files='' @ str_of_nat changed) '''') s3) (\<lambda>_ s4.
     (Inr (), s4)))))"

text \<open>The validation passed: the task is ready for review.\<close>

definition team_validated ::
    "env \<Rightarrow> string \<Rightarrow> int \<Rightarrow> team_notes \<Rightarrow> db \<Rightarrow> unit step" where
  "team_validated e tid code n s =
     andthen (transition_to e tid ''READY_FOR_REVIEW'' s) (\<lambda>_ s1.
     andthen (add_event (later 10 e) tid ''VALIDATED'' ''Sequential team validated''
                ''planner->coder->reviewer all succeeded'' ''''
                (Some (JObj [(''validation_exit_code'', JInt code),
                             (''validation_command_id'', JStr ''git_diff_check''),
                             (''plan_digest'', JStr (tn_plan_digest n)),
                             (''review_digest'', JStr (tn_review_digest n)),
                             (''roles_executed'', JArr (map JStr SEQUENTIAL_ROLES))])) s1) (\<lambda>_ s2.
     (Inr (), s2)))"

text \<open>It did not: the task fails, without a class.\<close>

definition team_invalid ::
    "env \<Rightarrow> string \<Rightarrow> int \<Rightarrow> string \<Rightarrow> string \<Rightarrow> db \<Rightarrow> unit step" where
  "team_invalid e tid code output dg s =
     andthen (set_validation_result e tid ''git_diff_check'' code dg s) (\<lambda>_ s1.
     andthen (add_evidence (later 10 e) tid (team_evidence ''Validation'' ''git_diff_check''
                (str_of_int code) False output dg) s1) (\<lambda>_ s2.
     andthen (transition_to (later 20 e) tid ''FAILED'' s2) (\<lambda>_ s3.
     andthen (add_event (later 30 e) tid ''EXECUTOR_FINISHED'' ''Sequential team validation failed''
                (''git_diff_check exit='' @ str_of_int code) ''''
                (Some (JObj [(''validation_exit_code'', JInt code)])) s3) (\<lambda>_ s4.
     (Inr (), s4)))))"

text \<open>\<open>except ExecutorRuntimeError\<close> around the validation runner.\<close>

definition team_validation ::
    "env \<Rightarrow> 'w file_host \<Rightarrow> 'w \<Rightarrow> string \<Rightarrow> (int \<times> string \<times> string) outcome" where
  "team_validation e h w wt =
     (case validation_run e h w ''git_diff_check'' wt of
        Inl err \<Rightarrow> if is_runtime_error err then Inr (-1, '''', '''') else Inl err
      | Inr v \<Rightarrow> Inr v)"

text \<open>After the three roles: the notes are removed, the product validated and recorded.\<close>

definition team_done ::
    "env \<Rightarrow> 'w file_host \<Rightarrow> string \<Rightarrow> nat \<Rightarrow> prepared \<Rightarrow> 'w team_state
     \<Rightarrow> execution_outcome outcome \<times> 'w site" where
  "team_done e h tid known pw st =
     (let wt = pw_worktree pw; n = snd st;
          w = snd (remove_handoff h (handoff_dir wt) (snd (fst st))) in
      andthen (reading (product_diff h w wt) (fst (fst st), w)) (\<lambda>files st1.
      andthen (in_store (set_changed_files e tid files (fst st1)) w) (\<lambda>_ st2.
      andthen (reading (team_validation e h w wt) st2) (\<lambda>(code, output, dg) st3.
      andthen (in_store (transition_to (later 10 e) tid ''VALIDATING'' (fst st3)) w) (\<lambda>_ st4.
      andthen (in_store (if code = 0 then team_validated (later 20 e) tid code n (fst st4)
                         else team_invalid (later 20 e) tid code output dg (fst st4)) w) (\<lambda>_ st5.
      andthen (in_store (persist_team_evidence (later 100 e) tid (code = 0) code dg SEQUENTIAL_ROLES
                 (tn_plan_digest n) (tn_review_digest n) (length files) (fst st5)) w) (\<lambda>_ st6.
      in_store (outcome_of tid known (code = 0) ''git_diff_check'' code True (fst st6)) w)))))))"

text \<open>The roles, and what follows from how the graph ends.\<close>

definition team_roles ::
    "env \<Rightarrow> 'w file_host \<Rightarrow> 'w team_executor \<Rightarrow> string \<Rightarrow> nat \<Rightarrow> prepared \<Rightarrow> file_change list
     \<Rightarrow> 'w site \<Rightarrow> execution_outcome outcome \<times> 'w site" where
  "team_roles e h x tid known pw baseline st =
     (case parse_assignment \<lparr>as_worker_id = ''sequential'', as_role = ''planner'', as_task_id = tid,
             as_workspace_root = pw_worktree pw\<rparr> of
        Inl err \<Rightarrow> (Inl err, st)
      | Inr _ \<Rightarrow>
          case sequential_graph {} (role_worker e h x pw baseline)
                 \<lparr>as_worker_id = ''sequential'', as_role = ''planner'', as_task_id = tid,
                  as_workspace_root = pw_worktree pw\<rparr>
                 (st, \<lparr>tn_plan_digest = '''', tn_review_digest = '''', tn_coder_snapshot = [],
                       tn_results = [], tn_roles = []\<rparr>) of
            (Inl err, st1) \<Rightarrow>
              (if error_class err = ''TeamGraphError''
               then team_failed (later 4000 e) tid known baseline (error_text err) st1
               else (Inl err, fst st1))
          | (Inr _, st1) \<Rightarrow> team_done (later 4000 e) h tid known pw st1)"

definition team_prepared ::
    "env \<Rightarrow> 'w file_host \<Rightarrow> 'w team_executor \<Rightarrow> string \<Rightarrow> string \<Rightarrow> nat \<Rightarrow> prepared \<Rightarrow> 'w site
     \<Rightarrow> execution_outcome outcome \<times> 'w site" where
  "team_prepared e h x tid root known pw st =
     (let w = snd st; wt = pw_worktree pw in
      andthen (in_store (transition_to e tid ''RUNNING'' (fst st)) w) (\<lambda>_ st1.
      andthen (in_store (add_event (later 10 e) tid ''EXECUTOR_RUNNING'' ''Sequential team execution''
                 ''planner->coder->reviewer in shared worktree'' ''''
                 (Some (JObj [(''execution_id'', JStr (pw_execution_id pw)),
                              (''executor_kind'', JStr ''opencode''),
                              (''sequential_roles'', JArr (map JStr SEQUENTIAL_ROLES)),
                              (''shared_worktree'', JStr wt), (''workspace'', JStr root)]))
                 (fst st1)) w) (\<lambda>_ st2.
      andthen (reading (product_diff h w wt) st2) (\<lambda>baseline st3.
      andthen (in_store (set_changed_files (later 20 e) tid baseline (fst st3)) w) (\<lambda>_ st4.
      team_roles (later 1000 e) h x tid known pw baseline st4)))))"

definition execute_sequential_team ::
    "env \<Rightarrow> 'w team_host \<Rightarrow> string \<Rightarrow> string \<Rightarrow> 'w site \<Rightarrow> execution_outcome outcome \<times> 'w site" where
  "execute_sequential_team e th root tid st =
     (let refuse = (\<lambda>m. (Inl (PyError ''TaskExecutionError'' m), st)) in
      if py_strip root = '''' then refuse ''workspace_root_invalid''
      else case get_task tid None (fst st) of
        Inl err \<Rightarrow> refuse (''task_not_found:'' @ tid)
      | Inr view \<Rightarrow>
          let task = tv_row view; known = length (tv_evidence_refs view) in
          if t_status task \<noteq> ''QUEUED'' then
            refuse (''task_not_queued:'' @ tid @ '':'' @ t_status task)
          else if t_executor_kind task \<noteq> ''opencode'' then
            refuse (''task_not_opencode:'' @ tid @ '':'' @ t_executor_kind task)
          else case th_create th task of
            Inl err \<Rightarrow> block_team e tid known err (error_text err) st
          | Inr x \<Rightarrow>
              andthen (in_store (transition_to e tid ''PREPARING_WORKSPACE'' (fst st)) (snd st)) (\<lambda>_ st1.
                case tx_prepare x (later 10 e) tid root st1 of
                  (Inl err, st2) \<Rightarrow>
                    block_team (later 1000 e) tid known err
                      (''worktree_preparation_failed:'' @ error_text err) st2
                | (Inr pw, st2) \<Rightarrow> team_prepared (later 1000 e) (th_files th) x tid root known pw st2))"

end
