(* ===== verification/Progress_Rules.thy ===== *)
theory Progress_Rules
  imports Execution_Laws
begin

text \<open>
  Total correctness of statements that may raise: \<open>yields r Q E\<close> says what holds after \<open>r\<close> when it
  returns (\<open>Q\<close>) and when it raises (\<open>E\<close>). With \<open>E\<close> false, the statement returns. The rules
  follow the statements: one for a sequence, one for each store operation on a task.
\<close>

definition yields ::
    "'a outcome \<times> 's \<Rightarrow> ('a \<Rightarrow> 's \<Rightarrow> bool) \<Rightarrow> (store_error \<Rightarrow> 's \<Rightarrow> bool) \<Rightarrow> bool" where
  "yields r Q E = (case fst r of Inl err \<Rightarrow> E err (snd r) | Inr x \<Rightarrow> Q x (snd r))"

lemma yields_simps [simp]:
  "yields (Inl err, s) Q E = E err s"
  "yields (Inr x, s) Q E = Q x s"
  by (simp_all add: yields_def)

lemma yields_cases:
  assumes "yields r Q E"
  obtains (raises) err s where "r = (Inl err, s)" "E err s"
    | (returns) x s where "r = (Inr x, s)" "Q x s"
  using assms by (cases r; cases "fst r") auto

lemma yields_weaken:
  "yields r P D \<Longrightarrow> (\<And>x s. P x s \<Longrightarrow> Q x s) \<Longrightarrow> (\<And>err s. D err s \<Longrightarrow> E err s) \<Longrightarrow> yields r Q E"
  by (erule yields_cases) auto

text \<open>One statement after another.\<close>

lemma yields_andthen:
  "yields r P E \<Longrightarrow> (\<And>x s. P x s \<Longrightarrow> yields (k x s) Q E) \<Longrightarrow> yields (andthen r k) Q E"
  by (erule yields_cases) auto

text \<open>A statement that returns, before one that may raise.\<close>

abbreviation nothing :: "store_error \<Rightarrow> 's \<Rightarrow> bool" where
  "nothing \<equiv> \<lambda>_ _. False"

lemma yields_then:
  "yields r P nothing \<Longrightarrow> (\<And>x s. P x s \<Longrightarrow> yields (k x s) Q E) \<Longrightarrow> yields (andthen r k) Q E"
  by (erule yields_cases) auto

lemma yields_returns: "yields r Q nothing \<longleftrightarrow> (\<exists>x s. r = (Inr x, s) \<and> Q x s)"
  by (cases r; cases "fst r") auto

section \<open>The store operations of one task\<close>

lemma yields_transition:
  assumes "stands tid kind a s" "b \<in> set (transition_rules a)" "b \<noteq> a"
    "a \<notin> set TERMINAL_STATUSES" "b \<in> set TASK_STATUS_ORDER"
  shows "yields (transition_to e tid b s) (\<lambda>_. stands tid kind b) nothing"
  using transition_moves [OF assms] by (auto simp: yields_returns)

lemma yields_event:
  "stands tid kind st s \<Longrightarrow> ty \<in> set VALID_EVENT_TYPES \<Longrightarrow>
   yields (add_event e tid ty ti d l m s) (\<lambda>_. stands tid kind st) nothing"
  using task_ops_keep(1) by (fastforce simp: yields_returns)

lemma yields_files:
  "stands tid kind st s \<Longrightarrow> yields (set_changed_files e tid fs s) (\<lambda>_. stands tid kind st) nothing"
  using task_ops_keep(2) by (fastforce simp: yields_returns)

lemma yields_validation:
  "stands tid kind st s \<Longrightarrow> yields (set_validation_result e tid c x dg s) (\<lambda>_. stands tid kind st) nothing"
  using task_ops_keep(3) by (fastforce simp: yields_returns)

lemma yields_evidence:
  "stands tid kind st s \<Longrightarrow> yields (add_evidence e tid i s) (\<lambda>_. stands tid kind st) nothing"
  using task_ops_keep(4) by (fastforce simp: yields_returns)

lemma yields_classify:
  "stands tid kind st s \<Longrightarrow> st \<notin> set TERMINAL_STATUSES \<Longrightarrow>
   yields (classify_failure e tid c d s) (\<lambda>_. failed_with tid c d) nothing"
  using classify_fails by (fastforce simp: yields_returns)

lemma yields_failed_event:
  "failed_with tid c d s \<Longrightarrow> ty \<in> set VALID_EVENT_TYPES \<Longrightarrow>
   yields (add_event e tid ty ti x l m s) (\<lambda>_. failed_with tid c d) nothing"
  using failed_event(1) by (fastforce simp: yields_returns)

lemmas yields_ops = yields_event yields_files yields_validation yields_evidence

lemma event_types:
  "''EXECUTOR_RUNNING'' \<in> set VALID_EVENT_TYPES" "''EXECUTOR_FINISHED'' \<in> set VALID_EVENT_TYPES"
  "''VALIDATED'' \<in> set VALID_EVENT_TYPES"
  by (simp_all add: VALID_EVENT_TYPES_def)

text \<open>The outcome is read back from the task.\<close>

lemma yields_outcome:
  "stands tid kind st s \<Longrightarrow>
   yields (outcome_of tid known ok c x b s) (\<lambda>out s'. s' = s \<and> xe_success out = ok
     \<and> xe_validation_command_id out = c \<and> xe_validation_exit_code out = x) nothing"
  by (erule stands_view) (simp add: outcome_of_def)

lemma yields_failed_outcome:
  "failed_with tid cls d s \<Longrightarrow>
   yields (outcome_of tid known ok c x b s) (\<lambda>out s'. s' = s \<and> xe_success out = ok
     \<and> xe_failure_classification out = cls \<and> xe_failure_detail out = d
     \<and> xe_validation_command_id out = c) nothing"
  by (erule failed_view) (simp add: outcome_of_def)

lemma yields_block:
  assumes "stands tid kind st s" "st \<notin> set TERMINAL_STATUSES"
  shows "yields (block_task e tid n c d s)
    (\<lambda>out s'. \<not> xe_success out \<and> xe_failure_classification out = ''blocked'' \<and> xe_failure_detail out = d
      \<and> xe_validation_command_id out = c \<and> failed_with tid ''blocked'' d s') nothing"
  unfolding block_task_def
  by (rule yields_then [OF yields_classify [OF assms]])
    (rule yields_weaken [OF yields_failed_outcome], auto)

end
