(* ===== verification/Team_Laws.thy ===== *)
theory Team_Laws
  imports Team_Execution Progress_Rules
begin

text \<open>
  The laws of a sequential team: the order of its roles, what a returned team has been through,
  and how a team ends.
\<close>

section \<open>The order of the roles\<close>

text \<open>
  What the notes say after the first \<open>k\<close> roles: they ran in order, and succeeded.
\<close>

definition passed :: "nat \<Rightarrow> team_notes \<Rightarrow> bool" where
  "passed k n \<longleftrightarrow> tn_roles n = take k SEQUENTIAL_ROLES \<and> map fst (tn_results n) = tn_roles n
     \<and> list_all (\<lambda>(_, r). wk_success r) (tn_results n)"

text \<open>The role after them failed, and was the last.\<close>

definition failed_at :: "nat \<Rightarrow> team_notes \<Rightarrow> bool" where
  "failed_at k n \<longleftrightarrow> tn_roles n = take (Suc k) SEQUENTIAL_ROLES
     \<and> map fst (tn_results n) = tn_roles n
     \<and> list_all (\<lambda>(_, r). wk_success r) (butlast (tn_results n))
     \<and> \<not> wk_success (snd (last (tn_results n)))"

text \<open>
  What the service relies on. Of the host: a directory can be made, a file that is there can be
  read, a command is missing or times out but raises nothing else, git counts lines in decimal
  digits. Of the executor: it leaves the status of its task alone, and its preparation raises
  nothing but \<open>ExecutorRuntimeError\<close> and names a worktree.
\<close>

definition numstat_well_formed :: "string \<Rightarrow> bool" where
  "numstat_well_formed line \<longleftrightarrow>
     list_all (\<lambda>f. f = ''-'' \<or> int_of_text f \<noteq> None) (take 2 (split_char (CHR 0x09) line))"

definition quiet_files :: "'w file_host \<Rightarrow> bool" where
  "quiet_files h \<longleftrightarrow>
     (\<forall>w p. fst (wh_mkdir h w p) = Inr ()) \<and>
     (\<forall>w p. wh_is_file h w p \<longrightarrow> wh_bytes h w p \<noteq> None) \<and>
     (\<forall>w argv d cls. wh_run h w argv d = Inl cls \<longrightarrow> command_missing cls) \<and>
     (\<forall>w d c out er. wh_run h w [''git'', ''diff'', ''--numstat'', ''HEAD''] d = Inr (c, out, er) \<longrightarrow>
        list_all numstat_well_formed (splitlines out))"

definition steady_team :: "string \<Rightarrow> 'w team_executor \<Rightarrow> bool" where
  "steady_team tid x \<longleftrightarrow>
     (\<forall>e root st. stands tid ''opencode'' ''PREPARING_WORKSPACE'' (fst st) \<longrightarrow>
        yields (tx_prepare x e tid root st)
          (\<lambda>pw st'. stands tid ''opencode'' ''PREPARING_WORKSPACE'' (fst st') \<and> py_strip (pw_worktree pw) \<noteq> '''')
          (\<lambda>err st'. stands tid ''opencode'' ''PREPARING_WORKSPACE'' (fst st') \<and> is_runtime_error err)) \<and>
     (\<forall>e pw rc st. stands tid ''opencode'' ''RUNNING'' (fst st) \<longrightarrow>
        stands tid ''opencode'' ''RUNNING'' (fst (snd (tx_role x e pw rc st))))"

lemma numstat_files_return:
  "list_all numstat_well_formed ls \<Longrightarrow> \<exists>fs. numstat_files h w wt ls = Inr fs"
proof (induction ls)
  case (Cons l ls)
  have "\<exists>fs. numstat_line h w wt l = Inr fs"
    using Cons.prems by (auto simp: numstat_line_def numstat_well_formed_def numstat_count_def split: list.split option.split)
  with Cons show ?case by auto
qed simp

lemma product_diff_returns: "quiet_files h \<Longrightarrow> \<exists>fs. product_diff h w wt = Inr fs"
  using numstat_files_return [of _ h w wt]
  by (fastforce simp: quiet_files_def product_diff_def collect_changed_files_def split: sum.split)

lemma handoff_digest_returns: "quiet_files h \<Longrightarrow> \<exists>d. handoff_digest h w p = Inr d"
  unfolding quiet_files_def handoff_digest_def
  by (cases "wh_is_file h w p"; cases "wh_bytes h w p") (simp_all, metis option.distinct(1))

lemma team_validation_returns: "quiet_files h \<Longrightarrow> \<exists>v. team_validation e h w wt = Inr v"
proof -
  assume q: "quiet_files h"
  have "is_runtime_error err" if "validation_run e h w ''git_diff_check'' wt = Inl err" for err
    using that conjunct1 [OF conjunct2 [OF conjunct2 [OF q [unfolded quiet_files_def]]]]
    by (auto simp: validation_run_def approved_argv_def APPROVED_VALIDATION_COMMANDS_def runtime_error_def
        command_missing_def Let_def split: if_splits sum.splits prod.splits)
  then show ?thesis by (auto simp: team_validation_def split: sum.split)
qed

text \<open>Readings of the quiet host return.\<close>

lemma yields_reading: "r = Inr x \<Longrightarrow> Q x s \<Longrightarrow> yields (reading r s) Q E"
  by (simp add: reading_def)

lemma yields_reads:
  assumes "quiet_files h"
  shows "yields (reading (product_diff h w wt) s) (\<lambda>_ s'. s' = s) nothing"
    and "yields (reading (handoff_digest h w p) s) (\<lambda>_ s'. s' = s) nothing"
    and "yields (reading (team_validation e h w wt) s) (\<lambda>_ s'. s' = s) nothing"
  using product_diff_returns [OF assms, of w wt] handoff_digest_returns [OF assms, of w p]
    team_validation_returns [OF assms, of e w wt]
  by (auto simp: reading_def)

lemma if_yields:
  "(b \<Longrightarrow> yields r Q E) \<Longrightarrow> (\<not> b \<Longrightarrow> yields t Q E) \<Longrightarrow> yields (if b then r else t) Q E"
  by simp

section \<open>One role\<close>

text \<open>
  After a role: the task still runs, and the notes have one more entry, for this role and with
  the identity of its assignment.
\<close>

definition role_noted :: "string \<Rightarrow> assignment \<Rightarrow> team_notes \<Rightarrow> worker_result \<Rightarrow> 'w team_state \<Rightarrow> bool" where
  "role_noted tid wa n r st \<longleftrightarrow> stands tid ''opencode'' ''RUNNING'' (fst (fst st))
     \<and> tn_roles (snd st) = tn_roles n @ [as_role wa]
     \<and> tn_results (snd st) = tn_results n @ [(as_role wa, r)]
     \<and> wk_worker_id r = as_worker_id wa \<and> wk_task_id r = as_task_id wa"

lemma yields_note:
  assumes "stands tid ''opencode'' ''RUNNING'' (fst (fst st))" "tn_roles (snd st) = tn_roles n"
    "tn_results (snd st) = tn_results n" "wk_worker_id r = as_worker_id wa" "wk_task_id r = as_task_id wa"
  shows "yields (note_role (as_role wa) r st) (role_noted tid wa n) nothing"
  using assms by (simp add: note_role_def role_noted_def)

lemma yields_refuse:
  assumes "stands tid ''opencode'' ''RUNNING'' (fst (fst st))" "tn_roles (snd st) = tn_roles n"
    "tn_results (snd st) = tn_results n"
  shows "yields (refuse_role wa x c d st) (role_noted tid wa n) nothing"
  using assms unfolding refuse_role_def by (intro yields_note) (simp_all add: role_failed_def)

lemma yields_accept:
  assumes "quiet_files h" "stands tid ''opencode'' ''RUNNING'' (fst (fst st))"
    "tn_roles (snd st) = tn_roles n" "tn_results (snd st) = tn_results n"
  shows "yields (accept_planner h pw baseline wa x st) (role_noted tid wa n) nothing"
    and "yields (accept_coder h pw wa x st) (role_noted tid wa n) nothing"
    and "yields (accept_reviewer h pw wa x st) (role_noted tid wa n) nothing"
proof -
  note rules = if_yields yields_refuse yields_note yields_then [OF yields_reads(1) [OF assms(1)]]
    yields_then [OF yields_reads(2) [OF assms(1)]]
  show "yields (accept_planner h pw baseline wa x st) (role_noted tid wa n) nothing"
    unfolding accept_planner_def Let_def by (intro rules) (simp_all add: assms(2-4) role_succeeded_def)
  show "yields (accept_coder h pw wa x st) (role_noted tid wa n) nothing"
    unfolding accept_coder_def Let_def by (intro rules) (simp_all add: assms(2-4) role_succeeded_def)
  show "yields (accept_reviewer h pw wa x st) (role_noted tid wa n) nothing"
    unfolding accept_reviewer_def Let_def by (intro rules) (simp_all add: assms(2-4) role_succeeded_def)
qed

lemma yields_accept_role:
  assumes "quiet_files h" "stands tid ''opencode'' ''RUNNING'' (fst (fst st))"
    "tn_roles (snd st) = tn_roles n" "tn_results (snd st) = tn_results n"
  shows "yields (accept_role h pw baseline wa x st) (role_noted tid wa n) nothing"
  unfolding accept_role_def
  by (intro if_yields yields_accept yields_note) (simp_all add: assms role_succeeded_def role_failed_def)

lemma yields_role_worker:
  assumes "quiet_files h" "steady_team tid x" "stands tid ''opencode'' ''RUNNING'' (fst (fst st))"
  shows "yields (role_worker e h x pw baseline wa st) (role_noted tid wa (snd st)) nothing"
proof -
  have dir: "yields (on_site (make_handoff_dir h pw wa (fst st)) (snd st))
      (\<lambda>_ st1. stands tid ''opencode'' ''RUNNING'' (fst (fst st1)) \<and> snd st1 = snd st) nothing"
  proof (cases "wh_mkdir h (snd (fst st)) (handoff_dir (pw_worktree pw))")
    case (Pair r w)
    with assms(1) have "r = Inr ()" unfolding quiet_files_def by (metis fst_conv)
    with Pair assms(3) show ?thesis by (simp add: make_handoff_dir_def on_site_def)
  qed
  show ?thesis
    unfolding role_worker_def
  proof (rule yields_then [OF dir])
    fix u and st1 :: "'a team_state"
    assume st1: "stands tid ''opencode'' ''RUNNING'' (fst (fst st1)) \<and> snd st1 = snd st"
    let ?c = "\<lparr>rc_role = as_role wa, rc_task_id = as_task_id wa, rc_workspace = pw_worktree pw,
               rc_plan_path = plan_path (pw_worktree pw), rc_plan_digest = tn_plan_digest (snd st),
               rc_role_order_index = 0\<rparr>"
    obtain r site where r: "tx_role x (later (role_place (as_role wa)) e) pw ?c (fst st1) = (r, site)"
      by (rule prod.exhaust)
    from assms(2) st1 have "stands tid ''opencode'' ''RUNNING'' (fst site)"
      unfolding steady_team_def by (metis r snd_conv)
    with st1 assms(1) show "yields (case tx_role x (later (role_place (as_role wa)) e) pw ?c (fst st1) of
         (Inl err, site) \<Rightarrow>
           note_role (as_role wa) (role_failed wa '''' (-1) ''executor_error''
               (error_class err @ '':'' @ error_text err)
               (''executor_exception:'' @ error_class err)) (site, snd st1)
       | (Inr r, site) \<Rightarrow> accept_role h pw baseline wa r (site, snd st1)) (role_noted tid wa (snd st)) nothing"
      by (cases r) (auto simp: r role_failed_def intro!: yields_note yields_accept_role)
  qed
qed

section \<open>The graph\<close>

text \<open>The state before role \<open>k\<close>, with the results the graph has collected.\<close>

definition at_role :: "string \<Rightarrow> nat \<Rightarrow> worker_result list \<Rightarrow> 'w team_state \<Rightarrow> bool" where
  "at_role tid k results st \<longleftrightarrow> stands tid ''opencode'' ''RUNNING'' (fst (fst st)) \<and> passed k (snd st)
     \<and> results = map snd (tn_results (snd st)) \<and> list_all (\<lambda>r. wk_task_id r = py_strip tid) results"

definition stopped_at :: "string \<Rightarrow> nat \<Rightarrow> store_error \<Rightarrow> 'w team_state \<Rightarrow> bool" where
  "stopped_at tid k err st \<longleftrightarrow> stands tid ''opencode'' ''RUNNING'' (fst (fst st)) \<and> failed_at k (snd st)
     \<and> err = team_error (SEQUENTIAL_ROLES ! k @ ''_failed'')"

definition team_base :: "string \<Rightarrow> string \<Rightarrow> assignment" where
  "team_base tid wt = \<lparr>as_worker_id = ''sequential'', as_role = ''planner'', as_task_id = tid,
      as_workspace_root = wt\<rparr>"

lemma parse_team_base:
  assumes "py_strip tid \<noteq> ''''" "py_strip wt \<noteq> ''''" "role \<in> set SEQUENTIAL_ROLES"
  shows "parse_assignment ((team_base tid wt)\<lparr>as_role := role\<rparr>)
    = Inr \<lparr>as_worker_id = ''sequential'', as_role = role, as_task_id = py_strip tid,
           as_workspace_root = py_strip wt\<rparr>"
proof -
  have "py_strip ''sequential'' = ''sequential''" "py_strip role = role"
    using assms(3) unfolding SEQUENTIAL_ROLES_def by (auto simp: py_strip_def py_isspace_def)
  with assms show ?thesis by (auto simp: parse_assignment_def team_base_def SEQUENTIAL_ROLES_def)
qed

lemma passed_length: "passed k n \<Longrightarrow> length (tn_results n) = min k 3"
proof -
  assume "passed k n"
  then have "length (tn_results n) = length (tn_roles n)" "tn_roles n = take k SEQUENTIAL_ROLES"
    unfolding passed_def using length_map [of fst "tn_results n"] by simp_all
  then show ?thesis by (simp add: SEQUENTIAL_ROLES_def)
qed

lemma yields_role_node:
  assumes "quiet_files h" "steady_team tid x" "py_strip tid \<noteq> ''''" "py_strip wt \<noteq> ''''" "k < 3"
    "SEQUENTIAL_ROLES ! k = role" "at_role tid k results st"
    "\<And>wa. as_task_id wa = py_strip tid \<Longrightarrow> check wa results = None"
  shows "yields (role_node {} (role_worker e h x pw baseline) (team_base tid wt) role check results st)
    (at_role tid (Suc k)) (\<lambda>err st'. \<exists>k < 3. stopped_at tid k err st')"
proof -
  have role: "role \<in> set SEQUENTIAL_ROLES"
    using nth_mem [of k SEQUENTIAL_ROLES] assms(5,6) by (simp add: SEQUENTIAL_ROLES_def)
  let ?wa = "\<lparr>as_worker_id = ''sequential'', as_role = role, as_task_id = py_strip tid,
           as_workspace_root = py_strip wt\<rparr>"
  have take: "take (Suc k) SEQUENTIAL_ROLES = take k SEQUENTIAL_ROLES @ [role]"
    using assms(5,6) take_Suc_conv_app_nth [of k SEQUENTIAL_ROLES] by (simp add: SEQUENTIAL_ROLES_def)
  have "yields (role_worker e h x pw baseline ?wa st) (role_noted tid ?wa (snd st)) nothing"
    using assms(7) by (intro yields_role_worker assms) (simp add: at_role_def)
  then obtain r st1 where r: "role_worker e h x pw baseline ?wa st = (Inr r, st1)"
      "role_noted tid ?wa (snd st) r st1"
    by (auto simp: yields_returns)
  have node: "role_node {} (role_worker e h x pw baseline) (team_base tid wt) role check results st
    = (if wk_success r then (Inr (results @ [r]), st1) else (Inl (team_error (role @ ''_failed'')), st1))"
    using r(2) by (simp add: role_node_def parse_team_base [OF assms(3,4) role] assms(8) r(1) role_noted_def)
  show ?thesis
  proof (cases "wk_success r")
    case True
    with assms(7) r(2) have "at_role tid (Suc k) (results @ [r]) st1"
      by (auto simp: at_role_def passed_def role_noted_def take)
    with True show ?thesis by (simp add: node)
  next
    case False
    with assms(6,7) r(2) have "stopped_at tid k (team_error (role @ ''_failed'')) st1"
      by (simp add: stopped_at_def at_role_def passed_def failed_at_def role_noted_def take)
    with False assms(5) show ?thesis by (auto simp: node)
  qed
qed

lemma yields_graph:
  assumes "quiet_files h" "steady_team tid x" "py_strip tid \<noteq> ''''" "py_strip wt \<noteq> ''''"
    "stands tid ''opencode'' ''RUNNING'' (fst (fst st))" "tn_roles (snd st) = []" "tn_results (snd st) = []"
  shows "yields (sequential_graph {} (role_worker e h x pw baseline) (team_base tid wt) st)
    (\<lambda>_ st'. stands tid ''opencode'' ''RUNNING'' (fst (fst st')) \<and> passed 3 (snd st'))
    (\<lambda>err st'. \<exists>k < 3. stopped_at tid k err st')"
proof -
  note node = yields_role_node [OF assms(1-4), where e = e and pw = pw and baseline = baseline]
  have start: "at_role tid 0 [] st" using assms(5-7) by (simp add: at_role_def passed_def)
  have coder: "coder_check wa rs = None" if "at_role tid (Suc 0) rs st'" "as_task_id wa = py_strip tid"
    for wa rs and st' :: "'a team_state"
    using that passed_length [of 1 "snd st'"]
    by (cases "tn_results (snd st')") (auto simp: at_role_def passed_def coder_check_def)
  have reviewer: "reviewer_check wa rs = None" if "at_role tid (Suc (Suc 0)) rs st'"
    for wa rs and st' :: "'a team_state"
    using that passed_length [of 2 "snd st'"]
    by (cases "tn_results (snd st')") (auto simp: at_role_def passed_def reviewer_check_def numeral_2_eq_2)
  show ?thesis
    unfolding sequential_graph_def
    by (rule yields_andthen [OF node [where k = 0]], simp, simp add: SEQUENTIAL_ROLES_def, rule start, simp,
        rule yields_andthen [OF node [where k = 1]], simp, simp add: SEQUENTIAL_ROLES_def, simp, erule coder, assumption,
        rule yields_andthen [OF node [where k = 2]], simp, simp add: SEQUENTIAL_ROLES_def,
        simp add: numeral_2_eq_2, rule reviewer, simp add: numeral_2_eq_2)
      (simp add: at_role_def numeral_3_eq_3)
qed

section \<open>How a team ends\<close>

text \<open>
  The outcome and the stored task agree. A failed role is classified; a failed validation, which
  the outcome shows by its command, only sets the status.
\<close>

definition team_ended :: "string \<Rightarrow> execution_outcome \<Rightarrow> db \<Rightarrow> bool" where
  "team_ended tid out s \<longleftrightarrow>
     (if xe_success out then stands tid ''opencode'' ''READY_FOR_REVIEW'' s
      else if xe_validation_command_id out = '''' then
        failed_with tid (xe_failure_classification out) (xe_failure_detail out) s
      else stands tid ''opencode'' ''FAILED'' s)"

lemma yields_in_store:
  "yields r (\<lambda>x s. Q x (s, w)) (\<lambda>err s. E err (s, w)) \<Longrightarrow> yields (in_store r w) Q E"
  by (erule yields_cases) (simp_all add: in_store_def)

lemma team_moves:
  "''VALIDATING'' \<in> set (transition_rules ''RUNNING'')" "''RUNNING'' \<in> set (transition_rules ''PREPARING_WORKSPACE'')"
  "''READY_FOR_REVIEW'' \<in> set (transition_rules ''VALIDATING'')" "''FAILED'' \<in> set (transition_rules ''VALIDATING'')"
  "''RUNNING'' \<notin> set TERMINAL_STATUSES" "''RUNNING'' \<in> set TASK_STATUS_ORDER"
  "''READY_FOR_REVIEW'' \<in> set TASK_STATUS_ORDER" "''FAILED'' \<in> set TASK_STATUS_ORDER"
  by (simp_all add: transition_rules_def TERMINAL_STATUSES_def TASK_STATUS_ORDER_def)

lemma yields_team_failure:
  assumes "stands tid ''opencode'' ''RUNNING'' s"
  shows "\<exists>d. yields (complete_team_failure e tid roles baseline cls reasons dg s) (\<lambda>_. failed_with tid cls d) nothing"
proof
  let ?role = "if roles = [] then ''none'' else last roles"
  have classify: "yields (team_classify e' tid cls ?role s') (\<lambda>_. failed_with tid cls (''sequential team failed at role='' @ ?role)) nothing"
    if "stands tid ''opencode'' ''RUNNING'' s'" for e' s'
    using yields_classify [OF that team_moves(5), of e' cls "''sequential team failed at role='' @ ?role"]
    by (auto simp: team_classify_def yields_returns)
  show "yields (complete_team_failure e tid roles baseline cls reasons dg s)
      (\<lambda>_. failed_with tid cls (''sequential team failed at role='' @ ?role)) nothing"
    unfolding complete_team_failure_def
    by (rule yields_then [OF yields_files [OF assms]], rule yields_then [OF classify], assumption,
        rule yields_then [OF yields_failed_event [OF _ event_types(2)]], assumption, simp)
qed

lemma yields_team_failed:
  assumes "stands tid ''opencode'' ''RUNNING'' (fst (fst st))"
  shows "yields (team_failed e tid known baseline reason st)
    (\<lambda>out st'. \<not> xe_success out \<and> team_ended tid out (fst st')) nothing"
proof -
  let ?n = "snd st" and ?cls = "team_failure_class (tn_results (snd st))"
  obtain d where "yields (complete_team_failure e tid (tn_roles ?n) baseline ?cls [reason, ?cls]
      (tn_plan_digest ?n) (fst (fst st))) (\<lambda>_. failed_with tid ?cls d) nothing"
    using yields_team_failure [OF assms] by blast
  then have "yields (andthen (complete_team_failure e tid (tn_roles ?n) baseline ?cls [reason, ?cls]
      (tn_plan_digest ?n) (fst (fst st))) (\<lambda>_ s1. outcome_of tid known False '''' (-1) True s1))
      (\<lambda>out s. \<not> xe_success out \<and> team_ended tid out s) nothing"
    by (rule yields_then) (rule yields_weaken [OF yields_failed_outcome], auto simp: team_ended_def)
  then show ?thesis
    unfolding team_failed_def Let_def by (intro yields_in_store) simp
qed

definition judged :: "int \<Rightarrow> string" where
  "judged code = (if code = 0 then ''READY_FOR_REVIEW'' else ''FAILED'')"

lemma yields_judged:
  assumes "stands tid ''opencode'' ''VALIDATING'' s"
  shows "yields (if code = 0 then team_validated e tid code n s else team_invalid e tid code shown dg s)
    (\<lambda>_. stands tid ''opencode'' (judged code)) nothing"
proof (cases "code = 0")
  case True
  have "yields (team_validated e tid code n s) (\<lambda>_. stands tid ''opencode'' ''READY_FOR_REVIEW'') nothing"
    unfolding team_validated_def
    by (rule yields_then [OF yields_transition [OF assms team_moves(3)]], simp, simp add: status_moves,
        simp add: team_moves, rule yields_then [OF yields_event [OF _ event_types(3)]], assumption, simp)
  with True show ?thesis by (simp add: judged_def)
next
  case False
  have "yields (team_invalid e tid code shown dg s) (\<lambda>_. stands tid ''opencode'' ''FAILED'') nothing"
    unfolding team_invalid_def
    by (rule yields_then [OF yields_validation [OF assms]], rule yields_then [OF yields_evidence], assumption,
        rule yields_then [OF yields_transition [OF _ team_moves(4)]], assumption, simp, simp add: status_moves,
        simp add: team_moves, rule yields_then [OF yields_event [OF _ event_types(2)]], assumption, simp)
  with False show ?thesis by (simp add: judged_def)
qed

lemma yields_team_evidence:
  assumes "stands tid kind a s"
  shows "yields (persist_team_evidence e tid ok code dg roles p r m s) (\<lambda>_. stands tid kind a) nothing"
  unfolding persist_team_evidence_def
  by (rule yields_then [OF yields_validation [OF assms]], rule yields_then [OF yields_evidence], assumption,
      rule yields_then [OF yields_evidence], assumption, rule yields_then [OF yields_evidence], assumption, simp)

text \<open>A statement of the store, seen from the site.\<close>

lemma yields_site:
  "yields r (\<lambda>_ s. P s) nothing \<Longrightarrow> yields (in_store r w) (\<lambda>_ st. P (fst st)) nothing"
  by (rule yields_in_store) (simp add: yields_def)

lemma yields_team_done:
  assumes "quiet_files h" "stands tid ''opencode'' ''RUNNING'' (fst (fst st))"
  shows "yields (team_done e h tid known pw st) (\<lambda>out st'. team_ended tid out (fst st')) nothing"
proof -
  have out: "yields (in_store (outcome_of tid known (code = 0) ''git_diff_check'' code True (fst st6)) w)
      (\<lambda>out st'. team_ended tid out (fst st')) nothing"
    if "stands tid ''opencode'' (judged code) (fst st6)" for code w and st6 :: "'a site"
    using that yields_outcome [OF that, of known "code = 0" "''git_diff_check''" code True]
    by (intro yields_in_store) (auto simp: team_ended_def judged_def yields_def split: sum.split)
  show ?thesis
    unfolding team_done_def Let_def
    by (rule yields_then [OF yields_reads(1) [OF assms(1)]],
        rule yields_then [OF yields_site [OF yields_files]], simp, rule assms(2),
        rule yields_then [OF yields_reads(3) [OF assms(1)]],
        clarify, rule yields_then [OF yields_site [OF yields_transition [OF _ team_moves(1)]]], assumption,
        simp, simp add: team_moves, simp add: status_moves,
        rule yields_then [OF yields_site [OF yields_judged]], assumption,
        rule yields_then [OF yields_site [OF yields_team_evidence]], assumption, erule out)
qed

lemma yields_team_roles:
  assumes "quiet_files h" "steady_team tid x" "py_strip tid \<noteq> ''''" "py_strip (pw_worktree pw) \<noteq> ''''"
    "stands tid ''opencode'' ''RUNNING'' (fst st)"
  shows "yields (team_roles e h x tid known pw baseline st) (\<lambda>out st'. team_ended tid out (fst st')) nothing"
proof -
  let ?n = "\<lparr>tn_plan_digest = '''', tn_review_digest = '''', tn_coder_snapshot = [],
                       tn_results = [], tn_roles = []\<rparr>"
  let ?g = "sequential_graph {} (role_worker e h x pw baseline) (team_base tid (pw_worktree pw)) (st, ?n)"
  have parsed: "parse_assignment (team_base tid (pw_worktree pw)) = Inr \<lparr>as_worker_id = ''sequential'',
      as_role = ''planner'', as_task_id = py_strip tid, as_workspace_root = py_strip (pw_worktree pw)\<rparr>"
    using parse_team_base [OF assms(3,4), of "''planner''"] by (simp add: SEQUENTIAL_ROLES_def team_base_def)
  have "yields ?g (\<lambda>_ st'. stands tid ''opencode'' ''RUNNING'' (fst (fst st')) \<and> passed 3 (snd st'))
      (\<lambda>err st'. \<exists>k < 3. stopped_at tid k err st')"
    by (rule yields_graph [OF assms(1-4)]) (simp_all add: assms(5))
  then show ?thesis
  proof (cases rule: yields_cases)
    case (raises err st1)
    then have "stands tid ''opencode'' ''RUNNING'' (fst (fst st1))" "error_class err = ''TeamGraphError''"
      by (auto simp: stopped_at_def team_error_def)
    moreover from yields_team_failed [OF this(1)]
    have "yields (team_failed (later 4000 e) tid known baseline (error_text err) st1)
        (\<lambda>out st'. team_ended tid out (fst st')) nothing"
      by (rule yields_weaken) auto
    ultimately show ?thesis using parsed raises(1) by (simp add: team_roles_def team_base_def)
  next
    case (returns r st1)
    from yields_team_done [OF assms(1)] parsed returns show ?thesis
      by (simp add: team_roles_def team_base_def)
  qed
qed

lemma yields_team_prepared:
  assumes "quiet_files h" "steady_team tid x" "py_strip tid \<noteq> ''''" "py_strip (pw_worktree pw) \<noteq> ''''"
    "stands tid ''opencode'' ''PREPARING_WORKSPACE'' (fst st)"
  shows "yields (team_prepared e h x tid root known pw st) (\<lambda>out st'. team_ended tid out (fst st')) nothing"
  unfolding team_prepared_def Let_def
  by (rule yields_then [OF yields_site [OF yields_transition [OF assms(5) team_moves(2)]]], simp,
      simp add: status_moves, simp add: team_moves,
      rule yields_then [OF yields_site [OF yields_event [OF _ event_types(1)]]], assumption,
      rule yields_then [OF yields_reads(1) [OF assms(1)]],
      rule yields_then [OF yields_site [OF yields_files]], simp)
    (rule yields_team_roles [OF assms(1-4)])

text \<open>A queued opencode task always comes to its end.\<close>

lemma yields_block_team:
  assumes "stands tid ''opencode'' a (fst st)" "a \<notin> set TERMINAL_STATUSES" "is_runtime_error err"
  shows "yields (block_team e tid known err d st) (\<lambda>out st'. team_ended tid out (fst st')) nothing"
proof -
  obtain out s where "block_task e tid known '''' d (fst st) = (Inr out, s)" "team_ended tid out s"
    using yields_block [OF assms(1,2), of e known "''''" d] by (auto simp: yields_returns team_ended_def)
  with assms(3) show ?thesis by (simp add: block_team_def)
qed

lemma team_ends:
  assumes "stands tid ''opencode'' ''QUEUED'' (fst st)" "py_strip tid \<noteq> ''''" "py_strip root \<noteq> ''''"
    "quiet_files (th_files th)" "\<And>t err. th_create th t = Inl err \<Longrightarrow> is_runtime_error err"
    "\<And>t x. th_create th t = Inr x \<Longrightarrow> steady_team tid x"
  shows "yields (execute_sequential_team e th root tid st) (\<lambda>out st'. team_ended tid out (fst st')) nothing"
proof -
  obtain v where v: "get_task tid None (fst st) = Inr v" "t_status (tv_row v) = ''QUEUED''"
      "t_executor_kind (tv_row v) = ''opencode''"
    by (rule stands_view [OF assms(1)])
  let ?known = "length (tv_evidence_refs v)"
  show ?thesis
  proof (cases "th_create th (tv_row v)")
    case (Inl err)
    with assms(3) v yields_block_team [OF assms(1) status_moves(11) assms(5) [OF Inl]] show ?thesis
      by (simp add: execute_sequential_team_def Let_def)
  next
    case (Inr x)
    have "yields (in_store (transition_to e tid ''PREPARING_WORKSPACE'' (fst st)) (snd st))
        (\<lambda>_ st1. stands tid ''opencode'' ''PREPARING_WORKSPACE'' (fst st1)) nothing"
      by (rule yields_site [OF yields_transition [OF assms(1)]]) (simp_all add: status_moves)
    then have "yields (andthen (in_store (transition_to e tid ''PREPARING_WORKSPACE'' (fst st)) (snd st)) (\<lambda>_ st1.
                case tx_prepare x (later 10 e) tid root st1 of
                  (Inl err, st2) \<Rightarrow>
                    block_team (later 1000 e) tid ?known err
                      (''worktree_preparation_failed:'' @ error_text err) st2
                | (Inr pw, st2) \<Rightarrow> team_prepared (later 1000 e) (th_files th) x tid root ?known pw st2))
        (\<lambda>out st'. team_ended tid out (fst st')) nothing"
    proof (rule yields_then)
      fix y and st1 :: "'a site"
      assume st1: "stands tid ''opencode'' ''PREPARING_WORKSPACE'' (fst st1)"
      with assms(6) [OF Inr] have "yields (tx_prepare x (later 10 e) tid root st1)
          (\<lambda>pw st'. stands tid ''opencode'' ''PREPARING_WORKSPACE'' (fst st') \<and> py_strip (pw_worktree pw) \<noteq> '''')
          (\<lambda>err st'. stands tid ''opencode'' ''PREPARING_WORKSPACE'' (fst st') \<and> is_runtime_error err)"
        unfolding steady_team_def by blast
      then show "yields (case tx_prepare x (later 10 e) tid root st1 of
                  (Inl err, st2) \<Rightarrow>
                    block_team (later 1000 e) tid ?known err
                      (''worktree_preparation_failed:'' @ error_text err) st2
                | (Inr pw, st2) \<Rightarrow> team_prepared (later 1000 e) (th_files th) x tid root ?known pw st2)
          (\<lambda>out st'. team_ended tid out (fst st')) nothing"
        by (rule yields_cases)
          (auto intro: yields_block_team [OF _ status_moves(10)] yields_team_prepared [OF assms(4) assms(6) [OF Inr] assms(2)])
    qed
    with v Inr assms(3) show ?thesis by (simp add: execute_sequential_team_def Let_def)
  qed
qed

section \<open>What a returned team has been through\<close>

definition role_call ::
    "env \<Rightarrow> 'w team_executor \<Rightarrow> prepared \<Rightarrow> string \<Rightarrow> string \<Rightarrow> string \<Rightarrow> 'w site
     \<Rightarrow> executor_result outcome \<times> 'w site" where
  "role_call e x pw tid role dg st =
     tx_role x (later (role_place role) e) pw
       \<lparr>rc_role = role, rc_task_id = py_strip tid, rc_workspace = pw_worktree pw,
        rc_plan_path = plan_path (pw_worktree pw), rc_plan_digest = dg, rc_role_order_index = 0\<rparr> st"

text \<open>
  The planner left a valid plan and the product as it was; the coder, told the digest of that
  plan, changed the product; the reviewer left a valid review and the product as the coder had
  made it.
\<close>

definition planned :: "'w file_host \<Rightarrow> string \<Rightarrow> file_change list \<Rightarrow> string \<Rightarrow> 'w \<Rightarrow> bool" where
  "planned h wt baseline dg w \<longleftrightarrow> validate_plan_handoff h w wt = ''''
     \<and> handoff_digest h w (plan_path wt) = Inr dg \<and> product_diff h w wt = Inr baseline"

definition coded :: "'w file_host \<Rightarrow> string \<Rightarrow> file_change list \<Rightarrow> 'w \<Rightarrow> bool" where
  "coded h wt files w \<longleftrightarrow> wh_is_file h w (plan_path wt) \<and> product_diff h w wt = Inr files \<and> files \<noteq> []"

definition reviewed :: "'w file_host \<Rightarrow> string \<Rightarrow> file_change list \<Rightarrow> 'w \<Rightarrow> bool" where
  "reviewed h wt files w \<longleftrightarrow> validate_review_handoff h w wt = '''' \<and> product_diff h w wt = Inr files"

definition teamwork ::
    "env \<Rightarrow> 'w file_host \<Rightarrow> 'w team_executor \<Rightarrow> string \<Rightarrow> prepared \<Rightarrow> file_change list \<Rightarrow> 'w site \<Rightarrow> 'w site \<Rightarrow> bool"
where
  "teamwork e h x tid pw baseline st st' \<longleftrightarrow>
     (\<exists>w x1 st1 dg x2 st2 files x3.
        wh_mkdir h (snd st) (handoff_dir (pw_worktree pw)) = (Inr (), w)
        \<and> role_call e x pw tid ''planner'' '''' (fst st, w) = (Inr x1, st1) \<and> er_success x1
        \<and> planned h (pw_worktree pw) baseline dg (snd st1)
        \<and> role_call e x pw tid ''coder'' dg st1 = (Inr x2, st2) \<and> er_success x2
        \<and> coded h (pw_worktree pw) files (snd st2)
        \<and> role_call e x pw tid ''reviewer'' dg st2 = (Inr x3, st') \<and> er_success x3
        \<and> reviewed h (pw_worktree pw) files (snd st'))"

lemma note_success: "note_role role r st = (Inr r', st') \<longleftrightarrow> r' = r
    \<and> st' = (fst st, (snd st)\<lparr>tn_results := tn_results (snd st) @ [(role, r)], tn_roles := tn_roles (snd st) @ [role]\<rparr>)"
  by (auto simp: note_role_def)

lemma refuse_fails: "refuse_role wa x c d st = (Inr r, st') \<Longrightarrow> \<not> wk_success r"
  by (auto simp: refuse_role_def note_success role_failed_def)

lemma reading_ok: "reading r s = (Inr x, s') \<longleftrightarrow> r = Inr x \<and> s' = s"
  by (auto simp: reading_def)

text \<open>A role that succeeds has called the executor, and passed the checks of its role.\<close>

lemma worker_called:
  assumes "role_worker e h x pw baseline wa st = (Inr r, st')" "wk_success r" "as_task_id wa = py_strip tid"
  obtains y st1 site where "make_handoff_dir h pw wa (fst st) = (Inr (), st1)"
    "role_call e x pw tid (as_role wa) (tn_plan_digest (snd st)) st1 = (Inr y, site)" "er_success y"
    "accept_role h pw baseline wa y (site, snd st) = (Inr r, st')"
proof -
  obtain st1 where 1: "make_handoff_dir h pw wa (fst st) = (Inr (), st1)"
    using assms(1) by (cases "make_handoff_dir h pw wa (fst st)") (auto simp: role_worker_def andthen_ok on_site_def)
  obtain t site where t: "role_call e x pw tid (as_role wa) (tn_plan_digest (snd st)) st1 = (t, site)"
    by (rule prod.exhaust)
  show thesis
  proof (cases t)
    case (Inl err)
    with 1 t assms show ?thesis
      by (auto simp: role_worker_def on_site_def role_call_def note_success role_failed_def)
  next
    case (Inr y)
    with 1 t assms have a: "accept_role h pw baseline wa y (site, snd st) = (Inr r, st')"
      by (simp add: role_worker_def on_site_def role_call_def)
    moreover from this assms(2) have "er_success y"
      by (auto simp: accept_role_def note_success role_failed_def split: if_splits)
    ultimately show ?thesis using that 1 t Inr by blast
  qed
qed

lemma accepted_planner:
  assumes "accept_planner h pw baseline wa y (site, n) = (Inr r, st')" "wk_success r"
  shows "fst st' = site \<and> planned h (pw_worktree pw) baseline (tn_plan_digest (snd st')) (snd site)"
  using assms
  by (auto simp: accept_planner_def Let_def andthen_ok reading_ok note_success planned_def
      split: if_splits dest: refuse_fails)

lemma accepted_coder:
  assumes "accept_coder h pw wa y (site, n) = (Inr r, st')" "wk_success r"
  shows "fst st' = site \<and> tn_plan_digest (snd st') = tn_plan_digest n
    \<and> coded h (pw_worktree pw) (tn_coder_snapshot (snd st')) (snd site)"
  using assms
  by (auto simp: accept_coder_def Let_def andthen_ok reading_ok note_success coded_def
      split: if_splits dest: refuse_fails)

lemma accepted_reviewer:
  assumes "accept_reviewer h pw wa y (site, n) = (Inr r, st')" "wk_success r"
  shows "fst st' = site \<and> reviewed h (pw_worktree pw) (tn_coder_snapshot n) (snd site)"
  using assms
  by (auto simp: accept_reviewer_def Let_def andthen_ok reading_ok note_success reviewed_def
      split: if_splits dest: refuse_fails)

text \<open>A node that returns has run its worker, with success.\<close>

lemma node_returned:
  assumes "role_node {} worker (team_base tid wt) role check results st = (Inr results', st')"
  obtains wa r where "worker wa st = (Inr r, st')" "wk_success r" "as_role wa = py_strip role"
    "as_task_id wa = py_strip tid"
proof -
  obtain wa where wa: "parse_assignment ((team_base tid wt)\<lparr>as_role := role\<rparr>) = Inr wa"
    using assms by (auto simp: role_node_def split: sum.splits)
  then have "as_role wa = py_strip role" "as_task_id wa = py_strip tid"
    by (auto simp: parse_assignment_def team_base_def Let_def split: if_splits)
  with assms wa that show thesis
    by (auto simp: role_node_def andthen_ok split: option.splits if_splits)
qed

lemma role_names:
  "py_strip ''planner'' = ''planner''" "py_strip ''coder'' = ''coder''" "py_strip ''reviewer'' = ''reviewer''"
  by (simp_all add: py_strip_def py_isspace_def)

lemma graph_teamwork:
  assumes "sequential_graph {} (role_worker e h x pw baseline) (team_base tid (pw_worktree pw)) st = (Inr t, st')"
    "tn_plan_digest (snd st) = ''''"
  shows "teamwork e h x tid pw baseline (fst st) (fst st')"
proof -
  let ?node = "\<lambda>role check. role_node {} (role_worker e h x pw baseline) (team_base tid (pw_worktree pw)) role check"
  obtain rs1 st1 rs2 st2 rs3 where nodes: "?node ''planner'' (\<lambda>_ _. None) [] st = (Inr rs1, st1)"
      "?node ''coder'' coder_check rs1 st1 = (Inr rs2, st2)" "?node ''reviewer'' reviewer_check rs2 st2 = (Inr rs3, st')"
    using assms(1) by (auto simp: sequential_graph_def andthen_ok)
  obtain a1 r1 where a1: "role_worker e h x pw baseline a1 st = (Inr r1, st1)" "wk_success r1"
      "as_role a1 = ''planner''" "as_task_id a1 = py_strip tid"
    by (rule node_returned [OF nodes(1)]) (auto simp: role_names)
  obtain a2 r2 where a2: "role_worker e h x pw baseline a2 st1 = (Inr r2, st2)" "wk_success r2"
      "as_role a2 = ''coder''" "as_task_id a2 = py_strip tid"
    by (rule node_returned [OF nodes(2)]) (auto simp: role_names)
  obtain a3 r3 where a3: "role_worker e h x pw baseline a3 st2 = (Inr r3, st')" "wk_success r3"
      "as_role a3 = ''reviewer''" "as_task_id a3 = py_strip tid"
    by (rule node_returned [OF nodes(3)]) (auto simp: role_names)
  obtain y1 s1 site1 where y1: "make_handoff_dir h pw a1 (fst st) = (Inr (), s1)"
      "role_call e x pw tid ''planner'' '''' s1 = (Inr y1, site1)" "er_success y1"
      "accept_role h pw baseline a1 y1 (site1, snd st) = (Inr r1, st1)"
    by (rule worker_called [OF a1(1,2,4)]) (simp add: a1(3) assms(2))
  obtain y2 s2 site2 where y2: "make_handoff_dir h pw a2 (fst st1) = (Inr (), s2)"
      "role_call e x pw tid ''coder'' (tn_plan_digest (snd st1)) s2 = (Inr y2, site2)" "er_success y2"
      "accept_role h pw baseline a2 y2 (site2, snd st1) = (Inr r2, st2)"
    by (rule worker_called [OF a2(1,2,4)]) (simp add: a2(3))
  obtain y3 s3 site3 where y3: "make_handoff_dir h pw a3 (fst st2) = (Inr (), s3)"
      "role_call e x pw tid ''reviewer'' (tn_plan_digest (snd st2)) s3 = (Inr y3, site3)" "er_success y3"
      "accept_role h pw baseline a3 y3 (site3, snd st2) = (Inr r3, st')"
    by (rule worker_called [OF a3(1,2,4)]) (simp add: a3(3))
  have p: "fst st1 = site1" "planned h (pw_worktree pw) baseline (tn_plan_digest (snd st1)) (snd site1)"
    using accepted_planner [of h pw baseline a1 y1 site1 "snd st" r1 st1] a1(2,3) y1(3,4)
    by (simp_all add: accept_role_def)
  have c: "fst st2 = site2" "tn_plan_digest (snd st2) = tn_plan_digest (snd st1)"
      "coded h (pw_worktree pw) (tn_coder_snapshot (snd st2)) (snd site2)"
    using accepted_coder [of h pw a2 y2 site2 "snd st1" r2 st2] a2(2,3) y2(3,4)
    by (simp_all add: accept_role_def)
  have r: "fst st' = site3" "reviewed h (pw_worktree pw) (tn_coder_snapshot (snd st2)) (snd site3)"
    using accepted_reviewer [of h pw a3 y3 site3 "snd st2" r3 st'] a3(2,3) y3(3,4)
    by (simp_all add: accept_role_def)
  obtain w where "wh_mkdir h (snd (fst st)) (handoff_dir (pw_worktree pw)) = (Inr (), w)" "s1 = (fst (fst st), w)"
    using y1(1) a1(3) by (auto simp: make_handoff_dir_def split: prod.splits)
  moreover have "s2 = fst st1" "s3 = fst st2"
    using y2(1) y3(1) a2(3) a3(3) by (simp_all add: make_handoff_dir_def)
  ultimately show ?thesis
    using y1(2,3) y2(2,3) y3(2,3) p c r unfolding teamwork_def by metis
qed

section \<open>Success\<close>

lemma in_store_ok: "in_store r w = (Inr x, st) \<longleftrightarrow> (\<exists>s. r = (Inr x, s) \<and> st = (s, w))"
  by (cases r) (auto simp: in_store_def)

lemma outcome_success: "outcome_of tid known ok c x b s = (Inr out, s') \<Longrightarrow> xe_success out = ok \<and> s' = s"
  by (auto simp: outcome_of_def split: sum.splits)

lemma blocked_fails: "block_team e tid known err d st = (Inr out, st') \<Longrightarrow> \<not> xe_success out"
  by (auto simp: block_team_def block_task_def andthen_ok split: if_splits prod.splits dest: outcome_success)

lemma failed_fails: "team_failed e tid known baseline reason st = (Inr out, st') \<Longrightarrow> \<not> xe_success out"
  by (auto simp: team_failed_def Let_def in_store_ok andthen_ok dest: outcome_success)

lemma done_validated:
  assumes "team_done e h tid known pw st = (Inr out, st')" "xe_success out"
  shows "snd st' = snd (remove_handoff h (handoff_dir (pw_worktree pw)) (snd (fst st)))
    \<and> (\<exists>shown dg. validation_run e h (snd st') ''git_diff_check'' (pw_worktree pw) = Inr (0, shown, dg))"
proof -
  let ?w = "snd (remove_handoff h (handoff_dir (pw_worktree pw)) (snd (fst st)))"
  obtain code shown dg s1 s2 where v: "team_validation e h ?w (pw_worktree pw) = Inr (code, shown, dg)"
      "outcome_of tid known (code = 0) ''git_diff_check'' code True s1 = (Inr out, s2)" "st' = (s2, ?w)"
    using assms(1) unfolding team_done_def Let_def by (auto simp: andthen_ok reading_ok in_store_ok)
  from outcome_success [OF v(2)] assms(2) have "code = 0" by simp
  with v(1) have "validation_run e h ?w ''git_diff_check'' (pw_worktree pw) = Inr (0, shown, dg)"
    by (auto simp: team_validation_def split: sum.splits if_splits)
  with v(3) show ?thesis by auto
qed

lemma roles_success:
  assumes "team_roles e h x tid known pw baseline st = (Inr out, st')" "xe_success out"
  shows "\<exists>e2 st2 shown dg. teamwork e h x tid pw baseline st st2
    \<and> snd st' = snd (remove_handoff h (handoff_dir (pw_worktree pw)) (snd st2))
    \<and> validation_run e2 h (snd st') ''git_diff_check'' (pw_worktree pw) = Inr (0, shown, dg)"
proof -
  let ?n = "\<lparr>tn_plan_digest = '''', tn_review_digest = '''', tn_coder_snapshot = [],
                       tn_results = [], tn_roles = []\<rparr>"
  obtain r st1 where r: "sequential_graph {} (role_worker e h x pw baseline) (team_base tid (pw_worktree pw)) (st, ?n) = (r, st1)"
    by (rule prod.exhaust)
  show ?thesis
  proof (cases r)
    case (Inl err)
    with r assms show ?thesis
      by (auto simp: team_roles_def team_base_def split: sum.splits if_splits dest: failed_fails)
  next
    case (Inr t)
    with r assms(1) have "team_done (later 4000 e) h tid known pw st1 = (Inr out, st')"
      by (auto simp: team_roles_def team_base_def split: sum.splits)
    note checked = done_validated [OF this assms(2)]
    have "teamwork e h x tid pw baseline st (fst st1)"
      using graph_teamwork [OF r [unfolded Inr]] by (simp only: fst_conv snd_conv team_notes.simps)
    with checked show ?thesis by blast
  qed
qed

lemma prepared_success:
  assumes "team_prepared e h x tid root known pw st = (Inr out, st')" "xe_success out"
  shows "\<exists>baseline e1 e2 st1 st2 shown dg. product_diff h (snd st1) (pw_worktree pw) = Inr baseline
    \<and> teamwork e1 h x tid pw baseline st1 st2
    \<and> snd st' = snd (remove_handoff h (handoff_dir (pw_worktree pw)) (snd st2))
    \<and> validation_run e2 h (snd st') ''git_diff_check'' (pw_worktree pw) = Inr (0, shown, dg)"
proof -
  obtain baseline st1 where 1: "product_diff h (snd st1) (pw_worktree pw) = Inr baseline"
      "team_roles (later 1000 e) h x tid known pw baseline st1 = (Inr out, st')"
    using assms(1) unfolding team_prepared_def Let_def by (auto simp: andthen_ok reading_ok in_store_ok)
  from roles_success [OF 1(2) assms(2)] 1(1) show ?thesis by blast
qed

lemma team_success:
  assumes "execute_sequential_team e th root tid st = (Inr out, st')" "xe_success out"
  shows "\<exists>t x pw baseline e1 e2 st1 st2 shown dg.
     th_create th t = Inr x \<and> product_diff (th_files th) (snd st1) (pw_worktree pw) = Inr baseline
     \<and> teamwork e1 (th_files th) x tid pw baseline st1 st2
     \<and> snd st' = snd (remove_handoff (th_files th) (handoff_dir (pw_worktree pw)) (snd st2))
     \<and> validation_run e2 (th_files th) (snd st') ''git_diff_check'' (pw_worktree pw) = Inr (0, shown, dg)"
proof -
  obtain v where v: "get_task tid None (fst st) = Inr v"
    using assms(1) by (auto simp: execute_sequential_team_def Let_def split: if_splits sum.splits)
  show ?thesis
  proof (cases "th_create th (tv_row v)")
    case (Inl err)
    with v assms show ?thesis
      by (auto simp: execute_sequential_team_def Let_def split: if_splits dest: blocked_fails)
  next
    case (Inr x)
    with v assms(1) obtain st1 where st1: "(case tx_prepare x (later 10 e) tid root st1 of
            (Inl err, st2) \<Rightarrow> block_team (later 1000 e) tid (length (tv_evidence_refs v)) err
                (''worktree_preparation_failed:'' @ error_text err) st2
          | (Inr pw, st2) \<Rightarrow> team_prepared (later 1000 e) (th_files th) x tid root (length (tv_evidence_refs v)) pw st2)
        = (Inr out, st')"
      by (auto simp: execute_sequential_team_def Let_def andthen_ok split: if_splits)
    obtain p st2 where p: "tx_prepare x (later 10 e) tid root st1 = (p, st2)" by (rule prod.exhaust)
    show ?thesis
    proof (cases p)
      case (Inl err)
      with st1 p assms(2) show ?thesis by (auto dest: blocked_fails)
    next
      case 2: (Inr pw)
      with st1 p have "team_prepared (later 1000 e) (th_files th) x tid root (length (tv_evidence_refs v)) pw st2
          = (Inr out, st')" by simp
      from prepared_success [OF this assms(2)] Inr show ?thesis by blast
    qed
  qed
qed

section \<open>What the comparison of two products sees\<close>

text \<open>Every entry of a product has a path, and carries the digest of the content at that path.\<close>

definition digests_ok :: "'w file_host \<Rightarrow> 'w \<Rightarrow> string \<Rightarrow> file_change \<Rightarrow> bool" where
  "digests_ok h w wt f \<longleftrightarrow> (\<exists>p. fc_path f = Some p
     \<and> fc_content_digest f = Some (content_digest h w (path_div wt p)))"

lemma numstat_digests:
  "numstat_files h w wt ls = Inr fs \<Longrightarrow> list_all (digests_ok h w wt) fs"
proof (induction ls arbitrary: fs)
  case (Cons l ls)
  from Cons.prems obtain gs hs where gs: "numstat_line h w wt l = Inr gs" "numstat_files h w wt ls = Inr hs" "fs = gs @ hs"
    by (cases "numstat_files h w wt ls") (auto split: sum.splits)
  then have "list_all (digests_ok h w wt) gs"
    by (auto simp: numstat_line_def digests_ok_def changed_file_def split: list.splits sum.splits)
  with gs Cons.IH show ?case by simp
qed simp

lemma untracked_digests: "list_all (digests_ok h w wt) (untracked_files h w wt seen ls)"
  by (induction ls arbitrary: seen) (auto simp: Let_def digests_ok_def changed_file_def split: prod.split)

lemma product_digests:
  assumes "product_diff h w wt = Inr fs"
  shows "list_all (digests_ok h w wt) fs"
proof -
  obtain gs where gs: "collect_changed_files h w wt = Inr gs" "set fs \<subseteq> set gs"
    using assms by (auto simp: product_diff_def map_sum_def split: sum.splits)
  then have "list_all (digests_ok h w wt) gs"
    by (auto simp: collect_changed_files_def untracked_digests split: sum.splits if_splits)
      (rule numstat_digests, assumption)+
  with gs(2) show ?thesis by (auto simp: list_all_iff)
qed

lemma same_product_same_digest:
  assumes "product_diff h w wt = Inr fs" "product_diff h w' wt = Inr fs" "Some p \<in> fc_path ` set fs"
  shows "content_digest h w (path_div wt p) = content_digest h w' (path_div wt p)"
  using assms(3) product_digests [OF assms(1)] product_digests [OF assms(2)]
  by (auto simp: list_all_iff digests_ok_def) (metis option.inject)

end
