(* ===== verification/Team_Properties.thy ===== *)
theory Team_Properties
  imports Scenarios Team_Laws
begin

text \<open>
  The properties of sequential teams: how a team always ends, what a successful team has been
  through, that a reviewer cannot touch the content of the product, and where the service falls
  short of its documentation.
\<close>

section \<open>A file system for the witnesses\<close>

text \<open>
  Regular files with their contents; git reports all of them as untracked, and \<open>git diff --check\<close>
  objects to a file that says \<open>BAD\<close>.
\<close>

type_synonym files = "(string \<times> string) list"

definition tp_git :: "files \<Rightarrow> string list \<Rightarrow> string \<Rightarrow> string + (int \<times> string \<times> string)" where
  "tp_git w argv cwd =
     (if argv = [''git'', ''ls-files'', ''--others'', ''--exclude-standard''] then
        Inr (0, concat (map (\<lambda>(p, _). drop (length cwd + 1) p @ [CHR 0x0A])
                  (filter (\<lambda>(p, _). starts_with (cwd @ ''/'') p) w)), '''')
      else if argv = [''git'', ''diff'', ''--check''] then
        Inr (if list_ex (\<lambda>(_, b). b = ''BAD'') w then 2 else 0, '''', '''')
      else Inr (0, '''', ''''))"

definition tp_files :: "files file_host" where
  "tp_files =
     \<lparr>wh_exists = (\<lambda>w p. map_of w p \<noteq> None \<or> list_ex (\<lambda>(q, _). starts_with (p @ ''/'') q) w),
      wh_is_dir = (\<lambda>w p. p = ''/wt'' \<or> list_ex (\<lambda>(q, _). starts_with (p @ ''/'') q) w),
      wh_is_file = (\<lambda>w p. map_of w p \<noteq> None), wh_is_symlink = (\<lambda>_ _. False),
      wh_resolve = (\<lambda>_ _ p. Some p), wh_size = (\<lambda>w p. map_option (\<lambda>b. int (length b)) (map_of w p)),
      wh_bytes = map_of, wh_text = map_of,
      wh_files_in = (\<lambda>w p. filter (starts_with (p @ ''/'')) (map fst w)),
      wh_mkdir = (\<lambda>w p. (Inr (), w)),
      wh_rmtree = (\<lambda>w p. filter (\<lambda>(q, _). \<not> starts_with (p @ ''/'') q) w),
      wh_run = tp_git, wh_digest = (\<lambda>b. ''sha:'' @ b)\<rparr>"

text \<open>An executor that writes one file in each role.\<close>

definition tp_result :: executor_result where
  "tp_result = \<lparr>er_success = True, er_validation_exit_code = 0,
     er_validation_command_id = ''git_diff_check'', er_validation_output_digest = '''',
     er_validation_output_summary = '''', er_changed_files = [], er_error = '''',
     er_execution_id = ''x'', er_failure_classification = ''''\<rparr>"

definition tp_write :: "(string \<times> string) list \<Rightarrow> string \<Rightarrow> string \<times> string" where
  "tp_write work role = (case map_of work role of
     None \<Rightarrow> (''/wt/spare'', '''') | Some b \<Rightarrow>
       (if role = ''planner'' then ''/wt/.reverse-agent-handoff/plan.md''
        else if role = ''coder'' then ''/wt/a.py'' else ''/wt/.reverse-agent-handoff/review.md'', b))"

definition tp_executor :: "(string \<times> string) list \<Rightarrow> files team_executor" where
  "tp_executor work =
     \<lparr>tx_prepare = (\<lambda>e tid root st. (Inr \<lparr>pw_worktree = ''/wt'', pw_base_sha = ''base'',
         pw_execution_id = ''exec'', pw_cli_path = ''opencode'', pw_is_cmd = False,
         pw_opencode_exe = None\<rparr>, st)),
      tx_role = (\<lambda>e pw rc st. (Inr tp_result, (fst st, tp_write work (rc_role rc) # snd st)))\<rparr>"

definition tp_host :: "(string \<times> string) list \<Rightarrow> files team_host" where
  "tp_host work = \<lparr>th_files = tp_files, th_create = (\<lambda>_. Inr (tp_executor work))\<rparr>"

definition tp_work :: "string \<Rightarrow> (string \<times> string) list" where
  "tp_work code = [(''planner'', ''plan''), (''coder'', code), (''reviewer'', ''fine'')]"

definition tp_run :: "(string \<times> string) list \<Rightarrow> execution_outcome outcome \<times> files site" where
  "tp_run work = execute_sequential_team (wenv 50 0) (tp_host work) ''/root'' w_task_id (queued_db, [])"




section \<open>Properties\<close>



text \<open>
  C12. A team that reports success has been through the whole protocol: the planner left a valid
  plan and no other change, the coder changed the product, the reviewer left a valid review and
  no other change, and the validation command passed on what they left. No role can be skipped,
  reordered or failed on the way.
\<close>

theorem successful_team_reviewed:
  assumes "execute_sequential_team e th root tid st = (Inr out, st')" "xe_success out"
  shows "\<exists>t x pw baseline e1 e2 st1 st2 shown dg.
     th_create th t = Inr x \<and> product_diff (th_files th) (snd st1) (pw_worktree pw) = Inr baseline
     \<and> teamwork e1 (th_files th) x tid pw baseline st1 st2
     \<and> snd st' = snd (remove_handoff (th_files th) (handoff_dir (pw_worktree pw)) (snd st2))
     \<and> validation_run e2 (th_files th) (snd st') ''git_diff_check'' (pw_worktree pw) = Inr (0, shown, dg)"
  by (rule team_success [OF assms])

definition tp_succeeded :: bool where
  "tp_succeeded = (case tp_run (tp_work ''ok'') of (Inr out, _) \<Rightarrow> xe_success out | _ \<Rightarrow> False)"

theorem successful_team_reviewed_witness:
  "\<exists>out st' pw x baseline e1 st1 st2. tp_run (tp_work ''ok'') = (Inr out, st') \<and> xe_success out
     \<and> product_diff tp_files (snd st1) (pw_worktree pw) = Inr baseline
     \<and> teamwork e1 tp_files x w_task_id pw baseline st1 st2"
proof -
  have tp_succeeded by code_simp
  then obtain out st' where r: "tp_run (tp_work ''ok'') = (Inr out, st')" "xe_success out"
    by (auto simp: tp_succeeded_def split: prod.splits sum.splits)
  from successful_team_reviewed [OF r(1) [unfolded tp_run_def] r(2)] r show ?thesis
    by (simp add: tp_host_def) metis
qed

text \<open>
  C14. The comparison the service makes between two readings of the product sees every change
  of content: where a file of the product is a regular file at both readings, and SHA-256 does
  not collide, its bytes are the same. So a reviewer whose change is accepted has changed no
  byte of what the coder made.
\<close>

theorem same_product_same_bytes:
  assumes "coded h wt files w" "reviewed h wt files w'"
    "Some p \<in> fc_path ` set files" "inj (wh_digest h)"
    "wh_exists h w (path_div wt p)" "wh_is_file h w (path_div wt p)" "\<not> wh_is_symlink h w (path_div wt p)"
    "wh_bytes h w (path_div wt p) = Some b" "wh_digest h b \<noteq> ''''"
  shows "wh_bytes h w' (path_div wt p) = Some b \<and> \<not> wh_is_symlink h w' (path_div wt p)"
proof -
  have "content_digest h w (path_div wt p) = content_digest h w' (path_div wt p)"
    using assms(1-3) by (intro same_product_same_digest) (simp_all add: coded_def reviewed_def)
  then have "content_digest h w' (path_div wt p) = wh_digest h b"
    using assms(5-8) by (simp add: content_digest_def)
  with assms(4,9) show ?thesis
    by (auto simp: content_digest_def dest: injD split: if_splits option.splits)
qed

definition tp_coded :: files where
  "tp_coded = [(''/wt/a.py'', ''ok''), (''/wt/.reverse-agent-handoff/plan.md'', ''plan'')]"

definition tp_reviewed :: files where
  "tp_reviewed = (''/wt/.reverse-agent-handoff/review.md'', ''fine'') # tp_coded"

definition tp_product :: "file_change list" where
  "tp_product = [changed_file ''a.py'' ''added'' 1 0 ''sha:ok'']"

theorem same_product_same_bytes_witness: "wh_bytes tp_files tp_reviewed ''/wt/a.py'' = Some ''ok''"
proof -
  have "product_diff tp_files tp_coded ''/wt'' = Inr tp_product" by code_simp
  moreover have "product_diff tp_files tp_reviewed ''/wt'' = Inr tp_product" by code_simp
  moreover have "wh_is_file tp_files tp_coded (plan_path ''/wt'')" by code_simp
  moreover have "validate_review_handoff tp_files tp_reviewed ''/wt'' = ''''" by code_simp
  moreover have "path_div ''/wt'' ''a.py'' = ''/wt/a.py''" by code_simp
  moreover have "wh_exists tp_files tp_coded ''/wt/a.py''" "wh_is_file tp_files tp_coded ''/wt/a.py''"
    "wh_bytes tp_files tp_coded ''/wt/a.py'' = Some ''ok''" by code_simp+
  ultimately show ?thesis
    using same_product_same_bytes [of tp_files "''/wt''" tp_product tp_coded tp_reviewed "''a.py''" "''ok''"]
    by (simp add: coded_def reviewed_def tp_product_def changed_file_def) (simp add: tp_files_def inj_def)
qed



definition tp_notes_left :: bool where
  "tp_notes_left =
     (case tp_run [(''planner'', ''plan''), (''coder'', ''ok'')] of
        (Inr out, (s, w)) \<Rightarrow>
          \<not> xe_success out \<and> xe_failure_classification out = ''invalid_review_handoff''
          \<and> map_of w ''/wt/.reverse-agent-handoff/plan.md'' = Some ''plan''
      | _ \<Rightarrow> False)"

text \<open>
  The notes are cleaned up only when all three roles succeed: a team that fails in its last
  role leaves them in the worktree, where git reports them as new files.
\<close>

theorem failed_team_leaves_notes: tp_notes_left
  by code_simp

end
