(* ===== verification/Durable_Team.thy ===== *)
theory Durable_Team
  imports Durable_Single Team_Execution
begin

text \<open>
  \<open>DurableExecutionService\<close> (durable_execution.py) for sequential teams: the roles run one by one
  under a lease, each followed by its checkpoint, so that a team interrupted between two roles
  goes on with the next one. The state is the database with the file system. Preparing the
  worktree, the executor reaches the store only through the fenced callback; in its roles it is
  given the store itself, so a role may do anything to both.
\<close>

section \<open>The host\<close>

text \<open>
  What the router creates; \<open>dx_reconstruct\<close> is \<open>None\<close> for an executor without
  \<open>reconstruct_prepared_context\<close>.
\<close>

record 'w durable_executor =
  dx_prepare :: "string \<Rightarrow> string \<Rightarrow> 'w \<Rightarrow> (prepared outcome \<times> 'w) guest"
  dx_role :: "env \<Rightarrow> prepared \<Rightarrow> role_context \<Rightarrow> 'w site \<Rightarrow> executor_result outcome \<times> 'w site"
  dx_reconstruct :: "(string \<Rightarrow> string \<Rightarrow> string \<Rightarrow> 'w \<Rightarrow> prepared outcome) option"

text \<open>
  The rest: the file system, the exception of resolving the executor's arguments, the router,
  \<open>git rev-parse HEAD\<close> (empty on failure), the path of the checkpoint database with the making
  of its directory, connecting to it, and the results that its checkpointer keeps for a thread;
  LangGraph appends the results of a run to them. \<open>redact_secrets\<close> is a set of regular
  expressions.
\<close>

record 'w durable_team_host =
  dm_files :: "'w file_host"
  dm_kwargs :: "task_row \<Rightarrow> unit outcome"
  dm_create :: "task_row \<Rightarrow> store_error + 'w durable_executor"
  dm_head :: "'w \<Rightarrow> string \<Rightarrow> string"
  dm_checkpoint_path :: "string \<Rightarrow> string outcome"
  dm_connect :: "string \<Rightarrow> unit outcome"
  dm_saved :: "'w \<Rightarrow> string \<Rightarrow> worker_result list"
  dm_redact :: "string \<Rightarrow> string"

section \<open>One role\<close>

text \<open>
  What the role worker of one invocation keeps; of a result only the class, if it has one, and
  the detail are read again.
\<close>

record role_notes =
  rn_plan_digest :: string
  rn_digest :: string
  rn_snapshot :: "file_change list"
  rn_roles :: "string list"
  rn_results :: "(string option \<times> string) list"

type_synonym 'w role_state = "'w site \<times> role_notes"

definition note_result ::
    "string option \<Rightarrow> string \<Rightarrow> worker_result \<Rightarrow> 'w role_state \<Rightarrow> worker_result outcome \<times> 'w role_state"
where
  "note_result cls detail r st =
     (Inr r, (fst st, (snd st)\<lparr>rn_results := rn_results (snd st) @ [(cls, detail)]\<rparr>))"

definition durable_refuse ::
    "assignment \<Rightarrow> executor_result \<Rightarrow> string \<Rightarrow> string \<Rightarrow> 'w role_state
     \<Rightarrow> worker_result outcome \<times> 'w role_state" where
  "durable_refuse wa x cls detail st =
     note_result (Some cls) detail (role_failed wa (er_execution_id x) (-1) cls detail cls) st"

definition durable_passed ::
    "assignment \<Rightarrow> executor_result \<Rightarrow> 'w role_state \<Rightarrow> worker_result outcome \<times> 'w role_state" where
  "durable_passed wa x st = note_result None '''' (role_succeeded wa x) st"

text \<open>
  The checks after each role. The notes lie under \<open>base\<close>, the worktree of the run; the product
  is read in the worktree of the prepared context.
\<close>

definition durable_planner ::
    "'w file_host \<Rightarrow> string \<Rightarrow> prepared \<Rightarrow> file_change list \<Rightarrow> assignment \<Rightarrow> executor_result
     \<Rightarrow> 'w role_state \<Rightarrow> worker_result outcome \<times> 'w role_state" where
  "durable_planner h base pw baseline wa x st =
     (let w = snd (fst st); invalid = validate_plan_handoff h w base in
      if invalid \<noteq> '''' then durable_refuse wa x ''invalid_plan_handoff'' invalid st
      else andthen (reading (handoff_digest h w (plan_path base)) st) (\<lambda>dg st1.
        let st2 = (fst st1, (snd st1)\<lparr>rn_digest := dg\<rparr>) in
        andthen (reading (product_diff h w (pw_worktree pw)) st2) (\<lambda>files st3.
          if files \<noteq> baseline then
            durable_refuse wa x ''planner_product_mutation'' ''planner mutated product files'' st3
          else durable_passed wa x st3)))"

definition durable_coder ::
    "'w file_host \<Rightarrow> string \<Rightarrow> prepared \<Rightarrow> assignment \<Rightarrow> executor_result \<Rightarrow> 'w role_state
     \<Rightarrow> worker_result outcome \<times> 'w role_state" where
  "durable_coder h base pw wa x st =
     (let w = snd (fst st) in
      if \<not> wh_is_file h w (plan_path base) then
        durable_refuse wa x ''missing_plan_handoff'' ''plan handoff missing'' st
      else andthen (reading (product_diff h w (pw_worktree pw)) st) (\<lambda>files st1.
        let st2 = (fst st1, (snd st1)\<lparr>rn_snapshot := files\<rparr>) in
        if files = [] then
          durable_refuse wa x ''no_coder_product_diff'' ''coder produced no product diff'' st2
        else durable_passed wa x st2))"

definition durable_reviewer ::
    "'w file_host \<Rightarrow> string \<Rightarrow> prepared \<Rightarrow> assignment \<Rightarrow> executor_result \<Rightarrow> 'w role_state
     \<Rightarrow> worker_result outcome \<times> 'w role_state" where
  "durable_reviewer h base pw wa x st =
     (let w = snd (fst st); invalid = validate_review_handoff h w base in
      if invalid \<noteq> '''' then durable_refuse wa x ''invalid_review_handoff'' invalid st
      else andthen (reading (handoff_digest h w (review_path base)) st) (\<lambda>dg st1.
        let st2 = (fst st1, (snd st1)\<lparr>rn_digest := dg\<rparr>) in
        andthen (reading (product_diff h w (pw_worktree pw)) st2) (\<lambda>files st3.
          if files \<noteq> rn_snapshot (snd st3) then
            durable_refuse wa x ''reviewer_product_mutation'' ''reviewer mutated product'' st3
          else durable_passed wa x st3)))"

definition durable_accept ::
    "'w file_host \<Rightarrow> string \<Rightarrow> prepared \<Rightarrow> file_change list \<Rightarrow> assignment \<Rightarrow> executor_result
     \<Rightarrow> 'w role_state \<Rightarrow> worker_result outcome \<times> 'w role_state" where
  "durable_accept h base pw baseline wa x st =
     (let cls = er_failure_classification x in
      if \<not> er_success x then
        note_result (Some (if cls = '''' then ''role_failed'' else cls)) (er_error x)
          (role_failed wa (er_execution_id x) (er_validation_exit_code x) cls (er_error x)
             (if cls = '''' then ''role_failed'' else cls)) st
      else if as_role wa = ''planner'' then durable_planner h base pw baseline wa x st
      else if as_role wa = ''coder'' then durable_coder h base pw wa x st
      else if as_role wa = ''reviewer'' then durable_reviewer h base pw wa x st
      else durable_passed wa x st)"

text \<open>\<open>_role_worker\<close>; the death of the process is not an \<open>Exception\<close>.\<close>

definition durable_role_worker ::
    "env \<Rightarrow> 'w file_host \<Rightarrow> 'w durable_executor \<Rightarrow> string \<Rightarrow> prepared \<Rightarrow> file_change list \<Rightarrow> assignment
     \<Rightarrow> 'w role_state \<Rightarrow> worker_result outcome \<times> 'w role_state" where
  "durable_role_worker e h x base pw baseline wa st =
     (let n = (snd st)\<lparr>rn_roles := rn_roles (snd st) @ [as_role wa]\<rparr>; site = fst st in
      case (if as_role wa = ''planner'' then wh_mkdir h (snd site) (handoff_dir base)
            else (Inr (), snd site)) of
        (Inl err, w1) \<Rightarrow> (Inl err, ((fst site, w1), n))
      | (Inr _, w1) \<Rightarrow>
          (case dx_role x e pw
                 \<lparr>rc_role = as_role wa, rc_task_id = as_task_id wa, rc_workspace = pw_worktree pw,
                  rc_plan_path = plan_path base, rc_plan_digest = rn_plan_digest n,
                  rc_role_order_index = 0\<rparr> (fst site, w1) of
             (Inl err, site2) \<Rightarrow>
               if is_crash err then (Inl err, (site2, n))
               else let detail = error_class err @ '':'' @ error_text err in
                 note_result (Some ''executor_error'') detail
                   (role_failed wa '''' (-1) ''executor_error'' detail
                      (''executor_exception:'' @ error_class err)) (site2, n)
           | (Inr r, site2) \<Rightarrow> durable_accept h base pw baseline wa r (site2, n)))"

text \<open>
  The graph of one role skips the other two. Its results start with those the checkpointer
  keeps, and its verifier only reads them.
\<close>

definition role_graph ::
    "string set \<Rightarrow> (assignment \<Rightarrow> 's \<Rightarrow> worker_result outcome \<times> 's) \<Rightarrow> assignment
     \<Rightarrow> worker_result list \<Rightarrow> 's \<Rightarrow> unit outcome \<times> 's" where
  "role_graph skip worker base saved s =
     andthen (role_node skip worker base ''planner'' (\<lambda>_ _. None) saved s) (\<lambda>rs1 s1.
     andthen (role_node skip worker base ''coder'' coder_check rs1 s1) (\<lambda>rs2 s2.
     andthen (role_node skip worker base ''reviewer'' reviewer_check rs2 s2) (\<lambda>_ s3.
     (Inr (), s3))))"

record role_outcome =
  ru_success :: bool
  ru_classification :: string
  ru_detail :: string
  ru_roles :: "string list"
  ru_digest :: string
  ru_snapshot :: "file_change list"
  ru_plan_digest :: string

definition role_gave_up :: "('w durable_team_host) \<Rightarrow> store_error \<Rightarrow> role_notes \<Rightarrow> role_outcome" where
  "role_gave_up h err n =
     (let (cls, detail) = (case rev (rn_results n) of
            [] \<Rightarrow> (''failed'', '''')
          | (c, d) # _ \<Rightarrow> ((case c of None \<Rightarrow> ''failed'' | Some x \<Rightarrow> x), d));
          shown = take 1024 (dm_redact h detail) in
      \<lparr>ru_success = False, ru_classification = cls,
       ru_detail = error_text err @ (if shown = '''' then '''' else '':'' @ shown),
       ru_roles = rn_roles n, ru_digest = '''', ru_snapshot = [], ru_plan_digest = rn_plan_digest n\<rparr>)"

definition execute_single_role ::
    "env \<Rightarrow> 'w durable_team_host \<Rightarrow> 'w durable_executor \<Rightarrow> string \<Rightarrow> string \<Rightarrow> prepared
     \<Rightarrow> file_change list \<Rightarrow> worker_result list \<Rightarrow> string \<Rightarrow> string \<Rightarrow> file_change list \<Rightarrow> 'w site
     \<Rightarrow> role_outcome outcome \<times> 'w site" where
  "execute_single_role e h x tid base pw baseline saved role plan_digest snapshot st =
     (let a = \<lparr>as_worker_id = ''durable_sequential'', as_role = role, as_task_id = tid,
               as_workspace_root = pw_worktree pw\<rparr> in
      case parse_assignment a of
        Inl err \<Rightarrow> (Inl err, st)
      | Inr _ \<Rightarrow>
          case role_graph (set SEQUENTIAL_ROLES - {role})
                 (durable_role_worker e (dm_files h) x base pw baseline) a saved
                 (st, \<lparr>rn_plan_digest = plan_digest, rn_digest = '''', rn_snapshot = snapshot,
                       rn_roles = [], rn_results = []\<rparr>) of
            (Inl err, (st1, n)) \<Rightarrow>
              (if error_class err = ''TeamGraphError'' then Inr (role_gave_up h err n) else Inl err, st1)
          | (Inr _, (st1, n)) \<Rightarrow>
              (Inr \<lparr>ru_success = True, ru_classification = '''', ru_detail = '''', ru_roles = rn_roles n,
                    ru_digest = rn_digest n,
                    ru_snapshot = (if role = ''coder'' then rn_snapshot n else []),
                    ru_plan_digest = rn_plan_digest n\<rparr>, st1))"

section \<open>The roles under the lease\<close>

definition files_digest :: "env \<Rightarrow> file_change list \<Rightarrow> string" where
  "files_digest e files = sha256_json e (JArr (map file_json files))"

text \<open>What the caller keeps between the roles.\<close>

record team_progress =
  pg_plan_digest :: string
  pg_review_digest :: string
  pg_snapshot :: "file_change list"

definition role_checkpoint :: "string \<Rightarrow> string" where
  "role_checkpoint role =
     (case map_of [(''planner'', ''POST_PLANNER''), (''coder'', ''POST_CODER''),
                   (''reviewer'', ''POST_REVIEWER'')] role of
        None \<Rightarrow> '''' | Some n \<Rightarrow> n)"

text \<open>A statement whose \<open>TaskStoreError\<close> is dropped.\<close>

definition tolerated :: "unit step \<Rightarrow> unit step" where
  "tolerated r = (case r of (Inl err, s) \<Rightarrow> (if is_store_error err then Inr () else Inl err, s) | _ \<Rightarrow> r)"

text \<open>\<open>_complete_durable_failure\<close>\<close>

definition complete_durable_failure ::
    "env \<Rightarrow> lease_handle \<Rightarrow> string \<Rightarrow> file_change list \<Rightarrow> string \<Rightarrow> string list \<Rightarrow> string \<Rightarrow> string \<Rightarrow> db
     \<Rightarrow> unit step" where
  "complete_durable_failure e l tid baseline plan_digest roles cls detail s =
     andthen (put_files e l tid baseline s) (\<lambda>_ s1.
     andthen (tolerated (classify (later 10 e) l tid cls
                (''durable sequential team failed:'' @ detail) s1)) (\<lambda>_ s2.
     tolerated (andthen (fenced_add_event (later 20 e) (lh_run_id l) tid ''EXECUTOR_FINISHED''
                  ''Durable sequential team failed'' detail ''''
                  (Some (JObj [(''classification'', JStr cls), (''roles'', JArr (map JStr roles)),
                               (''run_id'', JStr (lh_run_id l)), (''plan_digest'', JStr plan_digest)]))
                  (lh_owner l) (lh_epoch l) s2) (\<lambda>_ s3. (Inr (), s3)))))"

text \<open>A step on the site that may end the method with an outcome (\<open>Inl\<close>) or let it go on.\<close>

type_synonym ('a, 'w) site_early = "(execution_outcome + 'a) outcome \<times> 'w site"

definition fail_role ::
    "env \<Rightarrow> lease_handle \<Rightarrow> string \<Rightarrow> run_row \<Rightarrow> file_change list \<Rightarrow> string \<Rightarrow> string list \<Rightarrow> string \<Rightarrow> string
     \<Rightarrow> 'w site \<Rightarrow> ('a, 'w) site_early" where
  "fail_role e l tid run baseline plan_digest roles cls detail st =
     in_store (andthen (complete_durable_failure e l tid baseline plan_digest roles cls detail (fst st))
       (\<lambda>_ s1. (Inr (Inl (durable_outcome tid (dr_execution_id run) False '''' (-1) cls detail)), s1)))
       (snd st)"

text \<open>The digest of an accepted role goes to the run first.\<close>

definition keep_digest ::
    "env \<Rightarrow> lease_handle \<Rightarrow> string \<Rightarrow> role_outcome \<Rightarrow> team_progress \<Rightarrow> db \<Rightarrow> team_progress step" where
  "keep_digest e l role o' pg s =
     (if role = ''planner'' then
        andthen (set_planner_handoff_digest e (lh_run_id l) (ru_digest o') (lh_owner l) (lh_epoch l) s)
          (\<lambda>_ s1. (Inr (pg\<lparr>pg_plan_digest := ru_digest o'\<rparr>), s1))
      else if role = ''coder'' then
        andthen (set_coder_product_diff_digest e (lh_run_id l) (files_digest e (ru_snapshot o'))
                   (lh_owner l) (lh_epoch l) s)
          (\<lambda>_ s1. (Inr (pg\<lparr>pg_snapshot := ru_snapshot o', pg_plan_digest := ru_plan_digest o'\<rparr>), s1))
      else if role = ''reviewer'' then
        andthen (set_reviewer_handoff_digest e (lh_run_id l) (ru_digest o') (lh_owner l) (lh_epoch l) s)
          (\<lambda>_ s1. (Inr (pg\<lparr>pg_review_digest := ru_digest o'\<rparr>), s1))
      else (Inr pg, s))"

text \<open>The HEAD the first execution finds after a role, if it is not the base of the run.\<close>

definition moved_head ::
    "'w durable_team_host \<Rightarrow> lease_handle \<Rightarrow> string \<Rightarrow> string \<Rightarrow> 'w site \<Rightarrow> string option outcome" where
  "moved_head h l base role st =
     map_sum id (\<lambda>r. let expected = dr_repository_base_sha r; actual = dm_head h (snd st) base in
       if expected \<noteq> '''' \<and> actual \<noteq> expected then
         Some (''HEAD moved during '' @ role @ '': expected='' @ expected @ '' actual='' @ actual)
       else None) (get_durable_run (lh_run_id l) (fst st))"

text \<open>
  The loop over the roles, of the first execution and of a resumption; only the first
  execution looks at the HEAD (\<open>first\<close>). \<open>saver\<close> is whether there is a checkpointer.
\<close>

fun run_roles ::
    "env \<Rightarrow> 'w durable_team_host \<Rightarrow> string option \<Rightarrow> bool \<Rightarrow> bool \<Rightarrow> lease_handle \<Rightarrow> string \<Rightarrow> run_row
     \<Rightarrow> 'w durable_executor \<Rightarrow> string \<Rightarrow> prepared \<Rightarrow> file_change list \<Rightarrow> int \<Rightarrow> string list
     \<Rightarrow> team_progress \<Rightarrow> 'w site \<Rightarrow> (team_progress, 'w) site_early" where
  "run_roles e h crash first saver l tid run x base pw baseline attempt [] pg st = (Inr (Inr pg), st)"
| "run_roles e h crash first saver l tid run x base pw baseline attempt (role # roles) pg st =
     andthen (execute_single_role e h x tid base pw baseline
                (if saver then dm_saved h (snd st) (lh_run_id l) else []) role (pg_plan_digest pg)
                (pg_snapshot pg) st) (\<lambda>r st1.
     if \<not> ru_success r then
       fail_role (later 1000 e) l tid run baseline (pg_plan_digest pg) (ru_roles r)
         (ru_classification r) (ru_detail r) st1
     else
       andthen (in_store (keep_digest (later 1000 e) l role r pg (fst st1)) (snd st1)) (\<lambda>pg1 st2.
       andthen (reading (if first then moved_head h l base role st2 else Inr None) st2) (\<lambda>moved st3.
       case moved of
         Some detail \<Rightarrow>
           fail_role (later 1010 e) l tid run baseline (pg_plan_digest pg1) (ru_roles r)
             ''head_moved'' detail st3
       | None \<Rightarrow>
           andthen (in_store (pass_or_crash (later 1010 e) crash l (role_checkpoint role) (ru_digest r)
                      attempt (fst st3)) (snd st3)) (\<lambda>_ st4.
           run_roles (later 2000 e) h crash first saver l tid run x base pw baseline attempt roles pg1 st4))))"

text \<open>
  After the roles: validation in the worktree of the run, recorded on the run, as the last
  checkpoint and on the task; then the notes go and the task ends. No crash seam follows the
  last checkpoint here.
\<close>

definition any_validation :: "env \<Rightarrow> 'w file_host \<Rightarrow> 'w \<Rightarrow> string \<Rightarrow> int \<times> string" where
  "any_validation e h w wt =
     (case validation_run e h w ''git_diff_check'' wt of
        Inl _ \<Rightarrow> (-1, '''') | Inr (code, _, digest) \<Rightarrow> (code, digest))"

definition finish_team ::
    "env \<Rightarrow> 'w durable_team_host \<Rightarrow> lease_handle \<Rightarrow> string \<Rightarrow> run_row \<Rightarrow> string \<Rightarrow> int \<Rightarrow> string \<Rightarrow> string
     \<Rightarrow> team_progress \<Rightarrow> 'w site \<Rightarrow> execution_outcome outcome \<times> 'w site" where
  "finish_team e h l tid run wt attempt title descr pg st =
     (let f = dm_files h; (code, digest) = any_validation e f (snd st) wt in
      andthen (in_store (record_validation (later 10 e) None l tid attempt code digest (fst st)) (snd st)) (\<lambda>_ st1.
      let w = snd (remove_handoff f (handoff_dir wt) (snd st1)) in
      andthen (reading (product_diff f w wt) (fst st1, w)) (\<lambda>final st2.
      in_store (conclude (later 100 e) l tid (dr_execution_id run) ''READY_FOR_REVIEW'' code digest
        title descr [(''plan_digest'', JStr (pg_plan_digest pg)), (''review_digest'', JStr (pg_review_digest pg))]
        final (fst st2)) (snd st2))))"

definition roles_then_finish ::
    "env \<Rightarrow> 'w durable_team_host \<Rightarrow> lease_handle \<Rightarrow> string \<Rightarrow> run_row \<Rightarrow> string \<Rightarrow> int \<Rightarrow> string \<Rightarrow> string
     \<Rightarrow> (team_progress, 'w) site_early \<Rightarrow> execution_outcome outcome \<times> 'w site" where
  "roles_then_finish e h l tid run wt attempt title descr r =
     andthen r (\<lambda>ended st. case ended of
       Inl out \<Rightarrow> (Inr out, st)
     | Inr pg \<Rightarrow> finish_team (later 10000 e) h l tid run wt attempt title descr pg st)"

section \<open>The first execution\<close>

definition team_gave_up ::
    "env \<Rightarrow> lease_handle \<Rightarrow> string \<Rightarrow> string \<Rightarrow> 'w site \<Rightarrow> ('a, 'w) site_early" where
  "team_gave_up e l tid detail st =
     (let r = give_up e l tid detail (fst st) in (map_sum id Inl (fst r), (snd r, snd st)))"

text \<open>Preparing the worktree, through the fenced callback.\<close>

definition prepare_worktree ::
    "env \<Rightarrow> 'w durable_executor \<Rightarrow> lease_handle \<Rightarrow> string \<Rightarrow> string \<Rightarrow> 'w site \<Rightarrow> prepared outcome \<times> 'w site"
where
  "prepare_worktree e x l tid root st =
     (case run_guest (later (-10) e) (-20) l tid (dx_prepare x tid root (snd st)) (fst st) of
        (Inl err, s1) \<Rightarrow> (Inl err, (s1, snd st))
      | (Inr (r, w1), s1) \<Rightarrow> (r, (s1, w1)))"

text \<open>The identity of the run, recorded before its first checkpoint.\<close>

definition record_identity ::
    "env \<Rightarrow> durable_config \<Rightarrow> 'w durable_team_host \<Rightarrow> lease_handle \<Rightarrow> string \<Rightarrow> string \<Rightarrow> db \<Rightarrow> string step" where
  "record_identity e c h l wt head s =
     andthen (set_worktree_identity e (lh_run_id l) wt head (lh_owner l) (lh_epoch l) s) (\<lambda>_ s1.
     andthen (set_authority_identity (later 10 e) (lh_run_id l) (trusted_authority_sha c)
                (trusted_planning_sha c) (lh_owner l) (lh_epoch l) s1) (\<lambda>_ s2.
     andthen (set_repository_base_sha (later 20 e) (lh_run_id l) head (lh_owner l) (lh_epoch l) s2) (\<lambda>_ s3.
     andthen (dm_checkpoint_path h (lh_run_id l), s3) (\<lambda>path s4.
     andthen (set_checkpoint_db_path (later 30 e) (lh_run_id l) path (lh_owner l) (lh_epoch l) s4) (\<lambda>_ s5.
     andthen (dm_connect h path, s5) (\<lambda>_ s6. (Inr path, s6)))))))"

definition prepare_team ::
    "env \<Rightarrow> durable_config \<Rightarrow> 'w durable_team_host \<Rightarrow> lease_handle \<Rightarrow> string \<Rightarrow> string \<Rightarrow> 'w site
     \<Rightarrow> ('w durable_executor \<times> prepared \<times> string \<times> string, 'w) site_early" where
  "prepare_team e c h l tid root st =
     andthen (reading (get_task tid None (fst st)) st) (\<lambda>view st.
     andthen (reading (dm_kwargs h (tv_row view)) st) (\<lambda>_ st.
     case dm_create h (tv_row view) of
       Inl err \<Rightarrow> team_gave_up e l tid (error_text err) st
     | Inr x \<Rightarrow>
         (case prepare_worktree e x l tid root st of
            (Inl err, st1) \<Rightarrow>
              if is_crash err then (Inl err, st1)
              else team_gave_up e l tid (''worktree_preparation_failed:'' @ error_text err) st1
          | (Inr pw, st1) \<Rightarrow>
              let wt = pw_worktree pw in
              if \<not> wh_exists (dm_files h) (snd st1) wt then
                team_gave_up e l tid (''prepared_worktree_missing:'' @ wt) st1
              else let head = dm_head h (snd st1) wt in
              if head = '''' then team_gave_up e l tid (''prepared_worktree_empty_HEAD:'' @ wt) st1
              else
                andthen (in_store (record_identity e c h l wt head (fst st1)) (snd st1)) (\<lambda>path st2.
                (Inr (Inr (x, pw, head, path)), st2)))))"

text \<open>The first checkpoint, the event, the product as it is found, and \<open>RUNNING\<close>.\<close>

definition start_team ::
    "env \<Rightarrow> 'w durable_team_host \<Rightarrow> string option \<Rightarrow> lease_handle \<Rightarrow> string \<Rightarrow> run_row \<Rightarrow> string \<Rightarrow> string
     \<Rightarrow> string \<Rightarrow> 'w site \<Rightarrow> file_change list outcome \<times> 'w site" where
  "start_team e h crash l tid run wt head path st =
     andthen (in_store (pass_or_crash e crash l ''PRE_PLANNER'' '''' 1 (fst st)) (snd st)) (\<lambda>_ st1.
     andthen (in_store (fenced_add_event (later 10 e) (lh_run_id l) tid ''EXECUTOR_RUNNING''
                ''Durable sequential team execution''
                ''planner->coder->reviewer with per-role checkpoint acceptance'' ''''
                (Some (JObj [(''execution_id'', JStr (dr_execution_id run)),
                             (''run_id'', JStr (lh_run_id l)), (''worktree_path'', JStr wt),
                             (''worktree_head_sha'', JStr head), (''repository_base_sha'', JStr head),
                             (''checkpoint_db_path'', JStr path)]))
                (lh_owner l) (lh_epoch l) (fst st1)) (snd st1)) (\<lambda>_ st2.
     andthen (reading (product_diff (dm_files h) (snd st2) wt) st2) (\<lambda>baseline st3.
     andthen (in_store (put_files (later 20 e) l tid baseline (fst st3)) (snd st3)) (\<lambda>_ st4.
     andthen (in_store (move_to (later 30 e) l tid ''RUNNING'' (fst st4)) (snd st4)) (\<lambda>_ st5.
     (Inr baseline, st5))))))"

text \<open>\<open>_execute_with_lease\<close>\<close>

definition execute_team_with_lease ::
    "env \<Rightarrow> durable_config \<Rightarrow> 'w durable_team_host \<Rightarrow> string option \<Rightarrow> string \<Rightarrow> string \<Rightarrow> lease_handle
     \<Rightarrow> 'w site \<Rightarrow> execution_outcome outcome \<times> 'w site" where
  "execute_team_with_lease e c h crash tid root l st =
     andthen (reading (validate_durable_lease (lh_run_id l) (lh_owner l) (lh_epoch l) (fst st)) st) (\<lambda>_ st.
     andthen (reading (get_durable_run (lh_run_id l) (fst st)) st) (\<lambda>run st.
     if dr_accepted_checkpoint run = ''POST_VALIDATION'' then
       andthen (reading (get_task tid None (fst st)) st) (\<lambda>view st.
       (if t_status (tv_row view) = ''READY_FOR_REVIEW'' then Inr (run_outcome tid run)
        else Inl (execution_error (''durable_post_validation_without_ready:'' @ tid)), st))
     else
       andthen (prepare_team e c h l tid root st) (\<lambda>ready st1.
       case ready of
         Inl out \<Rightarrow> (Inr out, st1)
       | Inr (x, pw, head, path) \<Rightarrow>
           andthen (start_team (later 100 e) h crash l tid run (pw_worktree pw) head path st1) (\<lambda>baseline st2.
           roles_then_finish (later 200 e) h l tid run (pw_worktree pw) (dr_role_attempt run)
             ''Durable sequential team validated'' ''per-role checkpoint acceptance completed''
             (run_roles (later 200 e) h crash True True l tid run x (pw_worktree pw) pw baseline
                (dr_role_attempt run) SEQUENTIAL_ROLES
                \<lparr>pg_plan_digest = '''', pg_review_digest = '''', pg_snapshot = []\<rparr> st2)))))"

text \<open>The method body under the heartbeat, on the site.\<close>

definition team_with_lease ::
    "env \<Rightarrow> durable_config \<Rightarrow> lease_handle \<Rightarrow> ('w site \<Rightarrow> 'a outcome \<times> 'w site) \<Rightarrow> 'w site
     \<Rightarrow> 'a outcome \<times> 'w site" where
  "team_with_lease e c l body st =
     (case body (snd (heartbeat_durable_lease e (lh_run_id l) (lh_owner l) (lh_epoch l)
                        (dc_expiry_ms c) (fst st)), snd st) of
        (Inr x, st1) \<Rightarrow> (Inr x, st1)
      | (Inl err, st1) \<Rightarrow>
          if is_crash err then (Inl err, st1)
          else
            andthen (in_store (release_durable_lease (later 10 e) (lh_run_id l) (lh_owner l)
                       (lh_epoch l) (fst st1)) (snd st1)) (\<lambda>_ st2. (Inl err, st2)))"

text \<open>Neither the mode of the task nor its executor kind is looked at.\<close>

definition execute_durable_team ::
    "env \<Rightarrow> durable_config \<Rightarrow> 'w durable_team_host \<Rightarrow> string option \<Rightarrow> string \<Rightarrow> string \<Rightarrow> string
     \<Rightarrow> 'w site \<Rightarrow> execution_outcome outcome \<times> 'w site" where
  "execute_durable_team e c h crash tid root owner st =
     andthen (reading (assert_identity_for_execute c) st) (\<lambda>_ st.
     andthen (in_store (acquire_or_find_lease e tid owner (dc_expiry_ms c) (trusted_authority_sha c)
                (trusted_planning_sha c) (fst st)) (snd st)) (\<lambda>l st1.
     team_with_lease (later 10 e) c l
       (execute_team_with_lease (later 100 e) c h crash tid root l) st1))"


section \<open>Resuming\<close>

text \<open>
  \<open>_resume_from_post_reviewer\<close>: only validation is left. Here the run hears of it after the task,
  and only what the validation runner refuses itself is caught.
\<close>

definition post_reviewer_validation ::
    "env \<Rightarrow> 'w file_host \<Rightarrow> 'w \<Rightarrow> string \<Rightarrow> (int \<times> string) outcome" where
  "post_reviewer_validation e h w wt =
     (case validation_run e h w ''git_diff_check'' wt of
        Inl err \<Rightarrow> if error_class err = ''ExecutorRuntimeError'' then Inr (-1, '''') else Inl err
      | Inr (code, _, digest) \<Rightarrow> Inr (code, digest))"

definition team_validated_late ::
    "env \<Rightarrow> lease_handle \<Rightarrow> string \<Rightarrow> string \<Rightarrow> int \<Rightarrow> int \<Rightarrow> string \<Rightarrow> db \<Rightarrow> execution_outcome step" where
  "team_validated_late e l tid exec attempt code digest s =
     andthen (move_to e l tid ''READY_FOR_REVIEW'' s) (\<lambda>_ s1.
     andthen (fenced_add_event (later 10 e) (lh_run_id l) tid ''VALIDATED''
                ''Sequential team validated (resume from POST_REVIEWER)''
                ''post-reviewer validation passed'' ''''
                (Some (JObj [(''validation_exit_code'', JInt code)])) (lh_owner l) (lh_epoch l) s1) (\<lambda>_ s2.
     andthen (record_validation (later 20 e) None l tid attempt code digest s2) (\<lambda>_ s3.
     (Inr (durable_outcome tid exec True ''git_diff_check'' code '''' ''''), s3))))"

definition resume_team_post_reviewer ::
    "env \<Rightarrow> 'w durable_team_host \<Rightarrow> lease_handle \<Rightarrow> string \<Rightarrow> run_row \<Rightarrow> int \<Rightarrow> 'w site
     \<Rightarrow> execution_outcome outcome \<times> 'w site" where
  "resume_team_post_reviewer e h l tid run attempt st =
     andthen (reading (get_task tid None (fst st)) st) (\<lambda>view st.
     if t_status (tv_row view) = ''READY_FOR_REVIEW'' then (Inr (run_outcome tid run), st)
     else
       andthen (reading (post_reviewer_validation e (dm_files h) (snd st) (dr_worktree_path run)) st)
         (\<lambda>(code, digest) st.
       andthen (in_store (move_to e l tid ''VALIDATING'' (fst st)) (snd st)) (\<lambda>_ st1.
       if code = 0 then
         in_store (team_validated_late (later 10 e) l tid (dr_execution_id run) attempt code digest
           (fst st1)) (snd st1)
       else
         let detail = ''git_diff_check exit='' @ str_of_int code in
         in_store (andthen (terminalize (later 10 e) l tid
             (failed_input ''git_diff_check'' code digest ''deterministic_validation_failure'' detail)
             (fst st1)) (\<lambda>_ s2.
           (Inr (durable_outcome tid (dr_execution_id run) False ''git_diff_check'' code
                   ''deterministic_validation_failure'' detail), s2))) (snd st1))))"

text \<open>What a coder that was interrupted left is kept by its digest, and its attempt counted.\<close>

definition keep_partial ::
    "env \<Rightarrow> lease_handle \<Rightarrow> file_change list \<Rightarrow> int \<Rightarrow> db \<Rightarrow> int step" where
  "keep_partial e l partial attempt s =
     andthen (if partial = [] then (Inr (), s)
              else
                andthen (set_partial_coder_diff_digest e (lh_run_id l) (files_digest e partial)
                           (lh_owner l) (lh_epoch l) s) (\<lambda>_ s1.
                set_coder_product_diff_digest (later 10 e) (lh_run_id l) (files_digest e partial)
                  (lh_owner l) (lh_epoch l) s1)) (\<lambda>_ s2.
     andthen (set_role_attempt (later 20 e) (lh_run_id l) ''coder'' attempt (lh_owner l) (lh_epoch l) s2) (\<lambda>_ s3.
     andthen (set_recovery_classification (later 30 e) (lh_run_id l) ''interrupted'' (lh_owner l)
                (lh_epoch l) s3) (\<lambda>_ s4.
     (Inr attempt, s4))))"

definition product_if_there ::
    "'w file_host \<Rightarrow> 'w \<Rightarrow> string \<Rightarrow> file_change list outcome" where
  "product_if_there h w wt = (if wh_exists h w wt then product_diff h w wt else Inr [])"

text \<open>A resumption that is refused once its lease is held.\<close>

definition refuse_team ::
    "env \<Rightarrow> lease_handle \<Rightarrow> string \<Rightarrow> string \<Rightarrow> string \<Rightarrow> 'w site \<Rightarrow> ('a, 'w) site_early" where
  "refuse_team e l tid cls detail st =
     in_store (andthen (classify e l tid cls detail (fst st)) (\<lambda>_ s1.
       case get_task tid None s1 of
         Inl err \<Rightarrow> (Inl err, s1)
       | Inr final \<Rightarrow>
           (Inr (Inl (durable_outcome tid (t_execution_id (tv_row final)) False '''' (-1) cls detail)), s1)))
       (snd st)"

text \<open>The stand-in for a prepared context has the worktree and an empty execution id only.\<close>

definition bare_context :: "string \<Rightarrow> prepared" where
  "bare_context wt =
     \<lparr>pw_worktree = wt, pw_base_sha = '''', pw_execution_id = '''', pw_cli_path = '''',
      pw_is_cmd = False, pw_opencode_exe = None\<rparr>"

text \<open>The executor and its context, made anew; resolving the arguments is inside the \<open>try\<close> here.\<close>

definition rebuild_context ::
    "env \<Rightarrow> 'w durable_team_host \<Rightarrow> lease_handle \<Rightarrow> string \<Rightarrow> run_row \<Rightarrow> string \<Rightarrow> 'w site
     \<Rightarrow> ('w durable_executor \<times> prepared, 'w) site_early" where
  "rebuild_context e h l tid run wt st =
     andthen (reading (get_task tid None (fst st)) st) (\<lambda>view st.
     case (case dm_kwargs h (tv_row view) of Inl err \<Rightarrow> Inl err | Inr _ \<Rightarrow> dm_create h (tv_row view)) of
       Inl err \<Rightarrow> team_gave_up e l tid (error_text err) st
     | Inr x \<Rightarrow>
         (case dx_reconstruct x of
            None \<Rightarrow> (Inr (Inr (x, bare_context wt)), st)
          | Some f \<Rightarrow>
              (case f wt (dr_repository_base_sha run) (dr_execution_id run) (snd st) of
                 Inl err \<Rightarrow>
                   refuse_team e l tid ''resume_context_invalid''
                     (''resume_prepared_context_invalid:''
                        @ take 1024 (dm_redact h (error_class err @ '':'' @ error_text err))) st
               | Inr pw \<Rightarrow> (Inr (Inr (x, pw)), st))))"

text \<open>
  A reviewer is resumed on the product its coder left: what the worktree holds must have the
  digest kept on the run. The result is the snapshot the reviewer is held to.
\<close>

definition coder_snapshot ::
    "env \<Rightarrow> lease_handle \<Rightarrow> string \<Rightarrow> run_row \<Rightarrow> string \<Rightarrow> file_change list \<Rightarrow> 'w site
     \<Rightarrow> (file_change list, 'w) site_early" where
  "coder_snapshot e l tid run accepted product st =
     (let kept = dr_coder_product_diff_digest run; found = files_digest e product in
      if accepted \<noteq> ''POST_CODER'' then (Inr (Inr []), st)
      else if kept = '''' then
        refuse_team e l tid ''coder_snapshot_missing''
          ''persistent Coder snapshot digest is empty; refusing to resume Reviewer'' st
      else if found \<noteq> kept then
        refuse_team e l tid ''coder_snapshot_mismatch''
          (''persisted Coder snapshot digest '' @ kept @ '' does not match reconstructed worktree digest ''
             @ found @ ''; refusing to resume Reviewer'') st
      else (Inr (Inr product), st))"

definition remaining_roles :: "string \<Rightarrow> string list" where
  "remaining_roles accepted =
     (if accepted = ''POST_PLANNER'' then [''coder'', ''reviewer'']
      else if accepted = ''POST_CODER'' then [''reviewer'']
      else SEQUENTIAL_ROLES)"

text \<open>The checkpointer of the run, if its file is still there.\<close>

definition resume_saver :: "'w durable_team_host \<Rightarrow> run_row \<Rightarrow> 'w \<Rightarrow> bool outcome" where
  "resume_saver h run w =
     (let path = dr_checkpoint_db_path run in
      if path \<noteq> '''' \<and> wh_exists (dm_files h) w path then map_sum id (\<lambda>_. True) (dm_connect h path)
      else Inr False)"

text \<open>The roles that are left, on the product as it is found, and the end of the task.\<close>

definition run_left_roles ::
    "env \<Rightarrow> 'w durable_team_host \<Rightarrow> string option \<Rightarrow> string \<Rightarrow> run_row \<Rightarrow> lease_handle \<Rightarrow> string \<Rightarrow> int
     \<Rightarrow> string \<Rightarrow> 'w durable_executor \<Rightarrow> prepared \<Rightarrow> 'w site \<Rightarrow> execution_outcome outcome \<times> 'w site" where
  "run_left_roles e h crash tid run l accepted attempt wt x pw st =
     andthen (reading (product_if_there (dm_files h) (snd st) wt) st) (\<lambda>product st1.
     andthen (in_store (put_files e l tid product (fst st1)) (snd st1)) (\<lambda>_ st2.
     andthen (coder_snapshot (later 10 e) l tid run accepted product st2) (\<lambda>kept st3.
     case kept of
       Inl out \<Rightarrow> (Inr out, st3)
     | Inr snapshot \<Rightarrow>
         andthen (reading (resume_saver h run (snd st3)) st3) (\<lambda>saver st4.
         roles_then_finish (later 100 e) h l tid run wt attempt
           ''Durable sequential team validated (resume)''
           ''resume per-role checkpoint acceptance completed''
           (run_roles (later 100 e) h crash False saver l tid run x wt pw product attempt
              (remaining_roles accepted)
              \<lparr>pg_plan_digest = dr_planner_handoff_digest run,
               pg_review_digest = dr_reviewer_handoff_digest run, pg_snapshot = snapshot\<rparr> st4)))))"

text \<open>
  \<open>_resume_roles\<close>. The worktree was there when the resumption began and nothing has run since,
  so \<open>handoff\<close> is its notes directory; \<open>POST_REVIEWER\<close> does not come here.
\<close>

definition resume_team_roles ::
    "env \<Rightarrow> 'w durable_team_host \<Rightarrow> string option \<Rightarrow> string \<Rightarrow> string \<Rightarrow> run_row \<Rightarrow> lease_handle \<Rightarrow> string
     \<Rightarrow> int \<Rightarrow> 'w site \<Rightarrow> execution_outcome outcome \<times> 'w site" where
  "resume_team_roles e h crash tid root run l accepted attempt st =
     andthen (reading (validate_durable_lease (lh_run_id l) (lh_owner l) (lh_epoch l) (fst st)) st) (\<lambda>_ st.
     andthen (reading (get_task tid None (fst st)) st) (\<lambda>stored st.
     andthen (in_store (if t_status (tv_row stored) = ''INTERRUPTED'' then move_to e l tid ''RUNNING'' (fst st)
                        else (Inr (), fst st)) (snd st)) (\<lambda>_ st1.
     if accepted = ''POST_VALIDATION'' then
       andthen (reading (get_task tid None (fst st1)) st1) (\<lambda>_ st1. (Inr (run_outcome tid run), st1))
     else
       let wt = (if dr_worktree_path run = '''' then root else dr_worktree_path run) in
       andthen (rebuild_context (later 10 e) h l tid run wt st1) (\<lambda>ready st2.
       case ready of
         Inl out \<Rightarrow> (Inr out, st2)
       | Inr (x, pw) \<Rightarrow> run_left_roles (later 20 e) h crash tid run l accepted attempt wt x pw st2))))"

text \<open>
  \<open>_resume_with_lease\<close>; \<open>run\<close> is the row read before the lease was recovered. Its accepted
  checkpoint is not empty: the caller has refused that.
\<close>

definition resume_team_with_lease ::
    "env \<Rightarrow> 'w durable_team_host \<Rightarrow> string option \<Rightarrow> string \<Rightarrow> string \<Rightarrow> run_row \<Rightarrow> lease_handle
     \<Rightarrow> 'w site \<Rightarrow> execution_outcome outcome \<times> 'w site" where
  "resume_team_with_lease e h crash tid root run l st =
     (let accepted = dr_accepted_checkpoint run; attempt = dr_role_attempt run;
          wt = (if dr_worktree_path run = '''' then root else dr_worktree_path run) in
      if accepted = ''POST_REVIEWER'' then resume_team_post_reviewer e h l tid run attempt st
      else
        andthen (if accepted = ''POST_VALIDATION'' then
                   map_prod (map_sum id (\<lambda>view. t_status (tv_row view) = ''READY_FOR_REVIEW'')) id
                     (reading (get_task tid None (fst st)) st)
                 else (Inr False, st)) (\<lambda>done st.
        if done then (Inr (run_outcome tid run), st)
        else
          andthen (if accepted \<in> {''PRE_PLANNER'', ''POST_PLANNER''} \<and> dr_current_role run = ''coder'' then
                     andthen (reading (product_if_there (dm_files h) (snd st) wt) st) (\<lambda>partial st.
                     in_store (keep_partial e l partial (attempt + 1) (fst st)) (snd st))
                   else (Inr attempt, st)) (\<lambda>attempt1 st1.
          resume_team_roles (later 100 e) h crash tid root run l accepted attempt1 st1)))"

text \<open>
  The checks of \<open>resume_sequential_team\<close> after the run and its task are read, in the code's
  order; \<open>base\<close> is the base the caller expects, if any.
\<close>

definition team_resume_refused ::
    "env \<Rightarrow> 'w durable_team_host \<Rightarrow> 'w \<Rightarrow> string \<Rightarrow> string \<Rightarrow> string \<Rightarrow> string \<Rightarrow> string \<Rightarrow> run_row
     \<Rightarrow> task_row \<Rightarrow> store_error option" where
  "team_resume_refused e h w tid root base authority planning run task =
     (let status = t_status task; refuse = (\<lambda>m. Some (resume_error m));
          wt = (if dr_worktree_path run = '''' then root else dr_worktree_path run);
          head = dm_head h w wt in
      if t_orchestration_mode task \<noteq> ''sequential_team'' then
        refuse (''invalid_orchestration_mode:'' @ t_orchestration_mode task)
      else if t_executor_kind task \<noteq> ''opencode'' then
        refuse (''invalid_executor_kind:'' @ t_executor_kind task)
      else if dr_execution_authority_sha run \<noteq> authority then
        refuse (''authority_sha_mismatch:'' @ dr_execution_authority_sha run @ ''!='' @ authority)
      else if dr_planning_sha run \<noteq> planning then
        refuse (''planning_sha_mismatch:'' @ dr_planning_sha run @ ''!='' @ planning)
      else if base \<noteq> '''' \<and> dr_repository_base_sha run \<noteq> base then
        refuse (''base_sha_mismatch:'' @ dr_repository_base_sha run @ ''!='' @ base)
      else if status \<in> set LIVE_STATUSES \<and> now_ms e 0 < dr_lease_expiry_ms run
              \<and> dr_lease_owner run \<noteq> '''' \<and> 0 < dr_lease_epoch run then
        refuse (''durable_run_lease_live:'' @ tid @ '':status='' @ status @ '':epoch=''
          @ str_of_int (dr_lease_epoch run) @ '':owner='' @ dr_lease_owner run)
      else if status \<notin> {''INTERRUPTED'', ''BLOCKED'', ''FAILED'', ''CANCELLED''} then
        refuse (''invalid_resume_status:'' @ status)
      else if status = ''INTERRUPTED'' \<and> dr_recovery_classification run \<notin> set RECOVERABLE then
        refuse (''invalid_recovery_classification:'' @ dr_recovery_classification run)
      else if root \<noteq> '''' \<and> dr_worktree_path run \<noteq> root then
        refuse (''workspace_mismatch:'' @ dr_worktree_path run @ ''!='' @ root)
      else if \<not> wh_exists (dm_files h) w wt then refuse (''worktree_not_found:'' @ wt)
      else if dr_repository_base_sha run \<noteq> '''' \<and> head \<noteq> dr_repository_base_sha run then
        refuse (''repository_base_head_mismatch:'' @ dr_repository_base_sha run @ ''!='' @ head)
      else if dr_worktree_head_sha run \<noteq> '''' \<and> head \<noteq> dr_worktree_head_sha run then
        refuse (''worktree_head_mismatch:'' @ dr_worktree_head_sha run @ ''!='' @ head)
      else if dr_accepted_checkpoint run = '''' then
        refuse (''pre_pre_planner_no_reconstruction_path:'' @ tid
          @ '':accepted_checkpoint_empty_fail_closed'')
      else None)"

definition resume_durable_team ::
    "env \<Rightarrow> durable_config \<Rightarrow> 'w durable_team_host \<Rightarrow> string option \<Rightarrow> string \<Rightarrow> string \<Rightarrow> string \<Rightarrow> string
     \<Rightarrow> string option \<Rightarrow> string option \<Rightarrow> 'w site \<Rightarrow> execution_outcome outcome \<times> 'w site" where
  "resume_durable_team e c h crash tid root owner base authority planning st =
     andthen (reading (assert_identity_for_resume c authority planning) st) (\<lambda>(auth, plan) st.
     case find_active_durable_run tid (fst st) of
       None \<Rightarrow> (Inl (resume_error (''no_active_durable_run:'' @ tid)), st)
     | Some (r, _) \<Rightarrow>
         andthen (reading (get_durable_run (dr_run_id r) (fst st)) st) (\<lambda>run st.
         andthen (reading (get_task tid None (fst st)) st) (\<lambda>view st.
         let task = tv_row view in
         if t_status task \<in> set REVIEW_STATUSES then (Inr (run_outcome tid run), st)
         else case team_resume_refused e h (snd st) tid root base auth plan run task of
           Some err \<Rightarrow> (Inl err, st)
         | None \<Rightarrow>
             andthen (in_store (recover_durable_lease e (dr_run_id run) (resume_owner owner run)
                        (dc_expiry_ms c) (t_status task = ''INTERRUPTED'') (fst st)) (snd st)) (\<lambda>l st1.
             team_with_lease (later 10 e) c l
               (resume_team_with_lease (later 100 e) h crash tid
                  (if dr_worktree_path run = '''' then root else dr_worktree_path run) run l) st1))))"

end
