(* ===== verification/Durable_Team_Laws.thy ===== *)
theory Durable_Team_Laws
  imports Durable_Laws Durable_Team Team_Laws
begin

text \<open>
  What the durable team has been through when it reports success, and what a resumption has
  checked when it does anything at all.
\<close>

section \<open>One role\<close>

lemma note_result_success: "note_result cls detail r st = (Inr r', st') \<longleftrightarrow> r' = r
    \<and> st' = (fst st, (snd st)\<lparr>rn_results := rn_results (snd st) @ [(cls, detail)]\<rparr>)"
  by (auto simp: note_result_def)

lemma durable_refuse_fails: "durable_refuse wa x c d st = (Inr r, st') \<Longrightarrow> \<not> wk_success r"
  by (auto simp: durable_refuse_def note_result_success role_failed_def)

lemma durable_passed_keeps: "durable_passed wa x st = (Inr r, st') \<Longrightarrow> fst st' = fst st
    \<and> rn_digest (snd st') = rn_digest (snd st) \<and> rn_snapshot (snd st') = rn_snapshot (snd st)"
  by (auto simp: durable_passed_def note_result_success)

lemmas role_checks = Let_def andthen_ok reading_ok

lemma durable_planner_passed:
  assumes "durable_planner h (pw_worktree pw) pw baseline wa y st = (Inr r, st')" "wk_success r"
  shows "planned h (pw_worktree pw) baseline (rn_digest (snd st')) (snd (fst st'))"
  using assms
  by (auto simp: durable_planner_def role_checks planned_def split: if_splits
      dest: durable_refuse_fails durable_passed_keeps)

lemma durable_coder_passed:
  assumes "durable_coder h (pw_worktree pw) pw wa y st = (Inr r, st')" "wk_success r"
  shows "coded h (pw_worktree pw) (rn_snapshot (snd st')) (snd (fst st'))"
  using assms
  by (auto simp: durable_coder_def role_checks coded_def split: if_splits
      dest: durable_refuse_fails durable_passed_keeps)

lemma durable_reviewer_passed:
  assumes "durable_reviewer h (pw_worktree pw) pw wa y st = (Inr r, st')" "wk_success r"
  shows "reviewed h (pw_worktree pw) (rn_snapshot (snd st)) (snd (fst st'))
    \<and> handoff_digest h (snd (fst st')) (review_path (pw_worktree pw)) = Inr (rn_digest (snd st'))"
  using assms
  by (auto simp: durable_reviewer_def role_checks reviewed_def split: if_splits
      dest: durable_refuse_fails durable_passed_keeps)

text \<open>A worker that succeeds has called the executor and passed the checks of its role.\<close>

lemma durable_worker_called:
  assumes "durable_role_worker e h x base pw baseline wa st = (Inr r, st')" "wk_success r"
  obtains y site n where "er_success y" "rn_snapshot n = rn_snapshot (snd st)"
    "durable_accept h base pw baseline wa y (site, n) = (Inr r, st')"
proof -
  let ?n = "(snd st)\<lparr>rn_roles := rn_roles (snd st) @ [as_role wa]\<rparr>"
  obtain u w1 where m: "(if as_role wa = ''planner'' then wh_mkdir h (snd (fst st)) (handoff_dir base)
      else (Inr (), snd (fst st))) = (u, w1)" by (rule prod.exhaust)
  with assms(1) have u: "u = Inr ()" by (cases u) (auto simp: durable_role_worker_def Let_def)
  obtain t site where t: "dx_role x e pw
       \<lparr>rc_role = as_role wa, rc_task_id = as_task_id wa, rc_workspace = pw_worktree pw,
        rc_plan_path = plan_path base, rc_plan_digest = rn_plan_digest ?n,
        rc_role_order_index = 0\<rparr> (fst (fst st), w1) = (t, site)" by (rule prod.exhaust)
  show thesis
  proof (cases t)
    case (Inl err)
    with m u t assms show ?thesis
      by (auto simp: durable_role_worker_def Let_def note_result_success role_failed_def split: if_splits)
  next
    case (Inr y)
    with m u t assms(1) have a: "durable_accept h base pw baseline wa y (site, ?n) = (Inr r, st')"
      by (simp add: durable_role_worker_def Let_def)
    moreover from this assms(2) have "er_success y"
      by (auto simp: durable_accept_def Let_def note_result_success role_failed_def split: if_splits)
    ultimately show ?thesis using that [of y ?n site] by simp
  qed
qed

section \<open>The graph of one role\<close>

lemma skipped_node:
  assumes "role_node skip worker a role check rs s = (Inr rs', s')" "role \<in> skip"
  shows "s' = s"
  using assms by (auto simp: role_node_def split: sum.splits option.splits)

lemma run_node:
  assumes "role_node skip worker a role check rs s = (Inr rs', s')" "role \<notin> skip"
  obtains wa r where "worker wa s = (Inr r, s')" "wk_success r" "as_role wa = py_strip role"
proof -
  obtain wa where wa: "parse_assignment (a\<lparr>as_role := role\<rparr>) = Inr wa"
    using assms by (auto simp: role_node_def split: sum.splits)
  then have "as_role wa = py_strip role"
    by (auto simp: parse_assignment_def Let_def split: if_splits)
  with assms wa that show thesis
    by (auto simp: role_node_def andthen_ok split: option.splits if_splits)
qed

lemma graph_runs_role:
  assumes "role_graph (set SEQUENTIAL_ROLES - {role}) worker a saved s = (Inr u, s')"
    "role \<in> set SEQUENTIAL_ROLES"
  obtains wa r where "worker wa s = (Inr r, s')" "wk_success r" "as_role wa = role"
proof -
  let ?skip = "set SEQUENTIAL_ROLES - {role}"
  obtain rs1 s1 rs2 s2 rs3 where n:
      "role_node ?skip worker a ''planner'' (\<lambda>_ _. None) saved s = (Inr rs1, s1)"
      "role_node ?skip worker a ''coder'' coder_check rs1 s1 = (Inr rs2, s2)"
      "role_node ?skip worker a ''reviewer'' reviewer_check rs2 s2 = (Inr rs3, s')"
    using assms(1) by (auto simp: role_graph_def andthen_ok)
  have roles: "set SEQUENTIAL_ROLES = {''planner'', ''coder'', ''reviewer''}"
    by (simp add: SEQUENTIAL_ROLES_def)
  consider "role = ''planner''" | "role = ''coder''" | "role = ''reviewer''"
    using assms(2) roles by auto
  then show thesis
  proof cases
    case 1
    then have "s2 = s1" "s' = s2" using skipped_node [OF n(2)] skipped_node [OF n(3)] by (simp_all add: roles)
    with 1 that show ?thesis
      by - (rule run_node [OF n(1)], auto simp: role_names)
  next
    case 2
    then have "s1 = s" "s' = s2" using skipped_node [OF n(1)] skipped_node [OF n(3)] by (simp_all add: roles)
    with 2 that show ?thesis
      by - (rule run_node [OF n(2)], auto simp: role_names)
  next
    case 3
    then have "s1 = s" "s2 = s1" using skipped_node [OF n(1)] skipped_node [OF n(2)] by (simp_all add: roles)
    with 3 that show ?thesis
      by - (rule run_node [OF n(3)], auto simp: role_names)
  qed
qed

text \<open>What a role that was accepted has left, in the progress of the run.\<close>

definition role_left ::
    "'w file_host \<Rightarrow> string \<Rightarrow> file_change list \<Rightarrow> file_change list \<Rightarrow> string \<Rightarrow> role_outcome \<Rightarrow> 'w \<Rightarrow> bool" where
  "role_left h wt baseline snapshot role r w \<longleftrightarrow>
     (if role = ''planner'' then planned h wt baseline (ru_digest r) w
      else if role = ''coder'' then coded h wt (ru_snapshot r) w
      else reviewed h wt snapshot w \<and> handoff_digest h w (review_path wt) = Inr (ru_digest r))"

lemma accepted_role:
  assumes "execute_single_role e h x tid (pw_worktree pw) pw baseline saved role pd snapshot st = (Inr r, st')"
    "ru_success r" "role \<in> set SEQUENTIAL_ROLES"
  shows "role_left (dm_files h) (pw_worktree pw) baseline snapshot role r (snd st')"
proof -
  let ?a = "\<lparr>as_worker_id = ''durable_sequential'', as_role = role, as_task_id = tid,
               as_workspace_root = pw_worktree pw\<rparr>"
  let ?n = "\<lparr>rn_plan_digest = pd, rn_digest = '''', rn_snapshot = snapshot, rn_roles = [], rn_results = []\<rparr>"
  let ?worker = "durable_role_worker e (dm_files h) x (pw_worktree pw) pw baseline"
  obtain g n where g: "role_graph (set SEQUENTIAL_ROLES - {role}) ?worker ?a saved (st, ?n) = (g, (st', n))"
    using assms(1,2) by (auto simp: execute_single_role_def Let_def role_gave_up_def split: sum.splits prod.splits if_splits)
  with assms(1,2) obtain u where u: "g = Inr u"
    by (cases g) (auto simp: execute_single_role_def Let_def role_gave_up_def split: sum.splits prod.splits if_splits)
  with g assms(1) have r: "ru_digest r = rn_digest n" "role = ''coder'' \<Longrightarrow> ru_snapshot r = rn_snapshot n"
    by (auto simp: execute_single_role_def Let_def split: sum.splits)
  obtain wa wr where w: "?worker wa (st, ?n) = (Inr wr, (st', n))" "wk_success wr" "as_role wa = role"
    by (rule graph_runs_role [OF g [unfolded u] assms(3)])
  obtain y site m where y: "er_success y" "rn_snapshot m = snapshot"
      "durable_accept (dm_files h) (pw_worktree pw) pw baseline wa y (site, m) = (Inr wr, (st', n))"
    by (rule durable_worker_called [OF w(1,2)]) simp
  consider "role = ''planner''" | "role = ''coder''" | "role = ''reviewer''"
    using assms(3) by (auto simp: SEQUENTIAL_ROLES_def)
  then show ?thesis
  proof cases
    case 1
    with y w(3) durable_planner_passed [OF _ w(2), of "dm_files h" pw baseline wa y "(site, m)" "(st', n)"]
    show ?thesis by (simp add: durable_accept_def role_left_def r(1))
  next
    case 2
    with y w(3) durable_coder_passed [OF _ w(2), of "dm_files h" pw wa y "(site, m)" "(st', n)"]
    show ?thesis by (simp add: durable_accept_def role_left_def r(2))
  next
    case 3
    with y w(3) durable_reviewer_passed [OF _ w(2), of "dm_files h" pw wa y "(site, m)" "(st', n)"]
    show ?thesis by (simp add: durable_accept_def role_left_def r(1))
  qed
qed

section \<open>The loop over the roles\<close>

lemma fail_role_ends: "fail_role e l tid run b pd rs c d st \<noteq> (Inr (Inr pg), st')"
  by (auto simp: fail_role_def in_store_ok andthen_ok)

lemma accepted_first_role:
  assumes "run_roles e h crash first saver l tid run x (pw_worktree pw) pw baseline attempt (role # roles) pg st
      = (Inr (Inr pg'), st')" "role \<in> set SEQUENTIAL_ROLES"
  obtains r w s e' pg1 where "role_left (dm_files h) (pw_worktree pw) baseline (pg_snapshot pg) role r w"
    "pg_snapshot pg1 = (if role = ''coder'' then ru_snapshot r else pg_snapshot pg)"
    "role = ''reviewer'' \<Longrightarrow> pg_review_digest pg1 = ru_digest r"
    "run_roles e' h crash first saver l tid run x (pw_worktree pw) pw baseline attempt roles pg1 (s, w)
      = (Inr (Inr pg'), st')"
proof -
  obtain r st1 where r: "execute_single_role e h x tid (pw_worktree pw) pw baseline
      (if saver then dm_saved h (snd st) (lh_run_id l) else []) role (pg_plan_digest pg) (pg_snapshot pg) st
      = (Inr r, st1)"
    using assms(1) by (auto simp: andthen_ok)
  have ok: "ru_success r"
    using assms(1) r fail_role_ends by (fastforce simp: andthen_ok split: if_splits)
  obtain pg1 s2 where k: "keep_digest (later 1000 e) l role r pg (fst st1) = (Inr pg1, s2)"
    using assms(1) r ok by (auto simp: andthen_ok in_store_ok)
  obtain moved where m: "(if first then moved_head h l (pw_worktree pw) role (s2, snd st1) else Inr None) = Inr moved"
    using assms(1) r ok k by (auto simp: andthen_ok in_store_ok reading_ok)
  have "moved = None"
    using assms(1) r ok k m fail_role_ends
    by (cases moved) (fastforce simp: andthen_ok in_store_ok reading_ok)+
  with assms(1) r ok k m obtain s3 where s3: "run_roles (later 2000 e) h crash first saver l tid run x
      (pw_worktree pw) pw baseline attempt roles pg1 (s3, snd st1) = (Inr (Inr pg'), st')"
    by (auto simp: andthen_ok in_store_ok reading_ok)
  have "pg_snapshot pg1 = (if role = ''coder'' then ru_snapshot r else pg_snapshot pg)"
    "role = ''reviewer'' \<Longrightarrow> pg_review_digest pg1 = ru_digest r"
    using k by (auto simp: keep_digest_def andthen_ok split: if_splits)
  from that [OF accepted_role [OF r ok assms(2)] this s3] show thesis .
qed

text \<open>
  Whatever roles are left, the last one is the reviewer, and it has left the product as the coder
  made it: the coder of this loop, or the one whose snapshot was handed in.
\<close>

definition team_left :: "'w file_host \<Rightarrow> string \<Rightarrow> team_progress \<Rightarrow> 'w \<Rightarrow> bool" where
  "team_left h wt pg w \<longleftrightarrow> reviewed h wt (pg_snapshot pg) w
     \<and> handoff_digest h w (review_path wt) = Inr (pg_review_digest pg)"

lemma reviewer_left:
  assumes "run_roles e h crash first saver l tid run x (pw_worktree pw) pw baseline attempt [''reviewer''] pg st
      = (Inr (Inr pg'), st')"
  shows "team_left (dm_files h) (pw_worktree pw) pg' (snd st') \<and> pg_snapshot pg' = pg_snapshot pg"
  by (rule accepted_first_role [OF assms]) (auto simp: SEQUENTIAL_ROLES_def role_left_def team_left_def)

lemma coder_left:
  assumes "run_roles e h crash first saver l tid run x (pw_worktree pw) pw baseline attempt
      [''coder'', ''reviewer''] pg st = (Inr (Inr pg'), st')"
  shows "team_left (dm_files h) (pw_worktree pw) pg' (snd st') \<and> pg_snapshot pg' \<noteq> []"
  by (rule accepted_first_role [OF assms])
    (auto simp: SEQUENTIAL_ROLES_def role_left_def coded_def simp del: run_roles.simps(2) dest!: reviewer_left)

lemma planner_left:
  assumes "run_roles e h crash first saver l tid run x (pw_worktree pw) pw baseline attempt
      SEQUENTIAL_ROLES pg st = (Inr (Inr pg'), st')"
  shows "team_left (dm_files h) (pw_worktree pw) pg' (snd st') \<and> pg_snapshot pg' \<noteq> []"
  by (rule accepted_first_role [OF assms [unfolded SEQUENTIAL_ROLES_def]])
    (auto simp: SEQUENTIAL_ROLES_def simp del: run_roles.simps(2) dest!: coder_left)

lemma roles_left:
  assumes "run_roles e h crash first saver l tid run x (pw_worktree pw) pw baseline attempt
      (remaining_roles accepted) pg st = (Inr (Inr pg'), st')"
  shows "team_left (dm_files h) (pw_worktree pw) pg' (snd st')
    \<and> (if accepted = ''POST_CODER'' then pg_snapshot pg' = pg_snapshot pg else pg_snapshot pg' \<noteq> [])"
  using assms
  by (auto simp: remaining_roles_def simp del: run_roles.simps(2) split: if_splits
      dest: reviewer_left coder_left planner_left)

section \<open>A team that reports success\<close>

lemma stored_failure_fails: "stored_failure tid c x s = (Inr out, s') \<Longrightarrow> \<not> xe_success out"
  by (auto simp: stored_failure_def durable_outcome_def split: sum.splits)

lemma gave_up_fails:
  assumes "team_gave_up e l tid d st = (Inr x, st')"
  obtains out where "x = Inl out" "\<not> xe_success out"
proof -
  obtain r s1 where g: "give_up e l tid d (fst st) = (r, s1)" by (rule prod.exhaust)
  with assms obtain out where "r = Inr out" "x = Inl out"
    by (cases r) (auto simp: team_gave_up_def)
  with g show thesis by (auto simp: give_up_def andthen_ok intro: that dest: stored_failure_fails)
qed

lemma refused_fails:
  assumes "refuse_team e l tid c d st = (Inr x, st')"
  obtains out where "x = Inl out" "\<not> xe_success out"
proof -
  obtain s1 s2 where "(case get_task tid None s1 of Inl err \<Rightarrow> (Inl err, s1)
      | Inr final \<Rightarrow> (Inr (Inl (durable_outcome tid (t_execution_id (tv_row final)) False '''' (-1) c d)), s1))
      = (Inr x, s2)"
    using assms by (auto simp: refuse_team_def in_store_ok andthen_ok)
  then show thesis by (cases "get_task tid None s1") (auto simp: durable_outcome_def intro: that)
qed

lemma failed_role_fails:
  assumes "fail_role e l tid run b pd rs c d st = (Inr x, st')"
  obtains out where "x = Inl out" "\<not> xe_success out"
  using assms by (auto simp: fail_role_def in_store_ok andthen_ok durable_outcome_def)

lemma concluded:
  assumes "conclude e l tid ex rv code dg t d m final s = (Inr out, s')" "xe_success out"
  shows "code = 0"
  using assms by (auto simp: conclude_def Let_def andthen_ok durable_outcome_def split: if_splits)

lemma finished_team:
  assumes "finish_team e h l tid run wt attempt t d pg st = (Inr out, st')" "xe_success out"
  shows "snd st' = snd (remove_handoff (dm_files h) (handoff_dir wt) (snd st))
    \<and> (\<exists>shown dg. validation_run e (dm_files h) (snd st) ''git_diff_check'' wt = Inr (0, shown, dg))"
proof -
  obtain code dg where v: "any_validation e (dm_files h) (snd st) wt = (code, dg)" by (rule prod.exhaust)
  obtain s1 s2 final where "snd st' = snd (remove_handoff (dm_files h) (handoff_dir wt) (snd st))"
      "conclude (later 100 e) l tid (dr_execution_id run) ''READY_FOR_REVIEW'' code dg t d
        [(''plan_digest'', JStr (pg_plan_digest pg)), (''review_digest'', JStr (pg_review_digest pg))]
        final s1 = (Inr out, s2)"
    using assms(1) v by (auto simp: finish_team_def Let_def andthen_ok in_store_ok reading_ok)
  moreover from this concluded [OF _ assms(2)] have "code = 0" by blast
  ultimately show ?thesis using v
    by (auto simp: any_validation_def split: sum.splits)
qed

lemma roles_end:
  assumes "run_roles e h crash first saver l tid run x base pw baseline attempt roles pg st = (Inr (Inl out), st')"
  shows "\<not> xe_success out"
  using assms
proof (induction roles arbitrary: e pg st)
  case (Cons role roles)
  from Cons.prems Cons.IH show ?case
    by (auto simp: andthen_ok split: if_splits option.splits elim: failed_role_fails)
qed simp

text \<open>
  What lies behind a success: the roles that were left have run, ending with the reviewer; then
  validation passed on what they left, and the notes were removed.
\<close>

definition team_behind ::
    "env \<Rightarrow> 'w file_host \<Rightarrow> string \<Rightarrow> team_progress \<Rightarrow> 'w \<Rightarrow> 'w \<Rightarrow> bool" where
  "team_behind e h wt pg w w' \<longleftrightarrow> team_left h wt pg w
     \<and> (\<exists>shown dg. validation_run e h w ''git_diff_check'' wt = Inr (0, shown, dg))
     \<and> w' = snd (remove_handoff h (handoff_dir wt) w)"

lemma finished_behind:
  assumes "roles_then_finish e h l tid run (pw_worktree pw) attempt t d
      (run_roles e1 h crash first saver l tid run x (pw_worktree pw) pw baseline attempt
        (remaining_roles accepted) pg st) = (Inr out, st')" "xe_success out"
  obtains e2 pg' w where "team_behind e2 (dm_files h) (pw_worktree pw) pg' w (snd st')"
    "if accepted = ''POST_CODER'' then pg_snapshot pg' = pg_snapshot pg else pg_snapshot pg' \<noteq> []"
proof -
  obtain y st1 where y: "run_roles e1 h crash first saver l tid run x (pw_worktree pw) pw baseline attempt
      (remaining_roles accepted) pg st = (Inr y, st1)"
    using assms(1) by (auto simp: roles_then_finish_def andthen_ok)
  show thesis
  proof (cases y)
    case (Inl out')
    with y assms show ?thesis by (auto simp: roles_then_finish_def dest: roles_end)
  next
    case (Inr pg')
    with y assms(1) have f: "finish_team (later 10000 e) h l tid run (pw_worktree pw) attempt t d pg' st1 = (Inr out, st')"
      by (simp add: roles_then_finish_def)
    from that [of "later 10000 e" pg' "snd st1"] finished_team [OF f assms(2)] roles_left [OF y [unfolded Inr]]
    show ?thesis by (simp add: team_behind_def)
  qed
qed

text \<open>A context is made for the worktree it is given.\<close>

definition keeps_worktree :: "'w durable_executor \<Rightarrow> bool" where
  "keeps_worktree x \<longleftrightarrow> (case dx_reconstruct x of None \<Rightarrow> True | Some f \<Rightarrow>
     (\<forall>wt base ex w. case f wt base ex w of Inl _ \<Rightarrow> True | Inr pw \<Rightarrow> pw_worktree pw = wt))"

lemma rebuilt:
  assumes "rebuild_context e h l tid run wt st = (Inr ready, st')"
    "\<And>t x. dm_create h t = Inr x \<Longrightarrow> keeps_worktree x"
  obtains out where "ready = Inl out" "\<not> xe_success out" | x pw where "ready = Inr (x, pw)" "pw_worktree pw = wt"
proof -
  obtain v where v: "get_task tid None (fst st) = Inr v"
    using assms(1) by (auto simp: rebuild_context_def andthen_ok reading_ok)
  show thesis
  proof (cases "case dm_kwargs h (tv_row v) of Inl err \<Rightarrow> Inl err | Inr _ \<Rightarrow> dm_create h (tv_row v)")
    case (Inl err)
    with v assms(1) have "team_gave_up e l tid (error_text err) st = (Inr ready, st')"
      by (simp add: rebuild_context_def reading_def)
    then show ?thesis by (rule gave_up_fails) (rule that(1))
  next
    case (Inr x)
    then have k: "keeps_worktree x" using assms(2) by (auto split: sum.splits)
    show ?thesis
    proof (cases "dx_reconstruct x")
      case None
      with v Inr assms(1) show ?thesis by (auto simp: rebuild_context_def reading_def bare_context_def intro: that(2))
    next
      case (Some f)
      show ?thesis
      proof (cases "f wt (dr_repository_base_sha run) (dr_execution_id run) (snd st)")
        case (Inl err)
        with v Inr Some assms(1) obtain c d where "refuse_team e l tid c d st = (Inr ready, st')"
          by (auto simp: rebuild_context_def reading_def)
        then show ?thesis by (rule refused_fails) (rule that(1))
      next
        case 2: (Inr pw)
        have "case f wt (dr_repository_base_sha run) (dr_execution_id run) (snd st) of
            Inl _ \<Rightarrow> True | Inr pw \<Rightarrow> pw_worktree pw = wt"
          using k by (simp only: keeps_worktree_def Some option.case)
        then have "pw_worktree pw = wt" by (simp only: 2 sum.case)
        moreover have "ready = Inr (x, pw)"
          using v Inr Some 2 assms(1) by (simp add: rebuild_context_def reading_def)
        ultimately show ?thesis by (intro that(2))
      qed
    qed
  qed
qed

lemma refused_outcome:
  assumes "refuse_team e l tid c d st = (Inr x, st')"
  shows "\<exists>out. x = Inl out \<and> \<not> xe_success out"
  by (rule refused_fails [OF assms]) (rule exI, rule conjI)

lemma coder_snapshot_cases:
  obtains "coder_snapshot e l tid run accepted product st = (Inr (Inr []), st)" "accepted \<noteq> ''POST_CODER''"
  | c d where "coder_snapshot e l tid run accepted product st = refuse_team e l tid c d st"
  | "coder_snapshot e l tid run accepted product st = (Inr (Inr product), st)"
    "files_digest e product = dr_coder_product_diff_digest run"
proof (cases "accepted = ''POST_CODER''")
  case False
  then show ?thesis by (intro that(1)) (simp_all only: coder_snapshot_def Let_def if_True if_False not_False_eq_True)
next
  case True
  show ?thesis
  proof (cases "dr_coder_product_diff_digest run = ''''")
    case 2: True
    show ?thesis
      by (rule that(2)) (simp only: coder_snapshot_def Let_def True 2 if_True if_False not_True_eq_False simp_thms)
  next
    case 2: False
    show ?thesis
    proof (cases "files_digest e product = dr_coder_product_diff_digest run")
      case 3: True
      show ?thesis
        by (intro that(3) 3) (simp only: coder_snapshot_def Let_def True 2 3 if_True if_False not_True_eq_False simp_thms)
    next
      case 3: False
      show ?thesis
        by (rule that(2)) (simp only: coder_snapshot_def Let_def True 2 3 if_True if_False simp_thms)
    qed
  qed
qed

lemma snapshot_kept:
  assumes "coder_snapshot e l tid run accepted product st = (Inr (Inr snapshot), st')"
    "accepted = ''POST_CODER''"
  shows "files_digest e snapshot = dr_coder_product_diff_digest run"
  by (rule coder_snapshot_cases [of e l tid run accepted product st])
    (use assms in \<open>auto dest: refused_outcome\<close>)

lemma snapshot_refused:
  assumes "coder_snapshot e l tid run accepted product st = (Inr (Inl out), st')"
  shows "\<not> xe_success out"
  by (rule coder_snapshot_cases [of e l tid run accepted product st])
    (use assms in \<open>auto dest: refused_outcome [OF sym]\<close>)

section \<open>A resumption\<close>

lemma later_sha256 [simp]: "sha256 (later k e) = sha256 e"
  by (simp add: later_def)

lemma files_digest_later [simp]: "files_digest (later k e) = files_digest e"
  by (simp add: files_digest_def sha256_json_def fun_eq_iff)

lemma left_roles_behind:
  assumes "run_left_roles e h crash tid run l accepted attempt (pw_worktree pw) x pw st = (Inr out, st')"
    "xe_success out"
  obtains e2 pg w where "team_behind e2 (dm_files h) (pw_worktree pw) pg w (snd st')"
    "if accepted = ''POST_CODER'' then files_digest e (pg_snapshot pg) = dr_coder_product_diff_digest run
     else pg_snapshot pg \<noteq> []"
proof -
  obtain product st2 kept st3 where k: "coder_snapshot (later 10 e) l tid run accepted product st2 = (Inr kept, st3)"
      "(case kept of Inl out \<Rightarrow> (Inr out, st3) | Inr snapshot \<Rightarrow>
         andthen (reading (resume_saver h run (snd st3)) st3) (\<lambda>saver st4.
         roles_then_finish (later 100 e) h l tid run (pw_worktree pw) attempt
           ''Durable sequential team validated (resume)''
           ''resume per-role checkpoint acceptance completed''
           (run_roles (later 100 e) h crash False saver l tid run x (pw_worktree pw) pw product attempt
              (remaining_roles accepted)
              \<lparr>pg_plan_digest = dr_planner_handoff_digest run,
               pg_review_digest = dr_reviewer_handoff_digest run, pg_snapshot = snapshot\<rparr> st4))) = (Inr out, st')"
    using assms(1) by (auto simp: run_left_roles_def andthen_ok)
  show thesis
  proof (cases kept)
    case (Inl out')
    with k assms(2) show ?thesis by (auto dest: snapshot_refused)
  next
    case (Inr snapshot)
    note same = snapshot_kept [OF k(1) [unfolded Inr]]
    from Inr k(2) obtain saver st4 where "roles_then_finish (later 100 e) h l tid run (pw_worktree pw) attempt
           ''Durable sequential team validated (resume)''
           ''resume per-role checkpoint acceptance completed''
           (run_roles (later 100 e) h crash False saver l tid run x (pw_worktree pw) pw product attempt
              (remaining_roles accepted)
              \<lparr>pg_plan_digest = dr_planner_handoff_digest run,
               pg_review_digest = dr_reviewer_handoff_digest run, pg_snapshot = snapshot\<rparr> st4) = (Inr out, st')"
      by (auto simp: andthen_ok)
    from this assms(2) show ?thesis
      by (rule finished_behind) (rule that, assumption, use same in \<open>auto split: if_splits\<close>)
  qed
qed

lemma resumed_roles_behind:
  assumes "resume_team_roles e h crash tid root run l accepted attempt st = (Inr out, st')" "xe_success out"
    "accepted \<noteq> ''POST_VALIDATION''" "\<And>t x. dm_create h t = Inr x \<Longrightarrow> keeps_worktree x"
    "wt = (if dr_worktree_path run = '''' then root else dr_worktree_path run)"
  obtains e2 pg w where "team_behind e2 (dm_files h) wt pg w (snd st')"
    "if accepted = ''POST_CODER'' then files_digest e (pg_snapshot pg) = dr_coder_product_diff_digest run
     else pg_snapshot pg \<noteq> []"
proof -
  obtain st1 ready st2 where r: "rebuild_context (later 10 e) h l tid run wt st1 = (Inr ready, st2)"
      "(case ready of Inl out \<Rightarrow> (Inr out, st2)
        | Inr (x, pw) \<Rightarrow> run_left_roles (later 20 e) h crash tid run l accepted attempt wt x pw st2) = (Inr out, st')"
    using assms(1,3) unfolding resume_team_roles_def Let_def assms(5) [symmetric] by (auto simp: andthen_ok)
  show thesis
  proof (rule rebuilt [OF r(1) assms(4)])
    fix t x assume "dm_create h t = Inr x" then show "dm_create h t = Inr x" .
  next
    fix out' assume "ready = Inl out'" "\<not> xe_success out'"
    with r(2) assms(2) show thesis by simp
  next
    fix x pw assume "ready = Inr (x, pw)" "pw_worktree pw = wt"
    with r(2) have "run_left_roles (later 20 e) h crash tid run l accepted attempt (pw_worktree pw) x pw st2 = (Inr out, st')"
      by simp
    from this assms(2) show thesis
      by (rule left_roles_behind) (rule that, simp_all add: \<open>pw_worktree pw = wt\<close> cong: if_cong)
  qed
qed

lemma with_lease_returned:
  assumes "team_with_lease e c l body st = (Inr out, st')"
  obtains s where "body (s, snd st) = (Inr out, st')"
  using assms by (auto simp: team_with_lease_def andthen_ok split: prod.splits sum.splits if_splits)

text \<open>What a resumption has found before it recovers the lease.\<close>

lemma resumption_past_checks:
  assumes "resume_durable_team e c h crash tid root owner base authority planning st = (r, st')"
    "find_active_durable_run tid (fst st) = Some (run, status)" "distinct (map dr_run_id (durable_runs (fst st)))" "st' \<noteq> st \<or> r = Inr out"
  obtains auth plan view where "assert_identity_for_resume c authority planning = Inr (auth, plan)"
    "get_task tid None (fst st) = Inr view" "t_status (tv_row view) = status"
    "team_resume_refused e h (snd st) tid root base auth plan run (tv_row view) = None"
    "andthen (in_store (recover_durable_lease e (dr_run_id run) (resume_owner owner run)
        (dc_expiry_ms c) (status = ''INTERRUPTED'') (fst st)) (snd st)) (\<lambda>l st1.
      team_with_lease (later 10 e) c l
        (resume_team_with_lease (later 100 e) h crash tid
          (if dr_worktree_path run = '''' then root else dr_worktree_path run) run l) st1) = (r, st')"
proof -
  have found: "get_durable_run (dr_run_id run) (fst st) = Inr run"
    using active_run(1) [OF assms(2,3)] by (simp add: get_durable_run_def)
  obtain auth plan where i: "assert_identity_for_resume c authority planning = Inr (auth, plan)"
    using assms(1,4) by (cases "assert_identity_for_resume c authority planning")
      (auto simp: resume_durable_team_def reading_def)
  obtain view where v: "get_task tid None (fst st) = Inr view"
    using assms(1,2,4) i found by (cases "get_task tid None (fst st)")
      (auto simp: resume_durable_team_def reading_def)
  have s: "t_status (tv_row view) = status" "status \<notin> set REVIEW_STATUSES"
    using active_status [OF assms(2) v] by (auto simp: REVIEW_STATUSES_def TERMINAL_STATUSES_def)
  have n: "team_resume_refused e h (snd st) tid root base auth plan run (tv_row view) = None"
    using assms(1,2,4) i v s found
    by (cases "team_resume_refused e h (snd st) tid root base auth plan run (tv_row view)")
      (auto simp: resume_durable_team_def reading_def)
  from that [OF i v s(1) n] show thesis
    using assms(1,2) i v s n found by (simp add: resume_durable_team_def reading_def Let_def)
qed

lemma resumed_lease_behind:
  assumes "resume_team_with_lease e h crash tid root run l st = (Inr out, st')" "xe_success out"
    "dr_accepted_checkpoint run \<notin> {''POST_REVIEWER'', ''POST_VALIDATION''}"
    "\<And>t x. dm_create h t = Inr x \<Longrightarrow> keeps_worktree x"
    "wt = (if dr_worktree_path run = '''' then root else dr_worktree_path run)"
  obtains e2 pg w where "team_behind e2 (dm_files h) wt pg w (snd st')"
    "if dr_accepted_checkpoint run = ''POST_CODER''
     then files_digest e (pg_snapshot pg) = dr_coder_product_diff_digest run else pg_snapshot pg \<noteq> []"
proof -
  obtain attempt st1 where r: "resume_team_roles (later 100 e) h crash tid root run l
      (dr_accepted_checkpoint run) attempt st1 = (Inr out, st')"
    using assms(1,3) by (auto simp: resume_team_with_lease_def Let_def andthen_ok)
  have nv: "dr_accepted_checkpoint run \<noteq> ''POST_VALIDATION''" using assms(3) by simp
  show thesis
    by (rule resumed_roles_behind [OF r assms(2) nv assms(4,5)])
      (assumption | rule that | simp cong: if_cong)+
qed

lemma resumption_behind:
  assumes "resume_durable_team e c h crash tid root owner base authority planning st = (Inr out, st')"
    "xe_success out" "find_active_durable_run tid (fst st) = Some (run, status)"
    "distinct (map dr_run_id (durable_runs (fst st)))"
    "dr_accepted_checkpoint run \<notin> {''POST_REVIEWER'', ''POST_VALIDATION''}"
    "\<And>t x. dm_create h t = Inr x \<Longrightarrow> keeps_worktree x"
    "wt = (if dr_worktree_path run = '''' then root else dr_worktree_path run)"
  obtains e2 pg w where "team_behind e2 (dm_files h) wt pg w (snd st')"
    "if dr_accepted_checkpoint run = ''POST_CODER''
     then files_digest e (pg_snapshot pg) = dr_coder_product_diff_digest run else pg_snapshot pg \<noteq> []"
proof -
  obtain l st1 where "team_with_lease (later 10 e) c l
      (resume_team_with_lease (later 100 e) h crash tid wt run l) st1 = (Inr out, st')"
    by (rule resumption_past_checks [OF assms(1,3,4), of out]) (auto simp: andthen_ok assms(7))
  then obtain s where r: "resume_team_with_lease (later 100 e) h crash tid wt run l (s, snd st1) = (Inr out, st')"
    by (rule with_lease_returned)
  have wt: "wt = (if dr_worktree_path run = '''' then wt else dr_worktree_path run)"
    by (simp add: assms(7))
  show thesis
    by (rule resumed_lease_behind [OF r assms(2,5,6) wt]) (assumption | rule that | simp cong: if_cong)+
qed

section \<open>The first execution\<close>

lemma gave_up_outcome: "team_gave_up e l tid d st = (Inr (Inl out), st') \<Longrightarrow> \<not> xe_success out"
  by (erule gave_up_fails) simp

lemma gave_up_goes_nowhere: "team_gave_up e l tid d st \<noteq> (Inr (Inr x), st')"
  by (rule notI, erule gave_up_fails) simp

lemma prepared_ended:
  assumes "prepare_team e c h l tid root st = (Inr (Inl out), st')"
  shows "\<not> xe_success out"
proof -
  obtain v where v: "get_task tid None (fst st) = Inr v" "dm_kwargs h (tv_row v) = Inr ()"
    using assms by (auto simp: prepare_team_def andthen_ok reading_ok)
  note start = prepare_team_def reading_def andthen_simps v option.case sum.case prod.case Let_def
  show ?thesis
  proof (cases "dm_create h (tv_row v)")
    case (Inl err)
    from assms show ?thesis by (simp only: start Inl) (erule gave_up_outcome)
  next
    case (Inr x)
    obtain p st1 where p: "prepare_worktree e x l tid root st = (p, st1)" by (rule prod.exhaust)
    show ?thesis
    proof (cases p)
      case 2: (Inl err)
      show ?thesis
      proof (cases "is_crash err")
        case True
        with assms show ?thesis by (simp only: start Inr p 2 if_True prod.inject sum.distinct simp_thms)
      next
        case False
        from assms show ?thesis by (simp only: start Inr p 2 False if_False) (erule gave_up_outcome)
      qed
    next
      case 2: (Inr pw)
      consider "\<not> wh_exists (dm_files h) (snd st1) (pw_worktree pw)"
        | "wh_exists (dm_files h) (snd st1) (pw_worktree pw)" "dm_head h (snd st1) (pw_worktree pw) = ''''"
        | "wh_exists (dm_files h) (snd st1) (pw_worktree pw)" "dm_head h (snd st1) (pw_worktree pw) \<noteq> ''''"
        by blast
      then show ?thesis
      proof cases
        case 1
        from assms show ?thesis
          by (simp only: start Inr p 2 1 if_True simp_thms) (erule gave_up_outcome)
      next
        case 3: 2
        from assms show ?thesis
          by (simp only: start Inr p 2 3 if_True if_False simp_thms) (erule gave_up_outcome)
      next
        case 3
        with assms show ?thesis by (auto simp: start Inr p 2 andthen_ok)
      qed
    qed
  qed
qed

text \<open>The context of the roles comes from the executor the router made; its worktree has a HEAD.\<close>

lemma prepared_context:
  assumes "prepare_team e c h l tid root st = (Inr (Inr (x, pw, head, path)), st')"
  shows "\<exists>t s1. dm_create h t = Inr x \<and> prepare_worktree e x l tid root st = (Inr pw, (s1, snd st'))
    \<and> dm_head h (snd st') (pw_worktree pw) \<noteq> ''''"
proof -
  note g = gave_up_goes_nowhere
  obtain v where v: "get_task tid None (fst st) = Inr v" "dm_kwargs h (tv_row v) = Inr ()"
    using assms by (auto simp: prepare_team_def andthen_ok reading_ok)
  obtain y where y: "dm_create h (tv_row v) = Inr y"
    using assms v by (cases "dm_create h (tv_row v)") (auto simp: prepare_team_def reading_def g)
  obtain p st1 where p: "prepare_worktree e y l tid root st = (p, st1)" by (rule prod.exhaust)
  obtain pw' where pw': "p = Inr pw'"
    using assms v y p by (cases p) (auto simp: prepare_team_def reading_def g split: if_splits)
  with assms v y p have "wh_exists (dm_files h) (snd st1) (pw_worktree pw')"
    "dm_head h (snd st1) (pw_worktree pw') \<noteq> ''''"
    by (auto simp: prepare_team_def reading_def Let_def g split: if_splits)
  with assms v y p pw' show ?thesis
    by (cases st1) (auto simp: prepare_team_def reading_def Let_def andthen_ok in_store_ok)
qed

lemma executed_behind:
  assumes "execute_team_with_lease e c h crash tid root l st = (Inr out, st')" "xe_success out"
    "get_durable_run (lh_run_id l) (fst st) = Inr run" "dr_accepted_checkpoint run \<noteq> ''POST_VALIDATION''"
  obtains t x pw e1 st1 st2 e2 pg w where "dm_create h t = Inr x"
    "prepare_worktree e1 x l tid root st1 = (Inr pw, st2)" "dm_head h (snd st2) (pw_worktree pw) \<noteq> ''''"
    "team_behind e2 (dm_files h) (pw_worktree pw) pg w (snd st')" "pg_snapshot pg \<noteq> []"
proof -
  obtain ready st1 where r: "prepare_team e c h l tid root st = (Inr ready, st1)"
      "(case ready of Inl out \<Rightarrow> (Inr out, st1) | Inr (x, pw, head, path) \<Rightarrow>
           andthen (start_team (later 100 e) h crash l tid run (pw_worktree pw) head path st1) (\<lambda>baseline st2.
           roles_then_finish (later 200 e) h l tid run (pw_worktree pw) (dr_role_attempt run)
             ''Durable sequential team validated'' ''per-role checkpoint acceptance completed''
             (run_roles (later 200 e) h crash True True l tid run x (pw_worktree pw) pw baseline
                (dr_role_attempt run) SEQUENTIAL_ROLES
                \<lparr>pg_plan_digest = '''', pg_review_digest = '''', pg_snapshot = []\<rparr> st2))) = (Inr out, st')"
    using assms(1,3,4) by (auto simp: execute_team_with_lease_def andthen_ok reading_ok)
  show thesis
  proof (cases ready)
    case (Inl out')
    then have "\<not> xe_success out'" using r(1) prepared_ended by metis
    with Inl r(2) assms(2) show ?thesis by simp
  next
    case (Inr t)
    obtain x pw head path where t: "t = (x, pw, head, path)" by (cases t)
    obtain u s1 where u: "dm_create h u = Inr x" "prepare_worktree e x l tid root st = (Inr pw, (s1, snd st1))"
        "dm_head h (snd st1) (pw_worktree pw) \<noteq> ''''"
      using prepared_context [OF r(1) [unfolded Inr t]] by blast
    have roles: "SEQUENTIAL_ROLES = remaining_roles ''PRE_PLANNER''" by (simp add: remaining_roles_def)
    from Inr t r(2) obtain baseline st2 where "roles_then_finish (later 200 e) h l tid run (pw_worktree pw) (dr_role_attempt run)
             ''Durable sequential team validated'' ''per-role checkpoint acceptance completed''
             (run_roles (later 200 e) h crash True True l tid run x (pw_worktree pw) pw baseline
                (dr_role_attempt run) (remaining_roles ''PRE_PLANNER'')
                \<lparr>pg_plan_digest = '''', pg_review_digest = '''', pg_snapshot = []\<rparr> st2) = (Inr out, st')"
      by (auto simp: andthen_ok roles)
    from this assms(2) show ?thesis
      by (rule finished_behind) (rule that [OF u(1,2)], simp_all add: u(3))
  qed
qed

lemma execution_behind:
  assumes "execute_durable_team e c h crash tid root owner st = (Inr out, st')" "xe_success out"
  obtains t x pw l e1 st1 st2 e2 pg w where "dm_create h t = Inr x"
    "prepare_worktree e1 x l tid root st1 = (Inr pw, st2)" "dm_head h (snd st2) (pw_worktree pw) \<noteq> ''''"
    "team_behind e2 (dm_files h) (pw_worktree pw) pg w (snd st')" "pg_snapshot pg \<noteq> []"
proof -
  obtain l s1 where l: "acquire_or_find_lease e tid owner (dc_expiry_ms c) (trusted_authority_sha c)
        (trusted_planning_sha c) (fst st) = (Inr l, s1)"
      "team_with_lease (later 10 e) c l (execute_team_with_lease (later 100 e) c h crash tid root l)
        (s1, snd st) = (Inr out, st')"
    using assms(1) by (auto simp: execute_durable_team_def andthen_ok in_store_ok reading_ok)
  obtain r where r: "run_row_of (lh_run_id l) s1 = Some r" "dr_accepted_checkpoint r = ''''"
    using acquired_row [OF l(1)] by blast
  let ?s = "snd (heartbeat_durable_lease (later 10 e) (lh_run_id l) (lh_owner l) (lh_epoch l) (dc_expiry_ms c) s1)"
  have x: "execute_team_with_lease (later 100 e) c h crash tid root l (?s, snd st) = (Inr out, st')"
    using l(2) by (auto simp: team_with_lease_def andthen_ok split: prod.splits sum.splits if_splits)
  have "\<exists>r'. run_row_of (lh_run_id l) ?s = Some r' \<and> dr_accepted_checkpoint r' = ''''"
    using r by (auto simp: heartbeat_durable_lease_def update_run_def run_row_of_def find_sql_update
        split: sum.split)
  then obtain r' where "get_durable_run (lh_run_id l) ?s = Inr r'" "dr_accepted_checkpoint r' = ''''"
    by (auto simp: get_durable_run_def)
  with executed_behind [OF x assms(2)] show thesis using that by (metis fst_conv list.distinct(1))
qed

section \<open>After the reviewer\<close>

lemma site_kept:
  "snd (snd (in_store r w)) = w"
  "snd (snd (reading x st)) = snd st"
  by (simp_all add: in_store_def reading_def)

lemma kept_site_andthen:
  assumes "snd (snd r) = w" "\<And>x s. snd s = w \<Longrightarrow> snd (snd (k x s)) = w"
  shows "snd (snd (andthen r k)) = w"
  using assms by (cases r; cases "fst r") auto

lemma post_reviewer_site: "snd (snd (resume_team_post_reviewer e h l tid run attempt st)) = snd st"
  unfolding resume_team_post_reviewer_def Let_def
  by (intro kept_site_andthen) (auto simp: site_kept intro!: kept_site_andthen)

end
