(* ===== verification/Durable_Team_Properties.thy ===== *)
theory Durable_Team_Properties
  imports Team_Properties Durable_Scenarios Durable_Team_Laws
begin

text \<open>
  The properties of durable sequential teams: what stands behind the success of an execution and
  of a resumption, what a resumption has checked before it changes anything, and where it falls
  short of the resumption of a single run.
\<close>

section \<open>A team interrupted after its coder\<close>

text \<open>The calls of the first execution up to the checkpoint of the coder; then the lease expires.\<close>

definition dt_calls :: "call list" where
  "dt_calls =
     [StoreCall (CreateTask (wenv 1 0) ((wtask ''t'' ''k'')\<lparr>q_orchestration_mode := ''sequential_team''\<rparr>)),
      StoreCall (AcquireLease (wenv 2 0) w_task_id ''A'' 1000 ''au'' ''pl'')]
     @ map (\<lambda>c. StoreCall (Fenced (wenv 3 0) w_run_id ''A'' 1 c))
         [FWorktree ''/wt'' ''head'', FBaseSha ''head'', FCheckpoint ''PRE_PLANNER'' '''' 1,
          FTransition w_task_id ''RUNNING'', FCheckpoint ''POST_PLANNER'' ''plan'' 1,
          FCoderDigest (files_digest (wenv 0 0) tp_product), FCheckpoint ''POST_CODER'' '''' 1]"

definition dt_paused :: "files site" where
  "dt_paused = (snd (reconcile_expired_runs (wenv 500 9000) 9000 (run_calls dt_calls empty_db)), tp_coded)"

definition dt_context :: "string \<Rightarrow> string \<Rightarrow> string \<Rightarrow> prepared" where
  "dt_context wt base ex = \<lparr>pw_worktree = wt, pw_base_sha = base, pw_execution_id = ex,
     pw_cli_path = ''opencode'', pw_is_cmd = False, pw_opencode_exe = None\<rparr>"

definition dt_executor :: "files durable_executor" where
  "dt_executor = \<lparr>dx_prepare = (\<lambda>tid root w. Done (Inr (Inr (dt_context ''/wt'' ''head'' ''x''), w))),
     dx_role = (\<lambda>e pw rc st. (Inr tp_result, (fst st, tp_write (tp_work ''ok'') (rc_role rc) # snd st))),
     dx_reconstruct = Some (\<lambda>wt base ex w. Inr (dt_context wt base ex))\<rparr>"

definition dt_host :: "files durable_team_host" where
  "dt_host = \<lparr>dm_files = tp_files, dm_kwargs = (\<lambda>_. Inr ()), dm_create = (\<lambda>_. Inr dt_executor),
     dm_head = (\<lambda>_ _. ''head''), dm_checkpoint_path = (\<lambda>rid. Inr (''/cp/'' @ rid)),
     dm_connect = (\<lambda>_. Inr ()), dm_saved = (\<lambda>_ _. []), dm_redact = (\<lambda>x. x)\<rparr>"

definition dt_resume :: "files site \<Rightarrow> execution_outcome outcome \<times> files site" where
  "dt_resume st = resume_durable_team (wenv 600 9000) ds_config dt_host None w_task_id '''' ''B'' ''''
     None None st"

definition dt_succeeds :: "execution_outcome outcome \<times> files site \<Rightarrow> bool" where
  "dt_succeeds r = (case r of (Inl _, _) \<Rightarrow> False | (Inr out, (_, w)) \<Rightarrow> xe_success out \<and> w \<noteq> tp_coded)"

definition dt_coded :: "files site \<Rightarrow> bool" where
  "dt_coded st \<longleftrightarrow> map_option (\<lambda>(r, status). (dr_accepted_checkpoint r, dr_worktree_path r, status))
     (find_active_durable_run w_task_id (fst st)) = Some (''POST_CODER'', ''/wt'', ''INTERRUPTED'')
   \<and> distinct (map dr_run_id (durable_runs (fst st)))"

lemma dt_paused_coded: "dt_coded dt_paused"
  by code_simp

lemma dt_resumed: "dt_succeeds (dt_resume dt_paused)"
  by code_simp


lemma dt_scenario:
  obtains run out st' where "dt_resume dt_paused = (Inr out, st')" "xe_success out" "snd st' \<noteq> snd dt_paused"
    "find_active_durable_run w_task_id (fst dt_paused) = Some (run, ''INTERRUPTED'')"
    "dr_accepted_checkpoint run = ''POST_CODER''" "dr_worktree_path run = ''/wt''"
    "distinct (map dr_run_id (durable_runs (fst dt_paused)))"
  using dt_paused_coded dt_resumed that
  by (auto simp: dt_coded_def dt_succeeds_def dt_paused_def split: prod.splits sum.splits)

section \<open>Properties\<close>

text \<open>
  C18. A resumption of a team that changes anything, in the database or in the file system, is of a
  task that was interrupted, by the trusted identity its run was made with, in the worktree it
  was made in, at the revision it started from, and past its first checkpoint.
\<close>

theorem team_resumption_guarded:
  assumes "resume_durable_team e c h crash tid root owner base authority planning st = (r, st')"
    "st' \<noteq> st" "distinct (map dr_run_id (durable_runs (fst st)))"
  shows "\<exists>run auth plan view. find_active_durable_run tid (fst st) = Some (run, ''INTERRUPTED'')
     \<and> assert_identity_for_resume c authority planning = Inr (auth, plan)
     \<and> get_task tid None (fst st) = Inr view
     \<and> t_orchestration_mode (tv_row view) = ''sequential_team'' \<and> t_executor_kind (tv_row view) = ''opencode''
     \<and> dr_execution_authority_sha run = auth \<and> dr_planning_sha run = plan
     \<and> dr_recovery_classification run \<in> set RECOVERABLE \<and> dr_accepted_checkpoint run \<noteq> ''''
     \<and> (let wt = if dr_worktree_path run = '''' then root else dr_worktree_path run in
          root \<in> {'''', wt} \<and> wh_exists (dm_files h) (snd st) wt
          \<and> dr_repository_base_sha run \<in> {'''', dm_head h (snd st) wt}
          \<and> dr_worktree_head_sha run \<in> {'''', dm_head h (snd st) wt})"
proof -
  obtain run status where f: "find_active_durable_run tid (fst st) = Some (run, status)"
    using assms(1,2) by (cases "find_active_durable_run tid (fst st)")
      (auto simp: resume_durable_team_def andthen_def reading_def split: sum.splits prod.splits)
  obtain auth plan view where p: "assert_identity_for_resume c authority planning = Inr (auth, plan)"
      "get_task tid None (fst st) = Inr view" "t_status (tv_row view) = status"
      "team_resume_refused e h (snd st) tid root base auth plan run (tv_row view) = None"
    using resumption_past_checks [OF assms(1) f assms(3)] assms(2) by metis
  have "status \<notin> {''BLOCKED'', ''FAILED'', ''CANCELLED''}"
    using active_status [OF f p(2)] by (auto simp: TERMINAL_STATUSES_def)
  then show ?thesis
    using f p by (auto simp: team_resume_refused_def Let_def split: if_splits)
qed

theorem team_resumption_guarded_witness:
  "\<exists>run. find_active_durable_run w_task_id (fst dt_paused) = Some (run, ''INTERRUPTED'')
     \<and> dr_recovery_classification run \<in> set RECOVERABLE
     \<and> dr_repository_base_sha run \<in> {'''', ''head''}"
proof (rule dt_scenario)
  fix run out st'
  assume r: "dt_resume dt_paused = (Inr out, st')" "snd st' \<noteq> snd dt_paused"
    "distinct (map dr_run_id (durable_runs (fst dt_paused)))"
  then have "st' \<noteq> dt_paused" by auto
  from team_resumption_guarded [OF r(1) [unfolded dt_resume_def] this r(3)] show ?thesis
    by (auto simp: Let_def dt_host_def)
qed



text \<open>
  A first execution that ends in a success has been through the whole protocol, in the worktree
  its executor prepared, which has a HEAD.
\<close>

theorem executed_team_reviewed:
  assumes "execute_durable_team e c h crash tid root owner st = (Inr out, st')" "xe_success out"
  shows "\<exists>t x pw l e1 st1 st2 e2 pg w. dm_create h t = Inr x
    \<and> prepare_worktree e1 x l tid root st1 = (Inr pw, st2) \<and> dm_head h (snd st2) (pw_worktree pw) \<noteq> ''''
    \<and> team_behind e2 (dm_files h) (pw_worktree pw) pg w (snd st') \<and> pg_snapshot pg \<noteq> []"
  by (rule execution_behind [OF assms]) blast

text \<open>
  A team that has ended cannot be resumed, not even to hear how it ended: a task that is ready
  for review has no active run, so the resumption raises before it looks at the status, and the
  statuses it accepts beside INTERRUPTED are never reached. Resuming a single run in the same
  state reports its success.
\<close>

theorem finished_team_not_resumed:
  assumes "task_row_of tid (fst st) = Some t" "t_status t \<in> set TERMINAL_STATUSES"
    "assert_identity_for_resume c authority planning = Inr i"
  shows "resume_durable_team e c h crash tid root owner base authority planning st
    = (Inl (resume_error (''no_active_durable_run:'' @ tid)), st)"
proof -
  have "find_active_durable_run tid (fst st) = None"
    using assms(1,2) by (auto simp: find_active_durable_run_def split: list.split)
  then show ?thesis using assms(3) by (cases i) (simp add: resume_durable_team_def reading_def)
qed

text \<open>
  A team resumed after its reviewer keeps its worktree as it is: nothing compares the product
  with what was reviewed, and the notes, which every other way to success removes, stay.
\<close>

theorem post_reviewer_keeps_worktree: "snd (snd (resume_team_post_reviewer e h l tid run attempt st)) = snd st"
  by (rule post_reviewer_site)

end
