(* ===== verification/Path_Patterns.thy ===== *)
theory Path_Patterns
  imports Worktree
begin

text \<open>
  Path patterns of the control plane: Python's \<open>fnmatch\<close> on a POSIX host, the scope test of
  transition.py, its test whether a write grant may overlap a read-only path, and the matching
  of the risk floors (models.py, contracts.py).
\<close>

section \<open>\<open>fnmatch\<close>\<close>

text \<open>A set in brackets is a list of ranges, negated or not.\<close>

datatype glob = GChar char | GAny | GStar | GSet bool "(char \<times> char) list"

text \<open>The members of a set: a character, or two with a hyphen between them.\<close>

fun glob_ranges :: "string \<Rightarrow> (char \<times> char) list" where
  "glob_ranges [] = []"
| "glob_ranges [a] = [(a, a)]"
| "glob_ranges [a, b] = [(a, a), (b, b)]"
| "glob_ranges (a # b # c # s) =
     (if b = CHR ''-'' then (a, c) # glob_ranges s else (a, a) # glob_ranges (b # c # s))"

text \<open>
  The text of a set up to its closing bracket, which is not the first of its characters, and the
  text after it; \<open>None\<close> if it is never closed.
\<close>

fun until_bracket :: "string \<Rightarrow> (string \<times> string) option" where
  "until_bracket [] = None"
| "until_bracket (c # s) =
     (if c = CHR '']'' then Some ([], s)
      else map_option (\<lambda>(a, b). (c # a, b)) (until_bracket s))"

definition bracket_body :: "string \<Rightarrow> (string \<times> string) option" where
  "bracket_body s =
     (case s of [] \<Rightarrow> None
      | c # t \<Rightarrow> map_option (\<lambda>(a, b). (c # a, b)) (until_bracket t))"

definition glob_set :: "string \<Rightarrow> (glob \<times> string) option" where
  "glob_set s =
     (if s \<noteq> [] \<and> hd s = CHR ''!''
      then map_option (\<lambda>(body, rest). (GSet True (glob_ranges body), rest)) (bracket_body (tl s))
      else map_option (\<lambda>(body, rest). (GSet False (glob_ranges body), rest)) (bracket_body s))"

lemma until_bracket_shorter: "until_bracket s = Some (a, b) \<Longrightarrow> length b < length s"
  by (induction s arbitrary: a) (auto split: if_splits)

lemma bracket_body_shorter: "bracket_body s = Some (a, b) \<Longrightarrow> length b < length s"
  by (auto simp: bracket_body_def split: list.splits dest: until_bracket_shorter)

lemma glob_set_shorter: "glob_set s = Some (g, b) \<Longrightarrow> length b < length s"
  by (cases s) (auto simp: glob_set_def split: if_splits dest: bracket_body_shorter)

function glob_parse :: "string \<Rightarrow> glob list" where
  "glob_parse [] = []"
| "glob_parse (c # s) =
     (if c = CHR ''*'' then GStar # glob_parse s
      else if c = CHR ''?'' then GAny # glob_parse s
      else if c = CHR ''['' then
        (case glob_set s of None \<Rightarrow> GChar c # glob_parse s | Some (g, rest) \<Rightarrow> g # glob_parse rest)
      else GChar c # glob_parse s)"
  by pat_completeness auto
termination by (relation "measure length") (auto dest: glob_set_shorter)

definition in_ranges :: "char \<Rightarrow> (char \<times> char) list \<Rightarrow> bool" where
  "in_ranges c rs = list_ex (\<lambda>(a, b). a \<le> c \<and> c \<le> b) rs"

fun glob_match :: "glob list \<Rightarrow> string \<Rightarrow> bool" where
  "glob_match [] s = (s = [])"
| "glob_match (GStar # g) [] = glob_match g []"
| "glob_match (GStar # g) (c # s) = (glob_match g (c # s) \<or> glob_match (GStar # g) s)"
| "glob_match (GAny # g) s = (s \<noteq> [] \<and> glob_match g (tl s))"
| "glob_match (GChar x # g) s = (s \<noteq> [] \<and> hd s = x \<and> glob_match g (tl s))"
| "glob_match (GSet neg rs # g) s =
     (s \<noteq> [] \<and> in_ranges (hd s) rs \<noteq> neg \<and> glob_match g (tl s))"

definition fnmatch :: "string \<Rightarrow> string \<Rightarrow> bool" where
  "fnmatch name pat = glob_match (glob_parse pat) name"

section \<open>Text\<close>

definition ends_with :: "string \<Rightarrow> string \<Rightarrow> bool" where
  "ends_with suffix s \<longleftrightarrow> drop (length s - length suffix) s = suffix"

text \<open>\<open>s[:-n]\<close>\<close>

definition drop_end :: "nat \<Rightarrow> string \<Rightarrow> string" where
  "drop_end n s = take (length s - n) s"

text \<open>\<open>text.replace("\\", "/")\<close>, and with \<open>.lstrip("./")\<close> after it: every leading dot and slash.\<close>

definition slashes :: "string \<Rightarrow> string" where
  "slashes s = py_replace_char (CHR 0x5C) (CHR ''/'') s"

definition norm_path :: "string \<Rightarrow> string" where
  "norm_path s = dropWhile (\<lambda>c. c = CHR ''.'' \<or> c = CHR ''/'') (slashes s)"

section \<open>Scopes\<close>

definition path_matches :: "string \<Rightarrow> string \<Rightarrow> bool" where
  "path_matches path pat =
     (let normalized = norm_path path; candidate = norm_path pat in
      if ends_with ''/**'' candidate then
        starts_with (rstrip_char (CHR ''/'') (drop_end 3 candidate) @ ''/'') normalized
      else normalized = candidate \<or> fnmatch normalized candidate)"

definition path_matches_any :: "string \<Rightarrow> string list \<Rightarrow> bool" where
  "path_matches_any path pats = list_ex (path_matches path) pats"

definition paths_within_scope :: "string list \<Rightarrow> string list \<Rightarrow> string list" where
  "paths_within_scope paths pats = filter (\<lambda>p. \<not> list_ex (path_matches p) pats) paths"

definition paths_in_forbidden :: "string list \<Rightarrow> string list \<Rightarrow> string list" where
  "paths_in_forbidden paths pats = filter (\<lambda>p. list_ex (path_matches p) pats) paths"

section \<open>May two patterns overlap?\<close>

definition GLOB_META_CHARS :: string where
  "GLOB_META_CHARS = ''*?[''"

definition split_pattern_segments :: "string \<Rightarrow> string list" where
  "split_pattern_segments pat = filter (\<lambda>w. w \<noteq> []) (split_slash (norm_path pat))"

definition segment_has_glob_meta :: "string \<Rightarrow> bool" where
  "segment_has_glob_meta seg = list_ex (\<lambda>c. c \<in> set GLOB_META_CHARS) seg"

definition segment_may_match :: "string \<Rightarrow> string \<Rightarrow> bool" where
  "segment_may_match left right =
     (if left = right then True
      else if \<not> segment_has_glob_meta left \<and> \<not> segment_has_glob_meta right then False
      else if \<not> segment_has_glob_meta left then fnmatch left right
      else if \<not> segment_has_glob_meta right then fnmatch right left
      else True)"

text \<open>Both sides hold no empty segment; the code filters them out at every call.\<close>

fun patterns_may_intersect :: "string list \<Rightarrow> string list \<Rightarrow> bool" where
  "patterns_may_intersect [] [] = True"
| "patterns_may_intersect [] right = list_all (\<lambda>w. w = ''**'') right"
| "patterns_may_intersect left [] = list_all (\<lambda>w. w = ''**'') left"
| "patterns_may_intersect (l # ls) (r # rs) =
     (if l = ''**'' then patterns_may_intersect ls (r # rs) \<or> patterns_may_intersect (l # ls) rs
      else if r = ''**'' then patterns_may_intersect (l # ls) rs \<or> patterns_may_intersect ls (r # rs)
      else if \<not> segment_may_match l r then False
      else patterns_may_intersect ls rs)"

definition patterns_may_intersect_text :: "string \<Rightarrow> string \<Rightarrow> bool" where
  "patterns_may_intersect_text left right =
     patterns_may_intersect (split_pattern_segments left) (split_pattern_segments right)"

definition path_grant_conflicts :: "string list \<Rightarrow> string list \<Rightarrow> string list" where
  "path_grant_conflicts writable reference =
     dict_fromkeys (concat (map (\<lambda>w. map (\<lambda>r. w @ ''->'' @ r)
       (filter (patterns_may_intersect_text w) reference)) writable))"

section \<open>Risk floors\<close>

definition floor_matches :: "string \<Rightarrow> string \<Rightarrow> bool" where
  "floor_matches candidate normalized =
     (let leading_any = starts_with ''**/'' candidate;
          c1 = (if leading_any then drop 3 candidate else candidate);
          trailing_any = ends_with ''/**'' c1;
          c = strip_char (CHR ''/'') (if trailing_any then drop_end 3 c1 else c1) in
      if leading_any \<and> trailing_any then
        (if c = '''' then True
         else normalized = c \<or> starts_with (c @ ''/'') normalized \<or> ends_with (''/'' @ c) normalized
           \<or> py_in (''/'' @ c @ ''/'') (''/'' @ normalized @ ''/''))
      else if leading_any then
        (if CHR ''*'' \<in> set c \<or> CHR ''?'' \<in> set c
         then fnmatch normalized c \<or> fnmatch normalized (''*/'' @ c)
         else normalized = c \<or> ends_with (''/'' @ c) normalized)
      else if trailing_any then normalized = c \<or> starts_with (c @ ''/'') normalized
      else normalized = c \<or> fnmatch normalized c)"

text \<open>\<open>PathRiskFloor.risk_for_path\<close> of the control plane: the first entry that matches.\<close>

definition floor_risk :: "(string \<times> string) list \<Rightarrow> string \<Rightarrow> string option" where
  "floor_risk entries path =
     map_option snd (find (\<lambda>(pat, _). floor_matches (norm_path pat) (norm_path path)) entries)"

end
