(* ===== verification/Pattern_Laws.thy ===== *)
theory Pattern_Laws
  imports Path_Patterns
begin

text \<open>
  What the overlap test of two path patterns promises: it misses no path that both patterns
  match segment by segment, and decides plain paths exactly.
\<close>

section \<open>Literal patterns\<close>

lemma glob_match_chars: "glob_match (map GChar p) s \<longleftrightarrow> s = p"
proof (induction p arbitrary: s)
  case (Cons c p)
  then show ?case by (cases s) auto
qed simp

lemma glob_parse_literal: "\<not> segment_has_glob_meta p \<Longrightarrow> glob_parse p = map GChar p"
  by (induction p) (auto simp: segment_has_glob_meta_def GLOB_META_CHARS_def)

lemma fnmatch_literal: "\<not> segment_has_glob_meta p \<Longrightarrow> fnmatch s p \<longleftrightarrow> s = p"
  by (simp add: fnmatch_def glob_parse_literal glob_match_chars)

section \<open>Segments\<close>

text \<open>
  The language of a pattern, as its documentation describes it: \<open>**\<close> stands for any number of
  whole segments, every other segment of the pattern matches one segment of the path.
\<close>

fun segments_match :: "string list \<Rightarrow> string list \<Rightarrow> bool" where
  "segments_match [] path \<longleftrightarrow> path = []"
| "segments_match (p # ps) [] \<longleftrightarrow> p = ''**'' \<and> segments_match ps []"
| "segments_match (p # ps) (w # ws) \<longleftrightarrow>
     (if p = ''**'' then segments_match ps (w # ws) \<or> segments_match (p # ps) ws
      else fnmatch w p \<and> segments_match ps ws)"

text \<open>Two segments that match one name may match.\<close>

lemma segment_overlap:
  assumes "fnmatch w l" "fnmatch w r"
  shows "segment_may_match l r"
proof (cases "segment_has_glob_meta l")
  case False
  then have "w = l" using assms(1) fnmatch_literal by blast
  with assms(2) False show ?thesis
    by (cases "segment_has_glob_meta r") (auto simp: segment_may_match_def fnmatch_literal)
next
  case True
  then show ?thesis
    using assms fnmatch_literal [of r w] by (auto simp: segment_may_match_def)
qed

lemma segments_match_empty: "segments_match ps [] \<longleftrightarrow> list_all (\<lambda>w. w = ''**'') ps"
  by (induction ps) auto

text \<open>Two patterns that match one path may overlap.\<close>

lemma overlap_found:
  "segments_match left path \<Longrightarrow> segments_match right path \<Longrightarrow> patterns_may_intersect left right"
proof (induction "length left + length right + length path" arbitrary: left right path rule: less_induct)
  case less
  show ?case
  proof (cases left)
    case left: Nil
    with less.prems show ?thesis by (cases right) (auto simp: segments_match_empty)
  next
    case left: (Cons l ls)
    show ?thesis
    proof (cases right)
      case Nil
      with less.prems left show ?thesis by (auto simp: segments_match_empty)
    next
      case right: (Cons r rs)
      consider (l) "l = ''**''" | (r) "l \<noteq> ''**''" "r = ''**''" | (plain) "l \<noteq> ''**''" "r \<noteq> ''**''" by blast
      then show ?thesis
      proof cases
        case l
        show ?thesis
        proof (cases "segments_match ls path")
          case True
          then have "patterns_may_intersect ls right"
            using less.prems(2) left by (intro less.hyps [of ls right path]) simp_all
          with left right l show ?thesis by simp
        next
          case False
          with less.prems(1) left l obtain w ws where path: "path = w # ws" "segments_match left ws"
            by (cases path) auto
          from less.prems(2) path(1) right consider (stay) "r = ''**''" "segments_match rs path"
            | (eat) "segments_match right ws" | (step) "segments_match rs ws"
            by (auto split: if_splits)
          then show ?thesis
          proof cases
            case stay
            then have "patterns_may_intersect left rs"
              using less.prems(1) right by (intro less.hyps [of left rs path]) simp_all
            with left right l show ?thesis by simp
          next
            case eat
            then show ?thesis using path by (intro less.hyps [of left right ws]) simp_all
          next
            case step
            then have "patterns_may_intersect left rs"
              using path right by (intro less.hyps [of left rs ws]) simp_all
            with left right l show ?thesis by simp
          qed
        qed
      next
        case r
        show ?thesis
        proof (cases "segments_match rs path")
          case True
          then have "patterns_may_intersect left rs"
            using less.prems(1) right by (intro less.hyps [of left rs path]) simp_all
          with left right r show ?thesis by simp
        next
          case False
          with less.prems(2) right r obtain w ws where path: "path = w # ws" "segments_match right ws"
            by (cases path) auto
          with less.prems(1) left r have "segments_match ls ws" by simp
          then have "patterns_may_intersect ls right"
            using path right left by (intro less.hyps [of ls right ws]) simp_all
          with left right r show ?thesis by simp
        qed
      next
        case plain
        with less.prems left right obtain w ws where path: "path = w # ws" "fnmatch w l" "fnmatch w r"
            "segments_match ls ws" "segments_match rs ws"
          by (cases path) auto
        then have "segment_may_match l r" "patterns_may_intersect ls rs"
          using left right path segment_overlap [of w l r] by (simp, intro less.hyps [of ls rs ws]) simp_all
        with left right plain show ?thesis by simp
      qed
    qed
  qed
qed

text \<open>On plain paths the test is equality.\<close>

lemma plain_overlap:
  assumes "list_all (\<lambda>w. \<not> segment_has_glob_meta w) left" "list_all (\<lambda>w. \<not> segment_has_glob_meta w) right"
  shows "patterns_may_intersect left right \<longleftrightarrow> left = right"
  using assms
proof (induction left right rule: patterns_may_intersect.induct)
  case (4 l ls r rs)
  then have "l \<noteq> ''**''" "r \<noteq> ''**''" by (auto simp: segment_has_glob_meta_def GLOB_META_CHARS_def)
  with 4 show ?case by (auto simp: segment_may_match_def)
qed (auto simp: segment_has_glob_meta_def GLOB_META_CHARS_def)

end
