(* ===== verification/Risk.thy ===== *)
theory Risk
  imports Path_Patterns Py_Values
begin

text \<open>
  The risk classification of the architecture spine: the contracts a work item, a risk policy
  and a caller's snapshot of one are parsed into (contracts.py), the classifier
  (risk_classifier.py), and the provider of the authorised policy (policy_provider.py).
\<close>

section \<open>Tiers and routes\<close>

datatype risk_tier = R0 | R1 | R2 | R3

fun tier_rank :: "risk_tier \<Rightarrow> nat" where
  "tier_rank R0 = 0" | "tier_rank R1 = 1" | "tier_rank R2 = 2" | "tier_rank R3 = 3"

text \<open>Tiers are ordered by rank, so that \<open>max\<close> of a set of tiers is the library's.\<close>

instantiation risk_tier :: linorder
begin

definition less_eq_risk_tier :: "risk_tier \<Rightarrow> risk_tier \<Rightarrow> bool" where
  "less_eq_risk_tier a b \<longleftrightarrow> tier_rank a \<le> tier_rank b"

definition less_risk_tier :: "risk_tier \<Rightarrow> risk_tier \<Rightarrow> bool" where
  "less_risk_tier a b \<longleftrightarrow> tier_rank a < tier_rank b"

instance
proof
  fix a b c :: risk_tier
  show "a < b \<longleftrightarrow> a \<le> b \<and> \<not> b \<le> a" by (auto simp: less_eq_risk_tier_def less_risk_tier_def)
  show "a \<le> a" by (simp add: less_eq_risk_tier_def)
  show "a \<le> b \<Longrightarrow> b \<le> c \<Longrightarrow> a \<le> c" by (simp add: less_eq_risk_tier_def)
  show "a \<le> b \<Longrightarrow> b \<le> a \<Longrightarrow> a = b"
    by (cases a; cases b) (simp_all add: less_eq_risk_tier_def)
  show "a \<le> b \<or> b \<le> a" by (auto simp: less_eq_risk_tier_def)
qed

end

fun tier_text :: "risk_tier \<Rightarrow> string" where
  "tier_text R0 = ''R0''" | "tier_text R1 = ''R1''" | "tier_text R2 = ''R2''" | "tier_text R3 = ''R3''"

text \<open>\<open>RiskTier(label)\<close>, \<open>_tier_from_label\<close>\<close>

definition tier_of :: "string \<Rightarrow> risk_tier option" where
  "tier_of label = find (\<lambda>t. tier_text t = label) [R0, R1, R2, R3]"

datatype route = StandardPath | TrustAuthorizationRequired | BlockedRoute

fun route_text :: "route \<Rightarrow> string" where
  "route_text StandardPath = ''STANDARD_PATH''"
| "route_text TrustAuthorizationRequired = ''TRUST_AUTHORIZATION_REQUIRED''"
| "route_text BlockedRoute = ''BLOCKED''"

definition route_of :: "string \<Rightarrow> route option" where
  "route_of x = find (\<lambda>r. route_text r = x) [StandardPath, TrustAuthorizationRequired, BlockedRoute]"

section \<open>Parsing\<close>

definition value_error :: "string \<Rightarrow> store_error" where
  "value_error m = PyError ''ValueError'' m"

definition missing_field :: "string \<Rightarrow> store_error" where
  "missing_field field = value_error (''missing_or_invalid:'' @ field)"

text \<open>One parse after another.\<close>

definition parse_then :: "'a outcome \<Rightarrow> ('a \<Rightarrow> 'b outcome) \<Rightarrow> 'b outcome" where
  "parse_then r k = (case r of Inl err \<Rightarrow> Inl err | Inr x \<Rightarrow> k x)"

declare parse_then_def [code_unfold]

lemma parse_then_simps [simp]:
  "parse_then (Inl err) k = Inl err"
  "parse_then (Inr x) k = k x"
  by (simp_all add: parse_then_def)

lemma parse_then_ok: "parse_then r k = Inr y \<longleftrightarrow> (\<exists>x. r = Inr x \<and> k x = Inr y)"
  by (cases r) auto

fun parse_each :: "('a \<Rightarrow> 'b outcome) \<Rightarrow> 'a list \<Rightarrow> 'b list outcome" where
  "parse_each f [] = Inr []"
| "parse_each f (x # xs) = parse_then (f x) (\<lambda>y. map_sum id (Cons y) (parse_each f xs))"

definition text_value :: "json \<Rightarrow> string \<Rightarrow> string outcome" where
  "text_value v field =
     (case v of JStr s \<Rightarrow> if py_strip s = '''' then Inl (missing_field field) else Inr (py_strip s)
      | _ \<Rightarrow> Inl (missing_field field))"

text \<open>\<open>_strings\<close>; every caller in the spine wants at least one.\<close>

definition strings_value :: "json \<Rightarrow> string \<Rightarrow> string list outcome" where
  "strings_value v field =
     (case v of
        JArr vs \<Rightarrow> parse_then (parse_each (\<lambda>x. text_value x field) vs) (\<lambda>xs.
          if xs = [] then Inl (missing_field field) else Inr xs)
      | _ \<Rightarrow> Inl (missing_field field))"

text \<open>\<open>payload.get("schema_version") != 1\<close>; in Python \<open>True == 1\<close>.\<close>

definition check_schema :: "payload \<Rightarrow> unit outcome" where
  "check_schema kvs =
     (if get_value kvs ''schema_version'' JNull \<in> {JInt 1, JBool True} then Inr ()
      else Inl (value_error ''unsupported_schema_version''))"

definition field_text :: "payload \<Rightarrow> string \<Rightarrow> string outcome" where
  "field_text kvs field = text_value (get_value kvs field JNull) field"

definition field_strings :: "payload \<Rightarrow> string \<Rightarrow> string list outcome" where
  "field_strings kvs field = strings_value (get_value kvs field JNull) field"

section \<open>Stable JSON\<close>

text \<open>\<open>json.dumps(..., ensure_ascii=True, sort_keys=True, separators=(",", ":"))\<close>\<close>

definition ascii_escape_char :: "char \<Rightarrow> string" where
  "ascii_escape_char c =
     (let n = (of_char c :: int) in
      if n < 127 then json_escape_char c
      else [CHR 0x5C] @ ''u00'' @ [hex_digit (n div 16), hex_digit (n mod 16)])"

definition ascii_quote :: "string \<Rightarrow> string" where
  "ascii_quote s = [CHR 0x22] @ concat (map ascii_escape_char s) @ [CHR 0x22]"

fun stable_json :: "json \<Rightarrow> string" where
  "stable_json JNull = ''null''"
| "stable_json (JBool b) = (if b then ''true'' else ''false'')"
| "stable_json (JInt i) = str_of_int i"
| "stable_json (JStr s) = ascii_quote s"
| "stable_json (JArr vs) = ''['' @ str_join '','' (map stable_json vs) @ '']''"
| "stable_json (JObj kvs) =
     ''{'' @ str_join '','' (map (\<lambda>(k, t). ascii_quote k @ '':'' @ t)
                (sort_key fst (map (\<lambda>(k, v). (k, stable_json v)) kvs))) @ ''}''"

section \<open>Work items and planning references\<close>

record work_item =
  wi_repository :: string
  wi_item_number :: int
  wi_observation_ref :: string
  wi_title :: string
  wi_acceptance_criteria :: "string list"
  wi_operations :: "string list"
  wi_paths :: "string list"

definition item_number :: "payload \<Rightarrow> int outcome" where
  "item_number kvs =
     (case get_value kvs ''item_number'' JNull of
        JInt n \<Rightarrow> if n \<le> 0 then Inl (missing_field ''item_number'') else Inr n
      | _ \<Rightarrow> Inl (missing_field ''item_number''))"

definition parse_work_item :: "payload \<Rightarrow> work_item outcome" where
  "parse_work_item kvs =
     parse_then (check_schema kvs) (\<lambda>_.
     parse_then (item_number kvs) (\<lambda>n.
     parse_then (field_text kvs ''repository'') (\<lambda>repo.
     parse_then (field_text kvs ''immutable_observation_ref'') (\<lambda>ref.
     parse_then (field_text kvs ''title'') (\<lambda>title.
     parse_then (field_strings kvs ''acceptance_criteria'') (\<lambda>criteria.
     parse_then (field_strings kvs ''requested_operations'') (\<lambda>ops.
     parse_then (field_strings kvs ''requested_paths'') (\<lambda>paths.
     Inr \<lparr>wi_repository = repo, wi_item_number = n, wi_observation_ref = ref, wi_title = title,
          wi_acceptance_criteria = criteria, wi_operations = ops, wi_paths = paths\<rparr>))))))))"

definition item_identity :: "work_item \<Rightarrow> string" where
  "item_identity i = wi_repository i @ ''#'' @ str_of_int (wi_item_number i) @ ''@'' @ wi_observation_ref i"

definition json_texts :: "string list \<Rightarrow> json" where
  "json_texts xs = JArr (map JStr xs)"

definition item_payload :: "work_item \<Rightarrow> payload" where
  "item_payload i =
     [(''schema_version'', JInt 1), (''repository'', JStr (wi_repository i)),
      (''item_number'', JInt (wi_item_number i)),
      (''immutable_observation_ref'', JStr (wi_observation_ref i)), (''title'', JStr (wi_title i)),
      (''acceptance_criteria'', json_texts (wi_acceptance_criteria i)),
      (''requested_operations'', json_texts (wi_operations i)),
      (''requested_paths'', json_texts (wi_paths i))]"

text \<open>
  \<open>load_planning_reference\<close>: planning artifacts are parsed, never allowed to authorise commands
  (\<open>False == 0\<close> in Python). The pattern of a digest is 64 hexadecimal digits.
\<close>

definition hex_lower :: "char \<Rightarrow> bool" where
  "hex_lower c = (let n = (of_char c :: int) in (48 \<le> n \<and> n \<le> 57) \<or> (97 \<le> n \<and> n \<le> 102))"

definition ALLOWED_ARTIFACT_TYPES :: "string list" where
  "ALLOWED_ARTIFACT_TYPES = [''product_brief'', ''prd'', ''architecture'', ''story'']"

definition load_planning_reference :: "payload \<Rightarrow> payload outcome" where
  "load_planning_reference kvs =
     parse_then (check_schema kvs) (\<lambda>_.
     parse_then (map_sum id py_lower (field_text kvs ''digest'')) (\<lambda>digest.
     if length digest \<noteq> 64 \<or> \<not> list_all hex_lower digest then Inl (missing_field ''digest'')
     else if get_value kvs ''command_authority'' JNull \<notin> {JNull, JBool False, JInt 0} then
       Inl (value_error ''planning_reference_cannot_authorize_commands'')
     else
     parse_then (field_text kvs ''artifact_type'') (\<lambda>ty.
     parse_then (field_text kvs ''path_or_uri'') (\<lambda>path.
     parse_then (field_text kvs ''summary'') (\<lambda>summary.
     if ty \<notin> set ALLOWED_ARTIFACT_TYPES then
       Inl (value_error (''unsupported_planning_artifact:'' @ ty))
     else Inr [(''schema_version'', JInt 1), (''artifact_type'', JStr ty), (''path_or_uri'', JStr path),
               (''digest'', JStr digest), (''summary'', JStr summary),
               (''command_authority'', JBool False)])))))"

section \<open>The risk policy\<close>

text \<open>Entries keep their label as text, rules their tier.\<close>

record risk_policy =
  rp_decision_id :: string
  rp_round_id :: string
  rp_floor :: "(string \<times> string) list"
  rp_rules :: "(string \<times> risk_tier) list"
  rp_digest :: string

definition tier_label :: "json \<Rightarrow> string \<Rightarrow> risk_tier outcome" where
  "tier_label v field =
     parse_then (map_sum id py_upper (text_value v field)) (\<lambda>label.
       case tier_of label of
         None \<Rightarrow> Inl (value_error (''missing_or_invalid:'' @ field @ '':'' @ label))
       | Some t \<Rightarrow> Inr t)"

definition floor_entry :: "json \<Rightarrow> (string \<times> string) outcome" where
  "floor_entry v =
     (case v of
        JArr [p, t] \<Rightarrow>
          parse_then (text_value p ''path_risk_floor_pattern'') (\<lambda>pat.
          parse_then (tier_label t ''path_risk_floor_tier'') (\<lambda>tier.
          Inr (pat, tier_text tier)))
      | _ \<Rightarrow> Inl (missing_field ''path_risk_floor''))"

definition parse_floor :: "json \<Rightarrow> (string \<times> string) list outcome" where
  "parse_floor v =
     (case v of
        JArr vs \<Rightarrow> parse_then (parse_each floor_entry vs) (\<lambda>es.
          if es = [] then Inl (missing_field ''path_risk_floor'') else Inr es)
      | _ \<Rightarrow> Inl (missing_field ''path_risk_floor''))"

text \<open>\<open>item[i]\<close> of a rule that is not a mapping.\<close>

definition py_item :: "json \<Rightarrow> nat \<Rightarrow> json outcome" where
  "py_item v i =
     (case v of
        JArr vs \<Rightarrow> if i < length vs then Inr (vs ! i) else Inl (PyError ''IndexError'' ''list index out of range'')
      | JStr s \<Rightarrow> if i < length s then Inr (JStr [s ! i])
                  else Inl (PyError ''IndexError'' ''string index out of range'')
      | _ \<Rightarrow> Inl (PyError ''TypeError'' ([CHR 0x27] @ py_type_name v @ [CHR 0x27]
               @ '' object is not subscriptable'')))"

definition rule_of :: "json \<Rightarrow> json \<Rightarrow> (string \<times> risk_tier) outcome" where
  "rule_of op tier =
     parse_then (text_value op ''capability_risk_rule_operation'') (\<lambda>operation.
     parse_then (tier_label tier ''capability_risk_rule_tier'') (\<lambda>t. Inr (operation, t)))"

definition parse_rule :: "json \<Rightarrow> (string \<times> risk_tier) outcome" where
  "parse_rule v =
     (case v of
        JObj kvs \<Rightarrow> rule_of (get_value kvs ''operation'' JNull) (get_value kvs ''risk_tier'' JNull)
      | _ \<Rightarrow> parse_then (py_item v 0) (\<lambda>op. parse_then (py_item v 1) (\<lambda>t. rule_of op t)))"

definition parse_rules :: "json \<Rightarrow> (string \<times> risk_tier) list outcome" where
  "parse_rules v =
     (case v of
        JArr vs \<Rightarrow> if vs = [] then Inl (missing_field ''capability_risk_rules'') else parse_each parse_rule vs
      | _ \<Rightarrow> Inl (missing_field ''capability_risk_rules''))"

definition floor_payload :: "(string \<times> string) list \<Rightarrow> json" where
  "floor_payload es =
     JObj [(''schema_version'', JInt 1),
           (''entries'', JArr (map (\<lambda>(p, t). JArr [JStr p, JStr t]) es))]"

definition rules_payload :: "(string \<times> risk_tier) list \<Rightarrow> json" where
  "rules_payload rules =
     JArr (map (\<lambda>(op, t). JObj [(''schema_version'', JInt 1), (''operation'', JStr op),
                                (''risk_tier'', JStr (tier_text t))]) rules)"

definition policy_digest :: "env \<Rightarrow> string \<Rightarrow> string \<Rightarrow> (string \<times> string) list
    \<Rightarrow> (string \<times> risk_tier) list \<Rightarrow> string" where
  "policy_digest e decision_id round_id es rules =
     sha256 e (stable_json (JObj
       [(''decision_id'', JStr decision_id), (''round_id'', JStr round_id),
        (''path_risk_floor'', floor_payload es), (''capability_risk_rules'', rules_payload rules)]))"

text \<open>\<open>str(contract.get(key) or "").strip()\<close>\<close>

definition contract_text :: "payload \<Rightarrow> string \<Rightarrow> string" where
  "contract_text kvs key =
     (let v = get_value kvs key JNull in if py_truth v then py_strip (py_str v) else '''')"

text \<open>\<open>AuthorizedRiskPolicyProvider.provide\<close>\<close>

definition provide :: "env \<Rightarrow> payload \<Rightarrow> risk_policy outcome" where
  "provide e contract =
     (let decision_id = contract_text contract ''decision_id'';
          round_id = contract_text contract ''round_id'' in
      if decision_id = '''' then Inl (missing_field ''decision_id'')
      else if round_id = '''' then Inl (missing_field ''round_id'')
      else parse_then (parse_floor (get_value contract ''path_risk_floor'' JNull)) (\<lambda>es.
           parse_then (parse_rules (get_value contract ''capability_risk_rules'' JNull)) (\<lambda>rules.
           Inr \<lparr>rp_decision_id = decision_id, rp_round_id = round_id, rp_floor = es,
                rp_rules = rules, rp_digest = policy_digest e decision_id round_id es rules\<rparr>)))"

text \<open>
  \<open>RiskPolicySnapshot.from_mapping\<close>: a digest in the payload is taken over, so that a forged one
  is seen by \<open>verify\<close>.
\<close>

definition parse_policy :: "env \<Rightarrow> payload \<Rightarrow> risk_policy outcome" where
  "parse_policy e kvs =
     parse_then (check_schema kvs) (\<lambda>_.
     parse_then (field_text kvs ''decision_id'') (\<lambda>decision_id.
     parse_then (field_text kvs ''round_id'') (\<lambda>round_id.
     parse_then (case get_value kvs ''path_risk_floor'' JNull of
         JObj f \<Rightarrow> parse_floor (get_value f ''entries'' JNull)
       | _ \<Rightarrow> Inl (missing_field ''path_risk_floor'')) (\<lambda>es.
     parse_then (parse_rules (get_value kvs ''capability_risk_rules'' JNull)) (\<lambda>rules.
     Inr \<lparr>rp_decision_id = decision_id, rp_round_id = round_id, rp_floor = es, rp_rules = rules,
          rp_digest = (case get_value kvs ''policy_digest'' JNull of
             JStr d \<Rightarrow> if d = '''' then policy_digest e decision_id round_id es rules else d
           | _ \<Rightarrow> policy_digest e decision_id round_id es rules)\<rparr>)))))"

definition policy_payload :: "risk_policy \<Rightarrow> payload" where
  "policy_payload p =
     [(''schema_version'', JInt 1), (''decision_id'', JStr (rp_decision_id p)),
      (''round_id'', JStr (rp_round_id p)), (''path_risk_floor'', floor_payload (rp_floor p)),
      (''capability_risk_rules'', rules_payload (rp_rules p)),
      (''policy_digest'', JStr (rp_digest p))]"

definition tampering :: "string \<Rightarrow> store_error" where
  "tampering m = PyError ''PolicyTamperingError'' m"

definition verify_policy :: "env \<Rightarrow> payload \<Rightarrow> risk_policy \<Rightarrow> unit outcome" where
  "verify_policy e contract p =
     parse_then (provide e contract) (\<lambda>a.
       if rp_decision_id p \<noteq> rp_decision_id a \<or> rp_round_id p \<noteq> rp_round_id a then
         Inl (tampering (''identity_mismatch:expected='' @ rp_decision_id a @ ''/'' @ rp_round_id a
           @ '' observed='' @ rp_decision_id p @ ''/'' @ rp_round_id p))
       else if rp_digest p \<noteq> rp_digest a then
         Inl (tampering (''policy_digest_mismatch:expected='' @ rp_digest a @ '' observed='' @ rp_digest p))
       else if floor_payload (rp_floor p) \<noteq> floor_payload (rp_floor a) then
         Inl (tampering ''path_risk_floor_tampered'')
       else if rules_payload (rp_rules p) \<noteq> rules_payload (rp_rules a) then
         Inl (tampering ''capability_risk_rules_tampered'')
       else Inr ())"

section \<open>The classifier\<close>

definition RISK_OPERATIONS :: "(risk_tier \<times> string list) list" where
  "RISK_OPERATIONS =
     [(R0, [''research'', ''planning'', ''code_read'', ''review'', ''read_only_audit'']),
      (R1, [''source_edit'', ''unit_test'', ''format'', ''lint'', ''local_static_check'']),
      (R2, [''workflow_change'', ''dependency_change'', ''network_access'', ''commit'', ''push'',
            ''draft_pr'', ''permission_policy'', ''migration'']),
      (R3, [''unknown_binary_execution'', ''execute_binary'', ''debugger'', ''emulator'', ''hook'',
            ''dynamic_probe'', ''secrets'', ''destructive_delete'', ''privileged_remote_execution''])]"

record execution_envelope =
  xv_operations :: "string list"
  xv_paths :: "string list"
  xv_network_requested :: bool
  xv_binary_requested :: bool

record risk_decision =
  rd_tier :: "risk_tier option"
  rd_route :: route
  rd_reasons :: "string list"

text \<open>\<open>max\<close> by rank of the first of the greatest, as Python's \<open>max(..., key=...)\<close>.\<close>

fun max_tier :: "risk_tier list \<Rightarrow> risk_tier option" where
  "max_tier [] = None"
| "max_tier (t # ts) = (case max_tier ts of None \<Rightarrow> Some t | Some u \<Rightarrow> Some (if t < u then u else t))"

text \<open>
  \<open>PathRiskFloorSnapshot.risk_for_path\<close>: the highest label of the entries that match, and with it
  \<open>_path_risk\<close>: the highest of the paths. The labels are those \<open>floor_entry\<close> admits.
\<close>

definition path_tiers :: "(string \<times> string) list \<Rightarrow> string \<Rightarrow> risk_tier list" where
  "path_tiers es path =
     List.map_filter (\<lambda>(pat, label). if floor_matches (norm_path pat) (norm_path path)
       then tier_of label else None) es"

definition snapshot_risk :: "(string \<times> string) list \<Rightarrow> string \<Rightarrow> risk_tier option" where
  "snapshot_risk es path = max_tier (path_tiers es path)"

definition path_risk :: "(string \<times> string) list \<Rightarrow> string list \<Rightarrow> risk_tier option" where
  "path_risk es paths = max_tier (List.map_filter (snapshot_risk es) paths)"

definition clean_operations :: "string list \<Rightarrow> string list" where
  "clean_operations ops = map (\<lambda>op. py_lower (py_strip op)) (filter (\<lambda>op. py_strip op \<noteq> '''') ops)"

text \<open>\<open>resolved_capability_risk_for\<close>: a rule's operation is compared as it is written.\<close>

definition capability_risk :: "(string \<times> risk_tier) list \<Rightarrow> string list \<Rightarrow> risk_tier option" where
  "capability_risk rules ops =
     max_tier (map snd (filter (\<lambda>(op, _). op \<in> set (clean_operations ops)) rules))"

definition operation_tiers :: "string list \<Rightarrow> risk_tier list" where
  "operation_tiers ops = map fst (filter (\<lambda>(_, known). list_ex (\<lambda>op. op \<in> set known) ops) RISK_OPERATIONS)"

definition option_list :: "'a option \<Rightarrow> 'a list" where
  "option_list x = (case x of None \<Rightarrow> [] | Some y \<Rightarrow> [y])"

definition blocked_decision :: "string list \<Rightarrow> risk_decision" where
  "blocked_decision reasons = \<lparr>rd_tier = None, rd_route = BlockedRoute, rd_reasons = reasons\<rparr>"

definition classify_risk :: "execution_envelope \<Rightarrow> risk_tier option \<Rightarrow> risk_tier option \<Rightarrow> risk_decision" where
  "classify_risk x path capability =
     (let ops = clean_operations (xv_operations x);
          unknown = filter (\<lambda>op. \<not> list_ex (\<lambda>(_, known). op \<in> set known) RISK_OPERATIONS) ops in
      if ops = [] then blocked_decision [''missing_operations'']
      else if unknown \<noteq> [] then blocked_decision (map (\<lambda>op. ''unknown_operation:'' @ op) unknown)
      else case max_tier (operation_tiers ops @ (if xv_binary_requested x then [R3] else [])
                  @ (if xv_network_requested x then [R2] else []) @ option_list path
                  @ option_list capability) of
        None \<Rightarrow> blocked_decision [''no_applicable_risk_tier'']
      | Some t \<Rightarrow>
          \<lparr>rd_tier = Some t,
           rd_route = (if t \<in> {R0, R1} then StandardPath else TrustAuthorizationRequired),
           rd_reasons = (''highest_risk:'' @ tier_text t)
             # map (\<lambda>p. ''path_risk_floor:'' @ tier_text p) (option_list path)
             @ map (\<lambda>c. ''capability_flag_risk:'' @ tier_text c) (option_list capability)\<rparr>)"

definition decision_payload :: "risk_decision \<Rightarrow> payload" where
  "decision_payload d =
     [(''schema_version'', JInt 1),
      (''risk_tier'', case rd_tier d of None \<Rightarrow> JNull | Some t \<Rightarrow> JStr (tier_text t)),
      (''route'', JStr (route_text (rd_route d))), (''reasons'', json_texts (rd_reasons d))]"

end
