(* ===== verification/Transition.thy ===== *)
theory Transition
  imports Path_Patterns Py_Values
begin

text \<open>
  The transition kernel of the control plane: decisions, command plans and execution envelopes
  (models.py), the contract of a command plan and the grants of its commands
  (command_authority.py), reconciliation of observed executions (execution_reconciliation.py),
  and the gate \<open>validate_transition\<close> with its named checks (transition.py). The kernel is pure.
\<close>

section \<open>Models\<close>

record transition_decision =
  td_decision_id :: string
  td_round_id :: string
  td_status :: string
  td_mainline :: string
  td_skill_profiles :: "string list"

record transition_command =
  tc_command :: string
  tc_phase :: string
  tc_required :: bool
  tc_expected_exit_codes :: "int list"
  tc_execution_surface :: string
  tc_operations :: "string list"
  tc_network_access :: bool
  tc_diagnostic_only :: bool
  tc_bootstrap_exception :: bool
  tc_command_id :: string
  tc_evidence_source :: string
  tc_authority_origin :: string
  tc_produced_artifacts :: "string list"
  tc_allowed_mutated_paths :: "string list"

record command_plan =
  cp_decision_id :: string
  cp_round_id :: string
  cp_commands :: "transition_command list"

record envelope =
  el_command :: string
  el_execution_surface :: string
  el_mutated_paths :: "string list"
  el_operations :: "string list"
  el_exit_code :: "int option"
  el_bootstrap_exception :: bool
  el_command_id :: string

text \<open>The flags of a capability policy, by field name, and its network exceptions by surface.\<close>

record capability_policy =
  ca_allowed :: "string list"
  ca_network_default_allowed :: bool
  ca_local_exceptions :: "string list"
  ca_ci_exceptions :: "string list"
  ca_trusted_worker_exceptions :: "string list"
  ca_github_exceptions :: "string list"
  ca_user_local_exceptions :: "string list"

record transition_authority =
  ta_decision :: transition_decision
  ta_command_plan :: command_plan
  ta_expected_decision_id :: string
  ta_expected_round_id :: string
  ta_active_skills :: "string list"
  ta_legal_mainlines :: "string list"
  ta_expected_branch :: string
  ta_actual_branch :: string
  ta_base_sha :: string
  ta_merge_base_sha :: string
  ta_decision_commit_sha :: string
  ta_decision_is_ancestor :: bool
  ta_observed_paths :: "string list"
  ta_allowed_paths :: "string list"
  ta_forbidden_paths :: "string list"
  ta_forbidden_operations :: "string list"
  ta_reference_paths :: "string list"
  ta_capability_policy :: "capability_policy option"
  ta_path_risk_floor :: "(string \<times> string) list option"
  ta_authorized_risk_paths :: "string list"
  ta_authorized_risk_tier :: string
  ta_runner_managed_paths :: "string list"
  ta_bootstrap_files :: "string list"

text \<open>\<open>" ".join(command.split())\<close>\<close>

definition canonical_command :: "string \<Rightarrow> string" where
  "canonical_command c = collapse_ws (py_strip c)"

text \<open>\<open>list(texts)\<close> in an f-string.\<close>

definition show_list :: "string list \<Rightarrow> string" where
  "show_list xs = py_repr (JArr (map JStr xs))"

section \<open>The contract of a command plan\<close>

definition VALID_EXECUTION_SURFACES :: "string list" where
  "VALID_EXECUTION_SURFACES =
     [''github_control_plane'', ''trusted_worker'', ''ci_only'', ''remote_observation'',
      ''user_local'', ''local'']"

definition CAPABILITY_OPERATION_MAPPING :: "(string \<times> string) list" where
  "CAPABILITY_OPERATION_MAPPING =
     [(''runner_dispatch_allowed'', ''runner_dispatch''),
      (''model_api_invocation_allowed'', ''model_api_invocation''),
      (''external_reverse_tool_invocation_allowed'', ''external_reverse_tool_invocation''),
      (''unknown_binary_execution_allowed'', ''unknown_binary_execution''),
      (''destructive_operations_allowed'', ''destructive''),
      (''bmad_installation_allowed'', ''bmad_installation''),
      (''direct_push_to_main_allowed'', ''direct_push_main''),
      (''merge_allowed'', ''merge''),
      (''force_push_allowed'', ''force_push''),
      (''rebase_during_execution_allowed'', ''rebase''),
      (''tag_or_release_allowed'', ''tag_or_release'')]"

definition OPERATION_SURFACE_ADMISSIBILITY :: "(string \<times> string list) list" where
  "OPERATION_SURFACE_ADMISSIBILITY =
     (let mutation = [''trusted_worker'', ''user_local''];
          validation = [''trusted_worker'', ''user_local'', ''ci_only''];
          read_only = [''trusted_worker'', ''user_local'', ''ci_only'', ''remote_observation''];
          github = [''github_control_plane''];
          network = [''trusted_worker'', ''user_local'', ''ci_only'', ''github_control_plane''] in
      [(''source_edit'', mutation), (''commit'', mutation), (''build'', mutation),
       (''command_plan_generation'', mutation), (''unit_test'', validation),
       (''local_static_check'', validation), (''diff_validation'', validation),
       (''integration_test'', validation), (''repository_observation'', read_only),
       (''code_read'', read_only),
       (''read_only_audit'', [''trusted_worker'', ''user_local'', ''remote_observation'']),
       (''remote_observation'', read_only), (''push'', github), (''draft_pr'', github),
       (''pr_create'', github), (''pull_request_comment'', github), (''issue_comment'', github),
       (''mark_ready'', github), (''merge'', github), (''ready'', github),
       (''runner_dispatch'', github), (''direct_push_main'', github), (''force_push'', github),
       (''tag_or_release'', github), (''network_access'', network), (''network'', network),
       (''package_install'', validation), (''dependency_install'', validation),
       (''rebase'', mutation), (''destructive'', mutation),
       (''external_reverse_tool_invocation'', mutation), (''unknown_binary_execution'', mutation),
       (''bmad_installation'', validation), (''model_api_invocation'', validation),
       (''machine_specific_execution'', [''user_local''])])"

definition operation_surface_errors :: "string list \<Rightarrow> string \<Rightarrow> string \<Rightarrow> string list" where
  "operation_surface_errors operations surface identity =
     List.map_filter (\<lambda>op. case map_of OPERATION_SURFACE_ADMISSIBILITY op of
         None \<Rightarrow> Some (''unknown_operation:'' @ op @ '':'' @ surface @ '':'' @ identity)
       | Some admissible \<Rightarrow>
           if surface \<notin> set admissible then
             Some (''operation_surface_incompatible:'' @ op @ '':'' @ surface @ '':'' @ identity)
           else None) operations"

text \<open>The operations whose flag is not set; the default of an absent policy flag is false.\<close>

definition capability_forbidden_operations :: "capability_policy \<Rightarrow> string list" where
  "capability_forbidden_operations policy =
     dict_fromkeys (map snd (filter (\<lambda>(flag, _). flag \<notin> set (ca_allowed policy))
       CAPABILITY_OPERATION_MAPPING))"

text \<open>The errors of one entry, after the identities and command ids seen before it.\<close>

definition command_errors ::
    "(string \<times> string) list \<Rightarrow> string list \<Rightarrow> transition_command \<Rightarrow> string list" where
  "command_errors seen seen_ids c =
     (let name = canonical_command (tc_command c); surface = tc_execution_surface c;
          err = (\<lambda>b m. if b then [m] else []) in
      err (name = '''') ''empty_command''
      @ (if tc_command_id c = '''' then [''missing_command_id:'' @ name]
         else err (tc_command_id c \<in> set seen_ids) (''duplicate_command_id:'' @ tc_command_id c))
      @ err (surface \<notin> set VALID_EXECUTION_SURFACES) (''invalid_execution_surface:'' @ surface)
      @ err (surface = ''user_local'' \<and> ''machine_specific_execution'' \<notin> set (tc_operations c))
          (''user_local_requires_machine_specific_execution:'' @ name)
      @ err (tc_expected_exit_codes c = []) (''missing_expected_exit_codes:'' @ name)
      @ err (tc_phase c = '''') (''missing_phase:'' @ name)
      @ err (tc_operations c = [] \<and> \<not> tc_bootstrap_exception c) (''missing_operations:'' @ name)
      @ err ((name, surface) \<in> set seen) (''duplicate_command:'' @ surface @ '':'' @ name)
      @ err (surface = ''local'' \<and> \<not> tc_bootstrap_exception c)
          (''legacy_local_surface_forbidden_in_current_authoring:'' @ name)
      @ operation_surface_errors (tc_operations c) surface name)"

fun commands_errors ::
    "(string \<times> string) list \<Rightarrow> string list \<Rightarrow> transition_command list \<Rightarrow> string list" where
  "commands_errors seen seen_ids [] = []"
| "commands_errors seen seen_ids (c # cs) =
     command_errors seen seen_ids c
       @ commands_errors ((canonical_command (tc_command c), tc_execution_surface c) # seen)
           (tc_command_id c # seen_ids) cs"

definition validate_command_plan :: "command_plan \<Rightarrow> string list" where
  "validate_command_plan plan =
     (if cp_decision_id plan = '''' then [''missing_decision_id''] else [])
     @ (if cp_round_id plan = '''' then [''missing_round_id''] else [])
     @ commands_errors [] [] (cp_commands plan)"

section \<open>Observed executions against the plan\<close>

definition find_matching_command :: "command_plan \<Rightarrow> envelope \<Rightarrow> transition_command option" where
  "find_matching_command plan x =
     find (\<lambda>c. canonical_command (tc_command c) = canonical_command (el_command x)
             \<and> tc_execution_surface c = el_execution_surface x) (cp_commands plan)"

definition reconcile_command :: "command_plan \<Rightarrow> envelope \<Rightarrow> string list" where
  "reconcile_command plan x =
     (let requested = canonical_command (el_command x) in
      case find_matching_command plan x of
        None \<Rightarrow>
          if list_ex (\<lambda>c. canonical_command (tc_command c) = requested) (cp_commands plan)
          then [''execution_surface_mismatch:'' @ requested] else [''undeclared_command:'' @ requested]
      | Some c \<Rightarrow>
          let missing = filter (\<lambda>op. op \<notin> set (el_operations x)) (tc_operations c) in
          (case el_exit_code x of
             None \<Rightarrow> []
           | Some code \<Rightarrow>
               if tc_expected_exit_codes c \<noteq> [] \<and> code \<notin> set (tc_expected_exit_codes c)
               then [''exit_code_mismatch:'' @ requested @ '':'' @ str_of_int code] else [])
          @ (if tc_operations c \<noteq> [] \<and> \<not> tc_bootstrap_exception c \<and> missing \<noteq> []
             then [''operations_under_reported:'' @ requested @ '':'' @ show_list missing] else []))"

text \<open>
  \<open>reconcile_executions\<close>: its status, whether evidence is missing, and its reasons, which are all
  the gate reads of the outcome.
\<close>

definition reconcile_executions :: "command_plan \<Rightarrow> envelope list \<Rightarrow> string \<times> bool \<times> string list" where
  "reconcile_executions plan xs =
     (if xs = [] then (''PRE_EXECUTION_AUTHORIZED'', True, [''missing_execution_evidence''])
      else let reasons = concat (map (reconcile_command plan) xs) in
        (if reasons = [] then ''POST_EXECUTION_RECONCILED'' else ''BLOCKED'', False,
         dict_fromkeys reasons))"

text \<open>\<open>_path_in_produced\<close>: patterns of a command's grant are matched by \<open>fnmatch\<close> alone.\<close>

definition path_in_produced :: "string \<Rightarrow> string list \<Rightarrow> bool" where
  "path_in_produced path pats = list_ex (\<lambda>p. fnmatch (slashes path) (slashes p)) pats"

definition duplicate_ids :: "command_plan \<Rightarrow> string list" where
  "duplicate_ids plan =
     (let ids = filter (\<lambda>i. i \<noteq> '''') (map tc_command_id (cp_commands plan)) in
      filter (\<lambda>i. 1 < length (filter (\<lambda>j. j = i) ids)) ids)"

definition mutation_error :: "command_plan \<Rightarrow> string \<Rightarrow> string \<Rightarrow> string option" where
  "mutation_error plan cid path =
     (if cid \<in> set (duplicate_ids plan) then Some (''ambiguous_command_id:'' @ cid @ '':'' @ path)
      else case find (\<lambda>c. tc_command_id c \<noteq> '''' \<and> tc_command_id c = cid) (cp_commands plan) of
        None \<Rightarrow> Some (''unknown_command_id:'' @ cid @ '':'' @ path)
      | Some c \<Rightarrow>
          if \<not> path_in_produced path (tc_produced_artifacts c)
             \<and> \<not> path_in_produced path (tc_allowed_mutated_paths c)
          then Some (''missing_mutation_grant:'' @ cid @ '':'' @ path) else None)"

definition validate_mutation_grants :: "command_plan \<Rightarrow> envelope list \<Rightarrow> string list" where
  "validate_mutation_grants plan xs =
     concat (map (\<lambda>x. List.map_filter (mutation_error plan (el_command_id x)) (el_mutated_paths x)) xs)"

section \<open>The parts of the gate\<close>

definition network_exceptions :: "capability_policy \<Rightarrow> string \<Rightarrow> string list" where
  "network_exceptions p surface =
     (if surface = ''local'' then ca_local_exceptions p
      else if surface = ''ci_only'' then ca_ci_exceptions p
      else if surface = ''trusted_worker'' then ca_trusted_worker_exceptions p
      else if surface = ''github_control_plane'' then ca_github_exceptions p
      else if surface = ''user_local'' then ca_user_local_exceptions p else [])"

definition NETWORK_OPERATIONS :: "string list" where
  "NETWORK_OPERATIONS = [''network_access'', ''network'', ''package_install'', ''dependency_install'']"

definition envelope_network_violations :: "envelope list \<Rightarrow> capability_policy \<Rightarrow> string list" where
  "envelope_network_violations xs p =
     dict_fromkeys (List.map_filter (\<lambda>x.
       let requested = canonical_command (el_command x) in
       if \<not> list_ex (\<lambda>op. op \<in> set NETWORK_OPERATIONS) (el_operations x) then None
       else if requested \<in> canonical_command ` set (network_exceptions p (el_execution_surface x)) then None
       else Some (''network_access_violation:'' @ el_execution_surface x @ '':'' @ requested)) xs)"

definition floor_rank :: "string \<Rightarrow> int \<Rightarrow> int" where
  "floor_rank label dflt =
     (case map_of [(''R0'', 0), (''R1'', 1), (''R2'', 2), (''R3'', 3)] label of None \<Rightarrow> dflt | Some n \<Rightarrow> n)"

text \<open>\<open>_path_risk_floor_violations\<close> with \<open>minimum="R2"\<close>.\<close>

definition floor_violation :: "(string \<times> string) list \<Rightarrow> string list \<Rightarrow> string \<Rightarrow> string \<Rightarrow> string option" where
  "floor_violation entries risk_paths tier path =
     (let authorized = (if tier = '''' then -1 else floor_rank tier (-1)) in
      case floor_risk entries path of
        None \<Rightarrow> None
      | Some risk \<Rightarrow>
          if floor_rank risk 0 < 2 then None
          else if path_matches_any path risk_paths \<and> 0 \<le> authorized \<and> floor_rank risk 0 \<le> authorized
          then None
          else Some (path @ '':'' @ risk))"

definition floor_violations :: "(string \<times> string) list \<Rightarrow> string list \<Rightarrow> string \<Rightarrow> string list \<Rightarrow> string list" where
  "floor_violations entries risk_paths tier paths =
     dict_fromkeys (List.map_filter (floor_violation entries risk_paths tier) paths)"

definition plan_network_violations :: "command_plan \<Rightarrow> capability_policy \<Rightarrow> string list" where
  "plan_network_violations plan p =
     dict_fromkeys (List.map_filter (\<lambda>c.
       let requested = canonical_command (tc_command c); surface = tc_execution_surface c in
       if \<not> tc_network_access c \<or> tc_authority_origin c = ''bootstrap_exception''
          \<or> requested \<in> canonical_command ` set (network_exceptions p surface)
          \<or> ca_network_default_allowed p then None
       else Some (''plan_network_access_denied:''
         @ (if tc_command_id c = '''' then requested else tc_command_id c) @ '':'' @ surface))
       (cp_commands plan))"

text \<open>The operations any entry with this command declares; the network flag is the last entry's.\<close>

definition declared_operations :: "command_plan \<Rightarrow> string \<Rightarrow> string list" where
  "declared_operations plan requested =
     concat (map tc_operations (filter (\<lambda>c. canonical_command (tc_command c) = requested) (cp_commands plan)))"

definition declared_network :: "command_plan \<Rightarrow> string \<Rightarrow> bool" where
  "declared_network plan requested =
     (case filter (\<lambda>c. canonical_command (tc_command c) = requested) (cp_commands plan) of
        [] \<Rightarrow> False | cs \<Rightarrow> tc_network_access (last cs))"

definition unknown_operation_violations :: "command_plan \<Rightarrow> envelope list \<Rightarrow> string list" where
  "unknown_operation_violations plan xs =
     dict_fromkeys (concat (map (\<lambda>x.
       let requested = canonical_command (el_command x) in
       map (\<lambda>op. ''unknown_operation:'' @ requested @ '':'' @ op)
         (filter (\<lambda>op. op \<notin> set (declared_operations plan requested)
            \<and> \<not> (op \<in> set NETWORK_OPERATIONS \<and> declared_network plan requested)) (el_operations x))) xs))"

definition reference_write_violations :: "string list \<Rightarrow> string list \<Rightarrow> string list" where
  "reference_write_violations paths references =
     dict_fromkeys (map (\<lambda>p. p @ '':reference_path_mutated'')
       (filter (\<lambda>p. list_ex (path_matches p) references) paths))"

text \<open>
  \<open>_required_command_coverage_missing\<close>. The last entry with a command id and surface owns their
  identity.
\<close>

definition plan_identity :: "command_plan \<Rightarrow> string \<Rightarrow> string \<Rightarrow> string option" where
  "plan_identity plan cid surface =
     map_option (\<lambda>c. canonical_command (tc_command c))
       (find (\<lambda>c. tc_command_id c = cid \<and> tc_execution_surface c = surface
                 \<and> tc_command_id c \<noteq> '''' \<and> tc_execution_surface c \<noteq> '''') (rev (cp_commands plan)))"

definition observed_identity :: "envelope list \<Rightarrow> string \<Rightarrow> string \<Rightarrow> string \<Rightarrow> bool" where
  "observed_identity xs cid surface requested =
     list_ex (\<lambda>x. el_command_id x = cid \<and> el_execution_surface x = surface
        \<and> canonical_command (el_command x) = requested
        \<and> el_command_id x \<noteq> '''' \<and> el_execution_surface x \<noteq> '''' \<and> requested \<noteq> '''') xs"

definition coverage_missing :: "command_plan \<Rightarrow> envelope list \<Rightarrow> transition_command \<Rightarrow> bool" where
  "coverage_missing plan xs c =
     (let requested = canonical_command (tc_command c); surface = tc_execution_surface c;
          cid = tc_command_id c in
      if tc_evidence_source c \<in> {''local_command_evidence'', ''repository_state_attestation''} then
        cid = '''' \<or> surface = '''' \<or> requested = '''' \<or> plan_identity plan cid surface \<noteq> Some requested
        \<or> \<not> observed_identity xs cid surface requested
      else tc_evidence_source c = ''ci_check_attestation'')"

definition required_coverage_missing :: "command_plan \<Rightarrow> envelope list \<Rightarrow> string list" where
  "required_coverage_missing plan xs =
     dict_fromkeys (map (\<lambda>c. if tc_command_id c = '''' then tc_command c else tc_command_id c)
       (filter (\<lambda>c. tc_required c \<and> \<not> tc_diagnostic_only c
          \<and> tc_authority_origin c \<noteq> ''bootstrap_exception'' \<and> coverage_missing plan xs c)
         (cp_commands plan)))"

section \<open>The gate\<close>

record gate_check =
  gc_name :: string
  gc_passed :: bool
  gc_detail :: string

record gate_result =
  gr_decision_id :: string
  gr_round_id :: string
  gr_status :: string
  gr_checks :: "gate_check list"
  gr_blocking_reasons :: "string list"

definition check :: "string \<Rightarrow> bool \<Rightarrow> string \<Rightarrow> gate_check" where
  "check name passed detail = \<lparr>gc_name = name, gc_passed = passed, gc_detail = detail\<rparr>"

text \<open>A check that a list of problems is empty.\<close>

definition none_of :: "string \<Rightarrow> string \<Rightarrow> string list \<Rightarrow> gate_check" where
  "none_of name label xs = check name (xs = []) (label @ ''='' @ show_list xs)"

text \<open>The decision, its branch and its plan.\<close>

definition identity_checks :: "transition_authority \<Rightarrow> gate_check list" where
  "identity_checks a =
     (let d = ta_decision a; plan = ta_command_plan a in
      [check ''decision_identity'' (td_decision_id d = ta_expected_decision_id a)
         (''observed='' @ td_decision_id d @ '' expected='' @ ta_expected_decision_id a),
       check ''round_identity'' (td_round_id d = ta_expected_round_id a)
         (''observed='' @ td_round_id d @ '' expected='' @ ta_expected_round_id a),
       check ''decision_approved'' (td_status d = ''APPROVED'') (''status='' @ td_status d),
       none_of ''active_skills'' ''missing''
         (filter (\<lambda>k. k \<notin> set (ta_active_skills a)) (td_skill_profiles d)),
       check ''legal_mainline'' (td_mainline d \<in> set (ta_legal_mainlines a))
         (''mainline='' @ td_mainline d),
       check ''branch_identity'' (ta_actual_branch a = ta_expected_branch a)
         (''observed='' @ ta_actual_branch a @ '' expected='' @ ta_expected_branch a),
       check ''base_ancestry'' (ta_base_sha a \<noteq> '''' \<and> ta_merge_base_sha a = ta_base_sha a)
         (''base='' @ ta_base_sha a @ '' merge_base='' @ ta_merge_base_sha a),
       check ''decision_ancestry'' (ta_decision_commit_sha a \<noteq> '''' \<and> ta_decision_is_ancestor a)
         (''decision_commit='' @ ta_decision_commit_sha a),
       check ''command_plan_identity''
         (cp_decision_id plan = td_decision_id d \<and> cp_round_id plan = td_round_id d)
         (''plan='' @ cp_decision_id plan @ ''/'' @ cp_round_id plan),
       none_of ''command_plan_contract'' ''errors'' (validate_command_plan plan)])"

definition command_granted_paths :: "command_plan \<Rightarrow> string list" where
  "command_granted_paths plan =
     concat (map (\<lambda>c. tc_produced_artifacts c @ tc_allowed_mutated_paths c) (cp_commands plan))"

definition writable_grants :: "transition_authority \<Rightarrow> string list" where
  "writable_grants a =
     dict_fromkeys (ta_allowed_paths a @ command_granted_paths (ta_command_plan a)
       @ ta_runner_managed_paths a @ ta_bootstrap_files a)"

definition mutated_paths :: "transition_authority \<Rightarrow> envelope list \<Rightarrow> string list" where
  "mutated_paths a xs = dict_fromkeys (ta_observed_paths a @ concat (map el_mutated_paths xs))"

definition allowed_scope :: "transition_authority \<Rightarrow> string list" where
  "allowed_scope a =
     dict_fromkeys (ta_allowed_paths a @ command_granted_paths (ta_command_plan a)
       @ ta_runner_managed_paths a)"

definition path_checks :: "transition_authority \<Rightarrow> envelope list \<Rightarrow> envelope list \<Rightarrow> gate_check list" where
  "path_checks a xs executed =
     (let mutated = mutated_paths a xs;
          outside = paths_within_scope mutated (allowed_scope a);
          unmanaged = filter (\<lambda>p. \<not> list_ex (path_matches p) (ta_runner_managed_paths a)) mutated in
      [none_of ''reference_write_grants_disjoint'' ''conflicts''
         (path_grant_conflicts (writable_grants a) (ta_reference_paths a)),
       none_of ''allowed_path_scope'' ''outside'' outside,
       none_of ''forbidden_paths'' ''forbidden'' (paths_in_forbidden unmanaged (ta_forbidden_paths a)),
       none_of ''reference_paths_read_only'' ''violations''
         (reference_write_violations mutated (ta_reference_paths a)),
       none_of ''mutation_grants_enforced'' ''violations''
         (validate_mutation_grants (ta_command_plan a) executed)])"

definition capability_checks :: "transition_authority \<Rightarrow> envelope list \<Rightarrow> gate_check list" where
  "capability_checks a xs =
     (let operations = concat (map el_operations xs) in
      case ta_capability_policy a of
        Some p \<Rightarrow>
          [none_of ''capability_policy_enforced'' ''forbidden''
             (filter (\<lambda>op. op \<in> set (ta_forbidden_operations a @ capability_forbidden_operations p))
               operations),
           none_of ''network_policy_enforced'' ''violations'' (envelope_network_violations xs p)]
      | None \<Rightarrow>
          [none_of ''forbidden_operations'' ''forbidden''
             (filter (\<lambda>op. op \<in> set (ta_forbidden_operations a)) operations)])"

definition floor_checks :: "transition_authority \<Rightarrow> envelope list \<Rightarrow> gate_check list" where
  "floor_checks a xs =
     (case ta_path_risk_floor a of
        None \<Rightarrow> []
      | Some entries \<Rightarrow>
          if entries = [] then []
          else [none_of ''path_risk_floor_enforced'' ''violations''
                  (floor_violations entries (ta_authorized_risk_paths a) (ta_authorized_risk_tier a)
                    (mutated_paths a xs))])"

definition post_checks :: "transition_authority \<Rightarrow> envelope list \<Rightarrow> gate_check list" where
  "post_checks a xs =
     (let plan = ta_command_plan a; (status, missing, reasons) = reconcile_executions plan xs in
      [check ''execution_reconciliation'' (status \<noteq> ''BLOCKED'')
         (''status='' @ status @ '' reasons='' @ show_list reasons),
       check ''execution_evidence_present'' (\<not> missing)
         (''missing_evidence='' @ py_repr (JBool missing)),
       none_of ''required_command_coverage'' ''missing'' (required_coverage_missing plan xs)]
      @ (case ta_capability_policy a of
           None \<Rightarrow> []
         | Some p \<Rightarrow> [none_of ''plan_network_policy_enforced'' ''violations'' (plan_network_violations plan p)])
      @ [none_of ''envelope_operations_declared'' ''violations'' (unknown_operation_violations plan xs)])"

definition executed_envelopes :: "bool \<Rightarrow> envelope list \<Rightarrow> envelope list" where
  "executed_envelopes post xs = (if post then xs else filter (\<lambda>x. el_exit_code x \<noteq> None) xs)"

definition gate_checks :: "transition_authority \<Rightarrow> envelope list \<Rightarrow> bool \<Rightarrow> gate_check list" where
  "gate_checks a xs post =
     identity_checks a @ path_checks a xs (executed_envelopes post xs) @ capability_checks a xs
     @ floor_checks a xs
     @ (if post then post_checks a xs
        else [check ''execution_evidence_present'' True ''pre_execution_mode_no_evidence_required''])"

text \<open>\<open>validate_transition\<close>, with \<open>mode="post"\<close> or not.\<close>

definition validate_transition :: "transition_authority \<Rightarrow> envelope list \<Rightarrow> bool \<Rightarrow> gate_result" where
  "validate_transition a xs post =
     (let checks = gate_checks a xs post;
          blocking = map (\<lambda>c. gc_name c @ '': '' @ gc_detail c) (filter (\<lambda>c. \<not> gc_passed c) checks) in
      \<lparr>gr_decision_id = td_decision_id (ta_decision a), gr_round_id = td_round_id (ta_decision a),
       gr_status = (if blocking = [] then (if post then ''POST_EXECUTION_RECONCILED'' else ''PASSED'')
                    else ''BLOCKED''),
       gr_checks = checks, gr_blocking_reasons = blocking\<rparr>)"

end
