(* ===== verification/Development_Flow.thy ===== *)
theory Development_Flow
  imports Risk Transition Coordinator
begin

text \<open>
  The development workflow (development_graph.py and its nodes): load the work item, load the
  planning context, classify the risk, ask for authorisation, run the team, pass the acceptance
  gate. The state is the dictionary that LangGraph keeps, a later value of a key replacing the
  earlier one. The authorisation port is an argument; its implementation over the transition
  kernel (trust/authorization.py) is modelled too.
\<close>

section \<open>The trust authorisation port\<close>

record workflow_identity =
  id_workflow_id :: string
  id_work_item :: string
  id_attempt :: int
  id_decision_id :: string
  id_round_id :: string
  id_policy_digest :: string

record authorization_request =
  aq_identity :: workflow_identity
  aq_tier :: risk_tier
  aq_envelope :: execution_envelope
  aq_decision_id :: string
  aq_round_id :: string
  aq_command :: string

datatype authorization_status = Authorized | ApprovalRequired | AuthBlocked

fun authorization_text :: "authorization_status \<Rightarrow> string" where
  "authorization_text Authorized = ''AUTHORIZED''"
| "authorization_text ApprovalRequired = ''APPROVAL_REQUIRED''"
| "authorization_text AuthBlocked = ''BLOCKED''"

definition authorization_of :: "string \<Rightarrow> authorization_status option" where
  "authorization_of x = find (\<lambda>s. authorization_text s = x) [Authorized, ApprovalRequired, AuthBlocked]"

type_synonym authorization = "authorization_status \<times> string list"

type_synonym port = "authorization_request \<Rightarrow> authorization outcome"

text \<open>\<open>TransitionKernelAuthorizationAdapter.authorize\<close>\<close>

definition kernel_authorize :: "transition_authority \<Rightarrow> authorization_request \<Rightarrow> authorization" where
  "kernel_authorize a q =
     (if aq_tier q \<notin> {R2, R3} then (AuthBlocked, [''trust_port_only_accepts_r2_r3''])
      else if aq_decision_id q \<noteq> td_decision_id (ta_decision a) then
        (AuthBlocked, [''decision_identity_mismatch''])
      else if aq_round_id q \<noteq> td_round_id (ta_decision a) then
        (AuthBlocked, [''round_identity_mismatch''])
      else if aq_command q = '''' then (ApprovalRequired, [''command_authority_required''])
      else
        let r = validate_transition a
              [\<lparr>el_command = aq_command q, el_execution_surface = ''local'',
                el_mutated_paths = xv_paths (aq_envelope q),
                el_operations = xv_operations (aq_envelope q), el_exit_code = None,
                el_bootstrap_exception = False, el_command_id = ''''\<rparr>] False in
        if gr_status r = ''PASSED'' then (Authorized, []) else (AuthBlocked, gr_blocking_reasons r))"

section \<open>State\<close>

text \<open>\<open>state["key"]\<close>, the dictionary at a key, and the merge of a node's update.\<close>

definition state_item :: "payload \<Rightarrow> string \<Rightarrow> json outcome" where
  "state_item st key =
     (case map_of st key of None \<Rightarrow> Inl (PyError ''KeyError'' (py_repr_string key)) | Some v \<Rightarrow> Inr v)"

definition state_mapping :: "payload \<Rightarrow> string \<Rightarrow> payload outcome" where
  "state_mapping st key = parse_then (state_item st key) py_mapping"

definition merge_state :: "payload \<Rightarrow> payload \<Rightarrow> payload" where
  "merge_state st update = fold (\<lambda>(k, v) d. dict_set k v d) update st"

text \<open>\<open>[*(state.get("node_trace") or []), name]\<close>\<close>

definition trace_with :: "payload \<Rightarrow> string \<Rightarrow> (string \<times> json) outcome" where
  "trace_with st name =
     (let v = get_value st ''node_trace'' JNull in
      parse_then (if py_truth v then py_iter v else Inr []) (\<lambda>xs.
        Inr (''node_trace'', JArr (xs @ [JStr name]))))"

section \<open>Nodes\<close>

text \<open>\<open>provider.workflow_identity\<close>, with \<open>WorkflowIdentity.__post_init__\<close>.\<close>

definition make_identity :: "env \<Rightarrow> payload \<Rightarrow> string \<Rightarrow> string \<Rightarrow> workflow_identity outcome" where
  "make_identity e contract workflow_id item =
     parse_then (provide e contract) (\<lambda>p.
       if py_strip workflow_id = '''' then Inl (missing_field ''workflow_id'')
       else if py_strip item = '''' then Inl (missing_field ''work_item_identity'')
       else Inr \<lparr>id_workflow_id = workflow_id, id_work_item = item, id_attempt = 1,
                 id_decision_id = rp_decision_id p, id_round_id = rp_round_id p,
                 id_policy_digest = rp_digest p\<rparr>)"

definition identity_payload :: "workflow_identity \<Rightarrow> payload" where
  "identity_payload i =
     [(''schema_version'', JInt 1), (''workflow_id'', JStr (id_workflow_id i)),
      (''work_item_identity'', JStr (id_work_item i)), (''attempt'', JInt (id_attempt i)),
      (''decision_id'', JStr (id_decision_id i)), (''round_id'', JStr (id_round_id i)),
      (''policy_digest'', JStr (id_policy_digest i))]"

definition load_work_item_node :: "env \<Rightarrow> payload \<Rightarrow> payload \<Rightarrow> payload outcome" where
  "load_work_item_node e contract st =
     parse_then (state_mapping st ''work_item_input'') (\<lambda>input.
     parse_then (parse_work_item input) (\<lambda>item.
     let wid = ''workflow-'' @ take 20 (sha256 e (stable_json (JObj (item_payload item)))) in
     parse_then (make_identity e contract wid (item_identity item)) (\<lambda>identity.
     parse_then (provide e contract) (\<lambda>policy.
     parse_then (trace_with st ''load_work_item'') (\<lambda>tr.
     Inr ([(''work_item'', JObj (item_payload item)),
           (''workflow_identity'', JObj (identity_payload identity)),
           (''risk_policy_snapshot'', JObj (policy_payload policy)), tr]
          @ (case get_value st ''risk_policy_snapshot'' JNull of
               JNull \<Rightarrow> [] | v \<Rightarrow> [(''caller_supplied_risk_policy_snapshot'', v)])))))))"

definition load_planning_node :: "payload \<Rightarrow> payload outcome" where
  "load_planning_node st =
     parse_then (py_iter (get_value st ''planning_inputs'' (JArr []))) (\<lambda>inputs.
     parse_then (parse_each (\<lambda>v. parse_then (py_mapping v) load_planning_reference) inputs) (\<lambda>refs.
     parse_then (trace_with st ''load_planning_context'') (\<lambda>tr.
     Inr [(''planning_references'', JArr (map JObj refs)), tr])))"

text \<open>\<open>str(identity.get(key) or "")\<close>\<close>

definition identity_text :: "payload \<Rightarrow> string \<Rightarrow> string" where
  "identity_text kvs key = (let v = get_value kvs key JNull in if py_truth v then py_str v else '''')"

text \<open>\<open>_blocked\<close> appends the node's name to a trace that ends with it already.\<close>

definition blocked_update :: "string \<times> json \<Rightarrow> string list \<Rightarrow> payload" where
  "blocked_update tr reasons =
     [(''risk_decision'', JObj (decision_payload (blocked_decision reasons))),
      (fst tr, case snd tr of JArr xs \<Rightarrow> JArr (xs @ [JStr ''classify_risk'']) | v \<Rightarrow> v)]"

definition item_envelope :: "work_item \<Rightarrow> execution_envelope" where
  "item_envelope item =
     \<lparr>xv_operations = wi_operations item, xv_paths = wi_paths item,
      xv_network_requested = False, xv_binary_requested = False\<rparr>"

text \<open>The verdict on a work item under a policy.\<close>

definition verdict :: "risk_policy \<Rightarrow> work_item \<Rightarrow> risk_decision" where
  "verdict p item = classify_risk (item_envelope item) (path_risk (rp_floor p) (wi_paths item))
     (capability_risk (rp_rules p) (wi_operations item))"

text \<open>
  What keeps a snapshot the caller supplied from being used: it must parse, and be the
  authorised one.
\<close>

definition caller_snapshot_error :: "env \<Rightarrow> payload \<Rightarrow> payload \<Rightarrow> store_error option outcome" where
  "caller_snapshot_error e contract st =
     (let v = get_value st ''caller_supplied_risk_policy_snapshot'' JNull in
      if v = JNull then Inr None
      else case parse_then (py_mapping v) (\<lambda>kvs. parse_then (parse_policy e kvs) (verify_policy e contract)) of
        Inr _ \<Rightarrow> Inr None
      | Inl err \<Rightarrow> if error_class err \<in> {''ValueError'', ''PolicyTamperingError''} then Inr (Some err)
                   else Inl err)"

definition classify_risk_node :: "env \<Rightarrow> payload \<Rightarrow> payload \<Rightarrow> payload outcome" where
  "classify_risk_node e contract st =
     parse_then (trace_with st ''classify_risk'') (\<lambda>tr.
     parse_then (let v = get_value st ''workflow_identity'' JNull in
                 if py_truth v then py_mapping v else Inr []) (\<lambda>identity.
     let decision_id = identity_text identity ''decision_id'';
         round_id = identity_text identity ''round_id'';
         digest = identity_text identity ''policy_digest'';
         stop = (\<lambda>reason. Inr (blocked_update tr [reason])) in
     if decision_id = '''' then stop ''identity_missing_decision_id''
     else if round_id = '''' then stop ''identity_missing_round_id''
     else if digest = '''' then stop ''identity_missing_policy_digest''
     else case provide e contract of
       Inl err \<Rightarrow> if error_class err = ''ValueError'' then stop (''provider_error:'' @ error_text err)
                  else Inl err
     | Inr p \<Rightarrow>
         if rp_digest p \<noteq> digest then
           stop (''identity_policy_digest_mismatch:'' @ digest @ '':'' @ rp_digest p)
         else if rp_decision_id p \<noteq> decision_id \<or> rp_round_id p \<noteq> round_id then
           stop (''identity_decision_round_mismatch:'' @ decision_id @ '':'' @ round_id)
         else
           parse_then (caller_snapshot_error e contract st) (\<lambda>tampered.
           case tampered of
             Some err \<Rightarrow> stop (''caller_snapshot_tampered:'' @ error_text err)
           | None \<Rightarrow>
               parse_then (parse_then (state_mapping st ''work_item'') parse_work_item) (\<lambda>item.
               Inr [(''risk_decision'', JObj (decision_payload (verdict p item))),
                    (''risk_policy_snapshot'', JObj (policy_payload p)), tr]))))"

text \<open>
  The request carries the work item and the identity of the workflow, but neither the ids of the
  decision and the round nor a command: those fields keep their defaults.
\<close>

definition request_of :: "payload \<Rightarrow> authorization_request outcome" where
  "request_of st =
     parse_then (parse_then (state_mapping st ''work_item'') parse_work_item) (\<lambda>item.
     parse_then (state_mapping st ''workflow_identity'') (\<lambda>identity.
     parse_then (state_item identity ''workflow_id'') (\<lambda>wid.
     parse_then (state_item identity ''work_item_identity'') (\<lambda>wi.
     parse_then (state_item identity ''attempt'') (\<lambda>attempt.
     parse_then (text_value wid ''workflow_id'') (\<lambda>_.
     parse_then (text_value wi ''work_item_identity'') (\<lambda>_.
     parse_then (case attempt of
           JInt n \<Rightarrow> if n < 1 then Inl (missing_field ''attempt'') else Inr n
         | JBool b \<Rightarrow> if b then Inr 1 else Inl (missing_field ''attempt'')
         | _ \<Rightarrow> Inl (PyError ''TypeError'' ''attempt'')) (\<lambda>n.
     parse_then (state_mapping st ''risk_decision'') (\<lambda>decision.
     parse_then (state_item decision ''risk_tier'') (\<lambda>tier.
     case (case tier of JStr t \<Rightarrow> tier_of t | _ \<Rightarrow> None) of
       None \<Rightarrow> Inl (value_error (py_repr tier @ '' is not a valid RiskTier''))
     | Some t \<Rightarrow>
         Inr \<lparr>aq_identity = \<lparr>id_workflow_id = py_str wid, id_work_item = py_str wi, id_attempt = n,
                id_decision_id = '''', id_round_id = '''', id_policy_digest = ''''\<rparr>,
              aq_tier = t,
              aq_envelope = item_envelope item,
              aq_decision_id = '''', aq_round_id = '''', aq_command = ''''\<rparr>))))))))))"

definition authorization_payload :: "authorization \<Rightarrow> payload" where
  "authorization_payload r =
     [(''schema_version'', JInt 1), (''status'', JStr (authorization_text (fst r))),
      (''reasons'', json_texts (snd r))]"

definition request_authorization_node :: "port \<Rightarrow> payload \<Rightarrow> payload outcome" where
  "request_authorization_node port st =
     parse_then (request_of st) (\<lambda>q.
     parse_then (port q) (\<lambda>r.
     parse_then (trace_with st ''request_trust_authorization'') (\<lambda>tr.
     Inr [(''authorization_result'', JObj (authorization_payload r)), tr])))"

section \<open>The acceptance gate\<close>

datatype acceptance_status = Accepted | NeedsApproval | Rejected

fun acceptance_text :: "acceptance_status \<Rightarrow> string" where
  "acceptance_text Accepted = ''ACCEPTED''"
| "acceptance_text NeedsApproval = ''APPROVAL_REQUIRED''"
| "acceptance_text Rejected = ''BLOCKED''"

definition acceptance_payload :: "acceptance_status \<Rightarrow> bool \<Rightarrow> json list \<Rightarrow> payload" where
  "acceptance_payload status executable reasons =
     [(''schema_version'', JInt 1), (''status'', JStr (acceptance_text status)),
      (''executable'', JBool executable), (''reasons'', JArr reasons)]"

text \<open>
  What the gate makes of a team's result: \<open>None\<close> to go on, or the reasons to stop. The result is
  valid when it says whether it was accepted, and its reasons are a list of texts.
\<close>

definition is_text :: "json \<Rightarrow> bool" where
  "is_text v = (case v of JStr _ \<Rightarrow> True | _ \<Rightarrow> False)"

definition team_verdict :: "json \<Rightarrow> json list option" where
  "team_verdict v =
     (let invalid = Some [JStr ''team_execution_result_invalid''] in
      case v of
        JObj kvs \<Rightarrow>
          (case (map_of kvs ''accepted'', get_value kvs ''reasons'' (JArr [])) of
             (Some (JBool ok), JArr reasons) \<Rightarrow>
               if \<not> list_all is_text reasons then invalid
               else if ok then None
               else Some (if reasons = [] then [JStr ''team_execution_rejected''] else reasons)
           | _ \<Rightarrow> invalid)
      | _ \<Rightarrow> invalid)"

definition state_route :: "payload \<Rightarrow> route outcome" where
  "state_route st =
     parse_then (parse_then (state_mapping st ''risk_decision'') (\<lambda>d. state_item d ''route'')) (\<lambda>v.
       case (case v of JStr x \<Rightarrow> route_of x | _ \<Rightarrow> None) of
         None \<Rightarrow> Inl (value_error (py_repr v @ '' is not a valid WorkflowRoute''))
       | Some r \<Rightarrow> Inr r)"

text \<open>\<open>state.get("authorization_result") or {}\<close>, its status and its reasons.\<close>

definition authorization_result :: "payload \<Rightarrow> payload outcome" where
  "authorization_result st =
     (let v = get_value st ''authorization_result'' JNull in if py_truth v then py_mapping v else Inr [])"

definition authorization_status_of :: "payload \<Rightarrow> authorization_status outcome" where
  "authorization_status_of kvs =
     (let v = get_value kvs ''status'' (JStr ''BLOCKED'') in
      case (case v of JStr x \<Rightarrow> authorization_of x | _ \<Rightarrow> None) of
        None \<Rightarrow> Inl (value_error (py_repr v @ '' is not a valid AuthorizationStatus''))
      | Some s \<Rightarrow> Inr s)"

definition gate_decision :: "payload \<Rightarrow> payload outcome" where
  "gate_decision st =
     parse_then (state_route st) (\<lambda>r.
       case r of
         StandardPath \<Rightarrow> Inr (acceptance_payload Accepted True [JStr ''standard_path''])
       | BlockedRoute \<Rightarrow>
           parse_then (parse_then (state_mapping st ''risk_decision'') (\<lambda>d. state_item d ''reasons'')) (\<lambda>v.
           parse_then (py_iter v) (\<lambda>reasons. Inr (acceptance_payload Rejected False reasons)))
       | TrustAuthorizationRequired \<Rightarrow>
           parse_then (authorization_result st) (\<lambda>kvs.
           parse_then (authorization_status_of kvs) (\<lambda>s.
           parse_then (py_iter (get_value kvs ''reasons'' (JArr []))) (\<lambda>reasons.
             case s of
               Authorized \<Rightarrow> Inr (acceptance_payload Accepted True [JStr ''trust_authorized''])
             | ApprovalRequired \<Rightarrow> Inr (acceptance_payload NeedsApproval False
                 (if reasons = [] then [JStr ''approval_required''] else reasons))
             | AuthBlocked \<Rightarrow> Inr (acceptance_payload Rejected False
                 (if reasons = [] then [JStr ''trust_blocked''] else reasons))))))"

definition acceptance_gate_node :: "payload \<Rightarrow> payload outcome" where
  "acceptance_gate_node st =
     parse_then (case (case map_of st ''team_execution_result'' of None \<Rightarrow> None | Some v \<Rightarrow> team_verdict v) of
         Some reasons \<Rightarrow> Inr (acceptance_payload Rejected False reasons)
       | None \<Rightarrow> gate_decision st) (\<lambda>r.
     parse_then (trace_with st ''acceptance_gate'') (\<lambda>tr.
     Inr [(''acceptance_result'', JObj r), tr]))"

section \<open>The graph\<close>

text \<open>
  The execution seam is an optional node; \<open>team_execution_node\<close> is the adapter of the team graph
  (team_graph.py), whose graph gives a result for the assignments of the state.
\<close>

type_synonym seam = "payload \<Rightarrow> payload outcome"

definition team_execution_node :: "(json list \<Rightarrow> json outcome) \<Rightarrow> seam" where
  "team_execution_node graph st =
     (let v = get_value st ''team_assignments'' JNull in
      parse_then (if py_truth v then py_iter v else Inr []) (\<lambda>assignments.
      parse_then (graph assignments) (\<lambda>r.
      parse_then (trace_with st ''team_execution'') (\<lambda>tr.
      Inr [(''team_execution_result'', r), tr]))))"

definition node :: "(payload \<Rightarrow> payload outcome) \<Rightarrow> payload \<Rightarrow> payload outcome" where
  "node f st = map_sum id (merge_state st) (f st)"

definition seam_then_gate :: "seam option \<Rightarrow> payload \<Rightarrow> payload outcome" where
  "seam_then_gate seam st =
     (case seam of
        None \<Rightarrow> node acceptance_gate_node st
      | Some f \<Rightarrow> parse_then (node f st) (node acceptance_gate_node))"

definition after_authorization :: "seam option \<Rightarrow> payload \<Rightarrow> payload outcome" where
  "after_authorization seam st =
     parse_then (parse_then (authorization_result st) authorization_status_of) (\<lambda>s.
       if s \<noteq> Authorized then node acceptance_gate_node st else seam_then_gate seam st)"

definition after_classification :: "port \<Rightarrow> seam option \<Rightarrow> payload \<Rightarrow> payload outcome" where
  "after_classification port seam st =
     parse_then (state_route st) (\<lambda>r.
       case r of
         BlockedRoute \<Rightarrow> node acceptance_gate_node st
       | TrustAuthorizationRequired \<Rightarrow>
           parse_then (node (request_authorization_node port) st) (after_authorization seam)
       | StandardPath \<Rightarrow> seam_then_gate seam st)"

definition run_development :: "env \<Rightarrow> payload \<Rightarrow> port \<Rightarrow> seam option \<Rightarrow> payload \<Rightarrow> payload outcome" where
  "run_development e contract port seam st =
     parse_then (node (load_work_item_node e contract) st) (\<lambda>st1.
     parse_then (node load_planning_node st1) (\<lambda>st2.
     parse_then (node (classify_risk_node e contract) st2) (\<lambda>st3.
     after_classification port seam st3)))"

end
