(* ===== verification/Authority_Laws.thy ===== *)
theory Authority_Laws
  imports Pattern_Laws Development_Flow
begin

text \<open>
  The laws of the authority side: round trips of work items and policies, what the classifier's
  verdict means, how the dictionary of a workflow is read after a node, and what the checks of
  the transition gate establish.
\<close>

section \<open>Round trips\<close>

lemma text_value_ok: "text_value v field = Inr x \<longleftrightarrow> (\<exists>s. v = JStr s \<and> x = py_strip s \<and> x \<noteq> '''')"
  by (auto simp: text_value_def split: json.splits)

lemma text_value_back [simp]: "py_strip x = x \<Longrightarrow> x \<noteq> '''' \<Longrightarrow> text_value (JStr x) field = Inr x"
  by (simp add: text_value_def)

definition clean_text :: "string \<Rightarrow> bool" where
  "clean_text x \<longleftrightarrow> py_strip x = x \<and> x \<noteq> ''''"

lemma text_value_clean: "text_value v field = Inr x \<Longrightarrow> clean_text x"
  by (auto simp: text_value_ok clean_text_def)

lemma parse_each_clean:
  "parse_each (\<lambda>x. text_value x field) vs = Inr xs \<Longrightarrow> list_all clean_text xs"
proof (induction vs arbitrary: xs)
  case (Cons v vs)
  then obtain y ys where "text_value v field = Inr y" "parse_each (\<lambda>x. text_value x field) vs = Inr ys" "xs = y # ys"
    by (cases "parse_each (\<lambda>x. text_value x field) vs") (auto simp: parse_then_ok)
  with Cons.IH show ?case by (simp add: text_value_clean)
qed simp

lemma parse_each_back: "list_all clean_text xs \<Longrightarrow> parse_each (\<lambda>x. text_value x field) (map JStr xs) = Inr xs"
  by (induction xs) (simp_all add: clean_text_def)

lemma strings_clean: "strings_value v field = Inr xs \<Longrightarrow> list_all clean_text xs \<and> xs \<noteq> []"
  by (auto simp: strings_value_def parse_then_ok split: json.splits if_splits dest: parse_each_clean)

lemma strings_back: "list_all clean_text xs \<Longrightarrow> xs \<noteq> [] \<Longrightarrow> strings_value (json_texts xs) field = Inr xs"
  by (simp add: strings_value_def json_texts_def parse_each_back)

definition clean_item :: "work_item \<Rightarrow> bool" where
  "clean_item i \<longleftrightarrow> 0 < wi_item_number i \<and> clean_text (wi_repository i) \<and> clean_text (wi_observation_ref i)
     \<and> clean_text (wi_title i) \<and> list_all clean_text (wi_acceptance_criteria i) \<and> wi_acceptance_criteria i \<noteq> []
     \<and> list_all clean_text (wi_operations i) \<and> wi_operations i \<noteq> []
     \<and> list_all clean_text (wi_paths i) \<and> wi_paths i \<noteq> []"

lemma parsed_item_clean: "parse_work_item kvs = Inr i \<Longrightarrow> clean_item i"
  by (auto simp: parse_work_item_def parse_then_ok clean_item_def item_number_def field_text_def field_strings_def
      split: json.splits if_splits dest: text_value_clean strings_clean)

lemma item_back: "clean_item i \<Longrightarrow> parse_work_item (item_payload i) = Inr i"
  by (simp add: parse_work_item_def item_payload_def check_schema_def item_number_def field_text_def
      field_strings_def get_value_def clean_item_def clean_text_def [symmetric] strings_back)
    (simp add: clean_text_def)

text \<open>Policies.\<close>

lemma tier_of_text [simp]: "tier_of (tier_text t) = Some t"
  by (cases t) (simp_all add: tier_of_def)

lemma tier_of_Some: "tier_of x = Some t \<Longrightarrow> x = tier_text t"
  by (auto simp: tier_of_def split: if_splits)

lemma tier_label_back: "tier_label (JStr (tier_text t)) field = Inr t"
  by (cases t) (simp_all add: tier_label_def text_value_def py_strip_def py_isspace_def py_upper_def py_upper_char_def
      tier_of_def)

definition clean_policy :: "risk_policy \<Rightarrow> bool" where
  "clean_policy p \<longleftrightarrow> clean_text (rp_decision_id p) \<and> clean_text (rp_round_id p)
     \<and> rp_floor p \<noteq> [] \<and> list_all (\<lambda>(pat, l). clean_text pat \<and> (\<exists>t. l = tier_text t)) (rp_floor p)
     \<and> rp_rules p \<noteq> [] \<and> list_all (\<lambda>(op, _). clean_text op) (rp_rules p)"

lemma floor_entries_clean:
  "parse_each floor_entry vs = Inr es \<Longrightarrow> list_all (\<lambda>(pat, l). clean_text pat \<and> (\<exists>t. l = tier_text t)) es"
proof (induction vs arbitrary: es)
  case (Cons v vs)
  then obtain y ys where y: "floor_entry v = Inr y" "parse_each floor_entry vs = Inr ys" "es = y # ys"
    by (cases "parse_each floor_entry vs") (auto simp: parse_then_ok)
  then have "case y of (pat, l) \<Rightarrow> clean_text pat \<and> (\<exists>t. l = tier_text t)"
    by (auto simp: floor_entry_def parse_then_ok split: json.splits list.splits dest: text_value_clean)
  with Cons.IH y show ?case by simp
qed simp

lemma floor_entries_back:
  "list_all (\<lambda>(pat, l). clean_text pat \<and> (\<exists>t. l = tier_text t)) es \<Longrightarrow>
   parse_each floor_entry (map (\<lambda>(p, t). JArr [JStr p, JStr t]) es) = Inr es"
  by (induction es) (auto simp: floor_entry_def clean_text_def tier_label_back)

lemma rules_clean:
  "parse_each parse_rule vs = Inr rs \<Longrightarrow> list_all (\<lambda>(op, _). clean_text op) rs \<and> length rs = length vs"
proof (induction vs arbitrary: rs)
  case (Cons v vs)
  then obtain y ys where y: "parse_rule v = Inr y" "parse_each parse_rule vs = Inr ys" "rs = y # ys"
    by (cases "parse_each parse_rule vs") (auto simp: parse_then_ok)
  then have "case y of (op, _) \<Rightarrow> clean_text op"
    by (auto simp: parse_rule_def rule_of_def parse_then_ok split: json.splits dest: text_value_clean)
  with Cons.IH [OF y(2)] y show ?case by simp
qed simp

lemma rules_back:
  "list_all (\<lambda>(op, _). clean_text op) rs \<Longrightarrow>
   parse_each parse_rule (map (\<lambda>(op, t). JObj [(''schema_version'', JInt 1), (''operation'', JStr op),
      (''risk_tier'', JStr (tier_text t))]) rs) = Inr rs"
  by (induction rs) (auto simp: parse_rule_def rule_of_def get_value_def clean_text_def tier_label_back)

lemma provided_clean: "provide e contract = Inr p \<Longrightarrow> clean_policy p"
  by (auto simp: provide_def parse_then_ok Let_def clean_policy_def parse_floor_def parse_rules_def clean_text_def
        contract_text_def [abs_def]
      split: if_splits json.splits dest: floor_entries_clean [unfolded clean_text_def] rules_clean [unfolded clean_text_def])

lemma provided_digest: "provide e contract = Inr p \<Longrightarrow>
    rp_digest p = policy_digest e (rp_decision_id p) (rp_round_id p) (rp_floor p) (rp_rules p)"
  by (auto simp: provide_def parse_then_ok Let_def split: if_splits)

lemma tier_text_inj: "tier_text a = tier_text b \<Longrightarrow> a = b"
  by (metis option.inject tier_of_text)

lemma same_floor: "floor_payload es = floor_payload es' \<longleftrightarrow> es = es'"
proof
  assume "floor_payload es = floor_payload es'"
  then have "map (\<lambda>(p, t). JArr [JStr p, JStr t]) es = map (\<lambda>(p, t). JArr [JStr p, JStr t]) es'"
    by (simp add: floor_payload_def)
  then show "es = es'" by (rule map_injective) (auto intro!: injI)
qed simp

lemma same_rules: "rules_payload rs = rules_payload rs' \<longleftrightarrow> rs = rs'"
proof
  assume "rules_payload rs = rules_payload rs'"
  then have "map (\<lambda>(op, t). JObj [(''schema_version'', JInt 1), (''operation'', JStr op),
      (''risk_tier'', JStr (tier_text t))]) rs = map (\<lambda>(op, t). JObj [(''schema_version'', JInt 1),
      (''operation'', JStr op), (''risk_tier'', JStr (tier_text t))]) rs'"
    by (simp add: rules_payload_def)
  then show "rs = rs'" by (rule map_injective) (auto intro!: injI dest: tier_text_inj)
qed simp

section \<open>The dictionary of a workflow\<close>

lemma map_of_dict_set [simp]: "map_of (dict_set k v d) k' = (if k' = k then Some v else map_of d k')"
  by (induction k v d rule: dict_set.induct) auto

lemma merge_state_simps [simp]:
  "merge_state st [] = st"
  "merge_state st ((k, v) # u) = merge_state (dict_set k v st) u"
  by (simp_all add: merge_state_def)

lemma merge_keeps: "k \<notin> fst ` set u \<Longrightarrow> map_of (merge_state st u) k = map_of st k"
proof (induction u arbitrary: st)
  case (Cons a u)
  then show ?case by (cases a) auto
qed simp

lemma node_ok: "node f st = Inr st' \<longleftrightarrow> (\<exists>u. f st = Inr u \<and> st' = merge_state st u)"
  by (cases "f st") (auto simp: node_def)

lemma traced: "trace_with st n = Inr tr \<Longrightarrow> \<exists>v. tr = (''node_trace'', v)"
  by (auto simp: trace_with_def parse_then_ok Let_def)

section \<open>The nodes\<close>

definition holds_item :: "work_item \<Rightarrow> payload \<Rightarrow> bool" where
  "holds_item i st \<longleftrightarrow> clean_item i \<and> map_of st ''work_item'' = Some (JObj (item_payload i))"

lemma read_item: "holds_item i st \<Longrightarrow> parse_then (state_mapping st ''work_item'') parse_work_item = Inr i"
  by (simp add: holds_item_def state_mapping_def state_item_def item_back)

lemma node_loads:
  assumes "node (load_work_item_node e contract) st = Inr st'"
  shows "\<exists>input i. state_mapping st ''work_item_input'' = Inr input \<and> parse_work_item input = Inr i
    \<and> holds_item i st'"
proof -
  from assms obtain u where u: "load_work_item_node e contract st = Inr u" "st' = merge_state st u"
    by (auto simp: node_ok)
  then obtain input i where i: "state_mapping st ''work_item_input'' = Inr input" "parse_work_item input = Inr i"
    by (auto simp: load_work_item_node_def parse_then_ok)
  with u(1) obtain x y tr where tr: "trace_with st ''load_work_item'' = Inr tr"
      and "u = (''work_item'', JObj (item_payload i)) # (''workflow_identity'', x)
      # (''risk_policy_snapshot'', y) # tr # (case get_value st ''risk_policy_snapshot'' JNull of
           JNull \<Rightarrow> [] | v \<Rightarrow> [(''caller_supplied_risk_policy_snapshot'', v)])"
    by (auto simp: load_work_item_node_def parse_then_ok Let_def)
  moreover from traced [OF tr] obtain t where "tr = (''node_trace'', t)" by blast
  moreover have "''work_item'' \<notin> fst ` set ((''workflow_identity'', x) # (''risk_policy_snapshot'', y)
      # (''node_trace'', t) # (case get_value st ''risk_policy_snapshot'' JNull of
           JNull \<Rightarrow> [] | v \<Rightarrow> [(''caller_supplied_risk_policy_snapshot'', v)]))"
    by (auto split: json.splits)
  ultimately have "map_of st' ''work_item'' = Some (JObj (item_payload i))"
    using u(2) merge_keeps by simp
  with i show ?thesis by (auto simp: holds_item_def parsed_item_clean)
qed

lemma node_plans:
  assumes "node load_planning_node st = Inr st'" "k \<noteq> ''planning_references''" "k \<noteq> ''node_trace''"
  shows "map_of st' k = map_of st k"
  using assms by (auto simp: node_ok load_planning_node_def parse_then_ok dest!: traced)

text \<open>What the third node leaves: a refusal, or the verdict under the authorised policy.\<close>

definition decided :: "env \<Rightarrow> payload \<Rightarrow> work_item \<Rightarrow> risk_decision \<Rightarrow> bool" where
  "decided e contract i d \<longleftrightarrow> rd_route d = BlockedRoute
     \<or> (\<exists>p. provide e contract = Inr p \<and> d = verdict p i)"

definition holds_decision :: "risk_decision \<Rightarrow> payload \<Rightarrow> bool" where
  "holds_decision d st \<longleftrightarrow> map_of st ''risk_decision'' = Some (JObj (decision_payload d))"

lemma node_classifies:
  assumes "node (classify_risk_node e contract) st = Inr st'" "holds_item i st"
  shows "\<exists>d. decided e contract i d \<and> holds_decision d st' \<and> holds_item i st'"
proof -
  from assms(1) obtain u where u: "classify_risk_node e contract st = Inr u" "st' = merge_state st u"
    by (auto simp: node_ok)
  then obtain tr where tr: "trace_with st ''classify_risk'' = Inr tr"
    by (auto simp: classify_risk_node_def parse_then_ok)
  then obtain t where t: "tr = (''node_trace'', t)" using traced by blast
  have "(\<exists>reason. u = blocked_update tr [reason])
      \<or> (\<exists>p b. provide e contract = Inr p \<and> u = [(''risk_decision'', JObj (decision_payload (verdict p i))), b, tr]
           \<and> fst b = ''risk_policy_snapshot'')"
    using u(1) tr read_item [OF assms(2)]
    by (auto simp: classify_risk_node_def parse_then_ok Let_def split: if_splits sum.splits option.splits)
  then show ?thesis
  proof
    assume "\<exists>reason. u = blocked_update tr [reason]"
    then obtain reason where "u = blocked_update tr [reason]" by blast
    with u(2) t assms(2) show ?thesis
      by (intro exI [of _ "blocked_decision [reason]"])
        (auto simp: decided_def blocked_decision_def holds_decision_def holds_item_def blocked_update_def)
  next
    assume "\<exists>p b. provide e contract = Inr p \<and> u = [(''risk_decision'', JObj (decision_payload (verdict p i))), b, tr]
           \<and> fst b = ''risk_policy_snapshot''"
    then obtain p b where "provide e contract = Inr p"
      "u = [(''risk_decision'', JObj (decision_payload (verdict p i))), (''risk_policy_snapshot'', b), tr]" by auto
    with u(2) t assms(2) show ?thesis
      by (intro exI [of _ "verdict p i"]) (auto simp: decided_def holds_decision_def holds_item_def)
  qed
qed

lemma route_of_text [simp]: "route_of (route_text r) = Some r"
  by (cases r) (simp_all add: route_of_def)

lemma read_route: "holds_decision d st \<Longrightarrow> state_route st = Inr (rd_route d)"
  by (simp add: holds_decision_def state_route_def state_mapping_def state_item_def
      decision_payload_def)

lemma authorization_of_text [simp]: "authorization_of (authorization_text s) = Some s"
  by (cases s) (simp_all add: authorization_of_def)

section \<open>The gate of a workflow\<close>

definition accepted :: "payload \<Rightarrow> bool" where
  "accepted st \<longleftrightarrow> (case get_value st ''acceptance_result'' JNull of
     JObj r \<Rightarrow> get_value r ''executable'' JNull = JBool True | _ \<Rightarrow> False)"

lemma gate_decision_opens:
  assumes "get_value r ''executable'' JNull = JBool True" "gate_decision st = Inr r"
  shows "state_route st = Inr StandardPath
    \<or> state_route st = Inr TrustAuthorizationRequired
      \<and> parse_then (authorization_result st) authorization_status_of = Inr Authorized"
proof -
  from assms(2) obtain x where x: "state_route st = Inr x" by (auto simp: gate_decision_def parse_then_ok)
  show ?thesis
  proof (cases x)
    case TrustAuthorizationRequired
    with assms(2) x obtain s where s: "parse_then (authorization_result st) authorization_status_of = Inr s"
      by (auto simp: gate_decision_def parse_then_ok)
    with assms x TrustAuthorizationRequired show ?thesis
      by (cases s) (auto simp: gate_decision_def parse_then_ok acceptance_payload_def get_value_def)
  qed (use assms x in \<open>auto simp: gate_decision_def parse_then_ok acceptance_payload_def get_value_def\<close>)
qed

lemma gate_opens:
  assumes "node acceptance_gate_node st = Inr st'" "accepted st'"
  shows "state_route st = Inr StandardPath
    \<or> state_route st = Inr TrustAuthorizationRequired
      \<and> parse_then (authorization_result st) authorization_status_of = Inr Authorized"
proof -
  from assms(1) obtain r t v where r: "st' = merge_state st [(''acceptance_result'', JObj r), (''node_trace'', t)]"
      and v: "(case v of None \<Rightarrow> gate_decision st | Some reasons \<Rightarrow> Inr (acceptance_payload Rejected False reasons)) = Inr r"
    unfolding node_ok acceptance_gate_node_def parse_then_ok
    by (elim exE conjE) (drule traced, elim exE, rule that, auto split: option.splits)
  have "get_value r ''executable'' JNull = JBool True"
    using assms(2) r by (simp add: accepted_def get_value_def)
  with v have "gate_decision st = Inr r"
    by (cases v) (auto simp: acceptance_payload_def get_value_def)
  with \<open>get_value r _ _ = _\<close> show ?thesis by (rule gate_decision_opens)
qed

lemma seam_keeps:
  assumes "node (team_execution_node graph) st = Inr st'" "k \<noteq> ''team_execution_result''" "k \<noteq> ''node_trace''"
  shows "map_of st' k = map_of st k"
  using assms by (auto simp: node_ok team_execution_node_def parse_then_ok Let_def dest!: traced)

text \<open>With the team graph as its seam, or none.\<close>

definition team_seam :: "seam option \<Rightarrow> bool" where
  "team_seam seam \<longleftrightarrow> seam = None \<or> (\<exists>graph. seam = Some (team_execution_node graph))"

lemma same_route: "map_of st' ''risk_decision'' = map_of st ''risk_decision'' \<Longrightarrow> state_route st' = state_route st"
  by (simp add: state_route_def state_mapping_def state_item_def)

lemma same_authorization: "map_of st' ''authorization_result'' = map_of st ''authorization_result''
    \<Longrightarrow> authorization_result st' = authorization_result st"
  by (simp add: authorization_result_def get_value_def)

lemma seam_gate_opens:
  assumes "seam_then_gate seam st = Inr st'" "accepted st'" "team_seam seam"
  shows "state_route st = Inr StandardPath
    \<or> state_route st = Inr TrustAuthorizationRequired
      \<and> parse_then (authorization_result st) authorization_status_of = Inr Authorized"
  using assms(3) unfolding team_seam_def
proof
  assume "seam = None"
  with assms(1,2) gate_opens show ?thesis by (simp add: seam_then_gate_def)
next
  assume "\<exists>graph. seam = Some (team_execution_node graph)"
  then obtain graph where "seam = Some (team_execution_node graph)" ..
  then obtain st1 where st1: "node (team_execution_node graph) st = Inr st1" "node acceptance_gate_node st1 = Inr st'"
    using assms(1) by (auto simp: seam_then_gate_def parse_then_ok)
  have "state_route st1 = state_route st" "authorization_result st1 = authorization_result st"
    using seam_keeps [OF st1(1)] by (intro same_route same_authorization; simp)+
  with gate_opens [OF st1(2) assms(2)] show ?thesis by simp
qed

lemma request_reads:
  assumes "request_of st = Inr q" "holds_item i st" "holds_decision d st"
  shows "rd_tier d = Some (aq_tier q) \<and> aq_envelope q = item_envelope i"
proof -
  from assms(1) obtain dec tier item where r: "state_mapping st ''risk_decision'' = Inr dec"
      "state_item dec ''risk_tier'' = Inr tier" "(case tier of JStr t \<Rightarrow> tier_of t | _ \<Rightarrow> None) = Some (aq_tier q)"
      "parse_then (state_mapping st ''work_item'') parse_work_item = Inr item" "aq_envelope q = item_envelope item"
    by (auto simp: request_of_def parse_then_ok split: option.splits)
  from r(1,2) assms(3) have "tier = (case rd_tier d of None \<Rightarrow> JNull | Some t \<Rightarrow> JStr (tier_text t))"
    by (auto simp: holds_decision_def state_mapping_def state_item_def decision_payload_def)
  with r(3) have "(case rd_tier d of None \<Rightarrow> None | Some t \<Rightarrow> Some t) = Some (aq_tier q)"
    by (cases "rd_tier d") simp_all
  then show ?thesis using r(4,5) read_item [OF assms(2)] by (cases "rd_tier d") simp_all
qed

lemma node_requests:
  assumes "node (request_authorization_node port) st = Inr st'" "holds_item i st" "holds_decision d st"
  shows "\<exists>q r. rd_tier d = Some (aq_tier q) \<and> aq_envelope q = item_envelope i \<and> request_of st = Inr q
    \<and> port q = Inr r \<and> parse_then (authorization_result st') authorization_status_of = Inr (fst r)
    \<and> state_route st' = state_route st"
proof -
  from assms(1) obtain q r t where q: "request_of st = Inr q" "port q = Inr r"
      "st' = merge_state st [(''authorization_result'', JObj (authorization_payload r)), (''node_trace'', t)]"
    by (auto simp: node_ok request_authorization_node_def parse_then_ok dest!: traced)
  have "parse_then (authorization_result st') authorization_status_of = Inr (fst r)"
    by (simp add: q(3) authorization_result_def get_value_def authorization_payload_def
        authorization_status_of_def)
  moreover have "state_route st' = state_route st" by (rule same_route) (simp add: q(3))
  ultimately show ?thesis using q request_reads [OF q(1) assms(2,3)] by blast
qed

text \<open>An accepted workflow took the standard path, or its port authorised it.\<close>

lemma classification_accepted:
  assumes "after_classification port seam st = Inr st'" "accepted st'" "team_seam seam"
    "holds_item i st" "holds_decision d st"
  shows "rd_route d = StandardPath
    \<or> rd_route d = TrustAuthorizationRequired
      \<and> (\<exists>q reasons. rd_tier d = Some (aq_tier q) \<and> aq_envelope q = item_envelope i \<and> request_of st = Inr q
           \<and> port q = Inr (Authorized, reasons))"
proof (cases "rd_route d")
  case StandardPath
  then show ?thesis by simp
next
  case BlockedRoute
  then have "node acceptance_gate_node st = Inr st'"
    using assms(1,5) by (simp add: after_classification_def read_route)
  from gate_opens [OF this assms(2)] BlockedRoute show ?thesis by (simp add: read_route [OF assms(5)])
next
  case TrustAuthorizationRequired
  then obtain st1 where st1: "node (request_authorization_node port) st = Inr st1" "after_authorization seam st1 = Inr st'"
    using assms(1,5) by (auto simp: after_classification_def read_route parse_then_ok)
  from node_requests [OF this(1) assms(4,5)] obtain q r where q: "rd_tier d = Some (aq_tier q)"
      "aq_envelope q = item_envelope i" "request_of st = Inr q" "port q = Inr r"
      "parse_then (authorization_result st1) authorization_status_of = Inr (fst r)" "state_route st1 = state_route st"
    by blast
  have "fst r = Authorized"
  proof (rule ccontr)
    assume "fst r \<noteq> Authorized"
    with st1(2) q(5) have "node acceptance_gate_node st1 = Inr st'" by (simp add: after_authorization_def)
    from gate_opens [OF this assms(2)] q(5,6) TrustAuthorizationRequired \<open>fst r \<noteq> Authorized\<close> show False
      by (simp add: read_route [OF assms(5)])
  qed
  with q TrustAuthorizationRequired show ?thesis by (metis prod.collapse)
qed

lemma development_accepted:
  assumes "run_development e contract port seam st = Inr st'" "accepted st'" "team_seam seam"
  shows "\<exists>input i p. state_mapping st ''work_item_input'' = Inr input \<and> parse_work_item input = Inr i
    \<and> provide e contract = Inr p
    \<and> (rd_route (verdict p i) = StandardPath
       \<or> rd_route (verdict p i) = TrustAuthorizationRequired
         \<and> (\<exists>st1 q reasons. rd_tier (verdict p i) = Some (aq_tier q) \<and> aq_envelope q = item_envelope i
              \<and> request_of st1 = Inr q \<and> port q = Inr (Authorized, reasons)))"
proof -
  from assms(1) obtain st1 st2 st3 where s: "node (load_work_item_node e contract) st = Inr st1"
      "node load_planning_node st1 = Inr st2" "node (classify_risk_node e contract) st2 = Inr st3"
      "after_classification port seam st3 = Inr st'"
    by (auto simp: run_development_def parse_then_ok)
  from node_loads [OF s(1)] obtain input i where i: "state_mapping st ''work_item_input'' = Inr input"
      "parse_work_item input = Inr i" "holds_item i st1" by blast
  then have "holds_item i st2" using node_plans [OF s(2)] by (simp add: holds_item_def)
  from node_classifies [OF s(3) this] obtain d where d: "decided e contract i d" "holds_decision d st3" "holds_item i st3"
    by blast
  from classification_accepted [OF s(4) assms(2,3) d(3,2)] d(1) obtain p where "provide e contract = Inr p" "d = verdict p i"
    by (auto simp: decided_def)
  with i classification_accepted [OF s(4) assms(2,3) d(3,2)] show ?thesis by blast
qed

text \<open>The kernel never authorises a request that names no decision and no command.\<close>

lemma request_is_bare: "request_of st = Inr q \<Longrightarrow> aq_decision_id q = '''' \<and> aq_round_id q = '''' \<and> aq_command q = ''''"
  by (auto simp: request_of_def parse_then_ok split: option.splits)

lemma bare_request_refused: "aq_command q = '''' \<Longrightarrow> fst (kernel_authorize a q) \<noteq> Authorized"
  by (simp add: kernel_authorize_def)

section \<open>The highest tier\<close>

lemma max_tier_append:
  "max_tier (xs @ ys) = (case max_tier xs of None \<Rightarrow> max_tier ys
     | Some a \<Rightarrow> (case max_tier ys of None \<Rightarrow> Some a | Some b \<Rightarrow> Some (max a b)))"
  by (induction xs) (auto split: option.splits simp: max_def)

lemma max_tier_option [simp]: "max_tier (option_list (max_tier xs)) = max_tier xs"
  by (simp add: option_list_def split: option.split)

lemma max_tier_each: "max_tier (List.map_filter (\<lambda>x. max_tier (f x)) xs) = max_tier (concat (map f xs))"
  by (induction xs) (simp_all add: map_filter_simps max_tier_append split: option.split)

lemma max_tier_Max: "ts \<noteq> [] \<Longrightarrow> max_tier ts = Some (Max (set ts))"
proof (induction ts)
  case (Cons t ts)
  then show ?case by (cases "ts = []") (simp_all add: max_def order.strict_implies_order)
qed simp

text \<open>
  The tiers that bear on a work item: those of its operations, of the rules on them, and of the
  floors its paths fall under.
\<close>

definition known_operation :: "string \<Rightarrow> bool" where
  "known_operation op \<longleftrightarrow> (\<exists>t known. (t, known) \<in> set RISK_OPERATIONS \<and> op \<in> set known)"

definition applicable :: "risk_policy \<Rightarrow> work_item \<Rightarrow> risk_tier set" where
  "applicable p i =
     {t. \<exists>known op. (t, known) \<in> set RISK_OPERATIONS \<and> op \<in> set (clean_operations (wi_operations i)) \<and> op \<in> set known}
     \<union> {t. \<exists>op. (op, t) \<in> set (rp_rules p) \<and> op \<in> set (clean_operations (wi_operations i))}
     \<union> {t. \<exists>pat label path. (pat, label) \<in> set (rp_floor p) \<and> path \<in> set (wi_paths i)
            \<and> floor_matches (norm_path pat) (norm_path path) \<and> tier_of label = Some t}"

lemma known_ex: "list_ex (\<lambda>(_, known). op \<in> set known) RISK_OPERATIONS \<longleftrightarrow> known_operation op"
  by (auto simp: list_ex_iff known_operation_def)

lemma applicable_tiers:
  "set (operation_tiers (clean_operations (wi_operations i)) @ concat (map (path_tiers (rp_floor p)) (wi_paths i))
     @ map snd (filter (\<lambda>(op, _). op \<in> set (clean_operations (wi_operations i))) (rp_rules p))) = applicable p i"
proof -
  let ?ops = "clean_operations (wi_operations i)"
  have "t \<in> set (operation_tiers ?ops) \<longleftrightarrow>
      (\<exists>known op. (t, known) \<in> set RISK_OPERATIONS \<and> op \<in> set ?ops \<and> op \<in> set known)" for t
    by (force simp: operation_tiers_def list_ex_iff)
  moreover have "t \<in> set (map snd (filter (\<lambda>(op, _). op \<in> set ?ops) (rp_rules p))) \<longleftrightarrow>
      (\<exists>op. (op, t) \<in> set (rp_rules p) \<and> op \<in> set ?ops)" for t
    by force
  moreover have "t \<in> set (path_tiers es path) \<longleftrightarrow> (\<exists>pat label. (pat, label) \<in> set es
      \<and> floor_matches (norm_path pat) (norm_path path) \<and> tier_of label = Some t)" for t es path
    by (force simp: path_tiers_def map_filter_def split: if_splits)
  ultimately show ?thesis by (auto simp: applicable_def)
qed

lemma verdict_tier:
  assumes "clean_operations (wi_operations i) \<noteq> []" "\<And>op. op \<in> set (clean_operations (wi_operations i)) \<Longrightarrow> known_operation op"
  shows "rd_tier (verdict p i) = Some (Max (applicable p i))
    \<and> rd_route (verdict p i) = (if Max (applicable p i) \<le> R1 then StandardPath else TrustAuthorizationRequired)"
proof -
  let ?ops = "clean_operations (wi_operations i)"
  let ?ts = "operation_tiers ?ops @ concat (map (path_tiers (rp_floor p)) (wi_paths i))
     @ map snd (filter (\<lambda>(op, _). op \<in> set ?ops) (rp_rules p))"
  obtain op where "op \<in> set ?ops" using assms(1) by (cases ?ops) auto
  moreover from assms(2) [OF this] obtain t known where "(t, known) \<in> set RISK_OPERATIONS" "op \<in> set known"
    by (auto simp: known_operation_def)
  ultimately have "operation_tiers ?ops \<noteq> []"
    by (force simp: operation_tiers_def list_ex_iff filter_empty_conv)
  then have "max_tier ?ts = Some (Max (applicable p i))"
    using max_tier_Max [of ?ts] applicable_tiers [of i p] by simp
  moreover have "max_tier (operation_tiers ?ops @ option_list (path_risk (rp_floor p) (wi_paths i))
      @ option_list (capability_risk (rp_rules p) (wi_operations i))) = max_tier ?ts"
    by (simp add: max_tier_append path_risk_def capability_risk_def snapshot_risk_def [abs_def] max_tier_each
        cong: option.case_cong)
  moreover have "filter (\<lambda>op. \<not> list_ex (\<lambda>(_, known). op \<in> set known) RISK_OPERATIONS) ?ops = []"
    using assms(2) by (simp add: known_ex filter_empty_conv)
  moreover have "t \<in> {R0, R1} \<longleftrightarrow> t \<le> R1" for t by (cases t) (simp_all add: less_eq_risk_tier_def)
  ultimately show ?thesis
    using assms(1) by (simp add: verdict_def classify_risk_def item_envelope_def Let_def)
qed

lemma verdict_blocked:
  assumes "clean_operations (wi_operations i) = [] \<or> (\<exists>op \<in> set (clean_operations (wi_operations i)). \<not> known_operation op)"
  shows "rd_tier (verdict p i) = None \<and> rd_route (verdict p i) = BlockedRoute"
  using assms
  by (auto simp: verdict_def classify_risk_def item_envelope_def Let_def known_ex filter_empty_conv blocked_decision_def)

lemma verdict_open:
  assumes "rd_route (verdict p i) \<noteq> BlockedRoute"
  shows "list_all known_operation (clean_operations (wi_operations i))
    \<and> rd_tier (verdict p i) = Some (Max (applicable p i))
    \<and> rd_route (verdict p i) = (if Max (applicable p i) \<le> R1 then StandardPath else TrustAuthorizationRequired)"
proof -
  have known: "clean_operations (wi_operations i) \<noteq> []" "\<forall>op \<in> set (clean_operations (wi_operations i)). known_operation op"
    using verdict_blocked [of i p] assms by auto
  with verdict_tier [of i p] show ?thesis by (simp add: list_all_iff)
qed

section \<open>The checks of the transition gate\<close>

lemma fromkeys_Nil [simp]: "dict_fromkeys xs = [] \<longleftrightarrow> xs = []"
  by (cases xs) simp_all

lemma all_passed:
  assumes "gr_status (validate_transition a xs post) \<noteq> ''BLOCKED''"
  shows "list_all gc_passed (gate_checks a xs post)"
  using assms by (auto simp: validate_transition_def Let_def filter_empty_conv list_all_iff split: if_splits)

lemma none_of_passed [simp]: "gc_passed (none_of n l xs) \<longleftrightarrow> xs = []"
  by (simp add: none_of_def check_def)

lemma check_passed [simp]: "gc_passed (check n b d) \<longleftrightarrow> b"
  by (simp add: check_def)

text \<open>Every path that was changed is in scope, allowed and not a reference.\<close>

lemma passed_paths:
  assumes "gr_status (validate_transition a xs post) \<noteq> ''BLOCKED''" "p \<in> set (mutated_paths a xs)"
  shows "(\<exists>g \<in> set (allowed_scope a). path_matches p g)
    \<and> (\<forall>r \<in> set (ta_reference_paths a). \<not> path_matches p r)
    \<and> ((\<exists>m \<in> set (ta_runner_managed_paths a). path_matches p m)
       \<or> (\<forall>f \<in> set (ta_forbidden_paths a). \<not> path_matches p f))"
proof -
  let ?m = "mutated_paths a xs"
  have c: "list_all gc_passed (path_checks a xs (executed_envelopes post xs))"
    using all_passed [OF assms(1)] by (simp add: gate_checks_def)
  have "paths_within_scope ?m (allowed_scope a) = []" "reference_write_violations ?m (ta_reference_paths a) = []"
    "paths_in_forbidden (filter (\<lambda>p. \<not> list_ex (path_matches p) (ta_runner_managed_paths a)) ?m) (ta_forbidden_paths a) = []"
    using c by (simp_all add: path_checks_def Let_def)
  with assms(2) show ?thesis
    by (auto simp: paths_within_scope_def reference_write_violations_def paths_in_forbidden_def filter_empty_conv list_ex_iff)
qed

lemma passed_grants:
  assumes "gr_status (validate_transition a xs post) \<noteq> ''BLOCKED''"
  shows "path_grant_conflicts (writable_grants a) (ta_reference_paths a) = []"
proof -
  have "list_all gc_passed (path_checks a xs (executed_envelopes post xs))"
    using all_passed [OF assms] by (simp add: gate_checks_def)
  then show ?thesis by (simp add: path_checks_def Let_def)
qed

lemma no_grant_conflict:
  "path_grant_conflicts ws rs = [] \<Longrightarrow> w \<in> set ws \<Longrightarrow> r \<in> set rs \<Longrightarrow> \<not> patterns_may_intersect_text w r"
  by (auto simp: path_grant_conflicts_def filter_empty_conv)

text \<open>Every execution is of a declared command and had the outcome the plan expects.\<close>

definition as_declared :: "command_plan \<Rightarrow> envelope \<Rightarrow> transition_command \<Rightarrow> bool" where
  "as_declared plan x c \<longleftrightarrow> c \<in> set (cp_commands plan)
     \<and> canonical_command (tc_command c) = canonical_command (el_command x)
     \<and> tc_execution_surface c = el_execution_surface x
     \<and> (\<forall>code. el_exit_code x = Some code \<longrightarrow> tc_expected_exit_codes c = [] \<or> code \<in> set (tc_expected_exit_codes c))
     \<and> (tc_bootstrap_exception c \<or> set (tc_operations c) \<subseteq> set (el_operations x))"

lemma reconciled:
  assumes "reconcile_command plan x = []"
  shows "\<exists>c. as_declared plan x c"
proof (cases "find_matching_command plan x")
  case None
  with assms show ?thesis by (simp add: reconcile_command_def Let_def split: if_splits)
next
  case (Some c)
  then have "c \<in> set (cp_commands plan)" "canonical_command (tc_command c) = canonical_command (el_command x)"
    "tc_execution_surface c = el_execution_surface x"
    by (auto simp: find_matching_command_def find_Some_iff)
  with assms Some show ?thesis
    by (intro exI [of _ c]) (auto simp: as_declared_def reconcile_command_def Let_def filter_empty_conv
        split: if_splits option.splits)
qed

lemma passed_executions:
  assumes "gr_status (validate_transition a xs True) \<noteq> ''BLOCKED''"
  shows "xs \<noteq> []" "x \<in> set xs \<Longrightarrow> \<exists>c. as_declared (ta_command_plan a) x c"
    "required_coverage_missing (ta_command_plan a) xs = []"
    "unknown_operation_violations (ta_command_plan a) xs = []"
    "validate_mutation_grants (ta_command_plan a) xs = []"
proof -
  have c: "list_all gc_passed (post_checks a xs)"
    using all_passed [OF assms] by (simp add: gate_checks_def)
  show "required_coverage_missing (ta_command_plan a) xs = []"
    "unknown_operation_violations (ta_command_plan a) xs = []"
    using c by (simp_all add: post_checks_def Let_def split: prod.splits)
  have "list_all gc_passed (path_checks a xs xs)"
    using all_passed [OF assms] by (simp add: gate_checks_def executed_envelopes_def)
  then show "validate_mutation_grants (ta_command_plan a) xs = []"
    by (simp add: path_checks_def Let_def)
  obtain status missing reasons where r: "reconcile_executions (ta_command_plan a) xs = (status, missing, reasons)"
    by (rule prod_cases3)
  with c have s: "\<not> missing" "status \<noteq> ''BLOCKED''" by (simp_all add: post_checks_def Let_def)
  with r show "xs \<noteq> []" by (auto simp: reconcile_executions_def)
  with r s have "concat (map (reconcile_command (ta_command_plan a)) xs) = []"
    by (auto simp: reconcile_executions_def Let_def split: if_splits)
  then show "\<exists>c. as_declared (ta_command_plan a) x c" if "x \<in> set xs"
    using that by (intro reconciled) auto
qed

lemma covered:
  assumes "required_coverage_missing plan xs = []" "c \<in> set (cp_commands plan)" "tc_required c"
    "\<not> tc_diagnostic_only c" "tc_authority_origin c \<noteq> ''bootstrap_exception''"
    "tc_evidence_source c \<in> {''local_command_evidence'', ''repository_state_attestation''}"
  shows "\<exists>x \<in> set xs. el_command_id x = tc_command_id c \<and> el_execution_surface x = tc_execution_surface c
    \<and> canonical_command (el_command x) = canonical_command (tc_command c)"
proof -
  have "\<not> coverage_missing plan xs c"
    using assms(1-5) by (auto simp: required_coverage_missing_def filter_empty_conv)
  with assms(6) show ?thesis by (auto simp: coverage_missing_def Let_def observed_identity_def list_ex_iff)
qed

text \<open>Before an execution, only a network operation makes the gate look at the command.\<close>

lemma preflight_blind:
  assumes "\<not> list_ex (\<lambda>op. op \<in> set NETWORK_OPERATIONS) (el_operations x)" "el_exit_code x = None"
  shows "validate_transition a [x\<lparr>el_command := c\<rparr>] False = validate_transition a [x] False"
proof -
  have "capability_checks a [x\<lparr>el_command := c\<rparr>] = capability_checks a [x]"
    using assms(1) by (simp add: capability_checks_def envelope_network_violations_def map_filter_simps Let_def split: option.split)
  moreover have same: "mutated_paths a [x\<lparr>el_command := c\<rparr>] = mutated_paths a [x]" by (simp add: mutated_paths_def)
  then have "path_checks a [x\<lparr>el_command := c\<rparr>] [] = path_checks a [x] []"
    "floor_checks a [x\<lparr>el_command := c\<rparr>] = floor_checks a [x]"
    unfolding path_checks_def floor_checks_def same by simp_all
  ultimately show ?thesis
    using assms(2) by (simp add: validate_transition_def gate_checks_def executed_envelopes_def)
qed

end
