(* ===== verification/Authority_Properties.thy ===== *)
theory Authority_Properties
  imports Scenarios Authority_Laws
begin

text \<open>
  The properties of the authority side: what an accepted workflow is backed by, the tier of a
  work item, the round trip of a policy, what the transition gate establishes when it passes,
  and where the gate and its port fall short.
\<close>

section \<open>A contract and a work item for the witnesses\<close>

definition ap_env :: env where
  "ap_env = wenv 1 0"

definition ap_contract :: payload where
  "ap_contract =
     [(''decision_id'', JStr ''D1''), (''round_id'', JStr ''R1''),
      (''path_risk_floor'', JArr [JArr [JStr ''src/**'', JStr ''R1''], JArr [JStr ''**/secret/**'', JStr ''R3'']]),
      (''capability_risk_rules'', JArr [JArr [JStr ''commit'', JStr ''R2'']])]"

definition ap_input :: "string list \<Rightarrow> string list \<Rightarrow> payload" where
  "ap_input ops paths =
     [(''schema_version'', JInt 1), (''repository'', JStr ''o/r''), (''item_number'', JInt 7),
      (''immutable_observation_ref'', JStr ''abc''), (''title'', JStr ''A change''),
      (''acceptance_criteria'', json_texts [''it works'']),
      (''requested_operations'', json_texts ops), (''requested_paths'', json_texts paths)]"

definition ap_state :: "string list \<Rightarrow> string list \<Rightarrow> payload" where
  "ap_state ops paths = [(''work_item_input'', JObj (ap_input ops paths))]"

definition ap_policy :: risk_policy where
  "ap_policy =
     (case provide ap_env ap_contract of Inr p \<Rightarrow> p
      | Inl _ \<Rightarrow> \<lparr>rp_decision_id = '''', rp_round_id = '''', rp_floor = [], rp_rules = [], rp_digest = ''''\<rparr>)"

lemma ap_provided: "provide ap_env ap_contract = Inr ap_policy"
proof -
  have "case provide ap_env ap_contract of Inr _ \<Rightarrow> True | Inl _ \<Rightarrow> False" by code_simp
  then show ?thesis by (simp add: ap_policy_def split: sum.splits)
qed

text \<open>Whether a run ends accepted.\<close>

definition ap_accepted :: "port \<Rightarrow> payload \<Rightarrow> bool" where
  "ap_accepted port st =
     (case run_development ap_env ap_contract port (Some (team_execution_node (\<lambda>_. Inr (JObj [(''accepted'', JBool True)])))) st of
        Inr st' \<Rightarrow> accepted st' | _ \<Rightarrow> False)"

lemma ap_accepts: "ap_accepted port st \<Longrightarrow>
    \<exists>st' seam. run_development ap_env ap_contract port seam st = Inr st' \<and> accepted st' \<and> team_seam seam"
  unfolding ap_accepted_def team_seam_def by (auto split: sum.splits)

section \<open>The development workflow\<close>

text \<open>
  C21. The tier of a work item is the highest of all tiers that bear on it, and it alone decides
  the route. An item without operations or with an operation nobody knows is blocked and gets no
  tier. The code computes the tier as a maximum of maxima, one per source.
\<close>

theorem verdict_exact:
  "if clean_operations (wi_operations i) \<noteq> [] \<and> list_all known_operation (clean_operations (wi_operations i))
   then rd_tier (verdict p i) = Some (Max (applicable p i))
     \<and> rd_route (verdict p i) = (if Max (applicable p i) \<le> R1 then StandardPath else TrustAuthorizationRequired)
   else rd_tier (verdict p i) = None \<and> rd_route (verdict p i) = BlockedRoute"
proof (cases "clean_operations (wi_operations i) \<noteq> [] \<and> list_all known_operation (clean_operations (wi_operations i))")
  case True
  with verdict_tier [of i p] show ?thesis by (simp add: list_all_iff)
next
  case False
  with verdict_blocked [of i p] show ?thesis by (auto simp: list_all_iff)
qed

text \<open>
  C20. Work is accepted for execution only under the authorised policy, when all of its
  operations are known, and when either no tier that bears on it is above R1 or the port
  authorised a request for exactly this tier and these operations and paths. The initial state
  is the caller's, and may hold a decision, an authorisation or an acceptance already.
\<close>

theorem accepted_work_authorised:
  assumes "run_development e contract port seam st = Inr st'" "accepted st'" "team_seam seam"
  shows "\<exists>input i p. state_mapping st ''work_item_input'' = Inr input \<and> parse_work_item input = Inr i
    \<and> provide e contract = Inr p \<and> list_all known_operation (clean_operations (wi_operations i))
    \<and> (Max (applicable p i) \<le> R1
       \<or> (\<exists>q reasons. aq_tier q = Max (applicable p i) \<and> aq_envelope q = item_envelope i
            \<and> port q = Inr (Authorized, reasons)))"
proof -
  from development_accepted [OF assms] obtain input i p where r: "state_mapping st ''work_item_input'' = Inr input"
      "parse_work_item input = Inr i" "provide e contract = Inr p" "rd_route (verdict p i) \<noteq> BlockedRoute"
      "rd_route (verdict p i) = StandardPath \<or> (\<exists>q reasons. rd_tier (verdict p i) = Some (aq_tier q)
         \<and> aq_envelope q = item_envelope i \<and> port q = Inr (Authorized, reasons))"
    by fastforce
  with verdict_open [OF r(4)] have "Max (applicable p i) \<le> R1 \<or> (\<exists>q reasons. aq_tier q = Max (applicable p i)
      \<and> aq_envelope q = item_envelope i \<and> port q = Inr (Authorized, reasons))"
    by (auto split: if_splits)
  with r verdict_open [OF r(4)] show ?thesis by blast
qed

definition ap_yes :: port where
  "ap_yes q = Inr (Authorized, [])"

theorem accepted_work_authorised_witness:
  "\<exists>i p. list_all known_operation (clean_operations (wi_operations i))
     \<and> (Max (applicable p i) \<le> R1 \<or> (\<exists>q reasons. aq_tier q = Max (applicable p i) \<and> ap_yes q = Inr (Authorized, reasons)))"
proof -
  have "ap_accepted ap_yes (ap_state [''commit''] [''src/a.py''])" by code_simp
  from ap_accepts [OF this] obtain st' seam where "run_development ap_env ap_contract ap_yes seam
      (ap_state [''commit''] [''src/a.py'']) = Inr st'" "accepted st'" "team_seam seam" by blast
  from accepted_work_authorised [OF this] show ?thesis by blast
qed

text \<open>
  C25. With the transition kernel as its port, the workflow accepts no work above R1 at all: the
  request it makes names neither a decision nor a command, which the kernel requires.
\<close>

theorem kernel_accepts_no_risk:
  assumes "run_development e contract (\<lambda>q. Inr (kernel_authorize a q)) seam st = Inr st'" "accepted st'"
    "team_seam seam"
  shows "\<exists>input i p. state_mapping st ''work_item_input'' = Inr input \<and> parse_work_item input = Inr i
    \<and> provide e contract = Inr p \<and> Max (applicable p i) \<le> R1"
proof -
  have "fst (kernel_authorize a q) \<noteq> Authorized" if "request_of st1 = Inr q" for st1 q
    using that request_is_bare bare_request_refused by blast
  with development_accepted [OF assms] obtain input i p where r: "state_mapping st ''work_item_input'' = Inr input"
      "parse_work_item input = Inr i" "provide e contract = Inr p" "rd_route (verdict p i) = StandardPath"
    by fastforce
  with verdict_open [of p i] show ?thesis by (auto split: if_splits)
qed

text \<open>C24. A policy the provider hands out survives its payload and is verified, and no other is.\<close>

theorem policy_roundtrip:
  assumes "provide e contract = Inr p"
  shows "parse_policy e (policy_payload p) = Inr p \<and> (verify_policy e contract p' = Inr () \<longleftrightarrow> p' = p)"
proof
  from provided_clean [OF assms] show "parse_policy e (policy_payload p) = Inr p"
    by (simp add: parse_policy_def policy_payload_def check_schema_def field_text_def get_value_def
        floor_payload_def rules_payload_def parse_floor_def parse_rules_def clean_policy_def clean_text_def
        floor_entries_back [unfolded clean_text_def] rules_back [unfolded clean_text_def]
        flip: provided_digest [OF assms])
  show "verify_policy e contract p' = Inr () \<longleftrightarrow> p' = p"
    by (auto simp: verify_policy_def assms same_floor same_rules intro: risk_policy.equality)
qed

theorem policy_roundtrip_witness: "parse_policy ap_env (policy_payload ap_policy) = Inr ap_policy"
  using policy_roundtrip [OF ap_provided] by blast

section \<open>The transition gate\<close>

definition ap_command :: transition_command where
  "ap_command = \<lparr>tc_command = ''pytest -q'', tc_phase = ''test'', tc_required = True,
     tc_expected_exit_codes = [0], tc_execution_surface = ''ci_only'', tc_operations = [''unit_test''],
     tc_network_access = False, tc_diagnostic_only = False, tc_bootstrap_exception = False,
     tc_command_id = ''c1'', tc_evidence_source = ''local_command_evidence'',
     tc_authority_origin = '''', tc_produced_artifacts = [], tc_allowed_mutated_paths = [''src/*.py'']\<rparr>"

definition ap_authority :: transition_authority where
  "ap_authority = \<lparr>
     ta_decision = \<lparr>td_decision_id = ''D1'', td_round_id = ''R1'', td_status = ''APPROVED'',
       td_mainline = ''m'', td_skill_profiles = []\<rparr>,
     ta_command_plan = \<lparr>cp_decision_id = ''D1'', cp_round_id = ''R1'', cp_commands = [ap_command]\<rparr>,
     ta_expected_decision_id = ''D1'', ta_expected_round_id = ''R1'', ta_active_skills = [],
     ta_legal_mainlines = [''m''], ta_expected_branch = ''b'', ta_actual_branch = ''b'',
     ta_base_sha = ''s'', ta_merge_base_sha = ''s'', ta_decision_commit_sha = ''d'',
     ta_decision_is_ancestor = True, ta_observed_paths = [], ta_allowed_paths = [''src/**''],
     ta_forbidden_paths = [''.github/**''], ta_forbidden_operations = [''push''],
     ta_reference_paths = [''docs/**''], ta_capability_policy = None, ta_path_risk_floor = None,
     ta_authorized_risk_paths = [], ta_authorized_risk_tier = '''', ta_runner_managed_paths = [],
     ta_bootstrap_files = []\<rparr>"

definition ap_execution :: envelope where
  "ap_execution = \<lparr>el_command = ''pytest  -q'', el_execution_surface = ''ci_only'',
     el_mutated_paths = [''src/a.py''], el_operations = [''unit_test''], el_exit_code = Some 0,
     el_bootstrap_exception = False, el_command_id = ''c1''\<rparr>"

theorem kernel_accepts_no_risk_witness: "\<exists>i p. Max (applicable p i) \<le> R1 \<and> provide ap_env ap_contract = Inr p"
proof -
  have "ap_accepted (\<lambda>q. Inr (kernel_authorize ap_authority q)) (ap_state [''source_edit''] [''src/a.py''])" by code_simp
  from ap_accepts [OF this] obtain st' seam where "run_development ap_env ap_contract
      (\<lambda>q. Inr (kernel_authorize ap_authority q)) seam (ap_state [''source_edit''] [''src/a.py'']) = Inr st'"
      "accepted st'" "team_seam seam" by blast
  from kernel_accepts_no_risk [OF this] show ?thesis by blast
qed



text \<open>
  C23. A gate that passes has no path that both a grant to write and a read-only reference
  describe, segment by segment: the overlap test has no false negative in this reading.
\<close>

theorem grants_disjoint:
  assumes "gr_status (validate_transition a xs post) \<noteq> ''BLOCKED''"
    "w \<in> set (writable_grants a)" "r \<in> set (ta_reference_paths a)"
  shows "\<not> (segments_match (split_pattern_segments w) path \<and> segments_match (split_pattern_segments r) path)"
  using no_grant_conflict [OF passed_grants [OF assms(1)] assms(2,3)] overlap_found
  unfolding patterns_may_intersect_text_def by blast

theorem grants_disjoint_witness:
  "\<not> (segments_match (split_pattern_segments ''src/**'') [''src'', ''a''] \<and> segments_match (split_pattern_segments ''docs/**'') [''src'', ''a''])"
proof -
  have "gr_status (validate_transition ap_authority [ap_execution] True) \<noteq> ''BLOCKED''"
    "''src/**'' \<in> set (writable_grants ap_authority)" "''docs/**'' \<in> set (ta_reference_paths ap_authority)"
    by code_simp+
  from grants_disjoint [OF this] show ?thesis .
qed

text \<open>
  The gate itself matches paths differently: there a star crosses slashes. A grant on
  \<open>docs/*.md\<close> and a reference \<open>docs/a/b.md\<close> are reported disjoint, and the grant matches the
  reference.
\<close>

theorem overlap_missed:
  "path_grant_conflicts [''docs/*.md''] [''docs/a/b.md''] = [] \<and> path_matches ''docs/a/b.md'' ''docs/*.md''"
  by code_simp

text \<open>
  The scope test drops leading dots and slashes and resolves nothing: a path that climbs out
  of the repository is in scope wherever the rest of it is, and a climb in the middle is not seen.
\<close>

theorem climbing_ignored:
  "path_matches (''../'' @ p) pat = path_matches p pat \<and> path_matches ''src/../../etc/passwd'' ''src/**''"
proof
  have "norm_path (''../'' @ p) = norm_path p" by (simp add: norm_path_def slashes_def py_replace_char_def)
  then show "path_matches (''../'' @ p) pat = path_matches p pat" by (simp add: path_matches_def)
  show "path_matches ''src/../../etc/passwd'' ''src/**''" by code_simp
qed

text \<open>
  Two readings of one risk floor disagree: the transition kernel takes the first entry that
  matches, the classifier the highest.
\<close>

theorem floors_disagree:
  "floor_risk (rp_floor ap_policy) ''src/secret/k'' = Some ''R1''
   \<and> snapshot_risk (rp_floor ap_policy) ''src/secret/k'' = Some R3"
  by code_simp

text \<open>
  C26. The kernel authorises a request without looking at its command, unless an operation of the
  request is a network operation: any other command would get the same answer, declared in the
  plan or not.
\<close>

theorem kernel_ignores_command:
  assumes "c \<noteq> ''''" "d \<noteq> ''''" "\<not> list_ex (\<lambda>op. op \<in> set NETWORK_OPERATIONS) (xv_operations (aq_envelope q))"
  shows "kernel_authorize a (q\<lparr>aq_command := c\<rparr>) = kernel_authorize a (q\<lparr>aq_command := d\<rparr>)"
  using assms preflight_blind [of "\<lparr>el_command = d, el_execution_surface = ''local'',
      el_mutated_paths = xv_paths (aq_envelope q), el_operations = xv_operations (aq_envelope q),
      el_exit_code = None, el_bootstrap_exception = False, el_command_id = ''''\<rparr>" a c]
  by (simp add: kernel_authorize_def)

definition ap_request :: authorization_request where
  "ap_request = \<lparr>aq_identity = \<lparr>id_workflow_id = ''w'', id_work_item = ''i'', id_attempt = 1,
       id_decision_id = '''', id_round_id = '''', id_policy_digest = ''''\<rparr>,
     aq_tier = R2, aq_envelope = \<lparr>xv_operations = [''commit''], xv_paths = [''src/a.py''],
       xv_network_requested = False, xv_binary_requested = False\<rparr>,
     aq_decision_id = ''D1'', aq_round_id = ''R1'', aq_command = ''pytest -q''\<rparr>"

theorem kernel_ignores_command_witness:
  "kernel_authorize ap_authority (ap_request\<lparr>aq_command := ''rm -rf .''\<rparr>) = (Authorized, [])"
proof -
  have "\<not> list_ex (\<lambda>op. op \<in> set NETWORK_OPERATIONS) (xv_operations (aq_envelope ap_request))" by code_simp
  moreover have "kernel_authorize ap_authority (ap_request\<lparr>aq_command := ''pytest -q''\<rparr>) = (Authorized, [])" by code_simp
  ultimately show ?thesis
    using kernel_ignores_command [of "''rm -rf .''" "''pytest -q''" ap_request ap_authority] by simp
qed

text \<open>
  An execution that never reported an exit code is reconciled as if it had succeeded: the
  exit code is compared only when there is one, and the coverage of a required command counts
  its record all the same.
\<close>

theorem unfinished_execution_reconciled:
  "gr_status (validate_transition ap_authority [ap_execution\<lparr>el_exit_code := None\<rparr>] True) = ''POST_EXECUTION_RECONCILED''"
  by code_simp

end
