(* ===== verification/Spec2Isabelle.thy ===== *)
theory Spec2Isabelle
  imports Run_Properties Reconciliation Task_Properties Window_Properties Goal_Properties
    Record_Properties Planning_Properties Batch_Properties Autonomy_Properties
    Durable_Properties Publication_Properties Team_Properties Durable_Team_Properties
    Authority_Properties
begin

text \<open>
  Verification of the control plane of Reverse Agent (\<open>src/reverse_agent/platform_v1\<close>).

  \<^bold>\<open>The program.\<close> A local host runs software tasks for one owner. Two SQLite stores
  share one database file: \<open>TaskStore\<close> (run_store.py) keeps tasks, their events and evidence,
  the durable runs with leases and checkpoints, and usage observations;
  \<open>PlatformControlStore\<close> (control_store.py) keeps goals and plans, autonomous windows with
  budgets, the claims coordinators take on tasks, publications, inbox and roadmap records.
  \<open>GoalService\<close> (goal_service.py) turns a request into a plan and launches it as tasks;
  \<open>AutonomyService\<close> (autonomy.py) activates windows from a policy and authorises each
  operation; \<open>UnattendedCoordinator\<close> (unattended_coordinator.py) claims runnable tasks of the
  active window, has \<open>TaskExecutionService\<close> (task_execution.py) run them through the team
  graph (team_graph.py), and settles the claims. \<open>DurableExecutionService\<close>
  (durable_execution.py) runs a task under a lease with checkpoints, so that another process can
  take it over; \<open>PublicationController\<close> (publication_controller.py) turns the worktree of a task
  in review into a draft pull request. \<open>TaskExecutionService.execute_sequential_team\<close> has a
  planner, a coder and a reviewer work on a task one after another in one worktree.

  Beside the platform, the authority side decides what may be done at all: the development
  workflow (workflows/development_graph.py and its nodes) classifies the risk of a work item
  under the authorised policy (architecture/), asks the trust port (trust/authorization.py) for
  what is risky, and passes an acceptance gate; the transition kernel (control_plane/) checks a
  decision, its command plan and the observed executions, and backs the port.

  \<^bold>\<open>The model.\<close> The state is one record \<open>db\<close> with a list of rows for each table, in
  insertion order (\<open>Store_Schema\<close>). A store method is a function that takes the readings it
  makes of its environment (\<open>env\<close>: clock, random identifiers, hash) and the database, and
  returns an error or a value together with the database afterwards; a transaction that raises
  returns the database it began with, as SQLite rolls it back. A service works on both stores
  and its environment; the readings of its successive calls are kept apart by the offset
  \<open>later\<close>.

  \<^item> \<open>Prelude\<close>: strings, readings, errors, statements on tables, transactions.
  \<^item> \<open>Json\<close>: \<open>canonical_json\<close>, digests, \<open>_reject_sensitive_keys\<close>; \<open>Py_Values\<close>: Python's
    operations on a value that is not validated yet.
  \<^item> \<open>Store_Schema\<close>, \<open>Task_Lifecycle\<close>, \<open>Durable_Runs\<close>, \<open>Fenced_Ops\<close>, \<open>Usage\<close>: run_store.py.
  \<^item> \<open>Goals\<close>, \<open>Windows\<close>, \<open>Control_Records\<close>: control_store.py, inbox_service.py, roadmap.py.
  \<^item> \<open>Goal_Planning\<close>: goal_service.py; \<open>Autonomy\<close>: autonomy.py, capability_registry.py;
    \<open>Task_Execution\<close>: task_execution.py and the fixture executor of task_runtime.py;
    \<open>Coordinator\<close>: unattended_coordinator.py, the nodes of team_graph.py.
  \<^item> \<open>Guests\<close>, \<open>Durable_Single\<close>: durable_execution.py for tasks of mode single. An executor
    reaches the store only through a facade, so it is a tree of facade calls whose next call may
    depend on every answer; the properties hold for every such tree.
  \<^item> \<open>Publication\<close>: publication_controller.py. The answer of the command runner may depend on
    all commands before, so the model carries their log.
  \<^item> \<open>Worktree\<close>: the readings of a worktree and the handover notes (opencode_executor.py), the
    validation runner (task_runtime.py), over an abstract file system; \<open>Team_Execution\<close>: the
    sequential team (task_execution.py, workflows/team_graph.py), whose executor is an argument.
  \<^item> \<open>Durable_Team\<close>: the sequential team of durable_execution.py, which runs one role at a time
    under a lease and accepts a checkpoint after each, and its resumption from every checkpoint.
    The roles are given the store itself, so a role may do anything to the database. What the
    LangGraph checkpointer keeps for a thread is an argument.
  \<^item> \<open>Path_Patterns\<close>: the path patterns of control_plane/transition.py and models.py;
    \<open>Risk\<close>: contracts.py, risk.py, risk_classifier.py and policy_provider.py of architecture/;
    \<open>Transition\<close>: the transition kernel of control_plane/; \<open>Development_Flow\<close>: the workflow and
    the port. The state of the workflow is a dictionary, so a caller may supply any key.

  \<^bold>\<open>The lemmas.\<close>
  \<^item> \<open>Evolution\<close>, \<open>Evolution_Rules\<close>, \<open>Store_Laws\<close>, \<open>Run_Laws\<close>, \<open>Control_Laws\<close>: one locale of
    tables whose rows only move along an order and are never deleted, interpreted on every
    table; every store operation is lawful, that is, keeps the keys of the schema and moves rows
    along their orders. \<open>Operations\<close> collects the calls as values and defines the transition
    system \<open>db_step\<close> that the safety properties speak of; \<open>Frames\<close> says which tables an
    operation leaves alone.
  \<^item> \<open>Lease_Fencing\<close> states fencing by owner and epoch once, and interprets it on the lease of
    a durable run and on the claim of a coordinator.
  \<^item> \<open>Checkpoint_History\<close>, \<open>Budget_Invariant\<close>, \<open>Claim_Backing\<close>: the invariants of checkpoints,
    budgets and active claims over every reachable database; \<open>Usage_Summary\<close>: the one-pass
    summary against sums over the observations.
  \<^item> \<open>Plan_Laws\<close>: the cycle search of a plan against acyclicity of its dependency relation;
    \<open>Launch_Laws\<close>: what a launch writes.
  \<^item> \<open>Execution_Laws\<close>: a locale of relations that every statement on one task respects, with
    interpretations that confine an execution to its task and show that it ends;
    \<open>Service_Steps\<close>: each service is a sequence of store calls; \<open>Batch_Laws\<close>, \<open>Tick_Laws\<close>: the
    claims of a tick from claiming to settlement.
  \<^item> \<open>Durable_Laws\<close>: a locale of relations that fenced calls about one task respect, under which
    every phase of a durable run lies, with interpretations for the transition system, for the
    rows of other tasks and for the holder of the lease; \<open>Publication_Laws\<close>: the same for the
    commands and records of a publication.
  \<^item> \<open>Progress_Rules\<close>, \<open>Team_Laws\<close>: rules for programs that always return, applied to every
    branch of a sequential team; what a team that succeeds has been through.
    \<open>Durable_Team_Laws\<close>: the same for each role of a durable team, for the loop over the roles
    that are left, and for a resumption with the checks before it.
  \<^item> \<open>Pattern_Laws\<close>: the overlap test of patterns against the segments they stand for;
    \<open>Authority_Laws\<close>: round trips of the contracts, the tier as a maximum, the dictionary after
    each node, what each check of the gate establishes.
  \<^item> \<open>Scenarios\<close>, \<open>Service_Scenarios\<close>, \<open>Batch_Scenarios\<close>, \<open>Durable_Scenarios\<close>: concrete databases for the witnesses.
  \<^item> \<open>Run_Properties\<close>, \<open>Reconciliation\<close>, \<open>Task_Properties\<close>, \<open>Window_Properties\<close>,
    \<open>Goal_Properties\<close>, \<open>Record_Properties\<close>, \<open>Planning_Properties\<close>, \<open>Batch_Properties\<close>,
    \<open>Autonomy_Properties\<close>, \<open>Durable_Properties\<close>, \<open>Publication_Properties\<close>,
    \<open>Team_Properties\<close>, \<open>Durable_Team_Properties\<close>, \<open>Authority_Properties\<close>: the properties, each with a witness where it has a hypothesis.

  \<^bold>\<open>Termination.\<close> No definition uses fuel. Loops of the code run over finite lists and are
  structural recursions; the depth-first search of the plan check recurses under the measure
  of tasks not yet visited, as the code's \<open>visiting\<close> and \<open>visited\<close> sets bound it; a glob is
  parsed under the measure of its remaining text.

  \<^bold>\<open>Parameters.\<close> Code outside the repository is an argument: the hash behind digests, the
  parsing and arithmetic of timestamps, the capability manifests on disk, the git host, the
  compiled graph, the executors behind the facade and of the roles, the command runner, the file
  system and git in a worktree, the authorisation port. Hypotheses about them say what their documentation says.

  \<^bold>\<open>Not modelled.\<close> Statements issued outside a transaction commit one by one; between them
  another process may write. The model interleaves whole calls, not such statements.
  The workers of one batch run in the order of their assignment. Text is made of characters
  below 256. The thread that calls \<open>tick\<close> (start, stop, waiting), the heartbeat thread of a durable run after its first round, the process,
  git and HTTP adapters, the loaders that read decisions, plans and logs from disk, and the
  research strategies are left out: they are dominated by I/O.
\<close>

end
